(* ===== verification/Py_Prelude.thy ===== *)
theory Py_Prelude
  imports Main "HOL-Library.List_Lexorder" "HOL-Library.Word" "HOL-Library.Multiset"
begin

text \<open>
  The vocabulary every other theory of this development uses: Python strings, bytes and values,
  exceptions as values, the result monad in which the translated functions are written, and the
  generic lemmas (binding, traversal, dictionaries, sorting by key) the component proofs share.

  \<^item> A Python \<open>str\<close> is the list of its code points (\<open>pystr\<close>); \<open>str ''abc''\<close> writes a literal.
    The order on \<open>pystr\<close> is Python's order on strings: lexicographic by code point.
  \<^item> A Python \<open>bytes\<close> object is a list of 8-bit words.
  \<^item> A value of unknown type (\<open>Any\<close>) is a \<open>py\<close>. A dictionary is its list of items in insertion
    order; \<open>wf_py\<close> says that the keys of every dictionary in a value are distinct, which Python
    guarantees. Dictionaries reach the modelled code from \<open>json.loads\<close> or from a \<open>to_dict\<close>
    method, so their keys are strings. A value of any other type (float, bytes, tuple, object)
    is \<open>POther\<close>: the code only ever asks for its type.
  \<^item> An exception is a value of \<open>exn\<close>; a function that may raise returns \<open>exn + 'a\<close>. An exception of a class
    the program does not name is \<open>OtherError\<close>. \<open>Interrupted\<close> stands for what no \<open>except Exception\<close>
    catches: an interrupt, an exit, or the end of the process.
\<close>

named_theorems accepts "exact characterisations of when a validator accepts its input"
named_theorems limits "the numeric constants of the program"

section \<open>Types\<close>

type_synonym pystr = "nat list"
type_synonym byte = "8 word"
type_synonym bytes = "byte list"

definition str :: "string \<Rightarrow> pystr" where
  "str s = map of_char s"

datatype py =
    PNone
  | PBool bool
  | PInt int
  | PStr pystr
  | PList "py list"
  | PDict "(pystr \<times> py) list"
  | POther

datatype exn =
    FrameRejected string
  | SchemaRejected string
  | AuthorityRejected string
  | PermitRejected string
  | ControlJournalError string
  | ControlJournalCorrupt string
  | ControlJournalRejected string
  | ControlRuntimeError string
  | KeyStoreError string
  | ReceiptAnchorStoreError string
  | AuthorityRotationAnchorStoreError string
  | SimulatedControlCrash string
  | EffectLedgerError string
  | EffectLedgerCorrupt string
  | InvalidEffectTransition string
  | StaleFencingToken string
  | InvocationReplayConflict string
  | EffectLeaseError string
  | EffectLeaseBusy string
  | EffectLeaseStateError string
  | EventTooLargeError string
  | OSError string
  | ValueError string
  | KeyError string
  | TypeError
  | UnicodeError
  | JSONDecodeError
  | RecursionError
  | OtherError string
  | Interrupted

section \<open>The result monad\<close>

definition rbind :: "exn + 'a \<Rightarrow> ('a \<Rightarrow> exn + 'b) \<Rightarrow> exn + 'b" where
  "rbind m f = (case m of Inl e \<Rightarrow> Inl e | Inr x \<Rightarrow> f x)"

definition require :: "bool \<Rightarrow> exn \<Rightarrow> exn + unit" where
  "require c e = (if c then Inr () else Inl e)"

fun traverse :: "('a \<Rightarrow> exn + 'b) \<Rightarrow> 'a list \<Rightarrow> exn + 'b list" where
  "traverse f [] = Inr []"
| "traverse f (x # xs) = rbind (f x) (\<lambda>y. rbind (traverse f xs) (\<lambda>ys. Inr (y # ys)))"

lemma rbind_simps [simp]:
  "rbind (Inl e) f = Inl e"
  "rbind (Inr x) f = f x"
  by (simp_all add: rbind_def)

lemma rbind_Inr_iff [accepts]:
  "rbind m f = Inr y \<longleftrightarrow> (\<exists>x. m = Inr x \<and> f x = Inr y)"
  by (cases m) auto

lemma rbind_InrE [elim!]:
  assumes "rbind m f = Inr y"
  obtains x where "m = Inr x" and "f x = Inr y"
  using assms by (cases m) auto

lemma rbind_eq_Inl_iff: "rbind m f = Inl e \<longleftrightarrow> m = Inl e \<or> (\<exists>x. m = Inr x \<and> f x = Inl e)"
  by (cases m) auto

lemma rbind_cong [fundef_cong]:
  "m = m' \<Longrightarrow> (\<And>x. m' = Inr x \<Longrightarrow> f x = g x) \<Longrightarrow> rbind m f = rbind m' g"
  by (cases m') auto

lemma rbind_assoc: "rbind (rbind m f) g = rbind m (\<lambda>x. rbind (f x) g)"
  by (cases m) auto

lemma require_simps [simp]:
  "require True e = Inr ()"
  "require False e = Inl e"
  by (simp_all add: require_def)

lemma require_Inr_iff [accepts]: "require c e = Inr u \<longleftrightarrow> c"
  by (simp add: require_def)

lemma require_eq_Inl_iff: "require c e = Inl e' \<longleftrightarrow> \<not> c \<and> e' = e"
  by (auto simp add: require_def)

lemma traverse_Inr_iff:
  "traverse f xs = Inr ys \<longleftrightarrow> list_all2 (\<lambda>x y. f x = Inr y) xs ys"
proof (induction xs arbitrary: ys)
  case Nil
  then show ?case by auto
next
  case (Cons x xs)
  then show ?case
    by (cases ys) (auto simp add: accepts)
qed

lemma traverse_map_Inr:
  "(\<And>x. x \<in> set xs \<Longrightarrow> f (g x) = Inr (h x)) \<Longrightarrow> traverse f (map g xs) = Inr (map h xs)"
  by (induction xs) auto

lemma traverse_cong [fundef_cong]:
  "xs = ys \<Longrightarrow> (\<And>x. x \<in> set ys \<Longrightarrow> f x = g x) \<Longrightarrow> traverse f xs = traverse g ys"
proof (induction xs arbitrary: ys)
  case Nil
  then show ?case by simp
next
  case (Cons x xs)
  then show ?case
    by (metis list.set_intros traverse.simps(2))
qed

section \<open>Strings and bytes\<close>

lemma str_inject [simp]: "str a = str b \<longleftrightarrow> a = b"
  by (simp add: str_def inj_map_eq_map inj_def)

lemma str_comp_inj [simp]: "inj str"
  by (simp add: inj_def)

lemma length_str [simp]: "length (str s) = length s"
  by (simp add: str_def)

lemma str_lt_256: "c \<in> set (str s) \<Longrightarrow> c < 256"
  by (auto simp add: str_def)

definition byte :: "nat \<Rightarrow> byte" where
  "byte n = word_of_nat n"

lemma unat_byte: "unat (byte n) = n mod 256"
  by (simp add: byte_def unat_of_nat)

lemma unat_byte_small [simp]: "n < 256 \<Longrightarrow> unat (byte n) = n"
  by (simp add: unat_byte)

lemma byte_unat [simp]: "byte (unat b) = b"
  by (simp add: byte_def)

lemma unat_byte_lt [simp]: "unat (b :: byte) < 256"
  using unsigned_less [of b] by simp

section \<open>Dictionaries\<close>

fun wf_py :: "py \<Rightarrow> bool" where
  "wf_py (PList xs) = list_all wf_py xs"
| "wf_py (PDict kvs) = (distinct (map fst kvs) \<and> list_all (\<lambda>kv. wf_py (snd kv)) kvs)"
| "wf_py _ = True"

definition dict_get :: "(pystr \<times> py) list \<Rightarrow> string \<Rightarrow> exn + py" where
  "dict_get row k = (case map_of row (str k) of None \<Rightarrow> Inl (KeyError k) | Some v \<Rightarrow> Inr v)"

definition field :: "(pystr \<times> py) list \<Rightarrow> string \<Rightarrow> (py \<Rightarrow> exn + 'a) \<Rightarrow> exn + 'a" where
  "field row k validate = rbind (dict_get row k) validate"

lemma dict_get_Cons [simp]:
  "dict_get ((str k', v) # row) k = (if k = k' then Inr v else dict_get row k)"
  by (simp add: dict_get_def)

lemma dict_get_Nil [simp]: "dict_get [] k = Inl (KeyError k)"
  by (simp add: dict_get_def)

lemma dict_get_Inr_iff: "dict_get row k = Inr v \<longleftrightarrow> map_of row (str k) = Some v"
  by (simp add: dict_get_def split: option.splits)

lemma field_Inr_iff [accepts]:
  "field row k f = Inr x \<longleftrightarrow> (\<exists>v. dict_get row k = Inr v \<and> f v = Inr x)"
  by (simp add: field_def accepts)

lemma field_simps_Cons [simp]:
  "field ((str k', v) # row) k f = (if k = k' then f v else field row k f)"
  by (simp add: field_def)

lemma field_InrI: "dict_get row k = Inr v \<Longrightarrow> field row k f = f v"
  by (simp add: field_def)

section \<open>Sorting by key\<close>

text \<open>\<open>psort v\<close> is the value \<open>v\<close> with every dictionary in it listed in key order: two values of
  the same types are equal in Python exactly when they have the same \<open>psort\<close>.\<close>

fun psort :: "py \<Rightarrow> py" where
  "psort (PList xs) = PList (map psort xs)"
| "psort (PDict kvs) = PDict (sort_key fst (map (\<lambda>kv. (fst kv, psort (snd kv))) kvs))"
| "psort v = v"

lemma sort_key_empty [simp]: "sort_key f xs = [] \<longleftrightarrow> xs = []"
  by (metis length_0_conv length_sort)

lemma map_of_sort_key:
  assumes "distinct (map fst kvs)"
  shows "map_of (sort_key fst kvs) = map_of kvs"
proof (rule map_of_inject_set [THEN iffD2])
  have "mset (map fst (sort_key fst kvs)) = mset (map fst kvs)"
    by simp
  then show "distinct (map fst (sort_key fst kvs))"
    using assms mset_eq_imp_distinct_iff by blast
  show "distinct (map fst kvs)" by (rule assms)
  show "set (sort_key fst kvs) = set kvs" by simp
qed

lemma map_of_map_snd: "map_of (map (\<lambda>kv. (fst kv, g (snd kv))) kvs) k = map_option g (map_of kvs k)"
  by (induction kvs) auto

end
