(* ===== verification/Py_Text.thy ===== *)
theory Py_Text
  imports Py_Prelude
begin

text \<open>
  The text codecs of the Python standard library that the program calls: strict UTF-8
  (\<open>str.encode\<close>, \<open>bytes.decode\<close>), decimal integers (\<open>int.__repr__\<close>, \<open>int(text)\<close>) and lower-case
  hexadecimal (\<open>bytes.hex\<close>), with their round trips.
\<close>

section \<open>UTF-8\<close>

definition surrogate :: "nat \<Rightarrow> bool" where
  "surrogate c \<longleftrightarrow> 55296 \<le> c \<and> c \<le> 57343"

definition scalar :: "nat \<Rightarrow> bool" where
  "scalar c \<longleftrightarrow> c < 1114112 \<and> \<not> surrogate c"

definition utf8_char :: "nat \<Rightarrow> bytes" where
  "utf8_char c =
    (if c < 128 then [byte c]
     else if c < 2048 then [byte (192 + c div 64), byte (128 + c mod 64)]
     else if c < 65536 then
       [byte (224 + c div 4096), byte (128 + c div 64 mod 64), byte (128 + c mod 64)]
     else [byte (240 + c div 262144), byte (128 + c div 4096 mod 64),
           byte (128 + c div 64 mod 64), byte (128 + c mod 64)])"

definition utf8_encode :: "pystr \<Rightarrow> bytes option" where
  "utf8_encode s = (if list_all scalar s then Some (concat (map utf8_char s)) else None)"

definition continuation :: "byte \<Rightarrow> bool" where
  "continuation b \<longleftrightarrow> 128 \<le> unat b \<and> unat b < 192"

text \<open>The decoder reads the length from the lead byte, wants continuation bytes after it, and
  refuses an overlong form, a surrogate and a value above \<open>0x10FFFF\<close>.\<close>

fun utf8_decode :: "bytes \<Rightarrow> pystr option" where
  "utf8_decode [] = Some []"
| "utf8_decode (b # bs) =
    (let n = unat b in
     if n < 128 then map_option (Cons n) (utf8_decode bs)
     else if 192 \<le> n \<and> n < 224 then
       (case bs of
          b1 # rest \<Rightarrow>
            (let c = (n - 192) * 64 + (unat b1 - 128) in
             if continuation b1 \<and> 128 \<le> c then map_option (Cons c) (utf8_decode rest)
             else None)
        | _ \<Rightarrow> None)
     else if 224 \<le> n \<and> n < 240 then
       (case bs of
          b1 # b2 # rest \<Rightarrow>
            (let c = (n - 224) * 4096 + (unat b1 - 128) * 64 + (unat b2 - 128) in
             if continuation b1 \<and> continuation b2 \<and> 2048 \<le> c \<and> scalar c
             then map_option (Cons c) (utf8_decode rest) else None)
        | _ \<Rightarrow> None)
     else if 240 \<le> n \<and> n < 248 then
       (case bs of
          b1 # b2 # b3 # rest \<Rightarrow>
            (let c = (n - 240) * 262144 + (unat b1 - 128) * 4096 + (unat b2 - 128) * 64
                       + (unat b3 - 128) in
             if continuation b1 \<and> continuation b2 \<and> continuation b3 \<and> 65536 \<le> c \<and> scalar c
             then map_option (Cons c) (utf8_decode rest) else None)
        | _ \<Rightarrow> None)
     else None)"

declare utf8_decode.simps(2) [simp del]

lemma div_64_parts:
  "(c::nat) div 4096 * 4096 + c div 64 mod 64 * 64 + c mod 64 = c"
  "(c::nat) div 262144 * 262144 + c div 4096 mod 64 * 4096 + c div 64 mod 64 * 64 + c mod 64 = c"
proof -
  have a: "c div 64 * 64 + c mod 64 = c" by simp
  have b: "c div 4096 * 64 + c div 64 mod 64 = c div 64"
    using div_mult_mod_eq [of "c div 64" 64] by (simp add: div_mult2_eq [symmetric])
  have d: "c div 262144 * 64 + c div 4096 mod 64 = c div 4096"
    using div_mult_mod_eq [of "c div 4096" 64] by (simp add: div_mult2_eq [symmetric])
  show "c div 4096 * 4096 + c div 64 mod 64 * 64 + c mod 64 = c"
    using a b by linarith
  show "c div 262144 * 262144 + c div 4096 mod 64 * 4096 + c div 64 mod 64 * 64 + c mod 64 = c"
    using a b d by linarith
qed

lemma continuation_byte [simp]: "continuation (byte (128 + c mod 64))"
proof -
  have "c mod 64 < 64" by simp
  then show ?thesis by (simp add: continuation_def)
qed

lemma unat_continuation [simp]: "unat (byte (128 + c mod 64)) = 128 + c mod 64"
proof -
  have "c mod 64 < 64" by simp
  then show ?thesis by (intro unat_byte_small) linarith
qed

lemma utf8_decode_char:
  assumes "scalar c"
  shows "utf8_decode (utf8_char c @ bs) = map_option (Cons c) (utf8_decode bs)"
proof -
  consider (one) "c < 128" | (two) "128 \<le> c" "c < 2048" | (three) "2048 \<le> c" "c < 65536"
    | (four) "65536 \<le> c" "c < 1114112"
    using assms by (force simp: scalar_def)
  then show ?thesis
  proof cases
    case one
    then show ?thesis by (simp add: utf8_char_def utf8_decode.simps)
  next
    case two
    then have "unat (byte (192 + c div 64)) = 192 + c div 64" "c div 64 < 32"
      by (auto simp add: less_mult_imp_div_less)
    with two show ?thesis
      by (simp add: utf8_char_def utf8_decode.simps)
  next
    case three
    then have lead: "unat (byte (224 + c div 4096)) = 224 + c div 4096" "c div 4096 < 16"
      by (auto simp add: less_mult_imp_div_less)
    have "c div 4096 * 4096 + c div 64 mod 64 * 64 + c mod 64 = c"
      by (rule div_64_parts)
    with three lead assms show ?thesis
      by (simp add: utf8_char_def utf8_decode.simps Let_def)
  next
    case four
    then have lead: "unat (byte (240 + c div 262144)) = 240 + c div 262144" "c div 262144 < 8"
      by (auto simp add: less_mult_imp_div_less)
    have "c div 262144 * 262144 + c div 4096 mod 64 * 4096 + c div 64 mod 64 * 64 + c mod 64 = c"
      by (rule div_64_parts)
    with four lead assms show ?thesis
      by (simp add: utf8_char_def utf8_decode.simps Let_def)
  qed
qed

lemma utf8_decode_encode:
  "utf8_encode s = Some bs \<Longrightarrow> utf8_decode bs = Some s"
proof (induction s arbitrary: bs)
  case Nil
  then show ?case by (simp add: utf8_encode_def)
next
  case (Cons c s)
  then show ?case
    by (auto simp add: utf8_encode_def utf8_decode_char split: if_splits)
qed

lemma utf8_encode_inject:
  "utf8_encode s = Some bs \<Longrightarrow> utf8_encode t = Some bs \<Longrightarrow> s = t"
  by (metis option.inject utf8_decode_encode)

lemma utf8_encode_append:
  "utf8_encode s = Some a \<Longrightarrow> utf8_encode t = Some b \<Longrightarrow> utf8_encode (s @ t) = Some (a @ b)"
  by (auto simp add: utf8_encode_def split: if_splits)

lemma utf8_char_nonempty: "utf8_char c \<noteq> []"
  by (simp add: utf8_char_def)

lemma utf8_encode_ascii: "list_all (\<lambda>c. c < 128) s \<Longrightarrow> utf8_encode s = Some (map byte s)"
proof (induction s)
  case Nil
  then show ?case by (simp add: utf8_encode_def)
next
  case (Cons c s)
  then show ?case
    by (auto simp add: utf8_encode_def utf8_char_def scalar_def surrogate_def split: if_splits)
qed

section \<open>Decimal integers\<close>

fun decimal :: "nat \<Rightarrow> pystr" where
  "decimal n = (if n < 10 then [48 + n] else decimal (n div 10) @ [48 + n mod 10])"

declare decimal.simps [simp del]

definition int_repr :: "int \<Rightarrow> pystr" where
  "int_repr i = (if i < 0 then 45 # decimal (nat (- i)) else decimal (nat i))"

definition digit :: "nat \<Rightarrow> bool" where
  "digit c \<longleftrightarrow> 48 \<le> c \<and> c \<le> 57"

definition undecimal :: "pystr \<Rightarrow> nat" where
  "undecimal s = foldl (\<lambda>a c. 10 * a + (c - 48)) 0 s"

text \<open>\<open>int(raw)\<close> on a text the JSON number pattern has matched: an optional minus sign and digits.\<close>

definition int_of_text :: "pystr \<Rightarrow> int" where
  "int_of_text s = (case s of [] \<Rightarrow> 0
     | c # cs \<Rightarrow> if c = 45 then - int (undecimal cs) else int (undecimal s))"

lemma undecimal_decimal [simp]: "undecimal (decimal n) = n"
proof (induction n rule: decimal.induct)
  case (1 n)
  then show ?case
    by (subst decimal.simps) (auto simp add: undecimal_def)
qed

lemma decimal_digits: "list_all digit (decimal n)"
proof (induction n rule: decimal.induct)
  case (1 n)
  have "digit (48 + n mod 10)" and "n < 10 \<Longrightarrow> digit (48 + n)"
    by (simp_all add: digit_def)
  with 1 show ?case
    by (subst decimal.simps) simp
qed

lemma decimal_nonempty [simp]: "decimal n \<noteq> []"
  by (subst decimal.simps) simp

lemma hd_decimal: "hd (decimal n) = 48 \<longleftrightarrow> n = 0"
proof (induction n rule: decimal.induct)
  case (1 n)
  then show ?case
    by (subst decimal.simps) auto
qed

lemma decimal_0: "decimal 0 = [48]"
  by (subst decimal.simps) simp

lemma length_decimal: "n < 10 ^ k \<Longrightarrow> 0 < k \<Longrightarrow> length (decimal n) \<le> k"
proof (induction n arbitrary: k rule: decimal.induct)
  case (1 n)
  show ?case
  proof (cases "n < 10")
    case True
    with 1 show ?thesis by (subst decimal.simps) simp
  next
    case False
    then have "k \<noteq> 1" using "1.prems"(1) by auto
    then obtain j where j: "k = Suc j" "0 < j"
      using "1.prems"(2) by (metis One_nat_def gr0_conv_Suc neq0_conv)
    then have "n div 10 < 10 ^ j"
      using "1.prems"(1) by auto
    with "1.IH" False j show ?thesis
      by (subst decimal.simps) simp
  qed
qed

lemma int_of_text_repr [simp]: "int_of_text (int_repr i) = i"
proof (cases "i < 0")
  case True
  then show ?thesis by (simp add: int_of_text_def int_repr_def)
next
  case False
  obtain c cs where d: "decimal (nat i) = c # cs"
    by (cases "decimal (nat i)") auto
  then have "digit c"
    using decimal_digits [of "nat i"] by simp
  then have "c \<noteq> 45" by (auto simp add: digit_def)
  with d False show ?thesis
    by (simp add: int_of_text_def int_repr_def) (metis False int_nat_eq linorder_not_less undecimal_decimal)
qed

lemma length_int_repr: "\<bar>i\<bar> < 10 ^ k \<Longrightarrow> 0 < k \<Longrightarrow> length (int_repr i) \<le> Suc k"
proof -
  assume h: "\<bar>i\<bar> < 10 ^ k" "0 < k"
  have "nat \<bar>i\<bar> < 10 ^ k"
    using h(1) by (simp add: nat_less_iff)
  then have "length (decimal (nat \<bar>i\<bar>)) \<le> k"
    using h(2) by (rule length_decimal)
  then show ?thesis by (auto simp add: int_repr_def)
qed

section \<open>Hexadecimal\<close>

definition hex_char :: "nat \<Rightarrow> nat" where
  "hex_char d = (if d < 10 then 48 + d else 87 + d)"

definition hex_byte :: "byte \<Rightarrow> pystr" where
  "hex_byte b = [hex_char (unat b div 16), hex_char (unat b mod 16)]"

definition hexdigest :: "bytes \<Rightarrow> pystr" where
  "hexdigest bs = concat (map hex_byte bs)"

definition lower_hex :: "nat \<Rightarrow> bool" where
  "lower_hex c \<longleftrightarrow> (48 \<le> c \<and> c \<le> 57) \<or> (97 \<le> c \<and> c \<le> 102)"

lemma lower_hex_hex_char: "d < 16 \<Longrightarrow> lower_hex (hex_char d)"
  by (auto simp add: lower_hex_def hex_char_def)

lemma hexdigest_lower: "list_all lower_hex (hexdigest bs)"
proof (induction bs)
  case Nil
  then show ?case by (simp add: hexdigest_def)
next
  case (Cons b bs)
  have "unat b div 16 < 16"
    using unat_byte_lt [of b] by (simp add: less_mult_imp_div_less)
  with Cons show ?case
    by (simp add: hexdigest_def hex_byte_def lower_hex_hex_char)
qed

lemma length_hexdigest [simp]: "length (hexdigest bs) = 2 * length bs"
  by (induction bs) (simp_all add: hexdigest_def hex_byte_def)

end
