(* ===== verification/Py_Hash.thy ===== *)
theory Py_Hash
  imports Py_Text
begin

text \<open>
  The parts of the Python standard library the program uses on bytes: \<open>hashlib.sha256\<close>,
  \<open>hashlib.sha1\<close> (inside \<open>uuid.uuid5\<close>). The hash functions
  are written out over 32-bit words (FIPS 180-4); no proof of the development unfolds
  them, only the length of a digest is used.
\<close>

unbundle bit_operations_syntax

section \<open>SHA-256 and SHA-1\<close>

type_synonym u32 = "32 word"

definition be_word :: "byte \<Rightarrow> byte \<Rightarrow> byte \<Rightarrow> byte \<Rightarrow> u32" where
  "be_word a b c d =
     word_of_nat (((unat a * 256 + unat b) * 256 + unat c) * 256 + unat d)"

fun be_words :: "bytes \<Rightarrow> u32 list" where
  "be_words (a # b # c # d # rest) = be_word a b c d # be_words rest"
| "be_words _ = []"

definition word_bytes :: "u32 \<Rightarrow> bytes" where
  "word_bytes w = (let n = unat w in
     [byte (n div 16777216), byte (n div 65536), byte (n div 256), byte n])"

definition sha_pad :: "bytes \<Rightarrow> bytes" where
  "sha_pad m =
     (let bits = 8 * length m in
      m @ [128] @ replicate ((119 - length m mod 64) mod 64) 0
        @ map (\<lambda>k. byte (bits div 256 ^ k)) [7, 6, 5, 4, 3, 2, 1, 0])"

text \<open>The 512-bit blocks of a padded message, as sixteen words each.\<close>

fun sha_blocks :: "u32 list \<Rightarrow> u32 list list" where
  "sha_blocks [] = []"
| "sha_blocks (w # ws) = take 16 (w # ws) # sha_blocks (drop 16 (w # ws))"

definition sha256_k :: "u32 list" where
  "sha256_k =
    [1116352408, 1899447441, 3049323471, 3921009573, 961987163, 1508970993,
     2453635748, 2870763221, 3624381080, 310598401, 607225278, 1426881987,
     1925078388, 2162078206, 2614888103, 3248222580, 3835390401, 4022224774,
     264347078, 604807628, 770255983, 1249150122, 1555081692, 1996064986,
     2554220882, 2821834349, 2952996808, 3210313671, 3336571891, 3584528711,
     113926993, 338241895, 666307205, 773529912, 1294757372, 1396182291, 1695183700,
     1986661051, 2177026350, 2456956037, 2730485921, 2820302411, 3259730800,
     3345764771, 3516065817, 3600352804, 4094571909, 275423344, 430227734,
     506948616, 659060556, 883997877, 958139571, 1322822218, 1537002063, 1747873779,
     1955562222, 2024104815, 2227730452, 2361852424, 2428436474, 2756734187,
     3204031479, 3329325298]"

definition sha256_init :: "u32 list" where
  "sha256_init = [1779033703, 3144134277, 1013904242, 2773480762, 1359893119, 2600822924,
    528734635, 1541459225]"

definition sha256_next :: "u32 list \<Rightarrow> u32" where
  "sha256_next w =
     (let n = length w; x = w ! (n - 15); y = w ! (n - 2) in
      (word_rotr 17 y XOR word_rotr 19 y XOR drop_bit 10 y) + w ! (n - 7)
      + (word_rotr 7 x XOR word_rotr 18 x XOR drop_bit 3 x) + w ! (n - 16))"

definition sha256_schedule :: "u32 list \<Rightarrow> u32 list" where
  "sha256_schedule block = ((\<lambda>w. w @ [sha256_next w]) ^^ 48) block"

fun sha256_round :: "u32 list \<Rightarrow> u32 \<times> u32 \<Rightarrow> u32 list" where
  "sha256_round [a, b, c, d, e, f, g, h] (k, w) =
     (let t1 = h + (word_rotr 6 e XOR word_rotr 11 e XOR word_rotr 25 e)
                 + ((e AND f) XOR (NOT e AND g)) + k + w;
          t2 = (word_rotr 2 a XOR word_rotr 13 a XOR word_rotr 22 a)
                 + ((a AND b) XOR (a AND c) XOR (b AND c))
      in [t1 + t2, a, b, c, d + t1, e, f, g])"
| "sha256_round s kw = s"

definition sha256_block :: "u32 list \<Rightarrow> u32 list \<Rightarrow> u32 list" where
  "sha256_block st block =
     map2 (+) st (foldl sha256_round st (zip sha256_k (sha256_schedule block)))"

definition sha256 :: "bytes \<Rightarrow> bytes" where
  "sha256 m =
     concat (map word_bytes (foldl sha256_block sha256_init (sha_blocks (be_words (sha_pad m)))))"

definition sha1_init :: "u32 list" where
  "sha1_init = [1732584193, 4023233417, 2562383102, 271733878, 3285377520]"

definition sha1_schedule :: "u32 list \<Rightarrow> u32 list" where
  "sha1_schedule block =
     ((\<lambda>w. let n = length w in
        w @ [word_rotl 1 (w ! (n - 3) XOR w ! (n - 8) XOR w ! (n - 14) XOR w ! (n - 16))]) ^^ 64) block"

fun sha1_round :: "u32 list \<Rightarrow> nat \<times> u32 \<Rightarrow> u32 list" where
  "sha1_round [a, b, c, d, e] (t, w) =
     (let fk = (if t < 20 then (((b AND c) XOR (NOT b AND d)), 1518500249)
                else if t < 40 then (b XOR c XOR d, 1859775393)
                else if t < 60 then (((b AND c) XOR (b AND d) XOR (c AND d)), 2400959708)
                else (b XOR c XOR d, 3395469782))
      in [word_rotl 5 a + fst fk + e + snd fk + w, a, word_rotl 30 b, c, d])"
| "sha1_round s tw = s"

definition sha1_block :: "u32 list \<Rightarrow> u32 list \<Rightarrow> u32 list" where
  "sha1_block st block =
     map2 (+) st (foldl sha1_round st (enumerate 0 (sha1_schedule block)))"

definition sha1 :: "bytes \<Rightarrow> bytes" where
  "sha1 m =
     concat (map word_bytes (foldl sha1_block sha1_init (sha_blocks (be_words (sha_pad m)))))"

lemma length_word_bytes [simp]: "length (word_bytes w) = 4"
  by (simp add: word_bytes_def Let_def)

lemma length_concat_word_bytes: "length (concat (map word_bytes ws)) = 4 * length ws"
  by (induction ws) simp_all

lemma length_foldl_const:
  "(\<And>s x. length s = n \<Longrightarrow> length (f s x) = n) \<Longrightarrow> length s = n \<Longrightarrow> length (foldl f s xs) = n"
  by (induction xs arbitrary: s) simp_all

lemma length_sha256_round: "length (sha256_round s kw) = length s"
  by (cases "(s, kw)" rule: sha256_round.cases) (simp_all add: Let_def)

lemma length_sha1_round: "length (sha1_round s kw) = length s"
  by (cases "(s, kw)" rule: sha1_round.cases) (simp_all add: Let_def)

lemma length_sha256 [simp]: "length (sha256 m) = 32"
proof -
  have "length (sha256_block st b) = 8" if "length st = 8" for st b
    using that length_foldl_const [of 8 sha256_round st]
    by (simp add: sha256_block_def length_sha256_round)
  then show ?thesis
    by (simp add: sha256_def length_concat_word_bytes length_foldl_const [where n = 8] sha256_init_def)
qed

lemma length_sha1 [simp]: "length (sha1 m) = 20"
proof -
  have "length (sha1_block st b) = 5" if "length st = 5" for st b
    using that length_foldl_const [of 5 sha1_round st]
    by (simp add: sha1_block_def length_sha1_round)
  then show ?thesis
    by (simp add: sha1_def length_concat_word_bytes length_foldl_const [where n = 5] sha1_init_def)
qed

end
