(* ===== verification/Py_Codec.thy ===== *)
theory Py_Codec
  imports Py_Hash
begin

text \<open>
  Base64 with the URL-safe alphabet (\<open>base64.urlsafe_b64encode\<close>, \<open>base64.b64decode\<close> with
  \<open>validate=True\<close>) and RFC 4122 UUIDs (\<open>uuid.UUID\<close>, \<open>uuid4\<close>, \<open>uuid5\<close>), with the round trip of the
  first and the canonical form of the second.
\<close>

section \<open>Base64\<close>

fun sextets :: "bytes \<Rightarrow> nat list" where
  "sextets [] = []"
| "sextets [a] = [unat a div 4, unat a mod 4 * 16]"
| "sextets [a, b] = [unat a div 4, unat a mod 4 * 16 + unat b div 16, unat b mod 16 * 4]"
| "sextets (a # b # c # rest) =
     [unat a div 4, unat a mod 4 * 16 + unat b div 16, unat b mod 16 * 4 + unat c div 64,
      unat c mod 64] @ sextets rest"

fun unsextets :: "nat list \<Rightarrow> bytes" where
  "unsextets (p # q # r # s # rest) =
     [byte (p * 4 + q div 16), byte (q mod 16 * 16 + r div 4), byte (r mod 4 * 64 + s)]
     @ unsextets rest"
| "unsextets [p, q, r] = [byte (p * 4 + q div 16), byte (q mod 16 * 16 + r div 4)]"
| "unsextets [p, q] = [byte (p * 4 + q div 16)]"
| "unsextets _ = []"

text \<open>\<open>A\<close>-\<open>Z\<close>, \<open>a\<close>-\<open>z\<close>, \<open>0\<close>-\<open>9\<close>, then \<open>-\<close> and \<open>_\<close>. The decoder also takes \<open>+\<close> and \<open>/\<close>.\<close>

definition b64_char :: "nat \<Rightarrow> nat" where
  "b64_char n =
    (if n < 26 then 65 + n else if n < 52 then 71 + n else if n < 62 then n - 4
     else if n = 62 then 45 else 95)"

definition b64_value :: "nat \<Rightarrow> nat option" where
  "b64_value c =
    (if 65 \<le> c \<and> c \<le> 90 then Some (c - 65)
     else if 97 \<le> c \<and> c \<le> 122 then Some (c - 71)
     else if 48 \<le> c \<and> c \<le> 57 then Some (c + 4)
     else if c = 45 \<or> c = 43 then Some 62
     else if c = 95 \<or> c = 47 then Some 63
     else None)"

definition urlsafe_b64encode :: "bytes \<Rightarrow> pystr" where
  "urlsafe_b64encode raw =
     map b64_char (sextets raw) @ replicate ((3 - length raw mod 3) mod 3) 61"

definition b64decode_urlsafe :: "pystr \<Rightarrow> exn + bytes" where
  "b64decode_urlsafe s =
     (let body = takeWhile (\<lambda>c. c \<noteq> 61) s; pads = dropWhile (\<lambda>c. c \<noteq> 61) s in
      if list_all (\<lambda>c. b64_value c \<noteq> None) body \<and> list_all (\<lambda>c. c = 61) pads
         \<and> length body mod 4 \<noteq> 1 \<and> length pads = (4 - length body mod 4) mod 4
      then Inr (unsextets (map (\<lambda>c. the (b64_value c)) body))
      else Inl (ValueError ''binascii.Error''))"

lemma b64_value_char: "n < 64 \<Longrightarrow> b64_value (b64_char n) = Some n"
  by (auto simp add: b64_value_def b64_char_def)

lemma b64_char_neq_pad: "n < 64 \<Longrightarrow> b64_char n \<noteq> 61"
  by (auto simp add: b64_char_def)

lemma pack_digits:
  "(y::nat) < n \<Longrightarrow> (x * n + y) div n = x"
  "(y::nat) < n \<Longrightarrow> (x * n + y) mod n = y"
  by simp_all

lemma byte_parts [simp]:
  "unat (a :: byte) div 4 < 64" "unat a mod 4 * 16 + unat (b :: byte) div 16 < 64"
  "unat b mod 16 * 4 + unat (c :: byte) div 64 < 64" "unat c mod 64 < 64"
  "unat b div 16 < 16" "unat c div 64 < 4"
proof -
  show "unat a div 4 < 64" "unat b div 16 < 16" "unat c div 64 < 4"
    using unat_byte_lt [of a] unat_byte_lt [of b] unat_byte_lt [of c]
    by (simp_all add: less_mult_imp_div_less)
  then show "unat a mod 4 * 16 + unat b div 16 < 64" "unat b mod 16 * 4 + unat c div 64 < 64"
    using mod_less_divisor [of 4 "unat a"] mod_less_divisor [of 16 "unat b"] by linarith+
qed simp

lemma sextets_lt: "list_all (\<lambda>n. n < 64) (sextets bs)"
proof (induction bs rule: sextets.induct)
  case (2 a)
  have "unat a mod 4 < 4" by simp
  then have "unat a mod 4 * 16 < 64" by linarith
  then show ?case by simp
next
  case (3 a b)
  have "unat b mod 16 < 16" by simp
  then have "unat b mod 16 * 4 < 64" by linarith
  then show ?case by simp
qed simp_all

lemma byte_eqI: "n = unat b \<Longrightarrow> byte n = b"
  by simp

lemma unsextets_sextets [simp]: "unsextets (sextets bs) = bs"
  by (induction bs rule: sextets.induct) (simp_all add: byte_eqI pack_digits)

lemma takeWhile_sextet_chars [simp]:
  "list_all (\<lambda>n. n < 64) ns \<Longrightarrow>
     takeWhile (\<lambda>c. c \<noteq> 61) (map b64_char ns @ replicate k 61) = map b64_char ns"
  "list_all (\<lambda>n. n < 64) ns \<Longrightarrow>
     dropWhile (\<lambda>c. c \<noteq> 61) (map b64_char ns @ replicate k 61) = replicate k 61"
  by (induction ns; cases k; simp add: b64_char_neq_pad)+

lemma map_b64_value [simp]:
  "list_all (\<lambda>n. n < 64) ns \<Longrightarrow> map (\<lambda>c. the (b64_value c)) (map b64_char ns) = ns"
  by (induction ns) (simp_all add: b64_value_char)

lemma b64_values_defined [simp]:
  "list_all (\<lambda>n. n < 64) ns \<Longrightarrow> list_all (\<lambda>c. b64_value c \<noteq> None) (map b64_char ns)"
  by (induction ns) (simp_all add: b64_value_char)

lemma sextets_pad_count:
  "length (sextets bs) mod 4 \<noteq> 1 \<and>
   (4 - length (sextets bs) mod 4) mod 4 = (3 - length bs mod 3) mod 3"
  by (induction bs rule: sextets.induct) simp_all

lemma b64decode_encode: "b64decode_urlsafe (urlsafe_b64encode raw) = Inr raw"
proof -
  let ?c = "map b64_char (sextets raw)"
  let ?k = "(3 - length raw mod 3) mod 3"
  have "takeWhile (\<lambda>c. c \<noteq> 61) (?c @ replicate ?k 61) = ?c"
    "dropWhile (\<lambda>c. c \<noteq> 61) (?c @ replicate ?k 61) = replicate ?k 61"
    using sextets_lt by (rule takeWhile_sextet_chars)+
  moreover have "list_all (\<lambda>c. b64_value c \<noteq> None) ?c" "map (\<lambda>c. the (b64_value c)) ?c = sextets raw"
    using sextets_lt by (rule b64_values_defined map_b64_value)+
  moreover have "list_all (\<lambda>c. c = 61) (replicate ?k 61)"
    by (simp add: list_all_iff)
  ultimately show ?thesis
    using sextets_pad_count [of raw]
    by (simp only: b64decode_urlsafe_def urlsafe_b64encode_def Let_def length_map length_replicate) simp
qed

section \<open>UUIDs\<close>

definition uuid_text :: "bytes \<Rightarrow> pystr" where
  "uuid_text bs = (let h = hexdigest bs in
     take 8 h @ [45] @ take 4 (drop 8 h) @ [45] @ take 4 (drop 12 h) @ [45]
     @ take 4 (drop 16 h) @ [45] @ take 12 (drop 20 h))"

text \<open>Sixteen bytes with the version and the RFC 4122 variant written into them.\<close>

definition uuid_stamp :: "nat \<Rightarrow> bytes \<Rightarrow> bytes" where
  "uuid_stamp version bs =
     bs[6 := byte (16 * version + unat (bs ! 6) mod 16), 8 := byte (128 + unat (bs ! 8) mod 64)]"

definition uuid4 :: "bytes \<Rightarrow> pystr" where
  "uuid4 random = uuid_text (uuid_stamp 4 random)"

definition uuid5 :: "bytes \<Rightarrow> bytes \<Rightarrow> pystr" where
  "uuid5 namespace name = uuid_text (uuid_stamp 5 (take 16 (sha1 (namespace @ name))))"

text \<open>
  The value of a hexadecimal text, and the texts \<open>t\<close> with \<open>str(uuid.UUID(t)) == t\<close>: 36 characters,
  dashes at 8, 13, 18 and 23, lower-case hexadecimal digits elsewhere. (\<open>uuid.UUID\<close> reads more
  spellings, but \<open>str\<close> prints this one.) The variant is RFC 4122 when the two top bits of the
  ninth byte are \<open>10\<close>.
\<close>

definition hex_value :: "nat \<Rightarrow> nat" where
  "hex_value c = (if c \<le> 57 then c - 48 else c - 87)"

definition unhex :: "pystr \<Rightarrow> nat" where
  "unhex s = foldl (\<lambda>a c. 16 * a + hex_value c) 0 s"

definition uuid_form :: "pystr \<Rightarrow> bool" where
  "uuid_form t \<longleftrightarrow> length t = 36 \<and> t ! 8 = 45 \<and> t ! 13 = 45 \<and> t ! 18 = 45 \<and> t ! 23 = 45
     \<and> list_all lower_hex (take 8 t @ take 4 (drop 9 t) @ take 4 (drop 14 t)
                           @ take 4 (drop 19 t) @ drop 24 t)"

definition uuid_int :: "pystr \<Rightarrow> nat" where
  "uuid_int t = unhex (filter (\<lambda>c. c \<noteq> 45) t)"

definition uuid_rfc4122 :: "pystr \<Rightarrow> bool" where
  "uuid_rfc4122 t \<longleftrightarrow> hex_value (t ! 19) div 4 = 2"

definition canonical_uuid_text :: "pystr \<Rightarrow> bool" where
  "canonical_uuid_text t \<longleftrightarrow> uuid_form t \<and> uuid_int t \<noteq> 0 \<and> uuid_rfc4122 t"

lemma hex_value_char [simp]: "d < 16 \<Longrightarrow> hex_value (hex_char d) = d"
  by (auto simp add: hex_value_def hex_char_def)

lemma lower_hex_not_dash [simp]: "lower_hex c \<Longrightarrow> c \<noteq> 45"
  by (auto simp add: lower_hex_def)

lemma foldl_hex_positive:
  "0 < a \<or> (\<exists>c\<in>set s. hex_value c \<noteq> 0) \<Longrightarrow> 0 < foldl (\<lambda>a c. 16 * a + hex_value c) a s"
  by (induction s arbitrary: a) auto

lemma unhex_nonzero: "c \<in> set s \<Longrightarrow> hex_value c \<noteq> 0 \<Longrightarrow> unhex s \<noteq> 0"
  using foldl_hex_positive [of 0 s] by (auto simp add: unhex_def)

lemma hex_byte_lower [simp]:
  "lower_hex (hex_char (unat (b :: byte) div 16))" "lower_hex (hex_char (unat b mod 16))"
  using unat_byte_lt [of b] by (simp_all add: lower_hex_hex_char less_mult_imp_div_less)

lemma uuid_text_canonical:
  assumes "length bs = 16" and "unat (bs ! 8) div 64 = 2"
  shows "canonical_uuid_text (uuid_text bs)"
proof -
  obtain b0 b1 b2 b3 b4 b5 b6 b7 b8 b9 b10 b11 b12 b13 b14 b15
    where bs: "bs = [b0, b1, b2, b3, b4, b5, b6, b7, b8, b9, b10, b11, b12, b13, b14, b15]"
    using assms(1) by (auto simp add: eval_nat_numeral length_Suc_conv)
  have hi: "hex_value (hex_char (unat b8 div 16)) = unat b8 div 16"
    using unat_byte_lt [of b8] by (simp add: less_mult_imp_div_less)
  have div: "unat b8 div 16 div 4 = 2"
    using assms(2) by (simp add: bs div_mult2_eq [symmetric])
  then have "unat b8 div 16 \<noteq> 0" by auto
  then have "uuid_int (uuid_text bs) \<noteq> 0"
    unfolding uuid_int_def
    by (intro unhex_nonzero [of "hex_char (unat b8 div 16)"])
      (simp_all add: bs uuid_text_def hexdigest_def hex_byte_def hi Let_def)
  then show ?thesis
    using div
    by (simp add: canonical_uuid_text_def uuid_form_def uuid_rfc4122_def hi Let_def
        bs uuid_text_def hexdigest_def hex_byte_def)
qed

lemma unat_stamp_8:
  "length bs = 16 \<Longrightarrow> unat (uuid_stamp v bs ! 8) div 64 = 2"
proof -
  assume "length bs = 16"
  moreover have "unat (bs ! 8) mod 64 < 64" by simp
  ultimately show ?thesis by (simp add: uuid_stamp_def)
qed

lemma uuid4_canonical: "length random = 16 \<Longrightarrow> canonical_uuid_text (uuid4 random)"
  unfolding uuid4_def by (rule uuid_text_canonical) (simp_all add: unat_stamp_8, simp add: uuid_stamp_def)

lemma uuid5_canonical: "canonical_uuid_text (uuid5 namespace name)"
  unfolding uuid5_def by (rule uuid_text_canonical) (simp_all add: unat_stamp_8, simp add: uuid_stamp_def)

lemma hex_char_inject: "a < 16 \<Longrightarrow> b < 16 \<Longrightarrow> hex_char a = hex_char b \<longleftrightarrow> a = b"
  by (metis hex_value_char)

lemma hex_byte_inject: "hex_byte a = hex_byte b \<longleftrightarrow> a = b"
proof
  assume eq: "hex_byte a = hex_byte b"
  have lt: "unat c div 16 < 16" for c :: byte
    using unat_byte_lt [of c] by (simp add: less_mult_imp_div_less)
  have "unat a div 16 = unat b div 16" "unat a mod 16 = unat b mod 16"
    using eq lt [of a] lt [of b] by (simp_all add: hex_byte_def hex_char_inject)
  then have "unat a = unat b" by (metis div_mult_mod_eq)
  then show "a = b" by (metis byte_unat)
qed simp

lemma hexdigest_inject: "hexdigest a = hexdigest b \<longleftrightarrow> a = b"
proof (induction a arbitrary: b)
  case Nil
  then show ?case by (cases b) (simp_all add: hexdigest_def hex_byte_def)
next
  case (Cons x a)
  show ?case
  proof (cases b)
    case Nil
    then show ?thesis by (simp add: hexdigest_def hex_byte_def)
  next
    case (Cons y b')
    have "length (hex_byte x) = length (hex_byte y)" by (simp add: hex_byte_def)
    then show ?thesis
      using Cons.IH [of b'] Cons by (simp add: hexdigest_def hex_byte_inject)
  qed
qed

end
