(* ===== verification/Kernel_Types.thy ===== *)
theory Kernel_Types
  imports Py_Codec
begin

text \<open>
  \<^verbatim>\<open>algo_cli/david_control_kernel.py\<close>, first part: the bounds of the protocol, its closed
  enumerations, the operation, route and selector tables, and the validators of single fields.

  An \<open>Enum\<close> class is a datatype together with the pair of its members, in declaration order, and
  their values; \<open>enum_value\<close> looks a text up in such a pair. Every validator has a lemma in the
  collection \<open>accepts\<close> that says exactly which values it accepts and what it returns.
\<close>

section \<open>Bounds\<close>

definition CONTROL_SCHEMA_VERSION :: int where [limits]: "CONTROL_SCHEMA_VERSION = 1"
definition CONTROL_PROTOCOL_VERSION :: int where [limits]: "CONTROL_PROTOCOL_VERSION = 1"
definition CONTROL_MESSAGE_TYPE :: string where "CONTROL_MESSAGE_TYPE = ''control.execute''"
definition CONTROL_PREPARATION_MESSAGE_TYPE :: string where
  "CONTROL_PREPARATION_MESSAGE_TYPE = ''control.prepare''"
definition MAX_FRAME_BYTES :: nat where [limits]: "MAX_FRAME_BYTES = 65536"
definition MAX_FEED_BYTES :: nat where "MAX_FEED_BYTES = 4 * MAX_FRAME_BYTES"
definition MAX_JSON_DEPTH :: nat where [limits]: "MAX_JSON_DEPTH = 12"
definition MAX_JSON_ITEMS :: nat where [limits]: "MAX_JSON_ITEMS = 512"
definition MAX_STRING_BYTES :: nat where [limits]: "MAX_STRING_BYTES = 8192"
definition MAX_SAFE_INTEGER :: int where [limits]: "MAX_SAFE_INTEGER = 2 ^ 53 - 1"
definition MAX_DEADLINE_HORIZON_MS :: int where [limits]: "MAX_DEADLINE_HORIZON_MS = 300000"
definition MAX_GRANT_LIFETIME_MS :: int where [limits]: "MAX_GRANT_LIFETIME_MS = 86400000"
definition MAX_ACTION_COUNT :: int where [limits]: "MAX_ACTION_COUNT = 64"
definition MAX_UPLOAD_BYTES :: int where [limits]: "MAX_UPLOAD_BYTES = 64 * 1024 * 1024"
definition MAX_OUTPUT_BYTES :: int where [limits]: "MAX_OUTPUT_BYTES = 1048576"
definition MAX_VIEWPORT_DIMENSION :: int where [limits]: "MAX_VIEWPORT_DIMENSION = 16384"
definition MAX_SCROLL_DELTA :: int where [limits]: "MAX_SCROLL_DELTA = 10000"
definition MAX_TEXT_BYTES :: nat where [limits]: "MAX_TEXT_BYTES = 4096"
definition MAX_PREPARATION_LIFETIME_MS :: int where [limits]: "MAX_PREPARATION_LIFETIME_MS = 60000"

section \<open>Patterns\<close>

text \<open>Each \<open>fullmatch\<close> of an anchored pattern: the class of the first character, the class of the
  others, and the length.\<close>

definition lower_char :: "nat \<Rightarrow> bool" where
  "lower_char c \<longleftrightarrow> 97 \<le> c \<and> c \<le> 122"

definition upper_char :: "nat \<Rightarrow> bool" where
  "upper_char c \<longleftrightarrow> 65 \<le> c \<and> c \<le> 90"

definition safe_id_text :: "pystr \<Rightarrow> bool" where
  "safe_id_text s \<longleftrightarrow> (case s of [] \<Rightarrow> False | c # cs \<Rightarrow> lower_char c \<and> length cs \<le> 127 \<and>
     list_all (\<lambda>d. lower_char d \<or> digit d \<or> d = 46 \<or> d = 95 \<or> d = 58 \<or> d = 45) cs)"

definition field_name_text :: "pystr \<Rightarrow> bool" where
  "field_name_text s \<longleftrightarrow> (case s of [] \<Rightarrow> False | c # cs \<Rightarrow> lower_char c \<and> length cs \<le> 63 \<and>
     list_all (\<lambda>d. lower_char d \<or> digit d \<or> d = 95) cs)"

definition revision_text :: "pystr \<Rightarrow> bool" where
  "revision_text s \<longleftrightarrow> (case s of [] \<Rightarrow> False
     | c # cs \<Rightarrow> (lower_char c \<or> upper_char c \<or> digit c) \<and> length cs \<le> 127 \<and>
         list_all (\<lambda>d. lower_char d \<or> upper_char d \<or> digit d \<or> d = 95 \<or> d = 46 \<or> d = 58 \<or> d = 45) cs)"

definition prefixed_hex64 :: "string \<Rightarrow> pystr \<Rightarrow> bool" where
  "prefixed_hex64 p s \<longleftrightarrow> take (length p) s = str p \<and> length s = length p + 64 \<and>
     list_all lower_hex (drop (length p) s)"

definition opaque_id_text :: "pystr \<Rightarrow> bool" where
  "opaque_id_text s \<longleftrightarrow> prefixed_hex64 ''hmac-sha256:'' s"

definition digest_text :: "pystr \<Rightarrow> bool" where
  "digest_text s \<longleftrightarrow> prefixed_hex64 ''sha256:'' s"

definition key_id_text :: "pystr \<Rightarrow> bool" where
  "key_id_text s \<longleftrightarrow> prefixed_hex64 ''ed25519:'' s"

definition signature_text :: "pystr \<Rightarrow> bool" where
  "signature_text s \<longleftrightarrow> length s = 86 \<and>
     list_all (\<lambda>d. lower_char d \<or> upper_char d \<or> digit d \<or> d = 95 \<or> d = 45) s"

definition ascii :: "pystr \<Rightarrow> bool" where
  "ascii s \<longleftrightarrow> list_all (\<lambda>c. c < 128) s"

lemmas char_classes = lower_char_def upper_char_def digit_def lower_hex_def

lemma pattern_ascii:
  "safe_id_text s \<Longrightarrow> ascii s" "field_name_text s \<Longrightarrow> ascii s" "revision_text s \<Longrightarrow> ascii s"
  "signature_text s \<Longrightarrow> ascii s"
  by (auto simp add: safe_id_text_def field_name_text_def revision_text_def signature_text_def
      ascii_def char_classes list_all_iff split: list.splits)

lemma prefixed_hex64_ascii:
  assumes "prefixed_hex64 p s" and "ascii (str p)"
  shows "ascii s"
proof -
  have "ascii (take (length p) s)" using assms by (simp add: prefixed_hex64_def)
  moreover have "ascii (drop (length p) s)"
    using assms(1) by (auto simp add: prefixed_hex64_def ascii_def lower_hex_def list_all_iff)
  ultimately show ?thesis
    by (metis append_take_drop_id ascii_def list_all_append)
qed

lemma hex_pattern_ascii:
  "opaque_id_text s \<Longrightarrow> ascii s" "digest_text s \<Longrightarrow> ascii s" "key_id_text s \<Longrightarrow> ascii s"
  by (auto simp add: opaque_id_text_def digest_text_def key_id_text_def ascii_def str_def
      elim!: prefixed_hex64_ascii [unfolded ascii_def])

lemma prefixed_hex64I:
  "length bs = 32 \<Longrightarrow> prefixed_hex64 p (str p @ hexdigest bs)"
  by (simp add: prefixed_hex64_def hexdigest_lower)

section \<open>Enumerations\<close>

type_synonym 'e enum_type = "'e list \<times> ('e \<Rightarrow> string)"

datatype TargetKind = BROWSER_DOCUMENT | DESKTOP_SURFACE | EXTERNAL_RESOURCE

primrec TargetKind_value :: "TargetKind \<Rightarrow> string" where
  "TargetKind_value BROWSER_DOCUMENT = ''browser_document''"
| "TargetKind_value DESKTOP_SURFACE = ''desktop_surface''"
| "TargetKind_value EXTERNAL_RESOURCE = ''external_resource''"

definition TargetKind :: "TargetKind enum_type" where
  "TargetKind = ([BROWSER_DOCUMENT, DESKTOP_SURFACE, EXTERNAL_RESOURCE], TargetKind_value)"

datatype Operation =
    OBSERVE | ACTIVATE | INPUT_TEXT | SELECT_OPTION | SCROLL | UPLOAD | COORDINATE_ACTIVATE
  | HANDOFF

primrec Operation_value :: "Operation \<Rightarrow> string" where
  "Operation_value OBSERVE = ''observe''"
| "Operation_value ACTIVATE = ''activate''"
| "Operation_value INPUT_TEXT = ''input_text''"
| "Operation_value SELECT_OPTION = ''select_option''"
| "Operation_value SCROLL = ''scroll''"
| "Operation_value UPLOAD = ''upload''"
| "Operation_value COORDINATE_ACTIVATE = ''coordinate_activate''"
| "Operation_value HANDOFF = ''handoff''"

definition Operation :: "Operation enum_type" where
  "Operation = ([OBSERVE, ACTIVATE, INPUT_TEXT, SELECT_OPTION, SCROLL, UPLOAD,
                 COORDINATE_ACTIVATE, HANDOFF], Operation_value)"

datatype Effect = E_READ | E_UI_MUTATION | E_INPUT | E_TRANSMIT | E_HANDOFF

primrec Effect_value :: "Effect \<Rightarrow> string" where
  "Effect_value E_READ = ''read''"
| "Effect_value E_UI_MUTATION = ''ui_mutation''"
| "Effect_value E_INPUT = ''input''"
| "Effect_value E_TRANSMIT = ''transmit''"
| "Effect_value E_HANDOFF = ''handoff''"

definition Effect :: "Effect enum_type" where
  "Effect = ([E_READ, E_UI_MUTATION, E_INPUT, E_TRANSMIT, E_HANDOFF], Effect_value)"

datatype ControlDataClass = D_STRUCTURAL | D_PUBLIC | D_PRIVATE | D_SECRET | D_FILE

primrec ControlDataClass_value :: "ControlDataClass \<Rightarrow> string" where
  "ControlDataClass_value D_STRUCTURAL = ''structural''"
| "ControlDataClass_value D_PUBLIC = ''public''"
| "ControlDataClass_value D_PRIVATE = ''private''"
| "ControlDataClass_value D_SECRET = ''secret''"
| "ControlDataClass_value D_FILE = ''file''"

definition ControlDataClass :: "ControlDataClass enum_type" where
  "ControlDataClass = ([D_STRUCTURAL, D_PUBLIC, D_PRIVATE, D_SECRET, D_FILE],
                       ControlDataClass_value)"

datatype ControlRoute =
    R_CONNECTOR | R_SHORTCUT | R_APPLE_EVENT | R_DOM | R_AX | R_SCREENSHOT | R_COORDINATE
  | R_HANDOFF

primrec ControlRoute_value :: "ControlRoute \<Rightarrow> string" where
  "ControlRoute_value R_CONNECTOR = ''connector''"
| "ControlRoute_value R_SHORTCUT = ''shortcut''"
| "ControlRoute_value R_APPLE_EVENT = ''apple_event''"
| "ControlRoute_value R_DOM = ''dom''"
| "ControlRoute_value R_AX = ''ax''"
| "ControlRoute_value R_SCREENSHOT = ''screenshot''"
| "ControlRoute_value R_COORDINATE = ''coordinate''"
| "ControlRoute_value R_HANDOFF = ''handoff''"

definition ROUTE_ORDER :: "ControlRoute list" where
  "ROUTE_ORDER = [R_CONNECTOR, R_SHORTCUT, R_APPLE_EVENT, R_DOM, R_AX, R_SCREENSHOT,
                  R_COORDINATE, R_HANDOFF]"

definition ControlRoute :: "ControlRoute enum_type" where
  "ControlRoute = (ROUTE_ORDER, ControlRoute_value)"

primrec ROUTE_INDEX :: "ControlRoute \<Rightarrow> nat" where
  "ROUTE_INDEX R_CONNECTOR = 0"
| "ROUTE_INDEX R_SHORTCUT = 1"
| "ROUTE_INDEX R_APPLE_EVENT = 2"
| "ROUTE_INDEX R_DOM = 3"
| "ROUTE_INDEX R_AX = 4"
| "ROUTE_INDEX R_SCREENSHOT = 5"
| "ROUTE_INDEX R_COORDINATE = 6"
| "ROUTE_INDEX R_HANDOFF = 7"

primrec TARGET_ROUTES :: "TargetKind \<Rightarrow> ControlRoute set" where
  "TARGET_ROUTES BROWSER_DOCUMENT = {R_CONNECTOR, R_DOM, R_SCREENSHOT, R_COORDINATE, R_HANDOFF}"
| "TARGET_ROUTES DESKTOP_SURFACE =
     {R_CONNECTOR, R_SHORTCUT, R_APPLE_EVENT, R_AX, R_SCREENSHOT, R_COORDINATE, R_HANDOFF}"
| "TARGET_ROUTES EXTERNAL_RESOURCE = {R_CONNECTOR, R_HANDOFF}"

record OperationSpec =
  effects :: "Effect list"
  data_classes :: "ControlDataClass set"
  argument_fields :: "string list"

primrec OPERATION_SPECS :: "Operation \<Rightarrow> OperationSpec" where
  "OPERATION_SPECS OBSERVE =
     \<lparr>effects = [E_READ], data_classes = {D_STRUCTURAL, D_PUBLIC, D_PRIVATE}, argument_fields = []\<rparr>"
| "OPERATION_SPECS ACTIVATE =
     \<lparr>effects = [E_UI_MUTATION], data_classes = {D_STRUCTURAL}, argument_fields = [''element_id'']\<rparr>"
| "OPERATION_SPECS INPUT_TEXT =
     \<lparr>effects = [E_INPUT, E_UI_MUTATION], data_classes = {D_PRIVATE},
      argument_fields = [''element_id'', ''replace'', ''text'']\<rparr>"
| "OPERATION_SPECS SELECT_OPTION =
     \<lparr>effects = [E_UI_MUTATION], data_classes = {D_STRUCTURAL, D_PRIVATE},
      argument_fields = [''element_id'', ''option_id'']\<rparr>"
| "OPERATION_SPECS SCROLL =
     \<lparr>effects = [E_UI_MUTATION], data_classes = {D_STRUCTURAL},
      argument_fields = [''delta_x'', ''delta_y'', ''element_id'']\<rparr>"
| "OPERATION_SPECS UPLOAD =
     \<lparr>effects = [E_TRANSMIT, E_UI_MUTATION], data_classes = {D_FILE, D_PRIVATE},
      argument_fields = [''artifact_id'', ''byte_count'', ''element_id'']\<rparr>"
| "OPERATION_SPECS COORDINATE_ACTIVATE =
     \<lparr>effects = [E_UI_MUTATION], data_classes = {D_STRUCTURAL},
      argument_fields = [''viewport_height'', ''viewport_width'', ''x'', ''y'']\<rparr>"
| "OPERATION_SPECS HANDOFF =
     \<lparr>effects = [E_HANDOFF], data_classes = UNIV, argument_fields = [''reason_code'']\<rparr>"

definition PREPARATION_SELECTORS :: "Operation \<times> ControlRoute \<Rightarrow> string list option" where
  "PREPARATION_SELECTORS = map_of
    [((ACTIVATE, R_AX), [''focused_element'']),
     ((SELECT_OPTION, R_AX), [''focused_element'']),
     ((SCROLL, R_AX), [''focused_element'']),
     ((ACTIVATE, R_APPLE_EVENT), [''activate_finder'', ''activate_system_settings'']),
     ((ACTIVATE, R_SHORTCUT), [''review_current_task'']),
     ((COORDINATE_ACTIVATE, R_COORDINATE), [''frontmost_point'']),
     ((OBSERVE, R_SCREENSHOT), [''persistent_programmatic''])]"

end
