(* ===== verification/Kernel_Fields.thy ===== *)
theory Kernel_Fields
  imports Kernel_Types
begin

text \<open>
  \<^verbatim>\<open>algo_cli/david_control_kernel.py\<close>, the validators of single fields (\<open>_exact_dict\<close> to
  \<open>_sorted_string_tuple\<close>). Each takes the value last, so that it can be handed to \<open>field\<close>. The
  locale \<open>py_enum\<close> states what the code relies on in an \<open>Enum\<close> class, and is interpreted for the
  five enumerations of the protocol.
\<close>

section \<open>Scalars\<close>

definition reject :: "string \<Rightarrow> exn + 'a" where
  "reject reason = Inl (SchemaRejected reason)"

definition exact_dict :: "string list \<Rightarrow> string \<Rightarrow> py \<Rightarrow> exn + (pystr \<times> py) list" where
  "exact_dict names label v =
    (case v of
       PDict row \<Rightarrow>
         (if set (map fst row) = set (map str names) then Inr row else reject (label @ ''_schema''))
     | _ \<Rightarrow> reject (label @ ''_schema''))"

definition exact_int :: "string \<Rightarrow> int \<Rightarrow> int \<Rightarrow> py \<Rightarrow> exn + int" where
  "exact_int label minimum maximum v =
    (case v of
       PInt i \<Rightarrow> (if minimum \<le> i \<and> i \<le> maximum then Inr i else reject label)
     | _ \<Rightarrow> reject label)"

definition safe_text :: "string \<Rightarrow> nat \<Rightarrow> py \<Rightarrow> exn + pystr" where
  "safe_text label maximum_bytes v =
    (case v of
       PStr s \<Rightarrow>
         (case utf8_encode s of
            None \<Rightarrow> reject label
          | Some encoded \<Rightarrow>
              (if encoded = [] \<or> maximum_bytes < length encoded then reject label else Inr s))
     | _ \<Rightarrow> reject label)"

definition matching :: "(pystr \<Rightarrow> bool) \<Rightarrow> string \<Rightarrow> nat \<Rightarrow> py \<Rightarrow> exn + pystr" where
  "matching pattern label maximum_bytes v =
     rbind (safe_text label maximum_bytes v) (\<lambda>s. if pattern s then Inr s else reject label)"

definition safe_identifier :: "string \<Rightarrow> py \<Rightarrow> exn + pystr" where
  "safe_identifier label v = matching safe_id_text label 128 v"

definition canonical_uuid :: "string \<Rightarrow> py \<Rightarrow> exn + pystr" where
  "canonical_uuid label v = matching canonical_uuid_text label 36 v"

definition opaque_id :: "string \<Rightarrow> py \<Rightarrow> exn + pystr" where
  "opaque_id label v = matching opaque_id_text label 76 v"

definition revision_field :: "string \<Rightarrow> py \<Rightarrow> exn + pystr" where
  "revision_field label v = matching revision_text label 128 v"

definition digest_field :: "string \<Rightarrow> py \<Rightarrow> exn + pystr" where
  "digest_field label v = matching digest_text label 71 v"

definition key_id_field :: "string \<Rightarrow> py \<Rightarrow> exn + pystr" where
  "key_id_field label v = matching key_id_text label 72 v"

definition signature_field :: "string \<Rightarrow> py \<Rightarrow> exn + pystr" where
  "signature_field label v = matching signature_text label 86 v"

text \<open>The version check of the records: an integer (not a boolean) with exactly this value.\<close>

definition exact_version :: "string \<Rightarrow> int \<Rightarrow> py \<Rightarrow> exn + unit" where
  "exact_version label expected v = (if v = PInt expected then Inr () else reject label)"

lemma reject_neq_Inr [simp]: "reject r \<noteq> Inr x" "Inr x \<noteq> reject r"
  by (simp_all add: reject_def)

definition has_keys :: "(pystr \<times> py) list \<Rightarrow> string list \<Rightarrow> bool" where
  "has_keys row names \<longleftrightarrow> set (map fst row) = set (map str names)"

lemma has_keys_cong: "set names = set names' \<Longrightarrow> has_keys row names = has_keys row names'"
  by (simp add: has_keys_def)

lemma exact_dict_Inr_iff [accepts]:
  "exact_dict names label v = Inr row \<longleftrightarrow> v = PDict row \<and> has_keys row names"
  by (auto simp add: exact_dict_def has_keys_def split: py.splits)

lemma exact_int_Inr_iff [accepts]:
  "exact_int label lo hi v = Inr i \<longleftrightarrow> v = PInt i \<and> lo \<le> i \<and> i \<le> hi"
  by (auto simp add: exact_int_def split: py.splits)

lemma safe_text_Inr_iff:
  "safe_text label n v = Inr s \<longleftrightarrow>
     v = PStr s \<and> (\<exists>bs. utf8_encode s = Some bs \<and> bs \<noteq> [] \<and> length bs \<le> n)"
  by (auto simp add: safe_text_def split: py.splits option.splits if_splits)

lemma safe_text_ascii:
  "ascii s \<Longrightarrow> s \<noteq> [] \<Longrightarrow> length s \<le> n \<Longrightarrow> safe_text label n (PStr s) = Inr s"
  by (simp add: safe_text_Inr_iff ascii_def utf8_encode_ascii)

lemma matching_Inr_iff:
  assumes "\<And>s. pattern s \<Longrightarrow> ascii s \<and> s \<noteq> [] \<and> length s \<le> n"
  shows "matching pattern label n v = Inr s \<longleftrightarrow> v = PStr s \<and> pattern s"
proof
  assume "matching pattern label n v = Inr s"
  then show "v = PStr s \<and> pattern s"
    by (auto simp add: matching_def safe_text_Inr_iff split: if_splits)
next
  assume "v = PStr s \<and> pattern s"
  then show "matching pattern label n v = Inr s"
    using assms [of s] by (simp add: matching_def safe_text_ascii)
qed

lemma uuid_form_chars:
  assumes "uuid_form t" shows "list_all (\<lambda>c. c = 45 \<or> lower_hex c) t"
proof -
  have len: "length t = 36" and dash: "t ! 8 = 45" "t ! 13 = 45" "t ! 18 = 45" "t ! 23 = 45"
    and hex: "list_all lower_hex (take 8 t)" "list_all lower_hex (take 4 (drop 9 t))"
      "list_all lower_hex (take 4 (drop 14 t))" "list_all lower_hex (take 4 (drop 19 t))"
      "list_all lower_hex (drop 24 t)"
    using assms by (simp_all add: uuid_form_def)
  have seg: "lower_hex (t ! i)" if "list_all lower_hex (take k (drop n t))" "n \<le> i" "i < n + k" "i < 36"
    for n k i
    using that len by (auto simp add: list_all_length dest!: spec [of _ "i - n"])
  have "t ! i = 45 \<or> lower_hex (t ! i)" if i: "i < 36" for i
  proof -
    consider "i = 8 \<or> i = 13 \<or> i = 18 \<or> i = 23" | "i < 8" | "9 \<le> i" "i < 13"
      | "14 \<le> i" "i < 18" | "19 \<le> i" "i < 23" | "24 \<le> i"
      using i by linarith
    then show ?thesis
      using dash hex i len seg [of 8 0 i] seg [of 4 9 i] seg [of 4 14 i] seg [of 4 19 i]
        seg [of 12 24 i]
      by cases auto
  qed
  then show ?thesis
    using len by (simp add: list_all_length)
qed

lemma uuid_form_ascii: "uuid_form t \<Longrightarrow> ascii t"
  using uuid_form_chars [of t] by (fastforce simp add: ascii_def list_all_iff lower_hex_def)

lemma text_validators_Inr_iff [accepts]:
  "safe_identifier label v = Inr s \<longleftrightarrow> v = PStr s \<and> safe_id_text s"
  "canonical_uuid label v = Inr s \<longleftrightarrow> v = PStr s \<and> canonical_uuid_text s"
  "opaque_id label v = Inr s \<longleftrightarrow> v = PStr s \<and> opaque_id_text s"
  "revision_field label v = Inr s \<longleftrightarrow> v = PStr s \<and> revision_text s"
  "digest_field label v = Inr s \<longleftrightarrow> v = PStr s \<and> digest_text s"
  "key_id_field label v = Inr s \<longleftrightarrow> v = PStr s \<and> key_id_text s"
  "signature_field label v = Inr s \<longleftrightarrow> v = PStr s \<and> signature_text s"
proof -
  show "safe_identifier label v = Inr s \<longleftrightarrow> v = PStr s \<and> safe_id_text s"
    unfolding safe_identifier_def
    by (rule matching_Inr_iff) (auto simp add: pattern_ascii safe_id_text_def split: list.splits)
  show "canonical_uuid label v = Inr s \<longleftrightarrow> v = PStr s \<and> canonical_uuid_text s"
    unfolding canonical_uuid_def
    by (rule matching_Inr_iff) (auto simp add: canonical_uuid_text_def uuid_form_ascii uuid_form_def)
  show "opaque_id label v = Inr s \<longleftrightarrow> v = PStr s \<and> opaque_id_text s"
    unfolding opaque_id_def
    by (rule matching_Inr_iff)
      (auto simp add: hex_pattern_ascii, auto simp add: opaque_id_text_def prefixed_hex64_def)
  show "revision_field label v = Inr s \<longleftrightarrow> v = PStr s \<and> revision_text s"
    unfolding revision_field_def
    by (rule matching_Inr_iff) (auto simp add: pattern_ascii revision_text_def split: list.splits)
  show "digest_field label v = Inr s \<longleftrightarrow> v = PStr s \<and> digest_text s"
    unfolding digest_field_def
    by (rule matching_Inr_iff)
      (auto simp add: hex_pattern_ascii, auto simp add: digest_text_def prefixed_hex64_def)
  show "key_id_field label v = Inr s \<longleftrightarrow> v = PStr s \<and> key_id_text s"
    unfolding key_id_field_def
    by (rule matching_Inr_iff)
      (auto simp add: hex_pattern_ascii, auto simp add: key_id_text_def prefixed_hex64_def)
  show "signature_field label v = Inr s \<longleftrightarrow> v = PStr s \<and> signature_text s"
    unfolding signature_field_def
    by (rule matching_Inr_iff) (auto simp add: pattern_ascii signature_text_def)
qed

lemma exact_version_Inr_iff [accepts]: "exact_version label n v = Inr u \<longleftrightarrow> v = PInt n"
  by (simp add: exact_version_def)

section \<open>Enumerations and ordered tuples\<close>

definition enum_value :: "'e enum_type \<Rightarrow> string \<Rightarrow> py \<Rightarrow> exn + 'e" where
  "enum_value E label v =
    (case v of
       PStr s \<Rightarrow> (case find (\<lambda>e. str (snd E e) = s) (fst E) of
                   Some e \<Rightarrow> Inr e | None \<Rightarrow> reject label)
     | _ \<Rightarrow> reject label)"

definition ordered_enum_tuple ::
    "'e enum_type \<Rightarrow> string \<Rightarrow> ('e \<Rightarrow> 'k::linorder) \<Rightarrow> nat \<Rightarrow> py \<Rightarrow> exn + 'e list" where
  "ordered_enum_tuple E label key maximum v =
    (case v of
       PList values \<Rightarrow>
         (if \<not> (1 \<le> length values \<and> length values \<le> maximum) then reject label
          else rbind (traverse (enum_value E label) values) (\<lambda>parsed.
            if \<not> distinct parsed then reject label
            else if sort_key key parsed \<noteq> parsed then reject label
            else Inr parsed))
     | _ \<Rightarrow> reject label)"

definition by_value :: "'e enum_type \<Rightarrow> 'e \<Rightarrow> pystr" where
  "by_value E e = str (snd E e)"

definition sorted_string_tuple :: "(string \<Rightarrow> py \<Rightarrow> exn + pystr) \<Rightarrow> string \<Rightarrow> nat \<Rightarrow> py \<Rightarrow> exn + pystr list" where
  "sorted_string_tuple validator label maximum v =
    (case v of
       PList values \<Rightarrow>
         (if \<not> (1 \<le> length values \<and> length values \<le> maximum) then reject label
          else rbind (traverse (validator label) values) (\<lambda>parsed.
            if \<not> distinct parsed \<or> sort parsed \<noteq> parsed then reject label
            else Inr parsed))
     | _ \<Rightarrow> reject label)"

definition enum_py :: "'e enum_type \<Rightarrow> 'e \<Rightarrow> py" where
  "enum_py E e = PStr (str (snd E e))"

lemma sort_key_fixed_iff: "sort_key f xs = xs \<longleftrightarrow> sorted (map f xs)"
  by (metis sorted_sort_key sort_key_id_if_sorted)

lemma sort_key_id_if_sorted_map: "sorted (map f xs) \<Longrightarrow> sort_key f xs = xs"
  by (simp add: sort_key_fixed_iff)

locale py_enum =
  fixes E :: "'e enum_type"
  assumes members: "set (fst E) = UNIV"
    and members_distinct: "distinct (fst E)"
    and values_distinct: "snd E x = snd E y \<Longrightarrow> x = y"
begin

lemma enum_value_Inr_iff [accepts]: "enum_value E label v = Inr e \<longleftrightarrow> v = enum_py E e"
proof (cases v)
  case (PStr s)
  show ?thesis
  proof (cases "find (\<lambda>e. str (snd E e) = s) (fst E)")
    case None
    then have "str (snd E e) \<noteq> s"
      using members by (auto simp add: find_None_iff)
    with None PStr show ?thesis by (auto simp add: enum_value_def enum_py_def)
  next
    case (Some e')
    then have "str (snd E e') = s" by (auto simp add: find_Some_iff)
    with Some PStr values_distinct show ?thesis by (auto simp add: enum_value_def enum_py_def)
  qed
qed (auto simp add: enum_value_def enum_py_def)

lemma traverse_enum_value:
  "traverse (enum_value E label) vs = Inr es \<longleftrightarrow> vs = map (enum_py E) es"
proof (induction vs arbitrary: es)
  case Nil
  then show ?case by auto
next
  case (Cons v vs)
  then show ?case by (cases es) (auto simp add: accepts)
qed

lemma ordered_enum_tuple_Inr_iff [accepts]:
  "ordered_enum_tuple E label key n v = Inr es \<longleftrightarrow>
     v = PList (map (enum_py E) es) \<and> es \<noteq> [] \<and> length es \<le> n \<and> distinct es \<and> sorted (map key es)"
proof (cases v)
  case (PList vs)
  have "length vs = length es \<and> (1 \<le> length vs \<longleftrightarrow> es \<noteq> [])" if "vs = map (enum_py E) es"
    using that by (cases es) auto
  with PList show ?thesis
    by (auto simp add: ordered_enum_tuple_def accepts traverse_enum_value sort_key_fixed_iff
        split: if_splits)
qed (auto simp add: ordered_enum_tuple_def)

lemma enum_py_inject [simp]: "enum_py E x = enum_py E y \<longleftrightarrow> x = y"
  using values_distinct by (auto simp add: enum_py_def)

lemma map_enum_py_inject [simp]: "map (enum_py E) xs = map (enum_py E) ys \<longleftrightarrow> xs = ys"
  by (rule inj_map_eq_map) (simp add: inj_def)

lemma by_value_inj: "by_value E x = by_value E y \<longleftrightarrow> x = y"
  using values_distinct by (auto simp add: by_value_def)

end

interpretation tk: py_enum TargetKind
proof
  show "set (fst TargetKind) = UNIV"
    by (auto simp add: TargetKind_def) (metis TargetKind.exhaust)
  show "distinct (fst TargetKind)" by (simp add: TargetKind_def)
  show "x = y" if "snd TargetKind x = snd TargetKind y" for x y
    using that by (cases x; cases y) (simp_all add: TargetKind_def)
qed

interpretation opn: py_enum Operation
proof
  show "set (fst Operation) = UNIV"
    by (auto simp add: Operation_def) (metis Operation.exhaust)
  show "distinct (fst Operation)" by (simp add: Operation_def)
  show "x = y" if "snd Operation x = snd Operation y" for x y
    using that by (cases x; cases y) (simp_all add: Operation_def)
qed

interpretation eff: py_enum Effect
proof
  show "set (fst Effect) = UNIV"
    by (auto simp add: Effect_def) (metis Effect.exhaust)
  show "distinct (fst Effect)" by (simp add: Effect_def)
  show "x = y" if "snd Effect x = snd Effect y" for x y
    using that by (cases x; cases y) (simp_all add: Effect_def)
qed

interpretation dcl: py_enum ControlDataClass
proof
  show "set (fst ControlDataClass) = UNIV"
    by (auto simp add: ControlDataClass_def) (metis ControlDataClass.exhaust)
  show "distinct (fst ControlDataClass)" by (simp add: ControlDataClass_def)
  show "x = y" if "snd ControlDataClass x = snd ControlDataClass y" for x y
    using that by (cases x; cases y) (simp_all add: ControlDataClass_def)
qed

interpretation rte: py_enum ControlRoute
proof
  show "set (fst ControlRoute) = UNIV"
    by (auto simp add: ControlRoute_def ROUTE_ORDER_def) (metis ControlRoute.exhaust)
  show "distinct (fst ControlRoute)" by (simp add: ControlRoute_def ROUTE_ORDER_def)
  show "x = y" if "snd ControlRoute x = snd ControlRoute y" for x y
    using that by (cases x; cases y) (simp_all add: ControlRoute_def)
qed

lemma traverse_validator:
  assumes "\<And>v s. validator label v = Inr s \<longleftrightarrow> v = PStr s \<and> p s"
  shows "traverse (validator label) vs = Inr ss \<longleftrightarrow> vs = map PStr ss \<and> list_all p ss"
proof (induction vs arbitrary: ss)
  case Nil
  then show ?case by auto
next
  case (Cons v vs)
  then show ?case by (cases ss) (auto simp add: accepts assms)
qed

lemma sorted_string_tuple_Inr_iff:
  assumes "\<And>v s. validator label v = Inr s \<longleftrightarrow> v = PStr s \<and> p s"
  shows "sorted_string_tuple validator label n v = Inr ss \<longleftrightarrow>
     v = PList (map PStr ss) \<and> list_all p ss \<and> ss \<noteq> [] \<and> length ss \<le> n \<and> distinct ss \<and> sorted ss"
proof (cases v)
  case (PList vs)
  have "length vs = length ss \<and> (1 \<le> length vs \<longleftrightarrow> ss \<noteq> [])" if "vs = map PStr ss"
    using that by (cases ss) auto
  moreover have "sort ss = ss \<longleftrightarrow> sorted ss"
    using sort_key_fixed_iff [of "\<lambda>x. x" ss] by simp
  ultimately show ?thesis
    using PList traverse_validator [where validator = validator and p = p, OF assms, of vs ss]
    by (auto simp add: sorted_string_tuple_def accepts split: if_splits)
qed (auto simp add: sorted_string_tuple_def)

lemma sorted_opaque_tuple_Inr_iff [accepts]:
  "sorted_string_tuple opaque_id label n v = Inr ss \<longleftrightarrow>
     v = PList (map PStr ss) \<and> list_all opaque_id_text ss \<and> ss \<noteq> [] \<and> length ss \<le> n \<and> distinct ss
     \<and> sorted ss"
  by (rule sorted_string_tuple_Inr_iff) (simp add: accepts)

end
