(* ===== verification/Py_Json.thy ===== *)
theory Py_Json
  imports Py_Codec
begin

text \<open>
  The \<open>json\<close> module of the Python standard library as the program uses it.

  \<^item> \<open>json_dumps\<close> is \<open>json.dumps(value, sort_keys=True, ensure_ascii=False, allow_nan=False,
    separators=(",", ":"))\<close>.
  \<^item> \<open>json_loads h limit\<close> is \<open>json.loads(text, object_pairs_hook=..., parse_int=...,
    parse_float=..., parse_constant=...)\<close> with the four hooks \<open>h\<close>. \<open>limit\<close> is the nesting the
    interpreter's stack allows; beyond it the scanner raises \<open>RecursionError\<close>.

  The scanner follows CPython's \<open>_json.c\<close>: it reads left to right, calls a hook as soon as its
  token is complete, and so raises the first error of the text. The loops over the elements of an
  array and the members of an object recur on the remaining text; the guard that makes this
  recursion well-founded never fails, because every scan consumes its token (\<open>scan_consumes\<close>).

  The main result is \<open>scan_json_text\<close>: scanning the text of a value gives the value back.
\<close>

section \<open>Printing\<close>

definition json_escape :: "nat \<Rightarrow> pystr" where
  "json_escape c =
    (if c = 34 then [92, 34] else if c = 92 then [92, 92] else if c = 10 then [92, 110]
     else if c = 13 then [92, 114] else if c = 9 then [92, 116] else if c = 12 then [92, 102]
     else if c = 8 then [92, 98]
     else if c < 32 then [92, 117, 48, 48, hex_char (c div 16), hex_char (c mod 16)]
     else [c])"

definition json_string :: "pystr \<Rightarrow> pystr" where
  "json_string s = 34 # concat (map json_escape s) @ [34]"

fun comma_join :: "pystr list \<Rightarrow> pystr" where
  "comma_join [] = []"
| "comma_join [x] = x"
| "comma_join (x # y # xs) = x @ 44 # comma_join (y # xs)"

fun json_text :: "py \<Rightarrow> pystr" where
  "json_text PNone = str ''null''"
| "json_text (PBool b) = (if b then str ''true'' else str ''false'')"
| "json_text (PInt i) = int_repr i"
| "json_text (PStr s) = json_string s"
| "json_text (PList xs) = 91 # comma_join (map json_text xs) @ [93]"
| "json_text (PDict kvs) =
     123 # comma_join (map (\<lambda>kv. json_string (fst kv) @ 58 # json_text (snd kv)) kvs) @ [125]"
| "json_text POther = []"

text \<open>\<open>json.dumps\<close> raises \<open>TypeError\<close> on a value of any other type. (Among those it would print a
  float; the program never passes one.)\<close>

fun serializable :: "py \<Rightarrow> bool" where
  "serializable (PList xs) = list_all serializable xs"
| "serializable (PDict kvs) = list_all (\<lambda>kv. serializable (snd kv)) kvs"
| "serializable POther = False"
| "serializable _ = True"

definition json_dumps :: "py \<Rightarrow> exn + pystr" where
  "json_dumps v = (if serializable v then Inr (json_text (psort v)) else Inl TypeError)"

section \<open>Scanning\<close>

record json_hooks =
  object_pairs_hook :: "(pystr \<times> py) list \<Rightarrow> exn + py"
  parse_int :: "pystr \<Rightarrow> exn + py"
  parse_float :: "pystr \<Rightarrow> exn + py"
  parse_constant :: "pystr \<Rightarrow> exn + py"

type_synonym scanner = "pystr \<Rightarrow> exn + py \<times> pystr"

definition json_ws :: "nat \<Rightarrow> bool" where
  "json_ws c \<longleftrightarrow> c = 32 \<or> c = 9 \<or> c = 10 \<or> c = 13"

definition skip_ws :: "pystr \<Rightarrow> pystr" where
  "skip_ws s = dropWhile json_ws s"

definition hex_digit :: "nat \<Rightarrow> nat option" where
  "hex_digit c =
    (if 48 \<le> c \<and> c \<le> 57 then Some (c - 48)
     else if 97 \<le> c \<and> c \<le> 102 then Some (c - 87)
     else if 65 \<le> c \<and> c \<le> 70 then Some (c - 55) else None)"

fun hex4 :: "pystr \<Rightarrow> (nat \<times> pystr) option" where
  "hex4 (a # b # c # d # rest) =
     (case (hex_digit a, hex_digit b, hex_digit c, hex_digit d) of
        (Some p, Some q, Some r, Some t) \<Rightarrow> Some (p * 4096 + q * 256 + r * 16 + t, rest)
      | _ \<Rightarrow> None)"
| "hex4 _ = None"

text \<open>A four-digit escape, joined with the low-surrogate escape that follows a high surrogate.\<close>

definition unicode_escape :: "pystr \<Rightarrow> (nat \<times> pystr) option" where
  "unicode_escape s =
    (case hex4 s of
       None \<Rightarrow> None
     | Some (u, rest) \<Rightarrow>
         (if 55296 \<le> u \<and> u \<le> 56319 then
            (case rest of
               b # c # beyond \<Rightarrow>
                 (if b = 92 \<and> c = 117 then
                    (case hex4 beyond of
                       Some (l, rest') \<Rightarrow>
                         (if 56320 \<le> l \<and> l \<le> 57343
                          then Some (65536 + (u - 55296) * 1024 + (l - 56320), rest')
                          else Some (u, rest))
                     | None \<Rightarrow> Some (u, rest))
                  else Some (u, rest))
             | _ \<Rightarrow> Some (u, rest))
          else Some (u, rest)))"

definition simple_escape :: "nat \<Rightarrow> nat option" where
  "simple_escape c =
    (if c = 34 \<or> c = 92 \<or> c = 47 then Some c else if c = 98 then Some 8
     else if c = 102 then Some 12 else if c = 110 then Some 10 else if c = 114 then Some 13
     else if c = 116 then Some 9 else None)"

definition add_char :: "nat \<Rightarrow> exn + pystr \<times> pystr \<Rightarrow> exn + pystr \<times> pystr" where
  "add_char c m = rbind m (\<lambda>(s, rest). Inr (c # s, rest))"

lemma hex4_shorter: "hex4 s = Some (u, r) \<Longrightarrow> length r < length s"
  by (cases s rule: hex4.cases) (auto split: option.splits)

lemma unicode_escape_shorter: "unicode_escape s = Some (u, r) \<Longrightarrow> length r < length s"
  by (auto simp add: unicode_escape_def dest!: hex4_shorter split: option.splits list.splits if_splits)

text \<open>The text of a string after its opening quote (\<open>strict=True\<close>: no raw control character).\<close>

function scanstring :: "pystr \<Rightarrow> exn + pystr \<times> pystr" where
  "scanstring [] = Inl JSONDecodeError"
| "scanstring (c # cs) =
    (if c = 34 then Inr ([], cs)
     else if c = 92 then
       (case cs of
          [] \<Rightarrow> Inl JSONDecodeError
        | e # es \<Rightarrow>
            (if e = 117 then
               (case unicode_escape es of
                  None \<Rightarrow> Inl JSONDecodeError
                | Some (u, rest) \<Rightarrow> add_char u (scanstring rest))
             else
               (case simple_escape e of
                  None \<Rightarrow> Inl JSONDecodeError
                | Some x \<Rightarrow> add_char x (scanstring es))))
     else if c \<le> 31 then Inl JSONDecodeError
     else add_char c (scanstring cs))"
  by pat_completeness auto
termination
  by (relation "measure length") (auto dest: unicode_escape_shorter)

definition number_exponent :: "pystr \<Rightarrow> pystr" where
  "number_exponent s =
    (case s of
       e # r \<Rightarrow>
         (if e = 101 \<or> e = 69 then
            (let sign = (case r of g # _ \<Rightarrow> (if g = 43 \<or> g = 45 then [g] else []) | [] \<Rightarrow> []);
                 digits = takeWhile digit (drop (length sign) r)
             in if digits = [] then [] else e # sign @ digits)
          else [])
     | [] \<Rightarrow> [])"

definition number_fraction :: "pystr \<Rightarrow> pystr" where
  "number_fraction s =
    (case s of
       p # d # _ \<Rightarrow> (if p = 46 \<and> digit d then p # takeWhile digit (tl s) else [])
     | _ \<Rightarrow> [])"

text \<open>The integer part, and the fraction and exponent, at the head of a text.\<close>

definition match_number :: "pystr \<Rightarrow> (pystr \<times> pystr \<times> pystr) option" where
  "match_number s =
    (let sign = (case s of c # _ \<Rightarrow> (if c = 45 then [c] else []) | [] \<Rightarrow> []);
         t = drop (length sign) s
     in case t of
          [] \<Rightarrow> None
        | c # cs \<Rightarrow>
            (if digit c then
               (let whole = (if c = 48 then [c] else takeWhile digit t);
                    u = drop (length whole) t;
                    fraction = number_fraction u;
                    power = number_exponent (drop (length fraction) u)
                in Some (sign @ whole, fraction @ power,
                         drop (length (fraction @ power)) u))
             else None))"

definition starts_with :: "string \<Rightarrow> pystr \<Rightarrow> bool" where
  "starts_with p s \<longleftrightarrow> take (length p) s = str p"

function scan_elements :: "scanner \<Rightarrow> pystr \<Rightarrow> exn + py list \<times> pystr" where
  "scan_elements scan s =
     rbind (scan s) (\<lambda>(v, r).
       case skip_ws r of
         [] \<Rightarrow> Inl JSONDecodeError
       | c # t \<Rightarrow>
           if c = 93 then Inr ([v], t)
           else if c = 44 \<and> length t < length s then
             rbind (scan_elements scan (skip_ws t)) (\<lambda>(vs, u). Inr (v # vs, u))
           else Inl JSONDecodeError)"
  by pat_completeness auto
termination
  by (relation "measure (\<lambda>(scan, s). length s)")
    (auto simp add: skip_ws_def intro: le_less_trans [OF length_dropWhile_le])

function scan_members :: "scanner \<Rightarrow> pystr \<Rightarrow> exn + (pystr \<times> py) list \<times> pystr" where
  "scan_members scan s =
     (case s of
        [] \<Rightarrow> Inl JSONDecodeError
      | q # cs \<Rightarrow>
          if q \<noteq> 34 then Inl JSONDecodeError
          else rbind (scanstring cs) (\<lambda>(k, r1).
            case skip_ws r1 of
              [] \<Rightarrow> Inl JSONDecodeError
            | colon # r2 \<Rightarrow>
                if colon \<noteq> 58 then Inl JSONDecodeError
                else rbind (scan (skip_ws r2)) (\<lambda>(v, r3).
                  case skip_ws r3 of
                    [] \<Rightarrow> Inl JSONDecodeError
                  | c # t \<Rightarrow>
                      if c = 125 then Inr ([(k, v)], t)
                      else if c = 44 \<and> length t < length s then
                        rbind (scan_members scan (skip_ws t)) (\<lambda>(kvs, u). Inr ((k, v) # kvs, u))
                      else Inl JSONDecodeError)))"
  by pat_completeness auto
termination
  by (relation "measure (\<lambda>(scan, s). length s)")
    (auto simp add: skip_ws_def intro: le_less_trans [OF length_dropWhile_le])

declare scan_elements.simps [simp del] scan_members.simps [simp del]

text \<open>One value. \<open>nested\<close> scans a value one level deeper; it is absent at the nesting limit.\<close>

definition scan_step :: "json_hooks \<Rightarrow> scanner option \<Rightarrow> scanner" where
  "scan_step h nested s =
    (case s of
       [] \<Rightarrow> Inl JSONDecodeError
     | c # cs \<Rightarrow>
         if c = 34 then rbind (scanstring cs) (\<lambda>(t, r). Inr (PStr t, r))
         else if c = 123 then
           (case nested of
              None \<Rightarrow> Inl RecursionError
            | Some scan \<Rightarrow>
                rbind (case skip_ws cs of
                         d # t \<Rightarrow> (if d = 125 then Inr ([], t) else scan_members scan (d # t))
                       | [] \<Rightarrow> Inl JSONDecodeError)
                  (\<lambda>(kvs, r). rbind (object_pairs_hook h kvs) (\<lambda>v. Inr (v, r))))
         else if c = 91 then
           (case nested of
              None \<Rightarrow> Inl RecursionError
            | Some scan \<Rightarrow>
                rbind (case skip_ws cs of
                         d # t \<Rightarrow> (if d = 93 then Inr ([], t) else scan_elements scan (d # t))
                       | [] \<Rightarrow> Inl JSONDecodeError)
                  (\<lambda>(vs, r). Inr (PList vs, r)))
         else if starts_with ''null'' s then Inr (PNone, drop 4 s)
         else if starts_with ''true'' s then Inr (PBool True, drop 4 s)
         else if starts_with ''false'' s then Inr (PBool False, drop 5 s)
         else if starts_with ''NaN'' s then
           rbind (parse_constant h (str ''NaN'')) (\<lambda>v. Inr (v, drop 3 s))
         else if starts_with ''Infinity'' s then
           rbind (parse_constant h (str ''Infinity'')) (\<lambda>v. Inr (v, drop 8 s))
         else if starts_with ''-Infinity'' s then
           rbind (parse_constant h (str ''-Infinity'')) (\<lambda>v. Inr (v, drop 9 s))
         else
           (case match_number s of
              None \<Rightarrow> Inl JSONDecodeError
            | Some (whole, [], r) \<Rightarrow> rbind (parse_int h whole) (\<lambda>v. Inr (v, r))
            | Some (whole, x # xs, r) \<Rightarrow>
                rbind (parse_float h (whole @ x # xs)) (\<lambda>v. Inr (v, r))))"

primrec scan_once :: "json_hooks \<Rightarrow> nat \<Rightarrow> scanner" where
  "scan_once h 0 = scan_step h None"
| "scan_once h (Suc d) = scan_step h (Some (scan_once h d))"

definition json_loads :: "json_hooks \<Rightarrow> nat \<Rightarrow> pystr \<Rightarrow> exn + py" where
  "json_loads h limit s =
    (if take 1 s = [65279] then Inl JSONDecodeError
     else rbind (scan_once h limit (skip_ws s)) (\<lambda>(v, r).
       if skip_ws r = [] then Inr v else Inl JSONDecodeError))"

section \<open>Every scan consumes its token\<close>

definition consumes :: "scanner \<Rightarrow> bool" where
  "consumes scan \<longleftrightarrow> (\<forall>s v r. scan s = Inr (v, r) \<longrightarrow> length r < length s)"

lemma length_skip_ws: "length (skip_ws s) \<le> length s"
  by (simp add: skip_ws_def length_dropWhile_le)

lemma skip_ws_ConsD: "skip_ws s = c # t \<Longrightarrow> length t < length s"
  using length_skip_ws [of s] by simp

lemma add_char_Inr_iff [accepts]:
  "add_char c m = Inr (s, r) \<longleftrightarrow> (\<exists>s'. s = c # s' \<and> m = Inr (s', r))"
  by (auto simp add: add_char_def accepts)

lemma scanstring_shorter: "scanstring s = Inr (t, r) \<Longrightarrow> length r < length s"
proof (induction s arbitrary: t r rule: scanstring.induct)
  case 1
  then show ?case by simp
next
  case (2 c cs)
  consider (close) "c = 34" | (esc) "c = 92" | (ctrl) "c \<noteq> 34" "c \<noteq> 92" "c \<le> 31"
    | (plain) "c \<noteq> 34" "c \<noteq> 92" "\<not> c \<le> 31"
    by blast
  then show ?case
  proof cases
    case close
    with "2.prems" show ?thesis by simp
  next
    case esc
    with "2.prems" obtain e es where cs: "cs = e # es"
      by (auto split: list.splits)
    show ?thesis
    proof (cases "e = 117")
      case True
      with "2.prems" esc cs obtain u rest t' where u: "unicode_escape es = Some (u, rest)"
        and t': "scanstring rest = Inr (t', r)"
        by (auto simp add: accepts split: option.splits)
      have "length r < length rest"
        using "2.IH"(1) [OF _ esc cs True u refl t'] esc by simp
      with unicode_escape_shorter [OF u] cs show ?thesis by simp
    next
      case False
      with "2.prems" esc cs obtain x t' where x: "simple_escape e = Some x"
        and t': "scanstring es = Inr (t', r)"
        by (auto simp add: accepts split: option.splits)
      have "length r < length es"
        using "2.IH"(2) [OF _ esc cs False x t'] esc by simp
      with cs show ?thesis by simp
    qed
  next
    case ctrl
    with "2.prems" show ?thesis by simp
  next
    case plain
    with "2.prems" obtain t' where t': "scanstring cs = Inr (t', r)"
      by (auto simp add: accepts)
    with "2.IH"(3) [OF plain t'] show ?thesis by simp
  qed
qed

lemma scan_elements_InrE:
  assumes "scan_elements scan s = Inr (vs, r)"
  obtains v r1 t where "scan s = Inr (v, r1)" "skip_ws r1 = 93 # t" "vs = [v]" "r = t"
  | v r1 t vs' where "scan s = Inr (v, r1)" "skip_ws r1 = 44 # t" "length t < length s"
      "scan_elements scan (skip_ws t) = Inr (vs', r)" "vs = v # vs'"
proof -
  from assms obtain x where x: "scan s = Inr x"
    and k: "(case x of (v, r) \<Rightarrow> case skip_ws r of [] \<Rightarrow> Inl JSONDecodeError
       | c # t \<Rightarrow> if c = 93 then Inr ([v], t)
           else if c = 44 \<and> length t < length s then
             rbind (scan_elements scan (skip_ws t)) (\<lambda>(vs, u). Inr (v # vs, u))
           else Inl JSONDecodeError) = Inr (vs, r)"
    unfolding scan_elements.simps [of scan s] by (rule rbind_InrE)
  obtain v r1 where xv: "x = (v, r1)" by (cases x)
  with k obtain c t where ws: "skip_ws r1 = c # t" by (auto split: list.splits)
  show thesis
  proof (cases "c = 93")
    case True
    with k ws xv x that(1) show thesis by simp
  next
    case False
    with k ws xv have c: "c = 44" "length t < length s"
      and "rbind (scan_elements scan (skip_ws t)) (\<lambda>(vs, u). Inr (v # vs, u)) = Inr (vs, r)"
      by (simp_all split: if_splits)
    then obtain vs' where "scan_elements scan (skip_ws t) = Inr (vs', r)" "vs = v # vs'"
      by auto
    with c ws xv x that(2) show thesis by simp
  qed
qed

lemma scan_elements_shorter:
  assumes "consumes scan"
  shows "scan_elements scan s = Inr (vs, r) \<Longrightarrow> length r < length s"
proof (induction "length s" arbitrary: s vs r rule: less_induct)
  case less
  from less.prems show ?case
  proof (cases rule: scan_elements_InrE)
    case (1 v r1 t)
    with assms have "length r1 < length s" by (auto simp add: consumes_def)
    with 1 skip_ws_ConsD [of r1 93 t] show ?thesis by simp
  next
    case (2 v r1 t vs')
    have "length (skip_ws t) < length s"
      using 2(3) length_skip_ws [of t] by simp
    with less.hyps 2(4) have "length r < length (skip_ws t)" by blast
    with 2(3) length_skip_ws [of t] show ?thesis by simp
  qed
qed

lemma scan_members_InrE:
  assumes "scan_members scan s = Inr (kvs, r)"
  obtains k cs r1 r2 v r3 t where "s = 34 # cs" "scanstring cs = Inr (k, r1)"
      "skip_ws r1 = 58 # r2" "scan (skip_ws r2) = Inr (v, r3)" "skip_ws r3 = 125 # t"
      "kvs = [(k, v)]" "r = t"
  | k cs r1 r2 v r3 t kvs' where "s = 34 # cs" "scanstring cs = Inr (k, r1)"
      "skip_ws r1 = 58 # r2" "scan (skip_ws r2) = Inr (v, r3)" "skip_ws r3 = 44 # t"
      "length t < length s" "scan_members scan (skip_ws t) = Inr (kvs', r)" "kvs = (k, v) # kvs'"
proof -
  let ?loop = "\<lambda>k v r3. case skip_ws r3 of [] \<Rightarrow> Inl JSONDecodeError
     | c # t \<Rightarrow> if c = 125 then Inr ([(k, v)], t)
         else if c = 44 \<and> length t < length s then
           rbind (scan_members scan (skip_ws t)) (\<lambda>(kvs, u). Inr ((k, v) # kvs, u))
         else Inl JSONDecodeError"
  from assms obtain cs where s: "s = 34 # cs"
    unfolding scan_members.simps [of scan s] by (auto split: list.splits if_splits)
  from assms s obtain k r1 where k: "scanstring cs = Inr (k, r1)"
    and m1: "(case skip_ws r1 of [] \<Rightarrow> Inl JSONDecodeError
       | colon # r2 \<Rightarrow> if colon \<noteq> 58 then Inl JSONDecodeError
           else rbind (scan (skip_ws r2)) (\<lambda>(v, r3). ?loop k v r3)) = Inr (kvs, r)"
    unfolding scan_members.simps [of scan s] by auto
  from m1 obtain r2 where r2: "skip_ws r1 = 58 # r2"
    and "rbind (scan (skip_ws r2)) (\<lambda>(v, r3). ?loop k v r3) = Inr (kvs, r)"
    by (auto split: list.splits if_splits)
  then obtain v r3 where v: "scan (skip_ws r2) = Inr (v, r3)" and m2: "?loop k v r3 = Inr (kvs, r)"
    by auto
  from m2 obtain c t where ws: "skip_ws r3 = c # t" by (auto split: list.splits)
  show thesis
  proof (cases "c = 125")
    case True
    with m2 ws show thesis by (intro that(1) [OF s k r2 v]) simp_all
  next
    case False
    with m2 ws have c: "c = 44" "length t < length s"
      and "rbind (scan_members scan (skip_ws t)) (\<lambda>(kvs, u). Inr ((k, v) # kvs, u)) = Inr (kvs, r)"
      by (simp_all split: if_splits)
    then obtain kvs' where "scan_members scan (skip_ws t) = Inr (kvs', r)" "kvs = (k, v) # kvs'"
      by auto
    with c ws show thesis by (intro that(2) [OF s k r2 v]) simp_all
  qed
qed

lemma scan_member_head_shorter:
  assumes "consumes scan" "scanstring cs = Inr (k, r1)" "skip_ws r1 = 58 # r2"
    "scan (skip_ws r2) = Inr (v, r3)" "skip_ws r3 = c # t"
  shows "length t < length cs"
proof -
  have "length r1 < length cs" using assms(2) by (rule scanstring_shorter)
  moreover have "length r2 < length r1" using assms(3) by (rule skip_ws_ConsD)
  moreover have "length r3 < length (skip_ws r2)" using assms(1,4) by (auto simp add: consumes_def)
  moreover have "length t < length r3" using assms(5) by (rule skip_ws_ConsD)
  ultimately show ?thesis using length_skip_ws [of r2] by linarith
qed

lemma scan_members_shorter:
  assumes "consumes scan"
  shows "scan_members scan s = Inr (kvs, r) \<Longrightarrow> length r < length s"
proof (induction "length s" arbitrary: s kvs r rule: less_induct)
  case less
  from less.prems show ?case
  proof (cases rule: scan_members_InrE)
    case (1 k cs r1 r2 v r3 t)
    with scan_member_head_shorter [OF assms 1(2-5)] show ?thesis by simp
  next
    case (2 k cs r1 r2 v r3 t kvs')
    have "length (skip_ws t) < length s"
      using 2(6) length_skip_ws [of t] by simp
    with less.hyps 2(7) have "length r < length (skip_ws t)" by blast
    with 2(6) length_skip_ws [of t] show ?thesis by simp
  qed
qed

text \<open>So the guard on the remaining length in the two loops is always true.\<close>

lemma scan_elements_guard:
  assumes "consumes scan" "scan s = Inr (v, r)" "skip_ws r = c # t"
  shows "length t < length s"
  using assms skip_ws_ConsD [OF assms(3)] by (fastforce simp add: consumes_def)

lemma starts_with_length: "starts_with p s \<Longrightarrow> length p \<le> length s"
  by (metis length_str length_take min.absorb_iff1 starts_with_def min.commute)

lemma match_number_shorter: "match_number s = Some (w, x, r) \<Longrightarrow> length r < length s"
proof -
  assume m: "match_number s = Some (w, x, r)"
  let ?sign = "case s of c # _ \<Rightarrow> (if c = 45 then [c] else []) | [] \<Rightarrow> []"
  obtain c cs where t: "drop (length ?sign) s = c # cs" and "digit c"
    using m by (auto simp add: match_number_def Let_def split: list.splits if_splits)
  define whole where "whole = (if c = 48 then [c] else takeWhile digit (c # cs))"
  have "whole \<noteq> []" using \<open>digit c\<close> by (simp add: whole_def)
  moreover have "\<exists>k. r = drop k (drop (length whole) (c # cs))"
    using m t \<open>digit c\<close> by (auto simp add: match_number_def Let_def whole_def)
  ultimately have "length r \<le> length cs"
    by (cases whole) auto
  moreover have "Suc (length cs) \<le> length s"
    using arg_cong [OF t, of length] by simp
  ultimately show ?thesis by simp
qed

lemma scan_step_consumes:
  assumes "\<And>scan. nested = Some scan \<Longrightarrow> consumes scan"
  shows "consumes (scan_step h nested)"
  unfolding consumes_def
proof (intro allI impI)
  fix s v r
  assume scan: "scan_step h nested s = Inr (v, r)"
  then obtain c cs where s: "s = c # cs"
    by (cases s) (simp_all add: scan_step_def)
  show "length r < length s"
  proof (cases "c = 34 \<or> c = 123 \<or> c = 91")
    case True
    then show ?thesis
    proof (elim disjE)
      assume "c = 34"
      with scan s show ?thesis
        by (auto simp add: scan_step_def dest: scanstring_shorter)
    next
      assume c: "c = 123"
      with scan s obtain n d t kvs where n: "nested = Some n" and ws: "skip_ws cs = d # t"
        and k: "(if d = 125 then Inr ([], t) else scan_members n (d # t)) = Inr (kvs, r)"
        by (auto simp add: scan_step_def split: option.splits list.splits)
      have "length r \<le> length (d # t)"
        using k scan_members_shorter [OF assms [OF n], of "d # t" kvs r] by (cases "d = 125") auto
      with length_skip_ws [of cs] ws s show ?thesis by simp
    next
      assume c: "c = 91"
      with scan s obtain n d t vs where n: "nested = Some n" and ws: "skip_ws cs = d # t"
        and k: "(if d = 93 then Inr ([], t) else scan_elements n (d # t)) = Inr (vs, r)"
        by (auto simp add: scan_step_def split: option.splits list.splits)
      have "length r \<le> length (d # t)"
        using k scan_elements_shorter [OF assms [OF n], of "d # t" vs r] by (cases "d = 93") auto
      with length_skip_ws [of cs] ws s show ?thesis by simp
    qed
  next
    case False
    with scan s show ?thesis
      by (auto simp add: scan_step_def split: if_splits option.splits list.splits
          dest!: starts_with_length match_number_shorter)
  qed
qed

lemma scan_consumes: "consumes (scan_once h d)"
  by (induction d) (auto intro: scan_step_consumes)

section \<open>Scanning what was printed\<close>

text \<open>The values whose text the scanner reads back: containers nested at most \<open>d\<close> deep, distinct
  keys, and integers that satisfy \<open>ok\<close>.\<close>

fun scannable :: "(int \<Rightarrow> bool) \<Rightarrow> nat \<Rightarrow> py \<Rightarrow> bool" where
  "scannable ok d (PInt i) = ok i"
| "scannable ok 0 (PList xs) = False"
| "scannable ok (Suc d) (PList xs) = list_all (scannable ok d) xs"
| "scannable ok 0 (PDict kvs) = False"
| "scannable ok (Suc d) (PDict kvs) =
     (distinct (map fst kvs) \<and> list_all (\<lambda>kv. scannable ok d (snd kv)) kvs)"
| "scannable ok d POther = False"
| "scannable ok d v = True"

text \<open>What may follow a value inside a document.\<close>

definition delimited :: "pystr \<Rightarrow> bool" where
  "delimited rest \<longleftrightarrow> (case rest of [] \<Rightarrow> True | c # _ \<Rightarrow> c = 44 \<or> c = 93 \<or> c = 125)"

lemma hex_digit_char [simp]: "d < 16 \<Longrightarrow> hex_digit (hex_char d) = Some d"
  by (auto simp add: hex_digit_def hex_char_def)

lemma scanstring_escape: "scanstring (json_escape c @ t) = add_char c (scanstring t)"
proof -
  have "c < 32 \<Longrightarrow> unicode_escape (48 # 48 # hex_char (c div 16) # hex_char (c mod 16) # t) = Some (c, t)"
    by (simp add: unicode_escape_def hex_digit_def [of 48] less_mult_imp_div_less)
  then show ?thesis
    by (auto simp add: json_escape_def simple_escape_def)
qed

lemma scanstring_json_string [simp]:
  "scanstring (concat (map json_escape s) @ 34 # rest) = Inr (s, rest)"
  by (induction s) (simp_all add: scanstring_escape add_char_def)

lemma takeWhile_digits:
  "list_all digit ds \<Longrightarrow> delimited rest \<Longrightarrow> takeWhile digit (ds @ rest) = ds"
  by (cases rest) (auto simp add: delimited_def digit_def list_all_iff)

lemma decimal_shape:
  obtains c cs where "decimal n = c # cs" "digit c" "c \<noteq> 45" "c = 48 \<longrightarrow> cs = []" "list_all digit cs"
proof -
  obtain c cs where d: "decimal n = c # cs" by (cases "decimal n") auto
  have "list_all digit (c # cs)" using decimal_digits [of n] by (simp add: d)
  moreover have "c = 48 \<longrightarrow> cs = []"
    using hd_decimal [of n] decimal_0 d by auto
  ultimately show thesis using d that by (auto simp add: digit_def)
qed

lemma match_number_decimal:
  assumes "delimited rest"
  shows "match_number (decimal n @ rest) = Some (decimal n, [], rest)"
    and "match_number (45 # decimal n @ rest) = Some (45 # decimal n, [], rest)"
proof -
  have tail: "number_fraction rest = []" "number_exponent rest = []"
    using assms
    by (auto simp add: number_fraction_def number_exponent_def delimited_def split: list.splits)
  obtain c cs where d: "decimal n = c # cs" and c: "digit c" "c \<noteq> 45" "c = 48 \<longrightarrow> cs = []"
    and cs: "list_all digit cs"
    by (rule decimal_shape)
  have "takeWhile digit (c # cs @ rest) = c # cs"
    using takeWhile_digits [of "c # cs" rest] c(1) cs assms by simp
  then show "match_number (decimal n @ rest) = Some (decimal n, [], rest)"
    and "match_number (45 # decimal n @ rest) = Some (45 # decimal n, [], rest)"
    using c tail by (auto simp add: match_number_def d Let_def)
qed

lemma scan_step_int:
  assumes "delimited rest"
  shows "scan_step h nested (int_repr i @ rest) = rbind (parse_int h (int_repr i)) (\<lambda>v. Inr (v, rest))"
proof -
  obtain c cs where d: "decimal (nat \<bar>i\<bar>) = c # cs" and c: "digit c" "list_all digit cs"
    by (rule decimal_shape)
  have first: "c \<noteq> 34" "c \<noteq> 123" "c \<noteq> 91" "c \<noteq> 110" "c \<noteq> 116" "c \<noteq> 102" "c \<noteq> 78" "c \<noteq> 73"
    "c \<noteq> 45"
    using c(1) by (auto simp add: digit_def)
  show ?thesis
  proof (cases "i < 0")
    case True
    then have "int_repr i = 45 # c # cs" using d by (simp add: int_repr_def)
    then show ?thesis
      using match_number_decimal(2) [OF assms, of "nat \<bar>i\<bar>"] first
      by (simp add: scan_step_def starts_with_def str_def d)
  next
    case False
    then have "int_repr i = c # cs" using d by (simp add: int_repr_def)
    then show ?thesis
      using match_number_decimal(1) [OF assms, of "nat \<bar>i\<bar>"] first
      by (simp add: scan_step_def starts_with_def str_def d)
  qed
qed

definition value_start :: "nat \<Rightarrow> bool" where
  "value_start c \<longleftrightarrow> \<not> json_ws c \<and> c \<noteq> 93 \<and> c \<noteq> 125"

lemma json_text_start:
  assumes "scannable ok d v"
  obtains c cs where "json_text v = c # cs" "value_start c"
proof (cases v)
  case (PInt i)
  obtain c cs where "decimal (nat \<bar>i\<bar>) = c # cs" "digit c" by (rule decimal_shape)
  then show thesis
    using that PInt
    by (cases "i < 0") (auto simp add: int_repr_def value_start_def json_ws_def digit_def)
next
  case (PBool b)
  then show thesis
    using that by (cases b) (auto simp add: value_start_def json_ws_def str_def)
qed (use assms in \<open>auto intro: that simp: value_start_def json_ws_def str_def json_string_def\<close>)

lemma skip_ws_start [simp]: "\<not> json_ws c \<Longrightarrow> skip_ws (c # s) = c # s"
  by (simp add: skip_ws_def)

lemma json_ws_punctuation [simp]:
  "\<not> json_ws 44" "\<not> json_ws 93" "\<not> json_ws 125" "\<not> json_ws 58" "\<not> json_ws 34"
  "\<not> json_ws 91" "\<not> json_ws 123"
  by (simp_all add: json_ws_def)

lemma delimited_punctuation [simp]:
  "delimited (44 # s)" "delimited (93 # s)" "delimited (125 # s)" "delimited []"
  by (simp_all add: delimited_def)

lemma comma_join_Cons: "xs \<noteq> [] \<Longrightarrow> comma_join (x # xs) = x @ 44 # comma_join xs"
  by (cases xs) simp_all

lemma scan_elements_text:
  assumes "xs \<noteq> []"
    and "\<And>x rest. x \<in> set xs \<Longrightarrow> delimited rest \<Longrightarrow> scan (json_text x @ rest) = Inr (x, rest)"
    and "\<And>x. x \<in> set xs \<Longrightarrow> scannable ok d x"
  shows "scan_elements scan (comma_join (map json_text xs) @ 93 # rest) = Inr (xs, rest)"
  using assms
proof (induction xs)
  case Nil
  then show ?case by simp
next
  case (Cons x xs)
  show ?case
  proof (cases xs)
    case Nil
    then show ?thesis
      using Cons.prems(2) [of x "93 # rest"] by (simp add: scan_elements.simps)
  next
    case (Cons y ys)
    let ?t = "comma_join (map json_text xs) @ 93 # rest"
    obtain c cs where "json_text y = c # cs" "value_start c"
      using Cons.prems(3) [of y] Cons json_text_start by (metis list.set_intros)
    then have ws: "skip_ws ?t = ?t"
      using Cons by (cases ys) (simp_all add: value_start_def)
    have "scan_elements scan ?t = Inr (xs, rest)"
      using Cons.IH Cons.prems(2,3) Cons by auto
    then show ?thesis
      using Cons.prems(2) [of x "44 # ?t"] Cons ws
      by (subst scan_elements.simps) (simp add: comma_join_Cons)
  qed
qed

lemma scan_members_text:
  assumes "kvs \<noteq> []"
    and "\<And>kv rest. kv \<in> set kvs \<Longrightarrow> delimited rest \<Longrightarrow> scan (json_text (snd kv) @ rest) = Inr (snd kv, rest)"
    and "\<And>kv. kv \<in> set kvs \<Longrightarrow> scannable ok d (snd kv)"
  shows "scan_members scan
     (comma_join (map (\<lambda>kv. json_string (fst kv) @ 58 # json_text (snd kv)) kvs) @ 125 # rest)
     = Inr (kvs, rest)"
  using assms
proof (induction kvs)
  case Nil
  then show ?case by simp
next
  case (Cons kv kvs)
  let ?m = "\<lambda>kv. json_string (fst kv) @ 58 # json_text (snd kv)"
  have ws: "skip_ws (json_text (snd kv) @ t) = json_text (snd kv) @ t" for t
  proof -
    obtain c cs where "json_text (snd kv) = c # cs" "value_start c"
      using Cons.prems(3) [of kv] json_text_start by (metis list.set_intros(1))
    then show ?thesis by (simp add: value_start_def)
  qed
  show ?case
  proof (cases kvs)
    case Nil
    then show ?thesis
      using Cons.prems(2) [of kv "125 # rest"]
      by (simp add: scan_members.simps json_string_def ws)
  next
    case (Cons y ys)
    let ?t = "comma_join (map ?m kvs) @ 125 # rest"
    have ws': "skip_ws ?t = ?t"
      using Cons by (cases ys) (simp_all add: json_string_def)
    have "scan_members scan ?t = Inr (kvs, rest)"
      using Cons.IH Cons.prems(2,3) Cons by auto
    then show ?thesis
      using Cons.prems(2) [of kv "44 # ?t"] Cons ws' ws
      by (subst scan_members.simps) (simp add: comma_join_Cons json_string_def)
  qed
qed

locale json_reader =
  fixes h :: json_hooks and ok :: "int \<Rightarrow> bool"
  assumes pairs_distinct: "distinct (map fst kvs) \<Longrightarrow> object_pairs_hook h kvs = Inr (PDict kvs)"
    and int_read: "ok i \<Longrightarrow> parse_int h (int_repr i) = Inr (PInt i)"
begin

lemma scan_step_text:
  assumes "scannable ok d v" and "delimited rest"
    and nested: "\<And>e. d = Suc e \<Longrightarrow> \<exists>scan. nested = Some scan \<and>
      (\<forall>x rest. scannable ok e x \<longrightarrow> delimited rest \<longrightarrow> scan (json_text x @ rest) = Inr (x, rest))"
  shows "scan_step h nested (json_text v @ rest) = Inr (v, rest)"
proof (cases v)
  case PNone
  then show ?thesis by (simp add: scan_step_def starts_with_def str_def)
next
  case (PBool b)
  then show ?thesis by (cases b) (simp_all add: scan_step_def starts_with_def str_def)
next
  case (PInt i)
  then show ?thesis using assms(1,2) by (cases d) (simp_all add: scan_step_int int_read)
next
  case (PStr s)
  then show ?thesis by (simp add: scan_step_def json_string_def)
next
  case (PList xs)
  with assms(1) obtain e where d: "d = Suc e" and xs: "list_all (scannable ok e) xs"
    by (cases d) auto
  with nested obtain scan where n: "nested = Some scan"
    and scan: "\<And>x rest. scannable ok e x \<Longrightarrow> delimited rest \<Longrightarrow> scan (json_text x @ rest) = Inr (x, rest)"
    by blast
  show ?thesis
  proof (cases xs)
    case Nil
    with PList n show ?thesis by (simp add: scan_step_def)
  next
    case (Cons y ys)
    let ?t = "comma_join (map json_text xs) @ 93 # rest"
    have "scannable ok e y" using xs Cons by simp
    then obtain c cs where "json_text y = c # cs" "value_start c" by (rule json_text_start)
    then obtain u where u: "?t = c # u" and c: "value_start c"
      using Cons by (cases ys) simp_all
    have "scan_elements scan ?t = Inr (xs, rest)"
      using xs Cons scan by (intro scan_elements_text [where d = e]) (auto simp add: list_all_iff)
    with PList n u c show ?thesis
      by (simp add: scan_step_def value_start_def)
  qed
next
  case (PDict kvs)
  with assms(1) obtain e where d: "d = Suc e" and dist: "distinct (map fst kvs)"
    and kvs: "list_all (\<lambda>kv. scannable ok e (snd kv)) kvs"
    by (cases d) auto
  with nested obtain scan where n: "nested = Some scan"
    and scan: "\<And>x rest. scannable ok e x \<Longrightarrow> delimited rest \<Longrightarrow> scan (json_text x @ rest) = Inr (x, rest)"
    by blast
  show ?thesis
  proof (cases kvs)
    case Nil
    with PDict n show ?thesis using pairs_distinct [of "[]"] by (simp add: scan_step_def)
  next
    case (Cons y ys)
    let ?t = "comma_join (map (\<lambda>kv. json_string (fst kv) @ 58 # json_text (snd kv)) kvs) @ 125 # rest"
    obtain u where u: "?t = 34 # u"
      using Cons by (cases ys) (simp_all add: json_string_def)
    have "scan_members scan ?t = Inr (kvs, rest)"
      using kvs Cons scan by (intro scan_members_text [where d = e]) (auto simp add: list_all_iff)
    with PDict n u show ?thesis
      using pairs_distinct [OF dist] by (simp add: scan_step_def)
  qed
next
  case POther
  with assms(1) show ?thesis by (cases d) simp_all
qed

lemma scan_json_text:
  "scannable ok d v \<Longrightarrow> delimited rest \<Longrightarrow> scan_once h d (json_text v @ rest) = Inr (v, rest)"
proof (induction d arbitrary: v rest)
  case 0
  then show ?case by (simp add: scan_step_text)
next
  case (Suc d)
  have "scan_step h (Some (scan_once h d)) (json_text v @ rest) = Inr (v, rest)"
    using Suc by (intro scan_step_text [OF Suc.prems]) auto
  then show ?case by simp
qed

lemma scan_json_text_mono: "scannable ok d v \<Longrightarrow> d \<le> e \<Longrightarrow> scannable ok e v"
proof (induction d arbitrary: v e)
  case 0
  then show ?case by (cases v; cases e) simp_all
next
  case (Suc d)
  then obtain f where "e = Suc f" "d \<le> f" by (cases e) auto
  with Suc show ?case by (cases v) (auto simp add: list_all_iff)
qed

text \<open>Loading a dumped document gives the document, with its dictionaries in key order.\<close>

lemma json_loads_text:
  assumes "scannable ok d v" and "d \<le> limit"
  shows "json_loads h limit (json_text v) = Inr v"
proof -
  have v: "scannable ok limit v" using assms by (rule scan_json_text_mono)
  obtain c cs where c: "json_text v = c # cs" "value_start c" using v by (rule json_text_start)
  have "c \<noteq> 65279"
  proof
    assume "c = 65279"
    with c scan_json_text [OF v, of "[]"] show False
      by (cases limit) (simp_all add: scan_step_def starts_with_def str_def match_number_def digit_def)
  qed
  with c scan_json_text [OF v, of "[]"] show ?thesis
    by (simp add: json_loads_def value_start_def) (simp add: skip_ws_def)
qed

end

section \<open>What every scanned value satisfies\<close>

lemma scan_elements_invariant:
  assumes "\<And>s v r. scan s = Inr (v, r) \<Longrightarrow> P v"
  shows "scan_elements scan s = Inr (vs, r) \<Longrightarrow> list_all P vs"
proof (induction "length s" arbitrary: s vs r rule: less_induct)
  case less
  from less.prems show ?case
  proof (cases rule: scan_elements_InrE)
    case (1 v r1 t)
    then show ?thesis by (auto intro: assms)
  next
    case (2 v r1 t vs')
    have "length (skip_ws t) < length s"
      using 2(3) length_skip_ws [of t] by simp
    then have "list_all P vs'" using less.hyps 2(4) by blast
    with 2 show ?thesis by (auto intro: assms)
  qed
qed

lemma scan_members_invariant:
  assumes "\<And>s v r. scan s = Inr (v, r) \<Longrightarrow> P v"
  shows "scan_members scan s = Inr (kvs, r) \<Longrightarrow> list_all (\<lambda>kv. P (snd kv)) kvs"
proof (induction "length s" arbitrary: s kvs r rule: less_induct)
  case less
  from less.prems show ?case
  proof (cases rule: scan_members_InrE)
    case (1 k cs r1 r2 v r3 t)
    then show ?thesis by (auto intro: assms)
  next
    case (2 k cs r1 r2 v r3 t kvs')
    have "length (skip_ws t) < length s"
      using 2(6) length_skip_ws [of t] by simp
    then have "list_all (\<lambda>kv. P (snd kv)) kvs'" using less.hyps 2(7) by blast
    with 2 show ?thesis by (auto intro: assms)
  qed
qed

lemma scan_step_invariant:
  assumes pairs: "\<And>kvs v. object_pairs_hook h kvs = Inr v \<Longrightarrow> list_all (\<lambda>kv. P (snd kv)) kvs \<Longrightarrow> P v"
    and number: "\<And>t v. parse_int h t = Inr v \<or> parse_float h t = Inr v \<or> parse_constant h t = Inr v \<Longrightarrow> P v"
    and leaf: "\<And>t. P (PStr t)" "P PNone" "\<And>b. P (PBool b)" "\<And>vs. list_all P vs \<Longrightarrow> P (PList vs)"
    and nested: "\<And>scan s v r. nested = Some scan \<Longrightarrow> scan s = Inr (v, r) \<Longrightarrow> P v"
    and scan: "scan_step h nested s = Inr (v, r)"
  shows "P v"
proof -
  obtain c cs where s: "s = c # cs"
    using scan by (cases s) (simp_all add: scan_step_def)
  consider "c = 123" | "c = 91" | "c \<noteq> 123" "c \<noteq> 91" by blast
  then show ?thesis
  proof cases
    case 1
    with scan s obtain n d t kvs where n: "nested = Some n"
      and k: "(if d = 125 then Inr ([], t) else scan_members n (d # t)) = Inr (kvs, r)"
      and v: "object_pairs_hook h kvs = Inr v"
      by (auto simp add: scan_step_def split: option.splits list.splits)
    have "list_all (\<lambda>kv. P (snd kv)) kvs"
      using k scan_members_invariant [of n P "d # t" kvs r] nested [OF n]
      by (cases "d = 125") auto
    then show ?thesis using v by (rule pairs [rotated])
  next
    case 2
    with scan s obtain n d t vs where n: "nested = Some n"
      and k: "(if d = 93 then Inr ([], t) else scan_elements n (d # t)) = Inr (vs, r)"
      and v: "v = PList vs"
      by (auto simp add: scan_step_def split: option.splits list.splits)
    have "list_all P vs"
      using k scan_elements_invariant [of n P "d # t" vs r] nested [OF n]
      by (cases "d = 93") auto
    then show ?thesis using v leaf(4) by simp
  next
    case 3
    with scan s show ?thesis
      by (auto simp add: scan_step_def leaf split: if_splits option.splits list.splits
          dest!: number [OF disjI1] number [OF disjI2, OF disjI1] number [OF disjI2, OF disjI2])
  qed
qed

lemma json_loads_wf:
  assumes pairs: "\<And>kvs v. object_pairs_hook h kvs = Inr v \<Longrightarrow> list_all (\<lambda>kv. wf_py (snd kv)) kvs \<Longrightarrow> wf_py v"
    and number: "\<And>t v. parse_int h t = Inr v \<or> parse_float h t = Inr v \<or> parse_constant h t = Inr v \<Longrightarrow> wf_py v"
    and loads: "json_loads h limit s = Inr v"
  shows "wf_py v"
proof -
  have "scan_once h d t = Inr (w, r) \<Longrightarrow> wf_py w" for d t w r
  proof (induction d arbitrary: t w r)
    case 0
    show ?case
      by (rule scan_step_invariant [where P = wf_py, OF pairs number _ _ _ _ _ 0 [simplified]]) simp_all
  next
    case (Suc d)
    show ?case
      by (rule scan_step_invariant [where P = wf_py, OF pairs number _ _ _ _ _ Suc.prems [simplified]])
        (auto dest: Suc.IH)
  qed
  then show ?thesis
    using loads by (auto simp add: json_loads_def accepts split: if_splits)
qed

end
