(* ===== verification/Kernel_Json.thy ===== *)
theory Kernel_Json
  imports Kernel_Fields Py_Json
begin

text \<open>
  \<^verbatim>\<open>algo_cli/david_control_kernel.py\<close>, the canonical JSON layer: \<open>_validate_json_tree\<close>,
  \<open>canonical_json_bytes\<close>, \<open>content_digest\<close> and \<open>decode_json_payload\<close>.

  \<open>tree_ok\<close> and \<open>tree_size\<close> say what the validator accepts and how far it counts
  (\<open>validate_json_tree_Inr_iff\<close>). The main facts: a canonical text determines the value up to the
  order of dictionary items, and decoding gives the value back.
\<close>

section \<open>The bounded tree\<close>

text \<open>\<open>counter\<close> is the one-element list the Python passes down; it is threaded through here.\<close>

definition validate_json_string :: "nat \<Rightarrow> pystr \<Rightarrow> nat \<Rightarrow> exn + nat" where
  "validate_json_string depth s counter =
    (if MAX_JSON_ITEMS < Suc counter \<or> MAX_JSON_DEPTH < depth then Inl (FrameRejected ''json_bounds'')
     else case utf8_encode s of
        None \<Rightarrow> Inl (FrameRejected ''json_unicode'')
      | Some encoded \<Rightarrow>
          (if MAX_STRING_BYTES < length encoded then Inl (FrameRejected ''json_string'')
           else Inr (Suc counter)))"

fun validate_json_tree :: "nat \<Rightarrow> py \<Rightarrow> nat \<Rightarrow> exn + nat"
and validate_json_list :: "nat \<Rightarrow> py list \<Rightarrow> nat \<Rightarrow> exn + nat"
and validate_json_items :: "nat \<Rightarrow> (pystr \<times> py) list \<Rightarrow> nat \<Rightarrow> exn + nat" where
  "validate_json_tree depth value counter =
    (if MAX_JSON_ITEMS < Suc counter \<or> MAX_JSON_DEPTH < depth then Inl (FrameRejected ''json_bounds'')
     else case value of
       PNone \<Rightarrow> Inl (FrameRejected ''json_type'')
     | PBool b \<Rightarrow> Inr (Suc counter)
     | PInt i \<Rightarrow>
         (if - MAX_SAFE_INTEGER \<le> i \<and> i \<le> MAX_SAFE_INTEGER then Inr (Suc counter)
          else Inl (FrameRejected ''json_integer''))
     | PStr s \<Rightarrow> validate_json_string depth s counter
     | PList xs \<Rightarrow> validate_json_list (Suc depth) xs (Suc counter)
     | PDict kvs \<Rightarrow> validate_json_items (Suc depth) kvs (Suc counter)
     | POther \<Rightarrow> Inl (FrameRejected ''json_type''))"
| "validate_json_list depth [] counter = Inr counter"
| "validate_json_list depth (x # xs) counter =
     rbind (validate_json_tree depth x counter) (validate_json_list depth xs)"
| "validate_json_items depth [] counter = Inr counter"
| "validate_json_items depth (kv # kvs) counter =
     (if \<not> field_name_text (fst kv) then Inl (FrameRejected ''json_key'')
      else rbind (validate_json_string depth (fst kv) counter) (\<lambda>c.
        rbind (validate_json_tree depth (snd kv) c) (validate_json_items depth kvs)))"

declare validate_json_tree.simps(1) [simp del]

fun tree_size :: "py \<Rightarrow> nat" where
  "tree_size (PList xs) = Suc (sum_list (map tree_size xs))"
| "tree_size (PDict kvs) = Suc (sum_list (map (\<lambda>kv. Suc (tree_size (snd kv))) kvs))"
| "tree_size v = 1"

definition string_ok :: "pystr \<Rightarrow> bool" where
  "string_ok s \<longleftrightarrow> (case utf8_encode s of None \<Rightarrow> False | Some bs \<Rightarrow> length bs \<le> MAX_STRING_BYTES)"

fun tree_ok :: "nat \<Rightarrow> py \<Rightarrow> bool" where
  "tree_ok d (PBool b) = (d \<le> MAX_JSON_DEPTH)"
| "tree_ok d (PInt i) = (d \<le> MAX_JSON_DEPTH \<and> \<bar>i\<bar> \<le> MAX_SAFE_INTEGER)"
| "tree_ok d (PStr s) = (d \<le> MAX_JSON_DEPTH \<and> string_ok s)"
| "tree_ok d (PList xs) = (d \<le> MAX_JSON_DEPTH \<and> list_all (tree_ok (Suc d)) xs)"
| "tree_ok d (PDict kvs) = (d \<le> MAX_JSON_DEPTH \<and>
     list_all (\<lambda>kv. field_name_text (fst kv) \<and> Suc d \<le> MAX_JSON_DEPTH \<and> tree_ok (Suc d) (snd kv)) kvs)"
| "tree_ok d v = False"

lemma field_name_string_ok [simp]: "field_name_text k \<Longrightarrow> string_ok k"
proof -
  assume k: "field_name_text k"
  have "length k \<le> 64"
    using k by (auto simp add: field_name_text_def split: list.splits)
  moreover have "utf8_encode k = Some (map byte k)"
    using pattern_ascii(2) [OF k] by (simp add: ascii_def utf8_encode_ascii)
  ultimately show ?thesis by (simp add: string_ok_def limits)
qed

lemma validate_json_string_iff:
  "validate_json_string d s c = Inr c' \<longleftrightarrow>
     d \<le> MAX_JSON_DEPTH \<and> string_ok s \<and> c' = Suc c \<and> c' \<le> MAX_JSON_ITEMS"
  by (auto simp add: validate_json_string_def string_ok_def not_less split: option.splits)

lemma validate_json_Inr_iff:
  "validate_json_tree d v c = Inr c1 \<longleftrightarrow>
     tree_ok d v \<and> c1 = c + tree_size v \<and> c1 \<le> MAX_JSON_ITEMS"
  "c \<le> MAX_JSON_ITEMS \<Longrightarrow> validate_json_list d xs c = Inr c2 \<longleftrightarrow>
     list_all (tree_ok d) xs \<and> c2 = c + sum_list (map tree_size xs) \<and> c2 \<le> MAX_JSON_ITEMS"
  "c \<le> MAX_JSON_ITEMS \<Longrightarrow> validate_json_items d kvs c = Inr c3 \<longleftrightarrow>
     list_all (\<lambda>kv. field_name_text (fst kv) \<and> d \<le> MAX_JSON_DEPTH \<and> tree_ok d (snd kv)) kvs
     \<and> c3 = c + sum_list (map (\<lambda>kv. Suc (tree_size (snd kv))) kvs) \<and> c3 \<le> MAX_JSON_ITEMS"
proof (induction d v c and d xs c and d kvs c arbitrary: c1 and c2 and c3
    rule: validate_json_tree_validate_json_list_validate_json_items.induct)
  case (1 depth v counter)
  then show ?case
    by (cases v) (auto simp add: validate_json_tree.simps(1) validate_json_string_iff not_less)
next
  case (2 depth counter)
  then show ?case by auto
next
  case (3 depth x xs counter)
  show ?case
  proof (cases "validate_json_tree depth x counter")
    case (Inl e)
    then show ?thesis
      using "3.IH"(1) [of "counter + tree_size x"] by auto
  next
    case (Inr c)
    then have "tree_ok depth x" "c = counter + tree_size x" "c \<le> MAX_JSON_ITEMS"
      using "3.IH"(1) [of c] by auto
    with Inr "3.IH"(2) [of c c2] show ?thesis by (simp add: add.assoc)
  qed
next
  case (4 depth counter)
  then show ?case by auto
next
  case (5 depth kv kvs counter)
  show ?case
  proof (cases "field_name_text (fst kv) \<and> depth \<le> MAX_JSON_DEPTH \<and> Suc counter \<le> MAX_JSON_ITEMS")
    case False
    then show ?thesis by (auto simp add: accepts validate_json_string_iff)
  next
    case True
    then have key: "validate_json_string depth (fst kv) counter = Inr (Suc counter)"
      by (simp add: validate_json_string_iff)
    show ?thesis
    proof (cases "validate_json_tree depth (snd kv) (Suc counter)")
      case (Inl e)
      then show ?thesis
        using "5.IH"(1) [of "Suc counter" "Suc counter + tree_size (snd kv)"] True key by auto
    next
      case (Inr c)
      then have "tree_ok depth (snd kv)" "c = Suc counter + tree_size (snd kv)" "c \<le> MAX_JSON_ITEMS"
        using "5.IH"(1) [of "Suc counter" c] True key by auto
      with Inr "5.IH"(2) [of "Suc counter" c c3] True key show ?thesis by (simp add: add.assoc)
    qed
  qed
qed

section \<open>Canonical bytes\<close>

definition canonical_json_bytes :: "py \<Rightarrow> exn + bytes" where
  "canonical_json_bytes v =
     rbind (validate_json_tree 0 v 0) (\<lambda>_.
       case json_dumps v of
         Inl e \<Rightarrow> Inl (FrameRejected ''json_encoding'')
       | Inr text \<Rightarrow>
           (case utf8_encode text of
              None \<Rightarrow> Inl (FrameRejected ''json_encoding'')
            | Some encoded \<Rightarrow>
                (if encoded = [] \<or> MAX_FRAME_BYTES < length encoded
                 then Inl (FrameRejected ''json_size'') else Inr encoded)))"

definition content_digest :: "py \<Rightarrow> exn + pystr" where
  "content_digest v =
     rbind (canonical_json_bytes v) (\<lambda>bs. Inr (str ''sha256:'' @ hexdigest (sha256 bs)))"

section \<open>Decoding\<close>

fun duplicate_rejecting_loop :: "(pystr \<times> py) list \<Rightarrow> (pystr \<times> py) list \<Rightarrow> exn + py" where
  "duplicate_rejecting_loop result [] = Inr (PDict result)"
| "duplicate_rejecting_loop result ((key, value) # pairs) =
     (if key \<in> set (map fst result) then Inl (FrameRejected ''json_duplicate_key'')
      else duplicate_rejecting_loop (result @ [(key, value)]) pairs)"

definition duplicate_rejecting_object :: "(pystr \<times> py) list \<Rightarrow> exn + py" where
  "duplicate_rejecting_object pairs = duplicate_rejecting_loop [] pairs"

definition parse_integer :: "pystr \<Rightarrow> exn + py" where
  "parse_integer raw =
    (if 17 < length raw then Inl (FrameRejected ''json_integer'')
     else let i = int_of_text raw in
       if - MAX_SAFE_INTEGER \<le> i \<and> i \<le> MAX_SAFE_INTEGER then Inr (PInt i)
       else Inl (FrameRejected ''json_integer''))"

definition reject_number :: "pystr \<Rightarrow> exn + py" where
  "reject_number raw = Inl (FrameRejected ''json_number'')"

definition kernel_hooks :: json_hooks where
  "kernel_hooks =
    \<lparr>object_pairs_hook = duplicate_rejecting_object, parse_int = parse_integer,
     parse_float = reject_number, parse_constant = reject_number\<rparr>"

text \<open>\<open>limit\<close> is the nesting the interpreter's stack allows to \<open>json.loads\<close>.\<close>

definition decode_json_payload :: "nat \<Rightarrow> bytes \<Rightarrow> exn + py" where
  "decode_json_payload limit payload =
    (if payload = [] \<or> MAX_FRAME_BYTES < length payload then Inl (FrameRejected ''frame_size'')
     else if take 3 payload = [239, 187, 191] then Inl (FrameRejected ''json_bom'')
     else case utf8_decode payload of
       None \<Rightarrow> Inl (FrameRejected ''json_utf8'')
     | Some text \<Rightarrow>
         (case json_loads kernel_hooks limit text of
            Inl (FrameRejected r) \<Rightarrow> Inl (FrameRejected r)
          | Inl e \<Rightarrow> Inl (FrameRejected ''json_syntax'')
          | Inr v \<Rightarrow>
              rbind (validate_json_tree 0 v 0) (\<lambda>_.
                case v of PDict kvs \<Rightarrow> Inr v | _ \<Rightarrow> Inl (FrameRejected ''json_root''))))"

lemma duplicate_rejecting_loop_iff:
  "distinct (map fst result) \<Longrightarrow>
   duplicate_rejecting_loop result pairs = Inr v \<longleftrightarrow>
     v = PDict (result @ pairs) \<and> distinct (map fst (result @ pairs))"
proof (induction result pairs rule: duplicate_rejecting_loop.induct)
  case (1 result)
  then show ?case by auto
next
  case (2 result key v' pairs)
  then show ?case by auto
qed

lemma duplicate_rejecting_object_iff:
  "duplicate_rejecting_object pairs = Inr v \<longleftrightarrow> v = PDict pairs \<and> distinct (map fst pairs)"
  by (simp add: duplicate_rejecting_object_def duplicate_rejecting_loop_iff)

lemma parse_integer_repr:
  assumes "\<bar>i\<bar> \<le> MAX_SAFE_INTEGER" shows "parse_integer (int_repr i) = Inr (PInt i)"
proof -
  have "length (int_repr i) \<le> Suc 16"
    using assms by (intro length_int_repr) (simp_all add: limits)
  then show ?thesis
    using assms by (simp add: parse_integer_def Let_def abs_le_iff)
qed

interpretation kernel_reader: json_reader kernel_hooks "\<lambda>i. \<bar>i\<bar> \<le> MAX_SAFE_INTEGER"
  by unfold_locales
    (simp_all add: kernel_hooks_def duplicate_rejecting_object_iff parse_integer_repr)

section \<open>Key order is irrelevant\<close>

lemma sum_list_sort_key: "sum_list (map f (sort_key k xs)) = (sum_list (map f xs) :: nat)"
proof -
  have "mset (map f (sort_key k xs)) = mset (map f xs)" by simp
  then show ?thesis by (metis sum_mset_sum_list)
qed

lemma list_all_sort_key [simp]: "list_all P (sort_key f xs) = list_all P xs"
  by (simp add: list_all_iff)

lemma distinct_fst_sort_key [simp]: "distinct (map fst (sort_key fst kvs)) = distinct (map fst kvs)"
proof -
  have "mset (map fst (sort_key fst kvs)) = mset (map fst kvs)" by simp
  then show ?thesis by (rule mset_eq_imp_distinct_iff)
qed

lemma tree_size_psort [simp]: "tree_size (psort v) = tree_size v"
proof (induction v rule: psort.induct)
  case (1 xs)
  then show ?case by (simp add: comp_def cong: map_cong)
next
  case (2 kvs)
  then show ?case by (simp add: sum_list_sort_key comp_def cong: map_cong)
qed simp_all

lemma tree_ok_psort [simp]: "tree_ok d (psort v) = tree_ok d v"
proof (induction v arbitrary: d rule: psort.induct)
  case (1 xs)
  then show ?case by (auto simp add: list_all_iff)
next
  case (2 kvs)
  then show ?case by (fastforce simp add: list_all_iff)
qed simp_all

lemma wf_py_psort [simp]: "wf_py (psort v) = wf_py v"
proof (induction v rule: psort.induct)
  case (1 xs)
  then show ?case by (auto simp add: list_all_iff)
next
  case (2 kvs)
  have "map fst (map (\<lambda>kv. (fst kv, psort (snd kv))) kvs) = map fst kvs" by simp
  with 2 show ?case by (fastforce simp add: list_all_iff simp del: map_map)
qed simp_all

lemma psort_idem [simp]: "psort (psort v) = psort v"
proof (induction v rule: psort.induct)
  case (2 kvs)
  let ?L = "sort_key fst (map (\<lambda>kv. (fst kv, psort (snd kv))) kvs)"
  have "(fst kv, psort (snd kv)) = kv" if "kv \<in> set ?L" for kv
  proof -
    from that obtain y where y: "y \<in> set kvs" "kv = (fst y, psort (snd y))" by auto
    show ?thesis using 2 [OF y(1)] y(2) by simp
  qed
  then have "map (\<lambda>kv. (fst kv, psort (snd kv))) ?L = ?L"
    by (rule map_idI)
  moreover have "sort_key fst ?L = ?L"
    by (rule sort_key_fixed_iff [THEN iffD2]) (rule sorted_sort_key)
  ultimately show ?case by (simp only: psort.simps)
qed simp_all

lemma serializable_tree_ok: "tree_ok d v \<Longrightarrow> serializable v"
proof (induction v arbitrary: d rule: serializable.induct)
  case (1 xs)
  have "serializable x" if "x \<in> set xs" for x
    using 1(1) [OF that, of "Suc d"] 1(2) that by (simp add: list_all_iff)
  then show ?case by (simp add: list_all_iff)
next
  case (2 kvs)
  have "serializable (snd kv)" if "kv \<in> set kvs" for kv
    using 2(1) [OF that, of "Suc d"] 2(2) that by (simp add: list_all_iff)
  then show ?case by (simp add: list_all_iff)
qed simp_all

lemma scannable_tree_ok:
  "tree_ok d v \<Longrightarrow> wf_py v \<Longrightarrow> d + e = Suc MAX_JSON_DEPTH \<Longrightarrow>
   scannable (\<lambda>i. \<bar>i\<bar> \<le> MAX_SAFE_INTEGER) e v"
proof (induction v arbitrary: d e rule: wf_py.induct)
  case (1 xs)
  then obtain e' where e: "e = Suc e'" "Suc d + e' = Suc MAX_JSON_DEPTH" by (cases e) auto
  have "scannable (\<lambda>i. \<bar>i\<bar> \<le> MAX_SAFE_INTEGER) e' x" if "x \<in> set xs" for x
    using 1(1) [OF that _ _ e(2)] 1(2,3) that by (simp add: list_all_iff)
  then show ?case by (simp add: e list_all_iff)
next
  case (2 kvs)
  then obtain e' where e: "e = Suc e'" "Suc d + e' = Suc MAX_JSON_DEPTH" by (cases e) auto
  have "scannable (\<lambda>i. \<bar>i\<bar> \<le> MAX_SAFE_INTEGER) e' (snd kv)" if "kv \<in> set kvs" for kv
    using 2(1) [OF that _ _ e(2)] 2(2,3) that by (simp add: list_all_iff)
  then show ?case using 2(3) by (simp add: e list_all_iff)
qed simp_all

section \<open>Canonical bytes determine the value\<close>

lemma canonical_json_bytes_Inr_iff:
  "canonical_json_bytes v = Inr bs \<longleftrightarrow>
     tree_ok 0 v \<and> tree_size v \<le> MAX_JSON_ITEMS \<and> utf8_encode (json_text (psort v)) = Some bs
     \<and> bs \<noteq> [] \<and> length bs \<le> MAX_FRAME_BYTES"
  by (auto simp add: canonical_json_bytes_def accepts validate_json_Inr_iff json_dumps_def
      serializable_tree_ok split: option.splits if_splits)

lemma canonical_json_bytes_psort: "canonical_json_bytes (psort v) = Inr bs \<longleftrightarrow> canonical_json_bytes v = Inr bs"
  by (simp add: canonical_json_bytes_Inr_iff)

lemma json_loads_canonical:
  assumes "canonical_json_bytes v = Inr bs" and "wf_py v" and "Suc MAX_JSON_DEPTH \<le> limit"
  shows "utf8_decode bs = Some (json_text (psort v))"
    and "json_loads kernel_hooks limit (json_text (psort v)) = Inr (psort v)"
proof -
  show "utf8_decode bs = Some (json_text (psort v))"
    using assms(1) by (simp add: canonical_json_bytes_Inr_iff utf8_decode_encode)
  have "scannable (\<lambda>i. \<bar>i\<bar> \<le> MAX_SAFE_INTEGER) (Suc MAX_JSON_DEPTH) (psort v)"
    using assms by (intro scannable_tree_ok [of 0]) (simp_all add: canonical_json_bytes_Inr_iff)
  then show "json_loads kernel_hooks limit (json_text (psort v)) = Inr (psort v)"
    using assms(3) by (rule kernel_reader.json_loads_text)
qed

lemma canonical_json_bytes_inject:
  assumes "canonical_json_bytes v = Inr bs" and "canonical_json_bytes w = Inr bs"
    and "wf_py v" and "wf_py w"
  shows "psort v = psort w"
  using json_loads_canonical [OF assms(1,3) order_refl] json_loads_canonical [OF assms(2,4) order_refl]
  by simp

lemma canonical_no_bom:
  assumes "canonical_json_bytes (PDict kvs) = Inr bs" shows "take 3 bs \<noteq> [239, 187, 191]"
proof -
  obtain rest where jt: "json_text (psort (PDict kvs)) = 123 # rest"
    by simp
  have "utf8_encode (123 # rest) = Some bs"
    using assms jt by (simp add: canonical_json_bytes_Inr_iff)
  then have "hd bs = 123" "bs \<noteq> []"
    by (auto simp add: utf8_encode_def utf8_char_def byte_def split: if_splits)
  then show ?thesis by (cases bs) auto
qed

lemma decode_canonical:
  assumes "canonical_json_bytes v = Inr bs" and "v = PDict kvs" and "wf_py v"
    and "Suc MAX_JSON_DEPTH \<le> limit"
  shows "decode_json_payload limit bs = Inr (psort v)"
proof -
  note loads = json_loads_canonical [OF assms(1,3,4)]
  have "validate_json_tree 0 (psort v) 0 = Inr (tree_size v)"
    using assms(1) by (simp add: validate_json_Inr_iff canonical_json_bytes_Inr_iff)
  moreover have "take 3 bs \<noteq> [239, 187, 191]"
    using canonical_no_bom assms(1,2) by simp
  moreover have "bs \<noteq> []" "length bs \<le> MAX_FRAME_BYTES"
    using assms(1) by (simp_all add: canonical_json_bytes_Inr_iff)
  ultimately show ?thesis
    using loads by (simp add: decode_json_payload_def assms(2))
qed

section \<open>What decoding accepts\<close>

lemma decode_json_payload_sound:
  assumes "decode_json_payload limit payload = Inr v"
  shows "wf_py v" "tree_ok 0 v" "tree_size v \<le> MAX_JSON_ITEMS" "\<exists>kvs. v = PDict kvs"
    "length payload \<le> MAX_FRAME_BYTES"
proof -
  from assms obtain t where loads: "json_loads kernel_hooks limit t = Inr v"
    and valid: "validate_json_tree 0 v 0 = Inr (tree_size v)" and root: "\<exists>kvs. v = PDict kvs"
    and size: "length payload \<le> MAX_FRAME_BYTES"
    by (auto simp add: decode_json_payload_def accepts validate_json_Inr_iff
        split: if_splits option.splits sum.splits exn.splits py.splits)
  show "wf_py v"
  proof (rule json_loads_wf [OF _ _ loads])
    show "wf_py v" if "object_pairs_hook kernel_hooks kvs = Inr v"
      and "list_all (\<lambda>kv. wf_py (snd kv)) kvs" for kvs v
      using that by (auto simp add: kernel_hooks_def duplicate_rejecting_object_iff)
    show "wf_py v" if "parse_int kernel_hooks t = Inr v \<or> parse_float kernel_hooks t = Inr v
      \<or> parse_constant kernel_hooks t = Inr v" for t v
      using that by (auto simp add: kernel_hooks_def parse_integer_def reject_number_def Let_def
          split: if_splits)
  qed
  show "tree_ok 0 v" "tree_size v \<le> MAX_JSON_ITEMS"
    using valid by (simp_all add: validate_json_Inr_iff)
  show "\<exists>kvs. v = PDict kvs" by (rule root)
  show "length payload \<le> MAX_FRAME_BYTES" by (rule size)
qed

lemma validate_json_Inl:
  "validate_json_tree d v c = Inl e \<Longrightarrow> \<exists>r. e = FrameRejected r"
  "validate_json_list d xs c = Inl e \<Longrightarrow> \<exists>r. e = FrameRejected r"
  "validate_json_items d kvs c = Inl e \<Longrightarrow> \<exists>r. e = FrameRejected r"
proof (induction d v c and d xs c and d kvs c rule: validate_json_tree_validate_json_list_validate_json_items.induct)
  case (1 depth v counter)
  then show ?case
    by (cases v) (auto simp add: validate_json_tree.simps(1) validate_json_string_def
        split: if_splits option.splits)
next
  case (3 depth x xs counter)
  then show ?case by (cases "validate_json_tree depth x counter") auto
next
  case (5 depth kv kvs counter)
  show ?case
  proof (cases "validate_json_string depth (fst kv) counter")
    case (Inl e')
    with 5(3) show ?thesis
      by (auto simp add: validate_json_string_def split: if_splits option.splits)
  next
    case (Inr c)
    with 5 show ?thesis
      by (cases "validate_json_tree depth (snd kv) c") (auto split: if_splits)
  qed
qed simp_all

lemma decode_json_payload_Inl: "decode_json_payload limit p = Inl e \<Longrightarrow> \<exists>r. e = FrameRejected r"
  by (auto simp add: decode_json_payload_def rbind_eq_Inl_iff dest: validate_json_Inl
      split: if_splits option.splits sum.splits exn.splits py.splits)

section \<open>Properties\<close>

text \<open>C22: Canonical bytes are a normal form: two values with distinct keys have the same canonical
  bytes exactly when they differ at most in the order of dictionary items.\<close>

theorem canonical_bytes_unique:
  assumes "canonical_json_bytes a = Inr bytes" "wf_py a" "wf_py b"
  shows "canonical_json_bytes b = Inr bytes \<longleftrightarrow> psort b = psort a"
proof
  assume "canonical_json_bytes b = Inr bytes"
  then show "psort b = psort a" using assms by (intro canonical_json_bytes_inject)
next
  assume "psort b = psort a"
  then show "canonical_json_bytes b = Inr bytes"
    using assms(1) canonical_json_bytes_psort [of a bytes] canonical_json_bytes_psort [of b bytes] by simp
qed

text \<open>C23: Whatever bytes arrive, what \<open>decode_json_payload\<close> returns is a dictionary with distinct
  keys throughout, at most twelve levels deep, of at most 512 items, with safe integers and bounded
  strings only; and everything else is refused with \<open>FrameRejected\<close>.\<close>

theorem decode_json_payload_closed:
  "case decode_json_payload limit payload of
     Inl e \<Rightarrow> (case e of FrameRejected reason \<Rightarrow> True | _ \<Rightarrow> False)
   | Inr v \<Rightarrow> wf_py v \<and> tree_ok 0 v \<and> tree_size v \<le> MAX_JSON_ITEMS
       \<and> (case v of PDict kvs \<Rightarrow> True | _ \<Rightarrow> False) \<and> length payload \<le> MAX_FRAME_BYTES"
proof (cases "decode_json_payload limit payload")
  case (Inl e)
  then show ?thesis using decode_json_payload_Inl [OF Inl] by auto
next
  case (Inr v)
  then show ?thesis using decode_json_payload_sound [OF Inr] by auto
qed

theorem canonical_bytes_unique_witness:
  "canonical_json_bytes (PDict [(str ''b'', PInt 2), (str ''a'', PInt 1)])
     = canonical_json_bytes (PDict [(str ''a'', PInt 1), (str ''b'', PInt 2)])"
proof -
  have wf: "wf_py (PDict [(str ''b'', PInt 2), (str ''a'', PInt 1)])" "wf_py (PDict [(str ''a'', PInt 1), (str ''b'', PInt 2)])"
    by simp_all
  have "utf8_encode (str ''{\"a\":1,\"b\":2}'') = Some (map byte (str ''{\"a\":1,\"b\":2}''))"
    by (rule utf8_encode_ascii) (simp add: str_def)
  then have "canonical_json_bytes (PDict [(str ''a'', PInt 1), (str ''b'', PInt 2)])
      = Inr (map byte (str ''{\"a\":1,\"b\":2}''))"
    by (simp add: canonical_json_bytes_Inr_iff limits field_name_text_def str_def char_classes
        json_string_def json_escape_def int_repr_def decimal.simps)
  from canonical_bytes_unique [OF this wf(2,1)] this show ?thesis
    by (simp add: str_def)
qed

end
