(* ===== verification/Kernel_Codec.thy ===== *)
theory Kernel_Codec
  imports Kernel_Json
begin

text \<open>
  What every record of the protocol has in common: a \<open>from_dict\<close> that validates a dictionary and a
  \<open>to_dict\<close> that prints the record. The locale \<open>record_codec\<close> states the one law the rest of the
  kernel relies on (\<open>from_dict\<close> accepts exactly the dictionaries that equal the \<open>to_dict\<close> of a
  well-formed record) and derives from it the round trips through dictionaries, canonical bytes and
  frames and the injectivity of the printed forms. It is interpreted for each record of the protocol
  in the theory that defines the record.
\<close>

section \<open>Equality of dictionaries\<close>

definition items :: "(string \<times> py) list \<Rightarrow> (pystr \<times> py) list" where
  "items kvs = map (\<lambda>(k, v). (str k, v)) kvs"

lemma items_simps [simp]:
  "items [] = []"
  "items ((k, v) # kvs) = (str k, v) # items kvs"
  by (simp_all add: items_def)

lemma sorted_map_of_eq:
  fixes xs ys :: "('a::linorder \<times> 'b) list"
  assumes "distinct (map fst xs)" "distinct (map fst ys)" "map_of xs = map_of ys"
  shows "sort_key fst xs = sort_key fst ys"
proof (rule map_sorted_distinct_set_unique [of fst])
  have set: "set xs = set ys"
    using assms by (simp add: map_of_inject_set)
  then show "set (sort_key fst xs) = set (sort_key fst ys)" by simp
  show "inj_on fst (set (sort_key fst xs) \<union> set (sort_key fst ys))"
    using assms(1) set by (auto simp add: inj_on_def distinct_map)
  show "sorted (map fst (sort_key fst xs))" "sorted (map fst (sort_key fst ys))" by simp_all
  show "distinct (map fst (sort_key fst xs))" "distinct (map fst (sort_key fst ys))"
    using assms by simp_all
qed

lemma psort_dict_eq_iff:
  assumes "distinct (map fst r)" "distinct (map fst r')"
  shows "psort (PDict r) = psort (PDict r') \<longleftrightarrow>
    set (map fst r) = set (map fst r') \<and>
    (\<forall>k \<in> set (map fst r'). map_option psort (map_of r k) = map_option psort (map_of r' k))"
    (is "?L \<longleftrightarrow> ?R")
proof -
  let ?p = "map (\<lambda>kv. (fst kv, psort (snd kv)))"
  have d: "distinct (map fst (?p r))" "distinct (map fst (?p r'))"
    using assms by (simp_all add: comp_def)
  have "?L \<longleftrightarrow> sort_key fst (?p r) = sort_key fst (?p r')" by (simp only: psort.simps py.inject)
  also have "\<dots> \<longleftrightarrow> map_of (?p r) = map_of (?p r')"
  proof
    assume "sort_key fst (?p r) = sort_key fst (?p r')"
    then have "map_of (sort_key fst (?p r)) = map_of (sort_key fst (?p r'))" by (rule arg_cong)
    then show "map_of (?p r) = map_of (?p r')"
      by (simp only: map_of_sort_key [OF d(1)] map_of_sort_key [OF d(2)])
  next
    assume "map_of (?p r) = map_of (?p r')"
    then show "sort_key fst (?p r) = sort_key fst (?p r')" by (rule sorted_map_of_eq [OF d])
  qed
  also have "\<dots> \<longleftrightarrow> (\<forall>k. map_option psort (map_of r k) = map_option psort (map_of r' k))"
    by (simp add: fun_eq_iff map_of_map_snd)
  also have "\<dots> \<longleftrightarrow> ?R"
  proof
    assume all: "\<forall>k. map_option psort (map_of r k) = map_option psort (map_of r' k)"
    then have "map_of r k = None \<longleftrightarrow> map_of r' k = None" for k
      by (metis option.map_disc_iff)
    then have "set (map fst r) = set (map fst r')"
      by (auto simp add: map_of_eq_None_iff)
    with all show ?R by simp
  next
    assume R: ?R
    show "\<forall>k. map_option psort (map_of r k) = map_option psort (map_of r' k)"
    proof
      fix k
      show "map_option psort (map_of r k) = map_option psort (map_of r' k)"
      proof (cases "k \<in> set (map fst r')")
        case True
        then show ?thesis using R by blast
      next
        case False
        then have "map_of r k = None" "map_of r' k = None"
          using R by (auto simp add: map_of_eq_None_iff)
        then show ?thesis by simp
      qed
    qed
  qed
  finally show ?thesis .
qed

definition same_value :: "(pystr \<times> py) list \<Rightarrow> string \<Rightarrow> py \<Rightarrow> bool" where
  "same_value row k v \<longleftrightarrow> (\<exists>w. dict_get row k = Inr w \<and> psort w = psort v)"

lemma psort_items_iff:
  assumes "wf_py (PDict row)" "distinct (map fst kvs)"
  shows "psort (PDict row) = psort (PDict (items kvs)) \<longleftrightarrow>
    has_keys row (map fst kvs) \<and> list_all (\<lambda>(k, v). same_value row k v) kvs"
proof -
  have keys: "map fst (items kvs) = map str (map fst kvs)"
    by (simp add: items_def case_prod_beta)
  then have d: "distinct (map fst (items kvs))"
    using assms(2) by (simp add: distinct_map inj_on_def del: map_map)
  have lookup: "map_of (items kvs) (str k) = Some v" if "(k, v) \<in> set kvs" for k v
    using d that by (intro map_of_is_SomeI) (auto simp add: items_def)
  have "(\<forall>k \<in> set (map fst (items kvs)). map_option psort (map_of row k) = map_option psort (map_of (items kvs) k))
    \<longleftrightarrow> list_all (\<lambda>(k, v). same_value row k v) kvs"
    unfolding keys using lookup
    by (fastforce simp add: list_all_iff same_value_def dict_get_Inr_iff)
  then show ?thesis
    using psort_dict_eq_iff [OF _ d, of row] assms(1) keys by (simp add: comp_def has_keys_def)
qed

text \<open>A leaf, and a list of leaves, equals a value only as it is.\<close>

fun leaf :: "py \<Rightarrow> bool" where
  "leaf (PList xs) = False"
| "leaf (PDict kvs) = False"
| "leaf v = True"

lemma psort_leaf: "leaf v \<Longrightarrow> psort w = v \<longleftrightarrow> w = v"
  by (cases w; cases v) auto

lemma psort_leaf_eq: "leaf v \<Longrightarrow> psort w = psort v \<longleftrightarrow> w = v"
  by (cases w; cases v) auto

lemma map_psort_leaves: "list_all leaf vs \<Longrightarrow> map psort ws = vs \<longleftrightarrow> ws = vs"
proof (induction vs arbitrary: ws)
  case Nil
  then show ?case by simp
next
  case (Cons v vs)
  then show ?case by (cases ws) (auto simp add: psort_leaf)
qed

lemma psort_leaves:
  assumes "list_all leaf vs" shows "psort w = psort (PList vs) \<longleftrightarrow> w = PList vs"
proof -
  have *: "map psort vs = vs"
    using assms by (simp add: map_psort_leaves)
  show ?thesis
    unfolding psort.simps * using assms by (cases w) (simp_all add: map_psort_leaves)
qed

lemma same_leaf [simp]:
  "same_value row k (PStr s) \<longleftrightarrow> dict_get row k = Inr (PStr s)"
  "same_value row k (PInt i) \<longleftrightarrow> dict_get row k = Inr (PInt i)"
  "same_value row k (PBool b) \<longleftrightarrow> dict_get row k = Inr (PBool b)"
  "same_value row k PNone \<longleftrightarrow> dict_get row k = Inr PNone"
  "same_value row k (enum_py E e) \<longleftrightarrow> dict_get row k = Inr (enum_py E e)"
  "same_value row k (PList (map (enum_py E) es)) \<longleftrightarrow> dict_get row k = Inr (PList (map (enum_py E) es))"
  "same_value row k (PList (map PStr ss)) \<longleftrightarrow> dict_get row k = Inr (PList (map PStr ss))"
proof -
  have "list_all leaf (map (enum_py E) es)" "list_all leaf (map PStr ss)"
    by (simp_all add: enum_py_def list_all_iff)
  note lists = this [THEN psort_leaves]
  show "same_value row k (PList (map (enum_py E) es)) \<longleftrightarrow> dict_get row k = Inr (PList (map (enum_py E) es))"
    "same_value row k (PList (map PStr ss)) \<longleftrightarrow> dict_get row k = Inr (PList (map PStr ss))"
    unfolding same_value_def lists by simp_all
qed (simp_all add: same_value_def psort_leaf enum_py_def)

text \<open>Records whose entries are all leaves or lists of leaves: equal dictionaries, equal entries.\<close>

fun flat :: "py \<Rightarrow> bool" where
  "flat (PList xs) = list_all leaf xs"
| "flat v = leaf v"

lemma psort_flat: "flat v \<Longrightarrow> psort w = psort v \<longleftrightarrow> w = v"
  by (cases v) (simp_all only: flat.simps psort_leaves psort_leaf_eq)

lemma map_of_items: "distinct (map fst kvs) \<Longrightarrow> (k, v) \<in> set kvs \<Longrightarrow> dict_get (items kvs) k = Inr v"
  by (induction kvs) force+

lemma items_psort_inject:
  assumes "map fst a = map fst b" "distinct (map fst a)" "list_all (\<lambda>(k, v). flat v) a" "wf_py (PDict (items b))"
    and "psort (PDict (items b)) = psort (PDict (items a))"
  shows "a = b"
proof (rule nth_equalityI)
  show len: "length a = length b" using assms(1) by (metis length_map)
  fix i
  assume i: "i < length a"
  obtain k v where a: "a ! i = (k, v)" by (cases "a ! i")
  obtain w where b: "b ! i = (k, w)"
    using assms(1) a i len by (metis fst_conv nth_map prod.collapse)
  have "(k, v) \<in> set a" "(k, w) \<in> set b"
    using a b i len by (metis nth_mem)+
  moreover have "list_all (\<lambda>(k, v). same_value (items b) k v) a"
    using assms(5) psort_items_iff [OF assms(4,2)] by blast
  moreover have "dict_get (items b) k = Inr w"
    using map_of_items assms(1,2) \<open>(k, w) \<in> set b\<close> by simp
  moreover have "flat v" using assms(3) \<open>(k, v) \<in> set a\<close> by (auto simp add: list_all_iff)
  ultimately have "w = v"
    by (auto simp add: list_all_iff same_value_def psort_flat)
  with a b show "a ! i = b ! i" by simp
qed

lemma map_PStr_inject [simp]: "map PStr xs = map PStr ys \<longleftrightarrow> xs = ys"
  by (rule inj_map_eq_map) (simp add: inj_def)

lemma leaf_simps [simp]: "leaf (enum_py E e)" "list_all leaf (map (enum_py E) es)" "list_all leaf (map PStr ss)"
  by (simp_all add: enum_py_def list_all_iff)

lemma flat_enum_py [simp]: "flat (enum_py E e)"
  by (simp add: enum_py_def)

lemma dict_get_wf:
  assumes "wf_py (PDict row)" "dict_get row k = Inr v" shows "wf_py v"
proof -
  have "(str k, v) \<in> set row"
    using assms(2) by (auto simp add: dict_get_Inr_iff dest: map_of_SomeD)
  with assms(1) show ?thesis by (auto simp add: list_all_iff)
qed

section \<open>The codec of a record\<close>

locale record_codec =
  fixes from_dict :: "py \<Rightarrow> exn + 'r" and to_dict :: "'r \<Rightarrow> py" and ok :: "'r \<Rightarrow> bool"
  assumes from_dict_iff: "wf_py v \<Longrightarrow> from_dict v = Inr x \<longleftrightarrow> ok x \<and> psort v = psort (to_dict x)"
    and to_dict_wf: "ok x \<Longrightarrow> wf_py (to_dict x)"
    and to_dict_dict: "\<exists>kvs. to_dict x = PDict kvs"
begin

lemma from_to: "ok x \<Longrightarrow> from_dict (to_dict x) = Inr x"
  by (simp add: from_dict_iff to_dict_wf)

lemma to_dict_inject: "ok x \<Longrightarrow> ok y \<Longrightarrow> psort (to_dict x) = psort (to_dict y) \<Longrightarrow> x = y"
  using from_dict_iff [OF to_dict_wf, of x y] from_to [of x] by simp

lemma bytes_inject:
  "canonical_json_bytes (to_dict x) = Inr bs \<Longrightarrow> canonical_json_bytes (to_dict y) = Inr bs \<Longrightarrow>
   ok x \<Longrightarrow> ok y \<Longrightarrow> x = y"
  by (rule to_dict_inject) (auto intro: canonical_json_bytes_inject to_dict_wf)

lemma payload_roundtrip:
  assumes "canonical_json_bytes (to_dict x) = Inr bs" "ok x" "Suc MAX_JSON_DEPTH \<le> limit"
  shows "rbind (decode_json_payload limit bs) from_dict = Inr x"
proof -
  obtain kvs where "to_dict x = PDict kvs" using to_dict_dict by blast
  then have "decode_json_payload limit bs = Inr (psort (to_dict x))"
    using assms(1,3) to_dict_wf [OF assms(2)] by (intro decode_canonical)
  moreover have "from_dict (psort (to_dict x)) = Inr x"
    using assms(2) by (simp add: from_dict_iff to_dict_wf)
  ultimately show ?thesis by simp
qed

lemma payload_sound:
  assumes "rbind (decode_json_payload limit bs) from_dict = Inr x"
  shows "ok x"
  using assms decode_json_payload_sound(1) by (auto simp add: from_dict_iff)

lemma field_codec:
  "wf_py (PDict row) \<Longrightarrow>
   (\<exists>v. dict_get row k = Inr v \<and> from_dict v = Inr x) \<longleftrightarrow> ok x \<and> same_value row k (to_dict x)"
  using dict_get_wf [of row k] from_dict_iff by (auto simp add: same_value_def)

end

text \<open>The shape of every \<open>from_dict\<close>: a guard that fixes the key set, then a body that reads each field.\<close>

lemma record_codec_guardI:
  assumes from_dict: "\<And>v. from_dict v = rbind (guard v) body"
    and guard: "\<And>v row. guard v = Inr row \<longleftrightarrow> v = PDict row \<and> has_keys row names"
    and to_dict: "\<And>x. to_dict x = PDict (items (entries x))"
    and keys: "\<And>x. set (map fst (entries x)) = set names" "\<And>x. distinct (map fst (entries x))"
    and wf: "\<And>x. ok x \<Longrightarrow> list_all (\<lambda>(k, v). wf_py v) (entries x)"
    and body: "\<And>row x. wf_py (PDict row) \<Longrightarrow> body row = Inr x \<longleftrightarrow>
      ok x \<and> list_all (\<lambda>(k, v). same_value row k v) (entries x)"
  shows "record_codec from_dict to_dict ok"
proof
  have row_keys: "has_keys row (map fst (entries x)) = has_keys row names" for row x
    using keys(1) by (rule has_keys_cong)
  fix v x
  assume v: "wf_py v"
  show "from_dict v = Inr x \<longleftrightarrow> ok x \<and> psort v = psort (to_dict x)"
  proof (cases v)
    case (PDict row)
    with v show ?thesis
      by (auto simp add: from_dict to_dict accepts guard psort_items_iff [OF _ keys(2)] row_keys body
          simp del: psort.simps wf_py.simps)
  qed (auto simp add: from_dict to_dict accepts guard)
next
  fix x
  assume "ok x"
  have "distinct (map str (map fst (entries x)))"
    using keys(2) by (simp add: distinct_map inj_on_def del: map_map)
  with wf [OF \<open>ok x\<close>] show "wf_py (to_dict x)"
    by (simp add: to_dict items_def case_prod_beta comp_def list_all_iff)
next
  show "\<exists>kvs. to_dict x = PDict kvs" for x by (simp add: to_dict)
qed

lemma record_codecI:
  assumes "\<And>v. from_dict v = rbind (exact_dict names label v) body"
    and "\<And>x. to_dict x = PDict (items (entries x))"
    and "\<And>x. set (map fst (entries x)) = set names" "\<And>x. distinct (map fst (entries x))"
    and "\<And>x. ok x \<Longrightarrow> list_all (\<lambda>(k, v). wf_py v) (entries x)"
    and "\<And>row x. wf_py (PDict row) \<Longrightarrow> body row = Inr x \<longleftrightarrow>
      ok x \<and> list_all (\<lambda>(k, v). same_value row k v) (entries x)"
  shows "record_codec from_dict to_dict ok"
  by (rule record_codec_guardI [OF assms(1) _ assms(2-6)]) (simp_all add: accepts)

end
