(* ===== verification/Kernel_Objects.thy ===== *)
theory Kernel_Objects
  imports Kernel_Codec
begin

text \<open>
  \<^verbatim>\<open>algo_cli/david_control_kernel.py\<close>, the untrusted records: \<open>TargetRef\<close>, \<open>SnapshotRef\<close>, the operation
  and preparation arguments and \<open>ControlRequest\<close>. Each class is a record with the fields of the
  class, its \<open>from_dict\<close> in the order of the code, its \<open>to_dict\<close>, and the well-formedness predicate
  \<open>_ok\<close> that \<open>from_dict\<close> enforces; each pair is interpreted as a \<open>record_codec\<close>.
\<close>

section \<open>Targets and snapshots\<close>

record TargetRef =
  tr_kind :: TargetKind
  tr_target_id :: pystr
  tr_epoch :: int
  tr_revision :: pystr
  tr_fencing_token :: int

definition TargetRef_from_dict :: "py \<Rightarrow> exn + TargetRef" where
  "TargetRef_from_dict v =
    rbind (exact_dict [''epoch'', ''fencing_token'', ''kind'', ''revision'', ''target_id''] ''target'' v) (\<lambda>row.
    rbind (field row ''kind'' (enum_value TargetKind ''target_kind'')) (\<lambda>kind.
    rbind (field row ''target_id'' (opaque_id ''target_id'')) (\<lambda>target_id.
    rbind (field row ''epoch'' (exact_int ''target_epoch'' 1 MAX_SAFE_INTEGER)) (\<lambda>epoch.
    rbind (field row ''revision'' (revision_field ''target_revision'')) (\<lambda>revision.
    rbind (field row ''fencing_token'' (exact_int ''target_fence'' 1 MAX_SAFE_INTEGER)) (\<lambda>fence.
    Inr \<lparr>tr_kind = kind, tr_target_id = target_id, tr_epoch = epoch, tr_revision = revision,
         tr_fencing_token = fence\<rparr>))))))"

definition TargetRef_to_dict :: "TargetRef \<Rightarrow> py" where
  "TargetRef_to_dict t = PDict (items
    [(''kind'', enum_py TargetKind (tr_kind t)),
     (''target_id'', PStr (tr_target_id t)),
     (''epoch'', PInt (tr_epoch t)),
     (''revision'', PStr (tr_revision t)),
     (''fencing_token'', PInt (tr_fencing_token t))])"

definition TargetRef_ok :: "TargetRef \<Rightarrow> bool" where
  "TargetRef_ok t \<longleftrightarrow>
     opaque_id_text (tr_target_id t) \<and> revision_text (tr_revision t)
     \<and> 1 \<le> tr_epoch t \<and> tr_epoch t \<le> MAX_SAFE_INTEGER
     \<and> 1 \<le> tr_fencing_token t \<and> tr_fencing_token t \<le> MAX_SAFE_INTEGER"

interpretation target: record_codec TargetRef_from_dict TargetRef_to_dict TargetRef_ok
proof (rule record_codecI [OF TargetRef_from_dict_def TargetRef_to_dict_def], goal_cases)
  case (4 row x)
  then show ?case by (cases x) (auto simp add: TargetRef_ok_def accepts)
qed (auto simp add: enum_py_def)

record SnapshotRef =
  sn_snapshot_id :: pystr
  sn_target_id :: pystr
  sn_epoch :: int
  sn_revision :: pystr
  sn_fencing_token :: int
  sn_observed_at_ms :: int
  sn_sequence :: int

definition SnapshotRef_from_dict :: "py \<Rightarrow> exn + SnapshotRef" where
  "SnapshotRef_from_dict v =
    rbind (exact_dict [''epoch'', ''fencing_token'', ''observed_at_ms'', ''revision'', ''sequence'',
                       ''snapshot_id'', ''target_id''] ''snapshot'' v) (\<lambda>row.
    rbind (field row ''snapshot_id'' (canonical_uuid ''snapshot_id'')) (\<lambda>snapshot_id.
    rbind (field row ''target_id'' (opaque_id ''snapshot_target'')) (\<lambda>target_id.
    rbind (field row ''epoch'' (exact_int ''snapshot_epoch'' 1 MAX_SAFE_INTEGER)) (\<lambda>epoch.
    rbind (field row ''revision'' (revision_field ''snapshot_revision'')) (\<lambda>revision.
    rbind (field row ''fencing_token'' (exact_int ''snapshot_fence'' 1 MAX_SAFE_INTEGER)) (\<lambda>fence.
    rbind (field row ''observed_at_ms'' (exact_int ''snapshot_time'' 0 MAX_SAFE_INTEGER)) (\<lambda>observed.
    rbind (field row ''sequence'' (exact_int ''snapshot_sequence'' 1 MAX_SAFE_INTEGER)) (\<lambda>sequence.
    Inr \<lparr>sn_snapshot_id = snapshot_id, sn_target_id = target_id, sn_epoch = epoch,
         sn_revision = revision, sn_fencing_token = fence, sn_observed_at_ms = observed,
         sn_sequence = sequence\<rparr>))))))))"

definition SnapshotRef_to_dict :: "SnapshotRef \<Rightarrow> py" where
  "SnapshotRef_to_dict s = PDict (items
    [(''snapshot_id'', PStr (sn_snapshot_id s)),
     (''target_id'', PStr (sn_target_id s)),
     (''epoch'', PInt (sn_epoch s)),
     (''revision'', PStr (sn_revision s)),
     (''fencing_token'', PInt (sn_fencing_token s)),
     (''observed_at_ms'', PInt (sn_observed_at_ms s)),
     (''sequence'', PInt (sn_sequence s))])"

definition matches_target :: "SnapshotRef \<Rightarrow> TargetRef \<Rightarrow> bool" where
  "matches_target s t \<longleftrightarrow>
     sn_target_id s = tr_target_id t \<and> sn_epoch s = tr_epoch t \<and> sn_revision s = tr_revision t
     \<and> sn_fencing_token s = tr_fencing_token t"

definition SnapshotRef_ok :: "SnapshotRef \<Rightarrow> bool" where
  "SnapshotRef_ok s \<longleftrightarrow>
     canonical_uuid_text (sn_snapshot_id s) \<and> opaque_id_text (sn_target_id s)
     \<and> revision_text (sn_revision s)
     \<and> 1 \<le> sn_epoch s \<and> sn_epoch s \<le> MAX_SAFE_INTEGER
     \<and> 1 \<le> sn_fencing_token s \<and> sn_fencing_token s \<le> MAX_SAFE_INTEGER
     \<and> 0 \<le> sn_observed_at_ms s \<and> sn_observed_at_ms s \<le> MAX_SAFE_INTEGER
     \<and> 1 \<le> sn_sequence s \<and> sn_sequence s \<le> MAX_SAFE_INTEGER"

interpretation snapshot: record_codec SnapshotRef_from_dict SnapshotRef_to_dict SnapshotRef_ok
proof (rule record_codecI [OF SnapshotRef_from_dict_def SnapshotRef_to_dict_def], goal_cases)
  case (4 row x)
  then show ?case by (cases x) (auto simp add: SnapshotRef_ok_def accepts)
qed auto

section \<open>Arguments\<close>

text \<open>The characters of the Unicode category \<open>Cc\<close>.\<close>

definition control_char :: "nat \<Rightarrow> bool" where
  "control_char c \<longleftrightarrow> c < 32 \<or> (127 \<le> c \<and> c < 160)"

definition validate_text_input :: "py \<Rightarrow> exn + pystr" where
  "validate_text_input v =
    rbind (safe_text ''input_text'' MAX_TEXT_BYTES v) (\<lambda>s.
      if list_ex (\<lambda>c. c = 0 \<or> (control_char c \<and> c \<noteq> 9 \<and> c \<noteq> 10 \<and> c \<noteq> 13)) s
      then reject ''input_text'' else Inr s)"

definition bool_field :: "string \<Rightarrow> py \<Rightarrow> exn + bool" where
  "bool_field label v = (case v of PBool b \<Rightarrow> Inr b | _ \<Rightarrow> reject label)"

definition scroll_deltas :: "(pystr \<times> py) list \<Rightarrow> exn + int \<times> int" where
  "scroll_deltas row =
    rbind (field row ''delta_x'' (exact_int ''delta_x'' (- MAX_SCROLL_DELTA) MAX_SCROLL_DELTA)) (\<lambda>delta_x.
    rbind (field row ''delta_y'' (exact_int ''delta_y'' (- MAX_SCROLL_DELTA) MAX_SCROLL_DELTA)) (\<lambda>delta_y.
    if delta_x = 0 \<and> delta_y = 0 then reject ''scroll_zero'' else Inr (delta_x, delta_y)))"

definition validate_operation_arguments :: "Operation \<Rightarrow> py \<Rightarrow> exn + (pystr \<times> py) list" where
  "validate_operation_arguments operation v =
    rbind (exact_dict (argument_fields (OPERATION_SPECS operation)) ''arguments'' v) (\<lambda>row.
    case operation of
      OBSERVE \<Rightarrow> Inr []
    | ACTIVATE \<Rightarrow>
        rbind (field row ''element_id'' (opaque_id ''element_id'')) (\<lambda>element_id.
        Inr (items [(''element_id'', PStr element_id)]))
    | INPUT_TEXT \<Rightarrow>
        rbind (field row ''replace'' (bool_field ''replace'')) (\<lambda>replace.
        rbind (field row ''element_id'' (opaque_id ''element_id'')) (\<lambda>element_id.
        rbind (field row ''text'' validate_text_input) (\<lambda>txt.
        Inr (items [(''element_id'', PStr element_id), (''replace'', PBool replace), (''text'', PStr txt)]))))
    | SELECT_OPTION \<Rightarrow>
        rbind (field row ''element_id'' (opaque_id ''element_id'')) (\<lambda>element_id.
        rbind (field row ''option_id'' (opaque_id ''option_id'')) (\<lambda>option_id.
        Inr (items [(''element_id'', PStr element_id), (''option_id'', PStr option_id)])))
    | SCROLL \<Rightarrow>
        rbind (scroll_deltas row) (\<lambda>(delta_x, delta_y).
        rbind (field row ''element_id'' (opaque_id ''element_id'')) (\<lambda>element_id.
        Inr (items [(''delta_x'', PInt delta_x), (''delta_y'', PInt delta_y),
                    (''element_id'', PStr element_id)])))
    | UPLOAD \<Rightarrow>
        rbind (field row ''artifact_id'' (canonical_uuid ''artifact_id'')) (\<lambda>artifact_id.
        rbind (field row ''byte_count'' (exact_int ''upload_bytes'' 1 MAX_UPLOAD_BYTES)) (\<lambda>byte_count.
        rbind (field row ''element_id'' (opaque_id ''element_id'')) (\<lambda>element_id.
        Inr (items [(''artifact_id'', PStr artifact_id), (''byte_count'', PInt byte_count),
                    (''element_id'', PStr element_id)]))))
    | COORDINATE_ACTIVATE \<Rightarrow>
        rbind (field row ''viewport_width'' (exact_int ''viewport_width'' 1 MAX_VIEWPORT_DIMENSION)) (\<lambda>width.
        rbind (field row ''viewport_height'' (exact_int ''viewport_height'' 1 MAX_VIEWPORT_DIMENSION)) (\<lambda>height.
        rbind (field row ''x'' (exact_int ''coordinate_x'' 0 (width - 1))) (\<lambda>x.
        rbind (field row ''y'' (exact_int ''coordinate_y'' 0 (height - 1))) (\<lambda>y.
        Inr (items [(''viewport_height'', PInt height), (''viewport_width'', PInt width),
                    (''x'', PInt x), (''y'', PInt y)])))))
    | HANDOFF \<Rightarrow>
        rbind (field row ''reason_code'' (safe_identifier ''reason_code'')) (\<lambda>reason_code.
        Inr (items [(''reason_code'', PStr reason_code)])))"

definition validate_preparation_arguments ::
    "Operation \<Rightarrow> ControlRoute \<Rightarrow> py \<Rightarrow> py \<Rightarrow> exn + (pystr \<times> py) list" where
  "validate_preparation_arguments operation route selector v =
    (case PREPARATION_SELECTORS (operation, route) of
       None \<Rightarrow> reject ''preparation_route_operation''
     | Some selectors \<Rightarrow>
         rbind (safe_identifier ''preparation_selector'' selector) (\<lambda>selected.
         if selected \<notin> set (map str selectors) then reject ''preparation_selector''
         else if operation = SELECT_OPTION \<and> route = R_AX then
           rbind (exact_dict [''option_id''] ''preparation_arguments'' v) (\<lambda>row.
           rbind (field row ''option_id'' (opaque_id ''option_id'')) (\<lambda>option_id.
           Inr (items [(''option_id'', PStr option_id)])))
         else if operation = SCROLL \<and> route = R_AX then
           rbind (exact_dict [''delta_x'', ''delta_y''] ''preparation_arguments'' v) (\<lambda>row.
           rbind (scroll_deltas row) (\<lambda>(delta_x, delta_y).
           Inr (items [(''delta_x'', PInt delta_x), (''delta_y'', PInt delta_y)])))
         else if operation = COORDINATE_ACTIVATE \<and> route = R_COORDINATE then
           rbind (exact_dict [''x'', ''y''] ''preparation_arguments'' v) (\<lambda>row.
           rbind (field row ''x'' (exact_int ''coordinate_x'' 0 (MAX_VIEWPORT_DIMENSION - 1))) (\<lambda>x.
           rbind (field row ''y'' (exact_int ''coordinate_y'' 0 (MAX_VIEWPORT_DIMENSION - 1))) (\<lambda>y.
           Inr (items [(''x'', PInt x), (''y'', PInt y)]))))
         else exact_dict [] ''preparation_arguments'' v))"

lemma bool_field_Inr_iff [accepts]: "bool_field label v = Inr b \<longleftrightarrow> v = PBool b"
  by (auto simp add: bool_field_def split: py.splits)

definition input_text_ok :: "pystr \<Rightarrow> bool" where
  "input_text_ok s \<longleftrightarrow> validate_text_input (PStr s) = Inr s"

lemma validate_text_input_Inr_iff [accepts]:
  "validate_text_input v = Inr s \<longleftrightarrow> v = PStr s \<and> input_text_ok s"
  by (auto simp add: input_text_ok_def validate_text_input_def accepts safe_text_Inr_iff split: if_splits)

definition deltas_ok :: "int \<Rightarrow> int \<Rightarrow> bool" where
  "deltas_ok x y \<longleftrightarrow> \<bar>x\<bar> \<le> MAX_SCROLL_DELTA \<and> \<bar>y\<bar> \<le> MAX_SCROLL_DELTA \<and> \<not> (x = 0 \<and> y = 0)"

lemma scroll_deltas_Inr_iff [accepts]:
  "scroll_deltas row = Inr d \<longleftrightarrow> dict_get row ''delta_x'' = Inr (PInt (fst d))
     \<and> dict_get row ''delta_y'' = Inr (PInt (snd d)) \<and> deltas_ok (fst d) (snd d)"
proof -
  obtain x y where d: "d = (x, y)" by (cases d)
  have "(if a = 0 \<and> b = 0 then reject l else Inr (a, b)) = Inr (x, y) \<longleftrightarrow> a = x \<and> b = y \<and> \<not> (x = 0 \<and> y = 0)"
    for a b l by auto
  then show ?thesis
    by (auto simp add: d scroll_deltas_def deltas_ok_def accepts abs_le_iff)
qed

text \<open>The normal forms of the arguments.\<close>

primrec arguments_spec :: "Operation \<Rightarrow> (pystr \<times> py) list \<Rightarrow> bool" where
  "arguments_spec OBSERVE args \<longleftrightarrow> args = items []"
| "arguments_spec ACTIVATE args \<longleftrightarrow> (\<exists>e. opaque_id_text e \<and> args = items [(''element_id'', PStr e)])"
| "arguments_spec INPUT_TEXT args \<longleftrightarrow> (\<exists>e b s. opaque_id_text e \<and> input_text_ok s \<and>
     args = items [(''element_id'', PStr e), (''replace'', PBool b), (''text'', PStr s)])"
| "arguments_spec SELECT_OPTION args \<longleftrightarrow> (\<exists>e k. opaque_id_text e \<and> opaque_id_text k \<and>
     args = items [(''element_id'', PStr e), (''option_id'', PStr k)])"
| "arguments_spec SCROLL args \<longleftrightarrow> (\<exists>x y e. deltas_ok x y \<and> opaque_id_text e \<and>
     args = items [(''delta_x'', PInt x), (''delta_y'', PInt y), (''element_id'', PStr e)])"
| "arguments_spec UPLOAD args \<longleftrightarrow> (\<exists>a n e. canonical_uuid_text a \<and> 1 \<le> n \<and> n \<le> MAX_UPLOAD_BYTES
     \<and> opaque_id_text e \<and>
     args = items [(''artifact_id'', PStr a), (''byte_count'', PInt n), (''element_id'', PStr e)])"
| "arguments_spec COORDINATE_ACTIVATE args \<longleftrightarrow> (\<exists>h w x y. 1 \<le> h \<and> h \<le> MAX_VIEWPORT_DIMENSION
     \<and> 1 \<le> w \<and> w \<le> MAX_VIEWPORT_DIMENSION \<and> 0 \<le> x \<and> x < w \<and> 0 \<le> y \<and> y < h \<and>
     args = items [(''viewport_height'', PInt h), (''viewport_width'', PInt w), (''x'', PInt x), (''y'', PInt y)])"
| "arguments_spec HANDOFF args \<longleftrightarrow> (\<exists>r. safe_id_text r \<and> args = items [(''reason_code'', PStr r)])"

lemma psort_PDict_D: "psort v = psort (PDict kvs) \<Longrightarrow> \<exists>row. v = PDict row"
  by (cases v) simp_all

lemma psort_empty: "psort (PDict []) = psort (PDict kvs) \<longleftrightarrow> kvs = []"
  by (auto simp add: eq_commute [of "[]"])

lemma items_empty: "items kvs = [] \<longleftrightarrow> kvs = []"
  by (simp add: items_def)

lemma arguments_iff:
  assumes "wf_py v"
  shows "validate_operation_arguments operation v = Inr args \<longleftrightarrow>
    arguments_spec operation args \<and> psort v = psort (PDict args)"
proof (cases "\<exists>row. v = PDict row")
  case False
  then have "validate_operation_arguments operation v \<noteq> Inr args"
    by (auto simp add: validate_operation_arguments_def accepts)
  with False psort_PDict_D [of v args] show ?thesis by blast
next
  case True
  then obtain row where v: "v = PDict row" by blast
  note row = psort_items_iff [OF assms [unfolded v]]
  have none: "psort (PDict row) = psort (PDict []) \<longleftrightarrow> has_keys row []"
    using row [of "[]"] by simp
  have "has_keys row [] \<longleftrightarrow> row = []" by (simp add: has_keys_def)
  show ?thesis
    by (cases operation)
      (auto simp add: v none validate_operation_arguments_def accepts row simp del: psort.simps items_simps(2))
qed

lemma arguments_sound: "validate_operation_arguments operation v = Inr args \<Longrightarrow> arguments_spec operation args"
  by (cases operation) (auto simp add: validate_operation_arguments_def accepts simp del: items_simps(2))

lemma arguments_spec_wf: "arguments_spec operation args \<Longrightarrow> wf_py (PDict args)"
  by (cases operation) auto

definition arguments_ok :: "Operation \<Rightarrow> (pystr \<times> py) list \<Rightarrow> bool" where
  "arguments_ok operation args \<longleftrightarrow> validate_operation_arguments operation (PDict args) = Inr args"

lemma arguments_ok_iff: "arguments_ok operation args \<longleftrightarrow> arguments_spec operation args"
  using arguments_iff [OF arguments_spec_wf, of operation args operation args]
    arguments_sound [of operation "PDict args" args] by (auto simp add: arguments_ok_def)

interpretation arguments: record_codec "validate_operation_arguments operation" PDict "arguments_ok operation"
  for operation
proof
  show "validate_operation_arguments operation v = Inr x \<longleftrightarrow>
      arguments_ok operation x \<and> psort v = psort (PDict x)" if "wf_py v" for v x
    using arguments_iff [OF that] by (simp add: arguments_ok_iff)
  show "wf_py (PDict x)" if "arguments_ok operation x" for x
    using that arguments_spec_wf by (simp add: arguments_ok_iff)
  show "\<exists>kvs. PDict x = PDict kvs" for x by simp
qed

definition selector_ok :: "Operation \<Rightarrow> ControlRoute \<Rightarrow> pystr \<Rightarrow> bool" where
  "selector_ok operation route selector \<longleftrightarrow> safe_id_text selector \<and>
     (case PREPARATION_SELECTORS (operation, route) of
        None \<Rightarrow> False | Some selectors \<Rightarrow> selector \<in> set (map str selectors))"

definition preparation_spec :: "Operation \<Rightarrow> ControlRoute \<Rightarrow> (pystr \<times> py) list \<Rightarrow> bool" where
  "preparation_spec operation route args \<longleftrightarrow>
    (if operation = SELECT_OPTION \<and> route = R_AX then
       \<exists>k. opaque_id_text k \<and> args = items [(''option_id'', PStr k)]
     else if operation = SCROLL \<and> route = R_AX then
       \<exists>x y. deltas_ok x y \<and> args = items [(''delta_x'', PInt x), (''delta_y'', PInt y)]
     else if operation = COORDINATE_ACTIVATE \<and> route = R_COORDINATE then
       \<exists>x y. 0 \<le> x \<and> x < MAX_VIEWPORT_DIMENSION \<and> 0 \<le> y \<and> y < MAX_VIEWPORT_DIMENSION
         \<and> args = items [(''x'', PInt x), (''y'', PInt y)]
     else args = items [])"

lemma preparation_sound:
  "validate_preparation_arguments operation route selector v = Inr args \<Longrightarrow>
   preparation_spec operation route args \<and> (\<exists>s. selector = PStr s \<and> selector_ok operation route s)"
  by (auto simp add: validate_preparation_arguments_def selector_ok_def preparation_spec_def accepts
      has_keys_def simp del: items_simps(2) split: option.splits if_splits)

lemma preparation_iff:
  assumes "wf_py v"
  shows "validate_preparation_arguments operation route selector v = Inr args \<longleftrightarrow>
    (\<exists>s. selector = PStr s \<and> selector_ok operation route s) \<and> preparation_spec operation route args
    \<and> psort v = psort (PDict args)"
proof (cases "\<exists>row. v = PDict row")
  case False
  then have "validate_preparation_arguments operation route selector v \<noteq> Inr args"
    by (auto simp add: validate_preparation_arguments_def accepts split: option.splits)
  with False psort_PDict_D [of v args] show ?thesis by blast
next
  case True
  then obtain row where v: "v = PDict row" by blast
  note row = psort_items_iff [OF assms [unfolded v]]
  have none: "psort (PDict row) = psort (PDict []) \<longleftrightarrow> has_keys row []"
    using row [of "[]"] by simp
  have "has_keys row [] \<longleftrightarrow> row = []" by (simp add: has_keys_def)
  then show ?thesis
    by (cases "PREPARATION_SELECTORS (operation, route)")
      (auto simp add: v none validate_preparation_arguments_def selector_ok_def preparation_spec_def
        accepts row psort_empty items_empty simp del: psort.simps items_simps(2))
qed

lemma preparation_spec_wf: "preparation_spec operation route args \<Longrightarrow> wf_py (PDict args)"
  by (auto simp add: preparation_spec_def split: if_splits)

definition preparation_arguments_ok :: "Operation \<Rightarrow> ControlRoute \<Rightarrow> pystr \<Rightarrow> (pystr \<times> py) list \<Rightarrow> bool" where
  "preparation_arguments_ok operation route selector args \<longleftrightarrow>
     validate_preparation_arguments operation route (PStr selector) (PDict args) = Inr args"

lemma preparation_arguments_ok_iff:
  "preparation_arguments_ok operation route selector args \<longleftrightarrow>
     selector_ok operation route selector \<and> preparation_spec operation route args"
  using preparation_iff [OF preparation_spec_wf, of operation route args operation route "PStr selector" args]
    preparation_sound [of operation route "PStr selector" "PDict args" args]
  by (auto simp add: preparation_arguments_ok_def)

interpretation preparation_arguments:
  record_codec "validate_preparation_arguments operation route (PStr selector)" PDict
    "preparation_arguments_ok operation route selector"
  for operation route selector
proof
  show "validate_preparation_arguments operation route (PStr selector) v = Inr x \<longleftrightarrow>
      preparation_arguments_ok operation route selector x \<and> psort v = psort (PDict x)" if "wf_py v" for v x
    using preparation_iff [OF that] by (auto simp add: preparation_arguments_ok_iff)
  show "wf_py (PDict x)" if "preparation_arguments_ok operation route selector x" for x
    using that preparation_spec_wf [of operation route x] by (simp add: preparation_arguments_ok_iff)
  show "\<exists>kvs. PDict x = PDict kvs" for x by simp
qed

section \<open>Requests\<close>

record ControlRequest =
  rq_request_id :: pystr
  rq_session_id :: pystr
  rq_subject_id :: pystr
  rq_sequence :: int
  rq_issued_at_ms :: int
  rq_deadline_ms :: int
  rq_target :: TargetRef
  rq_snapshot :: SnapshotRef
  rq_operation :: Operation
  rq_data_class :: ControlDataClass
  rq_arguments :: "(pystr \<times> py) list"
  rq_requested_routes :: "ControlRoute list"
  rq_max_output_bytes :: int
  rq_schema_version :: int

definition ControlRequest_from_dict :: "py \<Rightarrow> exn + ControlRequest" where
  "ControlRequest_from_dict v =
    rbind (exact_dict [''arguments'', ''data_class'', ''deadline_ms'', ''issued_at_ms'',
      ''max_output_bytes'', ''operation'', ''request_id'', ''requested_routes'', ''schema_version'',
      ''sequence'', ''session_id'', ''snapshot'', ''subject_id'', ''target''] ''request'' v) (\<lambda>row.
    rbind (field row ''schema_version'' (exact_version ''request_version'' CONTROL_SCHEMA_VERSION)) (\<lambda>_.
    rbind (field row ''operation'' (enum_value Operation ''operation'')) (\<lambda>operation.
    rbind (field row ''data_class'' (enum_value ControlDataClass ''data_class'')) (\<lambda>data_class.
    rbind (require (data_class \<in> data_classes (OPERATION_SPECS operation))
             (SchemaRejected ''operation_data_class'')) (\<lambda>_.
    rbind (field row ''target'' TargetRef_from_dict) (\<lambda>target.
    rbind (field row ''snapshot'' SnapshotRef_from_dict) (\<lambda>snapshot.
    rbind (require (matches_target snapshot target) (SchemaRejected ''snapshot_target'')) (\<lambda>_.
    rbind (field row ''issued_at_ms'' (exact_int ''issued_at'' 0 MAX_SAFE_INTEGER)) (\<lambda>issued_at_ms.
    rbind (field row ''deadline_ms'' (exact_int ''deadline'' 1 MAX_SAFE_INTEGER)) (\<lambda>deadline_ms.
    rbind (require (issued_at_ms < deadline_ms \<and> deadline_ms \<le> issued_at_ms + MAX_DEADLINE_HORIZON_MS)
             (SchemaRejected ''deadline_window'')) (\<lambda>_.
    rbind (field row ''request_id'' (canonical_uuid ''request_id'')) (\<lambda>request_id.
    rbind (field row ''session_id'' (canonical_uuid ''session_id'')) (\<lambda>session_id.
    rbind (field row ''subject_id'' (safe_identifier ''subject_id'')) (\<lambda>subject_id.
    rbind (field row ''sequence'' (exact_int ''sequence'' 1 MAX_SAFE_INTEGER)) (\<lambda>sequence.
    rbind (field row ''arguments'' (validate_operation_arguments operation)) (\<lambda>arguments.
    rbind (field row ''requested_routes''
             (ordered_enum_tuple ControlRoute ''requested_routes'' ROUTE_INDEX (length ROUTE_ORDER))) (\<lambda>routes.
    rbind (field row ''max_output_bytes'' (exact_int ''max_output_bytes'' 1 MAX_OUTPUT_BYTES)) (\<lambda>max_output.
    Inr \<lparr>rq_request_id = request_id, rq_session_id = session_id, rq_subject_id = subject_id,
         rq_sequence = sequence, rq_issued_at_ms = issued_at_ms, rq_deadline_ms = deadline_ms,
         rq_target = target, rq_snapshot = snapshot, rq_operation = operation,
         rq_data_class = data_class, rq_arguments = arguments, rq_requested_routes = routes,
         rq_max_output_bytes = max_output, rq_schema_version = CONTROL_SCHEMA_VERSION\<rparr>))))))))))))))))))"

definition ControlRequest_effects :: "ControlRequest \<Rightarrow> Effect list" where
  "ControlRequest_effects r = effects (OPERATION_SPECS (rq_operation r))"

definition argument_bytes :: "ControlRequest \<Rightarrow> exn + nat" where
  "argument_bytes r = rbind (canonical_json_bytes (PDict (rq_arguments r))) (\<lambda>bs. Inr (length bs))"

text \<open>\<open>int\<close> of an integer or a boolean. The arguments of a request hold an integer here, so its other
  cases are not reached.\<close>

definition py_int :: "py \<Rightarrow> exn + int" where
  "py_int v = (case v of PInt i \<Rightarrow> Inr i | PBool b \<Rightarrow> Inr (of_bool b) | _ \<Rightarrow> Inl TypeError)"

definition transmit_bytes :: "ControlRequest \<Rightarrow> exn + int" where
  "transmit_bytes r =
    (if rq_operation r = UPLOAD then field (rq_arguments r) ''byte_count'' py_int else Inr 0)"

definition ControlRequest_to_dict :: "ControlRequest \<Rightarrow> py" where
  "ControlRequest_to_dict r = PDict (items
    [(''schema_version'', PInt (rq_schema_version r)),
     (''request_id'', PStr (rq_request_id r)),
     (''session_id'', PStr (rq_session_id r)),
     (''subject_id'', PStr (rq_subject_id r)),
     (''sequence'', PInt (rq_sequence r)),
     (''issued_at_ms'', PInt (rq_issued_at_ms r)),
     (''deadline_ms'', PInt (rq_deadline_ms r)),
     (''target'', TargetRef_to_dict (rq_target r)),
     (''snapshot'', SnapshotRef_to_dict (rq_snapshot r)),
     (''operation'', enum_py Operation (rq_operation r)),
     (''data_class'', enum_py ControlDataClass (rq_data_class r)),
     (''arguments'', PDict (rq_arguments r)),
     (''requested_routes'', PList (map (enum_py ControlRoute) (rq_requested_routes r))),
     (''max_output_bytes'', PInt (rq_max_output_bytes r))])"

definition ControlRequest_digest :: "ControlRequest \<Rightarrow> exn + pystr" where
  "ControlRequest_digest r = content_digest (ControlRequest_to_dict r)"

definition ControlRequest_ok :: "ControlRequest \<Rightarrow> bool" where
  "ControlRequest_ok r \<longleftrightarrow>
     rq_schema_version r = CONTROL_SCHEMA_VERSION
     \<and> rq_data_class r \<in> data_classes (OPERATION_SPECS (rq_operation r))
     \<and> TargetRef_ok (rq_target r) \<and> SnapshotRef_ok (rq_snapshot r)
     \<and> matches_target (rq_snapshot r) (rq_target r)
     \<and> 0 \<le> rq_issued_at_ms r \<and> rq_issued_at_ms r \<le> MAX_SAFE_INTEGER
     \<and> 1 \<le> rq_deadline_ms r \<and> rq_deadline_ms r \<le> MAX_SAFE_INTEGER
     \<and> rq_issued_at_ms r < rq_deadline_ms r
     \<and> rq_deadline_ms r \<le> rq_issued_at_ms r + MAX_DEADLINE_HORIZON_MS
     \<and> canonical_uuid_text (rq_request_id r) \<and> canonical_uuid_text (rq_session_id r)
     \<and> safe_id_text (rq_subject_id r)
     \<and> 1 \<le> rq_sequence r \<and> rq_sequence r \<le> MAX_SAFE_INTEGER
     \<and> arguments_ok (rq_operation r) (rq_arguments r)
     \<and> rq_requested_routes r \<noteq> [] \<and> length (rq_requested_routes r) \<le> length ROUTE_ORDER
     \<and> distinct (rq_requested_routes r) \<and> sorted (map ROUTE_INDEX (rq_requested_routes r))
     \<and> 1 \<le> rq_max_output_bytes r \<and> rq_max_output_bytes r \<le> MAX_OUTPUT_BYTES"

lemma wf_enum_py [simp]: "wf_py (enum_py E e)"
  by (simp add: enum_py_def)

interpretation request: record_codec ControlRequest_from_dict ControlRequest_to_dict ControlRequest_ok
proof (rule record_codecI [OF ControlRequest_from_dict_def ControlRequest_to_dict_def], goal_cases)
  case (3 x)
  then show ?case
    using target.to_dict_wf snapshot.to_dict_wf
      arguments.to_dict_wf [of "rq_operation x" "rq_arguments x"]
    by (simp add: ControlRequest_ok_def list_all_iff)
next
  case (4 row x)
  note codecs = target.field_codec [OF 4] snapshot.field_codec [OF 4] arguments.field_codec [OF 4]
  show ?case
    by (cases x) (auto simp add: ControlRequest_ok_def accepts codecs)
qed auto

text \<open>The bytes a request may transmit are the size it declares for an upload, and nothing else.\<close>

lemma transmit_bytes_ok:
  assumes "ControlRequest_ok r"
  shows "\<exists>n. transmit_bytes r = Inr n \<and> 0 \<le> n \<and> n \<le> MAX_UPLOAD_BYTES \<and> (rq_operation r \<noteq> UPLOAD \<longrightarrow> n = 0)"
proof (cases "rq_operation r = UPLOAD")
  case True
  then show ?thesis
    using assms by (auto simp add: ControlRequest_ok_def arguments_ok_iff transmit_bytes_def py_int_def)
next
  case False
  then show ?thesis by (simp add: transmit_bytes_def limits)
qed

end
