(* ===== verification/Kernel_Frames.thy ===== *)
theory Kernel_Frames
  imports Kernel_Json
begin

text \<open>
  \<^verbatim>\<open>algo_cli/david_control_kernel.py\<close>, the framing layer: \<open>encode_frame\<close> and \<open>FrameDecoder\<close>.

  A method of the decoder returns the decoder after the call beside its result, since a call that
  raises has changed the decoder too. The main facts: a stream of encoded frames is decoded to the
  same values however it is cut into chunks (\<open>feed_all_frames\<close>), the buffer stays bounded, and a
  decoder that has raised once never decodes again.
\<close>

section \<open>The length prefix\<close>

definition pack_be32 :: "nat \<Rightarrow> bytes" where
  "pack_be32 n = [byte (n div 256 div 256 div 256), byte (n div 256 div 256), byte (n div 256), byte n]"

definition unpack_be32 :: "bytes \<Rightarrow> nat" where
  "unpack_be32 bs = foldl (\<lambda>acc b. 256 * acc + unat b) 0 bs"

lemma length_pack_be32 [simp]: "length (pack_be32 n) = 4"
  by (simp add: pack_be32_def)

lemma unpack_pack_be32 [simp]:
  assumes "n < 4294967296" shows "unpack_be32 (pack_be32 n) = n"
proof -
  let ?a = "n div 256" let ?b = "?a div 256" let ?c = "?b div 256"
  have split: "n = 256 * ?a + n mod 256" "?a = 256 * ?b + ?a mod 256" "?b = 256 * ?c + ?b mod 256"
    by (simp_all only: mult_div_mod_eq)
  have "?c = n div 16777216" by (simp add: div_mult2_eq [symmetric])
  then have "?c < 256" using assms by (simp add: less_mult_imp_div_less)
  then have "unpack_be32 (pack_be32 n) = 256 * (256 * (256 * ?c + ?b mod 256) + ?a mod 256) + n mod 256"
    by (simp add: unpack_be32_def pack_be32_def unat_byte)
  also have "\<dots> = n"
    by (simp only: split(3) [symmetric] split(2) [symmetric] split(1) [symmetric])
  finally show ?thesis .
qed

section \<open>Frames\<close>

definition encode_frame :: "py \<Rightarrow> exn + bytes" where
  "encode_frame v = rbind (canonical_json_bytes v) (\<lambda>payload. Inr (pack_be32 (length payload) @ payload))"

record FrameDecoder =
  maximum_frame_bytes :: nat
  buffer :: bytes
  poisoned :: bool

definition new_decoder :: "int \<Rightarrow> exn + FrameDecoder" where
  "new_decoder maximum =
    (if \<not> (1 \<le> maximum \<and> maximum \<le> int MAX_FRAME_BYTES)
     then Inl (ValueError ''maximum_frame_bytes is invalid'')
     else Inr \<lparr>maximum_frame_bytes = nat maximum, buffer = [], poisoned = False\<rparr>)"

definition fail_decoder :: "FrameDecoder \<Rightarrow> string \<Rightarrow> FrameDecoder \<times> (exn + 'a)" where
  "fail_decoder d reason = (d\<lparr>buffer := [], poisoned := True\<rparr>, Inl (FrameRejected reason))"

function feed_loop :: "nat \<Rightarrow> FrameDecoder \<Rightarrow> py list \<Rightarrow> FrameDecoder \<times> (exn + py list)" where
  "feed_loop limit d decoded =
    (if length (buffer d) < 4 then (d, Inr decoded)
     else let declared = unpack_be32 (take 4 (buffer d)) in
       if declared = 0 \<or> maximum_frame_bytes d < declared then fail_decoder d ''frame_length''
       else let frame_end = 4 + declared in
         if length (buffer d) < frame_end then
           (if maximum_frame_bytes d + 4 < length (buffer d) then fail_decoder d ''frame_buffer''
            else (d, Inr decoded))
         else let payload = drop 4 (take frame_end (buffer d));
                  d' = d\<lparr>buffer := drop frame_end (buffer d)\<rparr>
              in case decode_json_payload limit payload of
                   Inl e \<Rightarrow> (d', Inl e)
                 | Inr v \<Rightarrow> feed_loop limit d' (decoded @ [v]))"
  by pat_completeness auto
termination
  by (relation "measure (\<lambda>(limit, d, decoded). length (buffer d))") auto

declare feed_loop.simps [simp del]

definition feed :: "nat \<Rightarrow> FrameDecoder \<Rightarrow> bytes \<Rightarrow> FrameDecoder \<times> (exn + py list)" where
  "feed limit d data =
    (if poisoned d then (d, Inl (FrameRejected ''decoder_poisoned''))
     else if MAX_FEED_BYTES < length data then fail_decoder d ''feed_size''
     else case feed_loop limit (d\<lparr>buffer := buffer d @ data\<rparr>) [] of
       (d', Inl (FrameRejected r)) \<Rightarrow>
         ((if poisoned d' then d' else d'\<lparr>buffer := [], poisoned := True\<rparr>), Inl (FrameRejected r))
     | (d', result) \<Rightarrow> (d', result))"

definition finish :: "FrameDecoder \<Rightarrow> FrameDecoder \<times> (exn + unit)" where
  "finish d =
    (if poisoned d then (d, Inl (FrameRejected ''decoder_poisoned''))
     else if buffer d \<noteq> [] then fail_decoder d ''frame_truncated''
     else (d, Inr ()))"

text \<open>A reader that feeds one chunk after the other until one raises.\<close>

fun feed_all :: "nat \<Rightarrow> FrameDecoder \<Rightarrow> bytes list \<Rightarrow> FrameDecoder \<times> (exn + py list)" where
  "feed_all limit d [] = (d, Inr [])"
| "feed_all limit d (c # cs) =
    (case feed limit d c of
       (d', Inl e) \<Rightarrow> (d', Inl e)
     | (d', Inr vs) \<Rightarrow>
         (case feed_all limit d' cs of
            (d'', Inl e) \<Rightarrow> (d'', Inl e)
          | (d'', Inr ws) \<Rightarrow> (d'', Inr (vs @ ws))))"

section \<open>What the loop does\<close>

text \<open>One turn of the loop. The guard on the whole buffer never fires: the declared length of an
  incomplete frame is within the maximum.\<close>

definition frame_complete :: "FrameDecoder \<Rightarrow> bool" where
  "frame_complete d \<longleftrightarrow> 4 \<le> length (buffer d) \<and> 4 + unpack_be32 (take 4 (buffer d)) \<le> length (buffer d)"

definition frame_length_ok :: "FrameDecoder \<Rightarrow> bool" where
  "frame_length_ok d \<longleftrightarrow> (4 \<le> length (buffer d) \<longrightarrow>
     0 < unpack_be32 (take 4 (buffer d)) \<and> unpack_be32 (take 4 (buffer d)) \<le> maximum_frame_bytes d)"

text \<open>The first frame of a buffer that holds one, and the decoder without it.\<close>

definition frame_payload :: "FrameDecoder \<Rightarrow> bytes" where
  "frame_payload d = take (unpack_be32 (take 4 (buffer d))) (drop 4 (buffer d))"

definition drop_frame :: "FrameDecoder \<Rightarrow> FrameDecoder" where
  "drop_frame d = d\<lparr>buffer := drop (4 + unpack_be32 (take 4 (buffer d))) (buffer d)\<rparr>"

lemma feed_loop_bad: "\<not> frame_length_ok d \<Longrightarrow> feed_loop limit d vs = fail_decoder d ''frame_length''"
  by (subst feed_loop.simps) (auto simp add: frame_length_ok_def Let_def)

lemma feed_loop_wait: "frame_length_ok d \<Longrightarrow> \<not> frame_complete d \<Longrightarrow> feed_loop limit d vs = (d, Inr vs)"
  by (subst feed_loop.simps) (auto simp add: frame_length_ok_def frame_complete_def Let_def not_less)

lemma feed_loop_frame:
  assumes "frame_length_ok d" "frame_complete d"
  shows "feed_loop limit d vs =
    (case decode_json_payload limit (frame_payload d) of
       Inl e \<Rightarrow> (drop_frame d, Inl e)
     | Inr v \<Rightarrow> feed_loop limit (drop_frame d) (vs @ [v]))"
  using assms
  by (subst feed_loop.simps)
    (simp add: frame_length_ok_def frame_complete_def Let_def not_less drop_take frame_payload_def
      drop_frame_def split: sum.split)

lemmas feed_loop_turn = feed_loop_bad feed_loop_wait feed_loop_frame

lemma feed_loop_induct [case_names bad wait error frame]:
  assumes "\<And>d acc. \<not> frame_length_ok d \<Longrightarrow> P d acc"
    and "\<And>d acc. frame_length_ok d \<Longrightarrow> \<not> frame_complete d \<Longrightarrow> P d acc"
    and "\<And>d acc e. frame_length_ok d \<Longrightarrow> frame_complete d
           \<Longrightarrow> decode_json_payload limit (frame_payload d) = Inl (e :: exn) \<Longrightarrow> P d acc"
    and "\<And>d acc v. frame_length_ok d \<Longrightarrow> frame_complete d
           \<Longrightarrow> decode_json_payload limit (frame_payload d) = Inr v \<Longrightarrow> P (drop_frame d) (acc @ [v])
           \<Longrightarrow> P (drop_frame d) [v] \<Longrightarrow> P d acc"
  shows "P d acc"
proof (induction "length (buffer d)" arbitrary: d acc rule: less_induct)
  case less
  show ?case
  proof (cases "frame_length_ok d \<and> frame_complete d")
    case False
    with assms(1,2) show ?thesis by blast
  next
    case True
    then have "length (buffer (drop_frame d)) < length (buffer d)"
      by (auto simp add: frame_complete_def drop_frame_def)
    note IH = less [OF this]
    show ?thesis
      by (cases "decode_json_payload limit (frame_payload d)") (use True IH assms(3,4) in auto)
  qed
qed

lemma frame_append:
  assumes "frame_length_ok d" "frame_complete d"
  shows "frame_length_ok (d\<lparr>buffer := buffer d @ c\<rparr>)" "frame_complete (d\<lparr>buffer := buffer d @ c\<rparr>)"
    "frame_payload (d\<lparr>buffer := buffer d @ c\<rparr>) = frame_payload d"
    "drop_frame (d\<lparr>buffer := buffer d @ c\<rparr>) = (drop_frame d)\<lparr>buffer := buffer (drop_frame d) @ c\<rparr>"
  using assms
  by (simp_all add: frame_length_ok_def frame_complete_def frame_payload_def drop_frame_def)

lemma frame_bad_append: "\<not> frame_length_ok d \<Longrightarrow> \<not> frame_length_ok (d\<lparr>buffer := buffer d @ c\<rparr>)"
  by (auto simp add: frame_length_ok_def)

text \<open>Bytes that arrive later do not change what was decoded before them.\<close>

lemma feed_loop_append:
  "feed_loop limit d acc = (d', Inr vs) \<Longrightarrow>
   feed_loop limit (d\<lparr>buffer := buffer d @ c\<rparr>) acc = feed_loop limit (d'\<lparr>buffer := buffer d' @ c\<rparr>) vs"
  by (induction d acc rule: feed_loop_induct [where limit = limit])
    (simp_all add: feed_loop_turn frame_append fail_decoder_def)

lemma feed_loop_append_failed:
  "feed_loop limit d acc = (d', Inl e) \<Longrightarrow>
   snd (feed_loop limit (d\<lparr>buffer := buffer d @ c\<rparr>) acc) = Inl e"
  by (induction d acc rule: feed_loop_induct [where limit = limit])
    (simp_all add: feed_loop_turn frame_append frame_bad_append fail_decoder_def)

lemma feed_loop_Inl: "feed_loop limit d acc = (d', Inl e) \<Longrightarrow> \<exists>r. e = FrameRejected r"
  by (induction d acc rule: feed_loop_induct [where limit = limit])
    (auto simp add: feed_loop_turn fail_decoder_def dest: decode_json_payload_Inl)

lemma feed_loop_kept:
  "feed_loop limit d acc = (d', Inr vs) \<Longrightarrow>
     maximum_frame_bytes d' = maximum_frame_bytes d \<and> poisoned d' = poisoned d
     \<and> frame_length_ok d' \<and> \<not> frame_complete d'"
  by (induction d acc rule: feed_loop_induct [where limit = limit])
    (auto simp add: feed_loop_turn fail_decoder_def, simp_all add: drop_frame_def)

lemma feed_loop_failed:
  "feed_loop limit d acc = (d', Inl e) \<Longrightarrow> maximum_frame_bytes d' = maximum_frame_bytes d
     \<and> (poisoned d' \<longrightarrow> poisoned d \<or> buffer d' = [])"
  by (induction d acc rule: feed_loop_induct [where limit = limit])
    (auto simp add: feed_loop_turn fail_decoder_def, simp_all add: drop_frame_def)

lemma feed_loop_values:
  "feed_loop limit d acc = (case feed_loop limit d [] of (d', r) \<Rightarrow>
     (d', case r of Inl e \<Rightarrow> Inl e | Inr vs \<Rightarrow> Inr (acc @ vs)))"
  by (induction d acc rule: feed_loop_induct [where limit = limit])
    (simp_all add: feed_loop_turn fail_decoder_def split: prod.splits sum.splits)

section \<open>Feeding\<close>

text \<open>The states a decoder can be in between two calls.\<close>

definition decoder_ok :: "FrameDecoder \<Rightarrow> bool" where
  "decoder_ok d \<longleftrightarrow> 1 \<le> maximum_frame_bytes d \<and> maximum_frame_bytes d \<le> MAX_FRAME_BYTES
     \<and> (if poisoned d then buffer d = [] else frame_length_ok d \<and> \<not> frame_complete d)"

lemma new_decoder_ok: "new_decoder n = Inr d \<Longrightarrow> decoder_ok d"
  by (auto simp add: new_decoder_def decoder_ok_def frame_length_ok_def frame_complete_def
      split: if_splits)

lemma feed_cases:
  obtains (poisoned) "poisoned d" "feed limit d data = (d, Inl (FrameRejected ''decoder_poisoned''))"
  | (failed) r where "\<not> poisoned d"
      "feed limit d data = (d\<lparr>buffer := [], poisoned := True\<rparr>, Inl (FrameRejected r))"
      "length data \<le> MAX_FEED_BYTES \<longrightarrow>
         snd (feed_loop limit (d\<lparr>buffer := buffer d @ data\<rparr>) []) = Inl (FrameRejected r)"
  | (decoded) d' vs where "\<not> poisoned d" "feed limit d data = (d', Inr vs)"
      "length data \<le> MAX_FEED_BYTES"
      "feed_loop limit (d\<lparr>buffer := buffer d @ data\<rparr>) [] = (d', Inr vs)"
proof -
  let ?loop = "feed_loop limit (d\<lparr>buffer := buffer d @ data\<rparr>) []"
  consider "poisoned d" | "\<not> poisoned d" "MAX_FEED_BYTES < length data"
    | "\<not> poisoned d" "length data \<le> MAX_FEED_BYTES" by linarith
  then show thesis
  proof cases
    case 1
    then show thesis by (intro that(1)) (simp_all add: feed_def)
  next
    case 2
    then show thesis by (intro that(2)) (simp_all add: feed_def fail_decoder_def)
  next
    case 3
    obtain d' m where loop: "?loop = (d', m)" by (cases ?loop)
    show thesis
    proof (cases m)
      case (Inl e)
      then obtain r where r: "e = FrameRejected r"
        using feed_loop_Inl loop by blast
      have *: "maximum_frame_bytes d' = maximum_frame_bytes d" "poisoned d' \<longrightarrow> buffer d' = []"
        using feed_loop_failed [of limit _ _ d' e] loop Inl 3(1) by fastforce+
      have "(if poisoned d' then d' else d'\<lparr>buffer := [], poisoned := True\<rparr>)
          = d\<lparr>buffer := [], poisoned := True\<rparr>"
        using * by (cases d; cases d') auto
      then show thesis
        using 3 loop Inl r by (intro that(2)) (simp_all add: feed_def)
    next
      case (Inr vs)
      then show thesis using 3 loop by (intro that(3)) (simp_all add: feed_def)
    qed
  qed
qed

lemma feed_decoder_ok:
  assumes "decoder_ok d" shows "decoder_ok (fst (feed limit d data))"
proof (cases rule: feed_cases [of d limit data])
  case poisoned
  with assms show ?thesis by simp
next
  case (failed r)
  with assms show ?thesis by (simp add: decoder_ok_def)
next
  case (decoded d' vs)
  with assms feed_loop_kept [OF decoded(4)] show ?thesis by (simp add: decoder_ok_def)
qed

lemma finish_decoder_ok: "decoder_ok d \<Longrightarrow> decoder_ok (fst (finish d))"
  by (simp add: finish_def fail_decoder_def decoder_ok_def)

lemma decoder_ok_bounded:
  assumes "decoder_ok d" shows "length (buffer d) < 4 + maximum_frame_bytes d"
proof (cases "poisoned d")
  case True
  then show ?thesis using assms by (simp add: decoder_ok_def)
next
  case False
  then show ?thesis
    using assms by (cases "4 \<le> length (buffer d)")
      (auto simp add: decoder_ok_def frame_length_ok_def frame_complete_def not_le)
qed

text \<open>Feeding chunk by chunk is one pass of the loop over the concatenation.\<close>

lemma feed_all_loop:
  assumes "decoder_ok d" "\<not> poisoned d" "\<And>c. c \<in> set cs \<Longrightarrow> length c \<le> MAX_FEED_BYTES"
    and "feed_loop limit (d\<lparr>buffer := buffer d @ concat cs\<rparr>) [] = (d', Inr vs)"
  shows "feed_all limit d cs = (d', Inr vs)"
  using assms
proof (induction cs arbitrary: d vs)
  case Nil
  then show ?case by (simp add: feed_loop_wait decoder_ok_def)
next
  case (Cons c cs)
  let ?d = "d\<lparr>buffer := buffer d @ c\<rparr>"
  show ?case
  proof (cases rule: feed_cases [of d limit c])
    case poisoned
    with Cons.prems show ?thesis by simp
  next
    case (failed r)
    obtain d1 where loop: "feed_loop limit ?d [] = (d1, Inl (FrameRejected r))"
      using failed Cons.prems(3) [of c] by (cases "feed_loop limit ?d []") auto
    have "snd (feed_loop limit (?d\<lparr>buffer := buffer ?d @ concat cs\<rparr>) []) = Inl (FrameRejected r)"
      using loop feed_loop_append_failed by blast
    with Cons.prems(4) show ?thesis by simp
  next
    case (decoded d1 ws)
    have kept: "decoder_ok d1" "\<not> poisoned d1"
      using feed_decoder_ok [OF Cons.prems(1), of limit c] feed_loop_kept [OF decoded(4)] decoded by simp_all
    have "feed_loop limit (d1\<lparr>buffer := buffer d1 @ concat cs\<rparr>) ws = (d', Inr vs)"
      using feed_loop_append [OF decoded(4), of "concat cs"] Cons.prems(4) by simp
    then obtain us where us: "feed_loop limit (d1\<lparr>buffer := buffer d1 @ concat cs\<rparr>) [] = (d', Inr us)"
      and vs: "vs = ws @ us"
      by (subst (asm) feed_loop_values) (auto split: prod.splits sum.splits)
    have "feed_all limit d1 cs = (d', Inr us)"
      by (rule Cons.IH [OF kept _ us]) (simp add: Cons.prems(3))
    with decoded vs show ?thesis by simp
  qed
qed

section \<open>Streams of frames\<close>

lemma frame_head:
  assumes "buffer d = pack_be32 (length payload) @ payload @ rest"
    and "0 < length payload" "length payload \<le> maximum_frame_bytes d" "length payload < 4294967296"
  shows "frame_length_ok d" "frame_complete d" "frame_payload d = payload"
    "drop_frame d = d\<lparr>buffer := rest\<rparr>"
  using assms
  by (simp_all add: frame_length_ok_def frame_complete_def frame_payload_def drop_frame_def)

lemma feed_loop_encoded:
  assumes "encode_frame v = Inr frame" "v = PDict kvs" "wf_py v" "Suc MAX_JSON_DEPTH \<le> limit"
    and "length frame \<le> 4 + maximum_frame_bytes d" "buffer d = frame @ rest"
  shows "feed_loop limit d acc = feed_loop limit (d\<lparr>buffer := rest\<rparr>) (acc @ [psort v])"
proof -
  obtain payload where payload: "canonical_json_bytes v = Inr payload"
    and frame: "frame = pack_be32 (length payload) @ payload"
    using assms(1) by (auto simp add: encode_frame_def)
  have "0 < length payload" "length payload < 4294967296"
    using payload by (auto simp add: canonical_json_bytes_Inr_iff limits)
  then have head: "frame_length_ok d" "frame_complete d" "frame_payload d = payload"
    "drop_frame d = d\<lparr>buffer := rest\<rparr>"
    using frame_head [of d payload rest] assms(5,6) frame by simp_all
  then show ?thesis
    using decode_canonical [OF payload assms(2-4)] by (simp add: feed_loop_frame)
qed

lemma feed_loop_stream:
  assumes "traverse encode_frame vs = Inr frames"
    and "\<And>v. v \<in> set vs \<Longrightarrow> (\<exists>kvs. v = PDict kvs) \<and> wf_py v"
    and "\<And>frame. frame \<in> set frames \<Longrightarrow> length frame \<le> 4 + maximum_frame_bytes d"
    and "Suc MAX_JSON_DEPTH \<le> limit" "buffer d = concat frames"
  shows "feed_loop limit d acc = (d\<lparr>buffer := []\<rparr>, Inr (acc @ map psort vs))"
  using assms
proof (induction vs arbitrary: frames acc d)
  case Nil
  then show ?case
    by (simp add: feed_loop_wait frame_length_ok_def frame_complete_def)
next
  case (Cons v vs)
  then obtain frame rest where frame: "encode_frame v = Inr frame"
    and rest: "traverse encode_frame vs = Inr rest" and frames: "frames = frame # rest"
    by auto
  obtain kvs where v: "v = PDict kvs" "wf_py v" using Cons.prems(2) [of v] by auto
  have "feed_loop limit d acc = feed_loop limit (d\<lparr>buffer := concat rest\<rparr>) (acc @ [psort v])"
    using Cons.prems(3) [of frame] Cons.prems(5) frames
    by (intro feed_loop_encoded [OF frame v Cons.prems(4)]) simp_all
  also have "\<dots> = (d\<lparr>buffer := []\<rparr>, Inr (acc @ map psort (v # vs)))"
    using Cons.IH [OF rest, of "d\<lparr>buffer := concat rest\<rparr>" "acc @ [psort v]"] Cons.prems frames
    by simp
  finally show ?case .
qed

lemma empty_object_bytes [simp]:
  "utf8_encode [123, 125] = Some [123, 125]"
  by (simp add: utf8_encode_def utf8_char_def scalar_def surrogate_def byte_def)

lemma feed_all_stream:
  assumes "traverse encode_frame vs = Inr frames"
    and "\<And>v. v \<in> set vs \<Longrightarrow> (\<exists>kvs. v = PDict kvs) \<and> wf_py v"
    and "new_decoder maximum = Inr d"
    and "\<And>frame. frame \<in> set frames \<Longrightarrow> length frame \<le> 4 + maximum_frame_bytes d"
    and "concat chunks = concat frames"
    and "\<And>c. c \<in> set chunks \<Longrightarrow> length c \<le> MAX_FEED_BYTES"
    and "Suc MAX_JSON_DEPTH \<le> limit"
  shows "feed_all limit d chunks = (d, Inr (map psort vs)) \<and> finish d = (d, Inr ())"
proof -
  have d: "buffer d = []" "\<not> poisoned d" "decoder_ok d"
    using assms(3) new_decoder_ok by (auto simp add: new_decoder_def split: if_splits)
  let ?d = "d\<lparr>buffer := buffer d @ concat chunks\<rparr>"
  have "feed_loop limit ?d [] = (?d\<lparr>buffer := []\<rparr>, Inr ([] @ map psort vs))"
    by (rule feed_loop_stream [OF assms(1)]) (use assms(2,4,5,7) d in simp_all)
  also have "?d\<lparr>buffer := []\<rparr> = d"
    using d(1) by (cases d) simp
  finally have "feed_all limit d chunks = (d, Inr (map psort vs))"
    using feed_all_loop [OF d(3,2) assms(6)] by simp
  then show ?thesis using d by (simp add: finish_def)
qed

text \<open>C20: However a stream of encoded dictionaries is cut into chunks of at most
  \<open>MAX_FEED_BYTES\<close>, a fresh decoder whose maximum admits every frame returns exactly those
  dictionaries, in order, and ends with an empty buffer, so that \<open>finish\<close> succeeds.\<close>

theorem feed_all_frames:
  assumes "traverse encode_frame vs = Inr frames"
    and "\<And>v. v \<in> set vs \<Longrightarrow> (\<exists>kvs. v = PDict kvs) \<and> wf_py v"
    and "new_decoder maximum = Inr d"
    and "\<And>frame. frame \<in> set frames \<Longrightarrow> length frame \<le> 4 + maximum_frame_bytes d"
    and "concat chunks = concat frames"
    and "\<And>c. c \<in> set chunks \<Longrightarrow> length c \<le> MAX_FEED_BYTES"
    and "Suc MAX_JSON_DEPTH \<le> limit"
  shows "feed_all limit d chunks = (d, Inr (map psort vs)) \<and> finish d = (d, Inr ())"
  using assms by (rule feed_all_stream)

theorem feed_all_frames_witness:
  "feed_all 13 \<lparr>maximum_frame_bytes = 64, buffer = [], poisoned = False\<rparr> [[0, 0, 0], [2, 123], [125]]
     = (\<lparr>maximum_frame_bytes = 64, buffer = [], poisoned = False\<rparr>, Inr [PDict []])"
proof -
  have frame: "traverse encode_frame [PDict []] = Inr [[0, 0, 0, 2, 123, 125]]"
    by (simp add: accepts encode_frame_def canonical_json_bytes_Inr_iff empty_object_bytes limits
        pack_be32_def byte_def)
  let ?chunks = "[[0, 0, 0], [2, 123], [125]] :: bytes list"
  have small: "length c \<le> MAX_FEED_BYTES" if "c \<in> set ?chunks" for c
    using that by (auto simp add: limits MAX_FEED_BYTES_def)
  let ?d = "\<lparr>maximum_frame_bytes = 64, buffer = [], poisoned = False\<rparr>"
  have "feed_all 13 ?d ?chunks = (?d, Inr (map psort [PDict []])) \<and> finish ?d = (?d, Inr ())"
    by (rule feed_all_frames [OF frame, of 64]) (use small in \<open>auto simp add: new_decoder_def limits\<close>)
  then show ?thesis by (simp del: feed_all.simps)
qed

text \<open>Every call keeps a decoder well formed: its buffer never holds a whole maximal frame and
  its header, and it is empty once the decoder is poisoned.\<close>

lemma feed_bounded:
  assumes "decoder_ok d"
  shows "decoder_ok (fst (feed limit d data)) \<and> decoder_ok (fst (finish d))
    \<and> length (buffer (fst (feed limit d data))) < 4 + MAX_FRAME_BYTES
    \<and> (poisoned (fst (feed limit d data)) \<longrightarrow> buffer (fst (feed limit d data)) = [])"
proof -
  have ok: "decoder_ok (fst (feed limit d data))" using assms by (rule feed_decoder_ok)
  then show ?thesis
    using decoder_ok_bounded [OF ok] finish_decoder_ok [OF assms]
    by (auto simp add: decoder_ok_def)
qed

lemma feed_bounded_witness:
  "decoder_ok \<lparr>maximum_frame_bytes = 64, buffer = [0, 0, 0, 2, 123], poisoned = False\<rparr>
   \<and> decoder_ok (fst (feed 13 \<lparr>maximum_frame_bytes = 64, buffer = [0, 0, 0, 2, 123], poisoned = False\<rparr> [125]))"
proof -
  have ok: "decoder_ok \<lparr>maximum_frame_bytes = 64, buffer = [0, 0, 0, 2, 123], poisoned = False\<rparr>"
    by (simp add: decoder_ok_def frame_length_ok_def frame_complete_def unpack_be32_def limits)
  then show ?thesis using feed_bounded [OF ok] by simp
qed

text \<open>C21: Fail-stop: a call of \<open>feed\<close> that raises, raises \<open>FrameRejected\<close>. A decoder that was not poisoned
  before is then poisoned and has dropped every byte of its buffer, with its limit unchanged; one that was
  poisoned already is unchanged. From then on every call of \<open>feed\<close> and \<open>finish\<close> raises
  \<open>decoder_poisoned\<close> and changes nothing.\<close>

theorem feed_fail_stop:
  assumes "feed limit d data = (d', Inl e)"
  shows "(\<exists>r. e = FrameRejected r)
    \<and> d' = (if poisoned d then d else d\<lparr>buffer := [], poisoned := True\<rparr>) \<and> poisoned d'
    \<and> feed limit d' later = (d', Inl (FrameRejected ''decoder_poisoned''))
    \<and> finish d' = (d', Inl (FrameRejected ''decoder_poisoned''))"
  using assms
  by (cases rule: feed_cases [of d limit data]) (auto simp add: feed_def finish_def)

theorem feed_fail_stop_witness:
  "feed 13 (fst (feed 13 \<lparr>maximum_frame_bytes = 64, buffer = [], poisoned = False\<rparr> [0, 0, 0, 0])) [125]
     = (\<lparr>maximum_frame_bytes = 64, buffer = [], poisoned = True\<rparr>, Inl (FrameRejected ''decoder_poisoned''))"
proof -
  have "feed 13 \<lparr>maximum_frame_bytes = 64, buffer = [], poisoned = False\<rparr> [0, 0, 0, 0]
      = (\<lparr>maximum_frame_bytes = 64, buffer = [], poisoned = True\<rparr>, Inl (FrameRejected ''frame_length''))"
    by (simp add: feed_def feed_loop_bad frame_length_ok_def unpack_be32_def fail_decoder_def
        MAX_FEED_BYTES_def limits)
  from feed_fail_stop [OF this] this show ?thesis by simp
qed

end
