(* ===== verification/Kernel_Authority.thy ===== *)
theory Kernel_Authority
  imports Kernel_Objects Kernel_Frames
begin

text \<open>
  \<^verbatim>\<open>algo_cli/david_control_kernel.py\<close>, the signed records: the signature encoding and payload,
  \<open>ControlVerifier\<close> and \<open>ControlSigner\<close>, \<open>ControlPreparation\<close> and its envelope, \<open>ControlGrant\<close>,
  \<open>ControlPermit\<close> and \<open>ControlEnvelope\<close>.

  Ed25519 comes from the \<open>cryptography\<close> package and is a parameter: a record of its three functions
  on raw bytes. \<open>ed25519_ok\<close> states what the package documents: key and signature lengths, and that a
  signature verifies under the public key of the signing key. Nothing here assumes that signatures
  cannot be forged.
\<close>

section \<open>Signatures\<close>

record ed25519 =
  ed_public :: "bytes \<Rightarrow> bytes"
  ed_sign :: "bytes \<Rightarrow> bytes \<Rightarrow> bytes"
  ed_verify :: "bytes \<Rightarrow> bytes \<Rightarrow> bytes \<Rightarrow> bool"

definition encode_signature :: "bytes \<Rightarrow> pystr" where
  "encode_signature raw = rev (dropWhile (\<lambda>c. c = 61) (rev (urlsafe_b64encode raw)))"

definition decode_signature :: "pystr \<Rightarrow> exn + bytes" where
  "decode_signature s =
    rbind (signature_field ''signature'' (PStr s)) (\<lambda>_.
    case b64decode_urlsafe (s @ [61, 61]) of
      Inl e \<Rightarrow> Inl (AuthorityRejected ''signature_encoding'')
    | Inr decoded \<Rightarrow>
        (if length decoded \<noteq> 64 then Inl (AuthorityRejected ''signature_length'')
         else if encode_signature decoded \<noteq> s then Inl (AuthorityRejected ''signature_encoding'')
         else Inr decoded))"

text \<open>The texts are ASCII, so encoding them is \<open>map byte\<close>.\<close>

definition signature_payload :: "string \<Rightarrow> py \<Rightarrow> exn + bytes" where
  "signature_payload kind v =
    rbind (safe_identifier ''signature_kind'' (PStr (str kind))) (\<lambda>safe_kind.
    rbind (canonical_json_bytes v) (\<lambda>canonical.
    Inr (map byte (str ''algo-control-v1'') @ [0] @ map byte safe_kind @ [0] @ canonical)))"

record ControlVerifier =
  vf_public_key :: bytes
  vf_key_id :: pystr

definition ControlVerifier_init :: "bytes \<Rightarrow> ControlVerifier" where
  "ControlVerifier_init raw =
     \<lparr>vf_public_key = raw, vf_key_id = str ''ed25519:'' @ hexdigest (sha256 raw)\<rparr>"

definition ControlVerifier_from_public_bytes :: "bytes \<Rightarrow> exn + ControlVerifier" where
  "ControlVerifier_from_public_bytes raw =
    (if length raw \<noteq> 32 then Inl (ValueError ''Ed25519 public key must contain 32 bytes'')
     else Inr (ControlVerifier_init raw))"

definition ControlVerifier_verify ::
    "ed25519 \<Rightarrow> ControlVerifier \<Rightarrow> string \<Rightarrow> py \<Rightarrow> pystr \<Rightarrow> exn + unit" where
  "ControlVerifier_verify ed vf kind v signature =
    rbind (decode_signature signature) (\<lambda>raw.
    rbind (signature_payload kind v) (\<lambda>payload.
    if ed_verify ed (vf_public_key vf) raw payload then Inr ()
    else Inl (AuthorityRejected ''signature_invalid'')))"

record ControlSigner =
  sg_private_key :: bytes
  sg_verifier :: ControlVerifier
  sg_key_id :: pystr

definition ControlSigner_init :: "ed25519 \<Rightarrow> bytes \<Rightarrow> ControlSigner" where
  "ControlSigner_init ed private =
    (let vf = ControlVerifier_init (ed_public ed private) in
     \<lparr>sg_private_key = private, sg_verifier = vf, sg_key_id = vf_key_id vf\<rparr>)"

definition ControlSigner_from_private_bytes :: "ed25519 \<Rightarrow> bytes \<Rightarrow> exn + ControlSigner" where
  "ControlSigner_from_private_bytes ed raw =
    (if length raw \<noteq> 32 then Inl (ValueError ''Ed25519 private key must contain 32 bytes'')
     else Inr (ControlSigner_init ed raw))"

definition ControlSigner_sign :: "ed25519 \<Rightarrow> ControlSigner \<Rightarrow> string \<Rightarrow> py \<Rightarrow> exn + pystr" where
  "ControlSigner_sign ed sg kind v =
    rbind (signature_payload kind v) (\<lambda>payload.
    Inr (encode_signature (ed_sign ed (sg_private_key sg) payload)))"

definition ed25519_ok :: "ed25519 \<Rightarrow> bool" where
  "ed25519_ok ed \<longleftrightarrow> (\<forall>private m. length private = 32 \<longrightarrow>
     length (ed_public ed private) = 32 \<and> length (ed_sign ed private m) = 64
     \<and> ed_verify ed (ed_public ed private) (ed_sign ed private m) m)"

lemma length_sextets: "length bs = 64 \<Longrightarrow> length (sextets bs) = 86"
proof -
  have "length (sextets bs) = 4 * (length bs div 3) + (if length bs mod 3 = 0 then 0 else Suc (length bs mod 3))"
    by (induction bs rule: sextets.induct) (auto simp add: div_add_self1)
  then show "length bs = 64 \<Longrightarrow> length (sextets bs) = 86" by simp
qed

lemma dropWhile_rev_pads:
  "list_all (\<lambda>c. c \<noteq> (61 :: nat)) xs \<Longrightarrow> rev (dropWhile (\<lambda>c. c = 61) (rev (xs @ replicate n 61))) = xs"
proof -
  assume "list_all (\<lambda>c. c \<noteq> (61 :: nat)) xs"
  then have "dropWhile (\<lambda>c. c = 61) (rev xs) = rev xs"
    by (cases "rev xs") (auto simp add: list_all_iff dest: arg_cong [where f = set])
  moreover have "dropWhile (\<lambda>c. c = 61) (replicate n 61 @ ys) = dropWhile (\<lambda>c. c = (61 :: nat)) ys" for ys
    by (induction n) simp_all
  ultimately show ?thesis by simp
qed

lemma encode_signature_chars: "encode_signature raw = map b64_char (sextets raw)"
proof -
  have "list_all (\<lambda>c. c \<noteq> 61) (map b64_char (sextets raw))"
    using sextets_lt [of raw] by (auto simp add: list_all_iff b64_char_neq_pad)
  then show ?thesis
    unfolding encode_signature_def urlsafe_b64encode_def by (rule dropWhile_rev_pads)
qed

lemma encode_signature_text: "length raw = 64 \<Longrightarrow> signature_text (encode_signature raw)"
  using sextets_lt [of raw]
  by (auto simp add: signature_text_def encode_signature_chars length_sextets list_all_iff b64_char_def
      char_classes)

lemma decode_encode_signature:
  assumes "length raw = 64" shows "decode_signature (encode_signature raw) = Inr raw"
proof -
  have "encode_signature raw @ [61, 61] = urlsafe_b64encode raw"
    using assms by (simp add: encode_signature_chars urlsafe_b64encode_def numeral_2_eq_2)
  then have "b64decode_urlsafe (encode_signature raw @ [61, 61]) = Inr raw"
    by (simp only: b64decode_encode)
  moreover have "signature_field ''signature'' (PStr (encode_signature raw)) = Inr (encode_signature raw)"
    using assms by (simp add: accepts encode_signature_text)
  ultimately show ?thesis using assms by (simp add: decode_signature_def)
qed

lemma decode_signature_canonical:
  "decode_signature s = Inr raw \<Longrightarrow> s = encode_signature raw \<and> length raw = 64"
  by (auto simp add: decode_signature_def accepts split: sum.splits if_splits)

lemma split_at_zero:
  "xs @ 0 # ys = xs' @ 0 # (ys' :: bytes) \<Longrightarrow> 0 \<notin> set xs \<Longrightarrow> 0 \<notin> set xs' \<Longrightarrow> xs = xs' \<and> ys = ys'"
  by (induction xs arbitrary: xs') (auto simp add: Cons_eq_append_conv append_eq_Cons_conv)

lemma byte_eq_iff: "a < 256 \<Longrightarrow> b < 256 \<Longrightarrow> byte a = byte b \<longleftrightarrow> a = b"
  by (metis unat_byte_small)

lemma map_byte_inject:
  "list_all (\<lambda>c. c < 256) s \<Longrightarrow> list_all (\<lambda>c. c < 256) t \<Longrightarrow> map byte s = map byte t \<longleftrightarrow> s = t"
proof -
  have "map unat (map byte u) = u" if "list_all (\<lambda>c. c < 256) u" for u
    using that by (auto simp add: list_all_iff intro!: map_idI)
  then show "list_all (\<lambda>c. c < 256) s \<Longrightarrow> list_all (\<lambda>c. c < 256) t \<Longrightarrow> map byte s = map byte t \<longleftrightarrow> s = t"
    by metis
qed

lemma safe_id_bytes:
  assumes "safe_id_text s" shows "0 \<notin> byte ` set s" "list_all (\<lambda>c. c < 256) s"
proof -
  have chars: "0 < c \<and> c < 128" if "c \<in> set s" for c
    using assms that by (auto simp add: safe_id_text_def char_classes list_all_iff split: list.splits)
  show "0 \<notin> byte ` set s"
  proof
    assume "0 \<in> byte ` set s"
    then obtain c where "c \<in> set s" "byte c = byte 0" by (auto simp add: byte_def)
    with chars [of c] show False by (simp add: byte_eq_iff)
  qed
  show "list_all (\<lambda>c. c < 256) s"
    using chars by (fastforce simp add: list_all_iff)
qed

lemma signature_payload_Inr_iff:
  "signature_payload kind v = Inr p \<longleftrightarrow> safe_id_text (str kind) \<and>
     (\<exists>bs. canonical_json_bytes v = Inr bs
        \<and> p = map byte (str ''algo-control-v1'') @ [0] @ map byte (str kind) @ [0] @ bs)"
  by (auto simp add: signature_payload_def accepts)

lemma signature_payload_kind:
  assumes "signature_payload kind v = Inr p" "signature_payload kind' v' = Inr p"
  shows "kind = kind'"
proof -
  obtain bs bs' where kinds: "safe_id_text (str kind)" "safe_id_text (str kind')"
    and eq: "map byte (str kind) @ 0 # bs = map byte (str kind') @ 0 # bs'"
    using assms by (auto simp add: signature_payload_Inr_iff)
  have "map byte (str kind) = map byte (str kind')"
    using split_at_zero [OF eq] safe_id_bytes(1) kinds by auto
  then show ?thesis
    using kinds map_byte_inject safe_id_bytes(2) str_inject by blast
qed

text \<open>C19: The payload that is signed is unambiguous: when \<open>signature_payload\<close> gives the same bytes for two
  purposes and two values (whose dictionaries have no key twice), the purposes are equal, and the values
  are equal up to the order of their keys.\<close>

theorem signature_payload_inject:
  assumes "signature_payload kind v = Inr payload" "signature_payload kind' v' = Inr payload"
    and "wf_py v" "wf_py v'"
  shows "kind = kind' \<and> psort v = psort v'"
proof -
  have kind: "kind = kind'" using assms(1,2) by (rule signature_payload_kind)
  then have "\<exists>bs. canonical_json_bytes v = Inr bs \<and> canonical_json_bytes v' = Inr bs"
    using assms(1,2) by (auto simp add: signature_payload_Inr_iff)
  then show ?thesis
    using kind assms(3,4) by (blast intro: canonical_json_bytes_inject)
qed

lemma verify_sign:
  assumes "ed25519_ok ed" "length private = 32" "sg = ControlSigner_init ed private"
    and "ControlSigner_sign ed sg kind v = Inr s"
  shows "ControlVerifier_verify ed (sg_verifier sg) kind v s = Inr ()" "signature_text s"
proof -
  obtain p where p: "signature_payload kind v = Inr p"
    and s: "s = encode_signature (ed_sign ed (sg_private_key sg) p)"
    using assms(4) by (auto simp add: ControlSigner_sign_def)
  have key: "sg_private_key sg = private" "vf_public_key (sg_verifier sg) = ed_public ed private"
    by (simp_all add: assms(3) ControlSigner_init_def ControlVerifier_init_def Let_def)
  have len: "length (ed_sign ed private p) = 64"
    and ver: "ed_verify ed (ed_public ed private) (ed_sign ed private p) p"
    using assms(1,2) by (simp_all add: ed25519_ok_def)
  show "signature_text s"
    using len by (simp add: s key encode_signature_text)
  show "ControlVerifier_verify ed (sg_verifier sg) kind v s = Inr ()"
    using len ver by (simp add: ControlVerifier_verify_def s key decode_encode_signature p)
qed

section \<open>Preparations\<close>

record ControlPreparation =
  pr_preparation_id :: pystr
  pr_request_id :: pystr
  pr_subject_id :: pystr
  pr_operation :: Operation
  pr_data_class :: ControlDataClass
  pr_route :: ControlRoute
  pr_selector :: pystr
  pr_arguments :: "(pystr \<times> py) list"
  pr_issued_at_ms :: int
  pr_expires_at_ms :: int
  pr_policy_digest :: pystr
  pr_authority_key_id :: pystr
  pr_signature :: pystr
  pr_schema_version :: int

definition ControlPreparation_from_dict :: "py \<Rightarrow> exn + ControlPreparation" where
  "ControlPreparation_from_dict v =
    rbind (exact_dict [''arguments'', ''authority_key_id'', ''data_class'', ''expires_at_ms'',
      ''issued_at_ms'', ''operation'', ''policy_digest'', ''preparation_id'', ''request_id'', ''route'',
      ''schema_version'', ''selector'', ''signature'', ''subject_id''] ''preparation'' v) (\<lambda>row.
    rbind (field row ''schema_version'' (exact_version ''preparation_version'' CONTROL_SCHEMA_VERSION)) (\<lambda>_.
    rbind (field row ''issued_at_ms'' (exact_int ''preparation_issued'' 0 MAX_SAFE_INTEGER)) (\<lambda>issued.
    rbind (field row ''expires_at_ms'' (exact_int ''preparation_expires'' 1 MAX_SAFE_INTEGER)) (\<lambda>expires.
    rbind (require (issued < expires \<and> expires \<le> issued + MAX_PREPARATION_LIFETIME_MS)
             (SchemaRejected ''preparation_window'')) (\<lambda>_.
    rbind (field row ''operation'' (enum_value Operation ''preparation_operation'')) (\<lambda>operation.
    rbind (field row ''data_class'' (enum_value ControlDataClass ''preparation_data_class'')) (\<lambda>data_class.
    rbind (require (\<not> (operation = UPLOAD \<or> data_class \<notin> data_classes (OPERATION_SPECS operation)))
             (SchemaRejected ''preparation_data_class'')) (\<lambda>_.
    rbind (field row ''route'' (enum_value ControlRoute ''preparation_route'')) (\<lambda>route.
    rbind (field row ''selector'' (safe_identifier ''preparation_selector'')) (\<lambda>selector.
    rbind (field row ''arguments'' (validate_preparation_arguments operation route (PStr selector))) (\<lambda>arguments.
    rbind (field row ''preparation_id'' (canonical_uuid ''preparation_id'')) (\<lambda>preparation_id.
    rbind (field row ''request_id'' (canonical_uuid ''preparation_request_id'')) (\<lambda>request_id.
    rbind (field row ''subject_id'' (safe_identifier ''preparation_subject_id'')) (\<lambda>subject_id.
    rbind (field row ''policy_digest'' (digest_field ''preparation_policy'')) (\<lambda>policy_digest.
    rbind (field row ''authority_key_id'' (key_id_field ''preparation_key'')) (\<lambda>authority_key_id.
    rbind (field row ''signature'' (signature_field ''preparation_signature'')) (\<lambda>signature.
    Inr \<lparr>pr_preparation_id = preparation_id, pr_request_id = request_id, pr_subject_id = subject_id,
         pr_operation = operation, pr_data_class = data_class, pr_route = route,
         pr_selector = selector, pr_arguments = arguments, pr_issued_at_ms = issued,
         pr_expires_at_ms = expires, pr_policy_digest = policy_digest,
         pr_authority_key_id = authority_key_id, pr_signature = signature,
         pr_schema_version = CONTROL_SCHEMA_VERSION\<rparr>)))))))))))))))))"

definition ControlPreparation_unsigned :: "ControlPreparation \<Rightarrow> (string \<times> py) list" where
  "ControlPreparation_unsigned p =
    [(''schema_version'', PInt (pr_schema_version p)),
     (''preparation_id'', PStr (pr_preparation_id p)),
     (''request_id'', PStr (pr_request_id p)),
     (''subject_id'', PStr (pr_subject_id p)),
     (''operation'', enum_py Operation (pr_operation p)),
     (''data_class'', enum_py ControlDataClass (pr_data_class p)),
     (''route'', enum_py ControlRoute (pr_route p)),
     (''selector'', PStr (pr_selector p)),
     (''arguments'', PDict (pr_arguments p)),
     (''issued_at_ms'', PInt (pr_issued_at_ms p)),
     (''expires_at_ms'', PInt (pr_expires_at_ms p)),
     (''policy_digest'', PStr (pr_policy_digest p)),
     (''authority_key_id'', PStr (pr_authority_key_id p))]"

definition ControlPreparation_unsigned_dict :: "ControlPreparation \<Rightarrow> py" where
  "ControlPreparation_unsigned_dict p = PDict (items (ControlPreparation_unsigned p))"

definition ControlPreparation_to_dict :: "ControlPreparation \<Rightarrow> py" where
  "ControlPreparation_to_dict p =
     PDict (items (ControlPreparation_unsigned p @ [(''signature'', PStr (pr_signature p))]))"

definition ControlPreparation_digest :: "ControlPreparation \<Rightarrow> exn + pystr" where
  "ControlPreparation_digest p = content_digest (ControlPreparation_to_dict p)"

text \<open>A validity window of at most \<open>lifetime\<close> milliseconds.\<close>

definition window_ok :: "int \<Rightarrow> int \<Rightarrow> int \<Rightarrow> bool" where
  "window_ok lifetime issued expires \<longleftrightarrow> 0 \<le> issued \<and> issued \<le> MAX_SAFE_INTEGER
     \<and> 1 \<le> expires \<and> expires \<le> MAX_SAFE_INTEGER \<and> issued < expires \<and> expires \<le> issued + lifetime"

definition ControlPreparation_ok :: "ControlPreparation \<Rightarrow> bool" where
  "ControlPreparation_ok p \<longleftrightarrow>
     pr_schema_version p = CONTROL_SCHEMA_VERSION
     \<and> window_ok MAX_PREPARATION_LIFETIME_MS (pr_issued_at_ms p) (pr_expires_at_ms p)
     \<and> pr_operation p \<noteq> UPLOAD \<and> pr_data_class p \<in> data_classes (OPERATION_SPECS (pr_operation p))
     \<and> safe_id_text (pr_selector p)
     \<and> preparation_arguments_ok (pr_operation p) (pr_route p) (pr_selector p) (pr_arguments p)
     \<and> canonical_uuid_text (pr_preparation_id p) \<and> canonical_uuid_text (pr_request_id p)
     \<and> safe_id_text (pr_subject_id p) \<and> digest_text (pr_policy_digest p)
     \<and> key_id_text (pr_authority_key_id p) \<and> signature_text (pr_signature p)"

interpretation preparation:
  record_codec ControlPreparation_from_dict ControlPreparation_to_dict ControlPreparation_ok
proof (rule record_codecI [OF ControlPreparation_from_dict_def ControlPreparation_to_dict_def], goal_cases)
  case (3 x)
  then show ?case
    using preparation_arguments.to_dict_wf [of "pr_operation x" "pr_route x" "pr_selector x" "pr_arguments x"]
    by (simp add: ControlPreparation_ok_def ControlPreparation_unsigned_def)
next
  case (4 row x)
  note codecs = preparation_arguments.field_codec [OF 4]
  show ?case
    by (cases x) (auto simp add: ControlPreparation_ok_def ControlPreparation_unsigned_def window_ok_def
        accepts codecs)
qed (auto simp add: ControlPreparation_unsigned_def)

record ControlPreparationEnvelope =
  pe_preparation :: ControlPreparation
  pe_protocol_version :: int
  pe_message_type :: pystr

definition exact_string :: "string \<Rightarrow> string \<Rightarrow> py \<Rightarrow> exn + unit" where
  "exact_string label expected v = (if v = PStr (str expected) then Inr () else reject label)"

lemma exact_string_Inr_iff [accepts]: "exact_string label s v = Inr u \<longleftrightarrow> v = PStr (str s)"
  by (simp add: exact_string_def)

definition ControlPreparationEnvelope_from_dict :: "py \<Rightarrow> exn + ControlPreparationEnvelope" where
  "ControlPreparationEnvelope_from_dict v =
    rbind (exact_dict [''message_type'', ''preparation'', ''protocol_version''] ''preparation_envelope'' v) (\<lambda>row.
    rbind (field row ''protocol_version'' (exact_version ''protocol_version'' CONTROL_PROTOCOL_VERSION)) (\<lambda>_.
    rbind (field row ''message_type'' (exact_string ''message_type'' CONTROL_PREPARATION_MESSAGE_TYPE)) (\<lambda>_.
    rbind (field row ''preparation'' ControlPreparation_from_dict) (\<lambda>preparation.
    Inr \<lparr>pe_preparation = preparation, pe_protocol_version = CONTROL_PROTOCOL_VERSION,
         pe_message_type = str CONTROL_PREPARATION_MESSAGE_TYPE\<rparr>))))"

definition ControlPreparationEnvelope_from_payload ::
    "nat \<Rightarrow> bytes \<Rightarrow> exn + ControlPreparationEnvelope" where
  "ControlPreparationEnvelope_from_payload limit payload =
     rbind (decode_json_payload limit payload) ControlPreparationEnvelope_from_dict"

definition ControlPreparationEnvelope_to_dict :: "ControlPreparationEnvelope \<Rightarrow> py" where
  "ControlPreparationEnvelope_to_dict e = PDict (items
    [(''protocol_version'', PInt (pe_protocol_version e)),
     (''message_type'', PStr (pe_message_type e)),
     (''preparation'', ControlPreparation_to_dict (pe_preparation e))])"

definition ControlPreparationEnvelope_ok :: "ControlPreparationEnvelope \<Rightarrow> bool" where
  "ControlPreparationEnvelope_ok e \<longleftrightarrow> pe_protocol_version e = CONTROL_PROTOCOL_VERSION
     \<and> pe_message_type e = str CONTROL_PREPARATION_MESSAGE_TYPE \<and> ControlPreparation_ok (pe_preparation e)"

interpretation preparation_envelope: record_codec ControlPreparationEnvelope_from_dict
  ControlPreparationEnvelope_to_dict ControlPreparationEnvelope_ok
proof (rule record_codecI [OF ControlPreparationEnvelope_from_dict_def
      ControlPreparationEnvelope_to_dict_def], goal_cases)
  case (3 x)
  then show ?case
    using preparation.to_dict_wf by (simp add: ControlPreparationEnvelope_ok_def)
next
  case (4 row x)
  note codecs = preparation.field_codec [OF 4]
  show ?case
    by (cases x) (auto simp add: ControlPreparationEnvelope_ok_def accepts codecs)
qed auto

section \<open>Grants\<close>

text \<open>The tuples of distinct enumeration members in the order of their values, and the sorted tuples
  of opaque identifiers, with the length bound both validators default to.\<close>

definition DEFAULT_TUPLE :: nat where [limits]: "DEFAULT_TUPLE = 16"

definition ordered_by :: "('e \<Rightarrow> 'k::linorder) \<Rightarrow> nat \<Rightarrow> 'e list \<Rightarrow> bool" where
  "ordered_by key maximum es \<longleftrightarrow> es \<noteq> [] \<and> length es \<le> maximum \<and> distinct es \<and> sorted (map key es)"

record ControlGrant =
  gr_grant_id :: pystr
  gr_subject_id :: pystr
  gr_target_ids :: "pystr list"
  gr_target_kinds :: "TargetKind list"
  gr_operations :: "Operation list"
  gr_effects :: "Effect list"
  gr_data_classes :: "ControlDataClass list"
  gr_routes :: "ControlRoute list"
  gr_issued_at_ms :: int
  gr_expires_at_ms :: int
  gr_maximum_action_count :: int
  gr_max_input_bytes :: int
  gr_max_output_bytes :: int
  gr_max_transmit_bytes :: int
  gr_policy_digest :: pystr
  gr_authority_key_id :: pystr
  gr_signature :: pystr
  gr_schema_version :: int

definition ControlGrant_from_dict :: "py \<Rightarrow> exn + ControlGrant" where
  "ControlGrant_from_dict v =
    rbind (exact_dict [''authority_key_id'', ''data_classes'', ''effects'', ''expires_at_ms'', ''grant_id'',
      ''issued_at_ms'', ''max_input_bytes'', ''max_output_bytes'', ''max_transmit_bytes'',
      ''maximum_action_count'', ''operations'', ''policy_digest'', ''routes'', ''schema_version'',
      ''signature'', ''subject_id'', ''target_ids'', ''target_kinds''] ''grant'' v) (\<lambda>row.
    rbind (field row ''schema_version'' (exact_version ''grant_version'' CONTROL_SCHEMA_VERSION)) (\<lambda>_.
    rbind (field row ''issued_at_ms'' (exact_int ''grant_issued'' 0 MAX_SAFE_INTEGER)) (\<lambda>issued.
    rbind (field row ''expires_at_ms'' (exact_int ''grant_expires'' 1 MAX_SAFE_INTEGER)) (\<lambda>expires.
    rbind (require (issued < expires \<and> expires \<le> issued + MAX_GRANT_LIFETIME_MS)
             (SchemaRejected ''grant_window'')) (\<lambda>_.
    rbind (field row ''grant_id'' (canonical_uuid ''grant_id'')) (\<lambda>grant_id.
    rbind (field row ''subject_id'' (safe_identifier ''subject_id'')) (\<lambda>subject_id.
    rbind (field row ''target_ids'' (sorted_string_tuple opaque_id ''target_ids'' DEFAULT_TUPLE)) (\<lambda>target_ids.
    rbind (field row ''target_kinds'' (ordered_enum_tuple TargetKind ''target_kinds'' (by_value TargetKind) DEFAULT_TUPLE)) (\<lambda>target_kinds.
    rbind (field row ''operations'' (ordered_enum_tuple Operation ''operations'' (by_value Operation) DEFAULT_TUPLE)) (\<lambda>operations.
    rbind (field row ''effects'' (ordered_enum_tuple Effect ''effects'' (by_value Effect) DEFAULT_TUPLE)) (\<lambda>effs.
    rbind (field row ''data_classes'' (ordered_enum_tuple ControlDataClass ''data_classes'' (by_value ControlDataClass) DEFAULT_TUPLE)) (\<lambda>classes.
    rbind (field row ''routes'' (ordered_enum_tuple ControlRoute ''routes'' ROUTE_INDEX (length ROUTE_ORDER))) (\<lambda>routes.
    rbind (field row ''maximum_action_count'' (exact_int ''grant_action_count'' 1 MAX_ACTION_COUNT)) (\<lambda>action_count.
    rbind (field row ''max_input_bytes'' (exact_int ''grant_input_bytes'' 1 (int MAX_STRING_BYTES))) (\<lambda>input_bytes.
    rbind (field row ''max_output_bytes'' (exact_int ''grant_output_bytes'' 1 MAX_OUTPUT_BYTES)) (\<lambda>output_bytes.
    rbind (field row ''max_transmit_bytes'' (exact_int ''grant_transmit_bytes'' 0 MAX_UPLOAD_BYTES)) (\<lambda>transmit.
    rbind (field row ''policy_digest'' (digest_field ''policy_digest'')) (\<lambda>policy_digest.
    rbind (field row ''authority_key_id'' (key_id_field ''authority_key_id'')) (\<lambda>authority_key_id.
    rbind (field row ''signature'' (signature_field ''signature'')) (\<lambda>signature.
    Inr \<lparr>gr_grant_id = grant_id, gr_subject_id = subject_id, gr_target_ids = target_ids,
         gr_target_kinds = target_kinds, gr_operations = operations, gr_effects = effs,
         gr_data_classes = classes, gr_routes = routes, gr_issued_at_ms = issued,
         gr_expires_at_ms = expires, gr_maximum_action_count = action_count,
         gr_max_input_bytes = input_bytes, gr_max_output_bytes = output_bytes,
         gr_max_transmit_bytes = transmit, gr_policy_digest = policy_digest,
         gr_authority_key_id = authority_key_id, gr_signature = signature,
         gr_schema_version = CONTROL_SCHEMA_VERSION\<rparr>))))))))))))))))))))"

definition ControlGrant_unsigned :: "ControlGrant \<Rightarrow> (string \<times> py) list" where
  "ControlGrant_unsigned g =
    [(''schema_version'', PInt (gr_schema_version g)),
     (''grant_id'', PStr (gr_grant_id g)),
     (''subject_id'', PStr (gr_subject_id g)),
     (''target_ids'', PList (map PStr (gr_target_ids g))),
     (''target_kinds'', PList (map (enum_py TargetKind) (gr_target_kinds g))),
     (''operations'', PList (map (enum_py Operation) (gr_operations g))),
     (''effects'', PList (map (enum_py Effect) (gr_effects g))),
     (''data_classes'', PList (map (enum_py ControlDataClass) (gr_data_classes g))),
     (''routes'', PList (map (enum_py ControlRoute) (gr_routes g))),
     (''issued_at_ms'', PInt (gr_issued_at_ms g)),
     (''expires_at_ms'', PInt (gr_expires_at_ms g)),
     (''maximum_action_count'', PInt (gr_maximum_action_count g)),
     (''max_input_bytes'', PInt (gr_max_input_bytes g)),
     (''max_output_bytes'', PInt (gr_max_output_bytes g)),
     (''max_transmit_bytes'', PInt (gr_max_transmit_bytes g)),
     (''policy_digest'', PStr (gr_policy_digest g)),
     (''authority_key_id'', PStr (gr_authority_key_id g))]"

definition ControlGrant_unsigned_dict :: "ControlGrant \<Rightarrow> py" where
  "ControlGrant_unsigned_dict g = PDict (items (ControlGrant_unsigned g))"

definition ControlGrant_to_dict :: "ControlGrant \<Rightarrow> py" where
  "ControlGrant_to_dict g =
     PDict (items (ControlGrant_unsigned g @ [(''signature'', PStr (gr_signature g))]))"

definition ControlGrant_ok :: "ControlGrant \<Rightarrow> bool" where
  "ControlGrant_ok g \<longleftrightarrow>
     gr_schema_version g = CONTROL_SCHEMA_VERSION
     \<and> window_ok MAX_GRANT_LIFETIME_MS (gr_issued_at_ms g) (gr_expires_at_ms g)
     \<and> canonical_uuid_text (gr_grant_id g) \<and> safe_id_text (gr_subject_id g)
     \<and> list_all opaque_id_text (gr_target_ids g) \<and> ordered_by id DEFAULT_TUPLE (gr_target_ids g)
     \<and> ordered_by (by_value TargetKind) DEFAULT_TUPLE (gr_target_kinds g)
     \<and> ordered_by (by_value Operation) DEFAULT_TUPLE (gr_operations g)
     \<and> ordered_by (by_value Effect) DEFAULT_TUPLE (gr_effects g)
     \<and> ordered_by (by_value ControlDataClass) DEFAULT_TUPLE (gr_data_classes g)
     \<and> ordered_by ROUTE_INDEX (length ROUTE_ORDER) (gr_routes g)
     \<and> 1 \<le> gr_maximum_action_count g \<and> gr_maximum_action_count g \<le> MAX_ACTION_COUNT
     \<and> 1 \<le> gr_max_input_bytes g \<and> gr_max_input_bytes g \<le> int MAX_STRING_BYTES
     \<and> 1 \<le> gr_max_output_bytes g \<and> gr_max_output_bytes g \<le> MAX_OUTPUT_BYTES
     \<and> 0 \<le> gr_max_transmit_bytes g \<and> gr_max_transmit_bytes g \<le> MAX_UPLOAD_BYTES
     \<and> digest_text (gr_policy_digest g) \<and> key_id_text (gr_authority_key_id g)
     \<and> signature_text (gr_signature g)"

interpretation grant: record_codec ControlGrant_from_dict ControlGrant_to_dict ControlGrant_ok
proof (rule record_codecI [OF ControlGrant_from_dict_def ControlGrant_to_dict_def], goal_cases)
  case (3 x)
  then show ?case by (simp add: ControlGrant_unsigned_def list_all_iff)
next
  case (4 row x)
  show ?case
    by (cases x) (auto simp add: ControlGrant_ok_def ControlGrant_unsigned_def window_ok_def
        ordered_by_def accepts)
qed (auto simp add: ControlGrant_unsigned_def)

section \<open>Permits\<close>

record ControlPermit =
  pm_permit_id :: pystr
  pm_grant_id :: pystr
  pm_subject_id :: pystr
  pm_request_id :: pystr
  pm_request_digest :: pystr
  pm_target_kind :: TargetKind
  pm_target_id :: pystr
  pm_target_epoch :: int
  pm_target_revision :: pystr
  pm_fencing_token :: int
  pm_snapshot_id :: pystr
  pm_sequence :: int
  pm_operation :: Operation
  pm_effects :: "Effect list"
  pm_data_class :: ControlDataClass
  pm_routes :: "ControlRoute list"
  pm_input_bytes :: int
  pm_output_bytes :: int
  pm_transmit_bytes :: int
  pm_issued_at_ms :: int
  pm_expires_at_ms :: int
  pm_maximum_action_count :: int
  pm_policy_digest :: pystr
  pm_authority_key_id :: pystr
  pm_signature :: pystr
  pm_schema_version :: int

definition ControlPermit_from_dict :: "py \<Rightarrow> exn + ControlPermit" where
  "ControlPermit_from_dict v =
    rbind (exact_dict [''authority_key_id'', ''data_class'', ''effects'', ''expires_at_ms'',
      ''fencing_token'', ''grant_id'', ''input_bytes'', ''issued_at_ms'', ''maximum_action_count'',
      ''operation'', ''output_bytes'', ''permit_id'', ''policy_digest'', ''request_digest'',
      ''request_id'', ''routes'', ''schema_version'', ''sequence'', ''signature'', ''snapshot_id'',
      ''subject_id'', ''target_epoch'', ''target_id'', ''target_kind'', ''target_revision'',
      ''transmit_bytes''] ''permit'' v) (\<lambda>row.
    rbind (field row ''schema_version'' (exact_version ''permit_version'' CONTROL_SCHEMA_VERSION)) (\<lambda>_.
    rbind (field row ''issued_at_ms'' (exact_int ''permit_issued'' 0 MAX_SAFE_INTEGER)) (\<lambda>issued.
    rbind (field row ''expires_at_ms'' (exact_int ''permit_expires'' 1 MAX_SAFE_INTEGER)) (\<lambda>expires.
    rbind (require (issued < expires \<and> expires \<le> issued + MAX_DEADLINE_HORIZON_MS)
             (SchemaRejected ''permit_window'')) (\<lambda>_.
    rbind (field row ''permit_id'' (canonical_uuid ''permit_id'')) (\<lambda>permit_id.
    rbind (field row ''grant_id'' (canonical_uuid ''grant_id'')) (\<lambda>grant_id.
    rbind (field row ''subject_id'' (safe_identifier ''subject_id'')) (\<lambda>subject_id.
    rbind (field row ''request_id'' (canonical_uuid ''request_id'')) (\<lambda>request_id.
    rbind (field row ''request_digest'' (digest_field ''request_digest'')) (\<lambda>request_digest.
    rbind (field row ''target_kind'' (enum_value TargetKind ''target_kind'')) (\<lambda>target_kind.
    rbind (field row ''target_id'' (opaque_id ''target_id'')) (\<lambda>target_id.
    rbind (field row ''target_epoch'' (exact_int ''target_epoch'' 1 MAX_SAFE_INTEGER)) (\<lambda>target_epoch.
    rbind (field row ''target_revision'' (revision_field ''target_revision'')) (\<lambda>target_revision.
    rbind (field row ''fencing_token'' (exact_int ''fencing_token'' 1 MAX_SAFE_INTEGER)) (\<lambda>fencing_token.
    rbind (field row ''snapshot_id'' (canonical_uuid ''snapshot_id'')) (\<lambda>snapshot_id.
    rbind (field row ''sequence'' (exact_int ''sequence'' 1 MAX_SAFE_INTEGER)) (\<lambda>sequence.
    rbind (field row ''operation'' (enum_value Operation ''operation'')) (\<lambda>operation.
    rbind (field row ''effects'' (ordered_enum_tuple Effect ''effects'' (by_value Effect) DEFAULT_TUPLE)) (\<lambda>effs.
    rbind (field row ''data_class'' (enum_value ControlDataClass ''data_class'')) (\<lambda>data_class.
    rbind (field row ''routes'' (ordered_enum_tuple ControlRoute ''routes'' ROUTE_INDEX (length ROUTE_ORDER))) (\<lambda>routes.
    rbind (field row ''input_bytes'' (exact_int ''input_bytes'' 1 (int MAX_STRING_BYTES))) (\<lambda>input_bytes.
    rbind (field row ''output_bytes'' (exact_int ''output_bytes'' 1 MAX_OUTPUT_BYTES)) (\<lambda>output_bytes.
    rbind (field row ''transmit_bytes'' (exact_int ''transmit_bytes'' 0 MAX_UPLOAD_BYTES)) (\<lambda>transmit.
    rbind (field row ''maximum_action_count'' (exact_int ''permit_action_count'' 1 1)) (\<lambda>action_count.
    rbind (field row ''policy_digest'' (digest_field ''policy_digest'')) (\<lambda>policy_digest.
    rbind (field row ''authority_key_id'' (key_id_field ''authority_key_id'')) (\<lambda>authority_key_id.
    rbind (field row ''signature'' (signature_field ''signature'')) (\<lambda>signature.
    Inr \<lparr>pm_permit_id = permit_id, pm_grant_id = grant_id, pm_subject_id = subject_id,
         pm_request_id = request_id, pm_request_digest = request_digest, pm_target_kind = target_kind,
         pm_target_id = target_id, pm_target_epoch = target_epoch,
         pm_target_revision = target_revision, pm_fencing_token = fencing_token,
         pm_snapshot_id = snapshot_id, pm_sequence = sequence, pm_operation = operation,
         pm_effects = effs, pm_data_class = data_class, pm_routes = routes,
         pm_input_bytes = input_bytes, pm_output_bytes = output_bytes, pm_transmit_bytes = transmit,
         pm_issued_at_ms = issued, pm_expires_at_ms = expires, pm_maximum_action_count = action_count,
         pm_policy_digest = policy_digest, pm_authority_key_id = authority_key_id,
         pm_signature = signature, pm_schema_version = CONTROL_SCHEMA_VERSION\<rparr>))))))))))))))))))))))))))))"

definition ControlPermit_unsigned :: "ControlPermit \<Rightarrow> (string \<times> py) list" where
  "ControlPermit_unsigned p =
    [(''schema_version'', PInt (pm_schema_version p)),
     (''permit_id'', PStr (pm_permit_id p)),
     (''grant_id'', PStr (pm_grant_id p)),
     (''subject_id'', PStr (pm_subject_id p)),
     (''request_id'', PStr (pm_request_id p)),
     (''request_digest'', PStr (pm_request_digest p)),
     (''target_kind'', enum_py TargetKind (pm_target_kind p)),
     (''target_id'', PStr (pm_target_id p)),
     (''target_epoch'', PInt (pm_target_epoch p)),
     (''target_revision'', PStr (pm_target_revision p)),
     (''fencing_token'', PInt (pm_fencing_token p)),
     (''snapshot_id'', PStr (pm_snapshot_id p)),
     (''sequence'', PInt (pm_sequence p)),
     (''operation'', enum_py Operation (pm_operation p)),
     (''effects'', PList (map (enum_py Effect) (pm_effects p))),
     (''data_class'', enum_py ControlDataClass (pm_data_class p)),
     (''routes'', PList (map (enum_py ControlRoute) (pm_routes p))),
     (''input_bytes'', PInt (pm_input_bytes p)),
     (''output_bytes'', PInt (pm_output_bytes p)),
     (''transmit_bytes'', PInt (pm_transmit_bytes p)),
     (''issued_at_ms'', PInt (pm_issued_at_ms p)),
     (''expires_at_ms'', PInt (pm_expires_at_ms p)),
     (''maximum_action_count'', PInt (pm_maximum_action_count p)),
     (''policy_digest'', PStr (pm_policy_digest p)),
     (''authority_key_id'', PStr (pm_authority_key_id p))]"

definition ControlPermit_unsigned_dict :: "ControlPermit \<Rightarrow> py" where
  "ControlPermit_unsigned_dict p = PDict (items (ControlPermit_unsigned p))"

definition ControlPermit_to_dict :: "ControlPermit \<Rightarrow> py" where
  "ControlPermit_to_dict p =
     PDict (items (ControlPermit_unsigned p @ [(''signature'', PStr (pm_signature p))]))"

definition ControlPermit_ok :: "ControlPermit \<Rightarrow> bool" where
  "ControlPermit_ok p \<longleftrightarrow>
     pm_schema_version p = CONTROL_SCHEMA_VERSION
     \<and> window_ok MAX_DEADLINE_HORIZON_MS (pm_issued_at_ms p) (pm_expires_at_ms p)
     \<and> canonical_uuid_text (pm_permit_id p) \<and> canonical_uuid_text (pm_grant_id p)
     \<and> safe_id_text (pm_subject_id p) \<and> canonical_uuid_text (pm_request_id p)
     \<and> digest_text (pm_request_digest p) \<and> opaque_id_text (pm_target_id p)
     \<and> 1 \<le> pm_target_epoch p \<and> pm_target_epoch p \<le> MAX_SAFE_INTEGER
     \<and> revision_text (pm_target_revision p)
     \<and> 1 \<le> pm_fencing_token p \<and> pm_fencing_token p \<le> MAX_SAFE_INTEGER
     \<and> canonical_uuid_text (pm_snapshot_id p)
     \<and> 1 \<le> pm_sequence p \<and> pm_sequence p \<le> MAX_SAFE_INTEGER
     \<and> ordered_by (by_value Effect) DEFAULT_TUPLE (pm_effects p)
     \<and> ordered_by ROUTE_INDEX (length ROUTE_ORDER) (pm_routes p)
     \<and> 1 \<le> pm_input_bytes p \<and> pm_input_bytes p \<le> int MAX_STRING_BYTES
     \<and> 1 \<le> pm_output_bytes p \<and> pm_output_bytes p \<le> MAX_OUTPUT_BYTES
     \<and> 0 \<le> pm_transmit_bytes p \<and> pm_transmit_bytes p \<le> MAX_UPLOAD_BYTES
     \<and> pm_maximum_action_count p = 1
     \<and> digest_text (pm_policy_digest p) \<and> key_id_text (pm_authority_key_id p)
     \<and> signature_text (pm_signature p)"

interpretation permit: record_codec ControlPermit_from_dict ControlPermit_to_dict ControlPermit_ok
proof (rule record_codecI [OF ControlPermit_from_dict_def ControlPermit_to_dict_def], goal_cases)
  case (3 x)
  then show ?case by (simp add: ControlPermit_unsigned_def list_all_iff)
next
  case (4 row x)
  show ?case
    by (cases x) (auto simp add: ControlPermit_ok_def ControlPermit_unsigned_def window_ok_def
        ordered_by_def accepts)
qed (auto simp add: ControlPermit_unsigned_def)

section \<open>Envelopes\<close>

record ControlEnvelope =
  en_request :: ControlRequest
  en_grant :: ControlGrant
  en_permit :: ControlPermit
  en_protocol_version :: int
  en_message_type :: pystr

definition ControlEnvelope_from_dict :: "py \<Rightarrow> exn + ControlEnvelope" where
  "ControlEnvelope_from_dict v =
    rbind (exact_dict [''grant'', ''message_type'', ''permit'', ''protocol_version'', ''request''] ''envelope'' v) (\<lambda>row.
    rbind (field row ''protocol_version'' (exact_version ''protocol_version'' CONTROL_PROTOCOL_VERSION)) (\<lambda>_.
    rbind (field row ''message_type'' (exact_string ''message_type'' CONTROL_MESSAGE_TYPE)) (\<lambda>_.
    rbind (field row ''request'' ControlRequest_from_dict) (\<lambda>request.
    rbind (field row ''grant'' ControlGrant_from_dict) (\<lambda>grant.
    rbind (field row ''permit'' ControlPermit_from_dict) (\<lambda>permit.
    Inr \<lparr>en_request = request, en_grant = grant, en_permit = permit,
         en_protocol_version = CONTROL_PROTOCOL_VERSION,
         en_message_type = str CONTROL_MESSAGE_TYPE\<rparr>))))))"

definition ControlEnvelope_from_payload :: "nat \<Rightarrow> bytes \<Rightarrow> exn + ControlEnvelope" where
  "ControlEnvelope_from_payload limit payload =
     rbind (decode_json_payload limit payload) ControlEnvelope_from_dict"

definition ControlEnvelope_to_dict :: "ControlEnvelope \<Rightarrow> py" where
  "ControlEnvelope_to_dict e = PDict (items
    [(''protocol_version'', PInt (en_protocol_version e)),
     (''message_type'', PStr (en_message_type e)),
     (''request'', ControlRequest_to_dict (en_request e)),
     (''grant'', ControlGrant_to_dict (en_grant e)),
     (''permit'', ControlPermit_to_dict (en_permit e))])"

definition ControlEnvelope_to_frame :: "ControlEnvelope \<Rightarrow> exn + bytes" where
  "ControlEnvelope_to_frame e = encode_frame (ControlEnvelope_to_dict e)"

definition ControlEnvelope_ok :: "ControlEnvelope \<Rightarrow> bool" where
  "ControlEnvelope_ok e \<longleftrightarrow> en_protocol_version e = CONTROL_PROTOCOL_VERSION
     \<and> en_message_type e = str CONTROL_MESSAGE_TYPE \<and> ControlRequest_ok (en_request e)
     \<and> ControlGrant_ok (en_grant e) \<and> ControlPermit_ok (en_permit e)"

interpretation envelope: record_codec ControlEnvelope_from_dict ControlEnvelope_to_dict ControlEnvelope_ok
proof (rule record_codecI [OF ControlEnvelope_from_dict_def ControlEnvelope_to_dict_def], goal_cases)
  case (3 x)
  then show ?case
    using request.to_dict_wf grant.to_dict_wf permit.to_dict_wf by (simp add: ControlEnvelope_ok_def)
next
  case (4 row x)
  note codecs = request.field_codec [OF 4] grant.field_codec [OF 4] permit.field_codec [OF 4]
  show ?case
    by (cases x) (auto simp add: ControlEnvelope_ok_def accepts codecs)
qed auto

end
