(* ===== verification/Journal_Types.thy ===== *)
theory Journal_Types
  imports Kernel_Authority
begin

text \<open>
  \<^verbatim>\<open>algo_cli/ada_control_journal.py\<close>, the data of the control journal: its constants, the checks on
  stored values (\<open>_require_*\<close>), the effect states with their transition table, the effect record with
  \<open>from_row\<close>, and the signed receipt with its codec.

  A column of a table holds a value of the storage class the schema declares for it (every column is
  \<open>NOT NULL\<close>): an integer, a text or a blob. The tests of \<open>_require_*\<close> on the type of a stored
  value therefore succeed; their tests on the value itself are all modelled.
\<close>

section \<open>Constants and errors\<close>

definition JOURNAL_SCHEMA_VERSION :: int where "JOURNAL_SCHEMA_VERSION = 2"
definition RECEIPT_SCHEMA_VERSION :: int where [limits]: "RECEIPT_SCHEMA_VERSION = 2"
definition MAX_RECEIPT_ANCHOR_BYTES :: nat where "MAX_RECEIPT_ANCHOR_BYTES = 4 * 1024"
definition MAX_RECEIPT_ANCHOR_RETRIES :: nat where "MAX_RECEIPT_ANCHOR_RETRIES = 8"

definition EMPTY_EVIDENCE_DIGEST :: pystr where
  "EMPTY_EVIDENCE_DIGEST =
     str ''sha256:'' @ hexdigest (sha256 (map byte (str ''algo-control-empty-evidence-v1'')))"

definition EMPTY_RECEIPT_HEAD_DIGEST :: pystr where
  "EMPTY_RECEIPT_HEAD_DIGEST =
     str ''sha256:'' @ hexdigest (sha256 (map byte (str ''algo-control-receipt-genesis-v1'')))"

text \<open>The sixteen bytes of \<open>adac0de0-7dc7-4a1a-8ada-000000000001\<close>.\<close>

definition RECEIPT_NAMESPACE :: bytes where
  "RECEIPT_NAMESPACE = map byte [173, 172, 13, 224, 125, 199, 74, 26, 138, 218, 0, 0, 0, 0, 0, 1]"

definition corrupt :: "string \<Rightarrow> exn + 'a" where
  "corrupt label = Inl (ControlJournalCorrupt label)"

definition safe_id :: "string \<Rightarrow> string \<Rightarrow> string" where
  "safe_id v fallback = (if safe_id_text (str v) then v
     else if safe_id_text (str fallback) then fallback else ''invalid_value'')"

definition journal_rejected :: "string \<Rightarrow> exn" where
  "journal_rejected reason_code = ControlJournalRejected (safe_id reason_code ''journal_rejected'')"

definition reject_if :: "bool \<Rightarrow> string \<Rightarrow> exn + unit" where
  "reject_if c reason_code = (if c then Inl (journal_rejected reason_code) else Inr ())"

lemma reject_if_Inr_iff [accepts]: "reject_if c reason = Inr u \<longleftrightarrow> \<not> c"
  by (simp add: reject_if_def)

lemma reject_if_simps [simp]:
  "reject_if True reason = Inl (journal_rejected reason)" "reject_if False reason = Inr ()"
  by (simp_all add: reject_if_def)

lemma empty_digests: "digest_text EMPTY_EVIDENCE_DIGEST" "digest_text EMPTY_RECEIPT_HEAD_DIGEST"
  by (simp_all add: EMPTY_EVIDENCE_DIGEST_def EMPTY_RECEIPT_HEAD_DIGEST_def digest_text_def prefixed_hex64I)

section \<open>Checks on stored values\<close>

definition require_pattern :: "(pystr \<Rightarrow> bool) \<Rightarrow> string \<Rightarrow> py \<Rightarrow> exn + pystr" where
  "require_pattern pattern label v =
    (case v of PStr s \<Rightarrow> if pattern s then Inr s else corrupt label | _ \<Rightarrow> corrupt label)"

definition require_safe_id :: "string \<Rightarrow> py \<Rightarrow> exn + pystr" where
  "require_safe_id = require_pattern safe_id_text"

definition require_uuid :: "string \<Rightarrow> py \<Rightarrow> exn + pystr" where
  "require_uuid = require_pattern canonical_uuid_text"

definition require_int :: "string \<Rightarrow> int \<Rightarrow> int \<Rightarrow> py \<Rightarrow> exn + int" where
  "require_int label minimum maximum v =
    (case v of PInt i \<Rightarrow> if minimum \<le> i \<and> i \<le> maximum then Inr i else corrupt label | _ \<Rightarrow> corrupt label)"

definition require_digest :: "string \<Rightarrow> py \<Rightarrow> exn + pystr" where
  "require_digest = require_pattern digest_text"

definition require_opaque :: "string \<Rightarrow> py \<Rightarrow> exn + pystr" where
  "require_opaque = require_pattern opaque_id_text"

definition require_revision :: "string \<Rightarrow> py \<Rightarrow> exn + pystr" where
  "require_revision = require_pattern revision_text"

definition require_key_id :: "string \<Rightarrow> py \<Rightarrow> exn + pystr" where
  "require_key_id = require_pattern key_id_text"

definition require_signature :: "string \<Rightarrow> py \<Rightarrow> exn + pystr" where
  "require_signature = require_pattern signature_text"

definition require_enum :: "'e enum_type \<Rightarrow> string \<Rightarrow> py \<Rightarrow> exn + 'e" where
  "require_enum E label v =
    (case v of
       PStr s \<Rightarrow> (case find (\<lambda>e. str (snd E e) = s) (fst E) of
                   Some e \<Rightarrow> Inr e | None \<Rightarrow> corrupt label)
     | _ \<Rightarrow> corrupt label)"

lemma require_pattern_Inr_iff: "require_pattern p label v = Inr s \<longleftrightarrow> v = PStr s \<and> p s"
  by (auto simp add: require_pattern_def corrupt_def split: py.splits)

lemma require_Inr_iffs [accepts]:
  "require_safe_id label v = Inr s \<longleftrightarrow> v = PStr s \<and> safe_id_text s"
  "require_uuid label v = Inr s \<longleftrightarrow> v = PStr s \<and> canonical_uuid_text s"
  "require_digest label v = Inr s \<longleftrightarrow> v = PStr s \<and> digest_text s"
  "require_opaque label v = Inr s \<longleftrightarrow> v = PStr s \<and> opaque_id_text s"
  "require_revision label v = Inr s \<longleftrightarrow> v = PStr s \<and> revision_text s"
  "require_key_id label v = Inr s \<longleftrightarrow> v = PStr s \<and> key_id_text s"
  "require_signature label v = Inr s \<longleftrightarrow> v = PStr s \<and> signature_text s"
  by (simp_all add: require_safe_id_def require_uuid_def require_digest_def require_opaque_def
      require_revision_def require_key_id_def require_signature_def require_pattern_Inr_iff)

lemma require_int_Inr_iff [accepts]: "require_int label m n v = Inr i \<longleftrightarrow> v = PInt i \<and> m \<le> i \<and> i \<le> n"
  by (auto simp add: require_int_def corrupt_def split: py.splits)

context py_enum
begin

lemma require_enum_Inr_iff [accepts]: "require_enum E label v = Inr e \<longleftrightarrow> v = enum_py E e"
proof -
  have "require_enum E label v = Inr e \<longleftrightarrow> enum_value E label v = Inr e"
    by (simp add: require_enum_def enum_value_def corrupt_def reject_def split: py.splits option.splits)
  then show ?thesis by (simp add: enum_value_Inr_iff)
qed

end

section \<open>Effect states\<close>

datatype ControlEffectState = PREPARED | STARTED | APPLIED | VERIFIED | FAILED | UNKNOWN

primrec ControlEffectState_value :: "ControlEffectState \<Rightarrow> string" where
  "ControlEffectState_value PREPARED = ''prepared''"
| "ControlEffectState_value STARTED = ''started''"
| "ControlEffectState_value APPLIED = ''applied''"
| "ControlEffectState_value VERIFIED = ''verified''"
| "ControlEffectState_value FAILED = ''failed''"
| "ControlEffectState_value UNKNOWN = ''unknown''"

definition ControlEffectState :: "ControlEffectState enum_type" where
  "ControlEffectState = ([PREPARED, STARTED, APPLIED, VERIFIED, FAILED, UNKNOWN], ControlEffectState_value)"

datatype RevocationKind = REVOKED_GRANT | REVOKED_PERMIT

primrec ALLOWED_TRANSITIONS :: "ControlEffectState \<Rightarrow> ControlEffectState set" where
  "ALLOWED_TRANSITIONS PREPARED = {STARTED, FAILED}"
| "ALLOWED_TRANSITIONS STARTED = {APPLIED, FAILED, UNKNOWN}"
| "ALLOWED_TRANSITIONS APPLIED = {VERIFIED, FAILED, UNKNOWN}"
| "ALLOWED_TRANSITIONS UNKNOWN = {VERIFIED, FAILED}"
| "ALLOWED_TRANSITIONS VERIFIED = {}"
| "ALLOWED_TRANSITIONS FAILED = {}"

definition RECEIPT_STATES :: "ControlEffectState set" where
  "RECEIPT_STATES = {VERIFIED, FAILED, UNKNOWN}"

interpretation est: py_enum ControlEffectState
proof
  show "set (fst ControlEffectState) = UNIV"
    by (auto simp add: ControlEffectState_def) (metis ControlEffectState.exhaust)
  show "distinct (fst ControlEffectState)" by (simp add: ControlEffectState_def)
  show "x = y" if "snd ControlEffectState x = snd ControlEffectState y" for x y
    using that by (cases x; cases y) (simp_all add: ControlEffectState_def)
qed

section \<open>The effect record\<close>

text \<open>A row of the table \<open>ada_effects\<close> as it is stored, and the record that is read from it.\<close>

record effect_row =
  ew_effect_id :: pystr
  ew_permit_id :: pystr
  ew_grant_id :: pystr
  ew_session_id :: pystr
  ew_request_id :: pystr
  ew_request_digest :: pystr
  ew_target_kind :: pystr
  ew_target_id :: pystr
  ew_target_epoch :: int
  ew_target_revision :: pystr
  ew_fencing_token :: int
  ew_snapshot_id :: pystr
  ew_sequence :: int
  ew_operation :: pystr
  ew_route :: pystr
  ew_authority_key_id :: pystr
  ew_state :: pystr
  ew_reason_code :: pystr
  ew_evidence_digest :: pystr
  ew_transition_version :: int
  ew_prepared_at_ms :: int
  ew_updated_at_ms :: int

record ControlEffectRecord =
  ef_effect_id :: pystr
  ef_permit_id :: pystr
  ef_grant_id :: pystr
  ef_session_id :: pystr
  ef_request_id :: pystr
  ef_request_digest :: pystr
  ef_target_kind :: TargetKind
  ef_target_id :: pystr
  ef_target_epoch :: int
  ef_target_revision :: pystr
  ef_fencing_token :: int
  ef_snapshot_id :: pystr
  ef_sequence :: int
  ef_operation :: Operation
  ef_route :: ControlRoute
  ef_authority_key_id :: pystr
  ef_state :: ControlEffectState
  ef_reason_code :: pystr
  ef_evidence_digest :: pystr
  ef_transition_version :: int
  ef_prepared_at_ms :: int
  ef_updated_at_ms :: int

definition ControlEffectRecord_from_row :: "effect_row \<Rightarrow> exn + ControlEffectRecord" where
  "ControlEffectRecord_from_row w =
    rbind (require_uuid ''effect_id'' (PStr (ew_effect_id w))) (\<lambda>effect_id.
    rbind (require_uuid ''permit_id'' (PStr (ew_permit_id w))) (\<lambda>permit_id.
    rbind (require_uuid ''grant_id'' (PStr (ew_grant_id w))) (\<lambda>grant_id.
    rbind (require_uuid ''session_id'' (PStr (ew_session_id w))) (\<lambda>session_id.
    rbind (require_uuid ''request_id'' (PStr (ew_request_id w))) (\<lambda>request_id.
    rbind (require_digest ''request_digest'' (PStr (ew_request_digest w))) (\<lambda>request_digest.
    rbind (require_enum TargetKind ''target_kind'' (PStr (ew_target_kind w))) (\<lambda>target_kind.
    rbind (require_opaque ''target_id'' (PStr (ew_target_id w))) (\<lambda>target_id.
    rbind (require_int ''target_epoch'' 1 MAX_SAFE_INTEGER (PInt (ew_target_epoch w))) (\<lambda>target_epoch.
    rbind (require_revision ''target_revision'' (PStr (ew_target_revision w))) (\<lambda>target_revision.
    rbind (require_int ''fencing_token'' 1 MAX_SAFE_INTEGER (PInt (ew_fencing_token w))) (\<lambda>fencing_token.
    rbind (require_uuid ''snapshot_id'' (PStr (ew_snapshot_id w))) (\<lambda>snapshot_id.
    rbind (require_int ''sequence'' 1 MAX_SAFE_INTEGER (PInt (ew_sequence w))) (\<lambda>sequence.
    rbind (require_enum Operation ''operation'' (PStr (ew_operation w))) (\<lambda>operation.
    rbind (require_enum ControlRoute ''route'' (PStr (ew_route w))) (\<lambda>route.
    rbind (require_key_id ''authority_key_id'' (PStr (ew_authority_key_id w))) (\<lambda>authority_key_id.
    rbind (require_enum ControlEffectState ''effect_state'' (PStr (ew_state w))) (\<lambda>state.
    rbind (require_safe_id ''reason_code'' (PStr (ew_reason_code w))) (\<lambda>reason_code.
    rbind (require_digest ''evidence_digest'' (PStr (ew_evidence_digest w))) (\<lambda>evidence_digest.
    rbind (require_int ''transition_version'' 1 MAX_SAFE_INTEGER (PInt (ew_transition_version w))) (\<lambda>transition_version.
    rbind (require_int ''prepared_at_ms'' 0 MAX_SAFE_INTEGER (PInt (ew_prepared_at_ms w))) (\<lambda>prepared_at_ms.
    rbind (require_int ''updated_at_ms'' 0 MAX_SAFE_INTEGER (PInt (ew_updated_at_ms w))) (\<lambda>updated_at_ms.
    Inr \<lparr>ef_effect_id = effect_id, ef_permit_id = permit_id, ef_grant_id = grant_id, ef_session_id =
         session_id, ef_request_id = request_id, ef_request_digest = request_digest, ef_target_kind =
         target_kind, ef_target_id = target_id, ef_target_epoch = target_epoch, ef_target_revision =
         target_revision, ef_fencing_token = fencing_token, ef_snapshot_id = snapshot_id, ef_sequence =
         sequence, ef_operation = operation, ef_route = route, ef_authority_key_id = authority_key_id,
         ef_state = state, ef_reason_code = reason_code, ef_evidence_digest = evidence_digest,
         ef_transition_version = transition_version, ef_prepared_at_ms = prepared_at_ms,
         ef_updated_at_ms = updated_at_ms\<rparr>))))))))))))))))))))))"

definition is_receiptable :: "ControlEffectRecord \<Rightarrow> bool" where
  "is_receiptable e \<longleftrightarrow> ef_state e \<in> RECEIPT_STATES"

text \<open>The row of a record, and the records that a row can be read as.\<close>

definition effect_to_row :: "ControlEffectRecord \<Rightarrow> effect_row" where
  "effect_to_row e = \<lparr>ew_effect_id = ef_effect_id e, ew_permit_id = ef_permit_id e, ew_grant_id = ef_grant_id e,
     ew_session_id = ef_session_id e, ew_request_id = ef_request_id e, ew_request_digest =
     ef_request_digest e, ew_target_kind = by_value TargetKind (ef_target_kind e), ew_target_id =
     ef_target_id e, ew_target_epoch = ef_target_epoch e, ew_target_revision = ef_target_revision e,
     ew_fencing_token = ef_fencing_token e, ew_snapshot_id = ef_snapshot_id e, ew_sequence =
     ef_sequence e, ew_operation = by_value Operation (ef_operation e), ew_route = by_value
     ControlRoute (ef_route e), ew_authority_key_id = ef_authority_key_id e, ew_state = by_value
     ControlEffectState (ef_state e), ew_reason_code = ef_reason_code e, ew_evidence_digest =
     ef_evidence_digest e, ew_transition_version = ef_transition_version e, ew_prepared_at_ms =
     ef_prepared_at_ms e, ew_updated_at_ms = ef_updated_at_ms e\<rparr>"

definition ControlEffectRecord_ok :: "ControlEffectRecord \<Rightarrow> bool" where
  "ControlEffectRecord_ok e \<longleftrightarrow>
     canonical_uuid_text (ef_effect_id e)
     \<and> canonical_uuid_text (ef_permit_id e)
     \<and> canonical_uuid_text (ef_grant_id e)
     \<and> canonical_uuid_text (ef_session_id e)
     \<and> canonical_uuid_text (ef_request_id e)
     \<and> digest_text (ef_request_digest e)
     \<and> opaque_id_text (ef_target_id e)
     \<and> 1 \<le> ef_target_epoch e \<and> ef_target_epoch e \<le> MAX_SAFE_INTEGER
     \<and> revision_text (ef_target_revision e)
     \<and> 1 \<le> ef_fencing_token e \<and> ef_fencing_token e \<le> MAX_SAFE_INTEGER
     \<and> canonical_uuid_text (ef_snapshot_id e)
     \<and> 1 \<le> ef_sequence e \<and> ef_sequence e \<le> MAX_SAFE_INTEGER
     \<and> key_id_text (ef_authority_key_id e)
     \<and> safe_id_text (ef_reason_code e)
     \<and> digest_text (ef_evidence_digest e)
     \<and> 1 \<le> ef_transition_version e \<and> ef_transition_version e \<le> MAX_SAFE_INTEGER
     \<and> 0 \<le> ef_prepared_at_ms e \<and> ef_prepared_at_ms e \<le> MAX_SAFE_INTEGER
     \<and> 0 \<le> ef_updated_at_ms e \<and> ef_updated_at_ms e \<le> MAX_SAFE_INTEGER"

lemma from_row_Inr_iff [accepts]:
  "ControlEffectRecord_from_row w = Inr e \<longleftrightarrow> ControlEffectRecord_ok e \<and> w = effect_to_row e"
  by (cases e; cases w) (auto simp add: ControlEffectRecord_from_row_def ControlEffectRecord_ok_def
      effect_to_row_def accepts enum_py_def by_value_def)

section \<open>Receipts\<close>

record ControlReceipt =
  rc_receipt_id :: pystr
  rc_journal_id :: pystr
  rc_receipt_sequence :: int
  rc_previous_receipt_digest :: pystr
  rc_effect_id :: pystr
  rc_grant_id :: pystr
  rc_permit_id :: pystr
  rc_request_digest :: pystr
  rc_target_id :: pystr
  rc_target_epoch :: int
  rc_target_revision :: pystr
  rc_fencing_token :: int
  rc_sequence :: int
  rc_operation :: Operation
  rc_route :: ControlRoute
  rc_state :: ControlEffectState
  rc_reason_code :: pystr
  rc_evidence_digest :: pystr
  rc_transition_version :: int
  rc_completed_at_ms :: int
  rc_authority_key_id :: pystr
  rc_signature :: pystr
  rc_schema_version :: int

definition RECEIPT_FIELDS :: "string list" where
  "RECEIPT_FIELDS =
    [''authority_key_id'', ''completed_at_ms'', ''effect_id'', ''evidence_digest'',
     ''fencing_token'', ''grant_id'', ''journal_id'', ''operation'', ''permit_id'',
     ''previous_receipt_digest'', ''reason_code'', ''receipt_id'', ''receipt_sequence'',
     ''request_digest'', ''route'', ''schema_version'', ''sequence'', ''signature'', ''state'',
     ''target_epoch'', ''target_id'', ''target_revision'', ''transition_version'']"

definition receipt_fields :: "py \<Rightarrow> exn + (pystr \<times> py) list" where
  "receipt_fields v =
    (case v of
       PDict row \<Rightarrow> if has_keys row RECEIPT_FIELDS then Inr row else corrupt ''receipt_schema''
     | _ \<Rightarrow> corrupt ''receipt_schema'')"

definition ControlReceipt_from_dict :: "py \<Rightarrow> exn + ControlReceipt" where
  "ControlReceipt_from_dict v =
    rbind (receipt_fields v) (\<lambda>row.
    rbind (field row ''schema_version'' (\<lambda>v. if v = PInt RECEIPT_SCHEMA_VERSION then Inr ()
                                            else corrupt ''receipt_version'')) (\<lambda>_.
    rbind (field row ''state'' (require_enum ControlEffectState ''receipt_state'')) (\<lambda>state.
    if state \<notin> RECEIPT_STATES then corrupt ''receipt_state''
    else
    rbind (field row ''receipt_id'' (require_uuid ''receipt_id'')) (\<lambda>receipt_id.
    rbind (field row ''journal_id'' (require_digest ''journal_id'')) (\<lambda>journal_id.
    rbind (field row ''receipt_sequence'' (require_int ''receipt_sequence'' 1 MAX_SAFE_INTEGER)) (\<lambda>receipt_sequence.
    rbind (field row ''previous_receipt_digest'' (require_digest ''previous_receipt_digest'')) (\<lambda>previous_receipt_digest.
    rbind (field row ''effect_id'' (require_uuid ''effect_id'')) (\<lambda>effect_id.
    rbind (field row ''grant_id'' (require_uuid ''grant_id'')) (\<lambda>grant_id.
    rbind (field row ''permit_id'' (require_uuid ''permit_id'')) (\<lambda>permit_id.
    rbind (field row ''request_digest'' (require_digest ''request_digest'')) (\<lambda>request_digest.
    rbind (field row ''target_id'' (require_opaque ''target_id'')) (\<lambda>target_id.
    rbind (field row ''target_epoch'' (require_int ''target_epoch'' 1 MAX_SAFE_INTEGER)) (\<lambda>target_epoch.
    rbind (field row ''target_revision'' (require_revision ''target_revision'')) (\<lambda>target_revision.
    rbind (field row ''fencing_token'' (require_int ''fencing_token'' 1 MAX_SAFE_INTEGER)) (\<lambda>fencing_token.
    rbind (field row ''sequence'' (require_int ''sequence'' 1 MAX_SAFE_INTEGER)) (\<lambda>sequence.
    rbind (field row ''operation'' (require_enum Operation ''operation'')) (\<lambda>operation.
    rbind (field row ''route'' (require_enum ControlRoute ''route'')) (\<lambda>route.
    rbind (field row ''reason_code'' (require_safe_id ''reason_code'')) (\<lambda>reason_code.
    rbind (field row ''evidence_digest'' (require_digest ''evidence_digest'')) (\<lambda>evidence_digest.
    rbind (field row ''transition_version'' (require_int ''transition_version'' 1 MAX_SAFE_INTEGER)) (\<lambda>transition_version.
    rbind (field row ''completed_at_ms'' (require_int ''completed_at_ms'' 0 MAX_SAFE_INTEGER)) (\<lambda>completed_at_ms.
    rbind (field row ''authority_key_id'' (require_key_id ''authority_key_id'')) (\<lambda>authority_key_id.
    rbind (field row ''signature'' (require_signature ''signature'')) (\<lambda>signature.
    Inr \<lparr>rc_receipt_id = receipt_id, rc_journal_id = journal_id, rc_receipt_sequence = receipt_sequence,
         rc_previous_receipt_digest = previous_receipt_digest, rc_effect_id = effect_id, rc_grant_id =
         grant_id, rc_permit_id = permit_id, rc_request_digest = request_digest, rc_target_id =
         target_id, rc_target_epoch = target_epoch, rc_target_revision = target_revision,
         rc_fencing_token = fencing_token, rc_sequence = sequence, rc_operation = operation, rc_route =
         route, rc_state = state, rc_reason_code = reason_code, rc_evidence_digest = evidence_digest,
         rc_transition_version = transition_version, rc_completed_at_ms = completed_at_ms,
         rc_authority_key_id = authority_key_id, rc_signature = signature, rc_schema_version =
         RECEIPT_SCHEMA_VERSION\<rparr>))))))))))))))))))))))))"

definition ControlReceipt_unsigned :: "ControlReceipt \<Rightarrow> (string \<times> py) list" where
  "ControlReceipt_unsigned r =
    [(''schema_version'', PInt (rc_schema_version r)),
     (''receipt_id'', PStr (rc_receipt_id r)),
     (''journal_id'', PStr (rc_journal_id r)),
     (''receipt_sequence'', PInt (rc_receipt_sequence r)),
     (''previous_receipt_digest'', PStr (rc_previous_receipt_digest r)),
     (''effect_id'', PStr (rc_effect_id r)),
     (''grant_id'', PStr (rc_grant_id r)),
     (''permit_id'', PStr (rc_permit_id r)),
     (''request_digest'', PStr (rc_request_digest r)),
     (''target_id'', PStr (rc_target_id r)),
     (''target_epoch'', PInt (rc_target_epoch r)),
     (''target_revision'', PStr (rc_target_revision r)),
     (''fencing_token'', PInt (rc_fencing_token r)),
     (''sequence'', PInt (rc_sequence r)),
     (''operation'', enum_py Operation (rc_operation r)),
     (''route'', enum_py ControlRoute (rc_route r)),
     (''state'', enum_py ControlEffectState (rc_state r)),
     (''reason_code'', PStr (rc_reason_code r)),
     (''evidence_digest'', PStr (rc_evidence_digest r)),
     (''transition_version'', PInt (rc_transition_version r)),
     (''completed_at_ms'', PInt (rc_completed_at_ms r)),
     (''authority_key_id'', PStr (rc_authority_key_id r))]"

definition ControlReceipt_unsigned_dict :: "ControlReceipt \<Rightarrow> py" where
  "ControlReceipt_unsigned_dict r = PDict (items (ControlReceipt_unsigned r))"

definition ControlReceipt_to_dict :: "ControlReceipt \<Rightarrow> py" where
  "ControlReceipt_to_dict r =
     PDict (items (ControlReceipt_unsigned r @ [(''signature'', PStr (rc_signature r))]))"

definition ControlReceipt_ok :: "ControlReceipt \<Rightarrow> bool" where
  "ControlReceipt_ok r \<longleftrightarrow>
     rc_schema_version r = RECEIPT_SCHEMA_VERSION
     \<and> rc_state r \<in> RECEIPT_STATES
     \<and> canonical_uuid_text (rc_receipt_id r)
     \<and> digest_text (rc_journal_id r)
     \<and> 1 \<le> rc_receipt_sequence r \<and> rc_receipt_sequence r \<le> MAX_SAFE_INTEGER
     \<and> digest_text (rc_previous_receipt_digest r)
     \<and> canonical_uuid_text (rc_effect_id r)
     \<and> canonical_uuid_text (rc_grant_id r)
     \<and> canonical_uuid_text (rc_permit_id r)
     \<and> digest_text (rc_request_digest r)
     \<and> opaque_id_text (rc_target_id r)
     \<and> 1 \<le> rc_target_epoch r \<and> rc_target_epoch r \<le> MAX_SAFE_INTEGER
     \<and> revision_text (rc_target_revision r)
     \<and> 1 \<le> rc_fencing_token r \<and> rc_fencing_token r \<le> MAX_SAFE_INTEGER
     \<and> 1 \<le> rc_sequence r \<and> rc_sequence r \<le> MAX_SAFE_INTEGER
     \<and> safe_id_text (rc_reason_code r)
     \<and> digest_text (rc_evidence_digest r)
     \<and> 1 \<le> rc_transition_version r \<and> rc_transition_version r \<le> MAX_SAFE_INTEGER
     \<and> 0 \<le> rc_completed_at_ms r \<and> rc_completed_at_ms r \<le> MAX_SAFE_INTEGER
     \<and> key_id_text (rc_authority_key_id r)
     \<and> signature_text (rc_signature r)"

lemma receipt_fields_Inr_iff [accepts]:
  "receipt_fields v = Inr row \<longleftrightarrow> v = PDict row \<and> has_keys row RECEIPT_FIELDS"
  by (auto simp add: receipt_fields_def corrupt_def split: py.splits)

lemma if_corrupt_Inr_iff [accepts]:
  "(if c then corrupt label else m) = Inr x \<longleftrightarrow> \<not> c \<and> m = Inr x"
  "(if c then m else corrupt label) = Inr x \<longleftrightarrow> c \<and> m = Inr x"
  by (simp_all add: corrupt_def)

interpretation receipt: record_codec ControlReceipt_from_dict ControlReceipt_to_dict ControlReceipt_ok
proof (rule record_codec_guardI [OF ControlReceipt_from_dict_def receipt_fields_Inr_iff ControlReceipt_to_dict_def],
    goal_cases)
  case (3 x)
  then show ?case by (simp add: ControlReceipt_unsigned_def)
next
  case (4 row x)
  show ?case
    by (cases x) (auto simp add: ControlReceipt_ok_def ControlReceipt_unsigned_def accepts)
qed (auto simp add: ControlReceipt_unsigned_def RECEIPT_FIELDS_def)

definition verify_control_receipt :: "ed25519 \<Rightarrow> ControlReceipt \<Rightarrow> ControlVerifier \<Rightarrow> exn + unit" where
  "verify_control_receipt ed r vf =
    rbind (require (rc_authority_key_id r = vf_key_id vf) (AuthorityRejected ''receipt_key'')) (\<lambda>_.
    ControlVerifier_verify ed vf ''control_receipt'' (ControlReceipt_unsigned_dict r) (rc_signature r))"

end
