(* ===== verification/Journal_Db.thy ===== *)
theory Journal_Db
  imports Journal_Types
begin

text \<open>
  \<^verbatim>\<open>algo_cli/ada_control_journal.py\<close>, the SQLite database of the journal: one list of rows for each table
  of \<open>_SCHEMA_SQL\<close>, the statements the journal executes on it, and the transactions \<open>_immediate\<close> and
  \<open>_reader\<close>. A statement that violates a constraint of the schema (primary key, \<open>UNIQUE\<close>,
  \<open>REFERENCES\<close>, \<open>CHECK\<close>) raises \<open>sqlite3.Error\<close>, which the transaction rolls back and reports as
  \<open>journal_unavailable\<close>. The locale \<open>sql_table\<close> states what the journal relies on for each table.
\<close>

section \<open>Tables\<close>

record grant_row =
  gw_grant_id :: pystr
  gw_binding_digest :: pystr
  gw_maximum_action_count :: int
  gw_used_count :: int
  gw_expires_at_ms :: int

record permit_row =
  pw_permit_id :: pystr
  pw_grant_id :: pystr
  pw_binding_digest :: pystr
  pw_request_digest :: pystr
  pw_consumed_at_ms :: int
  pw_expires_at_ms :: int

record revocation_row =
  vw_kind :: RevocationKind
  vw_object_id :: pystr
  vw_revoked_at_ms :: int
  vw_reason_code :: pystr

record session_row =
  sw_session_id :: pystr
  sw_last_sequence :: int
  sw_updated_at_ms :: int

record target_row =
  tw_target_id :: pystr
  tw_target_kind :: pystr
  tw_target_epoch :: int
  tw_target_revision :: pystr
  tw_fencing_token :: int
  tw_updated_at_ms :: int

record receipt_row =
  xw_effect_id :: pystr
  xw_transition_version :: int
  xw_receipt_sequence :: int
  xw_previous_receipt_digest :: pystr
  xw_receipt_blob :: bytes
  xw_receipt_digest :: pystr

record journal_db =
  db_identity :: "(int \<times> pystr) list"
  db_grants :: "grant_row list"
  db_permits :: "permit_row list"
  db_revocations :: "revocation_row list"
  db_sessions :: "session_row list"
  db_targets :: "target_row list"
  db_effects :: "effect_row list"
  db_receipts :: "receipt_row list"

text \<open>The database \<open>_initialize\<close> creates, with the journal id it draws.\<close>

definition journal_nonce_id :: "bytes \<Rightarrow> exn + pystr" where
  "journal_nonce_id random =
     content_digest (PDict (items [(''journal_nonce'', PStr (hexdigest (uuid_stamp 4 random)))]))"

definition new_journal :: "pystr \<Rightarrow> journal_db" where
  "new_journal journal_id = \<lparr>db_identity = [(1, journal_id)], db_grants = [], db_permits = [],
     db_revocations = [], db_sessions = [], db_targets = [], db_effects = [], db_receipts = []\<rparr>"

section \<open>Statements\<close>

definition sqlite_error :: "exn + 'a" where
  "sqlite_error = Inl (ControlJournalError ''journal_unavailable'')"

definition lookup :: "('row \<Rightarrow> 'k) \<Rightarrow> 'k \<Rightarrow> 'row list \<Rightarrow> 'row option" where
  "lookup key k rows = find (\<lambda>r. key r = k) rows"

definition update_where :: "('row \<Rightarrow> bool) \<Rightarrow> ('row \<Rightarrow> 'row) \<Rightarrow> 'row list \<Rightarrow> 'row list" where
  "update_where p f rows = map (\<lambda>r. if p r then f r else r) rows"

definition rowcount :: "('row \<Rightarrow> bool) \<Rightarrow> 'row list \<Rightarrow> nat" where
  "rowcount p rows = length (filter p rows)"

definition enum_texts :: "'e enum_type \<Rightarrow> pystr list" where
  "enum_texts E = map (by_value E) (fst E)"

definition effect_key :: "effect_row \<Rightarrow> pystr \<times> int" where
  "effect_key w = (ew_session_id w, ew_sequence w)"

definition revocation_key :: "revocation_row \<Rightarrow> RevocationKind \<times> pystr" where
  "revocation_key w = (vw_kind w, vw_object_id w)"

definition receipt_key :: "receipt_row \<Rightarrow> pystr \<times> int" where
  "receipt_key w = (xw_effect_id w, xw_transition_version w)"

definition grant_check :: "journal_db \<Rightarrow> grant_row \<Rightarrow> bool" where
  "grant_check db w \<longleftrightarrow> 1 \<le> gw_maximum_action_count w \<and> gw_maximum_action_count w \<le> MAX_ACTION_COUNT
     \<and> 0 \<le> gw_used_count w \<and> gw_used_count w \<le> gw_maximum_action_count w \<and> 0 < gw_expires_at_ms w"

definition permit_check :: "journal_db \<Rightarrow> permit_row \<Rightarrow> bool" where
  "permit_check db w \<longleftrightarrow> lookup gw_grant_id (pw_grant_id w) (db_grants db) \<noteq> None
     \<and> 0 \<le> pw_consumed_at_ms w \<and> pw_consumed_at_ms w < pw_expires_at_ms w"

definition revocation_check :: "journal_db \<Rightarrow> revocation_row \<Rightarrow> bool" where
  "revocation_check db w \<longleftrightarrow> 0 \<le> vw_revoked_at_ms w"

definition session_check :: "journal_db \<Rightarrow> session_row \<Rightarrow> bool" where
  "session_check db w \<longleftrightarrow> 0 < sw_last_sequence w \<and> 0 \<le> sw_updated_at_ms w"

definition target_check :: "journal_db \<Rightarrow> target_row \<Rightarrow> bool" where
  "target_check db w \<longleftrightarrow> tw_target_kind w \<in> set (enum_texts TargetKind)
     \<and> 0 < tw_target_epoch w \<and> 0 < tw_fencing_token w \<and> 0 \<le> tw_updated_at_ms w"

definition effect_check :: "journal_db \<Rightarrow> effect_row \<Rightarrow> bool" where
  "effect_check db w \<longleftrightarrow>
     lookup ew_permit_id (ew_permit_id w) (db_effects db) = None
     \<and> lookup effect_key (effect_key w) (db_effects db) = None
     \<and> lookup pw_permit_id (ew_permit_id w) (db_permits db) \<noteq> None
     \<and> lookup gw_grant_id (ew_grant_id w) (db_grants db) \<noteq> None
     \<and> lookup sw_session_id (ew_session_id w) (db_sessions db) \<noteq> None
     \<and> lookup tw_target_id (ew_target_id w) (db_targets db) \<noteq> None
     \<and> ew_target_kind w \<in> set (enum_texts TargetKind) \<and> ew_operation w \<in> set (enum_texts Operation)
     \<and> ew_route w \<in> set (enum_texts ControlRoute) \<and> ew_state w \<in> set (enum_texts ControlEffectState)
     \<and> 0 < ew_target_epoch w \<and> 0 < ew_fencing_token w \<and> 0 < ew_sequence w
     \<and> 0 < ew_transition_version w \<and> 0 \<le> ew_prepared_at_ms w \<and> ew_prepared_at_ms w \<le> ew_updated_at_ms w"

definition receipt_check :: "journal_db \<Rightarrow> receipt_row \<Rightarrow> bool" where
  "receipt_check db w \<longleftrightarrow>
     lookup ew_effect_id (xw_effect_id w) (db_effects db) \<noteq> None
     \<and> lookup xw_receipt_sequence (xw_receipt_sequence w) (db_receipts db) = None
     \<and> 0 < xw_transition_version w \<and> 0 < xw_receipt_sequence w"

definition insert_grant :: "grant_row \<Rightarrow> journal_db \<Rightarrow> exn + journal_db" where
  "insert_grant w db = (if lookup gw_grant_id (gw_grant_id w) (db_grants db) = None \<and> grant_check db w
     then Inr (db\<lparr>db_grants := db_grants db @ [w]\<rparr>) else sqlite_error)"

definition insert_permit :: "permit_row \<Rightarrow> journal_db \<Rightarrow> exn + journal_db" where
  "insert_permit w db = (if lookup pw_permit_id (pw_permit_id w) (db_permits db) = None \<and> permit_check db w
     then Inr (db\<lparr>db_permits := db_permits db @ [w]\<rparr>) else sqlite_error)"

definition insert_session :: "session_row \<Rightarrow> journal_db \<Rightarrow> exn + journal_db" where
  "insert_session w db = (if lookup sw_session_id (sw_session_id w) (db_sessions db) = None \<and> session_check db w
     then Inr (db\<lparr>db_sessions := db_sessions db @ [w]\<rparr>) else sqlite_error)"

definition insert_target :: "target_row \<Rightarrow> journal_db \<Rightarrow> exn + journal_db" where
  "insert_target w db = (if lookup tw_target_id (tw_target_id w) (db_targets db) = None \<and> target_check db w
     then Inr (db\<lparr>db_targets := db_targets db @ [w]\<rparr>) else sqlite_error)"

definition insert_effect :: "effect_row \<Rightarrow> journal_db \<Rightarrow> exn + journal_db" where
  "insert_effect w db = (if lookup ew_effect_id (ew_effect_id w) (db_effects db) = None \<and> effect_check db w
     then Inr (db\<lparr>db_effects := db_effects db @ [w]\<rparr>) else sqlite_error)"

definition insert_receipt :: "receipt_row \<Rightarrow> journal_db \<Rightarrow> exn + journal_db" where
  "insert_receipt w db = (if lookup receipt_key (receipt_key w) (db_receipts db) = None \<and> receipt_check db w
     then Inr (db\<lparr>db_receipts := db_receipts db @ [w]\<rparr>) else sqlite_error)"

text \<open>\<open>INSERT OR IGNORE\<close> leaves the table as it is when a constraint is violated.\<close>

definition insert_or_ignore_revocation :: "revocation_row \<Rightarrow> journal_db \<Rightarrow> journal_db" where
  "insert_or_ignore_revocation w db =
     (if lookup revocation_key (revocation_key w) (db_revocations db) = None \<and> revocation_check db w
      then db\<lparr>db_revocations := db_revocations db @ [w]\<rparr> else db)"

definition update_sessions :: "(session_row \<Rightarrow> bool) \<Rightarrow> (session_row \<Rightarrow> session_row) \<Rightarrow> journal_db \<Rightarrow> exn + journal_db" where
  "update_sessions p f db =
     (if list_all (\<lambda>w. p w \<longrightarrow> session_check db (f w)) (db_sessions db)
      then Inr (db\<lparr>db_sessions := update_where p f (db_sessions db)\<rparr>) else sqlite_error)"

definition update_targets :: "(target_row \<Rightarrow> bool) \<Rightarrow> (target_row \<Rightarrow> target_row) \<Rightarrow> journal_db \<Rightarrow> exn + journal_db" where
  "update_targets p f db =
     (if list_all (\<lambda>w. p w \<longrightarrow> target_check db (f w)) (db_targets db)
      then Inr (db\<lparr>db_targets := update_where p f (db_targets db)\<rparr>) else sqlite_error)"

definition update_grants :: "(grant_row \<Rightarrow> bool) \<Rightarrow> (grant_row \<Rightarrow> grant_row) \<Rightarrow> journal_db \<Rightarrow> exn + journal_db" where
  "update_grants p f db =
     (if list_all (\<lambda>w. p w \<longrightarrow> grant_check db (f w)) (db_grants db)
      then Inr (db\<lparr>db_grants := update_where p f (db_grants db)\<rparr>) else sqlite_error)"

text \<open>The update of \<open>transition\<close> writes the state, reason, evidence, version and time of a row.\<close>

definition effect_update_check :: "effect_row \<Rightarrow> bool" where
  "effect_update_check w \<longleftrightarrow> ew_state w \<in> set (enum_texts ControlEffectState)
     \<and> 0 < ew_transition_version w \<and> ew_prepared_at_ms w \<le> ew_updated_at_ms w"

definition update_effects :: "(effect_row \<Rightarrow> bool) \<Rightarrow> (effect_row \<Rightarrow> effect_row) \<Rightarrow> journal_db \<Rightarrow> exn + journal_db" where
  "update_effects p f db =
     (if list_all (\<lambda>w. p w \<longrightarrow> effect_update_check (f w)) (db_effects db)
      then Inr (db\<lparr>db_effects := update_where p f (db_effects db)\<rparr>) else sqlite_error)"

section \<open>Transactions\<close>

text \<open>
  What the world does to one transaction: \<open>io_connect\<close> is the result of \<open>_connect\<close> (with
  \<open>BEGIN IMMEDIATE\<close>), \<open>io_commit\<close> tells whether \<open>COMMIT\<close> succeeds, and \<open>io_close\<close> is the result of
  \<open>_validate_sidecars\<close>, which runs after the commit.
\<close>

record journal_io =
  io_connect :: "exn + unit"
  io_commit :: bool
  io_close :: "exn + unit"

definition io_ok :: journal_io where
  "io_ok = \<lparr>io_connect = Inr (), io_commit = True, io_close = Inr ()\<rparr>"

definition immediate :: "journal_io \<Rightarrow> (journal_db \<Rightarrow> exn + journal_db \<times> 'a) \<Rightarrow> journal_db \<Rightarrow> journal_db \<times> (exn + 'a)" where
  "immediate io tx db =
    (case io_connect io of
       Inl e \<Rightarrow> (db, Inl e)
     | Inr _ \<Rightarrow>
        (case tx db of
           Inl e \<Rightarrow> (db, rbind (io_close io) (\<lambda>_. Inl e))
         | Inr (db', x) \<Rightarrow>
            if io_commit io then (db', rbind (io_close io) (\<lambda>_. Inr x))
            else (db, rbind (io_close io) (\<lambda>_. sqlite_error))))"

definition reader :: "journal_io \<Rightarrow> (journal_db \<Rightarrow> exn + 'a) \<Rightarrow> journal_db \<Rightarrow> exn + 'a" where
  "reader io query db =
     rbind (io_connect io) (\<lambda>_. case query db of
       Inl e \<Rightarrow> rbind (io_close io) (\<lambda>_. Inl e) | Inr x \<Rightarrow> rbind (io_close io) (\<lambda>_. Inr x))"

section \<open>What the journal relies on for a table\<close>

lemma lookup_simps [simp]:
  "lookup key k [] = None"
  "lookup key k (r # rows) = (if key r = k then Some r else lookup key k rows)"
  by (simp_all add: lookup_def)

lemma lookup_append: "lookup key k (rows @ rows') = (case lookup key k rows of None \<Rightarrow> lookup key k rows' | Some r \<Rightarrow> Some r)"
  by (induction rows) simp_all

lemma lookup_None_iff: "lookup key k rows = None \<longleftrightarrow> k \<notin> key ` set rows"
  by (induction rows) auto

lemma lookup_Some_D: "lookup key k rows = Some r \<Longrightarrow> r \<in> set rows \<and> key r = k"
  by (induction rows) (auto split: if_splits)

lemma lookup_in_set:
  "distinct (map key rows) \<Longrightarrow> r \<in> set rows \<Longrightarrow> lookup key (key r) rows = Some r"
  by (induction rows) force+

lemma lookup_update:
  assumes "\<And>r. key (f r) = key r"
  shows "lookup key k (update_where p f rows) = map_option (\<lambda>r. if p r then f r else r) (lookup key k rows)"
  using assms by (induction rows) (auto simp add: update_where_def)

lemma set_update_where: "set (update_where p f rows) = (\<lambda>r. if p r then f r else r) ` set rows"
  by (simp add: update_where_def)

lemma map_key_update: "(\<And>r. key (f r) = key r) \<Longrightarrow> map key (update_where p f rows) = map key rows"
  by (simp add: update_where_def)

lemma key_image_update:
  assumes "\<And>r. key (f r) = key r"
  shows "key ` set (update_where p f rows) = key ` set rows"
  using arg_cong [OF map_key_update [of key f p rows, OF assms], of set] by simp

lemma update_whereE:
  assumes "v \<in> set (update_where p f rows)"
  obtains u where "u \<in> set rows" "v = (if p u then f u else u)"
  using assms unfolding set_update_where by (rule imageE) (rule that)

lemma update_where_Nil [simp]: "update_where p f [] = []"
  by (simp add: update_where_def)

lemma update_where_id: "(\<And>r. r \<in> set rows \<Longrightarrow> \<not> p r) \<Longrightarrow> update_where p f rows = rows"
  by (induction rows) (simp_all add: update_where_def)

text \<open>With a primary key, at most one row carries a key.\<close>

lemma rowcount_key:
  assumes "distinct (map key rows)"
  shows "rowcount (\<lambda>r. key r = k \<and> q r) rows
    = (case lookup key k rows of None \<Rightarrow> 0 | Some r \<Rightarrow> if q r then 1 else 0)"
  using assms
proof (induction rows)
  case Nil
  then show ?case by (simp add: rowcount_def)
next
  case (Cons r rows)
  show ?case
  proof (cases "key r = k")
    case True
    with Cons.prems have "filter (\<lambda>r. key r = k \<and> q r) rows = []"
      by (auto simp add: filter_empty_conv) (metis image_eqI)
    with True show ?thesis by (simp add: rowcount_def)
  next
    case False
    with Cons show ?thesis by (simp add: rowcount_def)
  qed
qed

locale sql_table =
  fixes key :: "'row \<Rightarrow> 'k" and rows :: "'db \<Rightarrow> 'row list" and check :: "'db \<Rightarrow> 'row \<Rightarrow> bool"
    and insert_row :: "'row \<Rightarrow> 'db \<Rightarrow> exn + 'db"
  assumes insert_rows: "insert_row r db = Inr db' \<Longrightarrow> rows db' = rows db @ [r]"
    and insert_defined: "(\<exists>db'. insert_row r db = Inr db') \<longleftrightarrow> lookup key (key r) (rows db) = None \<and> check db r"
    and insert_fails: "insert_row r db = Inl e \<Longrightarrow> e = ControlJournalError ''journal_unavailable''"
begin

lemma insert_fresh: "insert_row r db = Inr db' \<Longrightarrow> lookup key (key r) (rows db) = None \<and> check db r"
  using insert_defined by blast

lemma insert_lookup:
  "insert_row r db = Inr db' \<Longrightarrow>
   lookup key k (rows db') = (if k = key r then Some r else lookup key k (rows db))"
  using insert_fresh [of r db db'] by (auto simp add: insert_rows lookup_append split: option.splits)

lemma insert_distinct:
  "insert_row r db = Inr db' \<Longrightarrow> distinct (map key (rows db)) \<Longrightarrow> distinct (map key (rows db'))"
  using insert_fresh [of r db db'] by (auto simp add: insert_rows lookup_None_iff)

lemma insert_keeps: "insert_row r db = Inr db' \<Longrightarrow> lookup key k (rows db) = Some w \<Longrightarrow> lookup key k (rows db') = Some w"
  using insert_lookup insert_fresh by fastforce

end

lemmas insert_defs = insert_grant_def insert_permit_def insert_session_def insert_target_def
  insert_effect_def insert_receipt_def sqlite_error_def

interpretation grants: sql_table gw_grant_id db_grants grant_check insert_grant
  by unfold_locales (auto simp add: insert_defs split: if_splits)

interpretation permits: sql_table pw_permit_id db_permits permit_check insert_permit
  by unfold_locales (auto simp add: insert_defs split: if_splits)

interpretation sessions: sql_table sw_session_id db_sessions session_check insert_session
  by unfold_locales (auto simp add: insert_defs split: if_splits)

interpretation targets: sql_table tw_target_id db_targets target_check insert_target
  by unfold_locales (auto simp add: insert_defs split: if_splits)

interpretation effects: sql_table ew_effect_id db_effects effect_check insert_effect
  by unfold_locales (auto simp add: insert_defs split: if_splits)

interpretation receipts: sql_table receipt_key db_receipts receipt_check insert_receipt
  by unfold_locales (auto simp add: insert_defs split: if_splits)

text \<open>What each statement changes, for the proofs that unfold an operation.\<close>

lemma insert_Inr_iffs [accepts]:
  "insert_grant g db = Inr db' \<longleftrightarrow> lookup gw_grant_id (gw_grant_id g) (db_grants db) = None \<and> grant_check db g
     \<and> db' = db\<lparr>db_grants := db_grants db @ [g]\<rparr>"
  "insert_permit p db = Inr db' \<longleftrightarrow> lookup pw_permit_id (pw_permit_id p) (db_permits db) = None \<and> permit_check db p
     \<and> db' = db\<lparr>db_permits := db_permits db @ [p]\<rparr>"
  "insert_session s db = Inr db' \<longleftrightarrow> lookup sw_session_id (sw_session_id s) (db_sessions db) = None \<and> session_check db s
     \<and> db' = db\<lparr>db_sessions := db_sessions db @ [s]\<rparr>"
  "insert_target t db = Inr db' \<longleftrightarrow> lookup tw_target_id (tw_target_id t) (db_targets db) = None \<and> target_check db t
     \<and> db' = db\<lparr>db_targets := db_targets db @ [t]\<rparr>"
  "insert_effect e db = Inr db' \<longleftrightarrow> lookup ew_effect_id (ew_effect_id e) (db_effects db) = None \<and> effect_check db e
     \<and> db' = db\<lparr>db_effects := db_effects db @ [e]\<rparr>"
  "insert_receipt x db = Inr db' \<longleftrightarrow> lookup receipt_key (receipt_key x) (db_receipts db) = None \<and> receipt_check db x
     \<and> db' = db\<lparr>db_receipts := db_receipts db @ [x]\<rparr>"
  by (auto simp add: insert_defs)

lemma update_Inr_iffs [accepts]:
  "update_sessions sp sf db = Inr db' \<longleftrightarrow> list_all (\<lambda>w. sp w \<longrightarrow> session_check db (sf w)) (db_sessions db)
     \<and> db' = db\<lparr>db_sessions := update_where sp sf (db_sessions db)\<rparr>"
  "update_targets tp tf db = Inr db' \<longleftrightarrow> list_all (\<lambda>w. tp w \<longrightarrow> target_check db (tf w)) (db_targets db)
     \<and> db' = db\<lparr>db_targets := update_where tp tf (db_targets db)\<rparr>"
  "update_grants gp gf db = Inr db' \<longleftrightarrow> list_all (\<lambda>w. gp w \<longrightarrow> grant_check db (gf w)) (db_grants db)
     \<and> db' = db\<lparr>db_grants := update_where gp gf (db_grants db)\<rparr>"
  "update_effects ep ef db = Inr db' \<longleftrightarrow> list_all (\<lambda>w. ep w \<longrightarrow> effect_update_check (ef w)) (db_effects db)
     \<and> db' = db\<lparr>db_effects := update_where ep ef (db_effects db)\<rparr>"
  by (auto simp add: update_sessions_def update_targets_def update_grants_def update_effects_def sqlite_error_def)

context py_enum
begin

lemma set_enum_texts [simp]: "set (enum_texts E) = range (by_value E)"
  by (simp add: enum_texts_def members)

end

text \<open>A transaction either commits the state its body produced, or leaves the database as it was.\<close>

lemma immediate_cases:
  assumes "immediate io tx db = (db', result)"
  obtains (unchanged) "db' = db" | (committed) x where "tx db = Inr (db', x)" "io_commit io" "io_connect io = Inr ()"
      "result = rbind (io_close io) (\<lambda>_. Inr x)"
  using assms by (auto simp add: immediate_def split: sum.splits if_splits)

lemma immediate_Inr:
  assumes "immediate io tx db = (db', Inr x)"
  shows "tx db = Inr (db', x)"
  using assms by (auto simp add: immediate_def sqlite_error_def split: sum.splits if_splits)

lemma immediate_io_ok [simp]:
  "immediate io_ok tx db = (case tx db of Inl e \<Rightarrow> (db, Inl e) | Inr (db', x) \<Rightarrow> (db', Inr x))"
  by (simp add: immediate_def io_ok_def split: sum.splits prod.splits)

lemma reader_io_ok [simp]: "reader io_ok query db = query db"
  by (simp add: reader_def io_ok_def split: sum.splits)

lemma reader_Inr: "reader io query db = Inr x \<Longrightarrow> query db = Inr x"
  by (auto simp add: reader_def split: sum.splits)

end
