(* ===== verification/Kernel_Policy.thy ===== *)
theory Kernel_Policy
  imports Kernel_Authority
begin

text \<open>
  \<^verbatim>\<open>algo_cli/david_control_kernel.py\<close>, the decisions: \<open>ControlPolicy\<close>, the default policy, and the six
  functions that issue and verify preparations, grants and permits.

  The theorems say what a successful verification guarantees, that what was issued verifies, and
  which requests a permit can stand for.
\<close>

section \<open>Policies\<close>

text \<open>\<open>PermitRejected.__init__\<close> replaces a reason that is not a safe identifier.\<close>

definition permit_rejected :: "string \<Rightarrow> exn" where
  "permit_rejected reason_code =
     PermitRejected (if safe_id_text (str reason_code) then reason_code else ''invalid_rejection'')"

definition deny_if :: "bool \<Rightarrow> string \<Rightarrow> exn + unit" where
  "deny_if c reason = (if c then Inl (permit_rejected reason) else Inr ())"

lemma deny_if_Inr_iff [accepts]: "deny_if c reason = Inr u \<longleftrightarrow> \<not> c"
  by (simp add: deny_if_def)

lemma deny_if_False [simp]: "deny_if False reason = Inr ()"
  by (simp add: deny_if_def)

record ControlPolicy =
  po_policy_id :: pystr
  po_revision :: int
  po_operation_routes :: "(Operation \<times> ControlRoute list) list"
  po_allowed_target_kinds :: "TargetKind set"
  po_allowed_data_classes :: "ControlDataClass set"
  po_max_frame_bytes :: int
  po_max_input_bytes :: int
  po_max_output_bytes :: int
  po_max_transmit_bytes :: int
  po_max_deadline_ms :: int
  po_max_snapshot_age_ms :: int
  po_clock_skew_ms :: int

definition policy_routes_check :: "Operation \<times> ControlRoute list \<Rightarrow> exn + unit" where
  "policy_routes_check item = (case item of (operation, routes) \<Rightarrow>
     if routes = [] \<or> \<not> distinct routes
     then Inl (ValueError ''policy routes must be non-empty and unique'')
     else if sort_key ROUTE_INDEX routes \<noteq> routes
     then Inl (ValueError ''policy routes must follow deterministic order'')
     else Inr ())"

definition policy_bounds :: "ControlPolicy \<Rightarrow> (int \<times> int \<times> int) list" where
  "policy_bounds p =
    [(po_max_frame_bytes p, 1, int MAX_FRAME_BYTES),
     (po_max_input_bytes p, 1, int MAX_STRING_BYTES),
     (po_max_output_bytes p, 1, MAX_OUTPUT_BYTES),
     (po_max_transmit_bytes p, 0, MAX_UPLOAD_BYTES),
     (po_max_deadline_ms p, 1, MAX_DEADLINE_HORIZON_MS),
     (po_max_snapshot_age_ms p, 0, MAX_DEADLINE_HORIZON_MS),
     (po_clock_skew_ms p, 0, 60000)]"

definition ControlPolicy_post_init :: "ControlPolicy \<Rightarrow> exn + unit" where
  "ControlPolicy_post_init p =
    rbind (safe_identifier ''policy_id'' (PStr (po_policy_id p))) (\<lambda>_.
    rbind (exact_int ''policy_revision'' 1 MAX_SAFE_INTEGER (PInt (po_revision p))) (\<lambda>_.
    rbind (require (\<not> (po_allowed_target_kinds p = {} \<or> po_allowed_data_classes p = {}))
             (ValueError ''policy allowlists must not be empty'')) (\<lambda>_.
    let operations = map fst (po_operation_routes p) in
    rbind (require (\<not> (\<not> distinct operations \<or> sort_key (by_value Operation) operations \<noteq> operations))
             (ValueError ''policy operations must be unique and sorted'')) (\<lambda>_.
    rbind (traverse policy_routes_check (po_operation_routes p)) (\<lambda>_.
    require (\<not> list_ex (\<lambda>(n, minimum, maximum). \<not> (minimum \<le> n \<and> n \<le> maximum)) (policy_bounds p))
      (ValueError ''policy bounds are invalid''))))))"

text \<open>\<open>dict(items)\<close>: the last of two items with one key wins.\<close>

definition route_map :: "ControlPolicy \<Rightarrow> Operation \<Rightarrow> ControlRoute list option" where
  "route_map p = map_of (rev (po_operation_routes p))"

definition policy_routes :: "ControlPolicy \<Rightarrow> Operation \<Rightarrow> ControlRoute list" where
  "policy_routes p operation = (case route_map p operation of None \<Rightarrow> [] | Some routes \<Rightarrow> routes)"

definition sorted_values :: "'e enum_type \<Rightarrow> 'e set \<Rightarrow> py" where
  "sorted_values E S = PList (map PStr (sort (map (by_value E) (filter (\<lambda>e. e \<in> S) (fst E)))))"

definition ControlPolicy_to_dict :: "ControlPolicy \<Rightarrow> py" where
  "ControlPolicy_to_dict p = PDict (items
    [(''schema_version'', PInt CONTROL_SCHEMA_VERSION),
     (''policy_id'', PStr (po_policy_id p)),
     (''revision'', PInt (po_revision p)),
     (''operation_routes'', PDict (map (\<lambda>(operation, routes).
        (by_value Operation operation, PList (map (enum_py ControlRoute) routes))) (po_operation_routes p))),
     (''allowed_target_kinds'', sorted_values TargetKind (po_allowed_target_kinds p)),
     (''allowed_data_classes'', sorted_values ControlDataClass (po_allowed_data_classes p)),
     (''max_frame_bytes'', PInt (po_max_frame_bytes p)),
     (''max_input_bytes'', PInt (po_max_input_bytes p)),
     (''max_output_bytes'', PInt (po_max_output_bytes p)),
     (''max_transmit_bytes'', PInt (po_max_transmit_bytes p)),
     (''max_deadline_ms'', PInt (po_max_deadline_ms p)),
     (''max_snapshot_age_ms'', PInt (po_max_snapshot_age_ms p)),
     (''clock_skew_ms'', PInt (po_clock_skew_ms p))])"

definition ControlPolicy_digest :: "ControlPolicy \<Rightarrow> exn + pystr" where
  "ControlPolicy_digest p = content_digest (ControlPolicy_to_dict p)"

definition validate_request ::
    "ControlPolicy \<Rightarrow> ControlRequest \<Rightarrow> int \<Rightarrow> SnapshotRef option \<Rightarrow> exn + unit" where
  "validate_request p r now_ms live_snapshot =
    rbind (exact_int ''now'' 0 MAX_SAFE_INTEGER (PInt now_ms)) (\<lambda>_.
    rbind (deny_if (tr_kind (rq_target r) \<notin> po_allowed_target_kinds p) ''target_kind_denied'') (\<lambda>_.
    rbind (deny_if (rq_data_class r \<notin> po_allowed_data_classes p) ''data_class_denied'') (\<lambda>_.
    rbind (deny_if (route_map p (rq_operation r) = None) ''operation_denied'') (\<lambda>_.
    rbind (deny_if (now_ms + po_clock_skew_ms p < rq_issued_at_ms r) ''request_not_yet_valid'') (\<lambda>_.
    rbind (deny_if (rq_deadline_ms r \<le> now_ms) ''request_expired'') (\<lambda>_.
    rbind (deny_if (po_max_deadline_ms p < rq_deadline_ms r - rq_issued_at_ms r) ''request_deadline_limit'') (\<lambda>_.
    rbind (deny_if (now_ms + po_clock_skew_ms p < sn_observed_at_ms (rq_snapshot r)) ''snapshot_from_future'') (\<lambda>_.
    rbind (deny_if (po_max_snapshot_age_ms p < now_ms - sn_observed_at_ms (rq_snapshot r)) ''snapshot_stale'') (\<lambda>_.
    rbind (argument_bytes r) (\<lambda>input_bytes.
    rbind (deny_if (po_max_input_bytes p < int input_bytes) ''input_limit'') (\<lambda>_.
    rbind (deny_if (po_max_output_bytes p < rq_max_output_bytes r) ''output_limit'') (\<lambda>_.
    rbind (transmit_bytes r) (\<lambda>transmit.
    rbind (deny_if (po_max_transmit_bytes p < transmit) ''transmit_limit'') (\<lambda>_.
    rbind (deny_if (list_ex (\<lambda>route. route \<notin> set (policy_routes p (rq_operation r))
                                     \<or> route \<notin> TARGET_ROUTES (tr_kind (rq_target r)))
                      (rq_requested_routes r)) ''route_denied'') (\<lambda>_.
    rbind (deny_if (rq_operation r = COORDINATE_ACTIVATE \<and> rq_requested_routes r \<noteq> [R_COORDINATE])
             ''coordinate_route_required'') (\<lambda>_.
    rbind (deny_if (rq_operation r = HANDOFF \<and> rq_requested_routes r \<noteq> [R_HANDOFF])
             ''handoff_route_required'') (\<lambda>_.
    deny_if (live_snapshot \<noteq> None \<and> live_snapshot \<noteq> Some (rq_snapshot r)) ''snapshot_changed'')))))))))))))))))"

definition select_route ::
    "ControlPolicy \<Rightarrow> ControlRequest \<Rightarrow> ControlRoute list \<Rightarrow> ControlRoute list \<Rightarrow> ControlRoute list
     \<Rightarrow> exn + ControlRoute" where
  "select_route p r grant_routes permit_routes live_routes =
    (let allowed = set (rq_requested_routes r) \<inter> set grant_routes \<inter> set permit_routes
           \<inter> set (policy_routes p (rq_operation r)) \<inter> TARGET_ROUTES (tr_kind (rq_target r))
           \<inter> set live_routes
     in case find (\<lambda>route. route \<in> allowed) ROUTE_ORDER of
          Some route \<Rightarrow> Inr route
        | None \<Rightarrow> Inl (permit_rejected ''no_route''))"

definition default_route_map :: "(Operation \<times> ControlRoute list) list" where
  "default_route_map =
    [(OBSERVE, [R_CONNECTOR, R_DOM, R_AX, R_SCREENSHOT]),
     (ACTIVATE, [R_CONNECTOR, R_SHORTCUT, R_APPLE_EVENT, R_DOM, R_AX, R_SCREENSHOT, R_COORDINATE]),
     (INPUT_TEXT, [R_CONNECTOR, R_SHORTCUT, R_APPLE_EVENT, R_DOM, R_AX]),
     (SELECT_OPTION, [R_CONNECTOR, R_SHORTCUT, R_APPLE_EVENT, R_DOM, R_AX]),
     (SCROLL, [R_CONNECTOR, R_DOM, R_AX, R_COORDINATE]),
     (UPLOAD, [R_CONNECTOR, R_DOM, R_AX]),
     (COORDINATE_ACTIVATE, [R_COORDINATE]),
     (HANDOFF, [R_HANDOFF])]"

definition default_policy :: ControlPolicy where
  "default_policy = \<lparr>po_policy_id = str ''algo.control.default'', po_revision = 1,
              po_operation_routes = sort_key (\<lambda>item. by_value Operation (fst item)) default_route_map,
              po_allowed_target_kinds = UNIV, po_allowed_data_classes = UNIV,
              po_max_frame_bytes = int MAX_FRAME_BYTES, po_max_input_bytes = int MAX_STRING_BYTES,
              po_max_output_bytes = 65536, po_max_transmit_bytes = 16 * 1024 * 1024,
              po_max_deadline_ms = 120000, po_max_snapshot_age_ms = 30000, po_clock_skew_ms = 2000\<rparr>"

definition default_control_policy :: "exn + ControlPolicy" where
  "default_control_policy = rbind (ControlPolicy_post_init default_policy) (\<lambda>_. Inr default_policy)"

context py_enum
begin

lemma sorted_values_enum:
  "\<exists>es. sorted_values E S = PList (map (enum_py E) es) \<and> set es = S \<and> length es \<le> length (fst E)
     \<and> distinct es \<and> sorted (map (by_value E) es)"
proof -
  let ?fs = "filter (\<lambda>e. e \<in> S) (fst E)"
  have "sort (map (by_value E) ?fs) = map (by_value E) (sort_key (by_value E) ?fs)"
    by (rule properties_for_sort) simp_all
  then have "sorted_values E S = PList (map (enum_py E) (sort_key (by_value E) ?fs))"
    by (simp add: sorted_values_def enum_py_def by_value_def)
  moreover have "set (sort_key (by_value E) ?fs) = S" "length (sort_key (by_value E) ?fs) \<le> length (fst E)"
    "distinct (sort_key (by_value E) ?fs)" "sorted (map (by_value E) (sort_key (by_value E) ?fs))"
    using members members_distinct by (auto intro: length_filter_le)
  ultimately show ?thesis by blast
qed

end

section \<open>Preparations\<close>

definition unsigned_placeholder :: "string \<times> py" where
  "unsigned_placeholder = (''signature'', PStr (replicate 86 65))"

definition issue_control_preparation ::
    "ed25519 \<Rightarrow> ControlSigner \<Rightarrow> ControlPolicy \<Rightarrow> pystr \<Rightarrow> pystr \<Rightarrow> pystr \<Rightarrow> Operation \<Rightarrow>
     ControlDataClass \<Rightarrow> ControlRoute \<Rightarrow> pystr \<Rightarrow> (pystr \<times> py) list \<Rightarrow> int \<Rightarrow> int \<Rightarrow>
     exn + ControlPreparationEnvelope" where
  "issue_control_preparation ed signer p preparation_id request_id subject_id operation data_class
     route selector arguments issued_at_ms expires_at_ms =
    rbind (require (route \<in> set (policy_routes p operation)) (ValueError ''preparation route'')) (\<lambda>_.
    rbind (require (data_class \<in> data_classes (OPERATION_SPECS operation))
             (ValueError ''preparation data class'')) (\<lambda>_.
    rbind (ControlPolicy_digest p) (\<lambda>policy_digest.
    let row =
      [(''schema_version'', PInt CONTROL_SCHEMA_VERSION),
       (''preparation_id'', PStr preparation_id),
       (''request_id'', PStr request_id),
       (''subject_id'', PStr subject_id),
       (''operation'', enum_py Operation operation),
       (''data_class'', enum_py ControlDataClass data_class),
       (''route'', enum_py ControlRoute route),
       (''selector'', PStr selector),
       (''arguments'', PDict arguments),
       (''issued_at_ms'', PInt issued_at_ms),
       (''expires_at_ms'', PInt expires_at_ms),
       (''policy_digest'', PStr policy_digest),
       (''authority_key_id'', PStr (sg_key_id signer))]
    in rbind (ControlPreparation_from_dict (PDict (items (row @ [unsigned_placeholder])))) (\<lambda>candidate.
    rbind (ControlSigner_sign ed signer ''control_prepare'' (ControlPreparation_unsigned_dict candidate)) (\<lambda>signature.
    rbind (ControlPreparation_from_dict (PDict (items (ControlPreparation_unsigned candidate @
             [(''signature'', PStr signature)])))) (\<lambda>signed.
    Inr \<lparr>pe_preparation = signed, pe_protocol_version = CONTROL_PROTOCOL_VERSION,
         pe_message_type = str CONTROL_PREPARATION_MESSAGE_TYPE\<rparr>))))))"

definition verify_control_preparation ::
    "ed25519 \<Rightarrow> ControlPreparationEnvelope \<Rightarrow> ControlVerifier \<Rightarrow> ControlPolicy \<Rightarrow> int \<Rightarrow>
     exn + ControlPreparation" where
  "verify_control_preparation ed env vf p now_ms =
    rbind (ControlPreparation_from_dict (ControlPreparation_to_dict (pe_preparation env))) (\<lambda>preparation.
    rbind (require (pr_authority_key_id preparation = vf_key_id vf)
             (AuthorityRejected ''preparation_key'')) (\<lambda>_.
    rbind (ControlVerifier_verify ed vf ''control_prepare'' (ControlPreparation_unsigned_dict preparation)
             (pr_signature preparation)) (\<lambda>_.
    rbind (ControlPolicy_digest p) (\<lambda>policy_digest.
    rbind (deny_if (pr_policy_digest preparation \<noteq> policy_digest) ''preparation_policy'') (\<lambda>_.
    rbind (deny_if (pr_route preparation \<notin> set (policy_routes p (pr_operation preparation)))
             ''preparation_route'') (\<lambda>_.
    rbind (deny_if (pr_data_class preparation \<notin> po_allowed_data_classes p) ''preparation_data_class'') (\<lambda>_.
    rbind (deny_if (now_ms < pr_issued_at_ms preparation) ''preparation_not_yet_valid'') (\<lambda>_.
    rbind (deny_if (pr_expires_at_ms preparation \<le> now_ms) ''preparation_expired'') (\<lambda>_.
    Inr preparation)))))))))"

section \<open>Grants\<close>

text \<open>The effects of a list of operations, each once, in the order of their values.\<close>

definition effects_of :: "Operation list \<Rightarrow> Effect list" where
  "effects_of operations =
     sort_key (by_value Effect) (remdups (concat (map (\<lambda>operation. effects (OPERATION_SPECS operation)) operations)))"

definition allowed_routes :: "ControlPolicy \<Rightarrow> Operation list \<Rightarrow> ControlRoute set" where
  "allowed_routes p operations = (\<Union>operation \<in> set operations. set (policy_routes p operation))"

definition issue_grant ::
    "ed25519 \<Rightarrow> ControlSigner \<Rightarrow> ControlPolicy \<Rightarrow> pystr \<Rightarrow> pystr \<Rightarrow> pystr list \<Rightarrow> TargetKind list \<Rightarrow>
     Operation list \<Rightarrow> ControlDataClass list \<Rightarrow> ControlRoute list \<Rightarrow> int \<Rightarrow> int \<Rightarrow> int \<Rightarrow> int \<Rightarrow> int \<Rightarrow>
     int \<Rightarrow> exn + ControlGrant" where
  "issue_grant ed signer p grant_id subject_id target_ids target_kinds operations classes routes
     issued_at_ms expires_at_ms maximum_action_count max_input_bytes max_output_bytes max_transmit_bytes =
    (let operation_tuple = sort_key (by_value Operation) (remdups operations);
         effect_tuple = effects_of operation_tuple in
    rbind (canonical_uuid ''grant_id'' (PStr grant_id)) (\<lambda>grant_id.
    rbind (safe_identifier ''subject_id'' (PStr subject_id)) (\<lambda>subject_id.
    rbind (traverse (\<lambda>t. opaque_id ''target_id'' (PStr t)) target_ids) (\<lambda>ids.
    rbind (ControlPolicy_digest p) (\<lambda>policy_digest.
    let row =
      [(''schema_version'', PInt CONTROL_SCHEMA_VERSION),
       (''grant_id'', PStr grant_id),
       (''subject_id'', PStr subject_id),
       (''target_ids'', PList (map PStr (sort (remdups ids)))),
       (''target_kinds'', sorted_values TargetKind (set target_kinds)),
       (''operations'', PList (map (enum_py Operation) operation_tuple)),
       (''effects'', PList (map (enum_py Effect) effect_tuple)),
       (''data_classes'', sorted_values ControlDataClass (set classes)),
       (''routes'', PList (map (enum_py ControlRoute) (filter (\<lambda>route. route \<in> set routes) ROUTE_ORDER))),
       (''issued_at_ms'', PInt issued_at_ms),
       (''expires_at_ms'', PInt expires_at_ms),
       (''maximum_action_count'', PInt maximum_action_count),
       (''max_input_bytes'', PInt max_input_bytes),
       (''max_output_bytes'', PInt max_output_bytes),
       (''max_transmit_bytes'', PInt max_transmit_bytes),
       (''policy_digest'', PStr policy_digest),
       (''authority_key_id'', PStr (sg_key_id signer))]
    in rbind (require (\<not> (ids = [] \<or> target_kinds = [] \<or> operations = [] \<or> classes = [] \<or> routes = []))
             (ValueError ''grant allowlists must not be empty'')) (\<lambda>_.
    rbind (require (set target_kinds \<subseteq> po_allowed_target_kinds p)
             (ValueError ''grant target kinds exceed policy'')) (\<lambda>_.
    rbind (require (set classes \<subseteq> po_allowed_data_classes p)
             (ValueError ''grant data classes exceed policy'')) (\<lambda>_.
    rbind (require (list_all (\<lambda>operation. route_map p operation \<noteq> None) operation_tuple)
             (ValueError ''grant operation exceeds policy'')) (\<lambda>_.
    rbind (require (set routes \<subseteq> allowed_routes p operation_tuple)
             (ValueError ''grant routes exceed policy'')) (\<lambda>_.
    rbind (ControlGrant_from_dict (PDict (items (row @ [unsigned_placeholder])))) (\<lambda>candidate.
    rbind (ControlSigner_sign ed signer ''control_grant'' (ControlGrant_unsigned_dict candidate)) (\<lambda>signature.
    ControlGrant_from_dict (PDict (items (ControlGrant_unsigned candidate @
      [(''signature'', PStr signature)])))))))))))))))"

definition verify_grant ::
    "ed25519 \<Rightarrow> ControlGrant \<Rightarrow> ControlVerifier \<Rightarrow> ControlPolicy \<Rightarrow> int \<Rightarrow> pystr \<Rightarrow> exn + unit" where
  "verify_grant ed g vf p now_ms subject_id =
    rbind (require (gr_authority_key_id g = vf_key_id vf) (AuthorityRejected ''grant_key'')) (\<lambda>_.
    rbind (ControlVerifier_verify ed vf ''control_grant'' (ControlGrant_unsigned_dict g) (gr_signature g)) (\<lambda>_.
    rbind (ControlPolicy_digest p) (\<lambda>policy_digest.
    rbind (deny_if (gr_policy_digest g \<noteq> policy_digest) ''grant_policy'') (\<lambda>_.
    rbind (deny_if (gr_subject_id g \<noteq> subject_id) ''grant_subject'') (\<lambda>_.
    rbind (deny_if (\<not> set (gr_target_kinds g) \<subseteq> po_allowed_target_kinds p) ''grant_target_kind'') (\<lambda>_.
    rbind (deny_if (\<not> set (gr_data_classes g) \<subseteq> po_allowed_data_classes p) ''grant_data_class'') (\<lambda>_.
    rbind (deny_if (list_ex (\<lambda>operation. route_map p operation = None) (gr_operations g)) ''grant_operation'') (\<lambda>_.
    rbind (deny_if (gr_effects g \<noteq> effects_of (gr_operations g)) ''grant_effects'') (\<lambda>_.
    rbind (deny_if (\<not> set (gr_routes g) \<subseteq> allowed_routes p (gr_operations g)) ''grant_routes'') (\<lambda>_.
    rbind (deny_if (po_max_input_bytes p < gr_max_input_bytes g) ''grant_input_limit'') (\<lambda>_.
    rbind (deny_if (po_max_output_bytes p < gr_max_output_bytes g) ''grant_output_limit'') (\<lambda>_.
    rbind (deny_if (po_max_transmit_bytes p < gr_max_transmit_bytes g) ''grant_transmit_limit'') (\<lambda>_.
    rbind (deny_if (now_ms < gr_issued_at_ms g) ''grant_not_yet_valid'') (\<lambda>_.
    deny_if (gr_expires_at_ms g \<le> now_ms) ''grant_expired''))))))))))))))"

section \<open>Permits and envelopes\<close>

definition issue_permit ::
    "ed25519 \<Rightarrow> ControlSigner \<Rightarrow> ControlVerifier \<Rightarrow> ControlPolicy \<Rightarrow> ControlGrant \<Rightarrow> ControlRequest \<Rightarrow>
     pystr \<Rightarrow> int \<Rightarrow> int \<Rightarrow> exn + ControlPermit" where
  "issue_permit ed signer vf p g r permit_id issued_at_ms expires_at_ms =
    rbind (verify_grant ed g vf p issued_at_ms (rq_subject_id r)) (\<lambda>_.
    rbind (validate_request p r issued_at_ms None) (\<lambda>_.
    rbind (require (sg_key_id signer = vf_key_id vf) (AuthorityRejected ''permit_signer'')) (\<lambda>_.
    rbind (deny_if (tr_target_id (rq_target r) \<notin> set (gr_target_ids g)
                    \<or> tr_kind (rq_target r) \<notin> set (gr_target_kinds g)) ''grant_target'') (\<lambda>_.
    rbind (deny_if (rq_operation r \<notin> set (gr_operations g)) ''grant_operation'') (\<lambda>_.
    rbind (deny_if (list_ex (\<lambda>effect. effect \<notin> set (gr_effects g)) (ControlRequest_effects r))
             ''grant_effect'') (\<lambda>_.
    rbind (deny_if (rq_data_class r \<notin> set (gr_data_classes g)) ''grant_data_class'') (\<lambda>_.
    let routes = filter (\<lambda>route. route \<in> set (gr_routes g)) (rq_requested_routes r) in
    rbind (deny_if (routes = []) ''grant_route'') (\<lambda>_.
    rbind (argument_bytes r) (\<lambda>input_bytes.
    rbind (deny_if (gr_max_input_bytes g < int input_bytes) ''grant_input_limit'') (\<lambda>_.
    rbind (deny_if (gr_max_output_bytes g < rq_max_output_bytes r) ''grant_output_limit'') (\<lambda>_.
    rbind (transmit_bytes r) (\<lambda>transmit.
    rbind (deny_if (gr_max_transmit_bytes g < transmit) ''grant_transmit_limit'') (\<lambda>_.
    rbind (deny_if (\<not> issued_at_ms < expires_at_ms) ''permit_window'') (\<lambda>_.
    rbind (deny_if (min (gr_expires_at_ms g) (rq_deadline_ms r) < expires_at_ms) ''permit_expiry_scope'') (\<lambda>_.
    rbind (canonical_uuid ''permit_id'' (PStr permit_id)) (\<lambda>permit_id.
    rbind (ControlRequest_digest r) (\<lambda>request_digest.
    rbind (ControlPolicy_digest p) (\<lambda>policy_digest.
    let row =
      [(''schema_version'', PInt CONTROL_SCHEMA_VERSION),
       (''permit_id'', PStr permit_id),
       (''grant_id'', PStr (gr_grant_id g)),
       (''subject_id'', PStr (rq_subject_id r)),
       (''request_id'', PStr (rq_request_id r)),
       (''request_digest'', PStr request_digest),
       (''target_kind'', enum_py TargetKind (tr_kind (rq_target r))),
       (''target_id'', PStr (tr_target_id (rq_target r))),
       (''target_epoch'', PInt (tr_epoch (rq_target r))),
       (''target_revision'', PStr (tr_revision (rq_target r))),
       (''fencing_token'', PInt (tr_fencing_token (rq_target r))),
       (''snapshot_id'', PStr (sn_snapshot_id (rq_snapshot r))),
       (''sequence'', PInt (rq_sequence r)),
       (''operation'', enum_py Operation (rq_operation r)),
       (''effects'', PList (map (enum_py Effect) (ControlRequest_effects r))),
       (''data_class'', enum_py ControlDataClass (rq_data_class r)),
       (''routes'', PList (map (enum_py ControlRoute) routes)),
       (''input_bytes'', PInt (int input_bytes)),
       (''output_bytes'', PInt (rq_max_output_bytes r)),
       (''transmit_bytes'', PInt transmit),
       (''issued_at_ms'', PInt issued_at_ms),
       (''expires_at_ms'', PInt expires_at_ms),
       (''maximum_action_count'', PInt 1),
       (''policy_digest'', PStr policy_digest),
       (''authority_key_id'', PStr (sg_key_id signer))]
    in rbind (ControlPermit_from_dict (PDict (items (row @ [unsigned_placeholder])))) (\<lambda>candidate.
    rbind (ControlSigner_sign ed signer ''control_permit'' (ControlPermit_unsigned_dict candidate)) (\<lambda>signature.
    ControlPermit_from_dict (PDict (items (ControlPermit_unsigned candidate @
      [(''signature'', PStr signature)])))))))))))))))))))))))"

fun run_checks :: "(bool \<times> string) list \<Rightarrow> exn + unit" where
  "run_checks [] = Inr ()"
| "run_checks ((accepted, reason) # checks) =
    (if \<not> accepted then Inl (permit_rejected reason) else run_checks checks)"

definition envelope_checks ::
    "ControlRequest \<Rightarrow> ControlGrant \<Rightarrow> ControlPermit \<Rightarrow> pystr \<Rightarrow> int \<Rightarrow> int \<Rightarrow> pystr \<Rightarrow> (bool \<times> string) list" where
  "envelope_checks r g pm request_digest input_bytes transmit policy_digest =
    [(pm_grant_id pm = gr_grant_id g, ''permit_grant''),
     (pm_subject_id pm = rq_subject_id r, ''permit_subject''),
     (pm_request_id pm = rq_request_id r, ''permit_request''),
     (pm_request_digest pm = request_digest, ''permit_request_digest''),
     (pm_target_kind pm = tr_kind (rq_target r), ''permit_target_kind''),
     (pm_target_id pm = tr_target_id (rq_target r), ''permit_target''),
     (pm_target_epoch pm = tr_epoch (rq_target r), ''permit_epoch''),
     (pm_target_revision pm = tr_revision (rq_target r), ''permit_revision''),
     (pm_fencing_token pm = tr_fencing_token (rq_target r), ''permit_fence''),
     (pm_snapshot_id pm = sn_snapshot_id (rq_snapshot r), ''permit_snapshot''),
     (pm_sequence pm = rq_sequence r, ''permit_sequence''),
     (pm_operation pm = rq_operation r, ''permit_operation''),
     (pm_effects pm = ControlRequest_effects r, ''permit_effects''),
     (pm_data_class pm = rq_data_class r, ''permit_data_class''),
     (pm_input_bytes pm = input_bytes, ''permit_input''),
     (pm_output_bytes pm = rq_max_output_bytes r, ''permit_output''),
     (pm_transmit_bytes pm = transmit, ''permit_transmit''),
     (pm_policy_digest pm = policy_digest, ''permit_policy''),
     (pm_maximum_action_count pm = 1, ''permit_action_count''),
     (gr_issued_at_ms g \<le> pm_issued_at_ms pm, ''permit_issued_scope''),
     (pm_expires_at_ms pm \<le> min (gr_expires_at_ms g) (rq_deadline_ms r), ''permit_expiry_scope''),
     (list_all (\<lambda>route. route \<in> set (rq_requested_routes r) \<and> route \<in> set (gr_routes g)) (pm_routes pm),
      ''permit_routes''),
     (tr_target_id (rq_target r) \<in> set (gr_target_ids g), ''grant_target''),
     (tr_kind (rq_target r) \<in> set (gr_target_kinds g), ''grant_target_kind''),
     (rq_operation r \<in> set (gr_operations g), ''grant_operation''),
     (list_all (\<lambda>effect. effect \<in> set (gr_effects g)) (ControlRequest_effects r), ''grant_effects''),
     (rq_data_class r \<in> set (gr_data_classes g), ''grant_data_class''),
     (input_bytes \<le> gr_max_input_bytes g, ''grant_input_limit''),
     (rq_max_output_bytes r \<le> gr_max_output_bytes g, ''grant_output_limit''),
     (transmit \<le> gr_max_transmit_bytes g, ''grant_transmit_limit'')]"

definition verify_envelope_authority ::
    "ed25519 \<Rightarrow> ControlEnvelope \<Rightarrow> ControlVerifier \<Rightarrow> ControlPolicy \<Rightarrow> int \<Rightarrow> ControlRoute list \<Rightarrow>
     SnapshotRef option \<Rightarrow> exn + ControlRoute" where
  "verify_envelope_authority ed env vf p now_ms live_routes live_snapshot =
    (let r = en_request env; g = en_grant env; pm = en_permit env in
    rbind (verify_grant ed g vf p now_ms (rq_subject_id r)) (\<lambda>_.
    rbind (require (pm_authority_key_id pm = vf_key_id vf) (AuthorityRejected ''permit_key'')) (\<lambda>_.
    rbind (ControlVerifier_verify ed vf ''control_permit'' (ControlPermit_unsigned_dict pm)
             (pm_signature pm)) (\<lambda>_.
    rbind (validate_request p r now_ms live_snapshot) (\<lambda>_.
    rbind (ControlRequest_digest r) (\<lambda>request_digest.
    rbind (argument_bytes r) (\<lambda>input_bytes.
    rbind (transmit_bytes r) (\<lambda>transmit.
    rbind (ControlPolicy_digest p) (\<lambda>policy_digest.
    rbind (run_checks (envelope_checks r g pm request_digest (int input_bytes) transmit policy_digest)) (\<lambda>_.
    rbind (deny_if (now_ms < pm_issued_at_ms pm) ''permit_not_yet_valid'') (\<lambda>_.
    rbind (deny_if (pm_expires_at_ms pm \<le> now_ms) ''permit_expired'') (\<lambda>_.
    select_route p r (gr_routes g) (pm_routes pm) live_routes))))))))))))"

lemma run_checks_Inr_iff [accepts]: "run_checks checks = Inr u \<longleftrightarrow> list_all fst checks"
  by (induction checks rule: run_checks.induct) auto

section \<open>Route selection\<close>

lemma ROUTE_ORDER_facts:
  "set ROUTE_ORDER = UNIV" "i < length ROUTE_ORDER \<Longrightarrow> ROUTE_INDEX (ROUTE_ORDER ! i) = i"
proof -
  show "set ROUTE_ORDER = UNIV"
    using rte.members by (simp add: ControlRoute_def)
  show "i < length ROUTE_ORDER \<Longrightarrow> ROUTE_INDEX (ROUTE_ORDER ! i) = i"
    by (auto simp add: ROUTE_ORDER_def less_Suc_eq)
qed

lemma find_route:
  "find P ROUTE_ORDER = Some route \<longleftrightarrow> P route \<and> (\<forall>other. P other \<longrightarrow> ROUTE_INDEX route \<le> ROUTE_INDEX other)"
proof -
  have at: "\<exists>i < length ROUTE_ORDER. ROUTE_ORDER ! i = x \<and> ROUTE_INDEX x = i" for x
    using ROUTE_ORDER_facts by (metis UNIV_I in_set_conv_nth)
  show ?thesis
  proof
    assume "find P ROUTE_ORDER = Some route"
    then obtain i where i: "i < length ROUTE_ORDER" "P route" "route = ROUTE_ORDER ! i"
      and least: "\<And>j. j < i \<Longrightarrow> \<not> P (ROUTE_ORDER ! j)"
      by (auto simp add: find_Some_iff)
    have "ROUTE_INDEX route \<le> ROUTE_INDEX other" if "P other" for other
      using at [of other] least that i ROUTE_ORDER_facts(2) by (metis not_le)
    with i show "P route \<and> (\<forall>other. P other \<longrightarrow> ROUTE_INDEX route \<le> ROUTE_INDEX other)" by blast
  next
    assume *: "P route \<and> (\<forall>other. P other \<longrightarrow> ROUTE_INDEX route \<le> ROUTE_INDEX other)"
    obtain i where i: "i < length ROUTE_ORDER" "ROUTE_ORDER ! i = route" "ROUTE_INDEX route = i"
      using at by blast
    moreover have "\<not> P (ROUTE_ORDER ! j)" if "j < i" for j
      using * that i ROUTE_ORDER_facts(2) [of j] by fastforce
    ultimately show "find P ROUTE_ORDER = Some route"
      using * by (auto simp add: find_Some_iff)
  qed
qed

text \<open>The routes on which the request, the grant, the permit, the policy, the kind of target and the
  live adapters agree.\<close>

definition agreed_routes ::
    "ControlPolicy \<Rightarrow> ControlRequest \<Rightarrow> ControlRoute list \<Rightarrow> ControlRoute list \<Rightarrow> ControlRoute list
     \<Rightarrow> ControlRoute set" where
  "agreed_routes p r grant_routes permit_routes live_routes =
    {route. route \<in> set (rq_requested_routes r) \<and> route \<in> set grant_routes \<and> route \<in> set permit_routes
       \<and> route \<in> set (policy_routes p (rq_operation r)) \<and> route \<in> TARGET_ROUTES (tr_kind (rq_target r))
       \<and> route \<in> set live_routes}"

text \<open>\<open>select_route\<close> returns the route of least rank in \<open>ROUTE_ORDER\<close> among those on which
  request, grant, permit, policy, target kind and live adapters all agree, and raises \<open>no_route\<close>
  exactly when there is none.\<close>

lemma select_route_least:
  "select_route p r gs ps ls =
    (if agreed_routes p r gs ps ls = {} then Inl (PermitRejected ''no_route'')
     else Inr (arg_min_on ROUTE_INDEX (agreed_routes p r gs ps ls)))"
proof -
  let ?A = "agreed_routes p r gs ps ls"
  have sel: "select_route p r gs ps ls = (case find (\<lambda>x. x \<in> ?A) ROUTE_ORDER of
      Some route \<Rightarrow> Inr route | None \<Rightarrow> Inl (permit_rejected ''no_route''))"
    by (simp add: select_route_def agreed_routes_def Int_def Let_def conj_assoc)
  have fin: "finite ?A"
    using ROUTE_ORDER_facts(1) by (metis finite_set finite_subset subset_UNIV)
  show ?thesis
  proof (cases "?A = {}")
    case True
    then have "find (\<lambda>x. x \<in> ?A) ROUTE_ORDER = None" by (simp add: find_None_iff)
    with True sel show ?thesis
      by (simp add: permit_rejected_def safe_id_text_def str_def char_classes)
  next
    case False
    have "find (\<lambda>x. x \<in> ?A) ROUTE_ORDER = Some (arg_min_on ROUTE_INDEX ?A)"
      using False fin arg_min_if_finite [of ?A ROUTE_INDEX] by (auto simp add: find_route not_less)
    with False sel show ?thesis by simp
  qed
qed

lemma select_route_Inr_iff:
  "select_route p r gs ps ls = Inr route \<longleftrightarrow> route \<in> agreed_routes p r gs ps ls
     \<and> (\<forall>other \<in> agreed_routes p r gs ps ls. ROUTE_INDEX route \<le> ROUTE_INDEX other)"
proof -
  let ?A = "agreed_routes p r gs ps ls"
  have "select_route p r gs ps ls = Inr route \<longleftrightarrow> find (\<lambda>x. x \<in> ?A) ROUTE_ORDER = Some route"
    by (auto simp add: select_route_def agreed_routes_def Int_def Let_def conj_assoc split: option.splits)
  then show ?thesis by (auto simp add: find_route)
qed

lemma select_route_defined:
  "agreed_routes p r gs ps ls \<noteq> {} \<Longrightarrow> \<exists>route. select_route p r gs ps ls = Inr route"
proof -
  assume "agreed_routes p r gs ps ls \<noteq> {}"
  then have "find (\<lambda>x. x \<in> agreed_routes p r gs ps ls) ROUTE_ORDER \<noteq> None"
    using ROUTE_ORDER_facts(1) by (auto simp add: find_None_iff)
  then show ?thesis
    by (auto simp add: select_route_def agreed_routes_def Int_def Let_def conj_assoc)
qed

section \<open>The default policy\<close>

lemma default_routes_sorted:
  "sort_key (\<lambda>item. by_value Operation (fst item)) default_route_map =
    [(ACTIVATE, [R_CONNECTOR, R_SHORTCUT, R_APPLE_EVENT, R_DOM, R_AX, R_SCREENSHOT, R_COORDINATE]),
     (COORDINATE_ACTIVATE, [R_COORDINATE]),
     (HANDOFF, [R_HANDOFF]),
     (INPUT_TEXT, [R_CONNECTOR, R_SHORTCUT, R_APPLE_EVENT, R_DOM, R_AX]),
     (OBSERVE, [R_CONNECTOR, R_DOM, R_AX, R_SCREENSHOT]),
     (SCROLL, [R_CONNECTOR, R_DOM, R_AX, R_COORDINATE]),
     (SELECT_OPTION, [R_CONNECTOR, R_SHORTCUT, R_APPLE_EVENT, R_DOM, R_AX]),
     (UPLOAD, [R_CONNECTOR, R_DOM, R_AX])]"
  by (simp add: default_route_map_def by_value_def Operation_def str_def)

lemma default_policy_facts:
  "ControlPolicy_post_init default_policy = Inr ()" "route_map default_policy = map_of default_route_map"
proof -
  have id: "safe_id_text (str ''algo.control.default'')"
    by (simp add: safe_id_text_def str_def char_classes)
  have routes: "traverse policy_routes_check (sort_key (\<lambda>item. by_value Operation (fst item)) default_route_map)
      = Inr (replicate 8 ())"
    by (simp add: default_routes_sorted policy_routes_check_def numeral_nat)
  have sorted: "sort_key (by_value Operation) (map fst (sort_key (\<lambda>item. by_value Operation (fst item)) default_route_map))
      = map fst (sort_key (\<lambda>item. by_value Operation (fst item)) default_route_map)"
    unfolding default_routes_sorted by (simp add: by_value_def Operation_def str_def)
  have distinct: "distinct (map fst (sort_key (\<lambda>item. by_value Operation (fst item)) default_route_map))"
    by (simp add: default_routes_sorted)
  have map: "map_of (rev (sort_key (\<lambda>item. by_value Operation (fst item)) default_route_map))
      = map_of default_route_map"
  proof (rule map_of_inject_set [THEN iffD2])
    show "distinct (map fst (rev (sort_key (\<lambda>item. by_value Operation (fst item)) default_route_map)))"
      using distinct by (simp add: rev_map [symmetric])
    show "distinct (map fst default_route_map)" by (simp add: default_route_map_def)
  qed simp
  have versions: "safe_identifier ''policy_id'' (PStr (str ''algo.control.default'')) = Inr (str ''algo.control.default'')"
    "exact_int ''policy_revision'' 1 9007199254740991 (PInt 1) = Inr 1"
    using id by (simp_all add: accepts)
  show "ControlPolicy_post_init default_policy = Inr ()"
    by (simp add: default_policy_def ControlPolicy_post_init_def versions routes sorted distinct
        policy_bounds_def limits Let_def)
  show "route_map default_policy = map_of default_route_map"
    by (simp add: default_policy_def route_map_def map)
qed

text \<open>The default policy passes its own validation and allows, for every operation, exactly the
  routes of its table.\<close>

lemma default_policy_valid:
  "case default_control_policy of
     Inl e \<Rightarrow> False
   | Inr p \<Rightarrow> ControlPolicy_post_init p = Inr () \<and> route_map p = map_of default_route_map
       \<and> po_allowed_target_kinds p = UNIV \<and> po_allowed_data_classes p = UNIV"
  by (simp add: default_control_policy_def default_policy_facts) (simp add: default_policy_def)

section \<open>What verification guarantees\<close>

lemma verify_Inr_iff [accepts]:
  "ControlVerifier_verify ed vf kind v s = Inr u \<longleftrightarrow>
     (\<exists>raw payload. decode_signature s = Inr raw \<and> signature_payload kind v = Inr payload
        \<and> ed_verify ed (vf_public_key vf) raw payload)"
  by (auto simp add: ControlVerifier_verify_def accepts)

text \<open>The value \<open>v\<close> carries a signature of the pinned key for the purpose \<open>kind\<close>.\<close>

definition signed_for :: "ed25519 \<Rightarrow> ControlVerifier \<Rightarrow> string \<Rightarrow> py \<Rightarrow> pystr \<Rightarrow> bool" where
  "signed_for ed vf kind v s \<longleftrightarrow> (\<exists>payload. signature_payload kind v = Inr payload
     \<and> (\<exists>raw. s = encode_signature raw \<and> length raw = 64 \<and> ed_verify ed (vf_public_key vf) raw payload))"

lemma signed_for_iff: "signed_for ed vf kind v s \<longleftrightarrow> ControlVerifier_verify ed vf kind v s = Inr ()"
  using decode_signature_canonical decode_encode_signature by (auto simp add: signed_for_def accepts)

lemma verify_grant_Inr_iff:
  "verify_grant ed g vf p now subject = Inr u \<longleftrightarrow>
     gr_authority_key_id g = vf_key_id vf
     \<and> signed_for ed vf ''control_grant'' (ControlGrant_unsigned_dict g) (gr_signature g)
     \<and> ControlPolicy_digest p = Inr (gr_policy_digest g) \<and> gr_subject_id g = subject
     \<and> set (gr_target_kinds g) \<subseteq> po_allowed_target_kinds p
     \<and> set (gr_data_classes g) \<subseteq> po_allowed_data_classes p
     \<and> (\<forall>operation \<in> set (gr_operations g). route_map p operation \<noteq> None)
     \<and> gr_effects g = effects_of (gr_operations g)
     \<and> set (gr_routes g) \<subseteq> allowed_routes p (gr_operations g)
     \<and> gr_max_input_bytes g \<le> po_max_input_bytes p \<and> gr_max_output_bytes g \<le> po_max_output_bytes p
     \<and> gr_max_transmit_bytes g \<le> po_max_transmit_bytes p
     \<and> gr_issued_at_ms g \<le> now \<and> now < gr_expires_at_ms g"
  unfolding verify_grant_def signed_for_iff
  by (simp add: accepts not_less not_le list_ex_iff del: not_None_eq)

lemma validate_request_Inr_iff:
  "validate_request p r now live = Inr u \<longleftrightarrow>
     0 \<le> now \<and> now \<le> MAX_SAFE_INTEGER
     \<and> tr_kind (rq_target r) \<in> po_allowed_target_kinds p \<and> rq_data_class r \<in> po_allowed_data_classes p
     \<and> route_map p (rq_operation r) \<noteq> None
     \<and> rq_issued_at_ms r \<le> now + po_clock_skew_ms p \<and> now < rq_deadline_ms r
     \<and> rq_deadline_ms r - rq_issued_at_ms r \<le> po_max_deadline_ms p
     \<and> sn_observed_at_ms (rq_snapshot r) \<le> now + po_clock_skew_ms p
     \<and> now - sn_observed_at_ms (rq_snapshot r) \<le> po_max_snapshot_age_ms p
     \<and> (\<exists>input_bytes transmit. argument_bytes r = Inr input_bytes \<and> transmit_bytes r = Inr transmit
         \<and> int input_bytes \<le> po_max_input_bytes p \<and> transmit \<le> po_max_transmit_bytes p)
     \<and> rq_max_output_bytes r \<le> po_max_output_bytes p
     \<and> set (rq_requested_routes r) \<subseteq> set (policy_routes p (rq_operation r)) \<inter> TARGET_ROUTES (tr_kind (rq_target r))
     \<and> (rq_operation r = COORDINATE_ACTIVATE \<longrightarrow> rq_requested_routes r = [R_COORDINATE])
     \<and> (rq_operation r = HANDOFF \<longrightarrow> rq_requested_routes r = [R_HANDOFF])
     \<and> (live = None \<or> live = Some (rq_snapshot r))"
proof -
  have routes: "list_ex (\<lambda>x. x \<in> A \<longrightarrow> x \<notin> B) xs \<longleftrightarrow> \<not> (set xs \<subseteq> A \<and> set xs \<subseteq> B)"
    for A B :: "ControlRoute set" and xs
    by (auto simp add: list_ex_iff)
  show ?thesis
    unfolding validate_request_def
    by (simp add: accepts routes not_less not_le del: not_None_eq) blast
qed

lemma verify_envelope_InrE:
  assumes "verify_envelope_authority ed env vf p now live_routes live_snapshot = Inr route"
  obtains request_digest input_bytes transmit policy_digest where
    "verify_grant ed (en_grant env) vf p now (rq_subject_id (en_request env)) = Inr ()"
    "signed_for ed vf ''control_permit'' (ControlPermit_unsigned_dict (en_permit env)) (pm_signature (en_permit env))"
    "validate_request p (en_request env) now live_snapshot = Inr ()"
    "ControlRequest_digest (en_request env) = Inr request_digest"
    "argument_bytes (en_request env) = Inr input_bytes" "transmit_bytes (en_request env) = Inr transmit"
    "list_all fst (envelope_checks (en_request env) (en_grant env) (en_permit env)
       request_digest (int input_bytes) transmit policy_digest)"
    "pm_issued_at_ms (en_permit env) \<le> now" "now < pm_expires_at_ms (en_permit env)"
    "route \<in> agreed_routes p (en_request env) (gr_routes (en_grant env)) (pm_routes (en_permit env)) live_routes"
  using assms unfolding signed_for_iff
  by (auto simp add: verify_envelope_authority_def Let_def accepts select_route_Inr_iff simp del: verify_Inr_iff)

lemma envelope_checks_digest:
  "list_all fst (envelope_checks r g pm request_digest input_bytes transmit policy_digest) \<Longrightarrow>
   pm_request_digest pm = request_digest"
  by (simp add: envelope_checks_def)

text \<open>C4: When \<open>verify_envelope_authority\<close> returns a route, both signatures verify under the pinned
  key for their own purpose, the permit names exactly this request by digest, and the action is within
  every scope at once: the route is one on which request, grant, permit, policy, target kind and live
  adapters agree; the time lies in the validity of grant, permit and request; the effects of the
  operation are those of the permit and are granted; the bytes are within grant and policy.\<close>

theorem verify_envelope_sound:
  assumes "verify_envelope_authority ed env vf p now live_routes live_snapshot = Inr route"
  shows "signed_for ed vf ''control_grant'' (ControlGrant_unsigned_dict (en_grant env)) (gr_signature (en_grant env))
    \<and> signed_for ed vf ''control_permit'' (ControlPermit_unsigned_dict (en_permit env)) (pm_signature (en_permit env))
    \<and> pm_grant_id (en_permit env) = gr_grant_id (en_grant env)
    \<and> ControlRequest_digest (en_request env) = Inr (pm_request_digest (en_permit env))
    \<and> route \<in> agreed_routes p (en_request env) (gr_routes (en_grant env)) (pm_routes (en_permit env)) live_routes
    \<and> max (gr_issued_at_ms (en_grant env)) (pm_issued_at_ms (en_permit env)) \<le> now
    \<and> now < min (pm_expires_at_ms (en_permit env)) (min (gr_expires_at_ms (en_grant env)) (rq_deadline_ms (en_request env)))
    \<and> pm_effects (en_permit env) = effects (OPERATION_SPECS (rq_operation (en_request env)))
    \<and> set (pm_effects (en_permit env)) \<subseteq> set (gr_effects (en_grant env))
    \<and> rq_operation (en_request env) \<in> set (gr_operations (en_grant env))
    \<and> tr_target_id (rq_target (en_request env)) \<in> set (gr_target_ids (en_grant env))
    \<and> rq_data_class (en_request env) \<in> set (gr_data_classes (en_grant env)) \<inter> po_allowed_data_classes p
    \<and> pm_input_bytes (en_permit env) \<le> min (gr_max_input_bytes (en_grant env)) (po_max_input_bytes p)
    \<and> pm_output_bytes (en_permit env) \<le> min (gr_max_output_bytes (en_grant env)) (po_max_output_bytes p)
    \<and> pm_transmit_bytes (en_permit env) \<le> min (gr_max_transmit_bytes (en_grant env)) (po_max_transmit_bytes p)
    \<and> (live_snapshot = None \<or> live_snapshot = Some (rq_snapshot (en_request env)))"
proof (rule verify_envelope_InrE [OF assms])
  fix request_digest input_bytes transmit policy_digest
  assume grant: "verify_grant ed (en_grant env) vf p now (rq_subject_id (en_request env)) = Inr ()"
    and permit: "signed_for ed vf ''control_permit'' (ControlPermit_unsigned_dict (en_permit env)) (pm_signature (en_permit env))"
    and request: "validate_request p (en_request env) now live_snapshot = Inr ()"
    and read: "ControlRequest_digest (en_request env) = Inr request_digest"
      "argument_bytes (en_request env) = Inr input_bytes" "transmit_bytes (en_request env) = Inr transmit"
    and checks: "list_all fst (envelope_checks (en_request env) (en_grant env) (en_permit env)
      request_digest (int input_bytes) transmit policy_digest)"
    and times: "pm_issued_at_ms (en_permit env) \<le> now" "now < pm_expires_at_ms (en_permit env)"
    and route: "route \<in> agreed_routes p (en_request env) (gr_routes (en_grant env)) (pm_routes (en_permit env)) live_routes"
  have input: "int input_bytes \<le> po_max_input_bytes p" and out: "transmit \<le> po_max_transmit_bytes p"
    using request read by (auto simp add: validate_request_Inr_iff)
  show ?thesis
    using grant permit request read checks times route input out
    unfolding verify_grant_Inr_iff validate_request_Inr_iff
    by (simp add: envelope_checks_def ControlRequest_effects_def list_all_iff subset_iff)
qed

section \<open>What was issued verifies\<close>

lemma permit_to_dict_iff:
  "ControlPermit_from_dict (ControlPermit_to_dict x) = Inr y \<longleftrightarrow> ControlPermit_ok x \<and> y = x"
proof -
  have wf: "wf_py (ControlPermit_to_dict x)"
    by (simp add: ControlPermit_to_dict_def ControlPermit_unsigned_def list_all_iff)
  have "y = x" if "psort (ControlPermit_to_dict x) = psort (ControlPermit_to_dict y)"
  proof -
    have "ControlPermit_unsigned y @ [(''signature'', PStr (pm_signature y))]
        = ControlPermit_unsigned x @ [(''signature'', PStr (pm_signature x))]"
      by (rule items_psort_inject) (use wf that in \<open>simp_all add: ControlPermit_to_dict_def ControlPermit_unsigned_def
          del: psort.simps\<close>)
    then show ?thesis
      by (cases x; cases y) (simp add: ControlPermit_unsigned_def)
  qed
  then show ?thesis using permit.from_dict_iff [OF wf] by auto
qed

lemma grant_to_dict_iff:
  "ControlGrant_from_dict (ControlGrant_to_dict x) = Inr y \<longleftrightarrow> ControlGrant_ok x \<and> y = x"
proof -
  have wf: "wf_py (ControlGrant_to_dict x)"
    by (simp add: ControlGrant_to_dict_def ControlGrant_unsigned_def list_all_iff)
  have "y = x" if "psort (ControlGrant_to_dict x) = psort (ControlGrant_to_dict y)"
  proof -
    have "ControlGrant_unsigned y @ [(''signature'', PStr (gr_signature y))]
        = ControlGrant_unsigned x @ [(''signature'', PStr (gr_signature x))]"
      by (rule items_psort_inject) (use wf that in \<open>simp_all add: ControlGrant_to_dict_def ControlGrant_unsigned_def
          del: psort.simps\<close>)
    then show ?thesis
      by (cases x; cases y) (simp add: ControlGrant_unsigned_def)
  qed
  then show ?thesis using grant.from_dict_iff [OF wf] by auto
qed

text \<open>The last step of the two issuing functions: a candidate with a placeholder signature is
  validated, signed, and validated again.\<close>

lemma permit_signed:
  assumes "ed25519_ok ed" "length private = 32" "signer = ControlSigner_init ed private"
    and candidate: "ControlPermit_from_dict (PDict (items (ControlPermit_unsigned c @ [unsigned_placeholder]))) = Inr candidate"
    and sign: "ControlSigner_sign ed signer ''control_permit'' (ControlPermit_unsigned_dict candidate) = Inr s"
    and signed: "ControlPermit_from_dict (PDict (items (ControlPermit_unsigned candidate @ [(''signature'', PStr s)]))) = Inr pm"
  shows "pm = c\<lparr>pm_signature := s\<rparr>" "ControlPermit_ok pm"
    "ControlVerifier_verify ed (sg_verifier signer) ''control_permit'' (ControlPermit_unsigned_dict pm) (pm_signature pm) = Inr ()"
proof -
  have "ControlPermit_from_dict (ControlPermit_to_dict (c\<lparr>pm_signature := replicate 86 65\<rparr>)) = Inr candidate"
    using candidate by (simp add: ControlPermit_to_dict_def unsigned_placeholder_def ControlPermit_unsigned_def)
  then have c: "candidate = c\<lparr>pm_signature := replicate 86 65\<rparr>"
    by (simp add: permit_to_dict_iff)
  have "ControlPermit_from_dict (ControlPermit_to_dict (c\<lparr>pm_signature := s\<rparr>)) = Inr pm"
    using signed by (simp add: ControlPermit_to_dict_def c ControlPermit_unsigned_def)
  then show pm: "pm = c\<lparr>pm_signature := s\<rparr>" "ControlPermit_ok pm"
    by (simp_all add: permit_to_dict_iff)
  have "ControlPermit_unsigned_dict pm = ControlPermit_unsigned_dict candidate"
    by (simp add: pm(1) c ControlPermit_unsigned_dict_def ControlPermit_unsigned_def)
  then show "ControlVerifier_verify ed (sg_verifier signer) ''control_permit'' (ControlPermit_unsigned_dict pm) (pm_signature pm) = Inr ()"
    using verify_sign(1) [OF assms(1-3) sign] pm(1) by simp
qed

lemma grant_signed:
  assumes "ed25519_ok ed" "length private = 32" "signer = ControlSigner_init ed private"
    and candidate: "ControlGrant_from_dict (PDict (items (ControlGrant_unsigned c @ [unsigned_placeholder]))) = Inr candidate"
    and sign: "ControlSigner_sign ed signer ''control_grant'' (ControlGrant_unsigned_dict candidate) = Inr s"
    and signed: "ControlGrant_from_dict (PDict (items (ControlGrant_unsigned candidate @ [(''signature'', PStr s)]))) = Inr g"
  shows "g = c\<lparr>gr_signature := s\<rparr>" "ControlGrant_ok g"
    "ControlVerifier_verify ed (sg_verifier signer) ''control_grant'' (ControlGrant_unsigned_dict g) (gr_signature g) = Inr ()"
proof -
  have "ControlGrant_from_dict (ControlGrant_to_dict (c\<lparr>gr_signature := replicate 86 65\<rparr>)) = Inr candidate"
    using candidate by (simp add: ControlGrant_to_dict_def unsigned_placeholder_def ControlGrant_unsigned_def)
  then have c: "candidate = c\<lparr>gr_signature := replicate 86 65\<rparr>"
    by (simp add: grant_to_dict_iff)
  have "ControlGrant_from_dict (ControlGrant_to_dict (c\<lparr>gr_signature := s\<rparr>)) = Inr g"
    using signed by (simp add: ControlGrant_to_dict_def c ControlGrant_unsigned_def)
  then show g: "g = c\<lparr>gr_signature := s\<rparr>" "ControlGrant_ok g"
    by (simp_all add: grant_to_dict_iff)
  have "ControlGrant_unsigned_dict g = ControlGrant_unsigned_dict candidate"
    by (simp add: g(1) c ControlGrant_unsigned_dict_def ControlGrant_unsigned_def)
  then show "ControlVerifier_verify ed (sg_verifier signer) ''control_grant'' (ControlGrant_unsigned_dict g) (gr_signature g) = Inr ()"
    using verify_sign(1) [OF assms(1-3) sign] g(1) by simp
qed

text \<open>The permit \<open>issue_permit\<close> builds from a request, before it is signed.\<close>

definition permit_for ::
    "ControlSigner \<Rightarrow> ControlGrant \<Rightarrow> ControlRequest \<Rightarrow> pystr \<Rightarrow> pystr \<Rightarrow> int \<Rightarrow> int \<Rightarrow> pystr \<Rightarrow> int \<Rightarrow> int \<Rightarrow> ControlPermit" where
  "permit_for signer g r permit_id request_digest input_bytes transmit policy_digest issued expires =
    \<lparr>pm_permit_id = permit_id, pm_grant_id = gr_grant_id g, pm_subject_id = rq_subject_id r,
     pm_request_id = rq_request_id r, pm_request_digest = request_digest,
     pm_target_kind = tr_kind (rq_target r), pm_target_id = tr_target_id (rq_target r),
     pm_target_epoch = tr_epoch (rq_target r), pm_target_revision = tr_revision (rq_target r),
     pm_fencing_token = tr_fencing_token (rq_target r), pm_snapshot_id = sn_snapshot_id (rq_snapshot r),
     pm_sequence = rq_sequence r, pm_operation = rq_operation r, pm_effects = ControlRequest_effects r,
     pm_data_class = rq_data_class r,
     pm_routes = filter (\<lambda>route. route \<in> set (gr_routes g)) (rq_requested_routes r),
     pm_input_bytes = input_bytes, pm_output_bytes = rq_max_output_bytes r, pm_transmit_bytes = transmit,
     pm_issued_at_ms = issued, pm_expires_at_ms = expires, pm_maximum_action_count = 1,
     pm_policy_digest = policy_digest, pm_authority_key_id = sg_key_id signer, pm_signature = [],
     pm_schema_version = CONTROL_SCHEMA_VERSION\<rparr>"

lemma issue_permit_InrE:
  assumes "issue_permit ed signer vf p g r permit_id issued expires = Inr pm"
  obtains request_digest input_bytes transmit policy_digest candidate s where
    "verify_grant ed g vf p issued (rq_subject_id r) = Inr ()"
    "validate_request p r issued None = Inr ()" "sg_key_id signer = vf_key_id vf"
    "ControlRequest_digest r = Inr request_digest" "argument_bytes r = Inr input_bytes"
    "transmit_bytes r = Inr transmit" "ControlPolicy_digest p = Inr policy_digest"
    "tr_target_id (rq_target r) \<in> set (gr_target_ids g)" "tr_kind (rq_target r) \<in> set (gr_target_kinds g)"
    "rq_operation r \<in> set (gr_operations g)" "set (ControlRequest_effects r) \<subseteq> set (gr_effects g)"
    "rq_data_class r \<in> set (gr_data_classes g)"
    "int input_bytes \<le> gr_max_input_bytes g" "rq_max_output_bytes r \<le> gr_max_output_bytes g"
    "transmit \<le> gr_max_transmit_bytes g" "issued < expires"
    "expires \<le> min (gr_expires_at_ms g) (rq_deadline_ms r)" "canonical_uuid_text permit_id"
    "filter (\<lambda>route. route \<in> set (gr_routes g)) (rq_requested_routes r) \<noteq> []"
    "ControlPermit_from_dict (PDict (items (ControlPermit_unsigned (permit_for signer g r permit_id
        request_digest (int input_bytes) transmit policy_digest issued expires) @ [unsigned_placeholder]))) = Inr candidate"
    "ControlSigner_sign ed signer ''control_permit'' (ControlPermit_unsigned_dict candidate) = Inr s"
    "ControlPermit_from_dict (PDict (items (ControlPermit_unsigned candidate @ [(''signature'', PStr s)]))) = Inr pm"
proof -
  have list: "\<not> list_ex (\<lambda>x. x \<notin> A) xs \<longleftrightarrow> set xs \<subseteq> A" for A :: "Effect set" and xs
    by (auto simp add: list_ex_iff)
  from assms show thesis
    unfolding issue_permit_def Let_def rbind_Inr_iff
    by (elim exE conjE)
      (rule that, (assumption | simp add: accepts list permit_for_def ControlPermit_unsigned_def not_less not_le del: items_simps)+)
qed

lemma issue_permit_verifies:
  assumes "ed25519_ok ed" "length private = 32" "signer = ControlSigner_init ed private"
    and "issue_permit ed signer (sg_verifier signer) p g r permit_id issued expires = Inr pm"
    and "issued \<le> now" "now < expires" "now - sn_observed_at_ms (rq_snapshot r) \<le> po_max_snapshot_age_ms p"
    and "live_snapshot = None \<or> live_snapshot = Some (rq_snapshot r)"
    and "set (pm_routes pm) \<inter> set live_routes \<noteq> {}"
  shows "\<exists>route. verify_envelope_authority ed \<lparr>en_request = r, en_grant = g, en_permit = pm,
      en_protocol_version = CONTROL_PROTOCOL_VERSION, en_message_type = str CONTROL_MESSAGE_TYPE\<rparr>
    (sg_verifier signer) p now live_routes live_snapshot = Inr route"
proof -
  obtain request_digest input_bytes transmit policy_digest candidate s where
    grant: "verify_grant ed g (sg_verifier signer) p issued (rq_subject_id r) = Inr ()"
    and request: "validate_request p r issued None = Inr ()"
    and key: "sg_key_id signer = vf_key_id (sg_verifier signer)"
    and read: "ControlRequest_digest r = Inr request_digest" "argument_bytes r = Inr input_bytes"
      "transmit_bytes r = Inr transmit" "ControlPolicy_digest p = Inr policy_digest"
    and scope: "tr_target_id (rq_target r) \<in> set (gr_target_ids g)" "tr_kind (rq_target r) \<in> set (gr_target_kinds g)"
      "rq_operation r \<in> set (gr_operations g)" "set (ControlRequest_effects r) \<subseteq> set (gr_effects g)"
      "rq_data_class r \<in> set (gr_data_classes g)"
      "int input_bytes \<le> gr_max_input_bytes g" "rq_max_output_bytes r \<le> gr_max_output_bytes g"
      "transmit \<le> gr_max_transmit_bytes g" "issued < expires"
      "expires \<le> min (gr_expires_at_ms g) (rq_deadline_ms r)"
    and steps: "ControlPermit_from_dict (PDict (items (ControlPermit_unsigned (permit_for signer g r permit_id
        request_digest (int input_bytes) transmit policy_digest issued expires) @ [unsigned_placeholder]))) = Inr candidate"
      "ControlSigner_sign ed signer ''control_permit'' (ControlPermit_unsigned_dict candidate) = Inr s"
      "ControlPermit_from_dict (PDict (items (ControlPermit_unsigned candidate @ [(''signature'', PStr s)]))) = Inr pm"
    using issue_permit_InrE [OF assms(4)] by metis
  note pm = permit_signed [OF assms(1-3) steps]
  have times: "0 \<le> now" "now \<le> MAX_SAFE_INTEGER"
    using request assms(5,6) pm(1,2) by (auto simp add: validate_request_Inr_iff ControlPermit_ok_def
        window_ok_def permit_for_def)
  have "verify_grant ed g (sg_verifier signer) p now (rq_subject_id r) = Inr ()"
    using grant scope assms(5,6) by (simp add: verify_grant_Inr_iff)
  moreover have "validate_request p r now live_snapshot = Inr ()"
    using request scope assms(5-8) times read by (auto simp add: validate_request_Inr_iff)
  moreover have "list_all fst (envelope_checks r g pm request_digest (int input_bytes) transmit policy_digest)"
    using scope pm(1) grant
    by (auto simp add: envelope_checks_def permit_for_def verify_grant_Inr_iff list_all_iff)
  moreover have "agreed_routes p r (gr_routes g) (pm_routes pm) live_routes \<noteq> {}"
    using assms(9) request by (auto simp add: pm(1) permit_for_def agreed_routes_def validate_request_Inr_iff)
  then obtain route where "select_route p r (gr_routes g) (pm_routes pm) live_routes = Inr route"
    using select_route_defined by blast
  moreover have "pm_issued_at_ms pm \<le> now" "now < pm_expires_at_ms pm" "pm_authority_key_id pm = vf_key_id (sg_verifier signer)"
    using assms(5,6) key by (simp_all add: pm(1) permit_for_def)
  ultimately have "verify_envelope_authority ed \<lparr>en_request = r, en_grant = g, en_permit = pm,
      en_protocol_version = CONTROL_PROTOCOL_VERSION, en_message_type = str CONTROL_MESSAGE_TYPE\<rparr>
    (sg_verifier signer) p now live_routes live_snapshot = Inr route"
    using read pm(3) by (simp add: verify_envelope_authority_def Let_def accepts del: verify_Inr_iff)
  then show ?thesis by blast
qed

text \<open>C14: A permit that \<open>issue_permit\<close> returned verifies in its envelope at every later instant before
  it expires, as long as the snapshot is not stale, the live snapshot (when one is given) is the one
  of the request, and one of the routes of the permit is live.\<close>

theorem issued_permit_verifies:
  assumes "ed25519_ok ed" "length private = 32" "signer = ControlSigner_init ed private"
    and "issue_permit ed signer (sg_verifier signer) p g r permit_id issued expires = Inr pm"
    and "issued \<le> now" "now < expires" "now - sn_observed_at_ms (rq_snapshot r) \<le> po_max_snapshot_age_ms p"
    and "live_snapshot = None \<or> live_snapshot = Some (rq_snapshot r)"
    and "set (pm_routes pm) \<inter> set live_routes \<noteq> {}"
  shows "\<exists>route. verify_envelope_authority ed \<lparr>en_request = r, en_grant = g, en_permit = pm,
      en_protocol_version = CONTROL_PROTOCOL_VERSION, en_message_type = str CONTROL_MESSAGE_TYPE\<rparr>
    (sg_verifier signer) p now live_routes live_snapshot = Inr route"
  using assms by (rule issue_permit_verifies)

text \<open>C15: One permit stands for one request. Two well-formed requests that verify under the same permit
  are equal, unless their canonical bytes are a SHA-256 collision.\<close>

theorem permit_binds_request:
  assumes "verify_envelope_authority ed env vf p now live snap = Inr route"
    and "verify_envelope_authority ed env' vf p' now' live' snap' = Inr route'"
    and "en_permit env' = en_permit env"
    and "ControlRequest_ok (en_request env)" "ControlRequest_ok (en_request env')"
  shows "en_request env = en_request env' \<or>
    (\<exists>b b'. b \<noteq> b' \<and> sha256 b = sha256 b' \<and> canonical_json_bytes (ControlRequest_to_dict (en_request env)) = Inr b
       \<and> canonical_json_bytes (ControlRequest_to_dict (en_request env')) = Inr b')"
proof -
  have digest: "ControlRequest_digest (en_request env) = Inr (pm_request_digest (en_permit env))"
    by (rule verify_envelope_InrE [OF assms(1)]) (simp add: envelope_checks_digest)
  have digest': "ControlRequest_digest (en_request env') = Inr (pm_request_digest (en_permit env))"
    by (rule verify_envelope_InrE [OF assms(2)]) (use assms(3) in \<open>simp add: envelope_checks_digest\<close>)
  obtain b where b: "canonical_json_bytes (ControlRequest_to_dict (en_request env)) = Inr b"
    "pm_request_digest (en_permit env) = str ''sha256:'' @ hexdigest (sha256 b)"
    using digest by (auto simp add: ControlRequest_digest_def content_digest_def)
  obtain b' where b': "canonical_json_bytes (ControlRequest_to_dict (en_request env')) = Inr b'"
    "pm_request_digest (en_permit env) = str ''sha256:'' @ hexdigest (sha256 b')"
    using digest' by (auto simp add: ControlRequest_digest_def content_digest_def)
  have "hexdigest (sha256 b) = hexdigest (sha256 b')" using b(2) b'(2) by simp
  then have same: "sha256 b = sha256 b'" by (simp add: hexdigest_inject)
  show ?thesis
  proof (cases "b = b'")
    case True
    then show ?thesis using b(1) b'(1) assms(4,5) request.bytes_inject by blast
  next
    case False
    then show ?thesis using same b(1) b'(1) by blast
  qed
qed

lemma issue_grant_InrE:
  assumes "issue_grant ed signer p grant_id subject_id target_ids target_kinds operations classes routes
     issued expires action_count input_bytes output_bytes transmit = Inr g"
  obtains c candidate s where
    "ControlGrant_from_dict (PDict (items (ControlGrant_unsigned c @ [unsigned_placeholder]))) = Inr candidate"
    "ControlSigner_sign ed signer ''control_grant'' (ControlGrant_unsigned_dict candidate) = Inr s"
    "ControlGrant_from_dict (PDict (items (ControlGrant_unsigned candidate @ [(''signature'', PStr s)]))) = Inr g"
    "ControlPolicy_digest p = Inr (gr_policy_digest c)"
    "gr_authority_key_id c = sg_key_id signer" "gr_subject_id c = subject_id"
    "set (gr_target_kinds c) = set target_kinds" "set (gr_data_classes c) = set classes"
    "gr_operations c = sort_key (by_value Operation) (remdups operations)"
    "gr_effects c = effects_of (gr_operations c)" "set (gr_routes c) = set routes"
    "gr_issued_at_ms c = issued" "gr_expires_at_ms c = expires"
    "gr_max_input_bytes c = input_bytes" "gr_max_output_bytes c = output_bytes"
    "gr_max_transmit_bytes c = transmit" "set (gr_target_ids c) = set target_ids"
    "gr_maximum_action_count c = action_count" "gr_grant_id c = grant_id"
    "set target_kinds \<subseteq> po_allowed_target_kinds p" "set classes \<subseteq> po_allowed_data_classes p"
    "\<forall>operation \<in> set operations. route_map p operation \<noteq> None"
    "set routes \<subseteq> allowed_routes p (gr_operations c)"
proof -
  let ?ops = "sort_key (by_value Operation) (remdups operations)"
  have ids_same: "ids = target_ids" if "traverse (\<lambda>t. opaque_id ''target_id'' (PStr t)) target_ids = Inr ids" for ids
    using that by (auto simp add: traverse_Inr_iff accepts list_all2_conv_all_nth intro!: nth_equalityI)
  obtain policy_digest candidate s where
    steps: "ControlSigner_sign ed signer ''control_grant'' (ControlGrant_unsigned_dict candidate) = Inr s"
      "ControlGrant_from_dict (PDict (items (ControlGrant_unsigned candidate @ [(''signature'', PStr s)]))) = Inr g"
    and digest: "ControlPolicy_digest p = Inr policy_digest"
    and scope: "set target_kinds \<subseteq> po_allowed_target_kinds p" "set classes \<subseteq> po_allowed_data_classes p"
      "list_all (\<lambda>operation. route_map p operation \<noteq> None) ?ops" "set routes \<subseteq> allowed_routes p ?ops"
    and candidate: "ControlGrant_from_dict (PDict (items
        [(''schema_version'', PInt CONTROL_SCHEMA_VERSION),
         (''grant_id'', PStr grant_id),
         (''subject_id'', PStr subject_id),
         (''target_ids'', PList (map PStr (sort (remdups target_ids)))),
         (''target_kinds'', sorted_values TargetKind (set target_kinds)),
         (''operations'', PList (map (enum_py Operation) ?ops)),
         (''effects'', PList (map (enum_py Effect) (effects_of ?ops))),
         (''data_classes'', sorted_values ControlDataClass (set classes)),
         (''routes'', PList (map (enum_py ControlRoute) (filter (\<lambda>route. route \<in> set routes) ROUTE_ORDER))),
         (''issued_at_ms'', PInt issued),
         (''expires_at_ms'', PInt expires),
         (''maximum_action_count'', PInt action_count),
         (''max_input_bytes'', PInt input_bytes),
         (''max_output_bytes'', PInt output_bytes),
         (''max_transmit_bytes'', PInt transmit),
         (''policy_digest'', PStr policy_digest),
         (''authority_key_id'', PStr (sg_key_id signer)),
         unsigned_placeholder])) = Inr candidate"
    using assms unfolding issue_grant_def Let_def
    by (auto simp add: accepts simp del: items_simps not_None_eq dest!: ids_same)
  obtain kinds where kinds: "sorted_values TargetKind (set target_kinds) = PList (map (enum_py TargetKind) kinds)"
      "set kinds = set target_kinds"
    using tk.sorted_values_enum by blast
  obtain cls where cls: "sorted_values ControlDataClass (set classes) = PList (map (enum_py ControlDataClass) cls)"
      "set cls = set classes"
    using dcl.sorted_values_enum by blast
  let ?c = "\<lparr>gr_grant_id = grant_id, gr_subject_id = subject_id, gr_target_ids = sort (remdups target_ids),
    gr_target_kinds = kinds, gr_operations = ?ops, gr_effects = effects_of ?ops, gr_data_classes = cls,
    gr_routes = filter (\<lambda>route. route \<in> set routes) ROUTE_ORDER, gr_issued_at_ms = issued,
    gr_expires_at_ms = expires, gr_maximum_action_count = action_count, gr_max_input_bytes = input_bytes,
    gr_max_output_bytes = output_bytes, gr_max_transmit_bytes = transmit, gr_policy_digest = policy_digest,
    gr_authority_key_id = sg_key_id signer, gr_signature = [], gr_schema_version = CONTROL_SCHEMA_VERSION\<rparr>"
  show thesis
  proof (rule that [of ?c])
    show "ControlGrant_from_dict (PDict (items (ControlGrant_unsigned ?c @ [unsigned_placeholder]))) = Inr candidate"
      using candidate by (simp add: ControlGrant_unsigned_def kinds cls del: items_simps)
    show "set (gr_routes ?c) = set routes"
      using ROUTE_ORDER_facts(1) by auto
  qed (use steps digest scope kinds cls in \<open>auto simp add: list_all_iff\<close>)
qed

text \<open>The grant that is issued: well formed, signed, and with exactly the scope that was asked for.\<close>

lemma issue_grant_scope:
  assumes "ed25519_ok ed" "length private = 32" "signer = ControlSigner_init ed private"
    and "issue_grant ed signer p grant_id subject_id target_ids target_kinds operations classes routes
      issued expires action_count input_bytes output_bytes transmit = Inr g"
  shows "ControlGrant_ok g \<and> gr_grant_id g = grant_id \<and> gr_subject_id g = subject_id
    \<and> set (gr_target_ids g) = set target_ids \<and> set (gr_target_kinds g) = set target_kinds
    \<and> set (gr_operations g) = set operations \<and> set (gr_data_classes g) = set classes
    \<and> set (gr_routes g) = set routes \<and> gr_effects g = effects_of (gr_operations g)
    \<and> gr_issued_at_ms g = issued \<and> gr_expires_at_ms g = expires \<and> gr_maximum_action_count g = action_count
    \<and> gr_max_input_bytes g = input_bytes \<and> gr_max_output_bytes g = output_bytes
    \<and> gr_max_transmit_bytes g = transmit"
proof (rule issue_grant_InrE [OF assms(4)], goal_cases)
  case (1 c candidate s)
  note g = grant_signed [OF assms(1-3) 1(1-3)]
  show ?case using 1(4-) g(2) by (simp add: g(1))
qed

lemma issue_grant_verifies:
  assumes "ed25519_ok ed" "length private = 32" "signer = ControlSigner_init ed private"
    and "issue_grant ed signer p grant_id subject_id target_ids target_kinds operations classes routes
      issued expires action_count input_bytes output_bytes transmit = Inr g"
    and "issued \<le> now" "now < expires"
  shows "verify_grant ed g (sg_verifier signer) p now subject_id = Inr () \<longleftrightarrow>
    input_bytes \<le> po_max_input_bytes p \<and> output_bytes \<le> po_max_output_bytes p \<and> transmit \<le> po_max_transmit_bytes p"
proof (rule issue_grant_InrE [OF assms(4)], goal_cases)
  case (1 c candidate s)
  note g = grant_signed [OF assms(1-3) 1(1-3)]
  have key: "sg_key_id signer = vf_key_id (sg_verifier signer)"
    by (simp add: assms(3) ControlSigner_init_def Let_def)
  have "signed_for ed (sg_verifier signer) ''control_grant'' (ControlGrant_unsigned_dict g) (gr_signature g)"
    using g(3) by (simp only: signed_for_iff)
  then show ?case
    using 1(4-) key assms(5,6) by (simp add: verify_grant_Inr_iff g(1) del: not_None_eq)
qed

text \<open>C27: A grant that \<open>issue_grant\<close> returned verifies for its subject at every instant of its validity
  exactly when its three byte limits are within those of the policy: \<open>issue_grant\<close> checks the scope of a
  grant against the policy, but not its byte limits.\<close>

theorem issued_grant_verifies_iff:
  assumes "ed25519_ok ed" "length private = 32" "signer = ControlSigner_init ed private"
    and "issue_grant ed signer p grant_id subject_id target_ids target_kinds operations classes routes
      issued expires action_count input_bytes output_bytes transmit = Inr g"
    and "issued \<le> now" "now < expires"
  shows "verify_grant ed g (sg_verifier signer) p now subject_id = Inr () \<longleftrightarrow>
    input_bytes \<le> po_max_input_bytes p \<and> output_bytes \<le> po_max_output_bytes p \<and> transmit \<le> po_max_transmit_bytes p"
  using assms by (rule issue_grant_verifies)

section \<open>Preparations\<close>

lemma issue_preparation_InrE:
  assumes "issue_control_preparation ed signer p preparation_id request_id subject_id operation data_class
     route selector arguments issued expires = Inr env"
  obtains c s where "ControlPreparation_ok c"
    "ControlSigner_sign ed signer ''control_prepare'' (ControlPreparation_unsigned_dict c) = Inr s"
    "ControlPreparation_from_dict (ControlPreparation_to_dict (c\<lparr>pr_signature := s\<rparr>)) = Inr (pe_preparation env)"
    "ControlPolicy_digest p = Inr (pr_policy_digest c)" "pr_authority_key_id c = sg_key_id signer"
    "pr_operation c = operation" "pr_data_class c = data_class" "pr_route c = route"
    "pr_issued_at_ms c = issued" "pr_expires_at_ms c = expires" "pr_request_id c = request_id"
    "route \<in> set (policy_routes p operation)" "data_class \<in> data_classes (OPERATION_SPECS operation)"
proof -
  obtain policy_digest c s where digest: "ControlPolicy_digest p = Inr policy_digest"
    and scope: "route \<in> set (policy_routes p operation)" "data_class \<in> data_classes (OPERATION_SPECS operation)"
    and sign: "ControlSigner_sign ed signer ''control_prepare'' (ControlPreparation_unsigned_dict c) = Inr s"
    and signed: "ControlPreparation_from_dict (PDict (items (ControlPreparation_unsigned c @ [(''signature'', PStr s)])))
        = Inr (pe_preparation env)"
    and candidate: "ControlPreparation_from_dict (PDict (items
      [(''schema_version'', PInt CONTROL_SCHEMA_VERSION),
       (''preparation_id'', PStr preparation_id),
       (''request_id'', PStr request_id),
       (''subject_id'', PStr subject_id),
       (''operation'', enum_py Operation operation),
       (''data_class'', enum_py ControlDataClass data_class),
       (''route'', enum_py ControlRoute route),
       (''selector'', PStr selector),
       (''arguments'', PDict arguments),
       (''issued_at_ms'', PInt issued),
       (''expires_at_ms'', PInt expires),
       (''policy_digest'', PStr policy_digest),
       (''authority_key_id'', PStr (sg_key_id signer)),
       unsigned_placeholder])) = Inr c"
    using assms unfolding issue_control_preparation_def Let_def
    by (auto simp add: accepts simp del: items_simps)
  have fields: "pr_policy_digest c = policy_digest" "pr_authority_key_id c = sg_key_id signer"
    "pr_operation c = operation" "pr_data_class c = data_class" "pr_route c = route"
    "pr_issued_at_ms c = issued" "pr_expires_at_ms c = expires" "pr_request_id c = request_id"
    and ok: "ControlPreparation_ok c"
    using candidate
    by (auto simp add: ControlPreparation_from_dict_def unsigned_placeholder_def accepts
        ControlPreparation_ok_def window_ok_def preparation_arguments_ok_iff dest!: preparation_sound)
  show thesis
    by (rule that [OF ok sign _ _ _ _ _ _ _ _ _ scope])
      (use fields digest signed in \<open>simp_all add: ControlPreparation_to_dict_def ControlPreparation_unsigned_def\<close>)
qed

lemma issue_preparation_verifies:
  assumes "ed25519_ok ed" "length private = 32" "signer = ControlSigner_init ed private"
    and "issue_control_preparation ed signer p preparation_id request_id subject_id operation data_class
      route selector arguments issued expires = Inr env"
    and "issued \<le> now" "now < expires"
  shows "verify_control_preparation ed env (sg_verifier signer) p now = Inr prep \<longleftrightarrow>
    prep = pe_preparation env \<and> data_class \<in> po_allowed_data_classes p"
proof (rule issue_preparation_InrE [OF assms(4)])
  fix c s
  assume ok: "ControlPreparation_ok c"
    and sign: "ControlSigner_sign ed signer ''control_prepare'' (ControlPreparation_unsigned_dict c) = Inr s"
    and signed: "ControlPreparation_from_dict (ControlPreparation_to_dict (c\<lparr>pr_signature := s\<rparr>)) = Inr (pe_preparation env)"
    and c: "ControlPolicy_digest p = Inr (pr_policy_digest c)" "pr_authority_key_id c = sg_key_id signer"
      "pr_operation c = operation" "pr_data_class c = data_class" "pr_route c = route"
      "pr_issued_at_ms c = issued" "pr_expires_at_ms c = expires"
      "route \<in> set (policy_routes p operation)"
  note verify = verify_sign [OF assms(1-3) sign]
  have ok': "ControlPreparation_ok (c\<lparr>pr_signature := s\<rparr>)"
    using ok verify(2) by (simp add: ControlPreparation_ok_def)
  then have prep: "pe_preparation env = c\<lparr>pr_signature := s\<rparr>"
    using preparation.from_to [OF ok'] signed by simp
  have "ControlPreparation_unsigned_dict (c\<lparr>pr_signature := s\<rparr>) = ControlPreparation_unsigned_dict c"
    by (simp add: ControlPreparation_unsigned_dict_def ControlPreparation_unsigned_def)
  moreover have "sg_key_id signer = vf_key_id (sg_verifier signer)"
    by (simp add: assms(3) ControlSigner_init_def Let_def)
  ultimately show ?thesis
    using c assms(5,6) verify(1) preparation.from_to [OF ok'] prep
    by (auto simp add: verify_control_preparation_def accepts not_less not_le simp del: verify_Inr_iff)
qed

text \<open>C30: A preparation that \<open>issue_control_preparation\<close> returned verifies at every instant of its
  validity, to exactly the preparation that was issued, if and only if the policy allows its data
  class: the issuing function checks the data class against the operation, not against the policy.\<close>

theorem issued_preparation_verifies_iff:
  assumes "ed25519_ok ed" "length private = 32" "signer = ControlSigner_init ed private"
    and "issue_control_preparation ed signer p preparation_id request_id subject_id operation data_class
      route selector arguments issued expires = Inr env"
    and "issued \<le> now" "now < expires"
  shows "verify_control_preparation ed env (sg_verifier signer) p now = Inr prep \<longleftrightarrow>
    prep = pe_preparation env \<and> data_class \<in> po_allowed_data_classes p"
  using assms by (rule issue_preparation_verifies)

text \<open>C29: A preparation that verifies is well formed, is signed by the pinned key as a preparation, is
  within its validity of at most a minute, and asks for a route the policy allows; and the bytes that
  were signed are not those of any grant or permit, so it cannot stand for one.\<close>

theorem verify_preparation_sound:
  assumes "verify_control_preparation ed env vf p now = Inr prep"
  shows "ControlPreparation_ok prep
    \<and> (\<exists>payload raw. signature_payload ''control_prepare'' (ControlPreparation_unsigned_dict prep) = Inr payload
        \<and> pr_signature prep = encode_signature raw \<and> ed_verify ed (vf_public_key vf) raw payload
        \<and> signature_payload ''control_grant'' (ControlGrant_unsigned_dict g) \<noteq> Inr payload
        \<and> signature_payload ''control_permit'' (ControlPermit_unsigned_dict pm) \<noteq> Inr payload)
    \<and> pr_issued_at_ms prep \<le> now \<and> now < pr_expires_at_ms prep
    \<and> pr_expires_at_ms prep - pr_issued_at_ms prep \<le> MAX_PREPARATION_LIFETIME_MS
    \<and> pr_route prep \<in> set (policy_routes p (pr_operation prep))
    \<and> pr_data_class prep \<in> po_allowed_data_classes p"
proof -
  have from_dict: "ControlPreparation_from_dict (ControlPreparation_to_dict (pe_preparation env)) = Inr prep"
    and verify: "ControlVerifier_verify ed vf ''control_prepare'' (ControlPreparation_unsigned_dict prep) (pr_signature prep) = Inr ()"
    and times: "pr_issued_at_ms prep \<le> now" "now < pr_expires_at_ms prep"
    and scope: "pr_route prep \<in> set (policy_routes p (pr_operation prep))" "pr_data_class prep \<in> po_allowed_data_classes p"
    using assms by (auto simp add: verify_control_preparation_def accepts simp del: verify_Inr_iff)
  have ok: "ControlPreparation_ok prep"
    using from_dict by (auto simp add: ControlPreparation_from_dict_def ControlPreparation_to_dict_def
        ControlPreparation_unsigned_def accepts ControlPreparation_ok_def window_ok_def
        preparation_arguments_ok_iff dest!: preparation_sound)
  obtain raw payload where signed: "pr_signature prep = encode_signature raw"
    "signature_payload ''control_prepare'' (ControlPreparation_unsigned_dict prep) = Inr payload"
    "ed_verify ed (vf_public_key vf) raw payload"
    using verify decode_signature_canonical by (auto simp add: accepts)
  have "payload \<noteq> other" if "signature_payload kind v = Inr other" "kind \<noteq> ''control_prepare''" for kind v other
    using that signed(2) signature_payload_kind by blast
  then show ?thesis
    using ok signed times scope by (auto simp add: ControlPreparation_ok_def window_ok_def)
qed

end
