(* ===== verification/Journal_Ops.thy ===== *)
theory Journal_Ops
  imports Journal_Db Kernel_Policy "HOL-Library.Product_Lexorder"
begin

text \<open>
  \<^verbatim>\<open>algo_cli/ada_control_journal.py\<close>, the operations of \<open>ControlJournal\<close> on effects: revocation, the
  claim of a permit, the transitions of an effect and the queries. The transaction of a claim is split
  where the code has its blocks: grant, permit, session, target, insertion.
\<close>

section \<open>Checked inputs\<close>

definition input_time :: "int \<Rightarrow> exn + int" where
  "input_time v = (if 0 \<le> v \<and> v \<le> MAX_SAFE_INTEGER then Inr v else Inl (journal_rejected ''invalid_time''))"

definition input_uuid :: "pystr \<Rightarrow> string \<Rightarrow> exn + pystr" where
  "input_uuid v label = (case require_uuid label (PStr v) of
     Inr s \<Rightarrow> Inr s | Inl _ \<Rightarrow> Inl (journal_rejected label))"

definition input_reason :: "pystr \<Rightarrow> exn + pystr" where
  "input_reason v = (if safe_id_text v then Inr v else Inl (journal_rejected ''invalid_reason''))"

definition input_evidence :: "pystr \<Rightarrow> exn + pystr" where
  "input_evidence v = (if digest_text v then Inr v else Inl (journal_rejected ''invalid_evidence''))"

lemma input_Inr_iffs [accepts]:
  "input_time i = Inr j \<longleftrightarrow> j = i \<and> 0 \<le> i \<and> i \<le> MAX_SAFE_INTEGER"
  "input_uuid v label = Inr s \<longleftrightarrow> s = v \<and> canonical_uuid_text v"
  "input_reason v = Inr s \<longleftrightarrow> s = v \<and> safe_id_text v"
  "input_evidence v = Inr s \<longleftrightarrow> s = v \<and> digest_text v"
  by (auto simp add: input_time_def input_uuid_def require_uuid_def require_pattern_def corrupt_def
      input_reason_def input_evidence_def simp del: limits)

section \<open>Revocation\<close>

definition is_revoked_in :: "journal_db \<Rightarrow> RevocationKind \<Rightarrow> pystr \<Rightarrow> bool" where
  "is_revoked_in db kind object_id \<longleftrightarrow> lookup revocation_key (kind, object_id) (db_revocations db) \<noteq> None"

definition revoke ::
    "journal_io \<Rightarrow> RevocationKind \<Rightarrow> pystr \<Rightarrow> int \<Rightarrow> pystr \<Rightarrow> journal_db \<Rightarrow> journal_db \<times> (exn + unit)" where
  "revoke io kind object_id revoked_at_ms reason_code db =
    (case rbind (input_uuid object_id ''revocation_id'') (\<lambda>identifier.
          rbind (input_time revoked_at_ms) (\<lambda>timestamp.
          rbind (input_reason reason_code) (\<lambda>reason.
          Inr (identifier, timestamp, reason)))) of
       Inl e \<Rightarrow> (db, Inl e)
     | Inr (identifier, timestamp, reason) \<Rightarrow>
         immediate io (\<lambda>db. Inr (insert_or_ignore_revocation
           \<lparr>vw_kind = kind, vw_object_id = identifier, vw_revoked_at_ms = timestamp, vw_reason_code = reason\<rparr> db, ())) db)"

definition is_revoked :: "journal_io \<Rightarrow> RevocationKind \<Rightarrow> pystr \<Rightarrow> journal_db \<Rightarrow> exn + bool" where
  "is_revoked io kind object_id db =
    rbind (input_uuid object_id ''revocation_id'') (\<lambda>identifier.
    reader io (\<lambda>db. Inr (is_revoked_in db kind identifier)) db)"

section \<open>Effects\<close>

definition effect_from_connection :: "journal_db \<Rightarrow> pystr \<Rightarrow> exn + ControlEffectRecord" where
  "effect_from_connection db effect_id =
    (case lookup ew_effect_id effect_id (db_effects db) of
       None \<Rightarrow> Inl (journal_rejected ''effect_missing'')
     | Some row \<Rightarrow> ControlEffectRecord_from_row row)"

section \<open>The claim of a permit\<close>

text \<open>The checks before the transaction, with the two binding digests.\<close>

definition claim_authority ::
    "ed25519 \<Rightarrow> ControlEnvelope \<Rightarrow> ControlRoute \<Rightarrow> ControlVerifier \<Rightarrow> ControlPolicy \<Rightarrow> SnapshotRef \<Rightarrow> int \<Rightarrow>
     exn + ControlEnvelope \<times> int \<times> pystr \<times> pystr" where
  "claim_authority ed envelope route vf p live_snapshot now_ms =
    rbind (ControlEnvelope_from_dict (ControlEnvelope_to_dict envelope)) (\<lambda>env.
    rbind (input_time now_ms) (\<lambda>timestamp.
    rbind (verify_envelope_authority ed env vf p timestamp [route] (Some live_snapshot)) (\<lambda>selected_route.
    rbind (reject_if (selected_route \<noteq> route) ''route_selection'') (\<lambda>_.
    rbind (reject_if (route \<notin> set (rq_requested_routes (en_request env)) \<or> route \<notin> set (gr_routes (en_grant env))
                      \<or> route \<notin> set (pm_routes (en_permit env))) ''route_scope'') (\<lambda>_.
    rbind (reject_if (gr_expires_at_ms (en_grant env) \<le> timestamp) ''grant_expired'') (\<lambda>_.
    rbind (reject_if (timestamp < pm_issued_at_ms (en_permit env) \<or> pm_expires_at_ms (en_permit env) \<le> timestamp)
             ''permit_expired'') (\<lambda>_.
    rbind (content_digest (ControlGrant_to_dict (en_grant env))) (\<lambda>grant_binding.
    rbind (content_digest (ControlPermit_to_dict (en_permit env))) (\<lambda>permit_binding.
    Inr (env, timestamp, grant_binding, permit_binding))))))))))"

definition claim_grant :: "ControlGrant \<Rightarrow> pystr \<Rightarrow> journal_db \<Rightarrow> exn + journal_db \<times> int" where
  "claim_grant g grant_binding db =
    (case lookup gw_grant_id (gr_grant_id g) (db_grants db) of
       None \<Rightarrow>
         rbind (insert_grant \<lparr>gw_grant_id = gr_grant_id g, gw_binding_digest = grant_binding,
             gw_maximum_action_count = gr_maximum_action_count g, gw_used_count = 0,
             gw_expires_at_ms = gr_expires_at_ms g\<rparr> db) (\<lambda>db.
         Inr (db, 0))
     | Some row \<Rightarrow>
         rbind (require_digest ''grant_binding'' (PStr (gw_binding_digest row))) (\<lambda>stored_binding.
         rbind (require_int ''grant_action_count'' 1 MAX_ACTION_COUNT (PInt (gw_maximum_action_count row))) (\<lambda>stored_maximum.
         rbind (require_int ''grant_used_count'' 0 stored_maximum (PInt (gw_used_count row))) (\<lambda>used_count.
         rbind (require_int ''grant_expiry'' 1 MAX_SAFE_INTEGER (PInt (gw_expires_at_ms row))) (\<lambda>stored_expiry.
         rbind (reject_if (stored_binding \<noteq> grant_binding \<or> stored_maximum \<noteq> gr_maximum_action_count g
                           \<or> stored_expiry \<noteq> gr_expires_at_ms g) ''grant_binding'') (\<lambda>_.
         Inr (db, used_count)))))))"

definition claim_session :: "ControlRequest \<Rightarrow> int \<Rightarrow> journal_db \<Rightarrow> exn + journal_db" where
  "claim_session r timestamp db =
    (case lookup sw_session_id (rq_session_id r) (db_sessions db) of
       None \<Rightarrow>
         rbind (reject_if (rq_sequence r \<noteq> 1) ''session_sequence_start'') (\<lambda>_.
         insert_session \<lparr>sw_session_id = rq_session_id r, sw_last_sequence = rq_sequence r,
           sw_updated_at_ms = timestamp\<rparr> db)
     | Some row \<Rightarrow>
         rbind (require_int ''session_sequence'' 1 MAX_SAFE_INTEGER (PInt (sw_last_sequence row))) (\<lambda>last_sequence.
         rbind (require_int ''session_updated'' 0 MAX_SAFE_INTEGER (PInt (sw_updated_at_ms row))) (\<lambda>last_updated.
         rbind (reject_if (rq_sequence r \<noteq> last_sequence + 1) ''session_sequence'') (\<lambda>_.
         rbind (reject_if (timestamp < last_updated) ''clock_regression'') (\<lambda>_.
         update_sessions (\<lambda>w. sw_session_id w = rq_session_id r \<and> sw_last_sequence w = last_sequence)
           (\<lambda>w. w\<lparr>sw_last_sequence := rq_sequence r, sw_updated_at_ms := timestamp\<rparr>) db)))))"

definition claim_target :: "TargetRef \<Rightarrow> int \<Rightarrow> journal_db \<Rightarrow> exn + journal_db" where
  "claim_target t timestamp db =
    (case lookup tw_target_id (tr_target_id t) (db_targets db) of
       None \<Rightarrow>
         insert_target \<lparr>tw_target_id = tr_target_id t, tw_target_kind = by_value TargetKind (tr_kind t),
           tw_target_epoch = tr_epoch t, tw_target_revision = tr_revision t,
           tw_fencing_token = tr_fencing_token t, tw_updated_at_ms = timestamp\<rparr> db
     | Some row \<Rightarrow>
         rbind (require_enum TargetKind ''target_kind'' (PStr (tw_target_kind row))) (\<lambda>stored_kind.
         rbind (require_int ''target_epoch'' 1 MAX_SAFE_INTEGER (PInt (tw_target_epoch row))) (\<lambda>stored_epoch.
         rbind (require_revision ''target_revision'' (PStr (tw_target_revision row))) (\<lambda>stored_revision.
         rbind (require_int ''target_fence'' 1 MAX_SAFE_INTEGER (PInt (tw_fencing_token row))) (\<lambda>stored_fence.
         rbind (require_int ''target_updated'' 0 MAX_SAFE_INTEGER (PInt (tw_updated_at_ms row))) (\<lambda>target_updated.
         rbind (reject_if (stored_kind \<noteq> tr_kind t) ''target_kind_changed'') (\<lambda>_.
         rbind (reject_if (tr_epoch t < stored_epoch) ''target_epoch_stale'') (\<lambda>_.
         rbind (reject_if (tr_fencing_token t < stored_fence) ''target_fence_stale'') (\<lambda>_.
         rbind (if tr_epoch t = stored_epoch
                then reject_if (tr_revision t \<noteq> stored_revision) ''target_revision_changed''
                else reject_if (tr_fencing_token t \<le> stored_fence) ''target_fence_not_advanced'') (\<lambda>_.
         rbind (reject_if (timestamp < target_updated) ''clock_regression'') (\<lambda>_.
         update_targets (\<lambda>w. tw_target_id w = tr_target_id t)
           (\<lambda>w. w\<lparr>tw_target_epoch := tr_epoch t, tw_target_revision := tr_revision t,
                  tw_fencing_token := tr_fencing_token t, tw_updated_at_ms := timestamp\<rparr>) db)))))))))))"

text \<open>The row of a claimed effect.\<close>

definition claimed_effect ::
    "pystr \<Rightarrow> ControlEnvelope \<Rightarrow> pystr \<Rightarrow> ControlRoute \<Rightarrow> int \<Rightarrow> effect_row" where
  "claimed_effect effect_id env request_digest route timestamp =
    (let r = en_request env; t = rq_target r in
     \<lparr>ew_effect_id = effect_id, ew_permit_id = pm_permit_id (en_permit env),
      ew_grant_id = gr_grant_id (en_grant env), ew_session_id = rq_session_id r,
      ew_request_id = rq_request_id r, ew_request_digest = request_digest,
      ew_target_kind = by_value TargetKind (tr_kind t), ew_target_id = tr_target_id t,
      ew_target_epoch = tr_epoch t, ew_target_revision = tr_revision t,
      ew_fencing_token = tr_fencing_token t, ew_snapshot_id = sn_snapshot_id (rq_snapshot r),
      ew_sequence = rq_sequence r, ew_operation = by_value Operation (rq_operation r),
      ew_route = by_value ControlRoute route, ew_authority_key_id = pm_authority_key_id (en_permit env),
      ew_state = by_value ControlEffectState PREPARED, ew_reason_code = str ''none'',
      ew_evidence_digest = EMPTY_EVIDENCE_DIGEST, ew_transition_version = 1,
      ew_prepared_at_ms = timestamp, ew_updated_at_ms = timestamp\<rparr>)"

definition claim_tx ::
    "pystr \<Rightarrow> ControlEnvelope \<Rightarrow> ControlRoute \<Rightarrow> int \<Rightarrow> pystr \<Rightarrow> pystr \<Rightarrow> journal_db \<Rightarrow>
     exn + journal_db \<times> ControlEffectRecord" where
  "claim_tx effect_id env route timestamp grant_binding permit_binding db =
    (let r = en_request env; g = en_grant env; pm = en_permit env in
     rbind (reject_if (is_revoked_in db REVOKED_GRANT (gr_grant_id g)) ''grant_revoked'') (\<lambda>_.
     rbind (reject_if (is_revoked_in db REVOKED_PERMIT (pm_permit_id pm)) ''permit_revoked'') (\<lambda>_.
     rbind (claim_grant g grant_binding db) (\<lambda>(db, used_count).
     rbind (reject_if (gr_maximum_action_count g \<le> used_count) ''grant_exhausted'') (\<lambda>_.
     rbind (reject_if (lookup pw_permit_id (pm_permit_id pm) (db_permits db) \<noteq> None) ''permit_replayed'') (\<lambda>_.
     rbind (claim_session r timestamp db) (\<lambda>db.
     rbind (claim_target (rq_target r) timestamp db) (\<lambda>db.
     rbind (ControlRequest_digest r) (\<lambda>request_digest.
     rbind (insert_permit \<lparr>pw_permit_id = pm_permit_id pm, pw_grant_id = gr_grant_id g,
         pw_binding_digest = permit_binding, pw_request_digest = request_digest,
         pw_consumed_at_ms = timestamp, pw_expires_at_ms = pm_expires_at_ms pm\<rparr> db) (\<lambda>db.
     let usable = (\<lambda>w. gw_grant_id w = gr_grant_id g \<and> gw_used_count w < gw_maximum_action_count w);
         updated = rowcount usable (db_grants db) in
     rbind (update_grants usable (\<lambda>w. w\<lparr>gw_used_count := gw_used_count w + 1\<rparr>) db) (\<lambda>db.
     rbind (reject_if (updated \<noteq> 1) ''grant_exhausted'') (\<lambda>_.
     rbind (insert_effect (claimed_effect effect_id env request_digest route timestamp) db) (\<lambda>db.
     rbind (effect_from_connection db effect_id) (\<lambda>record.
     Inr (db, record)))))))))))))))"

definition claim ::
    "journal_io \<Rightarrow> ed25519 \<Rightarrow> bytes \<Rightarrow> ControlEnvelope \<Rightarrow> ControlRoute \<Rightarrow> ControlVerifier \<Rightarrow> ControlPolicy \<Rightarrow>
     SnapshotRef \<Rightarrow> int \<Rightarrow> journal_db \<Rightarrow> journal_db \<times> (exn + ControlEffectRecord)" where
  "claim io ed random envelope route vf p live_snapshot now_ms db =
    (case claim_authority ed envelope route vf p live_snapshot now_ms of
       Inl e \<Rightarrow> (db, Inl e)
     | Inr (env, timestamp, grant_binding, permit_binding) \<Rightarrow>
         immediate io (claim_tx (uuid4 random) env route timestamp grant_binding permit_binding) db)"

section \<open>Transitions\<close>

definition transition_inputs ::
    "pystr \<Rightarrow> ControlEffectState \<Rightarrow> int \<Rightarrow> pystr \<Rightarrow> pystr \<Rightarrow> exn + pystr \<times> int \<times> pystr \<times> pystr" where
  "transition_inputs effect_id new_state now_ms reason_code evidence_digest =
    rbind (input_uuid effect_id ''effect_id'') (\<lambda>identifier.
    rbind (input_time now_ms) (\<lambda>timestamp.
    rbind (input_reason reason_code) (\<lambda>reason.
    rbind (input_evidence evidence_digest) (\<lambda>evidence.
    rbind (reject_if (new_state \<in> {STARTED, APPLIED} \<and> reason \<noteq> str ''none'') ''transition_reason'') (\<lambda>_.
    rbind (reject_if (new_state \<in> {VERIFIED, FAILED, UNKNOWN} \<and> reason = str ''none'') ''transition_reason'') (\<lambda>_.
    Inr (identifier, timestamp, reason, evidence)))))))"

text \<open>The checks on the start of an effect: revocation, expiry and the fence of the target.\<close>

definition start_checks :: "ControlEffectRecord \<Rightarrow> int \<Rightarrow> journal_db \<Rightarrow> exn + unit" where
  "start_checks current timestamp db =
    rbind (reject_if (is_revoked_in db REVOKED_GRANT (ef_grant_id current)) ''grant_revoked'') (\<lambda>_.
    rbind (reject_if (is_revoked_in db REVOKED_PERMIT (ef_permit_id current)) ''permit_revoked'') (\<lambda>_.
    case lookup pw_permit_id (ef_permit_id current) (db_permits db) of
      None \<Rightarrow> corrupt ''permit_missing''
    | Some permit_row \<Rightarrow>
        rbind (require_int ''permit_expiry'' 1 MAX_SAFE_INTEGER (PInt (pw_expires_at_ms permit_row))) (\<lambda>permit_expiry.
        rbind (reject_if (permit_expiry \<le> timestamp) ''permit_expired'') (\<lambda>_.
        case lookup tw_target_id (ef_target_id current) (db_targets db) of
          None \<Rightarrow> corrupt ''target_missing''
        | Some target_row \<Rightarrow>
            reject_if (tw_target_kind target_row \<noteq> by_value TargetKind (ef_target_kind current)
              \<or> tw_target_epoch target_row \<noteq> ef_target_epoch current
              \<or> tw_target_revision target_row \<noteq> ef_target_revision current
              \<or> tw_fencing_token target_row \<noteq> ef_fencing_token current) ''target_fence_stale''))))"

definition transition_tx ::
    "pystr \<Rightarrow> ControlEffectState \<Rightarrow> int \<Rightarrow> pystr \<Rightarrow> pystr \<Rightarrow> journal_db \<Rightarrow>
     exn + journal_db \<times> ControlEffectRecord" where
  "transition_tx identifier new_state timestamp reason evidence db =
    rbind (effect_from_connection db identifier) (\<lambda>current.
    rbind (reject_if (new_state \<notin> ALLOWED_TRANSITIONS (ef_state current)) ''effect_transition'') (\<lambda>_.
    rbind (reject_if (timestamp < ef_updated_at_ms current) ''clock_regression'') (\<lambda>_.
    rbind (if new_state = STARTED then start_checks current timestamp db else Inr ()) (\<lambda>_.
    let expected = (\<lambda>w. ew_effect_id w = identifier \<and> ew_state w = by_value ControlEffectState (ef_state current)
                        \<and> ew_transition_version w = ef_transition_version current);
        changed = rowcount expected (db_effects db) in
    rbind (update_effects expected
             (\<lambda>w. w\<lparr>ew_state := by_value ControlEffectState new_state, ew_reason_code := reason,
                    ew_evidence_digest := evidence, ew_transition_version := ew_transition_version w + 1,
                    ew_updated_at_ms := timestamp\<rparr>) db) (\<lambda>db.
    rbind (reject_if (changed \<noteq> 1) ''effect_race'') (\<lambda>_.
    rbind (effect_from_connection db identifier) (\<lambda>record.
    Inr (db, record))))))))"

definition transition ::
    "journal_io \<Rightarrow> pystr \<Rightarrow> ControlEffectState \<Rightarrow> int \<Rightarrow> pystr \<Rightarrow> pystr \<Rightarrow> journal_db \<Rightarrow>
     journal_db \<times> (exn + ControlEffectRecord)" where
  "transition io effect_id new_state now_ms reason_code evidence_digest db =
    (case transition_inputs effect_id new_state now_ms reason_code evidence_digest of
       Inl e \<Rightarrow> (db, Inl e)
     | Inr (identifier, timestamp, reason, evidence) \<Rightarrow>
         immediate io (transition_tx identifier new_state timestamp reason evidence) db)"

section \<open>Queries\<close>

definition journal_get :: "journal_io \<Rightarrow> pystr \<Rightarrow> journal_db \<Rightarrow> exn + ControlEffectRecord" where
  "journal_get io effect_id db =
    rbind (input_uuid effect_id ''effect_id'') (\<lambda>identifier.
    reader io (\<lambda>db. effect_from_connection db identifier) db)"

definition by_permit :: "journal_io \<Rightarrow> pystr \<Rightarrow> journal_db \<Rightarrow> exn + ControlEffectRecord option" where
  "by_permit io permit_id db =
    rbind (input_uuid permit_id ''permit_id'') (\<lambda>identifier.
    reader io (\<lambda>db.
      case lookup ew_permit_id identifier (db_effects db) of
        None \<Rightarrow> Inr None
      | Some row \<Rightarrow> rbind (ControlEffectRecord_from_row row) (\<lambda>record. Inr (Some record))) db)"

definition recovery_candidates :: "journal_io \<Rightarrow> journal_db \<Rightarrow> exn + ControlEffectRecord list" where
  "recovery_candidates io db =
    reader io (\<lambda>db. traverse ControlEffectRecord_from_row
      (sort_key (\<lambda>w. (ew_prepared_at_ms w, ew_effect_id w))
        (filter (\<lambda>w. ew_state w \<in> set (map (by_value ControlEffectState) [PREPARED, STARTED, APPLIED, UNKNOWN]))
          (db_effects db)))) db"

definition grant_usage :: "journal_io \<Rightarrow> pystr \<Rightarrow> journal_db \<Rightarrow> exn + int \<times> int" where
  "grant_usage io grant_id db =
    rbind (input_uuid grant_id ''grant_id'') (\<lambda>identifier.
    reader io (\<lambda>db.
      case lookup gw_grant_id identifier (db_grants db) of
        None \<Rightarrow> Inr (0, 0)
      | Some row \<Rightarrow>
          rbind (require_int ''grant_action_count'' 1 MAX_ACTION_COUNT (PInt (gw_maximum_action_count row))) (\<lambda>maximum.
          rbind (require_int ''grant_used_count'' 0 maximum (PInt (gw_used_count row))) (\<lambda>used.
          Inr (used, maximum)))) db)"

end
