(* ===== verification/Kernel_Bounds.thy ===== *)
theory Kernel_Bounds
  imports Kernel_Policy
begin

text \<open>
  The canonical form exists for every validated record: \<open>json_bound\<close> bounds the bytes of a canonical
  text by the value, and the bounds of the protocol keep it below the frame limit. So the digests and
  signature payloads that the decisions of the kernel compute never raise on what \<open>from_dict\<close> has
  accepted, and issuing a permit succeeds whenever its checks do.
\<close>

section \<open>A bound on the canonical text\<close>

definition text_size :: "pystr \<Rightarrow> nat" where
  "text_size s = sum_list (map (\<lambda>c. length (utf8_char c)) s)"

fun json_bound :: "py \<Rightarrow> nat" where
  "json_bound PNone = 4"
| "json_bound (PBool b) = 5"
| "json_bound (PInt i) = 17"
| "json_bound (PStr s) = text_size (json_string s)"
| "json_bound (PList xs) = 2 + sum_list (map (\<lambda>x. 1 + json_bound x) xs)"
| "json_bound (PDict kvs) = 2 + sum_list (map (\<lambda>kv. 2 + text_size (json_string (fst kv)) + json_bound (snd kv)) kvs)"
| "json_bound POther = 0"

lemma text_size_simps [simp]:
  "text_size [] = 0" "text_size (c # s) = length (utf8_char c) + text_size s"
  "text_size (s @ t) = text_size s + text_size t"
  by (simp_all add: text_size_def)

lemma utf8_encode_size:
  "utf8_encode s = Some bs \<Longrightarrow> length bs = text_size s"
  by (auto simp add: utf8_encode_def text_size_def length_concat comp_def split: if_splits)

lemma utf8_char_ascii: "c < 128 \<Longrightarrow> length (utf8_char c) = 1"
  by (simp add: utf8_char_def)

lemma text_size_ascii: "list_all (\<lambda>c. c < 128) s \<Longrightarrow> text_size s = length s"
  by (induction s) (simp_all add: utf8_char_ascii)

lemma ascii_scalar: "c < 128 \<Longrightarrow> scalar c"
  by (simp add: scalar_def surrogate_def)

lemma hex_char_ascii: "d < 16 \<Longrightarrow> hex_char d < 128"
  using lower_hex_hex_char [of d] by (auto simp add: lower_hex_def)

lemma json_escape_scalar: "scalar c \<Longrightarrow> list_all scalar (json_escape c)"
  by (auto simp add: json_escape_def ascii_scalar hex_char_ascii)

lemma json_string_scalar: "list_all scalar s \<Longrightarrow> list_all scalar (json_string s)"
  by (induction s) (auto simp add: json_string_def ascii_scalar json_escape_scalar)

lemma comma_join_ok:
  "list_all (list_all scalar) xs \<Longrightarrow>
   list_all scalar (comma_join xs) \<and> text_size (comma_join xs) \<le> sum_list (map (\<lambda>x. 1 + text_size x) xs)"
  by (induction xs rule: comma_join.induct) (auto simp add: ascii_scalar utf8_char_ascii)

lemma string_ok_scalar: "string_ok s \<Longrightarrow> list_all scalar s"
  by (auto simp add: string_ok_def utf8_encode_def split: if_splits)

lemma int_repr_ok:
  assumes "\<bar>i\<bar> \<le> MAX_SAFE_INTEGER"
  shows "list_all scalar (int_repr i) \<and> text_size (int_repr i) \<le> 17"
proof -
  have ascii: "list_all (\<lambda>c. c < 128) (int_repr i)"
    using decimal_digits [of "nat i"] decimal_digits [of "nat (- i)"]
    by (auto simp add: int_repr_def digit_def list_all_iff)
  have "length (int_repr i) \<le> Suc 16"
    using assms by (intro length_int_repr) (simp_all add: limits)
  with ascii text_size_ascii [OF ascii] show ?thesis
    by (auto simp add: list_all_iff ascii_scalar)
qed

lemma json_text_ok:
  "tree_ok d v \<Longrightarrow> list_all scalar (json_text v) \<and> text_size (json_text v) \<le> json_bound v"
proof (induction v arbitrary: d rule: json_text.induct)
  case (2 b)
  then show ?case by (simp add: str_def ascii_scalar utf8_char_ascii)
next
  case (3 i)
  then show ?case using int_repr_ok by simp
next
  case (4 s)
  then show ?case using json_string_scalar string_ok_scalar by simp
next
  case (5 xs)
  have IH: "list_all scalar (json_text x) \<and> text_size (json_text x) \<le> json_bound x" if "x \<in> set xs" for x
    using 5(1) [OF that, of "Suc d"] 5(2) that by (simp add: list_all_iff)
  then have "list_all (list_all scalar) (map json_text xs)" by (simp add: list_all_iff)
  note join = comma_join_ok [OF this]
  have "sum_list (map (\<lambda>x. 1 + text_size x) (map json_text xs)) \<le> sum_list (map (\<lambda>x. 1 + json_bound x) xs)"
    unfolding map_map comp_def using IH by (intro sum_list_mono) simp
  with join show ?case by (simp add: ascii_scalar utf8_char_ascii)
next
  case (6 kvs)
  let ?m = "\<lambda>kv. json_string (fst kv) @ 58 # json_text (snd kv)"
  have IH: "list_all scalar (?m kv) \<and> text_size (?m kv) \<le> 1 + text_size (json_string (fst kv)) + json_bound (snd kv)"
    if "kv \<in> set kvs" for kv
  proof -
    have kv: "field_name_text (fst kv)" "tree_ok (Suc d) (snd kv)"
      using 6(2) that by (simp_all add: list_all_iff)
    show ?thesis
      using json_string_scalar [OF string_ok_scalar, OF field_name_string_ok, OF kv(1)] 6(1) [OF that kv(2)]
      by (simp add: ascii_scalar utf8_char_ascii)
  qed
  then have "list_all (list_all scalar) (map ?m kvs)" by (simp add: list_all_iff)
  note join = comma_join_ok [OF this]
  have "sum_list (map (\<lambda>x. 1 + text_size x) (map ?m kvs))
      \<le> sum_list (map (\<lambda>kv. 2 + text_size (json_string (fst kv)) + json_bound (snd kv)) kvs)"
    unfolding map_map comp_def using IH by (intro sum_list_mono) fastforce
  with join show ?case by (simp add: ascii_scalar utf8_char_ascii)
qed simp_all

lemma json_bound_psort [simp]: "json_bound (psort v) = json_bound v"
proof (induction v rule: psort.induct)
  case (1 xs)
  then show ?case by (simp add: comp_def cong: map_cong)
next
  case (2 kvs)
  then show ?case by (simp add: sum_list_sort_key comp_def cong: map_cong)
qed simp_all

lemma json_text_nonempty: "tree_ok d v \<Longrightarrow> json_text v \<noteq> []"
  by (cases v) (simp_all add: int_repr_def json_string_def str_def)

lemma canonical_total:
  assumes "tree_ok 0 v" "tree_size v \<le> MAX_JSON_ITEMS" "json_bound v \<le> MAX_FRAME_BYTES"
  shows "\<exists>bs. canonical_json_bytes v = Inr bs"
proof -
  have t: "tree_ok 0 (psort v)" using assms(1) by simp
  note ok = json_text_ok [OF t]
  then obtain bs where bs: "utf8_encode (json_text (psort v)) = Some bs"
    by (simp add: utf8_encode_def)
  have "bs \<noteq> []"
    using bs json_text_nonempty [OF t] utf8_encode_inject [of "json_text (psort v)" "[]"]
    by (auto simp add: utf8_encode_def split: if_splits)
  moreover have "length bs \<le> MAX_FRAME_BYTES"
    using utf8_encode_size [OF bs] ok assms(3) by simp
  ultimately show ?thesis
    using assms(1,2) bs by (auto simp add: canonical_json_bytes_Inr_iff)
qed

section \<open>The sizes of the fields\<close>

text \<open>Text without a character that is escaped, and text in which only short escapes occur.\<close>

definition plain :: "pystr \<Rightarrow> bool" where
  "plain s \<longleftrightarrow> list_all (\<lambda>c. 32 \<le> c \<and> c < 128 \<and> c \<noteq> 34 \<and> c \<noteq> 92) s"

lemma plain_size: "plain s \<Longrightarrow> text_size (json_string s) = 2 + length s"
proof -
  assume "plain s"
  then have "text_size (concat (map json_escape s)) = length s"
    by (induction s) (simp_all add: plain_def json_escape_def utf8_char_ascii)
  then show ?thesis by (simp add: json_string_def utf8_char_ascii)
qed

lemma plain_string_ok: "plain s \<Longrightarrow> length s \<le> MAX_STRING_BYTES \<Longrightarrow> string_ok s"
proof -
  assume "plain s" "length s \<le> MAX_STRING_BYTES"
  moreover from this have "list_all (\<lambda>c. c < 128) s" by (auto simp add: plain_def list_all_iff)
  ultimately show ?thesis by (simp add: string_ok_def utf8_encode_ascii)
qed

lemma plain_chars:
  assumes "lower_char c \<or> upper_char c \<or> digit c \<or> c = 95 \<or> c = 45 \<or> c = 46 \<or> c = 58"
  shows "32 \<le> c \<and> c < 128 \<and> c \<noteq> 34 \<and> c \<noteq> 92"
  using assms unfolding char_classes by (elim disjE conjE) simp_all

lemma hex_is_plain: "lower_hex c \<Longrightarrow> 32 \<le> c \<and> c < 128 \<and> c \<noteq> 34 \<and> c \<noteq> 92"
  unfolding lower_hex_def by (elim disjE conjE) simp_all

lemma pattern_plain:
  "safe_id_text s \<Longrightarrow> plain s \<and> length s \<le> 128" "revision_text s \<Longrightarrow> plain s \<and> length s \<le> 128"
  "field_name_text s \<Longrightarrow> plain s \<and> length s \<le> 64" "signature_text s \<Longrightarrow> plain s \<and> length s \<le> 128"
proof -
  have plain: "plain t" if "\<And>c. c \<in> set t \<Longrightarrow> lower_char c \<or> upper_char c \<or> digit c \<or> c = 95 \<or> c = 45 \<or> c = 46 \<or> c = 58"
    for t
    using plain_chars [OF that] by (simp add: plain_def list_all_iff)
  show "safe_id_text s \<Longrightarrow> plain s \<and> length s \<le> 128"
    by (cases s) (auto simp add: safe_id_text_def list_all_iff intro!: plain)
  show "revision_text s \<Longrightarrow> plain s \<and> length s \<le> 128"
    by (cases s) (auto simp add: revision_text_def list_all_iff intro!: plain)
  show "field_name_text s \<Longrightarrow> plain s \<and> length s \<le> 64"
    by (cases s) (auto simp add: field_name_text_def list_all_iff intro!: plain)
  show "signature_text s \<Longrightarrow> plain s \<and> length s \<le> 128"
    by (auto simp add: signature_text_def list_all_iff intro!: plain)
qed

lemma prefixed_hex64_plain:
  assumes "prefixed_hex64 p s" "plain (str p)" shows "plain s"
proof -
  have "plain (take (length p) s)" using assms by (simp add: prefixed_hex64_def)
  moreover have "plain (drop (length p) s)"
    using assms(1) plain_chars hex_is_plain by (simp add: prefixed_hex64_def plain_def list_all_iff)
  ultimately have "plain (take (length p) s @ drop (length p) s)"
    by (simp only: plain_def list_all_append)
  then show ?thesis by simp
qed

lemma hex_plain:
  "opaque_id_text s \<Longrightarrow> plain s \<and> length s \<le> 128" "digest_text s \<Longrightarrow> plain s \<and> length s \<le> 128"
  "key_id_text s \<Longrightarrow> plain s \<and> length s \<le> 128"
proof -
  have prefix: "plain (str ''hmac-sha256:'')" "plain (str ''sha256:'')" "plain (str ''ed25519:'')"
    by (simp_all add: plain_def str_def)
  show "opaque_id_text s \<Longrightarrow> plain s \<and> length s \<le> 128"
    using prefixed_hex64_plain [OF _ prefix(1), of s] by (simp add: opaque_id_text_def prefixed_hex64_def)
  show "digest_text s \<Longrightarrow> plain s \<and> length s \<le> 128"
    using prefixed_hex64_plain [OF _ prefix(2), of s] by (simp add: digest_text_def prefixed_hex64_def)
  show "key_id_text s \<Longrightarrow> plain s \<and> length s \<le> 128"
    using prefixed_hex64_plain [OF _ prefix(3), of s] by (simp add: key_id_text_def prefixed_hex64_def)
qed

lemma uuid_plain: "canonical_uuid_text s \<Longrightarrow> plain s \<and> length s \<le> 128"
proof -
  assume "canonical_uuid_text s"
  then have form: "uuid_form s" by (simp add: canonical_uuid_text_def)
  have "c = 45 \<or> lower_hex c" if "c \<in> set s" for c
    using uuid_form_chars [OF form] that by (simp add: list_all_iff)
  then show ?thesis
    using form hex_is_plain by (fastforce simp add: plain_def list_all_iff uuid_form_def)
qed

lemmas texts_plain = pattern_plain(1,2,4) hex_plain uuid_plain

lemma input_text_size:
  assumes "input_text_ok s" shows "string_ok s \<and> text_size (json_string s) \<le> 8194"
proof -
  obtain bs where bs: "utf8_encode s = Some bs" "length bs \<le> 4096"
    and chars: "\<forall>c \<in> set s. control_char c \<longrightarrow> c = 9 \<or> c = 10 \<or> c = 13"
    using assms by (auto simp add: input_text_ok_def validate_text_input_def accepts safe_text_Inr_iff
        limits list_ex_iff split: if_splits)
  have escape: "text_size (json_escape c) \<le> 2 * length (utf8_char c)" if "c \<in> set s" for c
  proof -
    have "1 \<le> length (utf8_char c)" by (simp add: utf8_char_def)
    then show ?thesis
      using chars that by (auto simp add: json_escape_def utf8_char_ascii control_char_def)
  qed
  have "text_size (concat (map json_escape t)) \<le> 2 * text_size t" if "set t \<subseteq> set s" for t
    using that by (induction t) (auto dest: escape)
  then have "text_size (json_string s) \<le> 2 + 2 * text_size s"
    by (simp add: json_string_def utf8_char_ascii)
  then show ?thesis
    using bs utf8_encode_size [OF bs(1)] by (simp add: string_ok_def limits)
qed

text \<open>What a value may take: levels of nesting, items and bytes.\<close>

definition fits :: "nat \<Rightarrow> nat \<times> nat \<Rightarrow> py \<Rightarrow> bool" where
  "fits h b v \<longleftrightarrow> (\<forall>d. d + h \<le> MAX_JSON_DEPTH \<longrightarrow> tree_ok d v) \<and> tree_size v \<le> fst b \<and> json_bound v \<le> snd b"

definition leaf_bound :: "nat \<times> nat" where
  "leaf_bound = (1, 130)"

lemma leaf_bound_simps [simp]: "fst leaf_bound = 1" "snd leaf_bound = 130"
  by (simp_all add: leaf_bound_def)

lemma fits_text: "plain s \<and> length s \<le> 128 \<Longrightarrow> fits 0 leaf_bound (PStr s)"
  by (simp add: fits_def plain_size plain_string_ok limits)

lemma fits_int: "\<bar>i\<bar> \<le> MAX_SAFE_INTEGER \<Longrightarrow> fits 0 leaf_bound (PInt i)"
  by (simp add: fits_def)

lemma fits_bool: "fits 0 leaf_bound (PBool b)"
  by (simp add: fits_def)

lemma fits_literal:
  "length x \<le> 128 \<Longrightarrow> list_all (\<lambda>c. plain [of_char c]) x \<Longrightarrow> fits 0 leaf_bound (PStr (str x))"
  by (rule fits_text) (simp add: plain_def str_def list_all_iff)

lemma fits_enum:
  "fits 0 leaf_bound (enum_py TargetKind a)" "fits 0 leaf_bound (enum_py Operation b)"
  "fits 0 leaf_bound (enum_py Effect c)" "fits 0 leaf_bound (enum_py ControlDataClass d)"
  "fits 0 leaf_bound (enum_py ControlRoute e)"
proof -
  show "fits 0 leaf_bound (enum_py TargetKind a)"
    unfolding enum_py_def by (rule fits_literal; cases a) (simp_all add: TargetKind_def plain_def)
  show "fits 0 leaf_bound (enum_py Operation b)"
    unfolding enum_py_def by (rule fits_literal; cases b) (simp_all add: Operation_def plain_def)
  show "fits 0 leaf_bound (enum_py Effect c)"
    unfolding enum_py_def by (rule fits_literal; cases c) (simp_all add: Effect_def plain_def)
  show "fits 0 leaf_bound (enum_py ControlDataClass d)"
    unfolding enum_py_def by (rule fits_literal; cases d) (simp_all add: ControlDataClass_def plain_def)
  show "fits 0 leaf_bound (enum_py ControlRoute e)"
    unfolding enum_py_def by (rule fits_literal; cases e) (simp_all add: ControlRoute_def plain_def)
qed

lemma fits_mono: "fits h b v \<Longrightarrow> h \<le> h' \<Longrightarrow> fst b \<le> fst b' \<Longrightarrow> snd b \<le> snd b' \<Longrightarrow> fits h' b' v"
  by (fastforce simp add: fits_def)

lemma fits_list:
  assumes "list_all (fits h (m, n)) vs" "length vs \<le> k"
  shows "fits (Suc h) (1 + k * m, 2 + k * (1 + n)) (PList vs)"
proof -
  have each: "tree_size v \<le> m" "1 + json_bound v \<le> 1 + n" if "v \<in> set vs" for v
    using assms(1) that by (auto simp add: list_all_iff fits_def)
  have "sum_list (map tree_size vs) \<le> length vs * m"
    "sum_list (map (\<lambda>v. 1 + json_bound v) vs) \<le> length vs * (1 + n)"
    using sum_list_mono [OF each(1), of vs "\<lambda>v. v"] sum_list_mono [OF each(2), of vs "\<lambda>v. v"]
    by (simp_all add: sum_list_triv)
  moreover have "length vs * m \<le> k * m" "length vs * (1 + n) \<le> k * (1 + n)"
    using assms(2) by (simp_all only: mult_le_mono1)
  ultimately have "tree_size (PList vs) \<le> 1 + k * m" "json_bound (PList vs) \<le> 2 + k * (1 + n)"
    unfolding tree_size.simps json_bound.simps by linarith+
  moreover have "tree_ok d (PList vs)" if "d + Suc h \<le> MAX_JSON_DEPTH" for d
    using that assms(1) by (auto simp add: list_all_iff fits_def)
  ultimately show ?thesis by (simp add: fits_def)
qed

text \<open>A printed record: the bounds of its fields, and 68 bytes for each key.\<close>

lemma fits_items:
  assumes "list_all2 (\<lambda>(k, v) b. field_name_text (str k) \<and> fits h b v) kvs bs"
  shows "fits (Suc h) (1 + sum_list (map (\<lambda>b. 1 + fst b) bs), 2 + sum_list (map (\<lambda>b. 68 + snd b) bs))
    (PDict (items kvs))"
proof -
  have "(\<forall>kv \<in> set (items kvs). field_name_text (fst kv) \<and> (\<forall>d. d + h \<le> MAX_JSON_DEPTH \<longrightarrow> tree_ok d (snd kv)))
    \<and> sum_list (map (\<lambda>kv. 1 + tree_size (snd kv)) (items kvs)) \<le> sum_list (map (\<lambda>b. 1 + fst b) bs)
    \<and> sum_list (map (\<lambda>kv. 2 + text_size (json_string (fst kv)) + json_bound (snd kv)) (items kvs))
        \<le> sum_list (map (\<lambda>b. 68 + snd b) bs)"
    using assms
  proof (induction rule: list_all2_induct)
    case Nil
    then show ?case by simp
  next
    case (Cons kv kvs b bs)
    obtain k v where kv: "kv = (k, v)" by (cases kv)
    have "text_size (json_string (str k)) \<le> 66"
      using Cons(1) pattern_plain(3) [of "str k"] plain_size [of "str k"] by (simp add: kv)
    with Cons show ?case by (auto simp add: kv fits_def)
  qed
  then show ?thesis by (auto simp add: fits_def list_all_iff)
qed

lemma field_names [simp]:
  "list_all (\<lambda>c. lower_char (of_char c) \<or> digit (of_char c) \<or> of_char c = (95 :: nat)) x \<Longrightarrow>
   x \<noteq> [] \<Longrightarrow> lower_char (of_char (hd x)) \<Longrightarrow> length x \<le> 64 \<Longrightarrow> field_name_text (str x)"
  by (cases x) (simp_all add: field_name_text_def str_def list_all_iff)

lemma fits_canonical:
  "fits h b v \<Longrightarrow> h \<le> MAX_JSON_DEPTH \<Longrightarrow> fst b \<le> MAX_JSON_ITEMS \<Longrightarrow> snd b \<le> MAX_FRAME_BYTES \<Longrightarrow>
   \<exists>bs. canonical_json_bytes v = Inr bs"
  by (rule canonical_total) (auto simp add: fits_def)

section \<open>Every validated record has a canonical form\<close>

locale bounded_codec = record_codec +
  fixes height :: nat and bounds :: "nat \<times> nat"
  assumes fits: "ok x \<Longrightarrow> fits height bounds (to_dict x)"
    and within: "height \<le> MAX_JSON_DEPTH" "fst bounds \<le> MAX_JSON_ITEMS" "snd bounds \<le> MAX_FRAME_BYTES"
begin

lemma canonical_defined: "ok x \<Longrightarrow> \<exists>bs. canonical_json_bytes (to_dict x) = Inr bs"
  using fits_canonical [OF fits within] .

lemma digest_defined:
  assumes "ok x" shows "\<exists>d. content_digest (to_dict x) = Inr d \<and> digest_text d"
proof -
  obtain bs where "canonical_json_bytes (to_dict x) = Inr bs"
    using canonical_defined [OF assms] by blast
  then show ?thesis
    by (simp add: content_digest_def digest_text_def prefixed_hex64I)
qed

lemma frame_defined: "ok x \<Longrightarrow> \<exists>frame. encode_frame (to_dict x) = Inr frame"
  using canonical_defined [of x] by (auto simp add: encode_frame_def)

lemma payload_total:
  "ok x \<Longrightarrow> Suc MAX_JSON_DEPTH \<le> limit \<Longrightarrow>
   \<exists>bs. canonical_json_bytes (to_dict x) = Inr bs \<and> rbind (decode_json_payload limit bs) from_dict = Inr x"
  using canonical_defined payload_roundtrip by blast

end

lemma fits_texts:
  "safe_id_text s \<Longrightarrow> fits 0 leaf_bound (PStr s)" "revision_text s \<Longrightarrow> fits 0 leaf_bound (PStr s)"
  "signature_text s \<Longrightarrow> fits 0 leaf_bound (PStr s)" "opaque_id_text s \<Longrightarrow> fits 0 leaf_bound (PStr s)"
  "digest_text s \<Longrightarrow> fits 0 leaf_bound (PStr s)" "key_id_text s \<Longrightarrow> fits 0 leaf_bound (PStr s)"
  "canonical_uuid_text s \<Longrightarrow> fits 0 leaf_bound (PStr s)"
  using texts_plain [of s] fits_text [of s] by simp_all

lemma fits_leaf: "fits 0 leaf_bound v \<Longrightarrow> fits h leaf_bound v"
  by (erule fits_mono) simp_all

lemmas fits_fields = fits_enum fits_texts fits_int fits_bool
lemmas fits_fields_leaf = fits_fields [THEN fits_leaf]

lemma target_fits:
  assumes "TargetRef_ok t" shows "fits (Suc 0) (11, 1000) (TargetRef_to_dict t)"
proof -
  have "fits (Suc 0) (1 + sum_list (map (\<lambda>b. 1 + fst b) [leaf_bound, leaf_bound, leaf_bound, leaf_bound, leaf_bound]),
      2 + sum_list (map (\<lambda>b. 68 + snd b) [leaf_bound, leaf_bound, leaf_bound, leaf_bound, leaf_bound])) (TargetRef_to_dict t)"
    unfolding TargetRef_to_dict_def
    by (rule fits_items) (use assms in \<open>simp add: TargetRef_ok_def fits_fields
        limits char_classes abs_le_iff\<close>)
  then show ?thesis by (rule fits_mono) simp_all
qed

lemma snapshot_fits:
  assumes "SnapshotRef_ok t" shows "fits (Suc 0) (15, 1400) (SnapshotRef_to_dict t)"
proof -
  have "fits (Suc 0) (1 + sum_list (map (\<lambda>b. 1 + fst b) [leaf_bound, leaf_bound, leaf_bound, leaf_bound, leaf_bound, leaf_bound, leaf_bound]),
      2 + sum_list (map (\<lambda>b. 68 + snd b) [leaf_bound, leaf_bound, leaf_bound, leaf_bound, leaf_bound, leaf_bound, leaf_bound])) (SnapshotRef_to_dict t)"
    unfolding SnapshotRef_to_dict_def
    by (rule fits_items) (use assms in \<open>simp add: SnapshotRef_ok_def fits_fields
        limits char_classes abs_le_iff\<close>)
  then show ?thesis by (rule fits_mono) simp_all
qed

lemma fits_uniform:
  assumes "list_all (\<lambda>(k, v). field_name_text (str k) \<and> fits h b v) kvs" "length kvs \<le> c"
  shows "fits (Suc h) (1 + c * (1 + fst b), 2 + c * (68 + snd b)) (PDict (items kvs))"
proof -
  have "fits (Suc h) (1 + sum_list (map (\<lambda>b. 1 + fst b) (replicate (length kvs) b)),
      2 + sum_list (map (\<lambda>b. 68 + snd b) (replicate (length kvs) b))) (PDict (items kvs))"
    by (rule fits_items) (use assms(1) in \<open>simp add: list_all2_conv_all_nth list_all_length case_prod_beta\<close>)
  moreover have "length kvs * (1 + fst b) \<le> c * (1 + fst b)" "length kvs * (68 + snd b) \<le> c * (68 + snd b)"
    using assms(2) by (simp_all only: mult_le_mono1)
  ultimately show ?thesis
    by (elim fits_mono) (simp_all add: sum_list_replicate)
qed

lemma fits_leaves:
  assumes "list_all (\<lambda>(k, v). field_name_text (str k) \<and> fits 0 leaf_bound v) kvs" "length kvs \<le> 4"
  shows "fits (Suc 0) (9, 24800) (PDict (items kvs))"
  using fits_uniform [OF assms] by (elim fits_mono) simp_all

lemma arguments_fits:
  assumes "arguments_ok operation args" shows "fits (Suc 0) (9, 24800) (PDict args)"
proof -
  have spec: "arguments_spec operation args"
    using assms by (simp add: arguments_ok_iff)
  show ?thesis
  proof (cases operation)
    case INPUT_TEXT
    with spec obtain e b s where args: "args = items [(''element_id'', PStr e), (''replace'', PBool b), (''text'', PStr s)]"
      and "opaque_id_text e" "input_text_ok s"
      by (auto simp del: items_simps)
    then have "fits 0 leaf_bound (PStr e)" "fits 0 (1, 8194) (PStr s)"
      using input_text_size [of s] by (simp_all only: fits_texts) (simp add: fits_def)
    then have "fits 0 (1, 8194) (PStr e)" "fits 0 (1, 8194) (PBool b)" "fits 0 (1, 8194) (PStr s)"
      using fits_bool [of b] by (auto elim!: fits_mono)
    then have "fits (Suc 0) (1 + 3 * (1 + fst (1 :: nat, 8194 :: nat)), 2 + 3 * (68 + snd (1 :: nat, 8194 :: nat))) (PDict args)"
      unfolding args by (intro fits_uniform) (simp_all add: char_classes)
    then show ?thesis by (elim fits_mono) simp_all
  next
    case OBSERVE
    with spec show ?thesis using fits_leaves [of "[]"] by simp
  next
    case ACTIVATE
    with spec show ?thesis
      by (auto intro!: fits_leaves simp add: fits_fields char_classes simp del: items_simps)
  next
    case SELECT_OPTION
    with spec show ?thesis
      by (auto intro!: fits_leaves simp add: fits_fields char_classes simp del: items_simps)
  next
    case SCROLL
    with spec show ?thesis
      by (auto intro!: fits_leaves fits_int simp add: fits_texts deltas_ok_def limits char_classes simp del: items_simps)
  next
    case UPLOAD
    with spec show ?thesis
      by (auto intro!: fits_leaves fits_int simp add: fits_texts limits char_classes simp del: items_simps)
  next
    case COORDINATE_ACTIVATE
    with spec show ?thesis
      by (auto intro!: fits_leaves fits_int simp add: fits_texts limits char_classes simp del: items_simps)
  next
    case HANDOFF
    with spec show ?thesis
      by (auto intro!: fits_leaves simp add: fits_fields char_classes simp del: items_simps)
  qed
qed

lemma preparation_arguments_fits:
  "preparation_spec operation route args \<Longrightarrow> fits 1 (9, 24800) (PDict args)"
  unfolding preparation_spec_def
  by (auto intro!: fits_leaves fits_int simp add: fits_texts deltas_ok_def limits char_classes
      simp del: items_simps split: if_splits)

lemma fits_enums:
  assumes "\<And>e. fits 0 leaf_bound (f e)" "length es \<le> k"
  shows "fits (Suc 0) (1 + k, 2 + k * 131) (PList (map f es))"
proof -
  have "fits (Suc 0) (1 + k * 1, 2 + k * (1 + 130)) (PList (map f es))"
    using assms unfolding leaf_bound_def by (intro fits_list) (simp_all add: list_all_iff)
  then show ?thesis by simp
qed

lemma request_fits:
  assumes "ControlRequest_ok r" shows "fits 2 (100, 32000) (ControlRequest_to_dict r)"
proof -
  let ?b = leaf_bound
  have parts: "fits (Suc 0) (11, 1000) (TargetRef_to_dict (rq_target r))" "fits (Suc 0) (15, 1400) (SnapshotRef_to_dict (rq_snapshot r))"
    "fits (Suc 0) (9, 24800) (PDict (rq_arguments r))"
    using assms target_fits snapshot_fits arguments_fits [of "rq_operation r" "rq_arguments r"] by (simp_all add: ControlRequest_ok_def)
  have "fits (Suc 0) (1 + 8, 2 + 8 * 131) (PList (map (enum_py ControlRoute) (rq_requested_routes r)))"
    using assms by (intro fits_enums) (simp_all add: fits_enum ControlRequest_ok_def ROUTE_ORDER_def)
  moreover have "fits (Suc 0) ?b (PInt (rq_schema_version r))" "fits (Suc 0) ?b (PStr (rq_request_id r))" "fits (Suc 0) ?b (PStr (rq_session_id r))"
    "fits (Suc 0) ?b (PStr (rq_subject_id r))" "fits (Suc 0) ?b (PInt (rq_sequence r))" "fits (Suc 0) ?b (PInt (rq_issued_at_ms r))"
    "fits (Suc 0) ?b (PInt (rq_deadline_ms r))" "fits (Suc 0) ?b (PInt (rq_max_output_bytes r))"
    "fits (Suc 0) ?b (enum_py Operation (rq_operation r))" "fits (Suc 0) ?b (enum_py ControlDataClass (rq_data_class r))"
    using assms by (simp_all add: fits_fields_leaf ControlRequest_ok_def limits abs_le_iff)
  moreover have "fits (Suc (Suc 0)) (1 + sum_list (map (\<lambda>b. 1 + fst b) [?b, ?b, ?b, ?b, ?b, ?b, ?b, (11, 1000), (15, 1400), ?b, ?b, (9, 24800), (1 + 8, 2 + 8 * 131), ?b]),
      2 + sum_list (map (\<lambda>b. 68 + snd b) [?b, ?b, ?b, ?b, ?b, ?b, ?b, (11, 1000), (15, 1400), ?b, ?b, (9, 24800), (1 + 8, 2 + 8 * 131), ?b]))
      (ControlRequest_to_dict r)"
    unfolding ControlRequest_to_dict_def
    by (rule fits_items) (use parts calculation in \<open>simp add: char_classes\<close>)
  ultimately show ?thesis by (elim fits_mono) simp_all
qed

interpretation request: bounded_codec ControlRequest_from_dict ControlRequest_to_dict ControlRequest_ok
  2 "(100, 32000)"
  by unfold_locales (simp_all add: request_fits limits)

lemma enum_tuple_length:
  "length (ds :: TargetKind list) \<le> DEFAULT_TUPLE \<Longrightarrow> fits (Suc 0) (17, 2098) (PList (map (enum_py TargetKind) ds))"
  "length (os :: Operation list) \<le> DEFAULT_TUPLE \<Longrightarrow> fits (Suc 0) (17, 2098) (PList (map (enum_py Operation) os))"
  "length (es :: Effect list) \<le> DEFAULT_TUPLE \<Longrightarrow> fits (Suc 0) (17, 2098) (PList (map (enum_py Effect) es))"
  "length (cs :: ControlDataClass list) \<le> DEFAULT_TUPLE \<Longrightarrow> fits (Suc 0) (17, 2098) (PList (map (enum_py ControlDataClass) cs))"
  "length (rs :: ControlRoute list) \<le> length ROUTE_ORDER \<Longrightarrow> fits (Suc 0) (17, 2098) (PList (map (enum_py ControlRoute) rs))"
  "list_all opaque_id_text ids \<Longrightarrow> length ids \<le> DEFAULT_TUPLE \<Longrightarrow> fits (Suc 0) (17, 2098) (PList (map PStr ids))"
proof -
  have leaves: "fits (Suc 0) (17, 2098) (PList vs)" if "list_all (fits 0 leaf_bound) vs" "length vs \<le> 16" for vs
    using fits_list [OF that [unfolded leaf_bound_def]] by (elim fits_mono) simp_all
  show "length ds \<le> DEFAULT_TUPLE \<Longrightarrow> fits (Suc 0) (17, 2098) (PList (map (enum_py TargetKind) ds))"
    "length os \<le> DEFAULT_TUPLE \<Longrightarrow> fits (Suc 0) (17, 2098) (PList (map (enum_py Operation) os))"
    "length es \<le> DEFAULT_TUPLE \<Longrightarrow> fits (Suc 0) (17, 2098) (PList (map (enum_py Effect) es))"
    "length cs \<le> DEFAULT_TUPLE \<Longrightarrow> fits (Suc 0) (17, 2098) (PList (map (enum_py ControlDataClass) cs))"
    "length rs \<le> length ROUTE_ORDER \<Longrightarrow> fits (Suc 0) (17, 2098) (PList (map (enum_py ControlRoute) rs))"
    "list_all opaque_id_text ids \<Longrightarrow> length ids \<le> DEFAULT_TUPLE \<Longrightarrow> fits (Suc 0) (17, 2098) (PList (map PStr ids))"
    by (rule leaves; simp add: list_all_iff fits_enum fits_texts limits ROUTE_ORDER_def)+
qed

lemma grant_fits:
  assumes "ControlGrant_ok g" shows "fits 2 (200, 20000) (ControlGrant_to_dict g)"
proof -
  let ?b = leaf_bound and ?l = "(17, 2098) :: nat \<times> nat"
  let ?bs = "[?b, ?b, ?b, ?l, ?l, ?l, ?l, ?l, ?l, ?b, ?b, ?b, ?b, ?b, ?b, ?b, ?b, ?b]"
  have "fits (Suc (Suc 0)) (1 + sum_list (map (\<lambda>b. 1 + fst b) ?bs), 2 + sum_list (map (\<lambda>b. 68 + snd b) ?bs))
      (ControlGrant_to_dict g)"
    unfolding ControlGrant_to_dict_def ControlGrant_unsigned_def append_Cons append_Nil
    by (rule fits_items) (use assms in \<open>simp add: ControlGrant_ok_def window_ok_def ordered_by_def
        fits_fields_leaf enum_tuple_length limits char_classes abs_le_iff\<close>)
  then show ?thesis by (elim fits_mono) simp_all
qed

interpretation grant: bounded_codec ControlGrant_from_dict ControlGrant_to_dict ControlGrant_ok 2 "(200, 20000)"
  by unfold_locales (simp_all add: grant_fits limits)

lemma permit_fits:
  assumes "ControlPermit_ok p" shows "fits 2 (100, 10000) (ControlPermit_to_dict p)"
proof -
  let ?b = leaf_bound and ?l = "(17, 2098) :: nat \<times> nat"
  let ?bs = "[?b, ?b, ?b, ?b, ?b, ?b, ?b, ?b, ?b, ?b, ?b, ?b, ?b, ?b, ?l, ?b, ?l, ?b, ?b, ?b, ?b, ?b, ?b, ?b, ?b, ?b]"
  have "fits (Suc (Suc 0)) (1 + sum_list (map (\<lambda>b. 1 + fst b) ?bs), 2 + sum_list (map (\<lambda>b. 68 + snd b) ?bs))
      (ControlPermit_to_dict p)"
    unfolding ControlPermit_to_dict_def ControlPermit_unsigned_def append_Cons append_Nil
    by (rule fits_items) (use assms in \<open>simp add: ControlPermit_ok_def window_ok_def ordered_by_def
        fits_fields_leaf enum_tuple_length limits char_classes abs_le_iff\<close>)
  then show ?thesis by (elim fits_mono) simp_all
qed

interpretation permit: bounded_codec ControlPermit_from_dict ControlPermit_to_dict ControlPermit_ok 2 "(100, 10000)"
  by unfold_locales (simp_all add: permit_fits limits)

lemma preparation_fits:
  assumes "ControlPreparation_ok p" shows "fits 2 (60, 30000) (ControlPreparation_to_dict p)"
proof -
  let ?b = leaf_bound
  let ?bs = "[?b, ?b, ?b, ?b, ?b, ?b, ?b, ?b, (9, 24800), ?b, ?b, ?b, ?b, ?b]"
  have args: "fits (Suc 0) (9, 24800) (PDict (pr_arguments p))"
    using assms preparation_arguments_fits [of "pr_operation p" "pr_route p" "pr_arguments p"]
    by (simp add: ControlPreparation_ok_def preparation_arguments_ok_iff)
  have "fits (Suc (Suc 0)) (1 + sum_list (map (\<lambda>b. 1 + fst b) ?bs), 2 + sum_list (map (\<lambda>b. 68 + snd b) ?bs))
      (ControlPreparation_to_dict p)"
    unfolding ControlPreparation_to_dict_def ControlPreparation_unsigned_def append_Cons append_Nil
    by (rule fits_items) (use assms args in \<open>simp add: ControlPreparation_ok_def window_ok_def
        fits_fields_leaf limits char_classes abs_le_iff\<close>)
  then show ?thesis by (elim fits_mono) simp_all
qed

interpretation preparation: bounded_codec ControlPreparation_from_dict ControlPreparation_to_dict
  ControlPreparation_ok 2 "(60, 30000)"
  by unfold_locales (simp_all add: preparation_fits limits)

lemma envelope_fits:
  assumes "ControlEnvelope_ok e" shows "fits 3 (500, 64000) (ControlEnvelope_to_dict e)"
proof -
  let ?b = leaf_bound
  let ?bs = "[?b, ?b, (100, 32000), (200, 20000), (100, 10000)] :: (nat \<times> nat) list"
  have parts: "fits (Suc (Suc 0)) (100, 32000) (ControlRequest_to_dict (en_request e))"
    "fits (Suc (Suc 0)) (200, 20000) (ControlGrant_to_dict (en_grant e))"
    "fits (Suc (Suc 0)) (100, 10000) (ControlPermit_to_dict (en_permit e))"
    using assms request_fits grant_fits permit_fits by (simp_all add: ControlEnvelope_ok_def numeral_2_eq_2)
  have kind: "fits 0 leaf_bound (PStr (str CONTROL_MESSAGE_TYPE))"
    by (rule fits_literal) (simp_all add: CONTROL_MESSAGE_TYPE_def plain_def)
  have "fits (Suc (Suc (Suc 0))) (1 + sum_list (map (\<lambda>b. 1 + fst b) ?bs), 2 + sum_list (map (\<lambda>b. 68 + snd b) ?bs))
      (ControlEnvelope_to_dict e)"
    unfolding ControlEnvelope_to_dict_def
    by (rule fits_items) (use assms parts in \<open>simp add: ControlEnvelope_ok_def fits_leaf [OF kind]
        fits_fields_leaf limits char_classes abs_le_iff\<close>)
  then show ?thesis by (elim fits_mono) simp_all
qed

interpretation envelope: bounded_codec ControlEnvelope_from_dict ControlEnvelope_to_dict ControlEnvelope_ok
  3 "(500, 64000)"
  by unfold_locales (simp_all add: envelope_fits limits)

lemma distinct_length:
  assumes "distinct xs" "set xs \<subseteq> set ys" shows "length xs \<le> length ys"
  using card_mono [OF finite_set assms(2)] card_length [of ys] distinct_card [OF assms(1)] by simp

lemma policy_post_init_iff:
  "ControlPolicy_post_init p = Inr () \<longleftrightarrow>
     safe_id_text (po_policy_id p) \<and> 1 \<le> po_revision p \<and> po_revision p \<le> MAX_SAFE_INTEGER
     \<and> po_allowed_target_kinds p \<noteq> {} \<and> po_allowed_data_classes p \<noteq> {}
     \<and> distinct (map fst (po_operation_routes p)) \<and> sorted (map (by_value Operation) (map fst (po_operation_routes p)))
     \<and> list_all (\<lambda>(operation, routes). routes \<noteq> [] \<and> distinct routes \<and> sorted (map ROUTE_INDEX routes))
         (po_operation_routes p)
     \<and> list_all (\<lambda>(n, lo, hi). lo \<le> n \<and> n \<le> hi) (policy_bounds p)"
proof -
  have routes: "(\<exists>us. traverse policy_routes_check xs = Inr us) \<longleftrightarrow>
      list_all (\<lambda>(operation, routes). routes \<noteq> [] \<and> distinct routes \<and> sorted (map ROUTE_INDEX routes)) xs" for xs
    by (induction xs) (auto simp add: policy_routes_check_def sort_key_fixed_iff accepts split: if_splits)
  have bounds: "list_ex (\<lambda>(n, lo, hi). lo \<le> n \<longrightarrow> \<not> n \<le> hi) xs \<longleftrightarrow> \<not> list_all (\<lambda>(n, lo, hi). lo \<le> n \<and> n \<le> hi) xs"
    for xs :: "(int \<times> int \<times> int) list"
    by (induction xs) auto
  show ?thesis
    unfolding ControlPolicy_post_init_def Let_def
    by (simp add: accepts sort_key_fixed_iff bounds routes [symmetric])
qed

lemma operation_routes_fits:
  assumes "distinct (map fst routes)" "list_all (\<lambda>(operation, rs). distinct rs) routes"
  shows "fits (Suc (Suc 0)) (145, 17330) (PDict (map (\<lambda>(operation, rs).
    (by_value Operation operation, PList (map (enum_py ControlRoute) rs))) routes))"
proof -
  let ?kvs = "map (\<lambda>(operation, rs). (Operation_value operation, PList (map (enum_py ControlRoute) rs))) routes"
  have "length (map fst routes) \<le> length (fst Operation)"
    using opn.members by (intro distinct_length assms(1)) simp
  then have len: "length ?kvs \<le> 8" by (simp add: Operation_def)
  have "field_name_text (str (Operation_value operation))" for operation
    by (cases operation) (simp_all add: char_classes)
  moreover have "fits (Suc 0) (17, 2098) (PList (map (enum_py ControlRoute) rs))" if "distinct rs" for rs
    using that ROUTE_ORDER_facts(1) by (intro enum_tuple_length(5) distinct_length) simp_all
  ultimately have "list_all (\<lambda>(k, v). field_name_text (str k) \<and> fits (Suc 0) (17, 2098) v) ?kvs"
    using assms(2) by (auto simp add: list_all_iff)
  from fits_uniform [OF this len] have "fits (Suc (Suc 0)) (145, 17330) (PDict (items ?kvs))"
    by simp
  then show ?thesis
    by (simp add: items_def by_value_def Operation_def comp_def case_prod_unfold)
qed

lemma policy_digest_defined:
  assumes "ControlPolicy_post_init p = Inr ()"
  shows "\<exists>d. ControlPolicy_digest p = Inr d \<and> digest_text d"
proof -
  let ?b = leaf_bound and ?l = "(17, 2098) :: nat \<times> nat"
  let ?bs = "[?b, ?b, ?b, (145, 17330), ?l, ?l, ?b, ?b, ?b, ?b, ?b, ?b, ?b] :: (nat \<times> nat) list"
  obtain kinds where kinds: "sorted_values TargetKind (po_allowed_target_kinds p) = PList (map (enum_py TargetKind) kinds)"
    "length kinds \<le> 3"
    using tk.sorted_values_enum [of "po_allowed_target_kinds p"] by (auto simp add: TargetKind_def)
  obtain cs where cs: "sorted_values ControlDataClass (po_allowed_data_classes p) = PList (map (enum_py ControlDataClass) cs)"
    "length cs \<le> 5"
    using dcl.sorted_values_enum [of "po_allowed_data_classes p"] by (auto simp add: ControlDataClass_def)
  note p = assms [unfolded policy_post_init_iff]
  have routes: "list_all (\<lambda>(operation, rs). distinct rs) (po_operation_routes p)"
    using p by (auto simp add: list_all_iff)
  have lists: "fits (Suc (Suc 0)) ?l (sorted_values TargetKind (po_allowed_target_kinds p))"
    "fits (Suc (Suc 0)) ?l (sorted_values ControlDataClass (po_allowed_data_classes p))"
    using kinds cs enum_tuple_length(1) [of kinds] enum_tuple_length(4) [of cs]
    by (auto simp add: limits elim!: fits_mono)
  have "fits (Suc (Suc (Suc 0))) (1 + sum_list (map (\<lambda>b. 1 + fst b) ?bs), 2 + sum_list (map (\<lambda>b. 68 + snd b) ?bs))
      (ControlPolicy_to_dict p)"
    unfolding ControlPolicy_to_dict_def
    by (rule fits_items) (use p routes lists in \<open>simp add: operation_routes_fits policy_bounds_def
        fits_fields_leaf limits char_classes abs_le_iff\<close>)
  then have "\<exists>bs. canonical_json_bytes (ControlPolicy_to_dict p) = Inr bs"
    by (rule fits_canonical) (simp_all add: limits)
  then show ?thesis
    by (auto simp add: ControlPolicy_digest_def content_digest_def digest_text_def prefixed_hex64I)
qed

section \<open>Issuing succeeds\<close>

lemma fits_prefix: "fits h b (PDict (items (kvs @ [kv]))) \<Longrightarrow> fits h b (PDict (items kvs))"
  by (auto simp add: fits_def items_def)

lemma sign_defined:
  assumes "fits h b v" "h \<le> MAX_JSON_DEPTH" "fst b \<le> MAX_JSON_ITEMS" "snd b \<le> MAX_FRAME_BYTES"
    and "safe_id_text (str kind)"
  shows "\<exists>s. ControlSigner_sign ed signer kind v = Inr s"
  using fits_canonical [OF assms(1-4)] assms(5) by (auto simp add: ControlSigner_sign_def signature_payload_def accepts)

lemma kinds_safe: "safe_id_text (str ''control_permit'')" "safe_id_text (str ''control_grant'')"
  "safe_id_text (str ''control_prepare'')"
  by (simp_all add: safe_id_text_def str_def char_classes)

lemma placeholder_text: "signature_text (replicate 86 65)"
  by (simp add: signature_text_def list_all_iff char_classes)

lemma key_id_init: "key_id_text (sg_key_id (ControlSigner_init ed private))"
  by (simp add: ControlSigner_init_def ControlVerifier_init_def Let_def key_id_text_def prefixed_hex64I)

lemma permit_candidate_signed:
  assumes "ed25519_ok ed" "length private = 32" "signer = ControlSigner_init ed private"
    and "ControlPermit_ok (c\<lparr>pm_signature := replicate 86 65\<rparr>)"
  obtains candidate s pm where
    "ControlPermit_from_dict (PDict (items (ControlPermit_unsigned c @ [unsigned_placeholder]))) = Inr candidate"
    "ControlSigner_sign ed signer ''control_permit'' (ControlPermit_unsigned_dict candidate) = Inr s"
    "ControlPermit_from_dict (PDict (items (ControlPermit_unsigned candidate @ [(''signature'', PStr s)]))) = Inr pm"
proof -
  let ?c = "c\<lparr>pm_signature := replicate 86 65\<rparr>"
  have candidate: "ControlPermit_from_dict (PDict (items (ControlPermit_unsigned c @ [unsigned_placeholder]))) = Inr ?c"
    using permit_to_dict_iff [of ?c ?c] assms(4)
    by (simp add: ControlPermit_to_dict_def unsigned_placeholder_def ControlPermit_unsigned_def)
  have "fits 2 (100, 10000) (ControlPermit_unsigned_dict ?c)"
    using permit_fits [OF assms(4)] unfolding ControlPermit_to_dict_def ControlPermit_unsigned_dict_def
    by (rule fits_prefix)
  then obtain s where s: "ControlSigner_sign ed signer ''control_permit'' (ControlPermit_unsigned_dict ?c) = Inr s"
    using sign_defined kinds_safe by (fastforce simp add: limits)
  have "ControlPermit_ok (c\<lparr>pm_signature := s\<rparr>)"
    using assms(4) verify_sign(2) [OF assms(1-3) s] by (simp add: ControlPermit_ok_def)
  then have "ControlPermit_from_dict (PDict (items (ControlPermit_unsigned ?c @ [(''signature'', PStr s)])))
      = Inr (c\<lparr>pm_signature := s\<rparr>)"
    using permit_to_dict_iff [of "c\<lparr>pm_signature := s\<rparr>" "c\<lparr>pm_signature := s\<rparr>"]
    by (simp add: ControlPermit_to_dict_def ControlPermit_unsigned_def)
  with candidate s that show thesis by blast
qed

lemma operation_effects_ordered: "ordered_by (by_value Effect) DEFAULT_TUPLE (effects (OPERATION_SPECS operation))"
  by (cases operation) (simp_all add: ordered_by_def limits by_value_def Effect_def str_def)

lemma set_effects_of: "set (effects_of operations) = (\<Union>operation \<in> set operations. set (effects (OPERATION_SPECS operation)))"
  by (simp add: effects_of_def)

lemma ordered_by_filter: "ordered_by key n xs \<Longrightarrow> filter P xs \<noteq> [] \<Longrightarrow> ordered_by key n (filter P xs)"
  unfolding ordered_by_def
  by (intro conjI) (auto simp add: sorted_filter intro: order_trans [OF length_filter_le])

lemma argument_bytes_defined:
  assumes "arguments_ok (rq_operation r) (rq_arguments r)"
  shows "\<exists>n. argument_bytes r = Inr n \<and> 1 \<le> n"
proof -
  obtain bs where bs: "canonical_json_bytes (PDict (rq_arguments r)) = Inr bs"
    using fits_canonical [OF arguments_fits [OF assms]] by (auto simp add: limits)
  then have "bs \<noteq> []" using canonical_json_bytes_Inr_iff by blast
  then show ?thesis
    using bs by (simp add: argument_bytes_def Suc_le_eq)
qed

lemma issue_permit_defined:
  assumes "ed25519_ok ed" "length private = 32" "signer = ControlSigner_init ed private"
    and policy: "ControlPolicy_post_init p = Inr ()" and request: "ControlRequest_ok r" and grant: "ControlGrant_ok g"
    and verify: "verify_grant ed g (sg_verifier signer) p issued (rq_subject_id r) = Inr ()"
    and valid: "validate_request p r issued None = Inr ()"
    and scope: "tr_target_id (rq_target r) \<in> set (gr_target_ids g)" "tr_kind (rq_target r) \<in> set (gr_target_kinds g)"
      "rq_operation r \<in> set (gr_operations g)" "rq_data_class r \<in> set (gr_data_classes g)"
      "set (rq_requested_routes r) \<inter> set (gr_routes g) \<noteq> {}"
    and sizes: "\<And>n. argument_bytes r = Inr n \<Longrightarrow> int n \<le> gr_max_input_bytes g"
      "rq_max_output_bytes r \<le> gr_max_output_bytes g"
      "\<And>n. transmit_bytes r = Inr n \<Longrightarrow> n \<le> gr_max_transmit_bytes g"
    and times: "issued < expires" "expires \<le> gr_expires_at_ms g" "expires \<le> rq_deadline_ms r"
      "expires \<le> issued + MAX_DEADLINE_HORIZON_MS"
    and id: "canonical_uuid_text permit_id"
  shows "\<exists>pm. issue_permit ed signer (sg_verifier signer) p g r permit_id issued expires = Inr pm"
proof -
  obtain request_digest where rd: "ControlRequest_digest r = Inr request_digest" "digest_text request_digest"
    using request.digest_defined [OF request] by (auto simp add: ControlRequest_digest_def)
  obtain n where n: "argument_bytes r = Inr n" "1 \<le> n"
    using argument_bytes_defined request by (auto simp add: ControlRequest_ok_def)
  obtain m where m: "transmit_bytes r = Inr m" "0 \<le> m" "m \<le> MAX_UPLOAD_BYTES"
    using transmit_bytes_ok [OF request] by blast
  have pd: "ControlPolicy_digest p = Inr (gr_policy_digest g)"
    using verify by (simp add: verify_grant_Inr_iff)
  have effects: "set (ControlRequest_effects r) \<subseteq> set (gr_effects g)"
    using verify scope(3) set_effects_of [of "gr_operations g"]
    by (auto simp add: verify_grant_Inr_iff ControlRequest_effects_def)
  let ?routes = "filter (\<lambda>route. route \<in> set (gr_routes g)) (rq_requested_routes r)"
  have routes: "?routes \<noteq> []"
    using scope(5) by (auto simp add: filter_empty_conv)
  have "ordered_by ROUTE_INDEX (length ROUTE_ORDER) (rq_requested_routes r)"
    using request by (simp add: ordered_by_def ControlRequest_ok_def)
  note ordered = ordered_by_filter [OF this routes]
  have key: "sg_key_id signer = vf_key_id (sg_verifier signer)" "key_id_text (sg_key_id signer)"
    using key_id_init by (simp_all add: assms(3), simp add: ControlSigner_init_def Let_def)
  let ?c = "permit_for signer g r permit_id request_digest (int n) m (gr_policy_digest g) issued expires"
  have window: "window_ok MAX_DEADLINE_HORIZON_MS issued expires"
    using times valid request by (auto simp add: window_ok_def validate_request_Inr_iff ControlRequest_ok_def)
  have "ControlPermit_ok (?c\<lparr>pm_signature := replicate 86 65\<rparr>)"
    using request grant id rd n m ordered key(2) sizes(1) [OF n(1)] window operation_effects_ordered
      placeholder_text
    by (simp add: ControlPermit_ok_def permit_for_def ControlRequest_ok_def ControlGrant_ok_def
        ControlRequest_effects_def TargetRef_ok_def SnapshotRef_ok_def)
  then obtain candidate s pm where steps:
    "ControlPermit_from_dict (PDict (items (ControlPermit_unsigned ?c @ [unsigned_placeholder]))) = Inr candidate"
    "ControlSigner_sign ed signer ''control_permit'' (ControlPermit_unsigned_dict candidate) = Inr s"
    "ControlPermit_from_dict (PDict (items (ControlPermit_unsigned candidate @ [(''signature'', PStr s)]))) = Inr pm"
    by (rule permit_candidate_signed [OF assms(1-3)])
  have uuid: "canonical_uuid ''permit_id'' (PStr permit_id) = Inr permit_id"
    using id by (simp add: accepts)
  have "list_ex (\<lambda>effect. effect \<notin> set (gr_effects g)) (ControlRequest_effects r) = False"
    using effects by (auto simp add: list_ex_iff)
  then have "issue_permit ed signer (sg_verifier signer) p g r permit_id issued expires = Inr pm"
    using verify valid scope sizes(1) [OF n(1)] sizes(2) sizes(3) [OF m(1)] times rd(1) n(1) m(1) pd key(1) uuid routes steps
    by (simp add: issue_permit_def Let_def permit_for_def ControlPermit_unsigned_def deny_if_def not_less)
  then show ?thesis by blast
qed

text \<open>C26: Issuing never fails on a request that is in scope. For a valid policy, a well-formed request
  and a well-formed grant that verify, \<open>issue_permit\<close> returns a permit whenever the target, the
  operation, the data class, one requested route and the sizes are granted and the permit would expire
  with the grant, the request and the deadline horizon. The effects need no condition of their own:
  those of a granted operation are in a verified grant.\<close>

theorem issue_permit_complete:
  assumes "ed25519_ok ed" "length private = 32" "signer = ControlSigner_init ed private"
    and policy: "ControlPolicy_post_init p = Inr ()" and request: "ControlRequest_ok r" and grant: "ControlGrant_ok g"
    and verify: "verify_grant ed g (sg_verifier signer) p issued (rq_subject_id r) = Inr ()"
    and valid: "validate_request p r issued None = Inr ()"
    and scope: "tr_target_id (rq_target r) \<in> set (gr_target_ids g)" "tr_kind (rq_target r) \<in> set (gr_target_kinds g)"
      "rq_operation r \<in> set (gr_operations g)" "rq_data_class r \<in> set (gr_data_classes g)"
      "set (rq_requested_routes r) \<inter> set (gr_routes g) \<noteq> {}"
    and sizes: "\<And>n. argument_bytes r = Inr n \<Longrightarrow> int n \<le> gr_max_input_bytes g"
      "rq_max_output_bytes r \<le> gr_max_output_bytes g"
      "\<And>n. transmit_bytes r = Inr n \<Longrightarrow> n \<le> gr_max_transmit_bytes g"
    and times: "issued < expires" "expires \<le> gr_expires_at_ms g" "expires \<le> rq_deadline_ms r"
      "expires \<le> issued + MAX_DEADLINE_HORIZON_MS"
    and id: "canonical_uuid_text permit_id"
  shows "\<exists>pm. issue_permit ed signer (sg_verifier signer) p g r permit_id issued expires = Inr pm"
  using assms by (rule issue_permit_defined)

lemma grant_candidate_signed:
  assumes "ed25519_ok ed" "length private = 32" "signer = ControlSigner_init ed private"
    and "ControlGrant_ok (c\<lparr>gr_signature := replicate 86 65\<rparr>)"
  obtains candidate s g where
    "ControlGrant_from_dict (PDict (items (ControlGrant_unsigned c @ [unsigned_placeholder]))) = Inr candidate"
    "ControlSigner_sign ed signer ''control_grant'' (ControlGrant_unsigned_dict candidate) = Inr s"
    "ControlGrant_from_dict (PDict (items (ControlGrant_unsigned candidate @ [(''signature'', PStr s)]))) = Inr g"
proof -
  let ?c = "c\<lparr>gr_signature := replicate 86 65\<rparr>"
  have candidate: "ControlGrant_from_dict (PDict (items (ControlGrant_unsigned c @ [unsigned_placeholder]))) = Inr ?c"
    using grant_to_dict_iff [of ?c ?c] assms(4)
    by (simp add: ControlGrant_to_dict_def unsigned_placeholder_def ControlGrant_unsigned_def)
  have "fits 2 (200, 20000) (ControlGrant_unsigned_dict ?c)"
    using grant_fits [OF assms(4)] unfolding ControlGrant_to_dict_def ControlGrant_unsigned_dict_def
    by (rule fits_prefix)
  then obtain s where s: "ControlSigner_sign ed signer ''control_grant'' (ControlGrant_unsigned_dict ?c) = Inr s"
    using sign_defined kinds_safe by (fastforce simp add: limits)
  have "ControlGrant_ok (c\<lparr>gr_signature := s\<rparr>)"
    using assms(4) verify_sign(2) [OF assms(1-3) s] by (simp add: ControlGrant_ok_def)
  then have "ControlGrant_from_dict (PDict (items (ControlGrant_unsigned ?c @ [(''signature'', PStr s)])))
      = Inr (c\<lparr>gr_signature := s\<rparr>)"
    using grant_to_dict_iff [of "c\<lparr>gr_signature := s\<rparr>" "c\<lparr>gr_signature := s\<rparr>"]
    by (simp add: ControlGrant_to_dict_def ControlGrant_unsigned_def)
  with candidate s that show thesis by blast
qed

lemma issue_grant_defined:
  assumes "ed25519_ok ed" "length private = 32" "signer = ControlSigner_init ed private"
    and policy: "ControlPolicy_post_init p = Inr ()"
    and ids: "canonical_uuid_text grant_id" "safe_id_text subject_id" "list_all opaque_id_text target_ids"
      "length (remdups target_ids) \<le> DEFAULT_TUPLE"
    and nonempty: "target_ids \<noteq> []" "target_kinds \<noteq> []" "operations \<noteq> []" "classes \<noteq> []" "routes \<noteq> []"
    and scope: "set target_kinds \<subseteq> po_allowed_target_kinds p" "set classes \<subseteq> po_allowed_data_classes p"
      "list_all (\<lambda>operation. route_map p operation \<noteq> None) operations" "set routes \<subseteq> allowed_routes p operations"
    and window: "window_ok MAX_GRANT_LIFETIME_MS issued expires"
    and numbers: "1 \<le> action_count" "action_count \<le> MAX_ACTION_COUNT" "1 \<le> input_bytes"
      "input_bytes \<le> int MAX_STRING_BYTES" "1 \<le> output_bytes" "output_bytes \<le> MAX_OUTPUT_BYTES"
      "0 \<le> transmit" "transmit \<le> MAX_UPLOAD_BYTES"
  shows "\<exists>g. issue_grant ed signer p grant_id subject_id target_ids target_kinds operations classes routes
    issued expires action_count input_bytes output_bytes transmit = Inr g"
proof -
  let ?ops = "sort_key (by_value Operation) (remdups operations)"
  let ?routes = "filter (\<lambda>route. route \<in> set routes) ROUTE_ORDER"
  obtain kinds where kinds: "sorted_values TargetKind (set target_kinds) = PList (map (enum_py TargetKind) kinds)"
    "set kinds = set target_kinds" "length kinds \<le> 3" "distinct kinds" "sorted (map (by_value TargetKind) kinds)"
    using tk.sorted_values_enum [of "set target_kinds"] by (auto simp add: TargetKind_def)
  obtain cs where cs: "sorted_values ControlDataClass (set classes) = PList (map (enum_py ControlDataClass) cs)"
    "set cs = set classes" "length cs \<le> 5" "distinct cs" "sorted (map (by_value ControlDataClass) cs)"
    using dcl.sorted_values_enum [of "set classes"] by (auto simp add: ControlDataClass_def)
  obtain pd where pd: "ControlPolicy_digest p = Inr pd" "digest_text pd"
    using policy_digest_defined [OF policy] by blast
  have ops: "length ?ops \<le> 8" "?ops \<noteq> []"
    using distinct_length [of "remdups operations" "fst Operation"] opn.members nonempty(3)
    by (simp_all add: Operation_def)
  have effs: "length (effects_of ?ops) \<le> 5" "effects_of ?ops \<noteq> []"
  proof -
    show "length (effects_of ?ops) \<le> 5"
      using distinct_length [of "effects_of ?ops" "fst Effect"] eff.members
      by (simp add: effects_of_def Effect_def)
    obtain operation where "operation \<in> set operations" using nonempty(3) by (cases operations) auto
    then have "operation \<in> set ?ops" by simp
    moreover have "effects (OPERATION_SPECS operation) \<noteq> []" by (cases operation) simp_all
    ultimately show "effects_of ?ops \<noteq> []"
      using set_effects_of [of ?ops] by (metis UN_I empty_iff empty_set list.set_intros(1) neq_Nil_conv)
  qed
  have "ordered_by ROUTE_INDEX (length ROUTE_ORDER) ROUTE_ORDER"
    by (simp add: ordered_by_def ROUTE_ORDER_def)
  moreover have "?routes \<noteq> []"
    using nonempty(5) ROUTE_ORDER_facts(1) by (cases routes) (auto simp add: filter_empty_conv)
  ultimately have routes: "ordered_by ROUTE_INDEX (length ROUTE_ORDER) ?routes"
    by (rule ordered_by_filter)
  let ?c = "\<lparr>gr_grant_id = grant_id, gr_subject_id = subject_id, gr_target_ids = sort (remdups target_ids),
    gr_target_kinds = kinds, gr_operations = ?ops, gr_effects = effects_of ?ops, gr_data_classes = cs,
    gr_routes = ?routes, gr_issued_at_ms = issued, gr_expires_at_ms = expires,
    gr_maximum_action_count = action_count, gr_max_input_bytes = input_bytes, gr_max_output_bytes = output_bytes,
    gr_max_transmit_bytes = transmit, gr_policy_digest = pd, gr_authority_key_id = sg_key_id signer,
    gr_signature = [], gr_schema_version = CONTROL_SCHEMA_VERSION\<rparr>"
  have lists: "ordered_by id DEFAULT_TUPLE (sort (remdups target_ids))" "ordered_by (by_value TargetKind) DEFAULT_TUPLE kinds"
    "ordered_by (by_value Operation) DEFAULT_TUPLE ?ops" "ordered_by (by_value Effect) DEFAULT_TUPLE (effects_of ?ops)"
    "ordered_by (by_value ControlDataClass) DEFAULT_TUPLE cs"
  proof -
    show "ordered_by id DEFAULT_TUPLE (sort (remdups target_ids))"
      using ids(4) nonempty(1) by (simp add: ordered_by_def)
    show "ordered_by (by_value TargetKind) DEFAULT_TUPLE kinds"
      using kinds nonempty(2) by (auto simp add: ordered_by_def limits)
    show "ordered_by (by_value Operation) DEFAULT_TUPLE ?ops"
      using ops by (simp add: ordered_by_def limits)
    show "ordered_by (by_value Effect) DEFAULT_TUPLE (effects_of ?ops)"
      using effs by (simp add: ordered_by_def limits) (simp add: effects_of_def)
    show "ordered_by (by_value ControlDataClass) DEFAULT_TUPLE cs"
      using cs nonempty(4) by (auto simp add: ordered_by_def limits)
  qed
  have key: "key_id_text (sg_key_id signer)"
    using key_id_init by (simp add: assms(3))
  have "list_all opaque_id_text (sort (remdups target_ids))"
    using ids(3) by (simp add: list_all_iff)
  then have "ControlGrant_ok (?c\<lparr>gr_signature := replicate 86 65\<rparr>)"
    using ids lists routes window numbers pd(2) key placeholder_text by (simp add: ControlGrant_ok_def)
  then obtain candidate s g where steps:
    "ControlGrant_from_dict (PDict (items (ControlGrant_unsigned ?c @ [unsigned_placeholder]))) = Inr candidate"
    "ControlSigner_sign ed signer ''control_grant'' (ControlGrant_unsigned_dict candidate) = Inr s"
    "ControlGrant_from_dict (PDict (items (ControlGrant_unsigned candidate @ [(''signature'', PStr s)]))) = Inr g"
    by (rule grant_candidate_signed [OF assms(1-3)])
  have fields: "canonical_uuid ''grant_id'' (PStr grant_id) = Inr grant_id"
    "safe_identifier ''subject_id'' (PStr subject_id) = Inr subject_id"
    "traverse (\<lambda>t. opaque_id ''target_id'' (PStr t)) target_ids = Inr target_ids"
    using ids by (simp_all add: accepts traverse_Inr_iff list_all2_same list_all_iff)
  have checks: "list_all (\<lambda>operation. route_map p operation \<noteq> None) ?ops" "set routes \<subseteq> allowed_routes p ?ops"
    using scope(3,4) by (auto simp add: list_all_iff allowed_routes_def)
  have "issue_grant ed signer p grant_id subject_id target_ids target_kinds operations classes routes
    issued expires action_count input_bytes output_bytes transmit = Inr g"
    using scope(1,2) checks nonempty fields pd(1) steps
    by (simp add: issue_grant_def Let_def ControlGrant_unsigned_def kinds(1) cs(1) del: not_None_eq)
  then show ?thesis by blast
qed

lemma preparation_candidate_signed:
  assumes "ed25519_ok ed" "length private = 32" "signer = ControlSigner_init ed private"
    and "ControlPreparation_ok (c\<lparr>pr_signature := replicate 86 65\<rparr>)"
  obtains s where
    "ControlPreparation_from_dict (PDict (items (ControlPreparation_unsigned c @ [unsigned_placeholder])))
       = Inr (c\<lparr>pr_signature := replicate 86 65\<rparr>)"
    "ControlSigner_sign ed signer ''control_prepare''
       (ControlPreparation_unsigned_dict (c\<lparr>pr_signature := replicate 86 65\<rparr>)) = Inr s"
    "ControlPreparation_from_dict (PDict (items (ControlPreparation_unsigned (c\<lparr>pr_signature := replicate 86 65\<rparr>)
       @ [(''signature'', PStr s)]))) = Inr (c\<lparr>pr_signature := s\<rparr>)"
proof -
  let ?c = "c\<lparr>pr_signature := replicate 86 65\<rparr>"
  have candidate: "ControlPreparation_from_dict (PDict (items (ControlPreparation_unsigned c @ [unsigned_placeholder]))) = Inr ?c"
    using preparation.from_to [OF assms(4)]
    by (simp add: ControlPreparation_to_dict_def unsigned_placeholder_def ControlPreparation_unsigned_def)
  have "fits 2 (60, 30000) (ControlPreparation_unsigned_dict ?c)"
    using preparation_fits [OF assms(4)] unfolding ControlPreparation_to_dict_def ControlPreparation_unsigned_dict_def
    by (rule fits_prefix)
  then obtain s where s: "ControlSigner_sign ed signer ''control_prepare'' (ControlPreparation_unsigned_dict ?c) = Inr s"
    using sign_defined kinds_safe by (fastforce simp add: limits)
  have "ControlPreparation_ok (c\<lparr>pr_signature := s\<rparr>)"
    using assms(4) verify_sign(2) [OF assms(1-3) s] by (simp add: ControlPreparation_ok_def)
  then have "ControlPreparation_from_dict (PDict (items (ControlPreparation_unsigned ?c @ [(''signature'', PStr s)])))
      = Inr (c\<lparr>pr_signature := s\<rparr>)"
    using preparation.from_to [of "c\<lparr>pr_signature := s\<rparr>"]
    by (simp add: ControlPreparation_to_dict_def ControlPreparation_unsigned_def)
  with candidate s that show thesis by blast
qed

lemma issue_preparation_defined:
  assumes "ed25519_ok ed" "length private = 32" "signer = ControlSigner_init ed private"
    and policy: "ControlPolicy_post_init p = Inr ()"
    and ids: "canonical_uuid_text preparation_id" "canonical_uuid_text request_id" "safe_id_text subject_id"
    and scope: "route \<in> set (policy_routes p operation)" "data_class \<in> data_classes (OPERATION_SPECS operation)"
      "operation \<noteq> UPLOAD" "preparation_arguments_ok operation route selector arguments"
    and window: "window_ok MAX_PREPARATION_LIFETIME_MS issued expires"
  shows "\<exists>env. issue_control_preparation ed signer p preparation_id request_id subject_id operation data_class
    route selector arguments issued expires = Inr env"
proof -
  obtain pd where pd: "ControlPolicy_digest p = Inr pd" "digest_text pd"
    using policy_digest_defined [OF policy] by blast
  let ?c = "\<lparr>pr_preparation_id = preparation_id, pr_request_id = request_id, pr_subject_id = subject_id,
    pr_operation = operation, pr_data_class = data_class, pr_route = route, pr_selector = selector,
    pr_arguments = arguments, pr_issued_at_ms = issued, pr_expires_at_ms = expires, pr_policy_digest = pd,
    pr_authority_key_id = sg_key_id signer, pr_signature = [], pr_schema_version = CONTROL_SCHEMA_VERSION\<rparr>"
  have "safe_id_text selector"
    using scope(4) by (simp add: preparation_arguments_ok_iff selector_ok_def)
  moreover have "key_id_text (sg_key_id signer)"
    using key_id_init by (simp add: assms(3))
  ultimately have "ControlPreparation_ok (?c\<lparr>pr_signature := replicate 86 65\<rparr>)"
    using ids scope window pd(2) placeholder_text by (simp add: ControlPreparation_ok_def)
  then obtain s where
    "ControlPreparation_from_dict (PDict (items (ControlPreparation_unsigned ?c @ [unsigned_placeholder])))
       = Inr (?c\<lparr>pr_signature := replicate 86 65\<rparr>)"
    "ControlSigner_sign ed signer ''control_prepare''
       (ControlPreparation_unsigned_dict (?c\<lparr>pr_signature := replicate 86 65\<rparr>)) = Inr s"
    "ControlPreparation_from_dict (PDict (items (ControlPreparation_unsigned (?c\<lparr>pr_signature := replicate 86 65\<rparr>)
       @ [(''signature'', PStr s)]))) = Inr (?c\<lparr>pr_signature := s\<rparr>)"
    by (rule preparation_candidate_signed [OF assms(1-3)])
  then show ?thesis
    using scope(1,2) pd(1) by (simp add: issue_control_preparation_def Let_def ControlPreparation_unsigned_def)
qed

text \<open>\<open>issue_grant\<close> returns a grant whenever the scope it is asked for lies within the policy and
  its numbers lie within the bounds of the protocol.\<close>

theorem issue_grant_complete:
  assumes "ed25519_ok ed" "length private = 32" "signer = ControlSigner_init ed private"
    and policy: "ControlPolicy_post_init p = Inr ()"
    and ids: "canonical_uuid_text grant_id" "safe_id_text subject_id" "list_all opaque_id_text target_ids"
      "length (remdups target_ids) \<le> DEFAULT_TUPLE"
    and nonempty: "target_ids \<noteq> []" "target_kinds \<noteq> []" "operations \<noteq> []" "classes \<noteq> []" "routes \<noteq> []"
    and scope: "set target_kinds \<subseteq> po_allowed_target_kinds p" "set classes \<subseteq> po_allowed_data_classes p"
      "list_all (\<lambda>operation. route_map p operation \<noteq> None) operations" "set routes \<subseteq> allowed_routes p operations"
    and window: "window_ok MAX_GRANT_LIFETIME_MS issued expires"
    and numbers: "1 \<le> action_count" "action_count \<le> MAX_ACTION_COUNT" "1 \<le> input_bytes"
      "input_bytes \<le> int MAX_STRING_BYTES" "1 \<le> output_bytes" "output_bytes \<le> MAX_OUTPUT_BYTES"
      "0 \<le> transmit" "transmit \<le> MAX_UPLOAD_BYTES"
  shows "\<exists>g. issue_grant ed signer p grant_id subject_id target_ids target_kinds operations classes routes
    issued expires action_count input_bytes output_bytes transmit = Inr g"
  using assms by (rule issue_grant_defined)

section \<open>Records on the wire\<close>

text \<open>C24: \<open>ControlRequest.from_dict\<close> accepts exactly the dictionaries that equal the \<open>to_dict\<close> of a
  well-formed request, and returns that request: nothing is dropped, defaulted or coerced.\<close>

theorem request_from_dict_exact:
  assumes "wf_py v"
  shows "ControlRequest_from_dict v = Inr r \<longleftrightarrow> ControlRequest_ok r \<and> psort v = psort (ControlRequest_to_dict r)"
  using assms by (rule request.from_dict_iff)

text \<open>C25: Every well-formed envelope has a frame, and a decoder that receives this frame in any chunks
  yields one dictionary, which \<open>from_dict\<close> turns back into the envelope.\<close>

theorem envelope_wire_roundtrip:
  assumes "ControlEnvelope_ok e" "Suc MAX_JSON_DEPTH \<le> limit"
  shows "\<exists>frame. ControlEnvelope_to_frame e = Inr frame \<and>
    (\<forall>chunks. concat chunks = frame \<longrightarrow> list_all (\<lambda>c. length c \<le> MAX_FEED_BYTES) chunks \<longrightarrow>
      (\<exists>v. feed_all limit \<lparr>maximum_frame_bytes = MAX_FRAME_BYTES, buffer = [], poisoned = False\<rparr> chunks
         = (\<lparr>maximum_frame_bytes = MAX_FRAME_BYTES, buffer = [], poisoned = False\<rparr>, Inr [v])
         \<and> ControlEnvelope_from_dict v = Inr e))"
proof -
  let ?d = "\<lparr>maximum_frame_bytes = MAX_FRAME_BYTES, buffer = [], poisoned = False\<rparr>"
  obtain frame where frame: "encode_frame (ControlEnvelope_to_dict e) = Inr frame"
    using envelope.frame_defined [OF assms(1)] by blast
  then have len: "length frame \<le> 4 + MAX_FRAME_BYTES"
    by (auto simp add: encode_frame_def canonical_json_bytes_Inr_iff)
  have wf: "wf_py (ControlEnvelope_to_dict e)"
    using assms(1) by (rule envelope.to_dict_wf)
  have "feed_all limit ?d chunks = (?d, Inr [psort (ControlEnvelope_to_dict e)])"
    if "concat chunks = frame" "list_all (\<lambda>c. length c \<le> MAX_FEED_BYTES) chunks" for chunks
  proof -
    have "feed_all limit ?d chunks = (?d, Inr (map psort [ControlEnvelope_to_dict e])) \<and> finish ?d = (?d, Inr ())"
    proof (rule feed_all_stream [where frames = "[frame]" and maximum = "int MAX_FRAME_BYTES"])
      show "traverse encode_frame [ControlEnvelope_to_dict e] = Inr [frame]" using frame by simp
      show "new_decoder (int MAX_FRAME_BYTES) = Inr ?d" by (simp add: new_decoder_def limits)
      show "(\<exists>kvs. v = PDict kvs) \<and> wf_py v" if "v \<in> set [ControlEnvelope_to_dict e]" for v
        using that wf envelope.to_dict_dict by simp
    qed (use that len assms(2) in \<open>auto simp add: list_all_iff\<close>)
    then show ?thesis by simp
  qed
  moreover have "ControlEnvelope_from_dict (psort (ControlEnvelope_to_dict e)) = Inr e"
    using assms(1) wf by (simp add: envelope.from_dict_iff)
  ultimately show ?thesis
    using frame by (auto simp add: ControlEnvelope_to_frame_def)
qed

end
