(* ===== verification/Journal_Inv.thy ===== *)
theory Journal_Inv
  imports Journal_Ops Kernel_Bounds
begin

text \<open>
  The invariant of the journal database, and its preservation by every operation. The tables are tied
  together: each claim adds one permit and one effect, counts one use of its grant and takes the next
  sequence number of its session; a target never goes back behind the effects claimed on it.
\<close>

section \<open>What a claim has checked\<close>

lemma request_from_dict_ok: "ControlRequest_from_dict v = Inr r \<Longrightarrow> ControlRequest_ok r"
proof -
  assume r: "ControlRequest_from_dict v = Inr r"
  have target: "TargetRef_from_dict u = Inr t \<Longrightarrow> TargetRef_ok t" for u t
    by (auto simp add: TargetRef_from_dict_def TargetRef_ok_def accepts)
  have snapshot: "SnapshotRef_from_dict u = Inr s \<Longrightarrow> SnapshotRef_ok s" for u s
    by (auto simp add: SnapshotRef_from_dict_def SnapshotRef_ok_def accepts)
  have arguments: "validate_operation_arguments operation u = Inr args \<Longrightarrow> arguments_ok operation args" for operation u args
    using arguments_sound arguments_ok_iff by blast
  show ?thesis
    using r by (auto simp add: ControlRequest_from_dict_def ControlRequest_ok_def accepts
        dest: target snapshot arguments)
qed

lemma envelope_from_dict_ok:
  assumes "ControlEnvelope_from_dict (ControlEnvelope_to_dict envelope) = Inr env"
  shows "ControlEnvelope_ok env"
proof -
  obtain r g pm where parts: "ControlRequest_from_dict (ControlRequest_to_dict (en_request envelope)) = Inr r"
    "ControlGrant_from_dict (ControlGrant_to_dict (en_grant envelope)) = Inr g"
    "ControlPermit_from_dict (ControlPermit_to_dict (en_permit envelope)) = Inr pm"
    and env: "env = \<lparr>en_request = r, en_grant = g, en_permit = pm,
      en_protocol_version = CONTROL_PROTOCOL_VERSION, en_message_type = str CONTROL_MESSAGE_TYPE\<rparr>"
    using assms by (auto simp add: ControlEnvelope_from_dict_def ControlEnvelope_to_dict_def accepts)
  show ?thesis
    using request_from_dict_ok [OF parts(1)] parts(2,3)
    by (simp add: env ControlEnvelope_ok_def grant_to_dict_iff permit_to_dict_iff)
qed

text \<open>What the authority checks leave for the transaction.\<close>

definition claim_ready :: "ControlEnvelope \<Rightarrow> ControlRoute \<Rightarrow> int \<Rightarrow> pystr \<Rightarrow> pystr \<Rightarrow> bool" where
  "claim_ready env route timestamp grant_binding permit_binding \<longleftrightarrow>
     ControlEnvelope_ok env \<and> 0 \<le> timestamp \<and> timestamp \<le> MAX_SAFE_INTEGER
     \<and> pm_grant_id (en_permit env) = gr_grant_id (en_grant env)
     \<and> timestamp < gr_expires_at_ms (en_grant env) \<and> timestamp < pm_expires_at_ms (en_permit env)
     \<and> content_digest (ControlGrant_to_dict (en_grant env)) = Inr grant_binding
     \<and> content_digest (ControlPermit_to_dict (en_permit env)) = Inr permit_binding
     \<and> digest_text grant_binding \<and> digest_text permit_binding"

lemma content_digest_text: "content_digest v = Inr d \<Longrightarrow> digest_text d"
  by (auto simp add: content_digest_def digest_text_def prefixed_hex64I)

lemma claim_authority_ready:
  assumes "claim_authority ed envelope route vf p live now = Inr (env, timestamp, gb, pb)"
  shows "claim_ready env route timestamp gb pb" "timestamp = now"
    and "verify_envelope_authority ed env vf p now [route] (Some live) = Inr route"
    and "ControlEnvelope_from_dict (ControlEnvelope_to_dict envelope) = Inr env"
proof -
  have steps: "ControlEnvelope_from_dict (ControlEnvelope_to_dict envelope) = Inr env"
    "verify_envelope_authority ed env vf p now [route] (Some live) = Inr route"
    "timestamp = now" "0 \<le> now" "now \<le> MAX_SAFE_INTEGER" "now < gr_expires_at_ms (en_grant env)"
    "now < pm_expires_at_ms (en_permit env)"
    "content_digest (ControlGrant_to_dict (en_grant env)) = Inr gb"
    "content_digest (ControlPermit_to_dict (en_permit env)) = Inr pb"
    using assms by (auto simp add: claim_authority_def accepts not_le not_less simp del: limits)
  have "pm_grant_id (en_permit env) = gr_grant_id (en_grant env)"
    by (rule verify_envelope_InrE [OF steps(2)]) (simp add: envelope_checks_def)
  then show "claim_ready env route timestamp gb pb"
    using steps envelope_from_dict_ok content_digest_text by (auto simp add: claim_ready_def)
  show "timestamp = now" "verify_envelope_authority ed env vf p now [route] (Some live) = Inr route"
    "ControlEnvelope_from_dict (ControlEnvelope_to_dict envelope) = Inr env"
    using steps by simp_all
qed

section \<open>The invariant\<close>

definition uses :: "permit_row list \<Rightarrow> pystr \<Rightarrow> nat" where
  "uses permits grant_id = length (filter (\<lambda>w. pw_grant_id w = grant_id) permits)"

definition grants_ok :: "grant_row list \<Rightarrow> permit_row list \<Rightarrow> bool" where
  "grants_ok grants permits \<longleftrightarrow> distinct (map gw_grant_id grants)
     \<and> (\<forall>w \<in> set grants. canonical_uuid_text (gw_grant_id w) \<and> digest_text (gw_binding_digest w)
          \<and> 1 \<le> gw_maximum_action_count w \<and> gw_maximum_action_count w \<le> MAX_ACTION_COUNT
          \<and> gw_used_count w = int (uses permits (gw_grant_id w)) \<and> gw_used_count w \<le> gw_maximum_action_count w
          \<and> 1 \<le> gw_expires_at_ms w \<and> gw_expires_at_ms w \<le> MAX_SAFE_INTEGER)"

definition permits_ok :: "permit_row list \<Rightarrow> grant_row list \<Rightarrow> bool" where
  "permits_ok permits grants \<longleftrightarrow> distinct (map pw_permit_id permits)
     \<and> (\<forall>w \<in> set permits. pw_grant_id w \<in> gw_grant_id ` set grants \<and> 0 \<le> pw_consumed_at_ms w
          \<and> pw_consumed_at_ms w < pw_expires_at_ms w \<and> pw_expires_at_ms w \<le> MAX_SAFE_INTEGER)"

definition session_sequences :: "effect_row list \<Rightarrow> pystr \<Rightarrow> int list" where
  "session_sequences efs session_id = map ew_sequence (filter (\<lambda>w. ew_session_id w = session_id) efs)"

definition sessions_ok :: "session_row list \<Rightarrow> effect_row list \<Rightarrow> bool" where
  "sessions_ok sessions efs \<longleftrightarrow> distinct (map sw_session_id sessions)
     \<and> (\<forall>w \<in> set sessions. 1 \<le> sw_last_sequence w \<and> sw_last_sequence w \<le> MAX_SAFE_INTEGER
          \<and> 0 \<le> sw_updated_at_ms w \<and> sw_updated_at_ms w \<le> MAX_SAFE_INTEGER
          \<and> session_sequences efs (sw_session_id w) = [1..sw_last_sequence w])
     \<and> (\<forall>w \<in> set efs. ew_session_id w \<in> sw_session_id ` set sessions)"

text \<open>The order on target versions: a new epoch needs a larger fence, and within an epoch the revision
  stays.\<close>

definition version_le :: "int \<times> pystr \<times> int \<Rightarrow> int \<times> pystr \<times> int \<Rightarrow> bool" where
  "version_le v w = (case (v, w) of ((epoch, revision, fence), (epoch', revision', fence')) \<Rightarrow>
     (epoch = epoch' \<and> revision = revision' \<and> fence \<le> fence') \<or> (epoch < epoch' \<and> fence < fence'))"

definition target_version :: "target_row \<Rightarrow> int \<times> pystr \<times> int" where
  "target_version w = (tw_target_epoch w, tw_target_revision w, tw_fencing_token w)"

definition effect_version :: "effect_row \<Rightarrow> int \<times> pystr \<times> int" where
  "effect_version w = (ew_target_epoch w, ew_target_revision w, ew_fencing_token w)"

definition targets_ok :: "target_row list \<Rightarrow> effect_row list \<Rightarrow> bool" where
  "targets_ok targets efs \<longleftrightarrow> distinct (map tw_target_id targets)
     \<and> (\<forall>w \<in> set targets. tw_target_kind w \<in> range (by_value TargetKind) \<and> revision_text (tw_target_revision w)
          \<and> 1 \<le> tw_target_epoch w \<and> tw_target_epoch w \<le> MAX_SAFE_INTEGER
          \<and> 1 \<le> tw_fencing_token w \<and> tw_fencing_token w \<le> MAX_SAFE_INTEGER
          \<and> 0 \<le> tw_updated_at_ms w \<and> tw_updated_at_ms w \<le> MAX_SAFE_INTEGER)
     \<and> (\<forall>w \<in> set efs. \<exists>t \<in> set targets. tw_target_id t = ew_target_id w
          \<and> tw_target_kind t = ew_target_kind w \<and> version_le (effect_version w) (target_version t))"

text \<open>Every transition goes up in this rank, so an effect has at most four.\<close>

primrec state_rank :: "ControlEffectState \<Rightarrow> int" where
  "state_rank PREPARED = 1"
| "state_rank STARTED = 2"
| "state_rank APPLIED = 3"
| "state_rank UNKNOWN = 4"
| "state_rank VERIFIED = 5"
| "state_rank FAILED = 5"

lemma transition_rank: "new \<in> ALLOWED_TRANSITIONS old \<Longrightarrow> state_rank old < state_rank new"
  by (cases old) auto

lemma state_rank_le: "state_rank state \<le> 5"
  by (cases state) simp_all

definition effects_ok :: "effect_row list \<Rightarrow> permit_row list \<Rightarrow> bool" where
  "effects_ok efs permits \<longleftrightarrow> distinct (map ew_effect_id efs)
     \<and> map (\<lambda>w. (ew_permit_id w, ew_grant_id w)) efs = map (\<lambda>w. (pw_permit_id w, pw_grant_id w)) permits
     \<and> (\<forall>w \<in> set efs. \<exists>e. ControlEffectRecord_ok e \<and> w = effect_to_row e \<and> ef_prepared_at_ms e \<le> ef_updated_at_ms e
          \<and> ef_transition_version e \<le> state_rank (ef_state e))"

definition revocations_ok :: "revocation_row list \<Rightarrow> bool" where
  "revocations_ok revocations \<longleftrightarrow> distinct (map revocation_key revocations)"

definition identity_ok :: "(int \<times> pystr) list \<Rightarrow> bool" where
  "identity_ok identity \<longleftrightarrow> (\<exists>journal_id. identity = [(1, journal_id)] \<and> digest_text journal_id)"

definition journal_ok :: "journal_db \<Rightarrow> bool" where
  "journal_ok db \<longleftrightarrow> identity_ok (db_identity db) \<and> grants_ok (db_grants db) (db_permits db)
     \<and> permits_ok (db_permits db) (db_grants db) \<and> sessions_ok (db_sessions db) (db_effects db)
     \<and> targets_ok (db_targets db) (db_effects db) \<and> effects_ok (db_effects db) (db_permits db)
     \<and> revocations_ok (db_revocations db)"

lemma version_le_refl [simp]: "version_le v v"
  by (simp add: version_le_def split: prod.splits)

lemma version_le_trans [trans]: "version_le u v \<Longrightarrow> version_le v w \<Longrightarrow> version_le u w"
  by (auto simp add: version_le_def split: prod.splits)

lemma new_journal_ok: "digest_text journal_id \<Longrightarrow> journal_ok (new_journal journal_id)"
  by (simp add: journal_ok_def new_journal_def identity_ok_def grants_ok_def permits_ok_def sessions_ok_def
      targets_ok_def effects_ok_def revocations_ok_def)

section \<open>The blocks of a claim\<close>

definition fresh_grant :: "ControlGrant \<Rightarrow> pystr \<Rightarrow> grant_row" where
  "fresh_grant g binding = \<lparr>gw_grant_id = gr_grant_id g, gw_binding_digest = binding,
     gw_maximum_action_count = gr_maximum_action_count g, gw_used_count = 0, gw_expires_at_ms = gr_expires_at_ms g\<rparr>"

text \<open>The tables after the block, as a function of the tables before it.\<close>

definition grants_after :: "ControlGrant \<Rightarrow> pystr \<Rightarrow> grant_row list \<Rightarrow> grant_row list" where
  "grants_after g binding grants =
     (if lookup gw_grant_id (gr_grant_id g) grants = None then grants @ [fresh_grant g binding] else grants)"

definition sessions_after :: "ControlRequest \<Rightarrow> int \<Rightarrow> session_row list \<Rightarrow> session_row list" where
  "sessions_after r timestamp sessions =
    (case lookup sw_session_id (rq_session_id r) sessions of
       None \<Rightarrow> sessions @ [\<lparr>sw_session_id = rq_session_id r, sw_last_sequence = rq_sequence r, sw_updated_at_ms = timestamp\<rparr>]
     | Some _ \<Rightarrow> update_where (\<lambda>w. sw_session_id w = rq_session_id r)
         (\<lambda>w. w\<lparr>sw_last_sequence := rq_sequence r, sw_updated_at_ms := timestamp\<rparr>) sessions)"

definition targets_after :: "TargetRef \<Rightarrow> int \<Rightarrow> target_row list \<Rightarrow> target_row list" where
  "targets_after t timestamp targets =
    (case lookup tw_target_id (tr_target_id t) targets of
       None \<Rightarrow> targets @ [\<lparr>tw_target_id = tr_target_id t, tw_target_kind = by_value TargetKind (tr_kind t),
           tw_target_epoch = tr_epoch t, tw_target_revision = tr_revision t,
           tw_fencing_token = tr_fencing_token t, tw_updated_at_ms = timestamp\<rparr>]
     | Some _ \<Rightarrow> update_where (\<lambda>w. tw_target_id w = tr_target_id t)
         (\<lambda>w. w\<lparr>tw_target_epoch := tr_epoch t, tw_target_revision := tr_revision t,
                tw_fencing_token := tr_fencing_token t, tw_updated_at_ms := timestamp\<rparr>) targets)"

text \<open>What each block accepts, in the terms of the tables.\<close>

definition grant_claimable :: "ControlGrant \<Rightarrow> pystr \<Rightarrow> grant_row list \<Rightarrow> bool" where
  "grant_claimable g binding grants \<longleftrightarrow>
    (case lookup gw_grant_id (gr_grant_id g) grants of
       None \<Rightarrow> True
     | Some w \<Rightarrow> gw_binding_digest w = binding \<and> gw_maximum_action_count w = gr_maximum_action_count g
         \<and> gw_expires_at_ms w = gr_expires_at_ms g \<and> gw_used_count w < gw_maximum_action_count w)"

definition session_claimable :: "ControlRequest \<Rightarrow> int \<Rightarrow> session_row list \<Rightarrow> bool" where
  "session_claimable r timestamp sessions \<longleftrightarrow>
    (case lookup sw_session_id (rq_session_id r) sessions of
       None \<Rightarrow> rq_sequence r = 1
     | Some w \<Rightarrow> rq_sequence r = sw_last_sequence w + 1 \<and> sw_updated_at_ms w \<le> timestamp)"

definition target_claimable :: "TargetRef \<Rightarrow> int \<Rightarrow> target_row list \<Rightarrow> bool" where
  "target_claimable t timestamp targets \<longleftrightarrow>
    (case lookup tw_target_id (tr_target_id t) targets of
       None \<Rightarrow> True
     | Some w \<Rightarrow> tw_target_kind w = by_value TargetKind (tr_kind t) \<and> tw_updated_at_ms w \<le> timestamp
         \<and> version_le (target_version w) (tr_epoch t, tr_revision t, tr_fencing_token t))"

lemma update_where_cong: "(\<And>r. r \<in> set rows \<Longrightarrow> p r = q r) \<Longrightarrow> update_where p f rows = update_where q f rows"
  by (simp add: update_where_def)

lemma by_value_mem [simp]: "by_value E e \<in> range (by_value E)"
  by simp

lemma require_kind_iff [accepts]: "PStr s = enum_py E e \<longleftrightarrow> s = by_value E e"
  by (simp add: enum_py_def by_value_def)

lemma claim_grant_iff:
  assumes "grants_ok (db_grants db) ps" "ControlGrant_ok g" "digest_text gb"
  shows "(\<exists>used. claim_grant g gb db = Inr (db', used) \<and> used < gr_maximum_action_count g) \<longleftrightarrow>
    grant_claimable g gb (db_grants db) \<and> db' = db\<lparr>db_grants := grants_after g gb (db_grants db)\<rparr>"
proof (cases "lookup gw_grant_id (gr_grant_id g) (db_grants db)")
  case None
  have "grant_check db (fresh_grant g gb)" "0 < gr_maximum_action_count g"
    using assms(2) by (simp_all add: grant_check_def fresh_grant_def ControlGrant_ok_def window_ok_def)
  then show ?thesis
    using None by (auto simp add: claim_grant_def accepts grant_claimable_def grants_after_def fresh_grant_def)
next
  case (Some w)
  then have w: "digest_text (gw_binding_digest w)" "1 \<le> gw_maximum_action_count w" "gw_maximum_action_count w \<le> MAX_ACTION_COUNT"
    "0 \<le> gw_used_count w" "gw_used_count w \<le> gw_maximum_action_count w" "1 \<le> gw_expires_at_ms w"
    "gw_expires_at_ms w \<le> MAX_SAFE_INTEGER"
    using assms(1) by (auto simp add: grants_ok_def dest!: lookup_Some_D)
  then show ?thesis
    using Some by (auto simp add: claim_grant_def accepts grant_claimable_def grants_after_def simp del: limits)
qed

lemma claim_session_iff:
  assumes "sessions_ok (db_sessions db) es" "ControlRequest_ok r" "0 \<le> timestamp"
  shows "claim_session r timestamp db = Inr db' \<longleftrightarrow>
    session_claimable r timestamp (db_sessions db) \<and> db' = db\<lparr>db_sessions := sessions_after r timestamp (db_sessions db)\<rparr>"
proof (cases "lookup sw_session_id (rq_session_id r) (db_sessions db)")
  case None
  then show ?thesis
    using assms(3) by (auto simp add: claim_session_def accepts session_claimable_def sessions_after_def session_check_def)
next
  case (Some w)
  then have w: "1 \<le> sw_last_sequence w" "sw_last_sequence w \<le> MAX_SAFE_INTEGER" "0 \<le> sw_updated_at_ms w"
    "sw_updated_at_ms w \<le> MAX_SAFE_INTEGER"
    using assms(1) by (auto simp add: sessions_ok_def dest!: lookup_Some_D)
  have one: "v = w" if "v \<in> set (db_sessions db)" "sw_session_id v = rq_session_id r" for v
    using lookup_in_set [OF _ that(1), of sw_session_id] assms(1) Some that(2) by (simp add: sessions_ok_def)
  have "update_where (\<lambda>v. sw_session_id v = rq_session_id r \<and> sw_last_sequence v = sw_last_sequence w) f (db_sessions db)
      = update_where (\<lambda>v. sw_session_id v = rq_session_id r) f (db_sessions db)" for f
    using one by (intro update_where_cong) auto
  moreover have "1 \<le> rq_sequence r" using assms(2) by (simp add: ControlRequest_ok_def)
  ultimately show ?thesis
    using Some w assms(3) by (auto simp add: claim_session_def accepts session_claimable_def sessions_after_def
        session_check_def list_all_iff simp del: limits)
qed

lemma claim_target_iff:
  assumes "targets_ok (db_targets db) es" "TargetRef_ok t" "0 \<le> timestamp"
  shows "claim_target t timestamp db = Inr db' \<longleftrightarrow>
    target_claimable t timestamp (db_targets db) \<and> db' = db\<lparr>db_targets := targets_after t timestamp (db_targets db)\<rparr>"
proof (cases "lookup tw_target_id (tr_target_id t) (db_targets db)")
  case None
  then show ?thesis
    using assms(2,3) by (auto simp add: claim_target_def accepts target_claimable_def targets_after_def target_check_def
        TargetRef_ok_def)
next
  case (Some w)
  then have w: "tw_target_kind w \<in> range (by_value TargetKind)" "revision_text (tw_target_revision w)"
    "1 \<le> tw_target_epoch w" "tw_target_epoch w \<le> MAX_SAFE_INTEGER" "1 \<le> tw_fencing_token w"
    "tw_fencing_token w \<le> MAX_SAFE_INTEGER" "0 \<le> tw_updated_at_ms w" "tw_updated_at_ms w \<le> MAX_SAFE_INTEGER"
    using assms(1) by (auto simp add: targets_ok_def dest!: lookup_Some_D)
  have t: "0 < tr_epoch t" "0 < tr_fencing_token t" using assms(2) by (simp_all add: TargetRef_ok_def)
  have "list_all (\<lambda>v. tw_target_id v = tr_target_id t \<longrightarrow> target_check db (v\<lparr>tw_target_epoch := tr_epoch t,
      tw_target_revision := tr_revision t, tw_fencing_token := tr_fencing_token t, tw_updated_at_ms := timestamp\<rparr>))
      (db_targets db)"
    using assms t by (auto simp add: list_all_iff target_check_def targets_ok_def)
  moreover obtain kind where kind: "tw_target_kind w = by_value TargetKind kind" using w(1) by blast
  ultimately show ?thesis
    using Some w assms(3) by (auto simp add: claim_target_def accepts target_claimable_def targets_after_def
        version_le_def target_version_def tk.by_value_inj simp del: limits split: if_splits)
qed

section \<open>The claim as a whole\<close>

definition claimable :: "journal_db \<Rightarrow> ControlEnvelope \<Rightarrow> int \<Rightarrow> pystr \<Rightarrow> bool" where
  "claimable db env timestamp grant_binding \<longleftrightarrow>
     \<not> is_revoked_in db REVOKED_GRANT (gr_grant_id (en_grant env))
     \<and> \<not> is_revoked_in db REVOKED_PERMIT (pm_permit_id (en_permit env))
     \<and> grant_claimable (en_grant env) grant_binding (db_grants db)
     \<and> lookup pw_permit_id (pm_permit_id (en_permit env)) (db_permits db) = None
     \<and> session_claimable (en_request env) timestamp (db_sessions db)
     \<and> target_claimable (rq_target (en_request env)) timestamp (db_targets db)"

definition claimed_permit :: "ControlEnvelope \<Rightarrow> pystr \<Rightarrow> pystr \<Rightarrow> int \<Rightarrow> permit_row" where
  "claimed_permit env permit_binding request_digest timestamp =
     \<lparr>pw_permit_id = pm_permit_id (en_permit env), pw_grant_id = gr_grant_id (en_grant env),
      pw_binding_digest = permit_binding, pw_request_digest = request_digest,
      pw_consumed_at_ms = timestamp, pw_expires_at_ms = pm_expires_at_ms (en_permit env)\<rparr>"

definition claimed_db ::
    "journal_db \<Rightarrow> pystr \<Rightarrow> ControlEnvelope \<Rightarrow> ControlRoute \<Rightarrow> int \<Rightarrow> pystr \<Rightarrow> pystr \<Rightarrow> pystr \<Rightarrow> journal_db" where
  "claimed_db db effect_id env route timestamp grant_binding permit_binding request_digest =
     db\<lparr>db_grants := update_where (\<lambda>w. gw_grant_id w = gr_grant_id (en_grant env))
           (\<lambda>w. w\<lparr>gw_used_count := gw_used_count w + 1\<rparr>) (grants_after (en_grant env) grant_binding (db_grants db)),
        db_permits := db_permits db @ [claimed_permit env permit_binding request_digest timestamp],
        db_sessions := sessions_after (en_request env) timestamp (db_sessions db),
        db_targets := targets_after (rq_target (en_request env)) timestamp (db_targets db),
        db_effects := db_effects db @ [claimed_effect effect_id env request_digest route timestamp]\<rparr>"

definition claimed_record ::
    "pystr \<Rightarrow> ControlEnvelope \<Rightarrow> pystr \<Rightarrow> ControlRoute \<Rightarrow> int \<Rightarrow> ControlEffectRecord" where
  "claimed_record effect_id env request_digest route timestamp =
    (let r = en_request env; t = rq_target r in
     \<lparr>ef_effect_id = effect_id, ef_permit_id = pm_permit_id (en_permit env),
      ef_grant_id = gr_grant_id (en_grant env), ef_session_id = rq_session_id r,
      ef_request_id = rq_request_id r, ef_request_digest = request_digest,
      ef_target_kind = tr_kind t, ef_target_id = tr_target_id t,
      ef_target_epoch = tr_epoch t, ef_target_revision = tr_revision t,
      ef_fencing_token = tr_fencing_token t, ef_snapshot_id = sn_snapshot_id (rq_snapshot r),
      ef_sequence = rq_sequence r, ef_operation = rq_operation r,
      ef_route = route, ef_authority_key_id = pm_authority_key_id (en_permit env),
      ef_state = PREPARED, ef_reason_code = str ''none'',
      ef_evidence_digest = EMPTY_EVIDENCE_DIGEST, ef_transition_version = 1,
      ef_prepared_at_ms = timestamp, ef_updated_at_ms = timestamp\<rparr>)"

lemma none_safe: "safe_id_text (str ''none'')"
  by (simp add: safe_id_text_def str_def char_classes)

lemma claimed_record_row:
  "claimed_effect effect_id env request_digest route timestamp
     = effect_to_row (claimed_record effect_id env request_digest route timestamp)"
  by (simp add: claimed_effect_def claimed_record_def effect_to_row_def Let_def)

lemma claimed_record_ok:
  assumes "claim_ready env route timestamp gb pb" "canonical_uuid_text effect_id" "digest_text request_digest"
  shows "ControlEffectRecord_ok (claimed_record effect_id env request_digest route timestamp)"
proof -
  have parts: "ControlRequest_ok (en_request env)" "ControlGrant_ok (en_grant env)" "ControlPermit_ok (en_permit env)"
    using assms(1) by (simp_all add: claim_ready_def ControlEnvelope_ok_def)
  have target: "TargetRef_ok (rq_target (en_request env))" "SnapshotRef_ok (rq_snapshot (en_request env))"
    using parts(1) by (simp_all add: ControlRequest_ok_def)
  have ids: "canonical_uuid_text (pm_permit_id (en_permit env))" "canonical_uuid_text (gr_grant_id (en_grant env))"
    "key_id_text (pm_authority_key_id (en_permit env))"
    using parts(2,3) by (simp_all add: ControlGrant_ok_def ControlPermit_ok_def)
  show ?thesis
    using ids parts(1) target assms none_safe empty_digests(1)
    unfolding ControlEffectRecord_ok_def claimed_record_def Let_def ControlRequest_ok_def TargetRef_ok_def
      SnapshotRef_ok_def claim_ready_def
    by simp
qed

lemma grants_after_lookup:
  assumes "grants_ok grants ps" "grant_claimable g gb grants" "ControlGrant_ok g" "digest_text gb"
  obtains w where "lookup gw_grant_id (gr_grant_id g) (grants_after g gb grants) = Some w"
    "gw_used_count w < gw_maximum_action_count w" "gw_maximum_action_count w = gr_maximum_action_count g"
    "gw_binding_digest w = gb" "gw_expires_at_ms w = gr_expires_at_ms g"
    "distinct (map gw_grant_id (grants_after g gb grants))"
proof (cases "lookup gw_grant_id (gr_grant_id g) grants")
  case None
  then have "lookup gw_grant_id (gr_grant_id g) (grants_after g gb grants) = Some (fresh_grant g gb)"
    by (simp add: grants_after_def lookup_append fresh_grant_def)
  moreover have "distinct (map gw_grant_id (grants_after g gb grants))"
    using assms(1) None by (auto simp add: grants_after_def fresh_grant_def grants_ok_def lookup_None_iff)
  ultimately show thesis using that assms(3) by (auto simp add: fresh_grant_def ControlGrant_ok_def)
next
  case (Some w)
  with that assms show thesis by (auto simp add: grants_after_def grant_claimable_def grants_ok_def)
qed

lemma usable_grant:
  assumes "grants_ok grants ps" "grant_claimable g gb grants" "ControlGrant_ok g" "digest_text gb"
  defines "usable \<equiv> \<lambda>w. gw_grant_id w = gr_grant_id g \<and> gw_used_count w < gw_maximum_action_count w"
    and "gs \<equiv> grants_after g gb grants"
  shows "rowcount usable gs = 1"
    and "update_where usable f gs = update_where (\<lambda>w. gw_grant_id w = gr_grant_id g) f gs"
    and "list_all (\<lambda>w. usable w \<longrightarrow> grant_check db (w\<lparr>gw_used_count := gw_used_count w + 1\<rparr>)) gs"
proof -
  obtain w where w: "lookup gw_grant_id (gr_grant_id g) gs = Some w" "gw_used_count w < gw_maximum_action_count w"
    and d: "distinct (map gw_grant_id gs)"
    using grants_after_lookup [OF assms(1-4)] unfolding gs_def by metis
  show "rowcount usable gs = 1"
    using rowcount_key [OF d] w by (simp add: usable_def)
  have one: "v = w" if "v \<in> set gs" "gw_grant_id v = gr_grant_id g" for v
    using lookup_in_set [OF d that(1)] w that(2) by simp
  show "update_where usable f gs = update_where (\<lambda>w. gw_grant_id w = gr_grant_id g) f gs"
    using one w(2) by (intro update_where_cong) (auto simp add: usable_def)
  have "1 \<le> gw_maximum_action_count v \<and> gw_maximum_action_count v \<le> MAX_ACTION_COUNT \<and> 0 \<le> gw_used_count v
      \<and> 0 < gw_expires_at_ms v" if "v \<in> set gs" for v
    using that assms(1,3) by (auto simp add: gs_def grants_after_def fresh_grant_def grants_ok_def
        ControlGrant_ok_def window_ok_def split: if_splits)
  then show "list_all (\<lambda>w. usable w \<longrightarrow> grant_check db (w\<lparr>gw_used_count := gw_used_count w + 1\<rparr>)) gs"
    by (auto simp add: list_all_iff grant_check_def usable_def)
qed

lemma session_fresh:
  assumes "sessions_ok sessions es" "session_claimable r timestamp sessions" "ew_sequence e = rq_sequence r"
    "ew_session_id e = rq_session_id r"
  shows "lookup effect_key (effect_key e) es = None"
proof (cases "lookup sw_session_id (rq_session_id r) sessions")
  case None
  then have "rq_session_id r \<notin> ew_session_id ` set es"
    using assms(1) by (auto simp add: sessions_ok_def lookup_None_iff)
  then show ?thesis using assms(4) by (auto simp add: lookup_None_iff effect_key_def)
next
  case (Some w)
  then have w: "rq_sequence r = sw_last_sequence w + 1" "session_sequences es (rq_session_id r) = [1..sw_last_sequence w]"
    using assms(1,2) by (auto simp add: sessions_ok_def session_claimable_def dest!: lookup_Some_D)
  have "ew_sequence v \<le> sw_last_sequence w" if "v \<in> set es" "ew_session_id v = rq_session_id r" for v
  proof -
    have "ew_sequence v \<in> set (session_sequences es (rq_session_id r))"
      using that by (auto simp add: session_sequences_def)
    then show ?thesis by (simp add: w(2))
  qed
  then show ?thesis using assms(3,4) w(1) by (fastforce simp add: lookup_None_iff effect_key_def)
qed

lemma effects_permits:
  assumes "effects_ok es ps"
  shows "map ew_permit_id es = map pw_permit_id ps" "map ew_grant_id es = map pw_grant_id ps"
proof -
  have "map (\<lambda>w. (ew_permit_id w, ew_grant_id w)) es = map (\<lambda>w. (pw_permit_id w, pw_grant_id w)) ps"
    using assms by (simp add: effects_ok_def)
  from arg_cong [OF this, of "map fst"] arg_cong [OF this, of "map snd"]
  show "map ew_permit_id es = map pw_permit_id ps" "map ew_grant_id es = map pw_grant_id ps"
    by (simp_all add: comp_def)
qed

lemma sessions_after_lookup: "lookup sw_session_id (rq_session_id r) (sessions_after r timestamp sessions) \<noteq> None"
  by (auto simp add: sessions_after_def lookup_append lookup_update split: option.splits)

lemma targets_after_lookup: "lookup tw_target_id (tr_target_id t) (targets_after t timestamp targets) \<noteq> None"
  by (auto simp add: targets_after_def lookup_append lookup_update split: option.splits)

lemma enum_member_texts: "by_value TargetKind a \<in> set (enum_texts TargetKind)" "by_value Operation b \<in> set (enum_texts Operation)"
  "by_value ControlRoute c \<in> set (enum_texts ControlRoute)"
  "by_value ControlEffectState d \<in> set (enum_texts ControlEffectState)"
  by simp_all

lemma claimed_effect_check:
  assumes "journal_ok db" "claim_ready env route timestamp gb pb" "claimable db env timestamp gb"
    and "db_grants db' = grants" "db_permits db' = db_permits db @ [claimed_permit env pb d timestamp]"
    and "db_sessions db' = sessions_after (en_request env) timestamp (db_sessions db)"
    and "db_targets db' = targets_after (rq_target (en_request env)) timestamp (db_targets db)"
    and "db_effects db' = db_effects db" "lookup gw_grant_id (gr_grant_id (en_grant env)) grants \<noteq> None"
  shows "effect_check db' (claimed_effect effect_id env d route timestamp)"
proof -
  let ?e = "claimed_effect effect_id env d route timestamp"
  have proj: "ew_permit_id ?e = pm_permit_id (en_permit env)" "ew_grant_id ?e = gr_grant_id (en_grant env)"
    "ew_session_id ?e = rq_session_id (en_request env)" "ew_sequence ?e = rq_sequence (en_request env)"
    "ew_target_id ?e = tr_target_id (rq_target (en_request env))"
    by (simp_all add: claimed_effect_def Let_def)
  have "map ew_permit_id (db_effects db) = map pw_permit_id (db_permits db)"
    using assms(1) effects_permits by (auto simp add: journal_ok_def)
  then have "lookup ew_permit_id (pm_permit_id (en_permit env)) (db_effects db) = None"
    using assms(3) by (metis claimable_def list.set_map lookup_None_iff)
  moreover have "lookup effect_key (effect_key ?e) (db_effects db) = None"
    using assms(1,3) by (intro session_fresh [where r = "en_request env"]) (auto simp add: journal_ok_def claimable_def proj)
  moreover have "lookup pw_permit_id (pm_permit_id (en_permit env)) (db_permits db @ [claimed_permit env pb d timestamp]) \<noteq> None"
    by (simp add: lookup_append claimed_permit_def split: option.splits)
  moreover have "0 < ew_target_epoch ?e \<and> 0 < ew_fencing_token ?e \<and> 0 < ew_sequence ?e \<and> 0 < ew_transition_version ?e
      \<and> 0 \<le> ew_prepared_at_ms ?e \<and> ew_prepared_at_ms ?e \<le> ew_updated_at_ms ?e"
    using assms(2) by (simp add: claimed_effect_def Let_def claim_ready_def ControlEnvelope_ok_def ControlRequest_ok_def
        TargetRef_ok_def)
  moreover have "ew_target_kind ?e \<in> set (enum_texts TargetKind) \<and> ew_operation ?e \<in> set (enum_texts Operation)
      \<and> ew_route ?e \<in> set (enum_texts ControlRoute) \<and> ew_state ?e \<in> set (enum_texts ControlEffectState)"
    by (simp add: claimed_effect_def Let_def)
  ultimately show ?thesis
    using assms(4-9) sessions_after_lookup targets_after_lookup by (simp add: effect_check_def proj)
qed

lemma lookup_last:
  "lookup key (key r) rows = None \<Longrightarrow> lookup key (key r) (rows @ [r]) = Some r"
  by (simp add: lookup_append)

lemma rbind_pair_iff:
  "rbind m (\<lambda>(db, used). rbind (reject_if (n \<le> used) reason) (\<lambda>_. f db)) = Inr y \<longleftrightarrow>
   (\<exists>db. (\<exists>used. m = Inr (db, used) \<and> used < n) \<and> f db = Inr y)"
  for n :: int
  by (cases m) (auto simp add: accepts not_le)

lemma claim_tx_iff:
  assumes db: "journal_ok db" and ready: "claim_ready env route timestamp gb pb"
    and fresh: "lookup ew_effect_id effect_id (db_effects db) = None" "canonical_uuid_text effect_id"
    and d: "ControlRequest_digest (en_request env) = Inr d" "digest_text d"
  shows "claim_tx effect_id env route timestamp gb pb db = Inr (db', record) \<longleftrightarrow>
    claimable db env timestamp gb \<and> db' = claimed_db db effect_id env route timestamp gb pb d
    \<and> record = claimed_record effect_id env d route timestamp"
proof -
  let ?r = "en_request env" and ?g = "en_grant env" and ?pm = "en_permit env"
  let ?gs = "grants_after ?g gb (db_grants db)" and ?ps = "db_permits db @ [claimed_permit env pb d timestamp]"
    and ?ss = "sessions_after ?r timestamp (db_sessions db)" and ?ts = "targets_after (rq_target ?r) timestamp (db_targets db)"
  have parts: "ControlRequest_ok ?r" "TargetRef_ok (rq_target ?r)" "ControlGrant_ok ?g" "ControlPermit_ok ?pm" "0 \<le> timestamp"
    "digest_text gb" "timestamp < pm_expires_at_ms ?pm"
    using ready by (auto simp add: claim_ready_def ControlEnvelope_ok_def ControlRequest_ok_def)
  have tables: "grants_ok (db_grants db) (db_permits db)" "sessions_ok (db_sessions db) (db_effects db)"
    "targets_ok (db_targets db) (db_effects db)"
    using db by (simp_all add: journal_ok_def)
  let ?db1 = "db\<lparr>db_grants := ?gs, db_sessions := ?ss, db_targets := ?ts\<rparr>"
  let ?usable = "\<lambda>w. gw_grant_id w = gr_grant_id ?g \<and> gw_used_count w < gw_maximum_action_count w"
  let ?gs' = "update_where (\<lambda>w. gw_grant_id w = gr_grant_id ?g) (\<lambda>w. w\<lparr>gw_used_count := gw_used_count w + 1\<rparr>) ?gs"
  let ?effect = "claimed_effect effect_id env d route timestamp"
  have tail: "insert_permit (claimed_permit env pb d timestamp) ?db1 = Inr (?db1\<lparr>db_permits := ?ps\<rparr>)
      \<and> rowcount ?usable ?gs = 1
      \<and> (\<forall>db. update_grants ?usable (\<lambda>w. w\<lparr>gw_used_count := gw_used_count w + 1\<rparr>) (?db1\<lparr>db_permits := ?ps\<rparr>)
           = Inr (?db1\<lparr>db_permits := ?ps, db_grants := ?gs'\<rparr>))
      \<and> insert_effect ?effect (?db1\<lparr>db_permits := ?ps, db_grants := ?gs'\<rparr>)
           = Inr (claimed_db db effect_id env route timestamp gb pb d)
      \<and> effect_from_connection (claimed_db db effect_id env route timestamp gb pb d) effect_id
           = Inr (claimed_record effect_id env d route timestamp)"
    if c: "claimable db env timestamp gb"
  proof -
    have gc: "grant_claimable ?g gb (db_grants db)" and none: "lookup pw_permit_id (pm_permit_id ?pm) (db_permits db) = None"
      using c by (simp_all add: claimable_def)
    obtain w where w: "lookup gw_grant_id (gr_grant_id ?g) ?gs = Some w"
      using grants_after_lookup [OF tables(1) gc parts(3,6)] by metis
    have "insert_permit (claimed_permit env pb d timestamp) ?db1 = Inr (?db1\<lparr>db_permits := ?ps\<rparr>)"
      using none w parts(5,7) by (simp add: insert_permit_def permit_check_def claimed_permit_def)
    moreover note usable = usable_grant [OF tables(1) gc parts(3,6)]
    moreover have "lookup gw_grant_id (gr_grant_id ?g) ?gs' \<noteq> None"
      using w by (simp add: lookup_update)
    then have "effect_check (?db1\<lparr>db_permits := ?ps, db_grants := ?gs'\<rparr>) ?effect"
      using claimed_effect_check [OF db ready c] by simp
    then have "insert_effect ?effect (?db1\<lparr>db_permits := ?ps, db_grants := ?gs'\<rparr>)
           = Inr (claimed_db db effect_id env route timestamp gb pb d)"
      using fresh(1) by (simp add: insert_effect_def claimed_db_def) (simp add: claimed_effect_def Let_def)
    moreover have "lookup ew_effect_id effect_id (db_effects db @ [?effect]) = Some ?effect"
      using fresh(1) by (simp add: lookup_append) (simp add: claimed_effect_def Let_def)
    then have "effect_from_connection (claimed_db db effect_id env route timestamp gb pb d) effect_id
           = Inr (claimed_record effect_id env d route timestamp)"
      using claimed_record_ok [OF ready fresh(2) d(2)]
      by (simp add: effect_from_connection_def claimed_db_def accepts claimed_record_row)
    ultimately show ?thesis
      by (simp add: update_grants_def)
  qed
  have grant: "(\<exists>used. claim_grant ?g gb db = Inr (db1, used) \<and> used < gr_maximum_action_count ?g) \<longleftrightarrow>
      grant_claimable ?g gb (db_grants db) \<and> db1 = db\<lparr>db_grants := ?gs\<rparr>" for db1
    using tables(1) parts(3,6) by (rule claim_grant_iff)
  have session: "claim_session ?r timestamp db1 = Inr db2 \<longleftrightarrow>
      session_claimable ?r timestamp (db_sessions db) \<and> db2 = db1\<lparr>db_sessions := ?ss\<rparr>"
    if "db_sessions db1 = db_sessions db" for db1 db2
    using claim_session_iff [of db1 "db_effects db", OF _ parts(1,5)] tables(2) that by simp
  have target: "claim_target (rq_target ?r) timestamp db1 = Inr db2 \<longleftrightarrow>
      target_claimable (rq_target ?r) timestamp (db_targets db) \<and> db2 = db1\<lparr>db_targets := ?ts\<rparr>"
    if "db_targets db1 = db_targets db" for db1 db2
    using claim_target_iff [of db1 "db_effects db", OF _ parts(2,5)] tables(3) that by simp
  have "claim_tx effect_id env route timestamp gb pb db = Inr (db', record) \<longleftrightarrow>
      claimable db env timestamp gb \<and>
      rbind (insert_permit (claimed_permit env pb d timestamp) ?db1) (\<lambda>db.
        rbind (update_grants ?usable (\<lambda>w. w\<lparr>gw_used_count := gw_used_count w + 1\<rparr>) db) (\<lambda>db'.
        rbind (reject_if (rowcount ?usable (db_grants db) \<noteq> 1) ''grant_exhausted'') (\<lambda>_.
        rbind (insert_effect ?effect db') (\<lambda>db.
        rbind (effect_from_connection db effect_id) (\<lambda>record. Inr (db, record)))))) = Inr (db', record)"
    unfolding claim_tx_def Let_def rbind_pair_iff rbind_Inr_iff [of "reject_if c reason" for c reason] reject_if_Inr_iff
      grant
    by (simp add: rbind_Inr_iff [of "claim_session r t x" for r t x] rbind_Inr_iff [of "claim_target r t x" for r t x]
        session target d(1) claimable_def claimed_permit_def)
  also have "\<dots> \<longleftrightarrow> claimable db env timestamp gb \<and> db' = claimed_db db effect_id env route timestamp gb pb d
    \<and> record = claimed_record effect_id env d route timestamp"
    using tail by auto
  finally show ?thesis .
qed

section \<open>A claim keeps the invariant\<close>

lemma uses_append: "uses (ps @ [p]) gid = uses ps gid + (if pw_grant_id p = gid then 1 else 0)"
  by (simp add: uses_def)

lemma session_sequences_append:
  "session_sequences (es @ [e]) sid = session_sequences es sid @ (if ew_session_id e = sid then [ew_sequence e] else [])"
  by (simp add: session_sequences_def)

lemma grants_ok_claim:
  assumes ok: "grants_ok grants ps" "permits_ok ps grants" and c: "grant_claimable g gb grants" "ControlGrant_ok g" "digest_text gb"
    and p: "pw_grant_id p = gr_grant_id g"
  shows "grants_ok (update_where (\<lambda>w. gw_grant_id w = gr_grant_id g) (\<lambda>w. w\<lparr>gw_used_count := gw_used_count w + 1\<rparr>)
    (grants_after g gb grants)) (ps @ [p])"
proof -
  let ?gs = "grants_after g gb grants"
  obtain w where w: "lookup gw_grant_id (gr_grant_id g) ?gs = Some w" "gw_used_count w < gw_maximum_action_count w"
    "gw_maximum_action_count w = gr_maximum_action_count g" and d: "distinct (map gw_grant_id ?gs)"
    using grants_after_lookup [OF ok(1) c] by metis
  have one: "v = w" if "v \<in> set ?gs" "gw_grant_id v = gr_grant_id g" for v
    using lookup_in_set [OF d that(1)] w that(2) by simp
  have unused: "uses ps (gr_grant_id g) = 0" if "lookup gw_grant_id (gr_grant_id g) grants = None"
    using that ok(2) by (simp add: uses_def permits_ok_def lookup_None_iff filter_empty_conv) metis
  have row: "canonical_uuid_text (gw_grant_id v) \<and> digest_text (gw_binding_digest v) \<and> 1 \<le> gw_maximum_action_count v
      \<and> gw_maximum_action_count v \<le> MAX_ACTION_COUNT \<and> gw_used_count v = int (uses ps (gw_grant_id v))
      \<and> gw_used_count v \<le> gw_maximum_action_count v \<and> 1 \<le> gw_expires_at_ms v \<and> gw_expires_at_ms v \<le> MAX_SAFE_INTEGER"
    if "v \<in> set ?gs" for v
    using that ok(1) c(2,3) unused by (auto simp add: grants_after_def fresh_grant_def grants_ok_def
        ControlGrant_ok_def window_ok_def simp del: limits split: if_splits)
  have "canonical_uuid_text (gr_grant_id g)" using c(2) by (simp add: ControlGrant_ok_def)
  then show ?thesis
    using row one w(2) d p
    by (auto simp add: grants_ok_def map_key_update set_update_where uses_append simp del: limits)
qed

lemma permits_ok_claim:
  assumes "permits_ok ps grants" "lookup pw_permit_id (pw_permit_id p) ps = None"
    and "pw_grant_id p = gr_grant_id g" "0 \<le> pw_consumed_at_ms p" "pw_consumed_at_ms p < pw_expires_at_ms p"
    "pw_expires_at_ms p \<le> MAX_SAFE_INTEGER"
  shows "permits_ok (ps @ [p]) (update_where (\<lambda>w. gw_grant_id w = gr_grant_id g) (\<lambda>w. w\<lparr>gw_used_count := gw_used_count w + 1\<rparr>)
    (grants_after g gb grants))"
proof -
  have ids: "gw_grant_id ` set (update_where q (\<lambda>w. w\<lparr>gw_used_count := gw_used_count w + 1\<rparr>) gs) = gw_grant_id ` set gs" for q gs
    by (rule key_image_update) simp
  have "gw_grant_id ` set grants \<union> {gr_grant_id g} \<subseteq> gw_grant_id ` set (grants_after g gb grants)"
    by (auto simp add: grants_after_def fresh_grant_def lookup_None_iff)
  then show ?thesis
    using assms unfolding permits_ok_def ids by (auto simp add: lookup_None_iff simp del: limits)
qed

lemma sessions_ok_claim:
  assumes "sessions_ok ss es" "session_claimable r timestamp ss" "0 \<le> timestamp" "timestamp \<le> MAX_SAFE_INTEGER"
    and "1 \<le> rq_sequence r" "rq_sequence r \<le> MAX_SAFE_INTEGER"
    and e: "ew_session_id e = rq_session_id r" "ew_sequence e = rq_sequence r"
  shows "sessions_ok (sessions_after r timestamp ss) (es @ [e])"
proof (cases "lookup sw_session_id (rq_session_id r) ss")
  case None
  then have "session_sequences es (rq_session_id r) = []"
    using assms(1) by (simp add: sessions_ok_def session_sequences_def lookup_None_iff filter_empty_conv) metis
  moreover have "rq_session_id r \<notin> sw_session_id ` set ss"
    using None by (simp add: lookup_None_iff)
  moreover have "rq_sequence r = 1" "sessions_after r timestamp ss = ss @ [\<lparr>sw_session_id = rq_session_id r, sw_last_sequence = rq_sequence r, sw_updated_at_ms = timestamp\<rparr>]"
    using None assms(2) by (simp_all add: session_claimable_def sessions_after_def)
  ultimately show ?thesis
    using assms(1,3-) by (auto simp add: sessions_ok_def session_sequences_append simp del: limits)
next
  case (Some w)
  then have w: "rq_sequence r = sw_last_sequence w + 1" "session_sequences es (rq_session_id r) = [1..sw_last_sequence w]"
    "1 \<le> sw_last_sequence w"
    using assms(1,2) by (auto simp add: sessions_ok_def session_claimable_def dest!: lookup_Some_D)
  then have next_sequence: "session_sequences (es @ [e]) (rq_session_id r) = [1..rq_sequence r]"
    using e by (simp add: session_sequences_append upto_rec2)
  let ?f = "\<lambda>w. w\<lparr>sw_last_sequence := rq_sequence r, sw_updated_at_ms := timestamp\<rparr>"
    and ?p = "\<lambda>w. sw_session_id w = rq_session_id r"
  have after: "sessions_after r timestamp ss = update_where ?p ?f ss"
    using Some by (simp add: sessions_after_def)
  have keys: "map sw_session_id (update_where ?p ?f ss) = map sw_session_id ss"
    "sw_session_id ` set (update_where ?p ?f ss) = sw_session_id ` set ss"
    by (simp_all add: map_key_update key_image_update)
  have known: "rq_session_id r \<in> sw_session_id ` set ss"
    using lookup_Some_D [OF Some] by (metis image_eqI)
  have other: "session_sequences (es @ [e]) sid = session_sequences es sid" if "sid \<noteq> rq_session_id r" for sid
    using that e by (simp add: session_sequences_append)
  have rows: "1 \<le> sw_last_sequence v \<and> sw_last_sequence v \<le> MAX_SAFE_INTEGER \<and> 0 \<le> sw_updated_at_ms v
      \<and> sw_updated_at_ms v \<le> MAX_SAFE_INTEGER \<and> session_sequences (es @ [e]) (sw_session_id v) = [1..sw_last_sequence v]"
    if v: "v \<in> set (update_where ?p ?f ss)" for v
  proof -
    obtain u where u: "u \<in> set ss" "v = (if ?p u then ?f u else u)" using v by (rule update_whereE)
    show ?thesis
    proof (cases "?p u")
      case True
      then show ?thesis using u(2) next_sequence assms(3-6) by simp
    next
      case False
      then show ?thesis using u other assms(1) by (simp add: sessions_ok_def)
    qed
  qed
  show ?thesis
    unfolding sessions_ok_def after keys
    using assms(1) rows e(1) known by (auto simp add: sessions_ok_def)
qed

lemma targets_ok_claim:
  assumes "targets_ok ts es" "target_claimable t timestamp ts" "TargetRef_ok t" "0 \<le> timestamp" "timestamp \<le> MAX_SAFE_INTEGER"
    and e: "ew_target_id e = tr_target_id t" "ew_target_kind e = by_value TargetKind (tr_kind t)"
      "effect_version e = (tr_epoch t, tr_revision t, tr_fencing_token t)"
  shows "targets_ok (targets_after t timestamp ts) (es @ [e])"
proof -
  have t: "revision_text (tr_revision t)" "1 \<le> tr_epoch t" "tr_epoch t \<le> MAX_SAFE_INTEGER" "1 \<le> tr_fencing_token t"
    "tr_fencing_token t \<le> MAX_SAFE_INTEGER"
    using assms(3) by (simp_all add: TargetRef_ok_def del: limits)
  show ?thesis
  proof (cases "lookup tw_target_id (tr_target_id t) ts")
    case None
    let ?new = "\<lparr>tw_target_id = tr_target_id t, tw_target_kind = by_value TargetKind (tr_kind t),
      tw_target_epoch = tr_epoch t, tw_target_revision = tr_revision t, tw_fencing_token = tr_fencing_token t,
      tw_updated_at_ms = timestamp\<rparr>"
    have "targets_after t timestamp ts = ts @ [?new]" using None by (simp add: targets_after_def)
    moreover have "target_version ?new = effect_version e" by (simp add: target_version_def e)
    moreover have "tr_target_id t \<notin> tw_target_id ` set ts" using None by (simp add: lookup_None_iff)
    ultimately show ?thesis
      using assms(1,4,5) t e(1,2) by (auto simp add: targets_ok_def simp del: limits)
  next
    case (Some w)
    let ?p = "\<lambda>w. tw_target_id w = tr_target_id t"
      and ?f = "\<lambda>w. w\<lparr>tw_target_epoch := tr_epoch t, tw_target_revision := tr_revision t,
        tw_fencing_token := tr_fencing_token t, tw_updated_at_ms := timestamp\<rparr>"
    have after: "targets_after t timestamp ts = update_where ?p ?f ts" using Some by (simp add: targets_after_def)
    have one: "v = w" if "v \<in> set ts" "tw_target_id v = tr_target_id t" for v
      using lookup_in_set [OF _ that(1), of tw_target_id] assms(1) Some that(2) by (simp add: targets_ok_def)
    have w: "w \<in> set ts" "tw_target_id w = tr_target_id t" "tw_target_kind w = by_value TargetKind (tr_kind t)"
      "version_le (target_version w) (tr_epoch t, tr_revision t, tr_fencing_token t)"
      using Some assms(2) by (auto simp add: target_claimable_def dest!: lookup_Some_D)
    have moved: "\<exists>v \<in> set (update_where ?p ?f ts). tw_target_id v = ew_target_id x \<and> tw_target_kind v = ew_target_kind x
        \<and> version_le (effect_version x) (target_version v)" if "x \<in> set (es @ [e])" for x
    proof (cases "ew_target_id x = tr_target_id t")
      case True
      have "?f w \<in> set (update_where ?p ?f ts)" using w(1,2) by (force simp add: set_update_where)
      moreover have "tw_target_kind w = ew_target_kind x \<and> version_le (effect_version x) (target_version (?f w))"
      proof (cases "x = e")
        case True
        then show ?thesis using w(3) e by (simp add: target_version_def)
      next
        case False
        with that assms(1) obtain v where "v \<in> set ts" "tw_target_id v = ew_target_id x" "tw_target_kind v = ew_target_kind x"
          "version_le (effect_version x) (target_version v)"
          by (auto simp add: targets_ok_def)
        with one [of v] True w(4) version_le_trans show ?thesis by (auto simp add: target_version_def)
      qed
      ultimately show ?thesis using True w(2) by (intro bexI [of _ "?f w"]) auto
    next
      case False
      with that e(1) assms(1) obtain v where "v \<in> set ts" "tw_target_id v = ew_target_id x" "tw_target_kind v = ew_target_kind x"
          "version_le (effect_version x) (target_version v)"
        by (auto simp add: targets_ok_def)
      with False show ?thesis by (intro bexI [of _ v]) (auto simp add: set_update_where)
    qed
    show ?thesis
      unfolding targets_ok_def after
    proof (intro conjI)
      show "distinct (map tw_target_id (update_where ?p ?f ts))"
        using assms(1) by (simp add: map_key_update targets_ok_def)
    qed (use assms(1,4,5) t moved in \<open>auto simp add: set_update_where targets_ok_def simp del: limits\<close>)
  qed
qed

lemma claimed_db_ok:
  assumes db: "journal_ok db" and ready: "claim_ready env route timestamp gb pb" and c: "claimable db env timestamp gb"
    and fresh: "lookup ew_effect_id effect_id (db_effects db) = None" "canonical_uuid_text effect_id" and d: "digest_text d"
  shows "journal_ok (claimed_db db effect_id env route timestamp gb pb d)"
proof -
  let ?r = "en_request env" and ?g = "en_grant env" and ?e = "claimed_effect effect_id env d route timestamp"
    and ?p = "claimed_permit env pb d timestamp"
  have parts: "ControlRequest_ok ?r" "TargetRef_ok (rq_target ?r)" "ControlGrant_ok ?g" "ControlPermit_ok (en_permit env)"
    "0 \<le> timestamp" "timestamp \<le> MAX_SAFE_INTEGER" "digest_text gb" "timestamp < pm_expires_at_ms (en_permit env)"
    "pm_expires_at_ms (en_permit env) \<le> MAX_SAFE_INTEGER" "1 \<le> rq_sequence ?r" "rq_sequence ?r \<le> MAX_SAFE_INTEGER"
    using ready by (auto simp add: claim_ready_def ControlEnvelope_ok_def ControlRequest_ok_def ControlPermit_ok_def
        window_ok_def simp del: limits)
  have proj: "ew_session_id ?e = rq_session_id ?r" "ew_sequence ?e = rq_sequence ?r"
    "ew_target_id ?e = tr_target_id (rq_target ?r)" "ew_target_kind ?e = by_value TargetKind (tr_kind (rq_target ?r))"
    "effect_version ?e = (tr_epoch (rq_target ?r), tr_revision (rq_target ?r), tr_fencing_token (rq_target ?r))"
    "ew_permit_id ?e = pw_permit_id ?p" "ew_grant_id ?e = pw_grant_id ?p" "ew_effect_id ?e = effect_id"
    by (simp_all add: claimed_effect_def claimed_permit_def effect_version_def Let_def)
  have perm: "pw_permit_id ?p = pm_permit_id (en_permit env)" "pw_grant_id ?p = gr_grant_id ?g"
    "pw_consumed_at_ms ?p = timestamp" "pw_expires_at_ms ?p = pm_expires_at_ms (en_permit env)"
    by (simp_all add: claimed_permit_def)
  have tables: "grants_ok (db_grants db) (db_permits db)" "permits_ok (db_permits db) (db_grants db)"
    "sessions_ok (db_sessions db) (db_effects db)" "targets_ok (db_targets db) (db_effects db)" "effects_ok (db_effects db) (db_permits db)"
    using db by (simp_all add: journal_ok_def)
  have cl: "grant_claimable ?g gb (db_grants db)" "lookup pw_permit_id (pm_permit_id (en_permit env)) (db_permits db) = None"
    "session_claimable ?r timestamp (db_sessions db)" "target_claimable (rq_target ?r) timestamp (db_targets db)"
    using c by (simp_all add: claimable_def)
  have "\<exists>e. ControlEffectRecord_ok e \<and> ?e = effect_to_row e \<and> ef_prepared_at_ms e \<le> ef_updated_at_ms e
      \<and> ef_transition_version e \<le> state_rank (ef_state e)"
    using claimed_record_ok [OF ready fresh(2) d] claimed_record_row
    by (intro exI [of _ "claimed_record effect_id env d route timestamp"]) (simp add: claimed_record_def Let_def)
  then have "effects_ok (db_effects db @ [?e]) (db_permits db @ [?p])"
    using tables(5) fresh(1) proj by (auto simp add: effects_ok_def lookup_None_iff)
  then show ?thesis
    using db grants_ok_claim [OF tables(1,2) cl(1) parts(3,7) perm(2)]
      permits_ok_claim [OF tables(2), of ?p ?g gb] sessions_ok_claim [OF tables(3) cl(3) parts(5,6,10,11) proj(1,2)]
      targets_ok_claim [OF tables(4) cl(4) parts(2,5,6) proj(3-5)] perm cl(2) parts
    by (simp add: journal_ok_def claimed_db_def del: limits)
qed

section \<open>Transitions and revocations keep the invariant\<close>

definition moved_record :: "ControlEffectRecord \<Rightarrow> ControlEffectState \<Rightarrow> int \<Rightarrow> pystr \<Rightarrow> pystr \<Rightarrow> ControlEffectRecord" where
  "moved_record current new_state timestamp reason evidence =
     current\<lparr>ef_state := new_state, ef_reason_code := reason, ef_evidence_digest := evidence,
       ef_transition_version := ef_transition_version current + 1, ef_updated_at_ms := timestamp\<rparr>"

lemma effect_to_row_inject: "effect_to_row e = effect_to_row e' \<longleftrightarrow> e = e'"
  by (cases e; cases e') (simp add: effect_to_row_def tk.by_value_inj opn.by_value_inj rte.by_value_inj est.by_value_inj)

lemma effect_row_record:
  assumes "effects_ok es ps" "w \<in> set es"
  obtains e where "w = effect_to_row e" "ControlEffectRecord_ok e" "ef_prepared_at_ms e \<le> ef_updated_at_ms e"
    "ef_transition_version e \<le> state_rank (ef_state e)"
  using assms by (auto simp add: effects_ok_def)

lemma effect_from_connection_Inr:
  assumes "effects_ok (db_effects db) ps"
  shows "effect_from_connection db effect_id = Inr e \<longleftrightarrow>
    effect_to_row e \<in> set (db_effects db) \<and> ef_effect_id e = effect_id"
proof
  assume "effect_from_connection db effect_id = Inr e"
  then show "effect_to_row e \<in> set (db_effects db) \<and> ef_effect_id e = effect_id"
    by (auto simp add: effect_from_connection_def accepts effect_to_row_def dest!: lookup_Some_D split: option.splits)
next
  assume e: "effect_to_row e \<in> set (db_effects db) \<and> ef_effect_id e = effect_id"
  have "ew_effect_id (effect_to_row e) = ef_effect_id e" by (simp add: effect_to_row_def)
  then have "lookup ew_effect_id effect_id (db_effects db) = Some (effect_to_row e)"
    using lookup_in_set [of ew_effect_id "db_effects db" "effect_to_row e"] e assms by (simp add: effects_ok_def)
  moreover obtain e' where "effect_to_row e = effect_to_row e'" "ControlEffectRecord_ok e'"
    using effect_row_record [OF assms, of "effect_to_row e"] e by metis
  ultimately show "effect_from_connection db effect_id = Inr e"
    by (simp add: effect_from_connection_def accepts effect_to_row_inject)
qed

text \<open>Replacing the row of an effect by a later one of the same effect.\<close>

definition same_effect :: "effect_row \<Rightarrow> effect_row \<Rightarrow> bool" where
  "same_effect v w \<longleftrightarrow> ew_effect_id v = ew_effect_id w \<and> ew_permit_id v = ew_permit_id w \<and> ew_grant_id v = ew_grant_id w
     \<and> ew_session_id v = ew_session_id w \<and> ew_sequence v = ew_sequence w \<and> ew_target_id v = ew_target_id w
     \<and> ew_target_kind v = ew_target_kind w \<and> effect_version v = effect_version w"

definition effect_moves :: "effect_row list \<Rightarrow> ControlEffectRecord \<Rightarrow> ControlEffectRecord \<Rightarrow> bool" where
  "effect_moves es current later \<longleftrightarrow> distinct (map ew_effect_id es) \<and> effect_to_row current \<in> set es
     \<and> same_effect (effect_to_row later) (effect_to_row current) \<and> ControlEffectRecord_ok later
     \<and> ef_prepared_at_ms later \<le> ef_updated_at_ms later \<and> ef_transition_version later \<le> state_rank (ef_state later)"

definition moved_effects :: "ControlEffectRecord \<Rightarrow> effect_row list \<Rightarrow> effect_row list" where
  "moved_effects later es = update_where (\<lambda>w. ew_effect_id w = ef_effect_id later) (\<lambda>_. effect_to_row later) es"

lemma effect_id_row [simp]: "ew_effect_id (effect_to_row e) = ef_effect_id e"
  by (simp add: effect_to_row_def)

lemma only_effect:
  assumes "distinct (map ew_effect_id es)" "effect_to_row e \<in> set es" "w \<in> set es" "ew_effect_id w = ef_effect_id e"
  shows "w = effect_to_row e"
  using lookup_in_set [OF assms(1,3)] lookup_in_set [OF assms(1,2)] assms(4) by simp

lemma moves_only:
  "effect_moves es current later \<Longrightarrow> w \<in> set es \<Longrightarrow> ew_effect_id w = ef_effect_id later \<Longrightarrow> w = effect_to_row current"
  using only_effect [of es current w] by (simp add: effect_moves_def same_effect_def)

lemma moved_keep:
  assumes "effect_moves es current later" "g (effect_to_row later) = g (effect_to_row current)"
  shows "map g (moved_effects later es) = map g es"
  using moves_only [OF assms(1)] assms(2) by (auto simp add: moved_effects_def update_where_def)

lemma moved_keep_filter:
  assumes "effect_moves es current later" "g (effect_to_row later) = g (effect_to_row current)"
    "h (effect_to_row later) = h (effect_to_row current)"
  shows "map g (filter h (moved_effects later es)) = map g (filter h es)"
proof -
  have "map g (filter h (moved_effects later xs)) = map g (filter h xs)" if "set xs \<subseteq> set es" for xs
    using that
  proof (induction xs)
    case (Cons x xs)
    have "g (effect_to_row later) = g x \<and> h (effect_to_row later) = h x" if "ew_effect_id x = ef_effect_id later"
      using moves_only [OF assms(1) _ that] Cons.prems assms(2,3) by auto
    with Cons show ?case by (simp add: moved_effects_def update_where_def)
  qed (simp add: moved_effects_def)
  then show ?thesis by simp
qed

lemma moved_mem: "w \<in> set (moved_effects later es) \<Longrightarrow> w = effect_to_row later \<or> w \<in> set es"
  by (auto simp add: moved_effects_def elim!: update_whereE split: if_splits)

lemma moved_later: "effect_moves es current later \<Longrightarrow> effect_to_row later \<in> set (moved_effects later es)"
proof -
  assume m: "effect_moves es current later"
  then have "ew_effect_id (effect_to_row current) = ef_effect_id later" "effect_to_row current \<in> set es"
    by (simp_all add: effect_moves_def same_effect_def)
  then show ?thesis unfolding moved_effects_def set_update_where by (metis (mono_tags, lifting) image_eqI)
qed

lemma moved_effects_ok:
  assumes "effect_moves es current later" "effects_ok es ps" shows "effects_ok (moved_effects later es) ps"
proof -
  have "map (\<lambda>w. (ew_permit_id w, ew_grant_id w)) (moved_effects later es) = map (\<lambda>w. (ew_permit_id w, ew_grant_id w)) es"
    "map ew_effect_id (moved_effects later es) = map ew_effect_id es"
    by (rule moved_keep [OF assms(1)], use assms(1) in \<open>simp add: effect_moves_def same_effect_def\<close>)+
  moreover have "\<exists>e. ControlEffectRecord_ok e \<and> w = effect_to_row e \<and> ef_prepared_at_ms e \<le> ef_updated_at_ms e
      \<and> ef_transition_version e \<le> state_rank (ef_state e)" if "w \<in> set (moved_effects later es)" for w
    using moved_mem [OF that] assms by (auto simp add: effect_moves_def effects_ok_def)
  ultimately show ?thesis
    using assms(2) by (simp add: effects_ok_def)
qed

lemma moved_sessions_ok:
  assumes "effect_moves es current later" "sessions_ok ss es" shows "sessions_ok ss (moved_effects later es)"
proof -
  have "session_sequences (moved_effects later es) sid = session_sequences es sid" for sid
    unfolding session_sequences_def
    using assms(1) by (intro moved_keep_filter) (simp_all add: effect_moves_def same_effect_def)
  moreover have "ew_session_id w \<in> sw_session_id ` set ss" if "w \<in> set (moved_effects later es)" for w
    using moved_mem [OF that] assms by (auto simp add: effect_moves_def same_effect_def sessions_ok_def)
  ultimately show ?thesis using assms(2) by (simp add: sessions_ok_def)
qed

lemma moved_targets_ok:
  assumes "effect_moves es current later" "targets_ok ts es" shows "targets_ok ts (moved_effects later es)"
proof -
  have "\<exists>t \<in> set ts. tw_target_id t = ew_target_id w \<and> tw_target_kind t = ew_target_kind w
      \<and> version_le (effect_version w) (target_version t)" if "w \<in> set (moved_effects later es)" for w
    using moved_mem [OF that] assms by (auto simp add: effect_moves_def same_effect_def targets_ok_def)
  with assms(2) show ?thesis by (simp add: targets_ok_def)
qed

definition moved_db :: "journal_db \<Rightarrow> ControlEffectRecord \<Rightarrow> journal_db" where
  "moved_db db later = db\<lparr>db_effects := moved_effects later (db_effects db)\<rparr>"

lemma moved_db_ok:
  assumes "effect_moves (db_effects db) current later" "journal_ok db" shows "journal_ok (moved_db db later)"
  using assms moved_effects_ok [OF assms(1)] moved_sessions_ok [OF assms(1)] moved_targets_ok [OF assms(1)]
  by (simp add: journal_ok_def moved_db_def)

lemma moved_record_moves:
  assumes "effects_ok es ps" "effect_to_row current \<in> set es" "new_state \<in> ALLOWED_TRANSITIONS (ef_state current)"
    and "ef_updated_at_ms current \<le> timestamp" "0 \<le> timestamp" "timestamp \<le> MAX_SAFE_INTEGER"
      "safe_id_text reason" "digest_text evidence"
  shows "effect_moves es current (moved_record current new_state timestamp reason evidence)"
proof -
  obtain e where e: "effect_to_row current = effect_to_row e" "ControlEffectRecord_ok e" "ef_prepared_at_ms e \<le> ef_updated_at_ms e"
    "ef_transition_version e \<le> state_rank (ef_state e)"
    using effect_row_record [OF assms(1,2)] by metis
  then have [simp]: "e = current" by (simp add: effect_to_row_inject)
  have version: "ef_transition_version current + 1 \<le> state_rank new_state"
    using e(4) transition_rank [OF assms(3)] by simp
  moreover from this have "ef_transition_version current + 1 \<le> MAX_SAFE_INTEGER"
    using state_rank_le [of new_state] by (simp add: limits)
  ultimately have "ControlEffectRecord_ok (moved_record current new_state timestamp reason evidence)"
    using e(2) assms(5-8) by (simp add: ControlEffectRecord_ok_def moved_record_def)
  moreover have "same_effect (effect_to_row (moved_record current new_state timestamp reason evidence)) (effect_to_row current)"
    by (simp add: same_effect_def moved_record_def effect_to_row_def effect_version_def)
  ultimately show ?thesis
    using assms(1,2,4) e(3) version by (simp add: effect_moves_def effects_ok_def moved_record_def)
qed

lemma transition_core:
  assumes "effects_ok (db_effects db) ps" "effect_to_row current \<in> set (db_effects db)"
    "new_state \<in> ALLOWED_TRANSITIONS (ef_state current)" "ef_updated_at_ms current \<le> timestamp" "0 \<le> timestamp"
    "timestamp \<le> MAX_SAFE_INTEGER" "safe_id_text reason" "digest_text evidence"
  defines "expected \<equiv> \<lambda>w. ew_effect_id w = ef_effect_id current \<and> ew_state w = by_value ControlEffectState (ef_state current)
      \<and> ew_transition_version w = ef_transition_version current"
    and "write \<equiv> \<lambda>w. w\<lparr>ew_state := by_value ControlEffectState new_state, ew_reason_code := reason,
               ew_evidence_digest := evidence, ew_transition_version := ew_transition_version w + 1,
               ew_updated_at_ms := timestamp\<rparr>"
    and "later \<equiv> moved_record current new_state timestamp reason evidence"
  shows "update_effects expected write db = Inr (moved_db db later)" "rowcount expected (db_effects db) = 1"
    "effect_from_connection (moved_db db later) (ef_effect_id current) = Inr later"
proof -
  have moves: "effect_moves (db_effects db) current later"
    unfolding later_def using assms(1-8) by (rule moved_record_moves)
  have d: "distinct (map ew_effect_id (db_effects db))" using assms(1) by (simp add: effects_ok_def)
  have proj: "ew_state (effect_to_row current) = by_value ControlEffectState (ef_state current)"
    "ew_transition_version (effect_to_row current) = ef_transition_version current"
    by (simp_all add: effect_to_row_def)
  have found: "lookup ew_effect_id (ef_effect_id current) (db_effects db) = Some (effect_to_row current)"
    using lookup_in_set [OF d assms(2)] by simp
  show "rowcount expected (db_effects db) = 1"
    using rowcount_key [OF d] found by (simp add: expected_def proj)
  have "write (effect_to_row current) = effect_to_row later"
    by (simp add: write_def later_def moved_record_def effect_to_row_def)
  moreover have "ef_effect_id later = ef_effect_id current" by (simp add: later_def moved_record_def)
  moreover have "w = effect_to_row current" if "w \<in> set (db_effects db)" "ew_effect_id w = ef_effect_id current" for w
    using only_effect [OF d assms(2) that] .
  ultimately have row: "(if expected w then write w else w) = (if ew_effect_id w = ef_effect_id later then effect_to_row later else w)"
    "expected w \<Longrightarrow> write w = effect_to_row later" if "w \<in> set (db_effects db)" for w
    using that by (cases "ew_effect_id w = ef_effect_id current"; force simp add: expected_def proj)+
  then have "update_where expected write (db_effects db) = moved_effects later (db_effects db)"
    "list_all (\<lambda>w. expected w \<longrightarrow> write w = effect_to_row later) (db_effects db)"
    by (simp_all add: moved_effects_def update_where_def list_all_iff)
  moreover have "effect_update_check (effect_to_row later)"
    using moves by (simp add: effect_moves_def effect_update_check_def ControlEffectRecord_ok_def effect_to_row_def)
  ultimately show "update_effects expected write db = Inr (moved_db db later)"
    by (auto simp add: update_effects_def moved_db_def list_all_iff)
  have "effects_ok (db_effects (moved_db db later)) ps"
    using moved_effects_ok [OF moves assms(1)] by (simp add: moved_db_def)
  then show "effect_from_connection (moved_db db later) (ef_effect_id current) = Inr later"
    using moved_later [OF moves] by (simp add: effect_from_connection_Inr moved_db_def later_def moved_record_def)
qed

lemma transition_tx_iff:
  assumes "journal_ok db" "0 \<le> timestamp" "timestamp \<le> MAX_SAFE_INTEGER" "safe_id_text reason" "digest_text evidence"
  shows "transition_tx identifier new_state timestamp reason evidence db = Inr (db', later) \<longleftrightarrow>
    (\<exists>current. effect_to_row current \<in> set (db_effects db) \<and> ef_effect_id current = identifier
       \<and> new_state \<in> ALLOWED_TRANSITIONS (ef_state current) \<and> ef_updated_at_ms current \<le> timestamp
       \<and> (new_state = STARTED \<longrightarrow> start_checks current timestamp db = Inr ())
       \<and> later = moved_record current new_state timestamp reason evidence \<and> db' = moved_db db later)"
proof -
  have es: "effects_ok (db_effects db) (db_permits db)" using assms(1) by (simp add: journal_ok_def)
  let ?expected = "\<lambda>current w. ew_effect_id w = identifier \<and> ew_state w = by_value ControlEffectState (ef_state current)
      \<and> ew_transition_version w = ef_transition_version current"
  let ?body = "\<lambda>current. rbind (update_effects (?expected current)
             (\<lambda>w. w\<lparr>ew_state := by_value ControlEffectState new_state, ew_reason_code := reason,
                    ew_evidence_digest := evidence, ew_transition_version := ew_transition_version w + 1,
                    ew_updated_at_ms := timestamp\<rparr>) db) (\<lambda>db'.
    rbind (reject_if (rowcount (?expected current) (db_effects db) \<noteq> 1) ''effect_race'') (\<lambda>_.
    rbind (effect_from_connection db' identifier) (\<lambda>later. Inr (db', later))))"
  have body: "?body current = Inr (moved_db db (moved_record current new_state timestamp reason evidence),
      moved_record current new_state timestamp reason evidence)"
    if "effect_to_row current \<in> set (db_effects db)" "ef_effect_id current = identifier"
      "new_state \<in> ALLOWED_TRANSITIONS (ef_state current)" "ef_updated_at_ms current \<le> timestamp" for current
    using transition_core [OF es that(1,3,4) assms(2-5)] that(2) by simp
  have result: "?body current = Inr (db', later) \<longleftrightarrow>
      later = moved_record current new_state timestamp reason evidence \<and> db' = moved_db db later"
    if "effect_to_row current \<in> set (db_effects db)" "ef_effect_id current = identifier"
      "new_state \<in> ALLOWED_TRANSITIONS (ef_state current)" "ef_updated_at_ms current \<le> timestamp" for current
    unfolding body [OF that] by auto
  have step: "transition_tx identifier new_state timestamp reason evidence db = Inr (db', later) \<longleftrightarrow>
    (\<exists>current. effect_to_row current \<in> set (db_effects db) \<and> ef_effect_id current = identifier
       \<and> new_state \<in> ALLOWED_TRANSITIONS (ef_state current) \<and> ef_updated_at_ms current \<le> timestamp
       \<and> (new_state = STARTED \<longrightarrow> start_checks current timestamp db = Inr ()) \<and> ?body current = Inr (db', later))"
    unfolding transition_tx_def Let_def rbind_Inr_iff [of "effect_from_connection db identifier"]
      effect_from_connection_Inr [OF es] rbind_Inr_iff [of "reject_if c reason" for c reason] reject_if_Inr_iff
      rbind_Inr_iff [of "if c then m else m'" for c m m'] not_less
    by (cases "new_state = STARTED") simp_all
  show ?thesis
    unfolding step by (intro iff_exI conj_cong refl) (rule result; assumption)
qed

end
