(* ===== verification/Journal_Receipts.thy ===== *)
theory Journal_Receipts
  imports Journal_Inv
begin

text \<open>
  \<^verbatim>\<open>algo_cli/ada_control_journal.py\<close>, the receipts: reading and verifying the signed chain, finalising a
  receipt, and the synchronisation of the external anchor of its head.
\<close>

section \<open>Reading the chain\<close>

definition journal_id_of :: "journal_db \<Rightarrow> exn + pystr" where
  "journal_id_of db =
    (case db_identity db of
       [(singleton, journal_id)] \<Rightarrow>
         if singleton \<noteq> 1 then corrupt ''journal_identity''
         else require_digest ''journal_identity'' (PStr journal_id)
     | _ \<Rightarrow> corrupt ''journal_identity'')"

definition receipt_from_row :: "ed25519 \<Rightarrow> nat \<Rightarrow> receipt_row \<Rightarrow> ControlVerifier \<Rightarrow> pystr \<Rightarrow> exn + ControlReceipt" where
  "receipt_from_row ed limit row vf journal_id =
    rbind (decode_json_payload limit (xw_receipt_blob row)) (\<lambda>v.
    rbind (require_digest ''receipt_digest'' (PStr (xw_receipt_digest row))) (\<lambda>stored_digest.
    rbind (content_digest v) (\<lambda>digest.
    if digest \<noteq> stored_digest then corrupt ''receipt_digest''
    else
    rbind (ControlReceipt_from_dict v) (\<lambda>receipt.
    rbind (verify_control_receipt ed receipt vf) (\<lambda>_.
    if rc_journal_id receipt \<noteq> journal_id \<or> rc_effect_id receipt \<noteq> xw_effect_id row
       \<or> rc_transition_version receipt \<noteq> xw_transition_version row
       \<or> rc_receipt_sequence receipt \<noteq> xw_receipt_sequence row
       \<or> rc_previous_receipt_digest receipt \<noteq> xw_previous_receipt_digest row
    then corrupt ''receipt_binding''
    else Inr receipt)))))"

fun receipt_chain ::
    "ed25519 \<Rightarrow> nat \<Rightarrow> ControlVerifier \<Rightarrow> pystr \<Rightarrow> receipt_row list \<Rightarrow> int \<Rightarrow> pystr \<Rightarrow> exn + ControlReceipt list" where
  "receipt_chain ed limit vf journal_id [] expected_sequence previous_digest = Inr []"
| "receipt_chain ed limit vf journal_id (row # rows) expected_sequence previous_digest =
    rbind (receipt_from_row ed limit row vf journal_id) (\<lambda>receipt.
    if rc_receipt_sequence receipt \<noteq> expected_sequence \<or> rc_previous_receipt_digest receipt \<noteq> previous_digest
    then corrupt ''receipt_sequence''
    else
    rbind (content_digest (ControlReceipt_to_dict receipt)) (\<lambda>digest.
    rbind (receipt_chain ed limit vf journal_id rows (expected_sequence + 1) digest) (\<lambda>results.
    Inr (receipt # results))))"

definition receipt_sequence_from_connection ::
    "ed25519 \<Rightarrow> nat \<Rightarrow> ControlVerifier \<Rightarrow> journal_db \<Rightarrow> exn + ControlReceipt list" where
  "receipt_sequence_from_connection ed limit vf db =
    rbind (journal_id_of db) (\<lambda>journal_id.
    receipt_chain ed limit vf journal_id (sort_key xw_receipt_sequence (db_receipts db)) 1 EMPTY_RECEIPT_HEAD_DIGEST)"

definition read_receipt_sequence ::
    "journal_io \<Rightarrow> ed25519 \<Rightarrow> nat \<Rightarrow> ControlVerifier \<Rightarrow> journal_db \<Rightarrow> exn + pystr \<times> ControlReceipt list" where
  "read_receipt_sequence io ed limit vf db =
    reader io (\<lambda>db.
      rbind (journal_id_of db) (\<lambda>journal_id.
      rbind (receipt_sequence_from_connection ed limit vf db) (\<lambda>sequence.
      Inr (journal_id, sequence)))) db"

section \<open>Finalising a receipt\<close>

text \<open>The position and the previous digest of the next receipt, from the aggregate query and the
  latest row.\<close>

definition next_receipt :: "ed25519 \<Rightarrow> nat \<Rightarrow> ControlSigner \<Rightarrow> pystr \<Rightarrow> journal_db \<Rightarrow> exn + int \<times> pystr" where
  "next_receipt ed limit signer journal_id db =
    (let sequences = map xw_receipt_sequence (db_receipts db) in
     rbind (require_int ''receipt_count'' 0 MAX_SAFE_INTEGER (PInt (int (length sequences)))) (\<lambda>receipt_count.
     if receipt_count = 0 then Inr (1, EMPTY_RECEIPT_HEAD_DIGEST)
     else
     rbind (require_int ''receipt_sequence'' 1 MAX_SAFE_INTEGER (PInt (Min (set sequences)))) (\<lambda>minimum_sequence.
     rbind (require_int ''receipt_sequence'' 1 MAX_SAFE_INTEGER (PInt (Max (set sequences)))) (\<lambda>maximum_sequence.
     if minimum_sequence \<noteq> 1 \<or> maximum_sequence \<noteq> receipt_count then corrupt ''receipt_sequence''
     else
     case lookup xw_receipt_sequence maximum_sequence (db_receipts db) of
       None \<Rightarrow> corrupt ''receipt_sequence''
     | Some latest_row \<Rightarrow>
         rbind (receipt_from_row ed limit latest_row (sg_verifier signer) journal_id) (\<lambda>latest.
         rbind (reject_if (MAX_SAFE_INTEGER < rc_receipt_sequence latest + 1) ''receipt_sequence_exhausted'') (\<lambda>_.
         rbind (content_digest (ControlReceipt_to_dict latest)) (\<lambda>previous.
         Inr (rc_receipt_sequence latest + 1, previous))))))))"

definition receipt_uuid :: "pystr \<Rightarrow> int \<Rightarrow> pystr" where
  "receipt_uuid effect_id version =
     uuid5 RECEIPT_NAMESPACE (map byte (effect_id @ [58] @ int_repr version))"

definition new_receipt ::
    "ControlEffectRecord \<Rightarrow> pystr \<Rightarrow> int \<Rightarrow> pystr \<Rightarrow> int \<Rightarrow> pystr \<Rightarrow> ControlReceipt" where
  "new_receipt e journal_id receipt_sequence previous_receipt_digest timestamp key_id =
    \<lparr>rc_receipt_id = receipt_uuid (ef_effect_id e) (ef_transition_version e), rc_journal_id = journal_id,
     rc_receipt_sequence = receipt_sequence, rc_previous_receipt_digest = previous_receipt_digest,
     rc_effect_id = ef_effect_id e, rc_grant_id = ef_grant_id e, rc_permit_id = ef_permit_id e,
     rc_request_digest = ef_request_digest e, rc_target_id = ef_target_id e, rc_target_epoch = ef_target_epoch e,
     rc_target_revision = ef_target_revision e, rc_fencing_token = ef_fencing_token e,
     rc_sequence = ef_sequence e, rc_operation = ef_operation e, rc_route = ef_route e, rc_state = ef_state e,
     rc_reason_code = ef_reason_code e, rc_evidence_digest = ef_evidence_digest e,
     rc_transition_version = ef_transition_version e, rc_completed_at_ms = max timestamp (ef_updated_at_ms e),
     rc_authority_key_id = key_id, rc_signature = [], rc_schema_version = RECEIPT_SCHEMA_VERSION\<rparr>"

definition finalize_tx ::
    "ed25519 \<Rightarrow> nat \<Rightarrow> ControlSigner \<Rightarrow> pystr \<Rightarrow> int \<Rightarrow> journal_db \<Rightarrow> exn + journal_db \<times> ControlReceipt" where
  "finalize_tx ed limit signer identifier timestamp db =
    rbind (effect_from_connection db identifier) (\<lambda>e.
    rbind (reject_if (\<not> is_receiptable e) ''effect_not_receiptable'') (\<lambda>_.
    rbind (require (sg_key_id signer = ef_authority_key_id e) (AuthorityRejected ''receipt_key'')) (\<lambda>_.
    rbind (journal_id_of db) (\<lambda>journal_id.
    case lookup receipt_key (identifier, ef_transition_version e) (db_receipts db) of
      Some existing \<Rightarrow>
        rbind (receipt_from_row ed limit existing (sg_verifier signer) journal_id) (\<lambda>receipt.
        if rc_effect_id receipt \<noteq> ef_effect_id e \<or> rc_transition_version receipt \<noteq> ef_transition_version e
           \<or> rc_state receipt \<noteq> ef_state e
        then corrupt ''receipt_binding''
        else Inr (db, receipt))
    | None \<Rightarrow>
        rbind (next_receipt ed limit signer journal_id db) (\<lambda>(receipt_sequence, previous_receipt_digest).
        let unsigned = ControlReceipt_unsigned
              (new_receipt e journal_id receipt_sequence previous_receipt_digest timestamp (sg_key_id signer)) in
        rbind (ControlSigner_sign ed signer ''control_receipt'' (PDict (items unsigned))) (\<lambda>signature.
        rbind (ControlReceipt_from_dict (PDict (items (unsigned @ [(''signature'', PStr signature)])))) (\<lambda>receipt.
        rbind (verify_control_receipt ed receipt (sg_verifier signer)) (\<lambda>_.
        rbind (canonical_json_bytes (ControlReceipt_to_dict receipt)) (\<lambda>blob.
        rbind (content_digest (ControlReceipt_to_dict receipt)) (\<lambda>digest.
        rbind (insert_receipt \<lparr>xw_effect_id = identifier, xw_transition_version = ef_transition_version e,
            xw_receipt_sequence = receipt_sequence, xw_previous_receipt_digest = previous_receipt_digest,
            xw_receipt_blob = blob, xw_receipt_digest = digest\<rparr> db) (\<lambda>db.
        Inr (db, receipt))))))))))))"

definition finalize_receipt_unanchored ::
    "journal_io \<Rightarrow> ed25519 \<Rightarrow> nat \<Rightarrow> pystr \<Rightarrow> ControlSigner \<Rightarrow> int \<Rightarrow> journal_db \<Rightarrow>
     journal_db \<times> (exn + ControlReceipt)" where
  "finalize_receipt_unanchored io ed limit effect_id signer completed_at_ms db =
    (case rbind (input_uuid effect_id ''effect_id'') (\<lambda>identifier.
          rbind (input_time completed_at_ms) (\<lambda>timestamp. Inr (identifier, timestamp))) of
       Inl e \<Rightarrow> (db, Inl e)
     | Inr (identifier, timestamp) \<Rightarrow> immediate io (finalize_tx ed limit signer identifier timestamp) db)"

definition receipts :: "journal_io \<Rightarrow> ed25519 \<Rightarrow> nat \<Rightarrow> pystr \<Rightarrow> ControlVerifier \<Rightarrow> journal_db \<Rightarrow> exn + ControlReceipt list" where
  "receipts io ed limit effect_id vf db =
    rbind (input_uuid effect_id ''effect_id'') (\<lambda>identifier.
    reader io (\<lambda>db. rbind (receipt_sequence_from_connection ed limit vf db) (\<lambda>sequence.
      Inr (filter (\<lambda>r. rc_effect_id r = identifier) sequence))) db)"

section \<open>The external anchor\<close>

text \<open>
  The anchor store is not part of the program: its two methods are parameters, on a state of the world
  that also holds the database, which other processes may change between two calls. A call may raise;
  \<open>load\<close> may return nothing, bytes, or a value of another type.
\<close>

datatype loaded = LoadRaised | LoadMissing | LoadBytes bytes | LoadOther

datatype swapped = SwapRaised | Swapped bool | SwapOther

record 's anchor_store =
  as_load :: "'s \<Rightarrow> pystr \<Rightarrow> 's \<times> loaded"
  as_db :: "'s \<Rightarrow> journal_db"
  as_swap :: "'s \<Rightarrow> pystr \<Rightarrow> pystr option \<Rightarrow> bytes \<Rightarrow> 's \<times> swapped"

definition receipt_anchor_digest :: "bytes \<Rightarrow> pystr" where
  "receipt_anchor_digest v = str ''sha256:'' @ hexdigest (sha256 v)"

definition check_anchor :: "ed25519 \<Rightarrow> nat \<Rightarrow> pystr \<Rightarrow> ControlVerifier \<Rightarrow> loaded \<Rightarrow> exn + (ControlReceipt \<times> bytes) option" where
  "check_anchor ed limit journal_id vf loaded =
    (case loaded of
       LoadRaised \<Rightarrow> Inl (ControlJournalError ''receipt_anchor_unavailable'')
     | LoadMissing \<Rightarrow> Inr None
     | LoadOther \<Rightarrow> corrupt ''receipt_anchor_value''
     | LoadBytes blob \<Rightarrow>
         if \<not> (1 \<le> length blob \<and> length blob \<le> MAX_RECEIPT_ANCHOR_BYTES) then corrupt ''receipt_anchor_value''
         else
           (case rbind (decode_json_payload limit blob) (\<lambda>v.
                 rbind (ControlReceipt_from_dict v) (\<lambda>receipt.
                 rbind (verify_control_receipt ed receipt vf) (\<lambda>_.
                 rbind (canonical_json_bytes (ControlReceipt_to_dict receipt)) (\<lambda>canonical.
                 if canonical \<noteq> blob then corrupt ''receipt_anchor_encoding'' else Inr receipt)))) of
              Inl (ControlJournalCorrupt label) \<Rightarrow> Inl (ControlJournalCorrupt label)
            | Inl _ \<Rightarrow> corrupt ''receipt_anchor_value''
            | Inr receipt \<Rightarrow>
                if rc_journal_id receipt \<noteq> journal_id then corrupt ''receipt_anchor_journal''
                else Inr (Some (receipt, blob))))"

text \<open>One attempt ends the loop with a result, or asks for another round with a sequence.\<close>

datatype 'r attempt = Done "exn + unit" | Again 'r

definition refresh ::
    "'s anchor_store \<Rightarrow> journal_io \<Rightarrow> ed25519 \<Rightarrow> nat \<Rightarrow> ControlVerifier \<Rightarrow> pystr \<Rightarrow> 's \<Rightarrow> exn + ControlReceipt list" where
  "refresh st io ed limit vf journal_id s =
    rbind (read_receipt_sequence io ed limit vf (as_db st s)) (\<lambda>(refreshed_id, refreshed).
    if refreshed_id \<noteq> journal_id then corrupt ''receipt_anchor_journal'' else Inr refreshed)"

definition put_anchor ::
    "'s anchor_store \<Rightarrow> journal_io \<Rightarrow> ed25519 \<Rightarrow> nat \<Rightarrow> ControlVerifier \<Rightarrow> pystr \<Rightarrow> bool \<Rightarrow> ControlReceipt list \<Rightarrow>
     ControlReceipt \<Rightarrow> pystr option \<Rightarrow> 's \<Rightarrow> 's \<times> bool \<times> ControlReceipt list attempt" where
  "put_anchor st io ed limit vf journal_id allowed sequence candidate expected_digest s =
    (case canonical_json_bytes (ControlReceipt_to_dict candidate) of
       Inl e \<Rightarrow> (s, allowed, Done (Inl e))
     | Inr v \<Rightarrow>
        if MAX_RECEIPT_ANCHOR_BYTES < length v then (s, allowed, Done (corrupt ''receipt_anchor_value''))
        else
          (case as_swap st s journal_id expected_digest v of
             (s, SwapRaised) \<Rightarrow> (s, allowed, Done (Inl (ControlJournalError ''receipt_anchor_unavailable'')))
           | (s, SwapOther) \<Rightarrow> (s, allowed, Done (Inl (ControlJournalError ''receipt_anchor_unavailable'')))
           | (s, Swapped True) \<Rightarrow> (s, False, Again sequence)
           | (s, Swapped False) \<Rightarrow>
               (case refresh st io ed limit vf journal_id s of
                  Inl e \<Rightarrow> (s, allowed, Done (Inl e)) | Inr sequence \<Rightarrow> (s, allowed, Again sequence))))"

definition anchor_attempt ::
    "'s anchor_store \<Rightarrow> journal_io \<Rightarrow> ed25519 \<Rightarrow> nat \<Rightarrow> ControlVerifier \<Rightarrow> pystr \<Rightarrow> bool \<Rightarrow> ControlReceipt list \<Rightarrow>
     's \<Rightarrow> 's \<times> bool \<times> ControlReceipt list attempt" where
  "anchor_attempt st io ed limit vf journal_id allowed sequence s =
    (case as_load st s journal_id of (s, loaded) \<Rightarrow>
      (case check_anchor ed limit journal_id vf loaded of
         Inl e \<Rightarrow> (s, allowed, Done (Inl e))
       | Inr None \<Rightarrow>
           if sequence = [] then (s, allowed, Done (Inr ()))
           else if \<not> allowed then (s, allowed, Done (corrupt ''receipt_anchor_missing''))
           else put_anchor st io ed limit vf journal_id allowed sequence (hd sequence) None s
       | Inr (Some (anchored, blob)) \<Rightarrow>
           if int (length sequence) \<le> rc_receipt_sequence anchored - 1 then
             (case refresh st io ed limit vf journal_id s of
                Inl e \<Rightarrow> (s, False, Done (Inl e))
              | Inr refreshed \<Rightarrow>
                  if refreshed = sequence then (s, False, Done (corrupt ''receipt_head_rollback''))
                  else (s, False, Again refreshed))
           else if rc_receipt_sequence anchored - 1 < 0
                   \<or> sequence ! nat (rc_receipt_sequence anchored - 1) \<noteq> anchored
             then (s, False, Done (corrupt ''receipt_head_rollback''))
           else if anchored = last sequence then (s, False, Done (Inr ()))
           else put_anchor st io ed limit vf journal_id False sequence (last sequence)
                  (Some (receipt_anchor_digest blob)) s))"

fun anchor_loop ::
    "nat \<Rightarrow> 's anchor_store \<Rightarrow> journal_io \<Rightarrow> ed25519 \<Rightarrow> nat \<Rightarrow> ControlVerifier \<Rightarrow> pystr \<Rightarrow> bool \<Rightarrow> ControlReceipt list \<Rightarrow>
     's \<Rightarrow> 's \<times> bool \<times> (exn + unit)" where
  "anchor_loop 0 st io ed limit vf journal_id allowed sequence s =
     (s, allowed, Inl (ControlJournalError ''receipt_anchor_race''))"
| "anchor_loop (Suc n) st io ed limit vf journal_id allowed sequence s =
    (case anchor_attempt st io ed limit vf journal_id allowed sequence s of
       (s, allowed, Done result) \<Rightarrow> (s, allowed, result)
     | (s, allowed, Again sequence) \<Rightarrow> anchor_loop n st io ed limit vf journal_id allowed sequence s)"

definition synchronize_receipt_anchor_sequence ::
    "'s anchor_store option \<Rightarrow> journal_io \<Rightarrow> ed25519 \<Rightarrow> nat \<Rightarrow> ControlVerifier \<Rightarrow> pystr \<Rightarrow> bool \<Rightarrow> ControlReceipt list \<Rightarrow>
     's \<Rightarrow> 's \<times> bool \<times> (exn + unit)" where
  "synchronize_receipt_anchor_sequence store io ed limit vf journal_id allowed sequence s =
    (case store of
       None \<Rightarrow> (s, allowed, Inr ())
     | Some st \<Rightarrow> anchor_loop MAX_RECEIPT_ANCHOR_RETRIES st io ed limit vf journal_id allowed sequence s)"

definition synchronize_receipt_anchor ::
    "'s anchor_store option \<Rightarrow> journal_io \<Rightarrow> ed25519 \<Rightarrow> nat \<Rightarrow> ControlVerifier \<Rightarrow> bool \<Rightarrow> journal_db \<Rightarrow>
     's \<Rightarrow> 's \<times> bool \<times> (exn + ControlReceipt option)" where
  "synchronize_receipt_anchor store io ed limit vf allowed db s =
    (case read_receipt_sequence io ed limit vf db of
       Inl e \<Rightarrow> (s, allowed, Inl e)
     | Inr (journal_id, sequence) \<Rightarrow>
        (case synchronize_receipt_anchor_sequence store io ed limit vf journal_id allowed sequence s of
           (s, allowed, result) \<Rightarrow>
             (s, allowed, rbind result (\<lambda>_. Inr (if sequence = [] then None else Some (last sequence))))))"

definition finalize_receipt ::
    "'s anchor_store option \<Rightarrow> journal_io \<Rightarrow> ed25519 \<Rightarrow> nat \<Rightarrow> pystr \<Rightarrow> ControlSigner \<Rightarrow> int \<Rightarrow> bool \<Rightarrow> journal_db \<Rightarrow>
     's \<Rightarrow> journal_db \<times> 's \<times> bool \<times> (exn + ControlReceipt)" where
  "finalize_receipt store io ed limit effect_id signer completed_at_ms allowed db s =
    (case finalize_receipt_unanchored io ed limit effect_id signer completed_at_ms db of
       (db, Inl e) \<Rightarrow> (db, s, allowed, Inl e)
     | (db, Inr receipt) \<Rightarrow>
        (case store of None \<Rightarrow> (db, s, allowed, Inr receipt)
         | Some _ \<Rightarrow> (case synchronize_receipt_anchor store io ed limit (sg_verifier signer) allowed db s of
           (s, allowed, result) \<Rightarrow> (db, s, allowed, rbind result (\<lambda>_. Inr receipt)))))"

definition receipt_sequence ::
    "'s anchor_store option \<Rightarrow> journal_io \<Rightarrow> ed25519 \<Rightarrow> nat \<Rightarrow> ControlVerifier \<Rightarrow> ControlReceipt option \<Rightarrow> bool \<Rightarrow>
     journal_db \<Rightarrow> 's \<Rightarrow> 's \<times> bool \<times> (exn + ControlReceipt list)" where
  "receipt_sequence store io ed limit vf expected_head allowed db s =
    (case (case expected_head of
             None \<Rightarrow> Inr None
           | Some head \<Rightarrow>
               rbind (ControlReceipt_from_dict (ControlReceipt_to_dict head)) (\<lambda>head.
               rbind (verify_control_receipt ed head vf) (\<lambda>_. Inr (Some head)))) of
       Inl e \<Rightarrow> (s, allowed, Inl e)
     | Inr head \<Rightarrow>
        (case reader io (\<lambda>db.
           rbind (receipt_sequence_from_connection ed limit vf db) (\<lambda>results.
           rbind (journal_id_of db) (\<lambda>journal_id. Inr (results, journal_id)))) db of
           Inl e \<Rightarrow> (s, allowed, Inl e)
         | Inr (results, journal_id) \<Rightarrow>
            (case synchronize_receipt_anchor_sequence store io ed limit vf journal_id allowed results s of
               (s, allowed, result) \<Rightarrow>
                 (s, allowed, rbind result (\<lambda>_.
                    if head \<noteq> None \<and> (results = [] \<or> head \<noteq> Some (last results))
                    then corrupt ''receipt_head_rollback'' else Inr results)))))"

definition receipt_head ::
    "'s anchor_store option \<Rightarrow> journal_io \<Rightarrow> ed25519 \<Rightarrow> nat \<Rightarrow> ControlVerifier \<Rightarrow> bool \<Rightarrow> journal_db \<Rightarrow>
     's \<Rightarrow> 's \<times> bool \<times> (exn + ControlReceipt option)" where
  "receipt_head store io ed limit vf allowed db s =
    (case receipt_sequence store io ed limit vf None allowed db s of
       (s, allowed, result) \<Rightarrow>
         (s, allowed, rbind result (\<lambda>sequence. Inr (if sequence = [] then None else Some (last sequence)))))"

section \<open>The chain grows at its end\<close>

definition receipt_row_of :: "ControlReceipt \<Rightarrow> bytes \<Rightarrow> pystr \<Rightarrow> receipt_row" where
  "receipt_row_of r blob digest = \<lparr>xw_effect_id = rc_effect_id r, xw_transition_version = rc_transition_version r,
     xw_receipt_sequence = rc_receipt_sequence r, xw_previous_receipt_digest = rc_previous_receipt_digest r,
     xw_receipt_blob = blob, xw_receipt_digest = digest\<rparr>"

lemma content_digest_psort: "content_digest (psort v) = Inr d \<longleftrightarrow> content_digest v = Inr d"
  by (auto simp add: content_digest_def accepts canonical_json_bytes_psort)

lemma receipt_from_row_written:
  assumes "ControlReceipt_ok r" "verify_control_receipt ed r vf = Inr ()" "Suc MAX_JSON_DEPTH \<le> limit"
    and "canonical_json_bytes (ControlReceipt_to_dict r) = Inr blob" "content_digest (ControlReceipt_to_dict r) = Inr d"
  shows "receipt_from_row ed limit (receipt_row_of r blob d) vf (rc_journal_id r) = Inr r"
proof -
  have "decode_json_payload limit blob = Inr (psort (ControlReceipt_to_dict r))"
    using assms(4,3) receipt.to_dict_wf [OF assms(1)] receipt.to_dict_dict [of r] decode_canonical by metis
  moreover have "ControlReceipt_from_dict (psort (ControlReceipt_to_dict r)) = Inr r"
    using assms(1) by (simp add: receipt.from_dict_iff receipt.to_dict_wf)
  moreover have "content_digest (psort (ControlReceipt_to_dict r)) = Inr d"
    using assms(5) by (simp only: content_digest_psort)
  moreover have "require_digest ''receipt_digest'' (PStr d) = Inr d"
    using content_digest_text [OF assms(5)] by (simp add: accepts)
  ultimately show ?thesis
    using assms(2) by (simp add: receipt_from_row_def receipt_row_of_def)
qed

lemma receipt_from_row_D:
  assumes "receipt_from_row ed limit row vf journal_id = Inr r"
  shows "rc_journal_id r = journal_id \<and> rc_effect_id r = xw_effect_id row \<and> rc_transition_version r = xw_transition_version row
    \<and> rc_receipt_sequence r = xw_receipt_sequence row \<and> rc_previous_receipt_digest r = xw_previous_receipt_digest row
    \<and> ControlReceipt_ok r \<and> verify_control_receipt ed r vf = Inr ()"
proof -
  obtain v where v: "decode_json_payload limit (xw_receipt_blob row) = Inr v" "ControlReceipt_from_dict v = Inr r"
    and rest: "rc_journal_id r = journal_id" "rc_effect_id r = xw_effect_id row"
    "rc_transition_version r = xw_transition_version row" "rc_receipt_sequence r = xw_receipt_sequence row"
    "rc_previous_receipt_digest r = xw_previous_receipt_digest row" "verify_control_receipt ed r vf = Inr ()"
    using assms by (auto simp add: receipt_from_row_def accepts simp del: limits)
  have "ControlReceipt_ok r"
    using receipt.payload_sound [of limit "xw_receipt_blob row" r] v by simp
  with rest show ?thesis by simp
qed

definition head_digest :: "pystr \<Rightarrow> ControlReceipt list \<Rightarrow> exn + pystr" where
  "head_digest previous rs = (if rs = [] then Inr previous else content_digest (ControlReceipt_to_dict (last rs)))"

lemma receipt_chain_rows:
  assumes "receipt_chain ed limit vf journal_id rows n previous = Inr rs"
  shows "list_all2 (\<lambda>row r. receipt_from_row ed limit row vf journal_id = Inr r) rows rs"
    and "map xw_receipt_sequence rows = [n..n + int (length rows) - 1]" and "\<exists>d. head_digest previous rs = Inr d"
proof -
  have "list_all2 (\<lambda>row r. receipt_from_row ed limit row vf journal_id = Inr r) rows rs
    \<and> map xw_receipt_sequence rows = [n..n + int (length rows) - 1] \<and> (\<exists>d. head_digest previous rs = Inr d)"
    using assms
  proof (induction rows arbitrary: n previous rs)
    case Nil
    then show ?case by (simp add: head_digest_def)
  next
    case (Cons row rows)
    then obtain r d rs' where step: "receipt_from_row ed limit row vf journal_id = Inr r" "rc_receipt_sequence r = n"
      "content_digest (ControlReceipt_to_dict r) = Inr d"
      "receipt_chain ed limit vf journal_id rows (n + 1) d = Inr rs'" "rs = r # rs'"
      by (auto simp add: accepts)
    have "xw_receipt_sequence row = n" using receipt_from_row_D [OF step(1)] step(2) by simp
    moreover have "[n..n + int (length (row # rows)) - 1] = n # [n + 1..n + 1 + int (length rows) - 1]"
      by (simp add: upto_rec1)
    ultimately show ?case
      using Cons.IH [OF step(4)] step by (auto simp add: head_digest_def)
  qed
  then show "list_all2 (\<lambda>row r. receipt_from_row ed limit row vf journal_id = Inr r) rows rs"
    "map xw_receipt_sequence rows = [n..n + int (length rows) - 1]" "\<exists>d. head_digest previous rs = Inr d"
    by blast+
qed

lemma receipt_chain_snoc:
  assumes "receipt_chain ed limit vf journal_id rows n previous = Inr rs"
    and "receipt_from_row ed limit row vf journal_id = Inr r" "rc_receipt_sequence r = n + int (length rows)"
    and "head_digest previous rs = Inr (rc_previous_receipt_digest r)" "content_digest (ControlReceipt_to_dict r) = Inr d"
  shows "receipt_chain ed limit vf journal_id (rows @ [row]) n previous = Inr (rs @ [r])"
  using assms
proof (induction rows arbitrary: n previous rs)
  case Nil
  then show ?case by (simp add: head_digest_def)
next
  case (Cons row' rows)
  then obtain r' d' rs' where step: "receipt_from_row ed limit row' vf journal_id = Inr r'" "rc_receipt_sequence r' = n"
    "rc_previous_receipt_digest r' = previous" "content_digest (ControlReceipt_to_dict r') = Inr d'"
    "receipt_chain ed limit vf journal_id rows (n + 1) d' = Inr rs'" "rs = r' # rs'"
    by (auto simp add: accepts)
  have "head_digest d' rs' = Inr (rc_previous_receipt_digest r)"
    using Cons.prems(4) step(4,6) by (simp add: head_digest_def split: if_splits)
  with Cons.IH [OF step(5) Cons.prems(2) _ _ Cons.prems(5)] Cons.prems(3) step show ?case by simp
qed

lemma insort_key_snoc: "f a \<le> f x \<Longrightarrow> insort_key f a (ys @ [x]) = insort_key f a ys @ [x]"
  by (induction ys) auto

lemma sort_key_snoc:
  assumes "\<And>y. y \<in> set xs \<Longrightarrow> f y < f x"
  shows "sort_key f (xs @ [x]) = sort_key f xs @ [x]"
  using assms by (induction xs) (simp_all add: insort_key_snoc less_imp_le)

lemma receipt_to_dict_iff:
  "ControlReceipt_from_dict (ControlReceipt_to_dict x) = Inr y \<longleftrightarrow> ControlReceipt_ok x \<and> y = x"
proof -
  have wf: "wf_py (ControlReceipt_to_dict x)"
    by (simp add: ControlReceipt_to_dict_def ControlReceipt_unsigned_def list_all_iff)
  have "y = x" if "psort (ControlReceipt_to_dict x) = psort (ControlReceipt_to_dict y)"
  proof -
    have "ControlReceipt_unsigned y @ [(''signature'', PStr (rc_signature y))]
        = ControlReceipt_unsigned x @ [(''signature'', PStr (rc_signature x))]"
      by (rule items_psort_inject) (use wf that in \<open>simp_all add: ControlReceipt_to_dict_def ControlReceipt_unsigned_def
          del: psort.simps\<close>)
    then show ?thesis
      by (cases x; cases y) (simp add: ControlReceipt_unsigned_def)
  qed
  then show ?thesis using receipt.from_dict_iff [OF wf] by auto
qed

lemma receipt_signed:
  assumes "ControlReceipt_from_dict (PDict (items (ControlReceipt_unsigned c @ [(''signature'', PStr s)]))) = Inr r"
  shows "r = c\<lparr>rc_signature := s\<rparr>" "ControlReceipt_ok r"
proof -
  have "ControlReceipt_from_dict (ControlReceipt_to_dict (c\<lparr>rc_signature := s\<rparr>)) = Inr r"
    using assms by (simp add: ControlReceipt_to_dict_def ControlReceipt_unsigned_def)
  then show "r = c\<lparr>rc_signature := s\<rparr>" "ControlReceipt_ok r" by (simp_all add: receipt_to_dict_iff)
qed

section \<open>Finalising extends the chain\<close>

text \<open>A database whose chain verifies: its rows carry the sequences 1 to n, each once.\<close>

lemma chain_rows:
  assumes "receipt_sequence_from_connection ed limit vf db = Inr rs"
  shows "list_all2 (\<lambda>row r. \<exists>journal_id. receipt_from_row ed limit row vf journal_id = Inr r)
      (sort_key xw_receipt_sequence (db_receipts db)) rs"
    and "map xw_receipt_sequence (sort_key xw_receipt_sequence (db_receipts db)) = [1..int (length rs)]"
    and "length rs = length (db_receipts db)"
    and "set (map xw_receipt_sequence (db_receipts db)) = {1..int (length rs)}"
    and "distinct (map xw_receipt_sequence (db_receipts db))"
proof -
  let ?rows = "sort_key xw_receipt_sequence (db_receipts db)"
  obtain journal_id where "receipt_chain ed limit vf journal_id ?rows 1 EMPTY_RECEIPT_HEAD_DIGEST = Inr rs"
    using assms by (auto simp add: receipt_sequence_from_connection_def accepts)
  note rows = receipt_chain_rows [OF this]
  show "list_all2 (\<lambda>row r. \<exists>journal_id. receipt_from_row ed limit row vf journal_id = Inr r) ?rows rs"
    using rows(1) by (rule list_all2_mono) blast
  have len: "length ?rows = length rs" using rows(1) by (rule list_all2_lengthD)
  then show "length rs = length (db_receipts db)" by simp
  show upto: "map xw_receipt_sequence ?rows = [1..int (length rs)]" using rows(2) len by simp
  show "set (map xw_receipt_sequence (db_receipts db)) = {1..int (length rs)}"
    using arg_cong [OF upto, of set] by simp
  show "distinct (map xw_receipt_sequence (db_receipts db))"
    using arg_cong [OF upto, of mset] distinct_upto by (metis mset_map mset_sort mset_eq_imp_distinct_iff)
qed

lemma list_all2_member: "list_all2 P xs ys \<Longrightarrow> x \<in> set xs \<Longrightarrow> \<exists>y \<in> set ys. P x y"
  by (induction rule: list_all2_induct) auto

lemma last_row:
  assumes "receipt_sequence_from_connection ed limit vf db = Inr rs" "rs \<noteq> []"
    and "row \<in> set (db_receipts db)" "xw_receipt_sequence row = int (length rs)"
  shows "\<exists>journal_id. receipt_from_row ed limit row vf journal_id = Inr (last rs)"
proof -
  let ?rows = "sort_key xw_receipt_sequence (db_receipts db)"
  note rows = chain_rows [OF assms(1)]
  have ne: "?rows \<noteq> []" using assms(2) rows(3) by force
  have "xw_receipt_sequence (last ?rows) = last [1..int (length rs)]"
    using rows(2) ne by (metis last_map)
  also have "\<dots> = xw_receipt_sequence row"
    using assms(2,4) by (simp add: upto_rec2 Suc_le_eq)
  finally have "last ?rows = row"
    using rows(5) assms(3) ne by (metis (no_types, lifting) distinct_map inj_on_eq_iff last_in_set set_sort)
  moreover have "\<exists>journal_id. receipt_from_row ed limit (last ?rows) vf journal_id = Inr (last rs)"
    using rows(1) ne assms(2) rows(3) by (simp add: list_all2_conv_all_nth last_conv_nth)
  ultimately show ?thesis by simp
qed

lemma next_receipt_chain:
  assumes "receipt_sequence_from_connection ed limit (sg_verifier signer) db = Inr rs"
    and "next_receipt ed limit signer journal_id db = Inr (n, previous)"
  shows "n = int (length rs) + 1 \<and> head_digest EMPTY_RECEIPT_HEAD_DIGEST rs = Inr previous"
proof -
  note rows = chain_rows [OF assms(1)]
  show ?thesis
  proof (cases "rs = []")
    case True
    then show ?thesis
      using assms(2) rows(3) by (auto simp add: next_receipt_def accepts head_digest_def)
  next
    case False
    then have ne: "db_receipts db \<noteq> []" using rows(3) by force
    have bounds: "Max (set (map xw_receipt_sequence (db_receipts db))) = int (length rs)"
      unfolding rows(4) using False by (intro Max_eqI) (auto simp add: Suc_le_eq)
    obtain row latest where latest: "lookup xw_receipt_sequence (int (length rs)) (db_receipts db) = Some row"
      "receipt_from_row ed limit row (sg_verifier signer) journal_id = Inr latest"
      "n = rc_receipt_sequence latest + 1" "content_digest (ControlReceipt_to_dict latest) = Inr previous"
      using assms(2) ne bounds by (auto simp add: next_receipt_def Let_def accepts corrupt_def simp del: limits set_map split: option.splits)
    note row = lookup_Some_D [OF latest(1)]
    obtain journal_id' where "receipt_from_row ed limit row (sg_verifier signer) journal_id' = Inr (last rs)"
      using last_row [OF assms(1) False conjunct1 [OF row] conjunct2 [OF row]] by blast
    with latest(2) have "latest = last rs"
      by (auto simp add: receipt_from_row_def accepts)
    then show ?thesis
      using receipt_from_row_D [OF latest(2)] row False latest(3,4) by (simp add: head_digest_def)
  qed
qed

text \<open>The row a successful finalisation writes.\<close>

lemma finalize_tx_cases:
  assumes "finalize_tx ed limit signer identifier timestamp db = Inr (db', r)"
  obtains (existing) e row journal_id where "db' = db" "effect_from_connection db identifier = Inr e"
      "lookup receipt_key (identifier, ef_transition_version e) (db_receipts db) = Some row"
      "receipt_from_row ed limit row (sg_verifier signer) journal_id = Inr r"
  | (written) e journal_id n previous blob d s where "effect_from_connection db identifier = Inr e" "is_receiptable e"
      "journal_id_of db = Inr journal_id" "next_receipt ed limit signer journal_id db = Inr (n, previous)"
      "r = (new_receipt e journal_id n previous timestamp (sg_key_id signer))\<lparr>rc_signature := s\<rparr>" "ControlReceipt_ok r"
      "verify_control_receipt ed r (sg_verifier signer) = Inr ()" "canonical_json_bytes (ControlReceipt_to_dict r) = Inr blob"
      "content_digest (ControlReceipt_to_dict r) = Inr d" "db' = db\<lparr>db_receipts := db_receipts db @ [receipt_row_of r blob d]\<rparr>"
      "ef_effect_id e = identifier" "sg_key_id signer = ef_authority_key_id e"
      "lookup receipt_key (identifier, ef_transition_version e) (db_receipts db) = None"
proof -
  obtain e journal_id where e: "effect_from_connection db identifier = Inr e" "is_receiptable e" "journal_id_of db = Inr journal_id"
    "sg_key_id signer = ef_authority_key_id e"
    using assms by (auto simp add: finalize_tx_def accepts)
  have id: "ef_effect_id e = identifier"
    using e(1) by (auto simp add: effect_from_connection_def accepts effect_to_row_def dest!: lookup_Some_D split: option.splits)
  show ?thesis
  proof (cases "lookup receipt_key (identifier, ef_transition_version e) (db_receipts db)")
    case (Some row)
    then have "db' = db" "receipt_from_row ed limit row (sg_verifier signer) journal_id = Inr r"
      using assms e by (auto simp add: finalize_tx_def accepts)
    then show thesis using existing [OF _ e(1) Some] by simp
  next
    case None
    then obtain n previous s blob d db0 where steps:
      "next_receipt ed limit signer journal_id db = Inr (n, previous)"
      "ControlReceipt_from_dict (PDict (items (ControlReceipt_unsigned
          (new_receipt e journal_id n previous timestamp (sg_key_id signer)) @ [(''signature'', PStr s)]))) = Inr r"
      "verify_control_receipt ed r (sg_verifier signer) = Inr ()" "canonical_json_bytes (ControlReceipt_to_dict r) = Inr blob"
      "content_digest (ControlReceipt_to_dict r) = Inr d"
      "db' = db\<lparr>db_receipts := db_receipts db @ [\<lparr>xw_effect_id = identifier, xw_transition_version = ef_transition_version e,
            xw_receipt_sequence = n, xw_previous_receipt_digest = previous, xw_receipt_blob = blob, xw_receipt_digest = d\<rparr>]\<rparr>"
      using assms e by (auto simp add: finalize_tx_def Let_def accepts)
    note r = receipt_signed [OF steps(2)]
    show thesis
      by (rule written [OF e(1-3) steps(1) r steps(3-5) _ id e(4) None])
        (simp add: steps(6) receipt_row_of_def r(1) new_receipt_def id)
  qed
qed

lemma finalize_tx_chain:
  assumes "Suc MAX_JSON_DEPTH \<le> limit"
    and "receipt_sequence_from_connection ed limit (sg_verifier signer) db = Inr rs"
    and "finalize_tx ed limit signer identifier timestamp db = Inr (db', r)"
  shows "db' = db \<and> r \<in> set rs \<or>
    (\<exists>row. db' = db\<lparr>db_receipts := db_receipts db @ [row]\<rparr>)
      \<and> receipt_sequence_from_connection ed limit (sg_verifier signer) db' = Inr (rs @ [r])"
  using assms(3)
proof (cases rule: finalize_tx_cases)
  case (existing e row journal_id)
  note row = lookup_Some_D [OF existing(3)]
  have "row \<in> set (sort_key xw_receipt_sequence (db_receipts db))" using row by simp
  from list_all2_member [OF chain_rows(1) [OF assms(2)] this]
  obtain r' journal_id' where r': "r' \<in> set rs" "receipt_from_row ed limit row (sg_verifier signer) journal_id' = Inr r'" by blast
  moreover have "r' = r" using existing(4) r'(2) by (auto simp add: receipt_from_row_def accepts)
  ultimately show ?thesis using existing(1) by blast
next
  case (written e journal_id n previous blob d s)
  note rows = chain_rows [OF assms(2)]
  have next': "n = int (length rs) + 1" "head_digest EMPTY_RECEIPT_HEAD_DIGEST rs = Inr previous"
    using next_receipt_chain [OF assms(2) written(4)] by simp_all
  have r: "rc_receipt_sequence r = n" "rc_previous_receipt_digest r = previous" "rc_journal_id r = journal_id"
    by (simp_all add: written(5) new_receipt_def)
  have chain: "receipt_chain ed limit (sg_verifier signer) journal_id
      (sort_key xw_receipt_sequence (db_receipts db)) 1 EMPTY_RECEIPT_HEAD_DIGEST = Inr rs"
    using assms(2) written(3) by (simp add: receipt_sequence_from_connection_def)
  have sort: "sort_key xw_receipt_sequence (db_receipts db @ [receipt_row_of r blob d])
      = sort_key xw_receipt_sequence (db_receipts db) @ [receipt_row_of r blob d]"
  proof (rule sort_key_snoc)
    fix y assume "y \<in> set (db_receipts db)"
    then have "xw_receipt_sequence y \<in> {1..int (length rs)}" using rows(4) by auto
    then show "xw_receipt_sequence y < xw_receipt_sequence (receipt_row_of r blob d)"
      using next'(1) by (simp add: receipt_row_of_def r)
  qed
  have "receipt_from_row ed limit (receipt_row_of r blob d) (sg_verifier signer) journal_id = Inr r"
    using receipt_from_row_written [OF written(6,7) assms(1) written(8,9)] r(3) by simp
  from receipt_chain_snoc [OF chain this _ _ written(9)]
  have "receipt_chain ed limit (sg_verifier signer) journal_id
      (sort_key xw_receipt_sequence (db_receipts db) @ [receipt_row_of r blob d]) 1 EMPTY_RECEIPT_HEAD_DIGEST = Inr (rs @ [r])"
    using next' r rows(3) by simp
  moreover have "journal_id_of db' = Inr journal_id"
    using written(3,10) by (simp add: journal_id_of_def)
  ultimately have "receipt_sequence_from_connection ed limit (sg_verifier signer) db' = Inr (rs @ [r])"
    by (simp add: receipt_sequence_from_connection_def sort written(10))
  with written(10) show ?thesis by blast
qed

text \<open>Finalising the same effect again returns the stored receipt.\<close>

lemma finalize_tx_idempotent:
  assumes "Suc MAX_JSON_DEPTH \<le> limit" "finalize_tx ed limit signer identifier timestamp db = Inr (db', r)"
  shows "finalize_tx ed limit signer identifier timestamp' db' = Inr (db', r)"
  using assms(2)
proof (cases rule: finalize_tx_cases)
  case existing
  then show ?thesis using assms(2) by (auto simp add: finalize_tx_def accepts)
next
  case (written e journal_id n previous blob d s)
  have r: "rc_effect_id r = ef_effect_id e" "rc_transition_version r = ef_transition_version e" "rc_state r = ef_state e"
      "rc_journal_id r = journal_id"
    by (simp_all add: written(5) new_receipt_def)
  have "effect_from_connection db' identifier = Inr e" "journal_id_of db' = Inr journal_id"
    using written(1,3) by (simp_all add: written(10) effect_from_connection_def journal_id_of_def)
  moreover have "lookup receipt_key (identifier, ef_transition_version e) (db_receipts db') = Some (receipt_row_of r blob d)"
    using written(13) by (simp add: written(10) lookup_append receipt_key_def receipt_row_of_def r written(11))
  moreover have "receipt_from_row ed limit (receipt_row_of r blob d) (sg_verifier signer) journal_id = Inr r"
    using receipt_from_row_written [OF written(6,7) assms(1) written(8,9)] r(4) by simp
  ultimately show ?thesis
    using written(2,12) r by (simp add: finalize_tx_def)
qed

end
