(* ===== verification/Journal_Chain.thy ===== *)
theory Journal_Chain
  imports Journal_Receipts "HOL-Library.Sublist"
begin

text \<open>
  What the chain of receipts guarantees: a verified chain is determined by its last receipt, and the
  synchronisation with an external anchor succeeds only when the anchored receipt is the head of the
  chain that was read.
\<close>

section \<open>Linked receipts\<close>

fun linked :: "pystr \<Rightarrow> int \<Rightarrow> pystr \<Rightarrow> ControlReceipt list \<Rightarrow> bool" where
  "linked journal_id n previous [] = True"
| "linked journal_id n previous (r # rs) =
     (ControlReceipt_ok r \<and> rc_journal_id r = journal_id \<and> rc_receipt_sequence r = n
      \<and> rc_previous_receipt_digest r = previous
      \<and> (\<exists>d. content_digest (ControlReceipt_to_dict r) = Inr d \<and> linked journal_id (n + 1) d rs))"

lemma receipt_chain_linked:
  "receipt_chain ed limit vf journal_id rows n previous = Inr rs \<Longrightarrow> linked journal_id n previous rs"
proof (induction rows arbitrary: n previous rs)
  case (Cons row rows)
  then obtain r d rs' where step: "receipt_from_row ed limit row vf journal_id = Inr r" "rc_receipt_sequence r = n"
    "rc_previous_receipt_digest r = previous" "content_digest (ControlReceipt_to_dict r) = Inr d"
    "receipt_chain ed limit vf journal_id rows (n + 1) d = Inr rs'" "rs = r # rs'"
    by (auto simp add: accepts)
  then show ?case using Cons.IH [OF step(5)] receipt_from_row_D [OF step(1)] by auto
qed simp

lemma linked_append:
  "linked journal_id n previous (xs @ ys) \<longleftrightarrow> linked journal_id n previous xs
     \<and> (ys = [] \<or> (\<exists>d. head_digest previous xs = Inr d \<and> linked journal_id (n + int (length xs)) d ys))"
proof (induction xs arbitrary: n previous)
  case Nil
  then show ?case by (cases ys) (auto simp add: head_digest_def)
next
  case (Cons x xs)
  have len: "n + 1 + int (length xs) = n + int (length (x # xs))" by simp
  show ?case
  proof (cases "content_digest (ControlReceipt_to_dict x)")
    case (Inr d)
    then have "head_digest previous (x # xs) = head_digest d xs" by (simp add: head_digest_def)
    then show ?thesis using Inr Cons.IH [of "n + 1" d] len by auto
  qed simp
qed

lemma linked_sequence:
  "linked journal_id n previous rs \<Longrightarrow> i < length rs \<Longrightarrow> rc_receipt_sequence (rs ! i) = n + int i"
  by (induction rs arbitrary: n previous i) (auto simp add: nth_Cons split: nat.splits)

lemma linked_ok: "linked journal_id n previous rs \<Longrightarrow> r \<in> set rs \<Longrightarrow> ControlReceipt_ok r \<and> rc_journal_id r = journal_id"
  by (induction rs arbitrary: n previous) auto

lemma linked_take: "linked journal_id n previous rs \<Longrightarrow> linked journal_id n previous (take k rs)"
  using linked_append [of journal_id n previous "take k rs" "drop k rs"] by simp

lemma linked_pair:
  assumes "linked journal_id n previous ((xs @ [y]) @ [x])"
  shows "linked journal_id n previous (xs @ [y])"
    and "content_digest (ControlReceipt_to_dict y) = Inr (rc_previous_receipt_digest x)"
  using assms unfolding linked_append [of journal_id n previous "xs @ [y]" "[x]"] by (auto simp add: head_digest_def)

text \<open>A pair of receipts whose canonical bytes collide under SHA-256.\<close>

definition receipt_collision :: "ControlReceipt \<Rightarrow> ControlReceipt \<Rightarrow> bool" where
  "receipt_collision r r' \<longleftrightarrow> (\<exists>b b'. b \<noteq> b' \<and> sha256 b = sha256 b'
     \<and> canonical_json_bytes (ControlReceipt_to_dict r) = Inr b
     \<and> canonical_json_bytes (ControlReceipt_to_dict r') = Inr b')"

lemma receipt_digest_binds:
  assumes "content_digest (ControlReceipt_to_dict r) = Inr d" "content_digest (ControlReceipt_to_dict r') = Inr d"
    and "ControlReceipt_ok r" "ControlReceipt_ok r'"
  shows "r = r' \<or> receipt_collision r r'"
proof -
  obtain b b' where b: "canonical_json_bytes (ControlReceipt_to_dict r) = Inr b" "canonical_json_bytes (ControlReceipt_to_dict r') = Inr b'"
    "sha256 b = sha256 b'"
    using assms(1,2) by (auto simp add: content_digest_def hexdigest_inject)
  show ?thesis
  proof (cases "b = b'")
    case True
    then show ?thesis using b assms(3,4) receipt.bytes_inject by blast
  next
    case False
    then show ?thesis using b by (auto simp add: receipt_collision_def)
  qed
qed

lemma linked_same_head:
  assumes "linked journal_id n previous (xs @ [x])" "linked journal_id n previous (ys @ [x])" "length xs = length ys"
  shows "xs = ys \<or> (\<exists>r \<in> set xs. \<exists>r' \<in> set ys. receipt_collision r r')"
  using assms
proof (induction xs arbitrary: ys x rule: rev_induct)
  case Nil
  then show ?case by simp
next
  case (snoc y xs)
  then obtain y' ys' where ys: "ys = ys' @ [y']" by (metis append_Nil2 length_0_conv length_append_singleton nat.distinct(1) rev_exhaust)
  note parts = linked_pair [OF snoc.prems(1)] linked_pair [OF snoc.prems(2) [unfolded ys]]
  have "ControlReceipt_ok y" "ControlReceipt_ok y'"
    using linked_ok [OF parts(1), of y] linked_ok [OF parts(3), of y'] by simp_all
  from receipt_digest_binds [OF parts(2,4) this] show ?case
  proof
    assume "y = y'"
    with snoc.IH [of y ys'] parts(1,3) snoc.prems(3) ys show ?case by auto
  qed (auto simp add: ys)
qed

text \<open>A receipt of one chain that is the head of another makes the other one a prefix.\<close>

lemma linked_head_prefix:
  assumes "linked journal_id 1 previous rs" "linked journal_id 1 previous rs'" "rs \<noteq> []" "last rs \<in> set rs'"
  shows "prefix rs rs' \<or> (\<exists>r \<in> set rs. \<exists>r' \<in> set rs'. receipt_collision r r')"
proof -
  obtain i where i: "i < length rs'" "rs' ! i = last rs" using assms(4) by (auto simp add: in_set_conv_nth)
  have "1 + int i = 1 + int (length rs - 1)"
    using linked_sequence [OF assms(2) i(1)] linked_sequence [OF assms(1), of "length rs - 1"] assms(3) i(2)
    by (simp add: last_conv_nth)
  then have len: "i = length rs - 1" by simp
  have "take (Suc i) rs' = take i rs' @ [last rs]" using i by (simp add: take_Suc_conv_app_nth)
  moreover have "rs = butlast rs @ [last rs]" using assms(3) by simp
  ultimately have "linked journal_id 1 previous (butlast rs @ [last rs])" "linked journal_id 1 previous (take i rs' @ [last rs])"
    using linked_take [OF assms(2), of "Suc i"] assms(1) by simp_all
  moreover have "length (butlast rs) = length (take i rs')" using i len by simp
  ultimately have "butlast rs = take i rs' \<or> (\<exists>r \<in> set (butlast rs). \<exists>r' \<in> set (take i rs'). receipt_collision r r')"
    by (rule linked_same_head)
  then show ?thesis
  proof
    assume "butlast rs = take i rs'"
    then have "rs = take (Suc i) rs'" using \<open>take (Suc i) rs' = _\<close> assms(3) by (metis append_butlast_last_id)
    then show ?thesis by (metis take_is_prefix)
  next
    assume "\<exists>r \<in> set (butlast rs). \<exists>r' \<in> set (take i rs'). receipt_collision r r'"
    then show ?thesis by (meson in_set_butlastD in_set_takeD)
  qed
qed

lemma sequence_linked:
  assumes "receipt_sequence_from_connection ed limit vf db = Inr rs"
  obtains journal_id where "journal_id_of db = Inr journal_id" "linked journal_id 1 EMPTY_RECEIPT_HEAD_DIGEST rs"
  using assms receipt_chain_linked by (auto simp add: receipt_sequence_from_connection_def accepts)

section \<open>The anchor\<close>

lemma check_anchor_Some:
  assumes "check_anchor ed limit journal_id vf loaded = Inr (Some (r, blob))"
  shows "loaded = LoadBytes blob" "canonical_json_bytes (ControlReceipt_to_dict r) = Inr blob"
    "rc_journal_id r = journal_id" "ControlReceipt_ok r" "verify_control_receipt ed r vf = Inr ()"
proof -
  obtain v where v: "loaded = LoadBytes blob" "decode_json_payload limit blob = Inr v" "ControlReceipt_from_dict v = Inr r"
    "verify_control_receipt ed r vf = Inr ()" "canonical_json_bytes (ControlReceipt_to_dict r) = Inr blob" "rc_journal_id r = journal_id"
    using assms by (cases loaded) (auto simp add: check_anchor_def accepts corrupt_def simp del: limits
        split: if_splits sum.splits exn.splits)
  then show "loaded = LoadBytes blob" "canonical_json_bytes (ControlReceipt_to_dict r) = Inr blob" "rc_journal_id r = journal_id"
    "verify_control_receipt ed r vf = Inr ()" by simp_all
  show "ControlReceipt_ok r" using receipt.payload_sound [of limit blob r] v(2,3) by simp
qed

lemma check_anchor_None: "check_anchor ed limit journal_id vf loaded = Inr None \<Longrightarrow> loaded = LoadMissing"
  by (cases loaded) (auto simp add: check_anchor_def corrupt_def simp del: limits split: if_splits sum.splits exn.splits)

text \<open>The anchor agrees with a sequence: nothing is anchored and there is no receipt, or the anchored
  bytes are those of the head.\<close>

definition anchored_head :: "loaded \<Rightarrow> ControlReceipt list \<Rightarrow> bool" where
  "anchored_head loaded rs \<longleftrightarrow> (if rs = [] then loaded = LoadMissing
     else \<exists>blob. loaded = LoadBytes blob \<and> canonical_json_bytes (ControlReceipt_to_dict (last rs)) = Inr blob)"

lemma anchor_attempt_Done:
  assumes "anchor_attempt st io ed limit vf journal_id allowed rs s = (s', allowed', Done (Inr ()))"
  shows "\<exists>loaded. as_load st s journal_id = (s', loaded) \<and> anchored_head loaded rs"
proof -
  obtain s1 loaded where load: "as_load st s journal_id = (s1, loaded)" by fastforce
  have put: "put_anchor st io ed limit vf journal_id a rs c e s1 \<noteq> (s', allowed', Done (Inr ()))" for a c e
    by (auto simp add: put_anchor_def corrupt_def split: sum.splits prod.splits swapped.splits bool.splits if_splits)
  show ?thesis
  proof (cases "check_anchor ed limit journal_id vf loaded")
    case (Inl e)
    then show ?thesis using assms load by (simp add: anchor_attempt_def)
  next
    case (Inr anchored)
    show ?thesis
    proof (cases anchored)
      case None
      then show ?thesis
        using assms load Inr put check_anchor_None [of ed limit journal_id vf loaded]
        by (auto simp add: anchor_attempt_def anchored_head_def corrupt_def split: if_splits)
    next
      case (Some rb)
      obtain r blob where rb: "rb = (r, blob)" by fastforce
      have "rs \<noteq> []" "r = last rs" "s' = s1"
        using assms load Inr Some rb put by (auto simp add: anchor_attempt_def corrupt_def split: if_splits sum.splits)
      then show ?thesis
        using load check_anchor_Some [of ed limit journal_id vf loaded r blob] Inr Some rb by (simp add: anchored_head_def)
    qed
  qed
qed

text \<open>
  The states of the anchor store that a synchronisation passes through: each comes from the one before
  by a call of the store for this journal.
\<close>

inductive store_run :: "'s anchor_store \<Rightarrow> pystr \<Rightarrow> 's \<Rightarrow> 's \<Rightarrow> bool" for st :: "'s anchor_store" and journal_id :: pystr where
  here: "store_run st journal_id s s"
| load: "store_run st journal_id s s2" if "as_load st s journal_id = (s1, loaded)" "store_run st journal_id s1 s2"
| swap: "store_run st journal_id s s2" if "as_swap st s journal_id expected v = (s1, swapped)" "store_run st journal_id s1 s2"

lemma store_run_trans: "store_run st journal_id s s1 \<Longrightarrow> store_run st journal_id s1 s2 \<Longrightarrow> store_run st journal_id s s2"
  by (induction rule: store_run.induct) (auto intro: store_run.intros)

text \<open>The sequence that goes into the next round is the one of this round, or was read again on the way.\<close>

definition sequence_read ::
    "'s anchor_store \<Rightarrow> journal_io \<Rightarrow> ed25519 \<Rightarrow> nat \<Rightarrow> ControlVerifier \<Rightarrow> pystr \<Rightarrow> ControlReceipt list \<Rightarrow> 's \<Rightarrow> 's \<Rightarrow>
     ControlReceipt list \<Rightarrow> bool" where
  "sequence_read st io ed limit vf journal_id rs s s' rs' \<longleftrightarrow> store_run st journal_id s s'
     \<and> (rs' = rs \<or> (\<exists>s1. store_run st journal_id s s1 \<and> store_run st journal_id s1 s'
                    \<and> refresh st io ed limit vf journal_id s1 = Inr rs'))"

lemma sequence_read_trans:
  "sequence_read st io ed limit vf journal_id rs s s1 rs1 \<Longrightarrow> sequence_read st io ed limit vf journal_id rs1 s1 s2 rs2 \<Longrightarrow>
   sequence_read st io ed limit vf journal_id rs s s2 rs2"
  unfolding sequence_read_def by (metis store_run_trans)

lemma anchor_attempt_Again:
  assumes "anchor_attempt st io ed limit vf journal_id allowed rs s = (s', allowed', Again rs')"
  shows "sequence_read st io ed limit vf journal_id rs s s' rs'"
proof -
  obtain s0 loaded where load: "as_load st s journal_id = (s0, loaded)" by fastforce
  have put: "sequence_read st io ed limit vf journal_id rs s s' rs'"
    if put: "put_anchor st io ed limit vf journal_id a rs c e s0 = (s', allowed', Again rs')" for a c e
  proof -
    obtain v swapped where swap: "as_swap st s0 journal_id e v = (s', swapped)"
      and read: "rs' = rs \<or> refresh st io ed limit vf journal_id s' = Inr rs'"
      using put by (auto simp add: put_anchor_def split: sum.splits prod.splits swapped.splits bool.splits if_splits)
    have "store_run st journal_id s s'" by (rule store_run.load [OF load store_run.swap [OF swap store_run.here]])
    then show ?thesis using read by (auto simp add: sequence_read_def intro: store_run.here)
  qed
  have again: "sequence_read st io ed limit vf journal_id rs s s0 rs'" if "refresh st io ed limit vf journal_id s0 = Inr rs'"
    using that store_run.load [OF load store_run.here] by (auto simp add: sequence_read_def intro: store_run.here)
  show ?thesis
    using assms put again load by (auto simp add: anchor_attempt_def split: sum.splits option.splits if_splits)
qed

lemma anchor_loop_Inr:
  assumes "anchor_loop n st io ed limit vf journal_id allowed rs s = (s', allowed', Inr ())"
  shows "\<exists>rs' s1 loaded. sequence_read st io ed limit vf journal_id rs s s1 rs'
    \<and> as_load st s1 journal_id = (s', loaded) \<and> anchored_head loaded rs'"
  using assms
proof (induction n arbitrary: allowed rs s)
  case 0
  then show ?case by simp
next
  case (Suc n)
  obtain s1 al1 outcome where attempt: "anchor_attempt st io ed limit vf journal_id allowed rs s = (s1, al1, outcome)"
    by (metis prod_cases3)
  show ?case
  proof (cases outcome)
    case (Done result)
    moreover have "sequence_read st io ed limit vf journal_id rs s s rs" by (simp add: sequence_read_def store_run.here)
    ultimately show ?thesis
      using Suc.prems attempt anchor_attempt_Done [of st io ed limit vf journal_id allowed rs s s1 al1] by auto
  next
    case (Again rs1)
    then have "anchor_loop n st io ed limit vf journal_id al1 rs1 s1 = (s', allowed', Inr ())"
      using Suc.prems attempt by simp
    from Suc.IH [OF this] obtain rs' s2 loaded where
      found: "sequence_read st io ed limit vf journal_id rs1 s1 s2 rs'"
      "as_load st s2 journal_id = (s', loaded)" "anchored_head loaded rs'" by blast
    have "sequence_read st io ed limit vf journal_id rs s s1 rs1"
      using attempt unfolding Again by (rule anchor_attempt_Again)
    with found show ?thesis by (blast intro: sequence_read_trans)
  qed
qed

text \<open>What the journal reads as its sequence is linked and signed.\<close>

definition signed_sequence :: "ed25519 \<Rightarrow> ControlVerifier \<Rightarrow> pystr \<Rightarrow> ControlReceipt list \<Rightarrow> bool" where
  "signed_sequence ed vf journal_id rs \<longleftrightarrow> linked journal_id 1 EMPTY_RECEIPT_HEAD_DIGEST rs
     \<and> list_all (\<lambda>r. verify_control_receipt ed r vf = Inr ()) rs"

lemma sequence_signed:
  assumes "read_receipt_sequence io ed limit vf db = Inr (journal_id, rs)"
  shows "journal_id_of db = Inr journal_id" "receipt_sequence_from_connection ed limit vf db = Inr rs"
    and "signed_sequence ed vf journal_id rs"
proof -
  show read: "journal_id_of db = Inr journal_id" "receipt_sequence_from_connection ed limit vf db = Inr rs"
    using assms by (auto simp add: read_receipt_sequence_def accepts dest!: reader_Inr)
  then have chain: "receipt_chain ed limit vf journal_id (sort_key xw_receipt_sequence (db_receipts db)) 1
      EMPTY_RECEIPT_HEAD_DIGEST = Inr rs"
    by (simp add: receipt_sequence_from_connection_def)
  have "verify_control_receipt ed r vf = Inr ()" if r: "r \<in> set rs" for r
  proof -
    obtain row where "receipt_from_row ed limit row vf journal_id = Inr r"
      using receipt_chain_rows(1) [OF chain] r by (auto simp add: list_all2_conv_all_nth in_set_conv_nth)
    then show ?thesis using receipt_from_row_D by blast
  qed
  then show "signed_sequence ed vf journal_id rs"
    using receipt_chain_linked [OF chain] by (simp add: signed_sequence_def list_all_iff)
qed

end
