(* ===== verification/Journal_Safety.thy ===== *)
theory Journal_Safety
  imports Journal_Chain
begin

text \<open>
  The journal as a state machine. \<open>journal_step\<close> is one call of an operation of \<open>ControlJournal\<close> that
  may write, with any arguments and any fault of the database; \<open>journal_spec\<close> says which changes of the
  database are allowed at all. Every call refines the specification, and the safety properties are
  proved on the specification by rule induction.
\<close>

section \<open>The specification\<close>

definition startable :: "journal_db \<Rightarrow> ControlEffectRecord \<Rightarrow> bool" where
  "startable db e \<longleftrightarrow> \<not> is_revoked_in db REVOKED_GRANT (ef_grant_id e) \<and> \<not> is_revoked_in db REVOKED_PERMIT (ef_permit_id e)
     \<and> (\<exists>t \<in> set (db_targets db). tw_target_id t = ef_target_id e \<and> tw_target_kind t = by_value TargetKind (ef_target_kind e)
          \<and> target_version t = effect_version (effect_to_row e))"

definition permit_live :: "journal_db \<Rightarrow> pystr \<Rightarrow> int \<Rightarrow> bool" where
  "permit_live db permit_id timestamp \<longleftrightarrow>
     (\<exists>w \<in> set (db_permits db). pw_permit_id w = permit_id \<and> timestamp < pw_expires_at_ms w)"

inductive journal_spec :: "journal_db \<Rightarrow> journal_db \<Rightarrow> bool" where
  unchanged: "journal_spec db db"
| revoked: "journal_spec db (db\<lparr>db_revocations := db_revocations db @ [w]\<rparr>)"
    if "\<not> is_revoked_in db (vw_kind w) (vw_object_id w)"
| claimed: "journal_spec db (claimed_db db effect_id env route timestamp gb pb d)"
    if "claim_ready env route timestamp gb pb" "claimable db env timestamp gb"
      "lookup ew_effect_id effect_id (db_effects db) = None" "canonical_uuid_text effect_id" "digest_text d"
| moved: "journal_spec db (moved_db db (moved_record current new_state timestamp reason evidence))"
    if "effect_to_row current \<in> set (db_effects db)" "new_state \<in> ALLOWED_TRANSITIONS (ef_state current)"
      "ef_updated_at_ms current \<le> timestamp" "0 \<le> timestamp" "timestamp \<le> MAX_SAFE_INTEGER" "safe_id_text reason"
      "digest_text evidence" "new_state = STARTED \<Longrightarrow> startable db current \<and> permit_live db (ef_permit_id current) timestamp"
| receipted: "journal_spec db (db\<lparr>db_receipts := db_receipts db @ [x]\<rparr>)"

section \<open>The program\<close>

inductive journal_step :: "ed25519 \<Rightarrow> nat \<Rightarrow> journal_db \<Rightarrow> journal_db \<Rightarrow> bool" for ed :: ed25519 and limit :: nat where
  revoke: "journal_step ed limit db db'"
    if "revoke io kind object_id revoked_at_ms reason_code db = (db', outcome)"
| claim: "journal_step ed limit db db'"
    if "length random = 16" "claim io ed random envelope route vf p live_snapshot now_ms db = (db', outcome)"
| transition: "journal_step ed limit db db'"
    if "transition io effect_id new_state now_ms reason_code evidence_digest db = (db', outcome)"
| finalize: "journal_step ed limit db db'"
    if "finalize_receipt_unanchored io ed limit effect_id signer completed_at_ms db = (db', outcome)"

inductive reachable :: "ed25519 \<Rightarrow> nat \<Rightarrow> journal_db \<Rightarrow> bool" for ed :: ed25519 and limit :: nat where
  init: "reachable ed limit (new_journal journal_id)" if "journal_nonce_id random = Inr journal_id"
| step: "reachable ed limit db'" if "reachable ed limit db" "journal_step ed limit db db'"

section \<open>Every operation refines the specification\<close>

lemma start_checks_Inr:
  assumes "start_checks current timestamp db = Inr ()"
  shows "startable db current \<and> permit_live db (ef_permit_id current) timestamp"
proof -
  obtain p t where rows: "lookup pw_permit_id (ef_permit_id current) (db_permits db) = Some p"
    "lookup tw_target_id (ef_target_id current) (db_targets db) = Some t"
    "timestamp < pw_expires_at_ms p" "tw_target_kind t = by_value TargetKind (ef_target_kind current)"
    "tw_target_epoch t = ef_target_epoch current" "tw_target_revision t = ef_target_revision current"
    "tw_fencing_token t = ef_fencing_token current"
    and "\<not> is_revoked_in db REVOKED_GRANT (ef_grant_id current)" "\<not> is_revoked_in db REVOKED_PERMIT (ef_permit_id current)"
    using assms by (auto simp add: start_checks_def accepts corrupt_def simp del: limits split: option.splits)
  moreover have "target_version t = effect_version (effect_to_row current)"
    using rows by (simp add: target_version_def effect_version_def effect_to_row_def)
  ultimately show ?thesis
    using lookup_Some_D [OF rows(1)] lookup_Some_D [OF rows(2)] by (auto simp add: startable_def permit_live_def)
qed

text \<open>The blocks before the insertion of a claim leave the effects alone.\<close>

lemma claim_blocks_effects:
  "claim_grant g gb db = Inr (db1, used) \<Longrightarrow> db_effects db1 = db_effects db"
  "claim_session r timestamp db = Inr db1 \<Longrightarrow> db_effects db1 = db_effects db"
  "claim_target t timestamp db = Inr db1 \<Longrightarrow> db_effects db1 = db_effects db"
proof -
  show "claim_grant g gb db = Inr (db1, used) \<Longrightarrow> db_effects db1 = db_effects db"
    by (cases "lookup gw_grant_id (gr_grant_id g) (db_grants db)") (auto simp add: claim_grant_def accepts simp del: limits)
  show "claim_session r timestamp db = Inr db1 \<Longrightarrow> db_effects db1 = db_effects db"
    by (cases "lookup sw_session_id (rq_session_id r) (db_sessions db)") (auto simp add: claim_session_def accepts simp del: limits)
  show "claim_target t timestamp db = Inr db1 \<Longrightarrow> db_effects db1 = db_effects db"
    by (cases "lookup tw_target_id (tr_target_id t) (db_targets db)") (auto simp add: claim_target_def accepts simp del: limits)
qed

lemma claim_tx_fresh:
  assumes "claim_tx effect_id env route timestamp gb pb db = Inr (db', record)"
  shows "lookup ew_effect_id effect_id (db_effects db) = None \<and> (\<exists>d. ControlRequest_digest (en_request env) = Inr d)"
proof -
  obtain db1 db2 db3 used d where steps: "claim_grant (en_grant env) gb db = Inr (db1, used)"
    "claim_session (en_request env) timestamp db1 = Inr db2" "claim_target (rq_target (en_request env)) timestamp db2 = Inr db3"
    "ControlRequest_digest (en_request env) = Inr d" "lookup ew_effect_id effect_id (db_effects db3) = None"
    using assms unfolding claim_tx_def Let_def rbind_pair_iff
    by (auto simp add: accepts claimed_effect_def Let_def simp del: limits)
  then show ?thesis using claim_blocks_effects by metis
qed

lemma claim_step:
  assumes "journal_ok db" "length random = 16" "claim_authority ed envelope route vf p live now = Inr (env, timestamp, gb, pb)"
    and "claim_tx (uuid4 random) env route timestamp gb pb db = Inr (db', record)"
  shows "\<exists>d. ControlRequest_digest (en_request env) = Inr d \<and> claim_ready env route timestamp gb pb
    \<and> claimable db env timestamp gb \<and> lookup ew_effect_id (uuid4 random) (db_effects db) = None
    \<and> db' = claimed_db db (uuid4 random) env route timestamp gb pb d \<and> record = claimed_record (uuid4 random) env d route timestamp"
proof -
  note ready = claim_authority_ready(1) [OF assms(3)]
  obtain d where fresh: "lookup ew_effect_id (uuid4 random) (db_effects db) = None"
    and d: "ControlRequest_digest (en_request env) = Inr d"
    using claim_tx_fresh [OF assms(4)] by blast
  have "digest_text d" using d content_digest_text by (simp add: ControlRequest_digest_def)
  from claim_tx_iff [OF assms(1) ready fresh uuid4_canonical [OF assms(2)] d this] show ?thesis
    using assms(4) ready fresh d by blast
qed

lemma journal_step_spec:
  assumes "journal_ok db" "journal_step ed limit db db'"
  shows "journal_spec db db'"
  using assms(2)
proof cases
  case (revoke io kind object_id revoked_at_ms reason_code outcome)
  show ?thesis
  proof (cases "db' = db")
    case False
    then obtain t where "immediate io (\<lambda>db. Inr (insert_or_ignore_revocation
        \<lparr>vw_kind = kind, vw_object_id = object_id, vw_revoked_at_ms = t, vw_reason_code = reason_code\<rparr> db, ())) db = (db', outcome)"
      using revoke by (auto simp add: revoke_def accepts split: sum.splits)
    then have "db' = insert_or_ignore_revocation
        \<lparr>vw_kind = kind, vw_object_id = object_id, vw_revoked_at_ms = t, vw_reason_code = reason_code\<rparr> db"
      using False by (auto elim!: immediate_cases)
    then show ?thesis
      using False journal_spec.revoked [of db "\<lparr>vw_kind = kind, vw_object_id = object_id, vw_revoked_at_ms = t, vw_reason_code = reason_code\<rparr>"]
      by (auto simp add: insert_or_ignore_revocation_def is_revoked_in_def revocation_key_def split: if_splits)
  qed (simp add: unchanged)
next
  case (claim random io envelope route vf p live now outcome)
  show ?thesis
  proof (cases "db' = db")
    case False
    then obtain env timestamp gb pb where auth: "claim_authority ed envelope route vf p live now = Inr (env, timestamp, gb, pb)"
      and "immediate io (claim_tx (uuid4 random) env route timestamp gb pb) db = (db', outcome)"
      using claim by (auto simp add: claim_def split: sum.splits)
    then obtain r where tx: "claim_tx (uuid4 random) env route timestamp gb pb db = Inr (db', r)"
      using False by (auto elim!: immediate_cases)
    obtain d where "ControlRequest_digest (en_request env) = Inr d" "claim_ready env route timestamp gb pb"
      "claimable db env timestamp gb" "lookup ew_effect_id (uuid4 random) (db_effects db) = None"
      "db' = claimed_db db (uuid4 random) env route timestamp gb pb d"
      using claim_step [OF assms(1) claim(1) auth tx] by blast
    then show ?thesis
      using uuid4_canonical [OF claim(1)] content_digest_text [of _ d]
      by (auto intro: journal_spec.claimed simp add: ControlRequest_digest_def)
  qed (simp add: unchanged)
next
  case (transition io effect_id new_state now reason_code evidence outcome)
  show ?thesis
  proof (cases "db' = db")
    case False
    then have inputs: "0 \<le> now" "now \<le> MAX_SAFE_INTEGER" "safe_id_text reason_code" "digest_text evidence"
      and "immediate io (transition_tx effect_id new_state now reason_code evidence) db = (db', outcome)"
      using transition by (auto simp add: transition_def transition_inputs_def accepts simp del: limits split: sum.splits)
    then obtain later where "transition_tx effect_id new_state now reason_code evidence db = Inr (db', later)"
      using False by (auto elim!: immediate_cases)
    then show ?thesis
      unfolding transition_tx_iff [OF assms(1) inputs] using inputs start_checks_Inr by (auto intro: journal_spec.moved)
  qed (simp add: unchanged)
next
  case (finalize io effect_id signer completed_at_ms outcome)
  show ?thesis
  proof (cases "db' = db")
    case False
    then obtain t where "immediate io (finalize_tx ed limit signer effect_id t) db = (db', outcome)"
      using finalize by (auto simp add: finalize_receipt_unanchored_def accepts simp del: limits split: sum.splits)
    then obtain r where "finalize_tx ed limit signer effect_id t db = Inr (db', r)"
      using False by (auto elim!: immediate_cases)
    then show ?thesis using False by (cases rule: finalize_tx_cases) (auto intro: receipted)
  qed (simp add: unchanged)
qed

lemma journal_spec_ok: "journal_spec db db' \<Longrightarrow> journal_ok db \<Longrightarrow> journal_ok db'"
proof (induction rule: journal_spec.induct)
  case (revoked db w)
  then show ?case
    by (auto simp add: journal_ok_def revocations_ok_def is_revoked_in_def lookup_None_iff revocation_key_def)
next
  case (claimed env route timestamp gb pb db effect_id d)
  then show ?case by (intro claimed_db_ok)
next
  case (moved current db new_state timestamp reason evidence)
  then have "effect_moves (db_effects db) current (moved_record current new_state timestamp reason evidence)"
    by (intro moved_record_moves) (auto simp add: journal_ok_def)
  then show ?case using moved by (intro moved_db_ok)
qed (simp_all add: journal_ok_def)

lemma reachable_ok: "reachable ed limit db \<Longrightarrow> journal_ok db"
proof (induction rule: reachable.induct)
  case (init random journal_id)
  then show ?case using new_journal_ok content_digest_text by (simp add: journal_nonce_id_def)
next
  case (step db db')
  then show ?case using journal_step_spec journal_spec_ok by blast
qed

end
