(* ===== verification/Journal_Properties.thy ===== *)
theory Journal_Properties
  imports Journal_Safety
begin

text \<open>
  The properties of the journal, over runs of any length: what has happened once stays, and what a
  later call may still do.
\<close>

section \<open>One step\<close>

text \<open>An effect only moves forward along the allowed transitions; its authority and target never change.\<close>

definition effect_later :: "ControlEffectRecord \<Rightarrow> ControlEffectRecord \<Rightarrow> bool" where
  "effect_later e e' \<longleftrightarrow>
     e' = e\<lparr>ef_state := ef_state e', ef_reason_code := ef_reason_code e', ef_evidence_digest := ef_evidence_digest e',
            ef_transition_version := ef_transition_version e', ef_updated_at_ms := ef_updated_at_ms e'\<rparr>
     \<and> (e' = e \<or> ef_transition_version e < ef_transition_version e' \<and> ef_updated_at_ms e \<le> ef_updated_at_ms e'
          \<and> (ef_state e, ef_state e') \<in> {(old, new). new \<in> ALLOWED_TRANSITIONS old}\<^sup>+)"

lemma effect_later_refl: "effect_later e e"
  by (simp add: effect_later_def)

lemma effect_later_trans:
  assumes "effect_later e e'" "effect_later e' e''" shows "effect_later e e''"
proof -
  have same: "e'' = e\<lparr>ef_state := ef_state e'', ef_reason_code := ef_reason_code e'', ef_evidence_digest := ef_evidence_digest e'',
      ef_transition_version := ef_transition_version e'', ef_updated_at_ms := ef_updated_at_ms e''\<rparr>"
    using assms by (cases e; cases e'; cases e'') (simp add: effect_later_def)
  show ?thesis
  proof (cases "e' = e \<or> e'' = e'")
    case True
    then show ?thesis using assms by auto
  next
    case False
    then have "ef_transition_version e < ef_transition_version e''" "ef_updated_at_ms e \<le> ef_updated_at_ms e''"
      "(ef_state e, ef_state e'') \<in> {(old, new). new \<in> ALLOWED_TRANSITIONS old}\<^sup>+"
      using assms by (auto simp add: effect_later_def intro: trancl_trans)
    with same show ?thesis by (simp add: effect_later_def)
  qed
qed

lemma effect_later_id: "effect_later e e' \<Longrightarrow> ef_effect_id e' = ef_effect_id e \<and> ef_permit_id e' = ef_permit_id e
    \<and> ef_grant_id e' = ef_grant_id e"
  by (cases e; cases e') (simp add: effect_later_def)

lemma terminal_no_path:
  "(old, new) \<in> {(old, new). new \<in> ALLOWED_TRANSITIONS old}\<^sup>+ \<Longrightarrow> old \<noteq> VERIFIED \<and> old \<noteq> FAILED"
  by (induction rule: converse_trancl_induct) auto

lemma effect_in_db:
  assumes "journal_ok db" "effect_to_row e \<in> set (db_effects db)" "effect_to_row e' \<in> set (db_effects db)"
    "ef_effect_id e = ef_effect_id e'"
  shows "e = e'"
  using only_effect [of "db_effects db" e' "effect_to_row e"] assms
  by (simp add: journal_ok_def effects_ok_def effect_to_row_inject)

lemma spec_effect:
  assumes "journal_spec db db'" "journal_ok db" "effect_to_row e \<in> set (db_effects db)"
  shows "\<exists>e'. effect_to_row e' \<in> set (db_effects db') \<and> effect_later e e'"
  using assms
proof (cases rule: journal_spec.cases)
  case (moved current new_state timestamp reason evidence)
  let ?later = "moved_record current new_state timestamp reason evidence"
  have moves: "effect_moves (db_effects db) current ?later"
    using moved assms(2) by (intro moved_record_moves) (auto simp add: journal_ok_def)
  show ?thesis
  proof (cases "ef_effect_id e = ef_effect_id current")
    case True
    then have "e = current" using effect_in_db [OF assms(2,3) moved(2)] by simp
    moreover have "effect_later current ?later"
      using moved(3,4) by (auto simp add: effect_later_def moved_record_def)
    ultimately show ?thesis using moved_later [OF moves] by (auto simp add: moved(1) moved_db_def)
  next
    case False
    then have "effect_to_row e \<in> set (db_effects db')"
      using assms(3) by (force simp add: moved(1) moved_db_def moved_effects_def set_update_where moved_record_def)
    then show ?thesis using effect_later_refl by blast
  qed
qed (use effect_later_refl in \<open>auto simp add: claimed_db_def\<close>)

lemma spec_permits: "journal_spec db db' \<Longrightarrow> set (db_permits db) \<subseteq> set (db_permits db')"
  by (induction rule: journal_spec.induct) (auto simp add: claimed_db_def moved_db_def)

lemma spec_revoked: "journal_spec db db' \<Longrightarrow> is_revoked_in db kind object_id \<Longrightarrow> is_revoked_in db' kind object_id"
  by (induction rule: journal_spec.induct)
    (auto simp add: is_revoked_in_def claimed_db_def moved_db_def lookup_append split: option.splits)

lemma spec_receipts: "journal_spec db db' \<Longrightarrow> \<exists>new. db_receipts db' = db_receipts db @ new"
  by (induction rule: journal_spec.induct) (auto simp add: claimed_db_def moved_db_def)

lemma spec_identity: "journal_spec db db' \<Longrightarrow> db_identity db' = db_identity db"
  by (induction rule: journal_spec.induct) (auto simp add: claimed_db_def moved_db_def)

lemma targets_after_version:
  assumes "targets_ok ts es" "target_claimable t timestamp ts" "w \<in> set ts"
  shows "\<exists>w' \<in> set (targets_after t timestamp ts). tw_target_id w' = tw_target_id w \<and> tw_target_kind w' = tw_target_kind w
    \<and> version_le (target_version w) (target_version w')"
proof (cases "lookup tw_target_id (tr_target_id t) ts")
  case None
  then show ?thesis using assms(3) by (auto simp add: targets_after_def intro!: bexI [of _ w])
next
  case (Some v)
  let ?p = "\<lambda>w. tw_target_id w = tr_target_id t"
    and ?f = "\<lambda>w. w\<lparr>tw_target_epoch := tr_epoch t, tw_target_revision := tr_revision t,
      tw_fencing_token := tr_fencing_token t, tw_updated_at_ms := timestamp\<rparr>"
  have after: "targets_after t timestamp ts = update_where ?p ?f ts" using Some by (simp add: targets_after_def)
  have "w = v" if "?p w"
    using lookup_in_set [OF _ assms(3), of tw_target_id] assms(1) Some that by (simp add: targets_ok_def)
  then have "version_le (target_version w) (target_version (if ?p w then ?f w else w))"
    using assms(2) Some by (auto simp add: target_claimable_def target_version_def)
  moreover have "(if ?p w then ?f w else w) \<in> set (update_where ?p ?f ts)"
    using assms(3) by (simp add: set_update_where)
  ultimately show ?thesis unfolding after by (intro bexI [of _ "if ?p w then ?f w else w"]) simp_all
qed

lemma spec_target:
  assumes "journal_spec db db'" "journal_ok db" "w \<in> set (db_targets db)"
  shows "\<exists>w' \<in> set (db_targets db'). tw_target_id w' = tw_target_id w \<and> tw_target_kind w' = tw_target_kind w
    \<and> version_le (target_version w) (target_version w')"
  using assms
proof (cases rule: journal_spec.cases)
  case (claimed env route timestamp gb pb effect_id d)
  then show ?thesis
    using targets_after_version [of "db_targets db" "db_effects db"] assms(2,3)
    by (simp add: claimed_db_def journal_ok_def claimable_def)
qed (auto simp add: moved_db_def intro!: bexI [of _ w])

section \<open>Runs\<close>

definition journal_run :: "ed25519 \<Rightarrow> nat \<Rightarrow> journal_db \<Rightarrow> journal_db \<Rightarrow> bool" where
  "journal_run ed limit = (journal_step ed limit)\<^sup>*\<^sup>*"

text \<open>A relation that holds of every step of the specification holds of every run.\<close>

lemma run_induct:
  assumes "journal_run ed limit db db'" "journal_ok db" "P db"
    and "\<And>a b. P a \<Longrightarrow> journal_ok a \<Longrightarrow> journal_spec a b \<Longrightarrow> P b"
  shows "P db' \<and> journal_ok db'"
  using assms(1) unfolding journal_run_def
proof (induction rule: rtranclp_induct)
  case base
  then show ?case using assms(2,3) by simp
next
  case (step a b)
  then show ?case using assms(4) journal_step_spec journal_spec_ok by blast
qed

lemma run_ok: "journal_run ed limit db db' \<Longrightarrow> journal_ok db \<Longrightarrow> journal_ok db'"
  using run_induct [of ed limit db db' "\<lambda>_. True"] by simp

lemma run_effect:
  assumes "journal_run ed limit db db'" "journal_ok db" "effect_to_row e \<in> set (db_effects db)"
  shows "\<exists>e'. effect_to_row e' \<in> set (db_effects db') \<and> effect_later e e'"
proof -
  have "(\<exists>e'. effect_to_row e' \<in> set (db_effects db') \<and> effect_later e e') \<and> journal_ok db'"
  proof (rule run_induct [OF assms(1,2)])
    show "\<exists>e'. effect_to_row e' \<in> set (db_effects db) \<and> effect_later e e'"
      using assms(3) effect_later_refl by blast
    show "\<exists>e'. effect_to_row e' \<in> set (db_effects b) \<and> effect_later e e'"
      if "\<exists>e'. effect_to_row e' \<in> set (db_effects a) \<and> effect_later e e'" "journal_ok a" "journal_spec a b" for a b
      using that spec_effect effect_later_trans by meson
  qed
  then show ?thesis by simp
qed

lemma run_permits: "journal_run ed limit db db' \<Longrightarrow> journal_ok db \<Longrightarrow> set (db_permits db) \<subseteq> set (db_permits db')"
  using run_induct [of ed limit db db' "\<lambda>x. set (db_permits db) \<subseteq> set (db_permits x)"] spec_permits by blast

lemma run_revoked:
  "journal_run ed limit db db' \<Longrightarrow> journal_ok db \<Longrightarrow> is_revoked_in db kind object_id \<Longrightarrow> is_revoked_in db' kind object_id"
  using run_induct [of ed limit db db' "\<lambda>x. is_revoked_in x kind object_id"] spec_revoked by blast

lemma run_target:
  assumes "journal_run ed limit db db'" "journal_ok db" "w \<in> set (db_targets db)"
  shows "\<exists>w' \<in> set (db_targets db'). tw_target_id w' = tw_target_id w \<and> tw_target_kind w' = tw_target_kind w
    \<and> version_le (target_version w) (target_version w')"
proof -
  let ?P = "\<lambda>x. \<exists>w' \<in> set (db_targets x). tw_target_id w' = tw_target_id w \<and> tw_target_kind w' = tw_target_kind w
    \<and> version_le (target_version w) (target_version w')"
  have "?P db' \<and> journal_ok db'"
  proof (rule run_induct [OF assms(1,2)])
    show "?P db" using assms(3) version_le_refl by blast
    show "?P b" if P: "?P a" and a: "journal_ok a" and s: "journal_spec a b" for a b
    proof -
      obtain w1 where w1: "w1 \<in> set (db_targets a)" "tw_target_id w1 = tw_target_id w" "tw_target_kind w1 = tw_target_kind w"
        "version_le (target_version w) (target_version w1)" using P by blast
      obtain w2 where w2: "w2 \<in> set (db_targets b)" "tw_target_id w2 = tw_target_id w1" "tw_target_kind w2 = tw_target_kind w1"
        "version_le (target_version w1) (target_version w2)"
        using spec_target [OF s a w1(1)] by blast
      have "version_le (target_version w) (target_version w2)" using w1(4) w2(4) by (rule version_le_trans)
      with w1(2,3) w2(1-3) show ?thesis by auto
    qed
  qed
  then show ?thesis by simp
qed

lemma revoked_stays_unstarted:
  assumes "journal_run ed limit db db'" "journal_ok db" "effect_to_row e \<in> set (db_effects db)" "ef_state e = PREPARED"
    and "is_revoked_in db REVOKED_GRANT (ef_grant_id e) \<or> is_revoked_in db REVOKED_PERMIT (ef_permit_id e)"
  shows "\<exists>e'. effect_to_row e' \<in> set (db_effects db') \<and> effect_later e e' \<and> ef_state e' \<in> {PREPARED, FAILED}"
proof -
  let ?revoked = "\<lambda>x. is_revoked_in x REVOKED_GRANT (ef_grant_id e) \<or> is_revoked_in x REVOKED_PERMIT (ef_permit_id e)"
  let ?P = "\<lambda>x. ?revoked x \<and> (\<exists>e'. effect_to_row e' \<in> set (db_effects x) \<and> effect_later e e' \<and> ef_state e' \<in> {PREPARED, FAILED})"
  have "?P db' \<and> journal_ok db'"
  proof (rule run_induct [OF assms(1,2)])
    show "?P db" using assms(3-5) effect_later_refl by blast
    show "?P b" if P: "?P a" and a: "journal_ok a" and s: "journal_spec a b" for a b
    proof -
      obtain e1 where e1: "effect_to_row e1 \<in> set (db_effects a)" "effect_later e e1" "ef_state e1 \<in> {PREPARED, FAILED}"
        using P by blast
      obtain e2 where e2: "effect_to_row e2 \<in> set (db_effects b)" "effect_later e1 e2"
        using spec_effect [OF s a e1(1)] by blast
      have "ef_state e2 \<in> {PREPARED, FAILED}"
        using s
      proof (cases rule: journal_spec.cases)
        case (moved current new_state timestamp reason evidence)
        let ?later = "moved_record current new_state timestamp reason evidence"
        have mem: "effect_to_row e2 = effect_to_row ?later \<or> effect_to_row e2 \<in> set (db_effects a)"
          using moved_mem e2(1) by (auto simp add: moved(1) moved_db_def)
        have same: "ef_effect_id e2 = ef_effect_id e1" "ef_grant_id e1 = ef_grant_id e" "ef_permit_id e1 = ef_permit_id e"
          using effect_later_id e1(2) e2(2) by simp_all
        show ?thesis
        proof (cases "e2 = ?later")
          case True
          then have "current = e1"
            using effect_in_db [OF a moved(2) e1(1)] same by (simp add: moved_record_def)
          moreover have "new_state \<noteq> STARTED"
          proof
            assume "new_state = STARTED"
            then have "startable a e1" using moved(9) \<open>current = e1\<close> by simp
            then show False using P same by (auto simp add: startable_def)
          qed
          ultimately show ?thesis using moved(3) e1(3) True by (auto simp add: moved_record_def)
        next
          case False
          then have "e2 = e1" using mem effect_in_db [OF a _ e1(1)] same by (auto simp add: effect_to_row_inject)
          then show ?thesis using e1(3) by simp
        qed
      next
        case (claimed env route timestamp gb pb effect_id d)
        have "effect_to_row e1 \<in> set (db_effects b)" using e1(1) by (simp add: claimed(1) claimed_db_def)
        then have "e2 = e1"
          using effect_in_db [OF journal_spec_ok [OF s a] e2(1)] effect_later_id [OF e2(2)] by simp
        then show ?thesis using e1(3) by simp
      qed (use effect_in_db [OF journal_spec_ok [OF s a] e2(1)] effect_later_id [OF e2(2)] e1 in auto)
      moreover have "effect_later e e2" using e1(2) e2(2) by (rule effect_later_trans)
      moreover have "?revoked b" using P spec_revoked [OF s] by blast
      ultimately show ?thesis using e2(1) by blast
    qed
  qed
  then show ?thesis by simp
qed

lemma envelope_parse_permit:
  "ControlEnvelope_from_dict (ControlEnvelope_to_dict x) = Inr y \<Longrightarrow> en_permit y = en_permit x"
  by (auto simp add: ControlEnvelope_from_dict_def ControlEnvelope_to_dict_def accepts permit_to_dict_iff)

lemma claim_db_cases:
  assumes "claim io ed random envelope route vf p live now db = (db', outcome)"
  obtains (rejected) e where "outcome = Inl e" "db' = db"
  | (tried) env gb pb where "claim_authority ed envelope route vf p live now = Inr (env, now, gb, pb)"
      "immediate io (claim_tx (uuid4 random) env route now gb pb) db = (db', outcome)"
  using assms claim_authority_ready(2) by (fastforce simp add: claim_def split: sum.splits)

lemma consumed_permit_rejected:
  assumes "journal_ok db" "length random = 16" "p \<in> set (db_permits db)" "pm_permit_id (en_permit envelope) = pw_permit_id p"
  shows "\<exists>e. claim io ed random envelope route vf pol live now db = (db, Inl e)"
proof -
  obtain db' outcome where out: "claim io ed random envelope route vf pol live now db = (db', outcome)" by fastforce
  then show ?thesis
  proof (cases rule: claim_db_cases)
    case (tried env gb pb)
    have "en_permit env = en_permit envelope"
      using envelope_parse_permit claim_authority_ready(4) [OF tried(1)] by blast
    then have taken: "lookup pw_permit_id (pm_permit_id (en_permit env)) (db_permits db) \<noteq> None"
      using assms(3,4) by (auto simp add: lookup_None_iff)
    have fails: "claim_tx (uuid4 random) env route now gb pb db \<noteq> Inr (db1, r)" for db1 r
    proof
      assume "claim_tx (uuid4 random) env route now gb pb db = Inr (db1, r)"
      then have "claimable db env now gb" using claim_step [OF assms(1,2) tried(1)] by blast
      then show False using taken by (simp add: claimable_def)
    qed
    obtain e where "claim_tx (uuid4 random) env route now gb pb db = Inl e"
      using fails by (cases "claim_tx (uuid4 random) env route now gb pb db") auto
    then show ?thesis using out tried by (cases "io_close io") (auto simp add: immediate_def split: sum.splits)
  qed (use out in auto)
qed

lemma start_checks_iff:
  assumes "journal_ok db" "0 \<le> timestamp"
  shows "start_checks current timestamp db = Inr () \<longleftrightarrow> startable db current \<and> permit_live db (ef_permit_id current) timestamp"
proof
  assume r: "startable db current \<and> permit_live db (ef_permit_id current) timestamp"
  have d: "distinct (map pw_permit_id (db_permits db))" "distinct (map tw_target_id (db_targets db))"
    using assms(1) by (simp_all add: journal_ok_def permits_ok_def targets_ok_def)
  obtain p t where p: "p \<in> set (db_permits db)" "pw_permit_id p = ef_permit_id current" "timestamp < pw_expires_at_ms p"
    and t: "t \<in> set (db_targets db)" "tw_target_id t = ef_target_id current"
      "tw_target_kind t = by_value TargetKind (ef_target_kind current)" "target_version t = effect_version (effect_to_row current)"
    using r by (auto simp add: startable_def permit_live_def)
  have "lookup pw_permit_id (ef_permit_id current) (db_permits db) = Some p"
    "lookup tw_target_id (ef_target_id current) (db_targets db) = Some t"
    using lookup_in_set [OF d(1) p(1)] lookup_in_set [OF d(2) t(1)] p(2) t(2) by simp_all
  moreover have "pw_expires_at_ms p \<le> MAX_SAFE_INTEGER"
    using assms(1) p(1) by (simp add: journal_ok_def permits_ok_def)
  moreover have "tw_target_epoch t = ef_target_epoch current" "tw_target_revision t = ef_target_revision current"
    "tw_fencing_token t = ef_fencing_token current"
    using t(4) by (simp_all add: target_version_def effect_version_def effect_to_row_def)
  ultimately show "start_checks current timestamp db = Inr ()"
    using r p(3) t(3) assms(2) by (simp add: start_checks_def startable_def accepts del: limits)
qed (rule start_checks_Inr)

lemma length_filter_key: "length (filter (\<lambda>x. f x = k) xs) = length (filter (\<lambda>i. i = k) (map f xs))"
  by (induction xs) simp_all

section \<open>The properties\<close>

text \<open>C12: Every call of a writing operation of the journal, with any arguments and any fault of the
  database, either leaves a reachable journal as it was or makes one of the four changes the
  specification allows.\<close>

theorem journal_refines_spec:
  assumes "reachable ed limit db" "journal_step ed limit db db'"
  shows "journal_spec db db'"
  using reachable_ok [OF assms(1)] assms(2) by (rule journal_step_spec)

text \<open>C13: The invariant of the journal holds in every reachable state: unique keys, permits that
  belong to grants, use counts equal to the number of permits of the grant, contiguous sequences of a
  session, effects no newer than the version of their target, well-formed effect records.\<close>

theorem journal_invariant: "reachable ed limit db \<Longrightarrow> journal_ok db"
  by (rule reachable_ok)

text \<open>C5: A permit is consumed once. After a permit has been recorded, no claim of any envelope with that
  permit succeeds in any later state, and the attempt leaves the journal as it is.\<close>

theorem permit_single_use:
  assumes "reachable ed limit db" "p \<in> set (db_permits db)" "journal_run ed limit db db'" "length random = 16"
    and "pm_permit_id (en_permit envelope) = pw_permit_id p"
  shows "\<exists>e. claim io ed random envelope route vf policy live now db' = (db', Inl e)"
proof -
  have ok: "journal_ok db" using assms(1) by (rule reachable_ok)
  have "p \<in> set (db_permits db')" using run_permits [OF assms(3) ok] assms(2) by blast
  with run_ok [OF assms(3) ok] show ?thesis
    using assms(4,5) by (intro consumed_permit_rejected)
qed

text \<open>C32: The action budget of a grant bounds its effects: in every reachable state the number of effects
  claimed under a grant is the recorded use count, which is at most the maximum the grant was issued for.\<close>

theorem grant_budget:
  assumes "reachable ed limit db" "w \<in> set (db_grants db)"
  shows "int (length (filter (\<lambda>x. ew_grant_id x = gw_grant_id w) (db_effects db))) = gw_used_count w
    \<and> gw_used_count w \<le> gw_maximum_action_count w \<and> gw_maximum_action_count w \<le> MAX_ACTION_COUNT"
proof -
  have ok: "grants_ok (db_grants db) (db_permits db)" "effects_ok (db_effects db) (db_permits db)"
    using reachable_ok [OF assms(1)] by (simp_all add: journal_ok_def)
  have "length (filter (\<lambda>x. ew_grant_id x = g) (db_effects db)) = uses (db_permits db) g" for g
    unfolding uses_def length_filter_key [of ew_grant_id] length_filter_key [of pw_grant_id]
    by (simp only: effects_permits(2) [OF ok(2)])
  moreover have "gw_used_count w = int (uses (db_permits db) (gw_grant_id w))"
    "gw_used_count w \<le> gw_maximum_action_count w" "gw_maximum_action_count w \<le> MAX_ACTION_COUNT"
    using ok(1) assms(2) by (auto simp add: grants_ok_def simp del: limits)
  ultimately show ?thesis by metis
qed

text \<open>The effects of a session carry the sequence numbers 1 to n in the order in which they were
  claimed, without gap or repetition.\<close>

theorem session_contiguous:
  assumes "reachable ed limit db"
  shows "session_sequences (db_effects db) session_id = [1..int (length (session_sequences (db_effects db) session_id))]"
proof -
  have ok: "sessions_ok (db_sessions db) (db_effects db)" using reachable_ok [OF assms] by (simp add: journal_ok_def)
  show ?thesis
  proof (cases "session_id \<in> sw_session_id ` set (db_sessions db)")
    case True
    then obtain w where "w \<in> set (db_sessions db)" "sw_session_id w = session_id" by blast
    then have "session_sequences (db_effects db) session_id = [1..sw_last_sequence w]" "1 \<le> sw_last_sequence w"
      using ok by (auto simp add: sessions_ok_def)
    then show ?thesis by simp
  next
    case False
    then have "filter (\<lambda>w. ew_session_id w = session_id) (db_effects db) = []"
      using ok by (auto simp add: sessions_ok_def filter_empty_conv)
    then show ?thesis by (simp add: session_sequences_def)
  qed
qed

text \<open>C6: Revocation is final. An effect that had not started when its grant or its permit was revoked
  never starts: in every later state it is still prepared, or it has failed.\<close>

theorem revoked_never_started:
  assumes "reachable ed limit db" "effect_to_row e \<in> set (db_effects db)" "ef_state e = PREPARED"
    and "is_revoked_in db REVOKED_GRANT (ef_grant_id e) \<or> is_revoked_in db REVOKED_PERMIT (ef_permit_id e)"
    and "journal_run ed limit db db'" "effect_to_row e' \<in> set (db_effects db')" "ef_effect_id e' = ef_effect_id e"
  shows "ef_state e' \<in> {PREPARED, FAILED}"
proof -
  have ok: "journal_ok db" using assms(1) by (rule reachable_ok)
  obtain f where f: "effect_to_row f \<in> set (db_effects db')" "effect_later e f" "ef_state f \<in> {PREPARED, FAILED}"
    using revoked_stays_unstarted [OF assms(5) ok assms(2-4)] by blast
  have "e' = f"
    using effect_in_db [OF run_ok [OF assms(5) ok] assms(6) f(1)] assms(7) effect_later_id [OF f(2)] by simp
  with f(3) show ?thesis by simp
qed

text \<open>C31: An effect is never lost and only moves forward. In every later state it is recorded with the
  same authority, target and request, in a state the allowed transitions lead to, with a larger version
  and no earlier time; a verified or failed effect stays as it is; no effect has more than four
  transitions.\<close>

theorem effect_only_advances:
  assumes "reachable ed limit db" "effect_to_row e \<in> set (db_effects db)" "journal_run ed limit db db'"
  shows "\<exists>e'. effect_to_row e' \<in> set (db_effects db') \<and> effect_later e e' \<and> ef_transition_version e' \<le> 5
    \<and> (ef_state e \<in> {VERIFIED, FAILED} \<longrightarrow> e' = e)"
proof -
  have ok: "journal_ok db" using assms(1) by (rule reachable_ok)
  obtain e' where e': "effect_to_row e' \<in> set (db_effects db')" "effect_later e e'"
    using run_effect [OF assms(3) ok assms(2)] by blast
  have "effects_ok (db_effects db') (db_permits db')" using run_ok [OF assms(3) ok] by (simp add: journal_ok_def)
  from effect_row_record [OF this e'(1)] have "ef_transition_version e' \<le> state_rank (ef_state e')"
    by (auto simp add: effect_to_row_inject)
  then have "ef_transition_version e' \<le> 5" using state_rank_le [of "ef_state e'"] by simp
  moreover have "e' = e" if "ef_state e \<in> {VERIFIED, FAILED}"
    using e'(2) terminal_no_path that by (auto simp add: effect_later_def)
  ultimately show ?thesis using e' by blast
qed

text \<open>C11: The fence. When an effect starts, no effect ever claimed on its target is ahead of it: its
  epoch, revision and fencing token are the current ones of the target. Nothing has revoked it and its
  permit has not expired.\<close>

theorem started_at_current_fence:
  assumes "reachable ed limit db" "transition io effect_id STARTED now reason evidence db = (db', Inr later)"
    and "w \<in> set (db_effects db)" "ew_target_id w = ef_target_id later"
  shows "version_le (effect_version w) (effect_version (effect_to_row later))
    \<and> \<not> is_revoked_in db REVOKED_GRANT (ef_grant_id later) \<and> \<not> is_revoked_in db REVOKED_PERMIT (ef_permit_id later)
    \<and> permit_live db (ef_permit_id later) now"
proof -
  have ok: "journal_ok db" using assms(1) by (rule reachable_ok)
  have inputs: "0 \<le> now" "now \<le> MAX_SAFE_INTEGER" "safe_id_text reason" "digest_text evidence"
    and "transition_tx effect_id STARTED now reason evidence db = Inr (db', later)"
    using assms(2) by (auto simp add: transition_def transition_inputs_def accepts simp del: limits split: sum.splits dest: immediate_Inr)
  then obtain current where current: "start_checks current now db = Inr ()" "later = moved_record current STARTED now reason evidence"
    unfolding transition_tx_iff [OF ok inputs] by blast
  then have same: "effect_version (effect_to_row later) = effect_version (effect_to_row current)"
    "ef_target_id later = ef_target_id current" "ef_grant_id later = ef_grant_id current" "ef_permit_id later = ef_permit_id current"
    by (simp_all add: moved_record_def effect_version_def effect_to_row_def)
  have startable: "startable db current \<and> permit_live db (ef_permit_id current) now"
    using start_checks_Inr [OF current(1)] .
  then obtain t where t: "t \<in> set (db_targets db)" "tw_target_id t = ef_target_id current"
    "target_version t = effect_version (effect_to_row current)"
    by (auto simp add: startable_def)
  have targets: "targets_ok (db_targets db) (db_effects db)" using ok by (simp add: journal_ok_def)
  then obtain u where u: "u \<in> set (db_targets db)" "tw_target_id u = ew_target_id w"
    "version_le (effect_version w) (target_version u)"
    using assms(3) by (auto simp add: targets_ok_def)
  have "u = t"
    using lookup_in_set [OF _ u(1), of tw_target_id] lookup_in_set [OF _ t(1), of tw_target_id] targets u(2) t(2) assms(4) same(2)
    by (simp add: targets_ok_def)
  then show ?thesis using u(3) t(3) same startable by (simp add: startable_def)
qed

text \<open>C34: A claim succeeds exactly when the authority checks pass, nothing is revoked, the grant has
  budget left, the permit is fresh, the sequence continues its session and the target is not behind; it
  then records exactly that claim.\<close>

theorem claim_succeeds_iff:
  assumes "reachable ed limit db" "length random = 16"
  shows "claim io_ok ed random envelope route vf policy live now db = (db', Inr r) \<longleftrightarrow>
    (\<exists>env gb pb d. claim_authority ed envelope route vf policy live now = Inr (env, now, gb, pb) \<and> claimable db env now gb
      \<and> lookup ew_effect_id (uuid4 random) (db_effects db) = None \<and> ControlRequest_digest (en_request env) = Inr d
      \<and> db' = claimed_db db (uuid4 random) env route now gb pb d \<and> r = claimed_record (uuid4 random) env d route now)"
    (is "?L \<longleftrightarrow> ?R")
proof
  assume ?L
  then show ?R
  proof (cases rule: claim_db_cases)
    case (tried env gb pb)
    have "claim_tx (uuid4 random) env route now gb pb db = Inr (db', r)" using tried(2) by (rule immediate_Inr)
    from claim_step [OF reachable_ok [OF assms(1)] assms(2) tried(1) this] show ?thesis using tried(1) by metis
  qed simp
next
  assume ?R
  then obtain env gb pb d where r: "claim_authority ed envelope route vf policy live now = Inr (env, now, gb, pb)"
    "claimable db env now gb" "lookup ew_effect_id (uuid4 random) (db_effects db) = None"
    "ControlRequest_digest (en_request env) = Inr d"
    "db' = claimed_db db (uuid4 random) env route now gb pb d" "r = claimed_record (uuid4 random) env d route now"
    by blast
  have "digest_text d" using r(4) content_digest_text by (simp add: ControlRequest_digest_def)
  then have "claim_tx (uuid4 random) env route now gb pb db = Inr (db', r)"
    using claim_tx_iff [OF reachable_ok [OF assms(1)] claim_authority_ready(1) [OF r(1)] r(3) uuid4_canonical [OF assms(2)] r(4)]
      r(2,5,6) by blast
  then show ?L using r(1) by (simp add: claim_def)
qed

text \<open>C35: A transition succeeds exactly when its inputs are valid, the effect is recorded, the transition
  is allowed, time has not gone back and, for a start, nothing is revoked, the permit has not expired
  and the target is still at the version of the effect; it changes that effect and nothing else.\<close>

theorem transition_succeeds_iff:
  assumes "reachable ed limit db"
  shows "transition io_ok effect_id new_state now reason evidence db = (db', Inr later) \<longleftrightarrow>
    transition_inputs effect_id new_state now reason evidence = Inr (effect_id, now, reason, evidence)
    \<and> (\<exists>current. effect_to_row current \<in> set (db_effects db) \<and> ef_effect_id current = effect_id
       \<and> new_state \<in> ALLOWED_TRANSITIONS (ef_state current) \<and> ef_updated_at_ms current \<le> now
       \<and> (new_state = STARTED \<longrightarrow> startable db current \<and> permit_live db (ef_permit_id current) now)
       \<and> later = moved_record current new_state now reason evidence \<and> db' = moved_db db later)"
proof -
  have ok: "journal_ok db" using assms by (rule reachable_ok)
  show ?thesis
  proof (cases "transition_inputs effect_id new_state now reason evidence")
    case (Inl e)
    then show ?thesis by (simp add: transition_def)
  next
    case (Inr x)
    then have x: "x = (effect_id, now, reason, evidence)" and inputs: "0 \<le> now" "now \<le> MAX_SAFE_INTEGER" "safe_id_text reason" "digest_text evidence"
      by (auto simp add: transition_inputs_def accepts simp del: limits)
    have "transition io_ok effect_id new_state now reason evidence db = (db', Inr later) \<longleftrightarrow>
        transition_tx effect_id new_state now reason evidence db = Inr (db', later)"
      using Inr x by (auto simp add: transition_def split: sum.splits)
    then show ?thesis
      unfolding transition_tx_iff [OF ok inputs] start_checks_iff [OF ok inputs(1)] using Inr x by simp
  qed
qed

lemma finalize_tx_receipt:
  assumes "finalize_tx ed limit signer identifier timestamp db = Inr (db', r)"
  shows "\<exists>e. effect_from_connection db identifier = Inr e \<and> is_receiptable e \<and> rc_effect_id r = identifier
    \<and> rc_transition_version r = ef_transition_version e \<and> rc_state r = ef_state e
    \<and> verify_control_receipt ed r (sg_verifier signer) = Inr ()"
  using assms
proof (cases rule: finalize_tx_cases)
  case (existing e row journal_id)
  have "ef_effect_id e = identifier"
    using existing(2) by (auto simp add: effect_from_connection_def accepts effect_to_row_def dest!: lookup_Some_D split: option.splits)
  moreover have "is_receiptable e" "rc_effect_id r = ef_effect_id e" "rc_transition_version r = ef_transition_version e"
    "rc_state r = ef_state e"
    using assms existing(2,3) by (auto simp add: finalize_tx_def accepts)
  ultimately show ?thesis using existing(2) receipt_from_row_D [OF existing(4)] by simp
next
  case (written e journal_id n previous blob d s)
  then show ?thesis by (simp add: new_receipt_def)
qed

text \<open>C37: Finalisation appends to the chain. When the stored chain verifies, a successful
  \<open>finalize_receipt\<close> returns a verified receipt of the current state of the effect, which is already
  on the chain or becomes its new end, and the chain verifies again; a second call returns the same
  receipt and changes nothing.\<close>

theorem finalize_extends_chain:
  assumes "Suc MAX_JSON_DEPTH \<le> limit" "receipt_sequence_from_connection ed limit (sg_verifier signer) db = Inr rs"
    and "finalize_receipt_unanchored io ed limit effect_id signer now db = (db', Inr r)"
    and "0 \<le> now'" "now' \<le> MAX_SAFE_INTEGER"
  shows "(db' = db \<and> r \<in> set rs \<or> receipt_sequence_from_connection ed limit (sg_verifier signer) db' = Inr (rs @ [r]))
    \<and> (\<exists>e. effect_from_connection db effect_id = Inr e \<and> is_receiptable e \<and> rc_effect_id r = effect_id
         \<and> rc_transition_version r = ef_transition_version e \<and> rc_state r = ef_state e
         \<and> verify_control_receipt ed r (sg_verifier signer) = Inr ())
    \<and> finalize_receipt_unanchored io_ok ed limit effect_id signer now' db' = (db', Inr r)"
proof -
  have id: "canonical_uuid_text effect_id" and tx: "finalize_tx ed limit signer effect_id now db = Inr (db', r)"
    using assms(3) by (auto simp add: finalize_receipt_unanchored_def accepts simp del: limits split: sum.splits dest: immediate_Inr)
  have "finalize_receipt_unanchored io_ok ed limit effect_id signer now' db' = (db', Inr r)"
    using id assms(4,5) finalize_tx_idempotent [OF assms(1) tx, of now']
    by (simp add: finalize_receipt_unanchored_def input_uuid_def require_uuid_def require_pattern_def input_time_def del: limits)
  then show ?thesis
    using finalize_tx_chain [OF assms(1,2) tx] finalize_tx_receipt [OF tx] by blast
qed

text \<open>C16: The head pins the whole history. If the last receipt of one verified chain occurs in another,
  then the first chain is a beginning of the second, unless two different receipts of the two chains
  collide under SHA-256: no earlier receipt can be dropped, replaced or reordered.\<close>

theorem head_pins_history:
  assumes "receipt_sequence_from_connection ed limit vf db = Inr rs" "receipt_sequence_from_connection ed limit' vf' db' = Inr rs'"
    and "rs \<noteq> []" "last rs \<in> set rs'"
  shows "prefix rs rs' \<or> (\<exists>r \<in> set rs. \<exists>r' \<in> set rs'. receipt_collision r r')"
proof -
  obtain journal_id where l: "linked journal_id 1 EMPTY_RECEIPT_HEAD_DIGEST rs" using sequence_linked [OF assms(1)] by blast
  obtain journal_id' where l': "linked journal_id' 1 EMPTY_RECEIPT_HEAD_DIGEST rs'" using sequence_linked [OF assms(2)] by blast
  have "journal_id = journal_id'"
    using linked_ok [OF l last_in_set [OF assms(3)]] linked_ok [OF l' assms(4)] by simp
  with l l' assms(3,4) show ?thesis by (intro linked_head_prefix) simp_all
qed

text \<open>C17: Anchoring is never reported by mistake. Whatever the anchor store answers and other processes write
  to the journal, \<open>synchronize_receipt_anchor\<close> succeeds only if the last value it loaded from the store
  agrees with a sequence of linked receipts with valid signatures that the journal held when the call
  began or when the call read it again between two of its calls of the store: the value is the encoding
  of the last receipt of that sequence, or nothing is anchored and the sequence is empty.\<close>

theorem anchor_sync_sound:
  assumes "synchronize_receipt_anchor (Some st) io ed limit vf allowed db s = (s', allowed', Inr head)"
  shows "\<exists>journal_id rs db1 s1 loaded. (db1 = db \<or> (\<exists>s2. store_run st journal_id s s2 \<and> store_run st journal_id s2 s1 \<and> db1 = as_db st s2))
    \<and> journal_id_of db1 = Inr journal_id \<and> receipt_sequence_from_connection ed limit vf db1 = Inr rs
    \<and> signed_sequence ed vf journal_id rs
    \<and> store_run st journal_id s s1 \<and> as_load st s1 journal_id = (s', loaded) \<and> anchored_head loaded rs"
proof -
  obtain journal_id rs0 where read: "read_receipt_sequence io ed limit vf db = Inr (journal_id, rs0)"
    and sync: "synchronize_receipt_anchor_sequence (Some st) io ed limit vf journal_id allowed rs0 s = (s', allowed', Inr ())"
    using assms by (auto simp add: synchronize_receipt_anchor_def rbind_def split: sum.splits prod.splits)
  obtain rs s1 loaded where run: "sequence_read st io ed limit vf journal_id rs0 s s1 rs"
    and anchor: "as_load st s1 journal_id = (s', loaded)" "anchored_head loaded rs"
    using sync by (auto simp add: synchronize_receipt_anchor_sequence_def dest: anchor_loop_Inr)
  have "\<exists>db1. (db1 = db \<or> (\<exists>s2. store_run st journal_id s s2 \<and> store_run st journal_id s2 s1 \<and> db1 = as_db st s2))
      \<and> read_receipt_sequence io ed limit vf db1 = Inr (journal_id, rs)"
    using run read by (auto simp add: sequence_read_def refresh_def accepts corrupt_def split: if_splits)
  with run anchor show ?thesis
    unfolding sequence_read_def by (blast dest: sequence_signed)
qed

end
