(* ===== verification/Journal_Complete.thy ===== *)
theory Journal_Complete
  imports Journal_Properties
begin

text \<open>
  The receipts of the journal always exist: every well-formed receipt has a canonical form that fits
  the anchor, and finalising an effect that may be finalised succeeds.
\<close>

section \<open>The size of a receipt\<close>

lemma fits_state: "fits 0 leaf_bound (enum_py ControlEffectState s)"
  unfolding enum_py_def by (rule fits_literal; cases s) (simp_all add: ControlEffectState_def plain_def)

text \<open>A dictionary of leaves, with the length of its keys.\<close>

lemma json_bound_leaves:
  assumes "list_all (\<lambda>(k, v). plain (str k) \<and> json_bound v \<le> 130) kvs"
  shows "json_bound (PDict (items kvs)) \<le> 2 + sum_list (map (\<lambda>(k, v). 134 + length k) kvs)"
  using assms
proof (induction kvs)
  case (Cons kv kvs)
  obtain k v where "kv = (k, v)" by fastforce
  moreover have "length (str k) = length k" by (simp add: str_def)
  ultimately show ?case using Cons by (simp add: plain_size)
qed simp

definition receipt_entries :: "ControlReceipt \<Rightarrow> (string \<times> py) list" where
  "receipt_entries r = ControlReceipt_unsigned r @ [(''signature'', PStr (rc_signature r))]"

lemma receipt_entries_dict: "ControlReceipt_to_dict r = PDict (items (receipt_entries r))"
  by (simp add: ControlReceipt_to_dict_def receipt_entries_def)

lemma receipt_leaves:
  assumes "ControlReceipt_ok r"
  shows "list_all (\<lambda>(k, v). field_name_text (str k) \<and> fits 0 leaf_bound v) (receipt_entries r)"
  using assms unfolding ControlReceipt_ok_def receipt_entries_def ControlReceipt_unsigned_def
  by (simp add: fits_fields fits_state limits char_classes abs_le_iff RECEIPT_SCHEMA_VERSION_def)

lemma receipt_fits:
  assumes "ControlReceipt_ok r" shows "fits 1 (47, 4600) (ControlReceipt_to_dict r)"
proof -
  have "length (receipt_entries r) \<le> 23" by (simp add: receipt_entries_def ControlReceipt_unsigned_def)
  from fits_uniform [OF receipt_leaves [OF assms] this] show ?thesis
    unfolding receipt_entries_dict by (elim fits_mono) simp_all
qed

interpretation receipt: bounded_codec ControlReceipt_from_dict ControlReceipt_to_dict ControlReceipt_ok 1 "(47, 4600)"
  by unfold_locales (use receipt_fits in \<open>simp_all add: limits\<close>)

lemma field_name_plain: "field_name_text s \<Longrightarrow> plain s"
  using pattern_plain(3) by blast

text \<open>The printed form of a dictionary of leaves: it exists, and its length is bounded by its keys.\<close>

lemma leaves_text:
  assumes "list_all (\<lambda>(k, v). field_name_text (str k) \<and> fits 0 leaf_bound v) kvs"
  shows "\<exists>bs. utf8_encode (json_text (psort (PDict (items kvs)))) = Some bs
    \<and> 1 \<le> length bs \<and> length bs \<le> 2 + sum_list (map (\<lambda>(k, v). 134 + length k) kvs)"
proof -
  have "fits 1 (1 + length kvs * (1 + fst leaf_bound), 2 + length kvs * (68 + snd leaf_bound)) (PDict (items kvs))"
    using fits_uniform [OF assms order_refl] by simp
  then have "tree_ok 0 (PDict (items kvs))" by (simp add: fits_def limits)
  then have "tree_ok 0 (psort (PDict (items kvs)))" by (simp only: tree_ok_psort)
  note printed = json_text_ok [OF this] and full = json_text_nonempty [OF this]
  then obtain bs where bs: "utf8_encode (json_text (psort (PDict (items kvs)))) = Some bs"
    by (simp add: utf8_encode_def)
  have "bs \<noteq> []"
    using bs full by (cases "json_text (psort (PDict (items kvs)))")
      (auto simp add: utf8_encode_def utf8_char_def split: if_splits)
  have "length bs \<le> json_bound (PDict (items kvs))"
    using printed utf8_encode_size [OF bs] by (simp only: json_bound_psort)
  also have "\<dots> \<le> 2 + sum_list (map (\<lambda>(k, v). 134 + length k) kvs)"
    using assms field_name_plain by (intro json_bound_leaves) (auto simp add: list_all_iff fits_def split: prod.splits)
  finally show ?thesis using bs \<open>bs \<noteq> []\<close> by (simp add: Suc_le_eq)
qed

lemma receipt_bytes_bound:
  assumes "ControlReceipt_ok r" "canonical_json_bytes (ControlReceipt_to_dict r) = Inr bs"
  shows "length bs \<le> MAX_RECEIPT_ANCHOR_BYTES"
proof -
  have "utf8_encode (json_text (psort (PDict (items (receipt_entries r))))) = Some bs"
    using assms(2) unfolding receipt_entries_dict by (auto simp only: canonical_json_bytes_Inr_iff)
  then have "length bs \<le> 2 + sum_list (map (\<lambda>(k, v). 134 + length k) (receipt_entries r))"
    using leaves_text [OF receipt_leaves [OF assms(1)]] by auto
  also have "\<dots> \<le> MAX_RECEIPT_ANCHOR_BYTES"
    by (simp add: receipt_entries_def ControlReceipt_unsigned_def MAX_RECEIPT_ANCHOR_BYTES_def)
  finally show ?thesis .
qed

lemma check_anchor_written:
  assumes "ControlReceipt_ok r" "verify_control_receipt ed r vf = Inr ()" "Suc MAX_JSON_DEPTH \<le> limit"
    and "canonical_json_bytes (ControlReceipt_to_dict r) = Inr blob"
  shows "check_anchor ed limit (rc_journal_id r) vf (LoadBytes blob) = Inr (Some (r, blob))"
proof -
  have "rbind (decode_json_payload limit blob) ControlReceipt_from_dict = Inr r"
    using receipt.payload_roundtrip [OF assms(4,1,3)] .
  then obtain v where "decode_json_payload limit blob = Inr v" "ControlReceipt_from_dict v = Inr r"
    by (auto simp add: accepts)
  moreover have "blob \<noteq> []" using assms(4) canonical_json_bytes_Inr_iff by blast
  ultimately show ?thesis
    using assms(2,4) receipt_bytes_bound [OF assms(1,4)] by (simp add: check_anchor_def Suc_le_eq)
qed

section \<open>Finalising succeeds\<close>

lemma control_receipt_kind: "safe_id_text (str ''control_receipt'')"
  by (simp add: safe_id_text_def str_def char_classes)

lemma receipt_candidate_signed:
  assumes "ed25519_ok ed" "length private = 32" "signer = ControlSigner_init ed private"
    and "ControlReceipt_ok (c\<lparr>rc_signature := replicate 86 65\<rparr>)" "rc_authority_key_id c = sg_key_id signer"
  obtains s where "ControlSigner_sign ed signer ''control_receipt'' (PDict (items (ControlReceipt_unsigned c))) = Inr s"
    "ControlReceipt_from_dict (PDict (items (ControlReceipt_unsigned c @ [(''signature'', PStr s)]))) = Inr (c\<lparr>rc_signature := s\<rparr>)"
    "ControlReceipt_ok (c\<lparr>rc_signature := s\<rparr>)"
    "verify_control_receipt ed (c\<lparr>rc_signature := s\<rparr>) (sg_verifier signer) = Inr ()"
proof -
  have unsigned: "ControlReceipt_unsigned (c\<lparr>rc_signature := x\<rparr>) = ControlReceipt_unsigned c" for x
    by (simp add: ControlReceipt_unsigned_def)
  have "fits 1 (47, 4600) (PDict (items (ControlReceipt_unsigned c)))"
    using receipt_fits [OF assms(4)] unfolding receipt_entries_dict receipt_entries_def unsigned by (rule fits_prefix)
  then obtain s where s: "ControlSigner_sign ed signer ''control_receipt'' (PDict (items (ControlReceipt_unsigned c))) = Inr s"
    using sign_defined control_receipt_kind by (fastforce simp add: limits)
  note verified = verify_sign [OF assms(1-3) s]
  have ok: "ControlReceipt_ok (c\<lparr>rc_signature := s\<rparr>)"
    using assms(4) verified(2) by (simp add: ControlReceipt_ok_def)
  moreover have "ControlReceipt_from_dict (PDict (items (ControlReceipt_unsigned c @ [(''signature'', PStr s)])))
      = Inr (c\<lparr>rc_signature := s\<rparr>)"
    using receipt_to_dict_iff [of "c\<lparr>rc_signature := s\<rparr>" "c\<lparr>rc_signature := s\<rparr>"] ok
    by (simp add: ControlReceipt_to_dict_def unsigned)
  moreover have "verify_control_receipt ed (c\<lparr>rc_signature := s\<rparr>) (sg_verifier signer) = Inr ()"
    using verified(1) assms(3,5)
    by (simp add: verify_control_receipt_def ControlReceipt_unsigned_dict_def unsigned ControlSigner_init_def Let_def)
  ultimately show thesis using s that by blast
qed

lemma next_receipt_defined:
  assumes "receipt_sequence_from_connection ed limit (sg_verifier signer) db = Inr rs" "int (length rs) < MAX_SAFE_INTEGER"
    and "journal_id_of db = Inr journal_id"
  shows "\<exists>previous. next_receipt ed limit signer journal_id db = Inr (int (length rs) + 1, previous) \<and> digest_text previous"
proof -
  note rows = chain_rows [OF assms(1)]
  obtain previous where head: "head_digest EMPTY_RECEIPT_HEAD_DIGEST rs = Inr previous"
    using receipt_chain_rows(3) assms(1,3) by (fastforce simp add: receipt_sequence_from_connection_def)
  show ?thesis
  proof (cases "rs = []")
    case True
    then show ?thesis
      using rows(3) empty_digests(2) assms(2) by (simp add: next_receipt_def require_int_def)
  next
    case False
    then have ne: "db_receipts db \<noteq> []" using rows(3) by force
    have minmax: "Max (set (map xw_receipt_sequence (db_receipts db))) = int (length rs)"
      "Min (set (map xw_receipt_sequence (db_receipts db))) = 1"
      unfolding rows(4) using False by (auto intro!: Max_eqI Min_eqI simp add: Suc_le_eq)
    have "int (length rs) \<in> set (map xw_receipt_sequence (db_receipts db))"
      unfolding rows(4) using False by (simp add: Suc_le_eq)
    then obtain row where row: "lookup xw_receipt_sequence (int (length rs)) (db_receipts db) = Some row"
      by (cases "lookup xw_receipt_sequence (int (length rs)) (db_receipts db)") (auto simp add: lookup_None_iff)
    note member = lookup_Some_D [OF row]
    obtain journal_id' where from_row: "receipt_from_row ed limit row (sg_verifier signer) journal_id' = Inr (last rs)"
      using last_row [OF assms(1) False conjunct1 [OF member] conjunct2 [OF member]] by blast
    have chain: "receipt_chain ed limit (sg_verifier signer) journal_id (sort_key xw_receipt_sequence (db_receipts db)) 1
        EMPTY_RECEIPT_HEAD_DIGEST = Inr rs"
      using assms(1,3) by (simp add: receipt_sequence_from_connection_def)
    have "rc_journal_id (last rs) = journal_id"
      using linked_ok [OF receipt_chain_linked [OF chain]] last_in_set [OF False] by blast
    then have "journal_id' = journal_id" using receipt_from_row_D [OF from_row] by simp
    moreover have "content_digest (ControlReceipt_to_dict (last rs)) = Inr previous" using head False by (simp add: head_digest_def)
    moreover have "rc_receipt_sequence (last rs) = int (length rs)" using receipt_from_row_D [OF from_row] member by simp
    ultimately show ?thesis
      using from_row row minmax ne assms(2) False rows(3) content_digest_text
      by (simp add: next_receipt_def Let_def accepts require_int_def reject_if_def del: set_map) (simp add: limits Suc_le_eq)
  qed
qed

lemma finalize_tx_defined:
  assumes key: "ed25519_ok ed" "length private = 32" "signer = ControlSigner_init ed private"
    and db: "journal_ok db" and chain: "receipt_sequence_from_connection ed limit (sg_verifier signer) db = Inr rs"
      "int (length rs) < MAX_SAFE_INTEGER"
    and e: "effect_to_row e \<in> set (db_effects db)" "is_receiptable e" "ef_authority_key_id e = sg_key_id signer"
    and new: "lookup receipt_key (ef_effect_id e, ef_transition_version e) (db_receipts db) = None"
    and t: "0 \<le> timestamp" "timestamp \<le> MAX_SAFE_INTEGER"
  shows "\<exists>db' r. finalize_tx ed limit signer (ef_effect_id e) timestamp db = Inr (db', r)"
proof -
  have effect: "effect_from_connection db (ef_effect_id e) = Inr e" "ControlEffectRecord_ok e"
    using db e(1) effect_from_connection_Inr [of db "db_permits db"]
    by (auto simp add: journal_ok_def effects_ok_def effect_to_row_inject)
  obtain journal_id where id: "journal_id_of db = Inr journal_id"
    using chain(1) by (auto simp add: receipt_sequence_from_connection_def accepts)
  then have jid: "digest_text journal_id"
    by (auto simp add: journal_id_of_def accepts corrupt_def split: list.splits if_splits)
  obtain previous where next': "next_receipt ed limit signer journal_id db = Inr (int (length rs) + 1, previous)" "digest_text previous"
    using next_receipt_defined [OF chain id] by blast
  let ?c = "new_receipt e journal_id (int (length rs) + 1) previous timestamp (sg_key_id signer)"
  have "ControlReceipt_ok (?c\<lparr>rc_signature := replicate 86 65\<rparr>)"
    using effect(2) e(2) jid next'(2) chain(2) t placeholder_text key_id_init [of ed "private"] key(3) uuid5_canonical
    unfolding ControlReceipt_ok_def new_receipt_def ControlEffectRecord_ok_def is_receiptable_def receipt_uuid_def
    by (simp add: max_def del: limits)
  moreover have "rc_authority_key_id ?c = sg_key_id signer" by (simp add: new_receipt_def)
  ultimately obtain s where s: "ControlSigner_sign ed signer ''control_receipt'' (PDict (items (ControlReceipt_unsigned ?c))) = Inr s"
    "ControlReceipt_from_dict (PDict (items (ControlReceipt_unsigned ?c @ [(''signature'', PStr s)]))) = Inr (?c\<lparr>rc_signature := s\<rparr>)"
    "ControlReceipt_ok (?c\<lparr>rc_signature := s\<rparr>)"
    "verify_control_receipt ed (?c\<lparr>rc_signature := s\<rparr>) (sg_verifier signer) = Inr ()"
    using receipt_candidate_signed [OF key] by metis
  obtain blob where blob: "canonical_json_bytes (ControlReceipt_to_dict (?c\<lparr>rc_signature := s\<rparr>)) = Inr blob"
    using receipt.canonical_defined [OF s(3)] by blast
  obtain d where d: "content_digest (ControlReceipt_to_dict (?c\<lparr>rc_signature := s\<rparr>)) = Inr d"
    using receipt.digest_defined [OF s(3)] by blast
  have "lookup xw_receipt_sequence (int (length rs) + 1) (db_receipts db) = None"
  proof -
    have "int (length rs) + 1 \<notin> set (map xw_receipt_sequence (db_receipts db))"
      unfolding chain_rows(4) [OF chain(1)] by simp
    then show ?thesis by (simp add: lookup_None_iff)
  qed
  moreover have "ef_effect_id e \<in> ew_effect_id ` set (db_effects db)"
    using e(1) by (metis effect_id_row image_eqI)
  then have "lookup ew_effect_id (ef_effect_id e) (db_effects db) \<noteq> None" by (simp add: lookup_None_iff)
  ultimately have "\<exists>db'. insert_receipt \<lparr>xw_effect_id = ef_effect_id e, xw_transition_version = ef_transition_version e,
      xw_receipt_sequence = int (length rs) + 1, xw_previous_receipt_digest = previous, xw_receipt_blob = blob, xw_receipt_digest = d\<rparr> db
      = Inr db'"
    using new effect(2) by (auto simp add: accepts receipt_key_def receipt_check_def ControlEffectRecord_ok_def)
  then show ?thesis
    using effect(1) e(2,3) id new next'(1) s blob d by (auto simp add: finalize_tx_def Let_def accepts)
qed

section \<open>The properties\<close>

text \<open>Every well-formed receipt can be anchored: its canonical form exists, fits the anchor and reads
  back as the same receipt.\<close>

lemma receipt_fits_anchor:
  assumes "ControlReceipt_ok r" "Suc MAX_JSON_DEPTH \<le> limit"
  shows "\<exists>bs. canonical_json_bytes (ControlReceipt_to_dict r) = Inr bs \<and> length bs \<le> MAX_RECEIPT_ANCHOR_BYTES
    \<and> rbind (decode_json_payload limit bs) ControlReceipt_from_dict = Inr r"
proof -
  obtain bs where bs: "canonical_json_bytes (ControlReceipt_to_dict r) = Inr bs"
    "rbind (decode_json_payload limit bs) ControlReceipt_from_dict = Inr r"
    using receipt.payload_total [OF assms] by (elim exE conjE)
  then show ?thesis using receipt_bytes_bound [OF assms(1) bs(1)] by (intro exI [of _ bs] conjI)
qed

text \<open>C38: Finalisation always succeeds on a sound journal: in a reachable state whose chain verifies, an
  effect that is verified, failed or unknown and was authorised by the key of the signer gets a receipt
  for its current version, which becomes the end of the chain.\<close>

theorem finalize_succeeds:
  assumes "ed25519_ok ed" "length private = 32" "signer = ControlSigner_init ed private" "Suc MAX_JSON_DEPTH \<le> limit"
    and "reachable ed limit db" "receipt_sequence_from_connection ed limit (sg_verifier signer) db = Inr rs"
      "int (length rs) < MAX_SAFE_INTEGER"
    and "effect_to_row e \<in> set (db_effects db)" "is_receiptable e" "ef_authority_key_id e = sg_key_id signer"
    and "\<forall>r \<in> set rs. (rc_effect_id r, rc_transition_version r) \<noteq> (ef_effect_id e, ef_transition_version e)"
    and "0 \<le> now" "now \<le> MAX_SAFE_INTEGER"
  shows "\<exists>db' r. finalize_receipt_unanchored io_ok ed limit (ef_effect_id e) signer now db = (db', Inr r)
    \<and> receipt_sequence_from_connection ed limit (sg_verifier signer) db' = Inr (rs @ [r])"
proof -
  have ok: "journal_ok db" using assms(5) by (rule reachable_ok)
  have new: "lookup receipt_key (ef_effect_id e, ef_transition_version e) (db_receipts db) = None"
  proof (rule ccontr)
    assume "\<not> ?thesis"
    then obtain row where row: "row \<in> set (sort_key xw_receipt_sequence (db_receipts db))"
      "receipt_key row = (ef_effect_id e, ef_transition_version e)"
      using lookup_Some_D by fastforce
    then show False
      using list_all2_member [OF chain_rows(1) [OF assms(6)] row(1)] receipt_from_row_D assms(11)
      by (fastforce simp add: receipt_key_def)
  qed
  obtain db' r where tx: "finalize_tx ed limit signer (ef_effect_id e) now db = Inr (db', r)"
    using finalize_tx_defined [OF assms(1-3) ok assms(6-10) new assms(12,13)] by blast
  have "ControlEffectRecord_ok e"
    using ok assms(8) by (auto simp add: journal_ok_def effects_ok_def effect_to_row_inject)
  then have "canonical_uuid_text (ef_effect_id e)" by (simp add: ControlEffectRecord_ok_def)
  with tx have "finalize_receipt_unanchored io_ok ed limit (ef_effect_id e) signer now db = (db', Inr r)"
    using assms(12,13)
    by (simp add: finalize_receipt_unanchored_def input_uuid_def require_uuid_def require_pattern_def input_time_def del: limits)
  moreover have "r \<notin> set rs"
  proof -
    obtain e' where e': "effect_from_connection db (ef_effect_id e) = Inr e'" "rc_effect_id r = ef_effect_id e"
      "rc_transition_version r = ef_transition_version e'"
      using finalize_tx_receipt [OF tx] by (elim exE conjE)
    have "effect_to_row e' \<in> set (db_effects db) \<and> ef_effect_id e' = ef_effect_id e"
      using e'(1) ok effect_from_connection_Inr [of db "db_permits db"] by (simp add: journal_ok_def)
    then have "e = e'" using effect_in_db [OF ok assms(8)] by simp
    then show ?thesis using e'(2,3) assms(11) by auto
  qed
  ultimately show ?thesis using finalize_tx_chain [OF assms(4,6) tx] by blast
qed

end
