(* ===== verification/Grace_Anchor.thy ===== *)
theory Grace_Anchor
  imports Journal_Complete
begin

text \<open>
  \<^verbatim>\<open>algo_cli/grace_key_store.py\<close>: labels and key material, the anchor payloads (\<open>ContentFreeReceiptHead\<close>
  and signed receipts), their text encoding for the keyring, and \<open>StaticKeyStore\<close>, a complete provider of
  the anchor interface of the journal.
\<close>

section \<open>Labels and keys\<close>

definition RECEIPT_ANCHOR_LABEL_PREFIX :: string where "RECEIPT_ANCHOR_LABEL_PREFIX = ''receipt-head-v1-''"

definition label_char :: "nat \<Rightarrow> bool" where
  "label_char c \<longleftrightarrow> lower_char c \<or> upper_char c \<or> digit c \<or> c = 46 \<or> c = 95 \<or> c = 58 \<or> c = 45"

definition safe_label_text :: "pystr \<Rightarrow> bool" where
  "safe_label_text s \<longleftrightarrow> 1 \<le> length s \<and> length s \<le> 96 \<and> list_all label_char s"

definition hex_digest_text :: "pystr \<Rightarrow> bool" where
  "hex_digest_text s \<longleftrightarrow> length s = 64 \<and> list_all lower_hex s"

text \<open>\<open>str.strip\<close> removes the characters for which \<open>str.isspace\<close> holds.\<close>

definition isspace :: "nat \<Rightarrow> bool" where
  "isspace c \<longleftrightarrow> (9 \<le> c \<and> c \<le> 13) \<or> (28 \<le> c \<and> c \<le> 32) \<or> c = 133 \<or> c = 160 \<or> c = 5760
     \<or> (8192 \<le> c \<and> c \<le> 8202) \<or> c = 8232 \<or> c = 8233 \<or> c = 8239 \<or> c = 8287 \<or> c = 12288"

definition strip :: "pystr \<Rightarrow> pystr" where
  "strip s = rev (dropWhile isspace (rev (dropWhile isspace s)))"

definition validate_label :: "pystr \<Rightarrow> exn + pystr" where
  "validate_label label =
    (let normalized = strip label in
     if safe_label_text normalized then Inr normalized else Inl (ValueError ''key label''))"

definition KEY_LENGTHS :: "int set" where "KEY_LENGTHS = {16, 24, 32, 48, 64}"

definition validate_length :: "int \<Rightarrow> exn + nat" where
  "validate_length n = (if n \<in> KEY_LENGTHS then Inr (nat n) else Inl (ValueError ''key length''))"

record KeyMaterial =
  km_key :: bytes
  km_persistent :: bool
  km_backend :: string

definition encode_key :: "bytes \<Rightarrow> pystr" where "encode_key key = urlsafe_b64encode key"

definition decode_key :: "pystr \<Rightarrow> nat \<Rightarrow> exn + bytes" where
  "decode_key encoded n =
    (case b64decode_urlsafe encoded of
       Inl _ \<Rightarrow> Inl (KeyStoreError ''malformed key material'')
     | Inr key \<Rightarrow>
         if length key \<noteq> n \<or> encode_key key \<noteq> encoded then Inl (KeyStoreError ''invalid key material'')
         else Inr key)"

section \<open>Anchor payloads\<close>

definition anchor_error :: "string \<Rightarrow> exn + 'a" where
  "anchor_error reason = Inl (ReceiptAnchorStoreError reason)"

definition anchor_label :: "pystr \<Rightarrow> exn + pystr" where
  "anchor_label journal_id =
    (if digest_text journal_id
     then validate_label (str RECEIPT_ANCHOR_LABEL_PREFIX @ drop (length ''sha256:'') journal_id)
     else anchor_error ''anchor_journal_id'')"

record ContentFreeReceiptHead =
  hd_namespace :: pystr
  hd_journal_id :: pystr
  hd_subject_digest :: pystr
  hd_sequence :: int
  hd_head_digest :: pystr
  hd_authentication :: pystr
  hd_schema_version :: int

definition HEAD_KIND :: string where "HEAD_KIND = ''content_free_receipt_head''"

definition HEAD_FIELDS :: "string list" where
  "HEAD_FIELDS = [''kind'', ''schema_version'', ''namespace'', ''journal_id'', ''subject_digest'', ''sequence'',
     ''head_digest'', ''authentication'']"

text \<open>The checks of \<open>__post_init__\<close>, on the values of a decoded dictionary.\<close>

definition head_text :: "(pystr \<Rightarrow> bool) \<Rightarrow> py \<Rightarrow> exn + pystr" where
  "head_text valid v = (case v of PStr s \<Rightarrow> if valid s then Inr s else anchor_error ''anchor_value''
     | _ \<Rightarrow> anchor_error ''anchor_value'')"

definition head_sequence :: "py \<Rightarrow> exn + int" where
  "head_sequence v = (case v of PInt i \<Rightarrow> if 0 \<le> i \<and> i \<le> MAX_SAFE_INTEGER then Inr i else anchor_error ''anchor_value''
     | _ \<Rightarrow> anchor_error ''anchor_value'')"

definition ContentFreeReceiptHead_post_init :: "(pystr \<times> py) list \<Rightarrow> exn + ContentFreeReceiptHead" where
  "ContentFreeReceiptHead_post_init row =
    rbind (field row ''schema_version'' (\<lambda>v. if v = PInt 1 then Inr () else anchor_error ''anchor_value'')) (\<lambda>_.
    rbind (field row ''namespace'' (head_text safe_label_text)) (\<lambda>namespace.
    rbind (field row ''journal_id'' (head_text digest_text)) (\<lambda>journal_id.
    rbind (field row ''subject_digest'' (head_text hex_digest_text)) (\<lambda>subject_digest.
    rbind (field row ''head_digest'' (head_text hex_digest_text)) (\<lambda>head_digest.
    rbind (field row ''authentication'' (head_text hex_digest_text)) (\<lambda>authentication.
    rbind (field row ''sequence'' head_sequence) (\<lambda>sequence.
    Inr \<lparr>hd_namespace = namespace, hd_journal_id = journal_id, hd_subject_digest = subject_digest,
         hd_sequence = sequence, hd_head_digest = head_digest, hd_authentication = authentication,
         hd_schema_version = 1\<rparr>)))))))"

definition head_unsigned_payload :: "ContentFreeReceiptHead \<Rightarrow> (string \<times> py) list" where
  "head_unsigned_payload h =
    [(''kind'', PStr (str HEAD_KIND)), (''schema_version'', PInt (hd_schema_version h)),
     (''namespace'', PStr (hd_namespace h)), (''journal_id'', PStr (hd_journal_id h)),
     (''subject_digest'', PStr (hd_subject_digest h)), (''sequence'', PInt (hd_sequence h)),
     (''head_digest'', PStr (hd_head_digest h))]"

definition head_payload :: "ContentFreeReceiptHead \<Rightarrow> py" where
  "head_payload h = PDict (items (head_unsigned_payload h @ [(''authentication'', PStr (hd_authentication h))]))"

definition head_to_bytes :: "ContentFreeReceiptHead \<Rightarrow> exn + bytes" where
  "head_to_bytes h = rbind (json_dumps (head_payload h)) (\<lambda>text.
     case utf8_encode text of None \<Rightarrow> Inl UnicodeError | Some bs \<Rightarrow> Inr bs)"

text \<open>\<open>json.loads\<close> without hooks: the last of several equal keys wins, floats and constants are read.\<close>

fun dict_set :: "(pystr \<times> py) list \<Rightarrow> pystr \<Rightarrow> py \<Rightarrow> (pystr \<times> py) list" where
  "dict_set [] k v = [(k, v)]"
| "dict_set ((k', v') # row) k v = (if k' = k then (k, v) # row else (k', v') # dict_set row k v)"

definition default_hooks :: json_hooks where
  "default_hooks =
    \<lparr>object_pairs_hook = (\<lambda>pairs. Inr (PDict (foldl (\<lambda>row (k, v). dict_set row k v) [] pairs))),
     parse_int = (\<lambda>raw. Inr (PInt (int_of_text raw))),
     parse_float = (\<lambda>raw. Inr POther), parse_constant = (\<lambda>raw. Inr POther)\<rparr>"

definition anchor_json :: "nat \<Rightarrow> bytes \<Rightarrow> exn + py" where
  "anchor_json limit v = (case utf8_decode v of None \<Rightarrow> Inl UnicodeError | Some text \<Rightarrow> json_loads default_hooks limit text)"

definition anchor_size_ok :: "bytes \<Rightarrow> bool" where
  "anchor_size_ok v \<longleftrightarrow> 1 \<le> length v \<and> length v \<le> MAX_RECEIPT_ANCHOR_BYTES"

definition head_from_dict :: "py \<Rightarrow> exn + ContentFreeReceiptHead" where
  "head_from_dict v =
    rbind (case v of PDict row \<Rightarrow> if has_keys row HEAD_FIELDS then Inr row else Inl (ValueError ''schema'')
                   | _ \<Rightarrow> Inl (ValueError ''schema'')) (\<lambda>row.
    rbind (field row ''kind'' (\<lambda>v. if v = PStr (str HEAD_KIND) then Inr () else Inl (ValueError ''schema''))) (\<lambda>_.
    ContentFreeReceiptHead_post_init row))"

definition head_from_bytes :: "nat \<Rightarrow> bytes \<Rightarrow> exn + ContentFreeReceiptHead" where
  "head_from_bytes limit v =
    (if \<not> anchor_size_ok v then anchor_error ''anchor_value''
     else
       case rbind (anchor_json limit v) (\<lambda>decoded.
            rbind (head_from_dict decoded) (\<lambda>result.
            rbind (head_to_bytes result) (\<lambda>canonical.
            if canonical \<noteq> v then Inl (ValueError ''noncanonical'') else Inr result))) of
         Inl _ \<Rightarrow> anchor_error ''anchor_value'' | Inr result \<Rightarrow> Inr result)"

definition is_head_kind :: "py \<Rightarrow> bool" where
  "is_head_kind decoded \<longleftrightarrow> (case decoded of PDict row \<Rightarrow> map_of row (str ''kind'') = Some (PStr (str HEAD_KIND)) | _ \<Rightarrow> False)"

definition validate_anchor_payload :: "nat \<Rightarrow> bytes \<Rightarrow> exn + bytes" where
  "validate_anchor_payload limit v =
    (if \<not> anchor_size_ok v then anchor_error ''anchor_value''
     else
       case rbind (anchor_json limit v) (\<lambda>decoded.
            if is_head_kind decoded then rbind (head_from_bytes limit v) (\<lambda>_. Inr v)
            else
              rbind (decode_json_payload limit v) (\<lambda>payload.
              rbind (ControlReceipt_from_dict payload) (\<lambda>receipt.
              rbind (canonical_json_bytes (ControlReceipt_to_dict receipt)) (\<lambda>canonical.
              if canonical \<noteq> v then Inl (ValueError ''noncanonical'') else Inr v)))) of
         Inl _ \<Rightarrow> anchor_error ''anchor_value'' | Inr _ \<Rightarrow> Inr v)"

definition ANCHOR_PREFIX :: string where "ANCHOR_PREFIX = ''anchor-v1:''"

definition encode_anchor :: "nat \<Rightarrow> bytes \<Rightarrow> exn + pystr" where
  "encode_anchor limit v = rbind (validate_anchor_payload limit v) (\<lambda>validated.
     Inr (str ANCHOR_PREFIX @ urlsafe_b64encode validated))"

definition decode_anchor :: "nat \<Rightarrow> pystr \<Rightarrow> exn + bytes" where
  "decode_anchor limit v =
    (if take (length ANCHOR_PREFIX) v \<noteq> str ANCHOR_PREFIX then anchor_error ''anchor_encoding''
     else
       case b64decode_urlsafe (drop (length ANCHOR_PREFIX) v) of
         Inl _ \<Rightarrow> anchor_error ''anchor_encoding''
       | Inr decoded \<Rightarrow>
           rbind (encode_anchor limit decoded) (\<lambda>encoded.
           if encoded \<noteq> v then anchor_error ''anchor_encoding'' else Inr decoded))"

section \<open>The static key store\<close>

record static_store =
  ss_keys :: "pystr \<rightharpoonup> bytes"
  ss_anchors :: "pystr \<rightharpoonup> bytes"

definition StaticKeyStore_get_or_create ::
    "bytes \<Rightarrow> pystr \<Rightarrow> int \<Rightarrow> static_store \<Rightarrow> static_store \<times> (exn + KeyMaterial)" where
  "StaticKeyStore_get_or_create random label n s =
    (case rbind (validate_label label) (\<lambda>safe_label. rbind (validate_length n) (\<lambda>safe_length. Inr (safe_label, safe_length))) of
       Inl e \<Rightarrow> (s, Inl e)
     | Inr (safe_label, safe_length) \<Rightarrow>
         (let key = (case ss_keys s safe_label of None \<Rightarrow> take safe_length random | Some key \<Rightarrow> key);
              s' = s\<lparr>ss_keys := (ss_keys s)(safe_label \<mapsto> key)\<rparr> in
          if length key \<noteq> safe_length then (s', Inl (KeyStoreError ''static key length''))
          else (s', Inr \<lparr>km_key = key, km_persistent = True, km_backend = ''static''\<rparr>)))"

definition StaticKeyStore_get_existing :: "pystr \<Rightarrow> int \<Rightarrow> static_store \<Rightarrow> exn + KeyMaterial" where
  "StaticKeyStore_get_existing label n s =
    rbind (validate_label label) (\<lambda>safe_label.
    rbind (validate_length n) (\<lambda>safe_length.
    case ss_keys s safe_label of
      None \<Rightarrow> Inl (KeyStoreError ''key material is absent'')
    | Some key \<Rightarrow>
        if length key \<noteq> safe_length then Inl (KeyStoreError ''static key length'')
        else Inr \<lparr>km_key = key, km_persistent = True, km_backend = ''static''\<rparr>))"

definition StaticKeyStore_delete :: "pystr \<Rightarrow> static_store \<Rightarrow> static_store \<times> (exn + unit)" where
  "StaticKeyStore_delete label s =
    (case validate_label label of
       Inl e \<Rightarrow> (s, Inl e) | Inr safe_label \<Rightarrow> (s\<lparr>ss_keys := (ss_keys s)(safe_label := None)\<rparr>, Inr ()))"

definition StaticKeyStore_load :: "pystr \<Rightarrow> static_store \<Rightarrow> exn + bytes option" where
  "StaticKeyStore_load journal_id s =
    (if digest_text journal_id then Inr (ss_anchors s journal_id) else anchor_error ''anchor_journal_id'')"

definition StaticKeyStore_compare_and_set ::
    "nat \<Rightarrow> pystr \<Rightarrow> pystr option \<Rightarrow> bytes \<Rightarrow> static_store \<Rightarrow> static_store \<times> (exn + bool)" where
  "StaticKeyStore_compare_and_set limit journal_id expected_digest v s =
    (if \<not> digest_text journal_id then (s, anchor_error ''anchor_journal_id'')
     else if \<not> (case expected_digest of None \<Rightarrow> True | Some d \<Rightarrow> digest_text d)
     then (s, anchor_error ''anchor_expected_digest'')
     else
       case validate_anchor_payload limit v of
         Inl e \<Rightarrow> (s, Inl e)
       | Inr validated \<Rightarrow>
           (let actual = map_option receipt_anchor_digest (ss_anchors s journal_id) in
            if actual \<noteq> expected_digest then (s, Inr False)
            else (s\<lparr>ss_anchors := (ss_anchors s)(journal_id \<mapsto> validated)\<rparr>, Inr True)))"

definition StaticKeyStore_delete_anchor :: "pystr \<Rightarrow> static_store \<Rightarrow> static_store \<times> (exn + unit)" where
  "StaticKeyStore_delete_anchor journal_id s =
    (if digest_text journal_id then (s\<lparr>ss_anchors := (ss_anchors s)(journal_id := None)\<rparr>, Inr ())
     else (s, anchor_error ''anchor_journal_id''))"

section \<open>The anchor payloads read back\<close>

definition ContentFreeReceiptHead_ok :: "ContentFreeReceiptHead \<Rightarrow> bool" where
  "ContentFreeReceiptHead_ok h \<longleftrightarrow> hd_schema_version h = 1 \<and> safe_label_text (hd_namespace h) \<and> digest_text (hd_journal_id h)
     \<and> hex_digest_text (hd_subject_digest h) \<and> hex_digest_text (hd_head_digest h) \<and> hex_digest_text (hd_authentication h)
     \<and> 0 \<le> hd_sequence h \<and> hd_sequence h \<le> MAX_SAFE_INTEGER"

lemma head_field_Inr_iffs [accepts]:
  "head_text valid v = Inr s \<longleftrightarrow> v = PStr s \<and> valid s"
  "head_sequence v = Inr i \<longleftrightarrow> v = PInt i \<and> 0 \<le> i \<and> i \<le> MAX_SAFE_INTEGER"
  by (auto simp add: head_text_def head_sequence_def anchor_error_def split: py.splits)

lemma if_anchor_error_Inr_iff [accepts]:
  "(if c then anchor_error reason else m) = Inr x \<longleftrightarrow> \<not> c \<and> m = Inr x"
  "(if c then m else anchor_error reason) = Inr x \<longleftrightarrow> c \<and> m = Inr x"
  by (simp_all add: anchor_error_def)

definition head_entries :: "ContentFreeReceiptHead \<Rightarrow> (string \<times> py) list" where
  "head_entries h = head_unsigned_payload h @ [(''authentication'', PStr (hd_authentication h))]"

interpretation head: record_codec head_from_dict head_payload ContentFreeReceiptHead_ok
proof (rule record_codec_guardI [OF head_from_dict_def, where names = HEAD_FIELDS and entries = head_entries], goal_cases)
  case (1 v row)
  show ?case by (auto split: py.splits)
next
  case (2 x)
  show ?case by (simp add: head_payload_def head_entries_def)
next
  case (6 row x)
  show ?case
    by (cases x) (auto simp add: ContentFreeReceiptHead_ok_def ContentFreeReceiptHead_post_init_def head_entries_def
        head_unsigned_payload_def accepts simp del: limits)
qed (auto simp add: head_entries_def head_unsigned_payload_def HEAD_FIELDS_def)

interpretation default_reader: json_reader default_hooks "\<lambda>_. True"
proof
  fix kvs :: "(pystr \<times> py) list"
  assume d: "distinct (map fst kvs)"
  have append: "k \<notin> set (map fst row) \<Longrightarrow> dict_set row k v = row @ [(k, v)]" for row k v
    by (induction row) auto
  have "distinct (map fst (row @ kvs)) \<Longrightarrow> foldl (\<lambda>row (k, v). dict_set row k v) row kvs = row @ kvs" for row
  proof (induction kvs arbitrary: row)
    case (Cons kv kvs)
    then show ?case by (cases kv) (simp add: append)
  qed simp
  from this [of "[]"] d show "object_pairs_hook default_hooks kvs = Inr (PDict kvs)" by (simp add: default_hooks_def)
qed (simp add: default_hooks_def)

lemma label_char_plain: "label_char c \<Longrightarrow> 32 \<le> c \<and> c < 128 \<and> c \<noteq> 34 \<and> c \<noteq> 92"
  unfolding label_char_def by (rule plain_chars) auto

lemma head_leaves:
  assumes "ContentFreeReceiptHead_ok h"
  shows "list_all (\<lambda>(k, v). field_name_text (str k) \<and> fits 0 leaf_bound v) (head_entries h)"
proof -
  have "fits 0 leaf_bound (PStr s)" if "safe_label_text s \<or> hex_digest_text s" for s
    using that label_char_plain hex_is_plain
    by (intro fits_text) (auto simp add: safe_label_text_def hex_digest_text_def plain_def list_all_iff)
  moreover have "fits 0 leaf_bound (PStr (str HEAD_KIND))"
    unfolding HEAD_KIND_def by (rule fits_literal) (simp_all add: plain_def)
  ultimately show ?thesis
    using assms unfolding ContentFreeReceiptHead_ok_def head_entries_def head_unsigned_payload_def
    by (simp add: fits_fields limits char_classes abs_le_iff)
qed

lemma head_to_bytes_ok:
  assumes "ContentFreeReceiptHead_ok h"
  shows "\<exists>bs. head_to_bytes h = Inr bs \<and> utf8_encode (json_text (psort (head_payload h))) = Some bs \<and> anchor_size_ok bs"
proof -
  have payload: "head_payload h = PDict (items (head_entries h))" by (simp add: head_payload_def head_entries_def)
  obtain bs where bs: "utf8_encode (json_text (psort (head_payload h))) = Some bs"
    "1 \<le> length bs" "length bs \<le> 2 + sum_list (map (\<lambda>(k, v). 134 + length k) (head_entries h))"
    using leaves_text [OF head_leaves [OF assms]] unfolding payload by blast
  have "serializable (head_payload h)"
    by (simp add: head_payload_def head_unsigned_payload_def)
  then have "head_to_bytes h = Inr bs" using bs(1) by (simp add: head_to_bytes_def json_dumps_def)
  then show ?thesis
    using bs by (simp add: anchor_size_ok_def head_entries_def head_unsigned_payload_def MAX_RECEIPT_ANCHOR_BYTES_def)
qed

lemma head_scannable: "scannable (\<lambda>_. True) 1 (psort (head_payload h))"
proof -
  have "list_all (\<lambda>kv. scannable (\<lambda>_. True) 0 (psort (snd kv))) (items (head_entries h))"
    "distinct (map fst (items (head_entries h)))"
    by (simp_all add: head_entries_def head_unsigned_payload_def str_def)
  then show ?thesis
    by (simp add: head_payload_def head_entries_def [symmetric] list_all_iff comp_def)
qed

lemma head_from_bytes_iff:
  assumes "1 \<le> limit"
  shows "head_from_bytes limit bs = Inr h \<longleftrightarrow> ContentFreeReceiptHead_ok h \<and> head_to_bytes h = Inr bs"
proof
  assume "head_from_bytes limit bs = Inr h"
  then obtain decoded where "head_from_dict decoded = Inr h" "head_to_bytes h = Inr bs"
    by (auto simp add: head_from_bytes_def accepts anchor_error_def split: sum.splits if_splits)
  then show "ContentFreeReceiptHead_ok h \<and> head_to_bytes h = Inr bs"
    by (auto simp add: head_from_dict_def ContentFreeReceiptHead_post_init_def ContentFreeReceiptHead_ok_def accepts simp del: limits)
next
  assume h: "ContentFreeReceiptHead_ok h \<and> head_to_bytes h = Inr bs"
  then have bs: "utf8_encode (json_text (psort (head_payload h))) = Some bs" "anchor_size_ok bs"
    using head_to_bytes_ok [of h] by auto
  have "anchor_json limit bs = Inr (psort (head_payload h))"
    using default_reader.json_loads_text [OF head_scannable assms] utf8_decode_encode [OF bs(1)] by (simp add: anchor_json_def)
  moreover have "head_from_dict (psort (head_payload h)) = Inr h"
    using h head.from_dict_iff [of "psort (head_payload h)"] head.to_dict_wf [of h] by (simp del: psort.simps wf_py.simps)
  ultimately show "head_from_bytes limit bs = Inr h"
    using h bs(2) by (simp add: head_from_bytes_def)
qed

end
