(* ===== verification/Anchor_Sync.thy ===== *)
theory Anchor_Sync
  imports Grace_Anchor
begin

text \<open>
  The interface between the journal and its anchor store. The locale \<open>anchor_cell\<close> states the laws of a
  compare-and-set cell for each journal id; under them the outcome of a synchronisation is determined
  by the anchored bytes and the chain. \<open>StaticKeyStore\<close> is shown to satisfy the laws.
\<close>

text \<open>A journal whose chain verifies.\<close>

definition steady :: "'s anchor_store \<Rightarrow> ed25519 \<Rightarrow> nat \<Rightarrow> ControlVerifier \<Rightarrow> pystr \<Rightarrow> ControlReceipt list \<Rightarrow> 's \<Rightarrow> bool" where
  "steady st ed limit vf journal_id rs s \<longleftrightarrow> journal_id_of (as_db st s) = Inr journal_id
     \<and> receipt_sequence_from_connection ed limit vf (as_db st s) = Inr rs"

definition bytes_of :: "ControlReceipt \<Rightarrow> bytes \<Rightarrow> bool" where
  "bytes_of r blob \<longleftrightarrow> canonical_json_bytes (ControlReceipt_to_dict r) = Inr blob"

text \<open>A chain of linked and signed receipts of a journal.\<close>

definition chain_ready :: "ed25519 \<Rightarrow> ControlVerifier \<Rightarrow> pystr \<Rightarrow> ControlReceipt list \<Rightarrow> bool" where
  "chain_ready ed vf journal_id rs \<longleftrightarrow> digest_text journal_id \<and> signed_sequence ed vf journal_id rs"

locale anchor_cell =
  fixes st :: "'s anchor_store" and cell :: "'s \<Rightarrow> pystr \<Rightarrow> bytes option" and limit :: nat
  assumes load: "digest_text journal_id \<Longrightarrow>
      as_load st s journal_id = (s, case cell s journal_id of None \<Rightarrow> LoadMissing | Some blob \<Rightarrow> LoadBytes blob)"
    and swap_mismatch: "digest_text journal_id \<Longrightarrow> list_all digest_text (case expected of None \<Rightarrow> [] | Some d \<Rightarrow> [d]) \<Longrightarrow>
      ControlReceipt_ok r \<Longrightarrow> canonical_json_bytes (ControlReceipt_to_dict r) = Inr v \<Longrightarrow>
      map_option receipt_anchor_digest (cell s journal_id) \<noteq> expected \<Longrightarrow>
      as_swap st s journal_id expected v = (s, Swapped False)"
    and swap_match: "digest_text journal_id \<Longrightarrow> list_all digest_text (case expected of None \<Rightarrow> [] | Some d \<Rightarrow> [d]) \<Longrightarrow>
      ControlReceipt_ok r \<Longrightarrow> canonical_json_bytes (ControlReceipt_to_dict r) = Inr v \<Longrightarrow>
      map_option receipt_anchor_digest (cell s journal_id) = expected \<Longrightarrow>
      \<exists>s'. as_swap st s journal_id expected v = (s', Swapped True) \<and> cell s' journal_id = Some v \<and> as_db st s' = as_db st s"
    and limit_ok: "Suc MAX_JSON_DEPTH \<le> limit"
begin

lemma steady_linked:
  assumes "steady st ed limit vf journal_id rs s"
  shows "linked journal_id 1 EMPTY_RECEIPT_HEAD_DIGEST rs" "digest_text journal_id"
    and "\<And>r. r \<in> set rs \<Longrightarrow> verify_control_receipt ed r vf = Inr ()"
proof -
  have chain: "receipt_chain ed limit vf journal_id (sort_key xw_receipt_sequence (db_receipts (as_db st s))) 1
      EMPTY_RECEIPT_HEAD_DIGEST = Inr rs"
    using assms by (auto simp add: steady_def receipt_sequence_from_connection_def)
  then show "linked journal_id 1 EMPTY_RECEIPT_HEAD_DIGEST rs" by (rule receipt_chain_linked)
  show "digest_text journal_id"
    using assms by (auto simp add: steady_def journal_id_of_def accepts corrupt_def split: list.splits if_splits)
  fix r assume "r \<in> set rs"
  then obtain row where "receipt_from_row ed limit row vf journal_id = Inr r"
    using receipt_chain_rows(1) [OF chain] by (auto simp add: list_all2_conv_all_nth in_set_conv_nth)
  then show "verify_control_receipt ed r vf = Inr ()" using receipt_from_row_D by blast
qed

lemma steady_ready: "steady st ed limit vf journal_id rs s \<Longrightarrow> chain_ready ed vf journal_id rs"
  using steady_linked by (auto simp add: chain_ready_def signed_sequence_def list_all_iff)

lemma ready:
  assumes "chain_ready ed vf journal_id rs"
  shows "linked journal_id 1 EMPTY_RECEIPT_HEAD_DIGEST rs" "digest_text journal_id"
    and "\<And>r. r \<in> set rs \<Longrightarrow> verify_control_receipt ed r vf = Inr ()"
  using assms by (auto simp add: chain_ready_def signed_sequence_def list_all_iff)

lemma check_member:
  assumes "chain_ready ed vf journal_id rs" "r \<in> set rs" "bytes_of r blob"
  shows "check_anchor ed limit journal_id vf (LoadBytes blob) = Inr (Some (r, blob))"
  using check_anchor_written [of r ed vf limit blob] linked_ok [OF ready(1) [OF assms(1)] assms(2)]
    ready(3) [OF assms(1,2)] limit_ok assms(3)
  by (simp add: bytes_of_def)

lemma anchor_digest_text: "digest_text (receipt_anchor_digest v)"
  by (simp add: receipt_anchor_digest_def digest_text_def prefixed_hex64I)

lemma put_matches:
  assumes "chain_ready ed vf journal_id rs" "r \<in> set rs" "bytes_of r v"
    and "map_option receipt_anchor_digest (cell s journal_id) = expected"
  shows "\<exists>s'. put_anchor st io ed limit vf journal_id allowed rs r expected s = (s', False, Again rs)
    \<and> cell s' journal_id = Some v"
proof -
  have r: "ControlReceipt_ok r" using linked_ok [OF ready(1) [OF assms(1)] assms(2)] by simp
  have "list_all digest_text (case expected of None \<Rightarrow> [] | Some d \<Rightarrow> [d])"
    using assms(4) anchor_digest_text by (auto split: option.splits)
  then obtain s' where "as_swap st s journal_id expected v = (s', Swapped True)" "cell s' journal_id = Some v"
    using swap_match [OF ready(2) [OF assms(1)] _ r] assms(3,4) unfolding bytes_of_def by blast
  then show ?thesis
    using assms(1,3) receipt_bytes_bound [OF r] by (simp add: put_anchor_def bytes_of_def)
qed

lemma nth_member:
  assumes "chain_ready ed vf journal_id rs" "r \<in> set rs"
  shows "0 \<le> rc_receipt_sequence r - 1 \<and> rc_receipt_sequence r - 1 < int (length rs)
    \<and> rs ! nat (rc_receipt_sequence r - 1) = r"
proof -
  obtain i where i: "i < length rs" "rs ! i = r" using assms(2) by (auto simp add: in_set_conv_nth)
  with linked_sequence [OF ready(1) [OF assms(1)] i(1)] show ?thesis by simp
qed

lemma attempt_head:
  assumes "chain_ready ed vf journal_id rs" "rs \<noteq> []" "bytes_of (last rs) blob" "cell s journal_id = Some blob"
  shows "anchor_attempt st io ed limit vf journal_id allowed rs s = (s, False, Done (Inr ()))"
proof -
  have last: "last rs \<in> set rs" using assms(2) by simp
  note check = check_member [OF assms(1) last assms(3)] and nth = nth_member [OF assms(1) last]
  show ?thesis
    using check nth assms(4) load [OF ready(2) [OF assms(1)]] by (simp add: anchor_attempt_def)
qed

lemma attempt_member:
  assumes "chain_ready ed vf journal_id rs" "r \<in> set rs" "r \<noteq> last rs" "bytes_of r blob" "cell s journal_id = Some blob"
    "bytes_of (last rs) v"
  shows "\<exists>s'. anchor_attempt st io ed limit vf journal_id allowed rs s = (s', False, Again rs)
    \<and> cell s' journal_id = Some v"
proof -
  have "last rs \<in> set rs" using assms(2) by (cases rs) auto
  from put_matches [OF assms(1) this assms(6), of s "Some (receipt_anchor_digest blob)"] assms(5)
  obtain s' where "put_anchor st io ed limit vf journal_id False rs (last rs) (Some (receipt_anchor_digest blob)) s
      = (s', False, Again rs)" "cell s' journal_id = Some v"
    by force
  then show ?thesis
    using check_member [OF assms(1,2,4)] nth_member [OF assms(1,2)] assms(3,5) load [OF ready(2) [OF assms(1)]]
    by (simp add: anchor_attempt_def)
qed

lemma attempt_missing:
  assumes "chain_ready ed vf journal_id rs" "rs \<noteq> []" "bytes_of (hd rs) v" "cell s journal_id = None"
  shows "\<exists>s'. anchor_attempt st io ed limit vf journal_id True rs s = (s', False, Again rs)
    \<and> cell s' journal_id = Some v"
  using put_matches [OF assms(1) hd_in_set [OF assms(2)] assms(3), of s None] assms(2,4) load [OF ready(2) [OF assms(1)]]
  by (simp add: anchor_attempt_def check_anchor_def)

lemma attempt_foreign:
  assumes "steady st ed limit vf journal_id rs s" "check_anchor ed limit journal_id vf (LoadBytes blob) = Inr (Some (r, blob))"
    and "r \<notin> set rs" "cell s journal_id = Some blob"
  shows "anchor_attempt st io_ok ed limit vf journal_id allowed rs s = (s, False, Done (corrupt ''receipt_head_rollback''))"
proof -
  have "refresh st io_ok ed limit vf journal_id s = Inr rs"
    using assms(1) by (simp add: refresh_def read_receipt_sequence_def steady_def)
  moreover have "rs ! nat (rc_receipt_sequence r - 1) \<noteq> r"
    if "0 \<le> rc_receipt_sequence r - 1" "rc_receipt_sequence r - 1 < int (length rs)"
  proof -
    have "nat (rc_receipt_sequence r - 1) < length rs" using that by linarith
    then show ?thesis using assms(3) nth_mem by metis
  qed
  ultimately show ?thesis
    using assms(2,4) load [OF steady_linked(2) [OF assms(1)]] by (auto simp add: anchor_attempt_def)
qed

lemma loop_member:
  assumes "chain_ready ed vf journal_id rs" "r \<in> set rs" "bytes_of r blob" "cell s journal_id = Some blob" "bytes_of (last rs) v"
  shows "\<exists>s'. anchor_loop (Suc (Suc n)) st io ed limit vf journal_id allowed rs s = (s', False, Inr ())
    \<and> cell s' journal_id = Some v"
proof (cases "r = last rs")
  case True
  then have "blob = v" using assms(3,5) by (simp add: bytes_of_def)
  moreover have "rs \<noteq> []" using assms(2) by auto
  ultimately show ?thesis using attempt_head [OF assms(1) _ _ assms(4)] assms(4,5) by simp
next
  case False
  obtain s' where s': "anchor_attempt st io ed limit vf journal_id allowed rs s = (s', False, Again rs)"
    "cell s' journal_id = Some v"
    using attempt_member [OF assms(1,2) False assms(3-5)] by blast
  moreover have "rs \<noteq> []" using assms(2) by auto
  ultimately show ?thesis using attempt_head [OF assms(1) _ assms(5) s'(2)] by simp
qed

text \<open>A synchronisation that may go ahead anchors the head of the chain, without reading the journal again.\<close>

definition may_anchor :: "bool \<Rightarrow> pystr \<Rightarrow> ControlReceipt list \<Rightarrow> 's \<Rightarrow> bool" where
  "may_anchor allowed journal_id rs s \<longleftrightarrow> (case cell s journal_id of None \<Rightarrow> rs = [] \<or> allowed
     | Some blob \<Rightarrow> \<exists>r \<in> set rs. bytes_of r blob)"

lemma sync_ready:
  assumes "chain_ready ed vf journal_id rs" "rs \<noteq> []" "may_anchor allowed journal_id rs s"
  shows "\<exists>s' v. synchronize_receipt_anchor_sequence (Some st) io ed limit vf journal_id allowed rs s = (s', False, Inr ())
    \<and> bytes_of (last rs) v \<and> cell s' journal_id = Some v"
proof -
  have bytes: "\<exists>v. bytes_of r v" if "r \<in> set rs" for r
    using receipt.canonical_defined linked_ok [OF ready(1) [OF assms(1)] that] by (simp add: bytes_of_def)
  obtain u v where uv: "bytes_of (hd rs) u" "bytes_of (last rs) v" using bytes assms(2) by (meson hd_in_set last_in_set)
  have sync: "synchronize_receipt_anchor_sequence (Some st) io ed limit vf journal_id allowed rs s
      = anchor_loop (Suc (Suc (Suc 5))) st io ed limit vf journal_id allowed rs s"
    by (simp add: synchronize_receipt_anchor_sequence_def MAX_RECEIPT_ANCHOR_RETRIES_def eval_nat_numeral)
  show ?thesis
  proof (cases "cell s journal_id")
    case None
    then have allowed: "allowed = True" using assms(2,3) by (simp add: may_anchor_def)
    obtain s1 where s1: "anchor_attempt st io ed limit vf journal_id True rs s = (s1, False, Again rs)" "cell s1 journal_id = Some u"
      using attempt_missing [OF assms(1,2) uv(1) None] by blast
    obtain s2 where s2: "anchor_loop (Suc (Suc 5)) st io ed limit vf journal_id False rs s1 = (s2, False, Inr ())"
      "cell s2 journal_id = Some v"
      using loop_member [OF assms(1) hd_in_set [OF assms(2)] uv(1) s1(2) uv(2)] by blast
    have "synchronize_receipt_anchor_sequence (Some st) io ed limit vf journal_id allowed rs s = (s2, False, Inr ())"
      unfolding sync anchor_loop.simps(2) [of "Suc (Suc 5)"] using s1(1) s2(1) allowed by (simp del: anchor_loop.simps)
    then show ?thesis using s2(2) uv(2) by blast
  next
    case (Some blob)
    then obtain r where r: "r \<in> set rs" "bytes_of r blob" using assms(3) by (auto simp add: may_anchor_def)
    show ?thesis
      unfolding sync using loop_member [OF assms(1) r Some uv(2), of "Suc 5"] uv(2) by (simp del: anchor_loop.simps) blast
  qed
qed

text \<open>The outcome of a synchronisation, by what is anchored.\<close>

lemma sync_steady:
  assumes "steady st ed limit vf journal_id rs s"
    and "\<And>blob. cell s journal_id = Some blob \<Longrightarrow>
      \<exists>r. ControlReceipt_ok r \<and> rc_journal_id r = journal_id \<and> verify_control_receipt ed r vf = Inr () \<and> bytes_of r blob"
  shows "\<exists>s' allowed' outcome.
    synchronize_receipt_anchor_sequence (Some st) io_ok ed limit vf journal_id allowed rs s = (s', allowed', outcome)
    \<and> (outcome = Inr () \<longleftrightarrow> (case cell s journal_id of None \<Rightarrow> rs = [] \<or> allowed
         | Some blob \<Rightarrow> \<exists>r \<in> set rs. bytes_of r blob))
    \<and> (if outcome = Inr () then rs = [] \<or> (\<exists>v. bytes_of (last rs) v \<and> cell s' journal_id = Some v) else s' = s)"
proof -
  have retries: "MAX_RECEIPT_ANCHOR_RETRIES = Suc (Suc (Suc 5))" by (simp add: MAX_RECEIPT_ANCHOR_RETRIES_def)
  have sync: "synchronize_receipt_anchor_sequence (Some st) io_ok ed limit vf journal_id allowed rs s
      = anchor_loop (Suc (Suc (Suc 5))) st io_ok ed limit vf journal_id allowed rs s"
    by (simp add: synchronize_receipt_anchor_sequence_def retries)
  show ?thesis
  proof (cases "cell s journal_id")
    case None
    show ?thesis
    proof (cases "rs = [] \<or> \<not> allowed")
      case True
      then show ?thesis
        unfolding sync anchor_loop.simps(2) [of "Suc (Suc 5)"] using None load [OF steady_linked(2) [OF assms(1)]]
        by (auto simp add: anchor_attempt_def check_anchor_def corrupt_def simp del: anchor_loop.simps)
    next
      case False
      then show ?thesis
        using sync_ready [OF steady_ready [OF assms(1)], of allowed s io_ok] None by (auto simp add: may_anchor_def)
    qed
  next
    case (Some blob)
    then obtain r where r: "ControlReceipt_ok r" "rc_journal_id r = journal_id" "verify_control_receipt ed r vf = Inr ()"
      "bytes_of r blob"
      using assms(2) by blast
    have same: "r' = r" if "r' \<in> set rs" "bytes_of r' blob" for r'
      using receipt.bytes_inject [of r' blob r] that r(1,4) linked_ok [OF steady_linked(1) [OF assms(1)] that(1)]
      by (simp add: bytes_of_def)
    show ?thesis
    proof (cases "r \<in> set rs")
      case True
      then have "rs \<noteq> []" by auto
      moreover have "may_anchor allowed journal_id rs s" using Some True r(4) by (auto simp add: may_anchor_def)
      ultimately show ?thesis
        using sync_ready [OF steady_ready [OF assms(1)], of allowed s io_ok] Some True r(4) by auto
    next
      case False
      have "check_anchor ed limit journal_id vf (LoadBytes blob) = Inr (Some (r, blob))"
        using check_anchor_written [OF r(1,3) limit_ok] r(2,4) by (simp add: bytes_of_def)
      from attempt_foreign [OF assms(1) this False Some] show ?thesis
        unfolding sync anchor_loop.simps(2) [of "Suc (Suc 5)"]
        using Some False same by (auto simp add: corrupt_def simp del: anchor_loop.simps)
    qed
  qed
qed

end

section \<open>The static key store is an anchor cell\<close>

definition static_anchor :: "nat \<Rightarrow> (static_store \<times> journal_db) anchor_store" where
  "static_anchor limit =
    \<lparr>as_load = (\<lambda>(s, db) journal_id. ((s, db), case StaticKeyStore_load journal_id s of
        Inl _ \<Rightarrow> LoadRaised | Inr None \<Rightarrow> LoadMissing | Inr (Some blob) \<Rightarrow> LoadBytes blob)),
     as_db = snd,
     as_swap = (\<lambda>(s, db) journal_id expected v. case StaticKeyStore_compare_and_set limit journal_id expected v s of
        (s', Inl _) \<Rightarrow> ((s', db), SwapRaised) | (s', Inr swapped) \<Rightarrow> ((s', db), Swapped swapped))\<rparr>"

lemma receipt_payload_valid:
  assumes "ControlReceipt_ok r" "canonical_json_bytes (ControlReceipt_to_dict r) = Inr v" "Suc MAX_JSON_DEPTH \<le> limit"
  shows "validate_anchor_payload limit v = Inr v"
proof -
  have "rbind (decode_json_payload limit v) ControlReceipt_from_dict = Inr r"
    using receipt.payload_roundtrip [OF assms(2,1,3)] .
  then obtain payload where payload: "decode_json_payload limit v = Inr payload" "ControlReceipt_from_dict payload = Inr r"
    by (auto simp add: accepts)
  have sorted: "utf8_encode (json_text (psort (ControlReceipt_to_dict r))) = Some v" "v \<noteq> []"
    using assms(2) by (auto simp add: canonical_json_bytes_Inr_iff)
  have "list_all (\<lambda>kv. scannable (\<lambda>_. True) 0 (psort (snd kv))) (items (receipt_entries r))"
    "distinct (map fst (items (receipt_entries r)))"
    by (simp_all add: receipt_entries_def ControlReceipt_unsigned_def str_def enum_py_def)
  then have "scannable (\<lambda>_. True) 1 (psort (ControlReceipt_to_dict r))"
    by (simp add: receipt_entries_dict list_all_iff comp_def)
  moreover have "1 \<le> limit" using assms(3) by simp
  ultimately have json: "anchor_json limit v = Inr (psort (ControlReceipt_to_dict r))"
    using default_reader.json_loads_text utf8_decode_encode [OF sorted(1)] by (simp add: anchor_json_def)
  have "\<not> is_head_kind (psort (ControlReceipt_to_dict r))"
  proof
    assume kind: "is_head_kind (psort (ControlReceipt_to_dict r))"
    then obtain row where row: "psort (ControlReceipt_to_dict r) = PDict row" "str ''kind'' \<in> set (map fst row)"
      by (auto simp add: is_head_kind_def map_of_eq_None_iff split: py.splits) (metis map_of_eq_None_iff option.distinct(1))
    have "ControlReceipt_from_dict (psort (ControlReceipt_to_dict r)) = Inr r"
      using assms(1) by (simp add: receipt.from_dict_iff receipt.to_dict_wf)
    then have "has_keys row RECEIPT_FIELDS" by (auto simp add: row ControlReceipt_from_dict_def accepts)
    then show False using row(2) by (simp add: has_keys_def RECEIPT_FIELDS_def)
  qed
  then show ?thesis
    using json payload assms(2) receipt_bytes_bound [OF assms(1,2)] sorted(2)
    by (simp add: validate_anchor_payload_def anchor_size_ok_def Suc_le_eq)
qed

lemma static_anchor_cell: "Suc MAX_JSON_DEPTH \<le> limit \<Longrightarrow> anchor_cell (static_anchor limit) (\<lambda>(s, db). ss_anchors s) limit"
  by unfold_locales (auto simp add: static_anchor_def StaticKeyStore_load_def StaticKeyStore_compare_and_set_def
      receipt_payload_valid Let_def split: option.splits)

interpretation static: anchor_cell "static_anchor (Suc MAX_JSON_DEPTH + spare)" "\<lambda>(s, db). ss_anchors s"
    "Suc MAX_JSON_DEPTH + spare" for spare
  by (rule static_anchor_cell) simp

text \<open>C39: With the anchor held by a \<open>StaticKeyStore\<close> and a journal whose chain verifies, a
  synchronisation succeeds exactly when the anchored receipt is on the chain (or nothing is anchored and
  the chain is empty or starting an anchor is allowed), and then the anchor holds the head of the chain.
  A rolled back or forked journal is refused, and a refused synchronisation leaves the store as it was.\<close>

theorem static_anchor_sync:
  assumes "Suc MAX_JSON_DEPTH \<le> limit" "steady (static_anchor limit) ed limit vf journal_id rs (store, db)"
    and "\<And>blob. ss_anchors store journal_id = Some blob \<Longrightarrow>
      \<exists>r. ControlReceipt_ok r \<and> rc_journal_id r = journal_id \<and> verify_control_receipt ed r vf = Inr () \<and> bytes_of r blob"
  shows "\<exists>s' allowed' outcome.
    synchronize_receipt_anchor_sequence (Some (static_anchor limit)) io_ok ed limit vf journal_id allowed rs (store, db)
      = (s', allowed', outcome)
    \<and> (outcome = Inr () \<longleftrightarrow> (case ss_anchors store journal_id of None \<Rightarrow> rs = [] \<or> allowed
         | Some blob \<Rightarrow> \<exists>r \<in> set rs. bytes_of r blob))
    \<and> (if outcome = Inr () then rs = [] \<or> (\<exists>v. bytes_of (last rs) v \<and> ss_anchors (fst s') journal_id = Some v)
       else s' = (store, db))"
proof -
  obtain spare where limit: "limit = Suc MAX_JSON_DEPTH + spare" using assms(1) le_Suc_ex by blast
  show ?thesis
    using static.sync_steady [of spare ed vf journal_id rs "(store, db)" allowed] assms(2,3)
    unfolding limit case_prod_unfold fst_conv by (simp only: simp_thms)
qed

section \<open>A synchronisation ends\<close>

text \<open>A store that counts the calls it receives: loads, and compare-and-set attempts.\<close>

definition counted :: "'s anchor_store \<Rightarrow> ('s \<times> nat \<times> nat) anchor_store" where
  "counted st =
    \<lparr>as_load = (\<lambda>(s, loads, swaps) journal_id. case as_load st s journal_id of (s, x) \<Rightarrow> ((s, Suc loads, swaps), x)),
     as_db = (\<lambda>(s, _). as_db st s),
     as_swap = (\<lambda>(s, loads, swaps) journal_id expected v.
        case as_swap st s journal_id expected v of (s, x) \<Rightarrow> ((s, loads, Suc swaps), x))\<rparr>"

lemma refresh_counted: "refresh (counted st) io ed limit vf journal_id (s, counts) = refresh st io ed limit vf journal_id s"
  by (simp add: refresh_def counted_def)

lemma put_counted:
  assumes "put_anchor st io ed limit vf journal_id allowed rs r expected s = (s', allowed', result)"
  shows "\<exists>swaps'. put_anchor (counted st) io ed limit vf journal_id allowed rs r expected (s, loads, swaps)
      = ((s', loads, swaps'), allowed', result) \<and> swaps' \<le> Suc swaps"
  using assms
  by (auto simp add: put_anchor_def counted_def refresh_counted [unfolded counted_def]
      split: sum.splits if_splits prod.splits swapped.splits bool.splits)

lemma attempt_counted:
  assumes "anchor_attempt st io ed limit vf journal_id allowed rs s = (s', allowed', result)"
  shows "\<exists>swaps'. anchor_attempt (counted st) io ed limit vf journal_id allowed rs (s, loads, swaps)
      = ((s', Suc loads, swaps'), allowed', result) \<and> swaps' \<le> Suc swaps"
proof -
  obtain s1 loaded where load: "as_load st s journal_id = (s1, loaded)" by fastforce
  then have count: "as_load (counted st) (s, loads, swaps) journal_id = ((s1, Suc loads, swaps), loaded)" by (simp add: counted_def)
  have put: "\<exists>swaps'. put_anchor (counted st) io ed limit vf journal_id allowed rs r expected (s1, Suc loads, swaps)
      = ((s', Suc loads, swaps'), allowed', result) \<and> swaps' \<le> Suc swaps"
    if "put_anchor st io ed limit vf journal_id allowed rs r expected s1 = (s', allowed', result)" for allowed r expected
    using that by (rule put_counted)
  show ?thesis
  proof (cases "check_anchor ed limit journal_id vf loaded")
    case (Inr found)
    then show ?thesis
    proof (cases found)
      case (Some pair)
      obtain anchored blob where pair: "pair = (anchored, blob)" by (cases pair)
      show ?thesis
        using assms put [of False "last rs" "Some (receipt_anchor_digest blob)"]
        by (cases "refresh st io ed limit vf journal_id s1")
          (auto simp add: anchor_attempt_def load count Inr Some pair refresh_counted split: if_splits)
    qed (use Inr assms put in \<open>simp add: anchor_attempt_def load count split: if_splits\<close>)
  qed (use assms in \<open>simp add: anchor_attempt_def load count\<close>)
qed

lemma loop_counted:
  assumes "anchor_loop n st io ed limit vf journal_id allowed rs s = (s', allowed', outcome)" "swaps \<le> loads"
  shows "\<exists>loads' swaps'. anchor_loop n (counted st) io ed limit vf journal_id allowed rs (s, loads, swaps)
      = ((s', loads', swaps'), allowed', outcome) \<and> loads' \<le> loads + n \<and> swaps' \<le> loads'"
  using assms
proof (induction n arbitrary: allowed rs s loads swaps)
  case (Suc n)
  obtain s1 allowed1 result where attempt: "anchor_attempt st io ed limit vf journal_id allowed rs s = (s1, allowed1, result)"
    by (metis prod_cases3)
  from attempt_counted [OF this] obtain swaps1 where counts:
    "anchor_attempt (counted st) io ed limit vf journal_id allowed rs (s, loads, swaps) = ((s1, Suc loads, swaps1), allowed1, result)"
    "swaps1 \<le> Suc swaps"
    by blast
  show ?case
  proof (cases result)
    case (Done final)
    then show ?thesis using Suc.prems attempt counts by simp
  next
    case (Again refreshed)
    then have "anchor_loop n st io ed limit vf journal_id allowed1 refreshed s1 = (s', allowed', outcome)"
      using Suc.prems(1) attempt by simp
    from Suc.IH [OF this, of swaps1 "Suc loads"] show ?thesis using Suc.prems(2) counts Again by auto
  qed
qed simp

text \<open>C40: A synchronisation ends. Whatever the store answers, other processes write and the database reports,
  the loop returns after at most eight loads of the anchor, with at most one compare-and-set attempt for
  each load; a race it has not won by then is reported as an error and not retried for ever.\<close>

theorem anchor_sync_terminates:
  "\<exists>s' allowed' outcome loads swaps.
     synchronize_receipt_anchor_sequence (Some st) io ed limit vf journal_id allowed rs s = (s', allowed', outcome)
   \<and> synchronize_receipt_anchor_sequence (Some (counted st)) io ed limit vf journal_id allowed rs (s, 0, 0)
       = ((s', loads, swaps), allowed', outcome)
   \<and> loads \<le> 8 \<and> swaps \<le> loads"
proof -
  obtain s' allowed' outcome where run: "anchor_loop 8 st io ed limit vf journal_id allowed rs s = (s', allowed', outcome)"
    by (metis prod_cases3)
  from loop_counted [OF this, of 0 0] show ?thesis
    using run by (simp add: synchronize_receipt_anchor_sequence_def MAX_RECEIPT_ANCHOR_RETRIES_def)
qed

end
