(* ===== verification/Py_Action.thy ===== *)
theory Py_Action
  imports Py_Prelude
begin

text \<open>
  Code with effects. An \<open>act\<close> takes a world and returns the next one and a result, which may be an exception.
  \<open>andthen\<close> is sequencing, \<open>handle\<close> a handler of every exception, \<open>attempt\<close> an \<open>except Exception\<close> whose
  branches follow, \<open>ensuring\<close> a \<open>finally\<close>. \<open>world_relation\<close> is a preorder on worlds; an act of which all parts
  preserve it preserves it.
\<close>

section \<open>Acts\<close>

type_synonym ('w, 'a) act = "'w \<Rightarrow> 'w \<times> (exn + 'a)"

definition done_with :: "'a \<Rightarrow> ('w, 'a) act" where
  "done_with x w = (w, Inr x)"

definition throw :: "exn \<Rightarrow> ('w, 'a) act" where
  "throw e w = (w, Inl e)"

definition lift_result :: "exn + 'a \<Rightarrow> ('w, 'a) act" where
  "lift_result r w = (w, r)"

definition andthen :: "('w, 'a) act \<Rightarrow> ('a \<Rightarrow> ('w, 'b) act) \<Rightarrow> ('w, 'b) act" where
  "andthen m f w = (case m w of (w', Inl e) \<Rightarrow> (w', Inl e) | (w', Inr x) \<Rightarrow> f x w')"

definition handle :: "('w, 'a) act \<Rightarrow> (exn \<Rightarrow> ('w, 'a) act) \<Rightarrow> ('w, 'a) act" where
  "handle m h w = (case m w of (w', Inl e) \<Rightarrow> h e w' | (w', Inr x) \<Rightarrow> (w', Inr x))"

definition attempt :: "('w, 'a) act \<Rightarrow> ('w, exn + 'a) act" where
  "attempt m w = (case m w of (w', r) \<Rightarrow> (w', if r = Inl Interrupted then Inl Interrupted else Inr r))"

text \<open>An exception of the cleanup replaces the outcome.\<close>

definition ensuring :: "('w, 'a) act \<Rightarrow> ('w, unit) act \<Rightarrow> ('w, 'a) act" where
  "ensuring m cleanup w =
    (case m w of (w', r) \<Rightarrow> (case cleanup w' of (w'', Inl e) \<Rightarrow> (w'', Inl e) | (w'', Inr _) \<Rightarrow> (w'', r)))"

section \<open>Actions that preserve a relation\<close>

named_theorems acting "actions that preserve the relation of the locale"

definition acts :: "('w \<Rightarrow> 'w \<Rightarrow> bool) \<Rightarrow> ('w, 'a) act \<Rightarrow> bool" where
  "acts P m \<longleftrightarrow> (\<forall>w. P w (fst (m w)))"

lemma actsI: "(\<And>w w' r. m w = (w', r) \<Longrightarrow> P w w') \<Longrightarrow> acts P m"
  by (simp add: acts_def) (metis prod.collapse)

lemma actsD: "acts P m \<Longrightarrow> m w = (w', r) \<Longrightarrow> P w w'"
  by (auto simp add: acts_def) (metis fst_conv)

lemma andthen_cases:
  assumes "andthen m f w = (w', r)"
  obtains (stopped) e where "m w = (w', Inl e)" "r = Inl e"
  | (continued) w1 x where "m w = (w1, Inr x)" "f x w1 = (w', r)"
  using assms by (auto simp add: andthen_def split: prod.splits sum.splits)

lemma andthen_InrE:
  assumes "andthen m f w = (w', Inr y)"
  obtains w1 x where "m w = (w1, Inr x)" "f x w1 = (w', Inr y)"
  using assms by (rule andthen_cases) auto

lemma andthen_Inr: "m w = (w1, Inr x) \<Longrightarrow> andthen m f w = f x w1"
  by (simp add: andthen_def)

lemma handle_cases:
  assumes "handle m h w = (w', r)"
  obtains (caught) w1 e where "m w = (w1, Inl e)" "h e w1 = (w', r)"
  | (returned) x where "m w = (w', Inr x)" "r = Inr x"
  using assms by (auto simp add: handle_def split: prod.splits sum.splits)

lemma simple_actions [simp]:
  "done_with x w = (w', r) \<longleftrightarrow> w' = w \<and> r = Inr x"
  "throw e w = (w', r) \<longleftrightarrow> w' = w \<and> r = Inl e"
  "lift_result m w = (w', r) \<longleftrightarrow> w' = w \<and> m = r"
  by (auto simp add: done_with_def throw_def lift_result_def)

lemma attempt_cases:
  assumes "attempt m w = (w', r)"
  obtains (interrupted) "m w = (w', Inl Interrupted)" "r = Inl Interrupted"
  | (raised) e where "m w = (w', Inl e)" "e \<noteq> Interrupted" "r = Inr (Inl e)"
  | (returned) x where "m w = (w', Inr x)" "r = Inr (Inr x)"
proof (cases "m w")
  case (Pair w1 r1)
  then show ?thesis using assms that by (cases r1) (auto simp add: attempt_def split: if_splits)
qed

lemma ensuring_cases:
  assumes "ensuring m cleanup w = (w', r)"
  obtains (cleaned) w1 where "m w = (w1, r)" "cleanup w1 = (w', Inr ())"
  | (failed) w1 r1 e where "m w = (w1, r1)" "cleanup w1 = (w', Inl e)" "r = Inl e"
  using assms by (auto simp add: ensuring_def split: prod.splits sum.splits)

locale world_relation =
  fixes P :: "'w \<Rightarrow> 'w \<Rightarrow> bool"
  assumes refl: "P w w" and trans: "P w w1 \<Longrightarrow> P w1 w2 \<Longrightarrow> P w w2"
begin

lemma acts_simple [acting]: "acts P (done_with x)" "acts P (throw e)" "acts P (lift_result m)"
  by (simp_all add: acts_def done_with_def throw_def lift_result_def refl)

lemma acts_andthen_result:
  assumes "acts P m" "\<And>w w' x. m w = (w', Inr x) \<Longrightarrow> acts P (f x)"
  shows "acts P (andthen m f)"
proof (rule actsI)
  fix w w' r
  assume "andthen m f w = (w', r)"
  then show "P w w'"
  proof (cases rule: andthen_cases)
    case stopped
    show ?thesis by (rule actsD [OF assms(1) stopped(1)])
  next
    case (continued w1 x)
    show ?thesis by (rule trans [OF actsD [OF assms(1) continued(1)] actsD [OF assms(2) [OF continued(1)] continued(2)]])
  qed
qed

lemma acts_andthen [acting]: "acts P m \<Longrightarrow> (\<And>x. acts P (f x)) \<Longrightarrow> acts P (andthen m f)"
  by (rule acts_andthen_result)

lemma acts_handle [acting]:
  assumes "acts P m" "\<And>e. acts P (h e)" shows "acts P (handle m h)"
proof (rule actsI)
  fix w w' r
  assume "handle m h w = (w', r)"
  then show "P w w'"
    by (cases rule: handle_cases) (rule trans [OF actsD [OF assms(1)] actsD [OF assms(2)]], assumption+, rule actsD [OF assms(1)])
qed

lemma acts_attempt [acting]: assumes "acts P m" shows "acts P (attempt m)"
proof (rule actsI)
  fix w w' r
  assume "attempt m w = (w', r)"
  then show "P w w'" by (cases rule: attempt_cases) (rule actsD [OF assms], assumption)+
qed

lemma acts_ensuring [acting]:
  assumes "acts P m" "acts P cleanup" shows "acts P (ensuring m cleanup)"
proof (rule actsI)
  fix w w' r
  assume "ensuring m cleanup w = (w', r)"
  then show "P w w'"
    by (cases rule: ensuring_cases) (rule trans [OF actsD [OF assms(1)] actsD [OF assms(2)]], assumption+)+
qed

end

end
