(* ===== verification/Runtime_Model.thy ===== *)
theory Runtime_Model
  imports Anchor_Sync Py_Action
begin

text \<open>
  \<^verbatim>\<open>algo_cli/david_control_runtime.py\<close>: the control runtime, which verifies an envelope, claims its permit
  in the journal, dispatches it to an adapter at most once, and reconciles the outcome.

  A method of the runtime is an \<^emph>\<open>action\<close>: it takes a state of the world and returns the next one and a
  result. The world is the journal, the anchor flag of the journal, the state of everything that is not
  part of the program (\<open>w_env\<close>: adapter, clock, files, anchor store, other processes) and the calls made
  so far on \<open>dispatch\<close> and \<open>reconcile\<close>. The calls are there for the theorems: no definition reads them.
\<close>

section \<open>Adapter results\<close>

datatype ControlCrashPoint =
  AFTER_PREPARED | AFTER_STARTED | AFTER_DISPATCH | AFTER_APPLIED | AFTER_VERIFIED | AFTER_FAILED | AFTER_UNKNOWN
  | AFTER_RECEIPT

primrec ControlCrashPoint_value :: "ControlCrashPoint \<Rightarrow> string" where
  "ControlCrashPoint_value AFTER_PREPARED = ''after_prepared''"
| "ControlCrashPoint_value AFTER_STARTED = ''after_started''"
| "ControlCrashPoint_value AFTER_DISPATCH = ''after_dispatch''"
| "ControlCrashPoint_value AFTER_APPLIED = ''after_applied''"
| "ControlCrashPoint_value AFTER_VERIFIED = ''after_verified''"
| "ControlCrashPoint_value AFTER_FAILED = ''after_failed''"
| "ControlCrashPoint_value AFTER_UNKNOWN = ''after_unknown''"
| "ControlCrashPoint_value AFTER_RECEIPT = ''after_receipt''"

datatype DispatchDisposition = DISPATCH_APPLIED | DISPATCH_REJECTED | DISPATCH_UNKNOWN

datatype ReconciliationDisposition = RECONCILED_VERIFIED | RECONCILED_FAILED | RECONCILED_UNKNOWN

definition safe_reason :: "py \<Rightarrow> string \<Rightarrow> pystr" where
  "safe_reason v fallback =
    (let otherwise = (if safe_id_text (str fallback) then str fallback else str ''runtime_error'') in
     case v of PStr s \<Rightarrow> if safe_id_text s then s else otherwise | _ \<Rightarrow> otherwise)"

definition evidence_text :: "py \<Rightarrow> exn + pystr" where
  "evidence_text v = (case v of PStr s \<Rightarrow> if digest_text s then Inr s else Inl (ValueError ''evidence_digest'')
     | _ \<Rightarrow> Inl (ValueError ''evidence_digest''))"

record AdapterDispatchResult =
  ad_disposition :: DispatchDisposition
  ad_reason_code :: pystr
  ad_evidence_digest :: pystr

text \<open>The attributes of a result an adapter returns may have any value: \<open>None\<close> is a disposition of another type.\<close>

definition AdapterDispatchResult_init :: "DispatchDisposition option \<Rightarrow> py \<Rightarrow> py \<Rightarrow> exn + AdapterDispatchResult" where
  "AdapterDispatchResult_init disposition reason_code evidence_digest =
    (case disposition of None \<Rightarrow> Inl (ValueError ''dispatch_disposition'')
     | Some d \<Rightarrow>
        let reason = safe_reason reason_code ''invalid_adapter_reason'' in
        rbind (require (PStr reason = reason_code) (ValueError ''dispatch_reason'')) (\<lambda>_.
        rbind (evidence_text evidence_digest) (\<lambda>evidence.
        rbind (require (d = DISPATCH_APPLIED \<longrightarrow> reason = str ''none'') (ValueError ''dispatch_reason'')) (\<lambda>_.
        rbind (require (d \<noteq> DISPATCH_APPLIED \<longrightarrow> reason \<noteq> str ''none'') (ValueError ''dispatch_reason'')) (\<lambda>_.
        Inr \<lparr>ad_disposition = d, ad_reason_code = reason, ad_evidence_digest = evidence\<rparr>)))))"

datatype postcondition = NoPostcondition | Postcondition SnapshotRef | OtherPostcondition

record AdapterReconciliationResult =
  ar_disposition :: ReconciliationDisposition
  ar_reason_code :: pystr
  ar_evidence_digest :: pystr
  ar_postcondition :: "SnapshotRef option"

definition postcondition_checked :: "ReconciliationDisposition \<Rightarrow> postcondition \<Rightarrow> exn + SnapshotRef option" where
  "postcondition_checked d post =
    (case post of
       NoPostcondition \<Rightarrow> Inr None
     | OtherPostcondition \<Rightarrow> Inl (ValueError ''reconciliation_postcondition'')
     | Postcondition s \<Rightarrow>
         rbind (SnapshotRef_from_dict (SnapshotRef_to_dict s)) (\<lambda>_.
         if d \<noteq> RECONCILED_VERIFIED then Inl (ValueError ''reconciliation_postcondition'') else Inr (Some s)))"

definition AdapterReconciliationResult_init ::
    "ReconciliationDisposition option \<Rightarrow> py \<Rightarrow> py \<Rightarrow> postcondition \<Rightarrow> exn + AdapterReconciliationResult" where
  "AdapterReconciliationResult_init disposition reason_code evidence_digest post =
    (case disposition of None \<Rightarrow> Inl (ValueError ''reconciliation_disposition'')
     | Some d \<Rightarrow>
        let reason = safe_reason reason_code ''invalid_adapter_reason'' in
        rbind (require (PStr reason = reason_code \<and> reason \<noteq> str ''none'') (ValueError ''reconciliation_reason'')) (\<lambda>_.
        rbind (evidence_text evidence_digest) (\<lambda>evidence.
        rbind (postcondition_checked d post) (\<lambda>checked.
        Inr \<lparr>ar_disposition = d, ar_reason_code = reason, ar_evidence_digest = evidence, ar_postcondition = checked\<rparr>))))"

definition unknown_result :: "pystr \<Rightarrow> AdapterReconciliationResult" where
  "unknown_result reason = \<lparr>ar_disposition = RECONCILED_UNKNOWN, ar_reason_code = reason,
     ar_evidence_digest = EMPTY_EVIDENCE_DIGEST, ar_postcondition = None\<rparr>"

section \<open>Evidence\<close>

text \<open>
  A text \<open>uuid.UUID\<close> cannot read is reported as \<open>effect_id\<close> and one in another notation as
  \<open>structural_evidence\<close>; both are \<open>ValueError\<close>s, and the model uses the second label for both.
\<close>

definition structural_evidence :: "pystr \<Rightarrow> pystr \<Rightarrow> exn + pystr" where
  "structural_evidence effect_id state =
    rbind (require (canonical_uuid_text effect_id \<and> safe_id_text state) (ValueError ''structural_evidence'')) (\<lambda>_.
    content_digest (PDict (items [(''effect_id'', PStr effect_id), (''state'', PStr state)])))"

definition fresh_postcondition_evidence :: "pystr \<Rightarrow> pystr \<Rightarrow> SnapshotRef \<Rightarrow> exn + pystr" where
  "fresh_postcondition_evidence effect_id state post =
    rbind (structural_evidence effect_id state) (\<lambda>_.
    rbind (SnapshotRef_from_dict (SnapshotRef_to_dict post)) (\<lambda>parsed.
    content_digest (PDict (items [(''effect_id'', PStr effect_id), (''state'', PStr state),
      (''postcondition'', SnapshotRef_to_dict parsed)]))))"

text \<open>\<open>None\<close> when the postcondition of a verified result is accepted, else the reason it is not.\<close>

definition postcondition_error :: "pystr \<Rightarrow> ControlRequest \<Rightarrow> AdapterReconciliationResult \<Rightarrow> exn + string option" where
  "postcondition_error effect_id request result =
    (case ar_postcondition result of
       None \<Rightarrow> Inr (Some ''postcondition_missing'')
     | Some post \<Rightarrow>
        let prior = rq_snapshot request; target = rq_target request in
        if sn_snapshot_id post = sn_snapshot_id prior \<or> sn_observed_at_ms post \<le> sn_observed_at_ms prior
           \<or> sn_sequence post \<le> sn_sequence prior
        then Inr (Some ''postcondition_stale'')
        else if sn_target_id post \<noteq> tr_target_id target \<or> sn_epoch post < tr_epoch target
           \<or> sn_fencing_token post < tr_fencing_token target
        then Inr (Some ''postcondition_target'')
        else if sn_epoch post = tr_epoch target
           \<and> (sn_revision post \<noteq> tr_revision target \<or> sn_fencing_token post \<noteq> tr_fencing_token target)
        then Inr (Some ''postcondition_target'')
        else if tr_epoch target < sn_epoch post \<and> sn_fencing_token post \<le> tr_fencing_token target
        then Inr (Some ''postcondition_target'')
        else
          rbind (fresh_postcondition_evidence effect_id (ar_reason_code result) post) (\<lambda>expected.
          Inr (if ar_evidence_digest result \<noteq> expected then Some ''postcondition_evidence'' else None)))"

section \<open>The world\<close>

text \<open>What a call outside the program gives: a value of the expected type, a value of another type, an
  \<open>Exception\<close>, or a \<open>BaseException\<close> that no handler of the runtime catches.\<close>

datatype 'a reply = Reply 'a | OtherValue | Raised | Crashed

type_synonym dispatch_reply = "(DispatchDisposition option \<times> py \<times> py) reply"
type_synonym reconcile_reply = "(ReconciliationDisposition option \<times> py \<times> py \<times> postcondition) reply"

record 's ControlAdapter =
  available_routes :: "TargetRef \<Rightarrow> 's \<Rightarrow> 's \<times> ControlRoute option list reply"
  current_snapshot :: "TargetRef \<Rightarrow> 's \<Rightarrow> 's \<times> SnapshotRef reply"
  adapter_dispatch :: "pystr \<Rightarrow> ControlRequest \<Rightarrow> ControlRoute \<Rightarrow> 's \<Rightarrow> 's \<times> dispatch_reply"
  adapter_reconcile :: "pystr \<Rightarrow> ControlRequest \<Rightarrow> ControlRoute \<Rightarrow> 's \<Rightarrow> 's \<times> reconcile_reply"

text \<open>
  The platform: the clock (\<open>None\<close> is not an \<open>int\<close>), the randomness of \<open>uuid4\<close>, the faults of one use of
  the database, what other processes have written to the journal before it, and the anchor store.
\<close>

record 's platform =
  pf_clock :: "'s \<Rightarrow> 's \<times> int option"
  pf_token :: "'s \<Rightarrow> 's \<times> bytes"
  pf_faults :: "'s \<Rightarrow> 's \<times> journal_io"
  pf_others :: "'s \<Rightarrow> journal_db \<Rightarrow> journal_db"
  pf_anchor :: "'s anchor_store option"

record 's ControlRuntime =
  rt_ed25519 :: ed25519
  rt_recursion_limit :: nat
  rt_platform :: "'s platform"
  rt_verifier :: ControlVerifier
  rt_policy :: ControlPolicy
  rt_receipt_signer :: ControlSigner

datatype adapter_call =
    Dispatched ControlEffectRecord ControlRequest journal_db
  | Reconciled ControlEffectRecord ControlRequest reconcile_reply

record 's world =
  w_env :: 's
  w_journal :: journal_db
  w_bootstrap :: bool
  w_calls :: "adapter_call list"

type_synonym ('s, 'a) action = "('s world, 'a) act"

definition ask :: "('s \<Rightarrow> 's \<times> 'a) \<Rightarrow> ('s, 'a) action" where
  "ask f w = (case f (w_env w) of (s, x) \<Rightarrow> (w\<lparr>w_env := s\<rparr>, Inr x))"

definition on_journal :: "'s ControlRuntime \<Rightarrow> (journal_io \<Rightarrow> journal_db \<Rightarrow> journal_db \<times> (exn + 'a)) \<Rightarrow> ('s, 'a) action" where
  "on_journal R f w =
    (case pf_faults (rt_platform R) (w_env w) of (s, io) \<Rightarrow>
     case f io (pf_others (rt_platform R) s (w_journal w)) of (db, r) \<Rightarrow>
       (w\<lparr>w_env := s, w_journal := db\<rparr>, r))"

section \<open>The parts of the runtime\<close>

definition runtime_now :: "'s ControlRuntime \<Rightarrow> ('s, int) action" where
  "runtime_now R = andthen (ask (pf_clock (rt_platform R))) (\<lambda>v. case v of
       Some i \<Rightarrow> if 0 \<le> i \<and> i \<le> MAX_SAFE_INTEGER then done_with i else throw (ControlRuntimeError ''clock_invalid'')
     | None \<Rightarrow> throw (ControlRuntimeError ''clock_invalid''))"

definition maybe_crash :: "ControlCrashPoint option \<Rightarrow> ControlCrashPoint \<Rightarrow> ('s, unit) action" where
  "maybe_crash configured actual =
    (if configured = Some actual then throw (SimulatedControlCrash (ControlCrashPoint_value actual)) else done_with ())"

definition runtime_routes :: "'s ControlAdapter \<Rightarrow> TargetRef \<Rightarrow> ('s, ControlRoute list) action" where
  "runtime_routes A target = andthen (ask (available_routes A target)) (\<lambda>reply. case reply of
       Crashed \<Rightarrow> throw (SimulatedControlCrash ''adapter'')
     | Raised \<Rightarrow> throw (ControlRuntimeError ''adapter_routes_unavailable'')
     | OtherValue \<Rightarrow> throw (ControlRuntimeError ''adapter_routes_invalid'')
     | Reply values \<Rightarrow>
         let routes = List.map_filter id values in
         if \<not> (1 \<le> length values \<and> length values \<le> length ROUTE_ORDER) \<or> None \<in> set values
            \<or> \<not> distinct routes \<or> sort_key ROUTE_INDEX routes \<noteq> routes
         then throw (ControlRuntimeError ''adapter_routes_invalid'') else done_with routes)"

definition runtime_snapshot :: "'s ControlAdapter \<Rightarrow> TargetRef \<Rightarrow> ('s, SnapshotRef) action" where
  "runtime_snapshot A target = andthen (ask (current_snapshot A target)) (\<lambda>reply. case reply of
       Crashed \<Rightarrow> throw (SimulatedControlCrash ''adapter'')
     | Reply value \<Rightarrow>
         (case SnapshotRef_from_dict (SnapshotRef_to_dict value) of
            Inl _ \<Rightarrow> throw (ControlRuntimeError ''adapter_snapshot_unavailable'')
          | Inr snapshot \<Rightarrow>
              if matches_target snapshot target then done_with snapshot
              else throw (ControlRuntimeError ''adapter_snapshot_invalid''))
     | _ \<Rightarrow> throw (ControlRuntimeError ''adapter_snapshot_unavailable''))"

text \<open>The calls of the runtime on its journal.\<close>

definition runtime_claim ::
    "'s ControlRuntime \<Rightarrow> ControlEnvelope \<Rightarrow> ControlRoute \<Rightarrow> SnapshotRef \<Rightarrow> int \<Rightarrow> ('s, ControlEffectRecord) action" where
  "runtime_claim R env route live_snapshot now_ms = andthen (ask (pf_token (rt_platform R))) (\<lambda>random.
     on_journal R (\<lambda>io. claim io (rt_ed25519 R) random env route (rt_verifier R) (rt_policy R) live_snapshot now_ms))"

definition runtime_get :: "'s ControlRuntime \<Rightarrow> pystr \<Rightarrow> ('s, ControlEffectRecord) action" where
  "runtime_get R effect_id = on_journal R (\<lambda>io db. (db, journal_get io effect_id db))"

definition runtime_finalize :: "'s ControlRuntime \<Rightarrow> pystr \<Rightarrow> int \<Rightarrow> ('s, ControlReceipt) action" where
  "runtime_finalize R effect_id completed_at_ms w =
    (case pf_faults (rt_platform R) (w_env w) of (s, io) \<Rightarrow>
     case finalize_receipt (pf_anchor (rt_platform R)) io (rt_ed25519 R) (rt_recursion_limit R) effect_id
            (rt_receipt_signer R) completed_at_ms (w_bootstrap w) (pf_others (rt_platform R) s (w_journal w)) s of
       (db, s, allowed, r) \<Rightarrow> (w\<lparr>w_env := s, w_journal := db, w_bootstrap := allowed\<rparr>, r))"

definition runtime_receipt ::
    "'s ControlRuntime \<Rightarrow> ControlEffectRecord \<Rightarrow> ControlCrashPoint option \<Rightarrow> ('s, ControlReceipt) action" where
  "runtime_receipt R record crash_after =
    andthen (runtime_now R) (\<lambda>completed_at_ms.
    andthen (runtime_finalize R (ef_effect_id record) completed_at_ms) (\<lambda>receipt.
    andthen (lift_result (verify_control_receipt (rt_ed25519 R) receipt (rt_verifier R))) (\<lambda>_.
    andthen (maybe_crash crash_after AFTER_RECEIPT) (\<lambda>_.
    done_with receipt))))"

fun crash_for_state :: "ControlEffectState \<Rightarrow> ControlCrashPoint option" where
  "crash_for_state PREPARED = None"
| "crash_for_state STARTED = Some AFTER_STARTED"
| "crash_for_state APPLIED = Some AFTER_APPLIED"
| "crash_for_state VERIFIED = Some AFTER_VERIFIED"
| "crash_for_state FAILED = Some AFTER_FAILED"
| "crash_for_state UNKNOWN = Some AFTER_UNKNOWN"

definition runtime_transition ::
    "'s ControlRuntime \<Rightarrow> ControlEffectRecord \<Rightarrow> ControlEffectState \<Rightarrow> pystr \<Rightarrow> pystr \<Rightarrow> ControlCrashPoint option \<Rightarrow>
     ('s, ControlEffectRecord) action" where
  "runtime_transition R record state reason_code evidence_digest crash_after =
    andthen (runtime_now R) (\<lambda>now_ms.
    andthen (on_journal R (\<lambda>io. transition io (ef_effect_id record) state now_ms reason_code evidence_digest)) (\<lambda>changed.
    andthen (case crash_for_state state of None \<Rightarrow> done_with () | Some point \<Rightarrow> maybe_crash crash_after point) (\<lambda>_.
    done_with changed)))"

text \<open>A transition into a final state (or into \<open>UNKNOWN\<close>) and its receipt.\<close>

definition settle ::
    "'s ControlRuntime \<Rightarrow> ControlEffectRecord \<Rightarrow> ControlEffectState \<Rightarrow> pystr \<Rightarrow> pystr \<Rightarrow> ControlCrashPoint option \<Rightarrow>
     ('s, ControlReceipt) action" where
  "settle R record state reason_code evidence_digest crash_after =
    andthen (runtime_transition R record state reason_code evidence_digest crash_after) (\<lambda>changed.
    runtime_receipt R changed crash_after)"

definition fail_prepared ::
    "'s ControlRuntime \<Rightarrow> ControlEffectRecord \<Rightarrow> pystr \<Rightarrow> ControlCrashPoint option \<Rightarrow> ('s, ControlReceipt) action" where
  "fail_prepared R record reason_code crash_after =
     settle R record FAILED (safe_reason (PStr reason_code) ''pre_dispatch_rejected'') EMPTY_EVIDENCE_DIGEST crash_after"

definition exception_reason :: "string \<Rightarrow> string \<Rightarrow> pystr" where
  "exception_reason label fallback = safe_reason (PStr (str label)) fallback"

section \<open>Reconciliation\<close>

definition call_reconcile ::
    "'s ControlAdapter \<Rightarrow> ControlEffectRecord \<Rightarrow> ControlRequest \<Rightarrow> ('s, reconcile_reply) action" where
  "call_reconcile A record request w =
    (case adapter_reconcile A (ef_effect_id record) request (ef_route record) (w_env w) of (s, reply) \<Rightarrow>
       (w\<lparr>w_env := s, w_calls := w_calls w @ [Reconciled record request reply]\<rparr>, Inr reply))"

text \<open>An answer outside the protocol counts as unknown; only \<open>AttributeError\<close>, \<open>TypeError\<close> and
  \<open>ValueError\<close> of the check are caught.\<close>

definition reconciliation_result :: "reconcile_reply \<Rightarrow> exn + AdapterReconciliationResult" where
  "reconciliation_result reply =
    (case reply of
       Crashed \<Rightarrow> Inl (SimulatedControlCrash ''adapter'')
     | Raised \<Rightarrow> Inr (unknown_result (str ''reconciliation_exception''))
     | OtherValue \<Rightarrow> Inr (unknown_result (str ''reconciliation_protocol''))
     | Reply (disposition, reason_code, evidence_digest, post) \<Rightarrow>
         (case AdapterReconciliationResult_init disposition reason_code evidence_digest post of
            Inl (ValueError _) \<Rightarrow> Inr (unknown_result (str ''reconciliation_protocol''))
          | r \<Rightarrow> r))"

text \<open>A verified mutation needs a fresh postcondition bound to the effect.\<close>

definition accepted_result ::
    "pystr \<Rightarrow> ControlRequest \<Rightarrow> AdapterReconciliationResult \<Rightarrow> exn + AdapterReconciliationResult" where
  "accepted_result effect_id request result =
    (if ar_disposition result = RECONCILED_VERIFIED \<and> rq_operation request \<notin> {OBSERVE, HANDOFF} then
       rbind (postcondition_error effect_id request result) (\<lambda>problem. Inr (case problem of
         None \<Rightarrow> result | Some reason \<Rightarrow> unknown_result (str reason)))
     else Inr result)"

definition record_result ::
    "'s ControlRuntime \<Rightarrow> ControlEffectRecord \<Rightarrow> ControlCrashPoint option \<Rightarrow> AdapterReconciliationResult \<Rightarrow>
     ('s, ControlReceipt) action" where
  "record_result R record crash_after result =
    (case ar_disposition result of
      RECONCILED_VERIFIED \<Rightarrow>
        andthen (if ef_state record = STARTED
                 then runtime_transition R record APPLIED (str ''none'') (ar_evidence_digest result) crash_after
                 else done_with record) (\<lambda>record.
        settle R record VERIFIED (ar_reason_code result) (ar_evidence_digest result) crash_after)
    | RECONCILED_FAILED \<Rightarrow>
        settle R record FAILED (ar_reason_code result) (ar_evidence_digest result) crash_after
    | RECONCILED_UNKNOWN \<Rightarrow>
        andthen (if ef_state record \<noteq> UNKNOWN
                 then runtime_transition R record UNKNOWN (ar_reason_code result) (ar_evidence_digest result) crash_after
                 else done_with record) (\<lambda>record.
        runtime_receipt R record crash_after))"

definition runtime_reconcile ::
    "'s ControlRuntime \<Rightarrow> 's ControlAdapter \<Rightarrow> ControlEffectRecord \<Rightarrow> ControlEnvelope \<Rightarrow> ControlCrashPoint option \<Rightarrow>
     ('s, ControlReceipt) action" where
  "runtime_reconcile R A record env crash_after =
    andthen (call_reconcile A record (en_request env)) (\<lambda>reply.
    andthen (lift_result (reconciliation_result reply)) (\<lambda>answer.
    andthen (lift_result (accepted_result (ef_effect_id record) (en_request env) answer)) (\<lambda>result.
    record_result R record crash_after result)))"

section \<open>Execution\<close>

text \<open>
  Between the claim and the start the runtime asks the adapter again. The result is the receipt of an
  effect that was not started (\<open>Inl\<close>), or the started effect (\<open>Inr\<close>).
\<close>

definition start_body ::
    "'s ControlRuntime \<Rightarrow> 's ControlAdapter \<Rightarrow> ControlEnvelope \<Rightarrow> ControlEffectRecord \<Rightarrow> ControlCrashPoint option \<Rightarrow>
     ('s, ControlReceipt + ControlEffectRecord) action" where
  "start_body R A env record crash_after =
    andthen (runtime_routes A (rq_target (en_request env))) (\<lambda>current_routes.
    andthen (runtime_snapshot A (rq_target (en_request env))) (\<lambda>current_snapshot.
    andthen (runtime_now R) (\<lambda>now_ms.
    andthen (lift_result (verify_envelope_authority (rt_ed25519 R) env (rt_verifier R) (rt_policy R) now_ms
               current_routes (Some current_snapshot))) (\<lambda>current_route.
    if current_route \<noteq> ef_route record then
      andthen (fail_prepared R record (str ''route_changed'') crash_after) (\<lambda>receipt. done_with (Inl receipt))
    else
      andthen (runtime_transition R record STARTED (str ''none'') EMPTY_EVIDENCE_DIGEST crash_after) (\<lambda>started.
      done_with (Inr started))))))"

definition start_handler ::
    "'s ControlRuntime \<Rightarrow> ControlEffectRecord \<Rightarrow> ControlCrashPoint option \<Rightarrow> exn \<Rightarrow>
     ('s, ControlReceipt + ControlEffectRecord) action" where
  "start_handler R record crash_after error =
    (let failed = (\<lambda>reason. andthen (fail_prepared R record reason crash_after) (\<lambda>receipt. done_with (Inl receipt))) in
     case error of
       AuthorityRejected label \<Rightarrow> failed (exception_reason label ''authority_changed'')
     | PermitRejected label \<Rightarrow> failed (exception_reason label ''authority_changed'')
     | SchemaRejected label \<Rightarrow> failed (exception_reason label ''authority_changed'')
     | ControlJournalRejected label \<Rightarrow> failed (str label)
     | ControlRuntimeError label \<Rightarrow> failed (exception_reason label ''adapter_changed'')
     | _ \<Rightarrow> throw error)"

definition start_effect ::
    "'s ControlRuntime \<Rightarrow> 's ControlAdapter \<Rightarrow> ControlEnvelope \<Rightarrow> ControlEffectRecord \<Rightarrow> ControlCrashPoint option \<Rightarrow>
     ('s, ControlReceipt + ControlEffectRecord) action" where
  "start_effect R A env record crash_after =
     handle (start_body R A env record crash_after) (start_handler R record crash_after)"

definition call_dispatch :: "'s ControlAdapter \<Rightarrow> ControlEffectRecord \<Rightarrow> ControlRequest \<Rightarrow> ('s, dispatch_reply) action" where
  "call_dispatch A record request w =
    (case adapter_dispatch A (ef_effect_id record) request (ef_route record) (w_env w) of (s, reply) \<Rightarrow>
       (w\<lparr>w_env := s, w_calls := w_calls w @ [Dispatched record request (w_journal w)]\<rparr>, Inr reply))"

definition after_dispatch ::
    "'s ControlRuntime \<Rightarrow> 's ControlAdapter \<Rightarrow> ControlEnvelope \<Rightarrow> ControlEffectRecord \<Rightarrow> ControlCrashPoint option \<Rightarrow>
     dispatch_reply \<Rightarrow> ('s, ControlReceipt) action" where
  "after_dispatch R A env record crash_after reply =
    (case reply of
       Crashed \<Rightarrow> throw (SimulatedControlCrash ''adapter'')
     | Raised \<Rightarrow> settle R record UNKNOWN (str ''adapter_exception'') EMPTY_EVIDENCE_DIGEST crash_after
     | _ \<Rightarrow>
        andthen (maybe_crash crash_after AFTER_DISPATCH) (\<lambda>_.
        case (case reply of Reply (disposition, reason_code, evidence_digest) \<Rightarrow>
                  AdapterDispatchResult_init disposition reason_code evidence_digest
              | _ \<Rightarrow> Inl (ValueError ''dispatch_type'')) of
          Inl _ \<Rightarrow> settle R record UNKNOWN (str ''adapter_protocol'') EMPTY_EVIDENCE_DIGEST crash_after
        | Inr result \<Rightarrow>
           (case ad_disposition result of
              DISPATCH_REJECTED \<Rightarrow>
                settle R record FAILED (ad_reason_code result) (ad_evidence_digest result) crash_after
            | DISPATCH_UNKNOWN \<Rightarrow>
                settle R record UNKNOWN (ad_reason_code result) (ad_evidence_digest result) crash_after
            | DISPATCH_APPLIED \<Rightarrow>
                andthen (runtime_transition R record APPLIED (str ''none'') (ad_evidence_digest result) crash_after) (\<lambda>applied.
                runtime_reconcile R A applied env crash_after))))"

definition dispatch_started ::
    "'s ControlRuntime \<Rightarrow> 's ControlAdapter \<Rightarrow> ControlEnvelope \<Rightarrow> ControlEffectRecord \<Rightarrow> ControlCrashPoint option \<Rightarrow>
     ('s, ControlReceipt) action" where
  "dispatch_started R A env record crash_after =
     andthen (call_dispatch A record (en_request env)) (after_dispatch R A env record crash_after)"

definition prepare ::
    "'s ControlRuntime \<Rightarrow> 's ControlAdapter \<Rightarrow> ControlEnvelope \<Rightarrow> ControlCrashPoint option \<Rightarrow>
     ('s, ControlEnvelope \<times> ControlEffectRecord) action" where
  "prepare R A envelope crash_after =
    andthen (lift_result (ControlEnvelope_from_dict (ControlEnvelope_to_dict envelope))) (\<lambda>env.
    andthen (runtime_routes A (rq_target (en_request env))) (\<lambda>initial_routes.
    andthen (runtime_snapshot A (rq_target (en_request env))) (\<lambda>initial_snapshot.
    andthen (runtime_now R) (\<lambda>now_ms.
    andthen (lift_result (verify_envelope_authority (rt_ed25519 R) env (rt_verifier R) (rt_policy R) now_ms
               initial_routes (Some initial_snapshot))) (\<lambda>route.
    andthen (runtime_claim R env route initial_snapshot now_ms) (\<lambda>record.
    andthen (maybe_crash crash_after AFTER_PREPARED) (\<lambda>_.
    done_with (env, record))))))))"

definition runtime_execute ::
    "'s ControlRuntime \<Rightarrow> 's ControlAdapter \<Rightarrow> ControlEnvelope \<Rightarrow> ControlCrashPoint option \<Rightarrow> ('s, ControlReceipt) action" where
  "runtime_execute R A envelope crash_after =
    andthen (prepare R A envelope crash_after) (\<lambda>(env, record).
    andthen (start_effect R A env record crash_after) (\<lambda>started.
    case started of Inl receipt \<Rightarrow> done_with receipt
    | Inr record \<Rightarrow> dispatch_started R A env record crash_after))"

section \<open>Recovery\<close>

definition recovery_bindings :: "ControlEffectRecord \<Rightarrow> ControlEnvelope \<Rightarrow> pystr \<Rightarrow> ControlRoute \<Rightarrow> bool" where
  "recovery_bindings record env request_digest recovered_route \<longleftrightarrow>
    (let r = en_request env; t = rq_target r in
     list_all id
      [ef_permit_id record = pm_permit_id (en_permit env),
       ef_grant_id record = gr_grant_id (en_grant env),
       ef_session_id record = rq_session_id r,
       ef_request_id record = rq_request_id r,
       ef_request_digest record = request_digest,
       ef_target_kind record = tr_kind t,
       ef_target_id record = tr_target_id t,
       ef_target_epoch record = tr_epoch t,
       ef_target_revision record = tr_revision t,
       ef_fencing_token record = tr_fencing_token t,
       ef_snapshot_id record = sn_snapshot_id (rq_snapshot r),
       ef_sequence record = rq_sequence r,
       ef_operation record = rq_operation r,
       ef_route record = recovered_route,
       ef_authority_key_id record = pm_authority_key_id (en_permit env)])"

definition verify_recovery_binding ::
    "'s ControlRuntime \<Rightarrow> ControlEffectRecord \<Rightarrow> ControlEnvelope \<Rightarrow> exn + ControlEnvelope" where
  "verify_recovery_binding R record envelope =
    rbind (ControlEnvelope_from_dict (ControlEnvelope_to_dict envelope)) (\<lambda>parsed.
    rbind (case verify_envelope_authority (rt_ed25519 R) parsed (rt_verifier R) (rt_policy R)
             (pm_issued_at_ms (en_permit parsed)) [ef_route record] (Some (rq_snapshot (en_request parsed))) of
             Inl (AuthorityRejected _) \<Rightarrow> Inl (ControlRuntimeError ''recovery_binding'')
           | Inl (PermitRejected _) \<Rightarrow> Inl (ControlRuntimeError ''recovery_binding'')
           | Inl (SchemaRejected _) \<Rightarrow> Inl (ControlRuntimeError ''recovery_binding'')
           | r \<Rightarrow> r) (\<lambda>recovered_route.
    rbind (ControlRequest_digest (en_request parsed)) (\<lambda>request_digest.
    if recovery_bindings record parsed request_digest recovered_route then Inr parsed
    else Inl (ControlRuntimeError ''recovery_binding''))))"

definition runtime_recover ::
    "'s ControlRuntime \<Rightarrow> 's ControlAdapter \<Rightarrow> pystr \<Rightarrow> ControlEnvelope \<Rightarrow> ControlCrashPoint option \<Rightarrow>
     ('s, ControlReceipt) action" where
  "runtime_recover R A effect_id envelope crash_after =
    andthen (runtime_get R effect_id) (\<lambda>record.
    andthen (lift_result (verify_recovery_binding R record envelope)) (\<lambda>parsed.
    if ef_state record = PREPARED then
      settle R record FAILED (str ''recovered_before_dispatch'') EMPTY_EVIDENCE_DIGEST crash_after
    else if ef_state record \<in> {STARTED, APPLIED, UNKNOWN} then
      runtime_reconcile R A record parsed crash_after
    else runtime_receipt R record crash_after))"

section \<open>Construction\<close>

text \<open>\<open>ControlRuntime.__init__\<close> binds the signer to the verifier and synchronises the anchor;
  \<open>create_anchored_control_runtime\<close> requires one.\<close>

definition ControlRuntime_init :: "'s ControlRuntime \<Rightarrow> bool \<Rightarrow> ('s, 's ControlRuntime) action" where
  "ControlRuntime_init R require_external_anchor w =
    (if sg_key_id (rt_receipt_signer R) \<noteq> vf_key_id (rt_verifier R) then (w, Inl (AuthorityRejected ''receipt_key''))
     else if require_external_anchor \<and> pf_anchor (rt_platform R) = None
     then (w, Inl (ControlRuntimeError ''receipt_anchor_required''))
     else if pf_anchor (rt_platform R) = None then (w, Inr R)
     else
      (case pf_faults (rt_platform R) (w_env w) of (s, io) \<Rightarrow>
       let db = pf_others (rt_platform R) s (w_journal w) in
       case synchronize_receipt_anchor (pf_anchor (rt_platform R)) io (rt_ed25519 R) (rt_recursion_limit R)
              (rt_verifier R) (w_bootstrap w) db s of
         (s, allowed, r) \<Rightarrow>
           (w\<lparr>w_env := s, w_journal := db, w_bootstrap := allowed\<rparr>, rbind r (\<lambda>_. Inr R))))"

definition create_anchored_control_runtime :: "'s ControlRuntime \<Rightarrow> 's anchor_store \<Rightarrow> ('s, 's ControlRuntime) action" where
  "create_anchored_control_runtime R selected =
     ControlRuntime_init (R\<lparr>rt_platform := (rt_platform R)\<lparr>pf_anchor := Some selected\<rparr>\<rparr>) True"

end
