(* ===== verification/Runtime_Actions.thy ===== *)
theory Runtime_Actions
  imports Runtime_Model
begin

text \<open>
  How the actions of the runtime change the world. \<open>world_relation\<close> is a preorder on worlds that actions
  preserve; \<open>action_relation\<close> adds that the calls on the journal preserve it, \<open>reconciling_relation\<close> the
  reconciliation, and \<open>executing_relation\<close> the dispatch; each proves the methods built from these calls.
  \<open>journal_relation\<close> is a relation all runs of the journal preserve; its instances are \<open>idle\<close>, \<open>calm\<close> and
  \<open>grows\<close>.
\<close>

section \<open>What the parts of the runtime do\<close>

text \<open>The other processes make legal steps of the journal, and \<open>uuid4\<close> gets its sixteen random bytes.\<close>

definition sound_platform :: "ed25519 \<Rightarrow> nat \<Rightarrow> 's ControlRuntime \<Rightarrow> bool" where
  "sound_platform ed limit R \<longleftrightarrow> rt_ed25519 R = ed \<and> rt_recursion_limit R = limit
     \<and> (\<forall>s db. journal_run ed limit db (pf_others (rt_platform R) s db))
     \<and> (\<forall>s. length (snd (pf_token (rt_platform R) s)) = 16)"

lemma journal_run_step: "journal_run ed limit db db1 \<Longrightarrow> journal_step ed limit db1 db2 \<Longrightarrow> journal_run ed limit db db2"
  by (simp add: journal_run_def)

lemma journal_run_refl: "journal_run ed limit db db"
  by (simp add: journal_run_def)

lemma journal_run_trans: "journal_run ed limit db db1 \<Longrightarrow> journal_run ed limit db1 db2 \<Longrightarrow> journal_run ed limit db db2"
  by (simp add: journal_run_def)

lemma on_journal_cases:
  assumes "on_journal R f w = (w', r)"
  obtains s io db where "w' = w\<lparr>w_env := s, w_journal := db\<rparr>" "f io (pf_others (rt_platform R) s (w_journal w)) = (db, r)"
proof -
  obtain s io where faults: "pf_faults (rt_platform R) (w_env w) = (s, io)" by fastforce
  obtain db r' where step: "f io (pf_others (rt_platform R) s (w_journal w)) = (db, r')" by fastforce
  have "w' = w\<lparr>w_env := s, w_journal := db\<rparr>" "r' = r"
    using assms by (simp_all add: on_journal_def faults step)
  then show ?thesis using step by (intro that) simp_all
qed

lemma runtime_finalize_cases:
  assumes "runtime_finalize R effect_id t w = (w', r)"
  obtains s0 io db s allowed where "w' = w\<lparr>w_env := s, w_journal := db, w_bootstrap := allowed\<rparr>"
    "finalize_receipt (pf_anchor (rt_platform R)) io (rt_ed25519 R) (rt_recursion_limit R) effect_id
      (rt_receipt_signer R) t (w_bootstrap w) (pf_others (rt_platform R) s0 (w_journal w)) s0 = (db, s, allowed, r)"
proof -
  obtain s0 io where faults: "pf_faults (rt_platform R) (w_env w) = (s0, io)" by fastforce
  obtain db s allowed r' where step: "finalize_receipt (pf_anchor (rt_platform R)) io (rt_ed25519 R) (rt_recursion_limit R)
      effect_id (rt_receipt_signer R) t (w_bootstrap w) (pf_others (rt_platform R) s0 (w_journal w)) s0 = (db, s, allowed, r')"
    by (cases "finalize_receipt (pf_anchor (rt_platform R)) io (rt_ed25519 R) (rt_recursion_limit R)
      effect_id (rt_receipt_signer R) t (w_bootstrap w) (pf_others (rt_platform R) s0 (w_journal w)) s0")
  have "w' = w\<lparr>w_env := s, w_journal := db, w_bootstrap := allowed\<rparr>" "r' = r"
    using assms by (simp_all add: runtime_finalize_def faults step)
  then show ?thesis using step by (intro that) simp_all
qed

lemma finalize_receipt_unanchored_part:
  assumes "finalize_receipt store io ed limit effect_id signer t allowed db s = (db', s', allowed', r)"
  shows "\<exists>r'. finalize_receipt_unanchored io ed limit effect_id signer t db = (db', r') \<and> (\<forall>x. r = Inr x \<longrightarrow> r' = Inr x)"
  using assms
  by (auto simp add: finalize_receipt_def rbind_def split: prod.splits sum.splits option.splits if_splits)

text \<open>
  A relation that the calls on the world and on the journal preserve, for the transitions into the states
  of \<open>moves\<close>. Every part of the runtime before reconciliation then preserves it.
\<close>

locale action_relation = world_relation P for P :: "'s world \<Rightarrow> 's world \<Rightarrow> bool" +
  fixes good :: "'s ControlRuntime \<Rightarrow> bool" and moves :: "ControlEffectState set"
  assumes env_step: "P w (w\<lparr>w_env := s\<rparr>)"
    and acts_claim [acting]: "good R \<Longrightarrow> acts P (runtime_claim R env route snap now)"
    and acts_get [acting]: "good R \<Longrightarrow> acts P (runtime_get R effect_id)"
    and acts_finalize [acting]: "good R \<Longrightarrow> acts P (runtime_finalize R effect_id t)"
    and acts_move [acting]: "good R \<Longrightarrow> state \<in> moves \<Longrightarrow>
      acts P (on_journal R (\<lambda>io. transition io effect_id state now reason evidence))"
begin

lemma acts_ask [acting]: "acts P (ask f)"
  by (rule actsI) (auto simp add: ask_def env_step split: prod.splits)

lemma acts_now [acting]: "acts P (runtime_now R)"
  unfolding runtime_now_def by (intro acts_andthen acts_ask) (simp add: acts_simple split: option.splits)

lemma acts_crash [acting]: "acts P (maybe_crash configured actual)"
  by (simp add: maybe_crash_def acts_simple)

lemma acts_routes [acting]: "acts P (runtime_routes A target)"
  unfolding runtime_routes_def by (intro acts_andthen acts_ask) (simp add: acts_simple Let_def split: reply.splits)

lemma acts_snapshot [acting]: "acts P (runtime_snapshot A target)"
  unfolding runtime_snapshot_def by (intro acts_andthen acts_ask) (simp add: acts_simple split: reply.splits sum.splits)

lemma acts_transition [acting]:
  assumes "good R" "state \<in> moves"
  shows "acts P (runtime_transition R record state reason evidence crash)"
  unfolding runtime_transition_def
proof (intro acting assms)
  show "acts P (case crash_for_state state of None \<Rightarrow> done_with () | Some point \<Rightarrow> maybe_crash crash point)"
    by (simp add: acts_simple acts_crash split: option.splits)
qed

lemma acts_receipt [acting]: "good R \<Longrightarrow> acts P (runtime_receipt R record crash)"
  unfolding runtime_receipt_def by (intro acting)

lemma acts_settle [acting]: "good R \<Longrightarrow> state \<in> moves \<Longrightarrow> acts P (settle R record state reason evidence crash)"
  unfolding settle_def by (intro acting)

lemma acts_fail_prepared [acting]: "good R \<Longrightarrow> FAILED \<in> moves \<Longrightarrow> acts P (fail_prepared R record reason crash)"
  unfolding fail_prepared_def by (rule acts_settle)

lemma acts_start_effect [acting]:
  assumes "good R" "FAILED \<in> moves" "STARTED \<in> moves" shows "acts P (start_effect R A env record crash)"
  unfolding start_effect_def
proof (rule acts_handle)
  show "acts P (start_body R A env record crash)"
    unfolding start_body_def by (intro acting) (auto intro!: acting assms)
  show "acts P (start_handler R record crash e)" for e
    unfolding start_handler_def Let_def by (cases e) (auto intro!: acting assms)
qed

lemma acts_prepare [acting]: "good R \<Longrightarrow> acts P (prepare R A envelope crash)"
  unfolding prepare_def by (intro acting)

text \<open>When every transition preserves the relation, so does the reconciliation.\<close>

lemma acts_record_result:
  assumes "good R" "moves = UNIV" shows "acts P (record_result R record crash result)"
  unfolding record_result_def
  by (auto simp add: assms(2) intro!: acting assms(1) split: ReconciliationDisposition.splits)

lemma acts_reconcile_all:
  assumes "good R" "moves = UNIV" "\<And>A record request. acts P (call_reconcile A record request)"
  shows "acts P (runtime_reconcile R A record env crash)"
  unfolding runtime_reconcile_def
  by (intro acts_andthen acts_simple assms(3) acts_record_result assms(1,2))

end

locale reconciling_relation = action_relation P good moves
  for P :: "'s world \<Rightarrow> 's world \<Rightarrow> bool" and good moves +
  assumes unverified_moves: "- {VERIFIED} \<subseteq> moves"
    and acts_reconcile [acting]: "good R \<Longrightarrow> acts P (runtime_reconcile R A record env crash)"
begin

lemma moves [acting]: "STARTED \<in> moves" "APPLIED \<in> moves" "FAILED \<in> moves" "UNKNOWN \<in> moves"
  using unverified_moves by auto

lemma acts_after_dispatch:
  assumes "good R" shows "acts P (after_dispatch R A env record crash reply)"
  unfolding after_dispatch_def
  by (cases reply) (auto intro!: acting assms split: sum.splits DispatchDisposition.splits)

lemma acts_recover:
  assumes "good R" shows "acts P (runtime_recover R A effect_id envelope crash)"
  unfolding runtime_recover_def by (intro acting assms) (auto intro!: acting assms)

end

locale executing_relation = reconciling_relation P good moves
  for P :: "'s world \<Rightarrow> 's world \<Rightarrow> bool" and good moves +
  assumes acts_dispatch: "acts P (call_dispatch A record request)"
begin

lemma acts_execute:
  assumes "good R" shows "acts P (runtime_execute R A envelope crash)"
  unfolding runtime_execute_def dispatch_started_def
  by (intro acts_andthen) (auto intro!: acting assms acts_dispatch acts_after_dispatch split: prod.splits sum.splits)

end

section \<open>Legal steps of the journal\<close>

text \<open>A relation that every run of the journal preserves.\<close>

locale journal_relation = world_relation P for P :: "'s world \<Rightarrow> 's world \<Rightarrow> bool" +
  fixes ed :: ed25519 and limit :: nat
  assumes journal: "journal_run ed limit (w_journal w) db \<Longrightarrow>
      P w (w\<lparr>w_env := s, w_journal := db, w_bootstrap := allowed\<rparr>)"
begin

lemma journal_env: "P w (w\<lparr>w_env := s\<rparr>)"
  using journal [OF journal_run_refl, of w "w_bootstrap w" s] by simp

lemma acts_on_journal:
  assumes "sound_platform ed limit R" "\<And>io db. journal_run ed limit db (fst (f io db))"
  shows "acts P (on_journal R f)"
proof (rule actsI)
  fix w w' r
  assume "on_journal R f w = (w', r)"
  then obtain s io db where w': "w' = w\<lparr>w_env := s, w_journal := db\<rparr>"
    and step: "f io (pf_others (rt_platform R) s (w_journal w)) = (db, r)"
    by (rule on_journal_cases)
  have "db = fst (f io (pf_others (rt_platform R) s (w_journal w)))" using step by simp
  then have "journal_run ed limit (pf_others (rt_platform R) s (w_journal w)) db" using assms(2) by simp
  then have "journal_run ed limit (w_journal w) db"
    by (rule journal_run_trans [rotated]) (use assms(1) in \<open>simp add: sound_platform_def\<close>)
  from journal [OF this, where s = s and allowed = "w_bootstrap w"] show "P w w'" by (simp add: w')
qed

lemma journal_claim:
  assumes "sound_platform ed limit R" shows "acts P (runtime_claim R env route snap now)"
proof (rule actsI)
  fix w w' r
  assume "runtime_claim R env route snap now w = (w', r)"
  then obtain s random where token: "pf_token (rt_platform R) (w_env w) = (s, random)"
    and call: "on_journal R (\<lambda>io. claim io ed random env route (rt_verifier R) (rt_policy R) snap now) (w\<lparr>w_env := s\<rparr>) = (w', r)"
    using assms by (auto simp add: runtime_claim_def andthen_def ask_def sound_platform_def split: prod.splits)
  have random: "length random = 16" using assms token by (metis sound_platform_def snd_conv)
  have "acts P (on_journal R (\<lambda>io. claim io ed random env route (rt_verifier R) (rt_policy R) snap now))"
  proof (rule acts_on_journal [OF assms])
    show "journal_run ed limit db (fst (claim io ed random env route (rt_verifier R) (rt_policy R) snap now db))" for io db
      by (rule journal_run_step [OF journal_run_refl], rule journal_step.claim [OF random]) (rule prod.collapse [symmetric])
  qed
  then have "P (w\<lparr>w_env := s\<rparr>) w'" using call by (rule actsD)
  then show "P w w'" using journal_env trans by blast
qed

lemma journal_move:
  assumes "sound_platform ed limit R"
  shows "acts P (on_journal R (\<lambda>io. transition io effect_id state now reason evidence))"
proof (rule acts_on_journal [OF assms])
  show "journal_run ed limit db (fst (transition io effect_id state now reason evidence db))" for io db
    by (rule journal_run_step [OF journal_run_refl], rule journal_step.transition) (rule prod.collapse [symmetric])
qed

lemma journal_get: "sound_platform ed limit R \<Longrightarrow> acts P (runtime_get R effect_id)"
  unfolding runtime_get_def by (rule acts_on_journal) (simp_all add: journal_run_refl)

lemma journal_finalize:
  assumes "sound_platform ed limit R"
  shows "acts P (runtime_finalize R effect_id t)"
proof (rule actsI)
  fix w w' r
  assume "runtime_finalize R effect_id t w = (w', r)"
  then obtain s0 io db s allowed where w': "w' = w\<lparr>w_env := s, w_journal := db, w_bootstrap := allowed\<rparr>"
    and fin: "finalize_receipt (pf_anchor (rt_platform R)) io (rt_ed25519 R) (rt_recursion_limit R) effect_id
      (rt_receipt_signer R) t (w_bootstrap w) (pf_others (rt_platform R) s0 (w_journal w)) s0 = (db, s, allowed, r)"
    by (rule runtime_finalize_cases)
  obtain r' where "finalize_receipt_unanchored io ed limit effect_id (rt_receipt_signer R) t
      (pf_others (rt_platform R) s0 (w_journal w)) = (db, r')"
    using finalize_receipt_unanchored_part [OF fin] assms by (auto simp add: sound_platform_def)
  then have "journal_step ed limit (pf_others (rt_platform R) s0 (w_journal w)) db" by (rule journal_step.finalize)
  then have "journal_run ed limit (w_journal w) db"
    by (rule journal_run_step [rotated]) (use assms in \<open>simp add: sound_platform_def\<close>)
  then show "P w w'" using journal by (simp add: w')
qed

end

sublocale journal_relation \<subseteq> action_relation P "sound_platform ed limit" UNIV
  by unfold_locales (simp_all add: journal_env journal_claim journal_get journal_finalize journal_move)

section \<open>The relations of the runtime\<close>

fun is_dispatch :: "adapter_call \<Rightarrow> bool" where
  "is_dispatch (Dispatched record request db) \<longleftrightarrow> True"
| "is_dispatch (Reconciled record request reply) \<longleftrightarrow> False"

text \<open>\<open>idle\<close>: only the journal moves. \<open>calm\<close>: nothing is dispatched. \<open>grows\<close>: calls are only appended.\<close>

definition idle :: "ed25519 \<Rightarrow> nat \<Rightarrow> 's world \<Rightarrow> 's world \<Rightarrow> bool" where
  "idle ed limit w w' \<longleftrightarrow> journal_run ed limit (w_journal w) (w_journal w') \<and> w_calls w' = w_calls w"

definition calm :: "ed25519 \<Rightarrow> nat \<Rightarrow> 's world \<Rightarrow> 's world \<Rightarrow> bool" where
  "calm ed limit w w' \<longleftrightarrow> journal_run ed limit (w_journal w) (w_journal w')
     \<and> (\<exists>calls. w_calls w' = w_calls w @ calls \<and> \<not> list_ex is_dispatch calls)"

definition grows :: "ed25519 \<Rightarrow> nat \<Rightarrow> 's world \<Rightarrow> 's world \<Rightarrow> bool" where
  "grows ed limit w w' \<longleftrightarrow> journal_run ed limit (w_journal w) (w_journal w') \<and> (\<exists>calls. w_calls w' = w_calls w @ calls)"

interpretation idle: journal_relation "idle ed limit" ed limit for ed limit
  by unfold_locales (auto simp add: idle_def journal_run_refl intro: journal_run_trans)

interpretation calm: journal_relation "calm ed limit" ed limit for ed limit
  by unfold_locales (auto simp add: calm_def journal_run_refl intro: journal_run_trans)

interpretation grows: journal_relation "grows ed limit" ed limit for ed limit
  by unfold_locales (auto simp add: grows_def journal_run_refl intro: journal_run_trans)

lemma idle_calm: "idle ed limit w w' \<Longrightarrow> calm ed limit w w'"
  by (simp add: idle_def calm_def)

lemma acts_calls:
  "acts (calm ed limit) (call_reconcile A record request)"
  "acts (grows ed limit) (call_reconcile A record request)"
  "acts (grows ed limit) (call_dispatch A record request)"
  by (rule actsI, auto simp add: call_reconcile_def call_dispatch_def calm_def grows_def journal_run_refl split: prod.splits)+

interpretation calm: reconciling_relation "calm ed limit" "sound_platform ed limit" UNIV for ed limit
  by unfold_locales (auto intro: calm.acts_reconcile_all acts_calls)

interpretation grows: executing_relation "grows ed limit" "sound_platform ed limit" UNIV for ed limit
  by unfold_locales (auto intro: grows.acts_reconcile_all acts_calls)

end
