(* ===== verification/Runtime_Safety.thy ===== *)
theory Runtime_Safety
  imports Runtime_Actions
begin

text \<open>
  What the runtime guarantees about dispatches. A run interleaves executions and recoveries of any number
  of runtimes, in any order and with any outcome, with legal steps of other processes on the journal.
\<close>

section \<open>Calls of the journal that succeed\<close>

lemma transition_success:
  assumes "journal_ok db" "transition io effect_id state now reason evidence db = (db', Inr later)"
  obtains current where "effect_to_row current \<in> set (db_effects db)" "ef_effect_id current = effect_id"
    "state \<in> ALLOWED_TRANSITIONS (ef_state current)" "later = moved_record current state now reason evidence"
    "db' = moved_db db later" "effect_to_row later \<in> set (db_effects db')"
proof -
  have "transition_inputs effect_id state now reason evidence = Inr (effect_id, now, reason, evidence)"
    and tx: "transition_tx effect_id state now reason evidence db = Inr (db', later)"
    using assms(2) by (auto simp add: transition_def transition_inputs_def accepts dest!: immediate_Inr
        split: sum.splits simp del: limits)
  then have inputs: "0 \<le> now" "now \<le> MAX_SAFE_INTEGER" "safe_id_text reason" "digest_text evidence"
    by (auto simp add: transition_inputs_def accepts simp del: limits)
  obtain current where current: "effect_to_row current \<in> set (db_effects db)" "ef_effect_id current = effect_id"
    "state \<in> ALLOWED_TRANSITIONS (ef_state current)" "ef_updated_at_ms current \<le> now"
    "later = moved_record current state now reason evidence" "db' = moved_db db later"
    using tx unfolding transition_tx_iff [OF assms(1) inputs] by (elim exE conjE)
  have "effects_ok (db_effects db) (db_permits db)" using assms(1) by (simp add: journal_ok_def)
  from moved_record_moves [OF this current(1,3,4) inputs]
  have "effect_to_row later \<in> set (db_effects db')"
    unfolding current(6) moved_db_def current(5) by (simp add: moved_later)
  then show thesis using current by (intro that) simp_all
qed

lemma claim_success:
  assumes "journal_ok db" "length random = 16" "claim io ed random envelope route vf p live now db = (db', Inr record)"
  obtains env d where "ControlEnvelope_from_dict (ControlEnvelope_to_dict envelope) = Inr env"
    "ControlRequest_digest (en_request env) = Inr d" "record = claimed_record (uuid4 random) env d route now"
    "effect_to_row record \<in> set (db_effects db')"
  using assms(3)
proof (cases rule: claim_db_cases)
  case (tried env gb pb)
  have tx: "claim_tx (uuid4 random) env route now gb pb db = Inr (db', record)"
    using tried(2) by (rule immediate_Inr)
  obtain d where d: "ControlRequest_digest (en_request env) = Inr d"
    "db' = claimed_db db (uuid4 random) env route now gb pb d" "record = claimed_record (uuid4 random) env d route now"
    using claim_step [OF assms(1,2) tried(1) tx] by (elim exE conjE)
  have "effect_to_row record \<in> set (db_effects db')"
    unfolding d(2,3) by (simp add: claimed_db_def claimed_record_row)
  then show thesis using that claim_authority_ready(4) [OF tried(1)] d by blast
qed simp

lemma later_not_prepared:
  assumes "effect_later e e'" "ef_state e \<noteq> PREPARED" shows "ef_state e' \<noteq> PREPARED"
proof
  assume prepared: "ef_state e' = PREPARED"
  with assms have "(ef_state e, PREPARED) \<in> {(old, new). new \<in> ALLOWED_TRANSITIONS old}\<^sup>+"
    by (auto simp add: effect_later_def)
  then obtain old where "PREPARED \<in> ALLOWED_TRANSITIONS old" by (auto elim: tranclE)
  then show False by (cases old) auto
qed

lemma starts_from_prepared: "STARTED \<in> ALLOWED_TRANSITIONS old \<Longrightarrow> old = PREPARED"
  by (cases old) auto

section \<open>The steps of an execution\<close>

text \<open>
  The check a dispatch rests on, made in the world \<open>w\<close>: the adapter, asked there for its routes and its
  snapshot of the target, and then the clock give answers with which the envelope verifies.
\<close>

definition live_authority ::
    "'s ControlRuntime \<Rightarrow> 's ControlAdapter \<Rightarrow> ControlEnvelope \<Rightarrow> ControlRoute \<Rightarrow> 's world \<Rightarrow> bool" where
  "live_authority R A env route w \<longleftrightarrow> (\<exists>w1 w2 w3 routes snapshot now.
     runtime_routes A (rq_target (en_request env)) w = (w1, Inr routes)
     \<and> runtime_snapshot A (rq_target (en_request env)) w1 = (w2, Inr snapshot) \<and> runtime_now R w2 = (w3, Inr now)
     \<and> matches_target snapshot (rq_target (en_request env))
     \<and> verify_envelope_authority (rt_ed25519 R) env (rt_verifier R) (rt_policy R) now routes (Some snapshot) = Inr route)"

text \<open>The record of an effect is the one of a request, and of the permit and grant of its envelope.\<close>

definition request_bound :: "ControlEffectRecord \<Rightarrow> ControlRequest \<Rightarrow> bool" where
  "request_bound e r \<longleftrightarrow> ControlRequest_digest r = Inr (ef_request_digest e)
     \<and> ef_request_id e = rq_request_id r \<and> ef_session_id e = rq_session_id r \<and> ef_sequence e = rq_sequence r
     \<and> ef_operation e = rq_operation r \<and> ef_snapshot_id e = sn_snapshot_id (rq_snapshot r)
     \<and> ef_target_kind e = tr_kind (rq_target r) \<and> ef_target_id e = tr_target_id (rq_target r)
     \<and> ef_target_epoch e = tr_epoch (rq_target r) \<and> ef_target_revision e = tr_revision (rq_target r)
     \<and> ef_fencing_token e = tr_fencing_token (rq_target r)"

definition bound_to :: "ControlEffectRecord \<Rightarrow> ControlEnvelope \<Rightarrow> bool" where
  "bound_to record env \<longleftrightarrow> request_bound record (en_request env)
     \<and> ef_permit_id record = pm_permit_id (en_permit env) \<and> ef_grant_id record = gr_grant_id (en_grant env)"

lemma request_bound_later: "effect_later e e' \<Longrightarrow> request_bound e r \<Longrightarrow> request_bound e' r"
  by (cases e; cases e') (simp add: effect_later_def request_bound_def)

lemma bound_to_later: "effect_later e e' \<Longrightarrow> bound_to e env \<Longrightarrow> bound_to e' env \<and> ef_route e' = ef_route e"
  by (cases e; cases e') (simp add: effect_later_def bound_to_def request_bound_def)

lemma bound_to_moved [simp]: "bound_to (moved_record e state now reason evidence) env \<longleftrightarrow> bound_to e env"
  by (simp add: bound_to_def request_bound_def moved_record_def)

text \<open>Two rows of one effect, before and after a run.\<close>

lemma same_row_later:
  assumes "journal_ok db" "journal_run ed limit db db'" "effect_to_row e \<in> set (db_effects db)"
    and "effect_to_row e' \<in> set (db_effects db')" "ef_effect_id e' = ef_effect_id e"
  shows "effect_later e e'"
proof -
  obtain e1 where e1: "effect_to_row e1 \<in> set (db_effects db')" "effect_later e e1"
    using run_effect [OF assms(2,1,3)] by blast
  have "e1 = e'"
    using effect_in_db [OF run_ok [OF assms(2,1)] e1(1) assms(4)] effect_later_id [OF e1(2)] assms(5) by simp
  then show ?thesis using e1(2) by simp
qed

lemma snapshot_matches:
  assumes "runtime_snapshot A target w = (w', Inr snapshot)" shows "matches_target snapshot target"
  using assms unfolding runtime_snapshot_def
  by (auto elim!: andthen_InrE split: reply.splits sum.splits if_splits)

lemma runtime_claim_success:
  assumes "sound_platform ed limit R" "journal_ok (w_journal w)" "ControlEnvelope_ok env"
    and "runtime_claim R env route snapshot now w = (w', Inr record)"
  shows "bound_to record env \<and> ef_route record = route \<and> ef_state record = PREPARED \<and> effect_to_row record \<in> set (db_effects (w_journal w'))"
proof -
  obtain w1 random where ask: "ask (pf_token (rt_platform R)) w = (w1, Inr random)"
    and call: "on_journal R (\<lambda>io. claim io (rt_ed25519 R) random env route (rt_verifier R) (rt_policy R) snapshot now) w1
      = (w', Inr record)"
    using assms(4) unfolding runtime_claim_def by (rule andthen_InrE)
  have w1: "w_journal w1 = w_journal w" "length random = 16"
    using ask assms(1) by (auto simp add: ask_def sound_platform_def split: prod.splits) (metis snd_conv)
  obtain s io db where w': "w' = w1\<lparr>w_env := s, w_journal := db\<rparr>"
    and claim: "claim io (rt_ed25519 R) random env route (rt_verifier R) (rt_policy R) snapshot now
      (pf_others (rt_platform R) s (w_journal w1)) = (db, Inr record)"
    using call by (rule on_journal_cases)
  have "journal_ok (pf_others (rt_platform R) s (w_journal w1))"
    using run_ok assms(1,2) by (metis sound_platform_def w1(1))
  then obtain env' d where facts: "ControlEnvelope_from_dict (ControlEnvelope_to_dict env) = Inr env'"
    "ControlRequest_digest (en_request env') = Inr d" "record = claimed_record (uuid4 random) env' d route now"
    "effect_to_row record \<in> set (db_effects db)"
    using claim_success [OF _ w1(2) claim] by metis
  have "env' = env" using facts(1) envelope.from_to [OF assms(3)] by simp
  then show ?thesis using facts by (simp add: w' bound_to_def request_bound_def claimed_record_def Let_def)
qed

lemma prepare_success:
  assumes "sound_platform ed limit R" "journal_ok (w_journal w)" "prepare R A envelope crash w = (w', Inr (env, record))"
  shows "ControlEnvelope_from_dict (ControlEnvelope_to_dict envelope) = Inr env" "live_authority R A env (ef_route record) w"
    and "bound_to record env" "effect_to_row record \<in> set (db_effects (w_journal w'))" "ef_state record = PREPARED"
proof -
  obtain w1 w2 w3 w4 w5 initial_routes snapshot now route where
      parse: "ControlEnvelope_from_dict (ControlEnvelope_to_dict envelope) = Inr env"
    and routes: "runtime_routes A (rq_target (en_request env)) w = (w1, Inr initial_routes)"
    and snap: "runtime_snapshot A (rq_target (en_request env)) w1 = (w2, Inr snapshot)"
    and now: "runtime_now R w2 = (w3, Inr now)"
    and verify: "verify_envelope_authority (rt_ed25519 R) env (rt_verifier R) (rt_policy R) now initial_routes (Some snapshot)
      = Inr route"
    and claim: "runtime_claim R env route snapshot now w3 = (w4, Inr record)"
    and crash: "maybe_crash crash AFTER_PREPARED w4 = (w', Inr ())"
    using assms(3) unfolding prepare_def by (auto elim!: andthen_InrE)
  have calm: "calm ed limit w w1" "calm ed limit w1 w2" "calm ed limit w2 w3"
    using calm.acts_routes calm.acts_snapshot calm.acts_now routes snap now by (metis actsD)+
  then have "journal_ok (w_journal w3)" using run_ok assms(2) by (metis calm_def)
  from runtime_claim_success [OF assms(1) this envelope_from_dict_ok [OF parse] claim]
  have claimed: "bound_to record env" "ef_route record = route" "effect_to_row record \<in> set (db_effects (w_journal w4))"
    "ef_state record = PREPARED" by simp_all
  have "w' = w4" using crash by (auto simp add: maybe_crash_def split: if_splits)
  then show "ControlEnvelope_from_dict (ControlEnvelope_to_dict envelope) = Inr env" "bound_to record env"
    "effect_to_row record \<in> set (db_effects (w_journal w'))" "ef_state record = PREPARED"
    using parse claimed by simp_all
  show "live_authority R A env (ef_route record) w"
    unfolding live_authority_def claimed(2) using routes snap now verify snapshot_matches [OF snap] by blast
qed

text \<open>A start that succeeds found the effect prepared and made it started.\<close>

lemma start_success:
  assumes "sound_platform ed limit R" "journal_ok (w_journal w)" "start_effect R A env record crash w = (w', Inr (Inr started))"
  obtains db current where "journal_run ed limit (w_journal w) db" "effect_to_row current \<in> set (db_effects db)"
    "ef_effect_id current = ef_effect_id record" "ef_state current = PREPARED"
    "started = moved_record current STARTED (ef_updated_at_ms started) (str ''none'') EMPTY_EVIDENCE_DIGEST"
    "effect_to_row started \<in> set (db_effects (w_journal w'))" "live_authority R A env (ef_route record) w"
proof -
  have "start_body R A env record crash w = (w', Inr (Inr started))"
    using assms(3) unfolding start_effect_def
  proof (cases rule: handle_cases)
    case (caught w1 e)
    then show ?thesis by (cases e) (auto simp add: start_handler_def Let_def elim!: andthen_InrE)
  qed simp
  then obtain w1 w2 w3 current_routes snapshot now where
      routes: "runtime_routes A (rq_target (en_request env)) w = (w1, Inr current_routes)"
    and snap: "runtime_snapshot A (rq_target (en_request env)) w1 = (w2, Inr snapshot)"
    and now: "runtime_now R w2 = (w3, Inr now)"
    and verify: "verify_envelope_authority (rt_ed25519 R) env (rt_verifier R) (rt_policy R) now current_routes (Some snapshot)
      = Inr (ef_route record)"
    and move: "runtime_transition R record STARTED (str ''none'') EMPTY_EVIDENCE_DIGEST crash w3 = (w', Inr started)"
    unfolding start_body_def by (auto elim!: andthen_InrE split: if_splits)
  obtain w4 w5 t where clock: "runtime_now R w3 = (w4, Inr t)"
    and call: "on_journal R (\<lambda>io. transition io (ef_effect_id record) STARTED t (str ''none'') EMPTY_EVIDENCE_DIGEST) w4
      = (w5, Inr started)"
    and point: "maybe_crash crash AFTER_STARTED w5 = (w', Inr ())"
    using move unfolding runtime_transition_def by (auto elim!: andthen_InrE)
  have w5: "w5 = w'" using point by (auto simp add: maybe_crash_def split: if_splits)
  obtain s io db where w': "w' = w4\<lparr>w_env := s, w_journal := db\<rparr>"
    and tx: "transition io (ef_effect_id record) STARTED t (str ''none'') EMPTY_EVIDENCE_DIGEST
      (pf_others (rt_platform R) s (w_journal w4)) = (db, Inr started)"
    using call unfolding w5 by (rule on_journal_cases)
  have "calm ed limit w w1" "calm ed limit w1 w2" "calm ed limit w2 w3" "calm ed limit w3 w4"
    using calm.acts_routes calm.acts_snapshot calm.acts_now routes snap now clock by (metis actsD)+
  then have "journal_run ed limit (w_journal w) (w_journal w4)" by (meson calm_def journal_run_trans)
  then have run: "journal_run ed limit (w_journal w) (pf_others (rt_platform R) s (w_journal w4))"
    by (rule journal_run_trans) (use assms(1) in \<open>simp add: sound_platform_def\<close>)
  obtain current where current: "effect_to_row current \<in> set (db_effects (pf_others (rt_platform R) s (w_journal w4)))"
    "ef_effect_id current = ef_effect_id record" "STARTED \<in> ALLOWED_TRANSITIONS (ef_state current)"
    "started = moved_record current STARTED t (str ''none'') EMPTY_EVIDENCE_DIGEST" "effect_to_row started \<in> set (db_effects db)"
    using transition_success [OF run_ok [OF run assms(2)] tx] by metis
  have "live_authority R A env (ef_route record) w"
    unfolding live_authority_def using routes snap now verify snapshot_matches [OF snap] by blast
  then show thesis
    using run current(1,2) starts_from_prepared [OF current(3)] current(4,5)
    by (intro that) (auto simp add: w' moved_record_def)
qed

end
