(* ===== verification/Runtime_Properties.thy ===== *)
theory Runtime_Properties
  imports Runtime_Safety
begin

text \<open>
  The properties of the runtime: a permit is dispatched at most once over every run, each dispatch is
  authorised and durably started, and recovery never dispatches.
\<close>

section \<open>Dispatches\<close>

fun dispatched :: "adapter_call list \<Rightarrow> ControlEffectRecord list" where
  "dispatched [] = []"
| "dispatched (Dispatched record request db # calls) = record # dispatched calls"
| "dispatched (Reconciled record request reply # calls) = dispatched calls"

lemma dispatched_append [simp]: "dispatched (calls @ calls') = dispatched calls @ dispatched calls'"
  by (induction calls rule: dispatched.induct) simp_all

lemma dispatched_Nil [simp]: "\<not> list_ex is_dispatch calls \<Longrightarrow> dispatched calls = []"
  by (induction calls rule: dispatched.induct) simp_all

inductive runtime_run :: "ed25519 \<Rightarrow> nat \<Rightarrow> 's world \<Rightarrow> bool" for ed :: ed25519 and limit :: nat where
  boot: "runtime_run ed limit w" if "reachable ed limit (w_journal w)" "w_calls w = []"
| execute: "runtime_run ed limit w'"
    if "runtime_run ed limit w" "sound_platform ed limit R" "runtime_execute R A envelope crash w = (w', outcome)"
| recover: "runtime_run ed limit w'"
    if "runtime_run ed limit w" "sound_platform ed limit R" "runtime_recover R A effect_id envelope crash w = (w', outcome)"
| others: "runtime_run ed limit (w\<lparr>w_env := s, w_journal := db, w_bootstrap := allowed\<rparr>)"
    if "runtime_run ed limit w" "journal_run ed limit (w_journal w) db"

text \<open>Every dispatched effect has a row in the journal that is later than its start, and none occurs twice.\<close>

definition dispatch_inv :: "journal_db \<Rightarrow> ControlEffectRecord list \<Rightarrow> bool" where
  "dispatch_inv db records \<longleftrightarrow> journal_ok db \<and> distinct (map ef_effect_id records)
     \<and> (\<forall>d \<in> set records. ef_state d = STARTED \<and> (\<exists>e. effect_to_row e \<in> set (db_effects db) \<and> effect_later d e))"

lemma dispatch_inv_run:
  assumes "dispatch_inv db records" "journal_run ed limit db db'" shows "dispatch_inv db' records"
proof -
  have ok: "journal_ok db" using assms(1) by (simp add: dispatch_inv_def)
  have "\<exists>e. effect_to_row e \<in> set (db_effects db') \<and> effect_later d e" if "d \<in> set records" for d
  proof -
    obtain e where "effect_to_row e \<in> set (db_effects db)" "effect_later d e"
      using assms(1) \<open>d \<in> set records\<close> by (auto simp add: dispatch_inv_def)
    then show ?thesis using run_effect [OF assms(2) ok] effect_later_trans by blast
  qed
  then show ?thesis using assms(1) run_ok [OF assms(2) ok] by (simp add: dispatch_inv_def)
qed

lemma dispatch_inv_calm: "dispatch_inv (w_journal w) (dispatched (w_calls w)) \<Longrightarrow> calm ed limit w w' \<Longrightarrow>
    dispatch_inv (w_journal w') (dispatched (w_calls w'))"
  by (auto simp add: calm_def intro: dispatch_inv_run)

lemma dispatch_inv_start:
  assumes "dispatch_inv db records" "effect_to_row current \<in> set (db_effects db)" "ef_state current = PREPARED"
    and "d \<in> set records"
  shows "ef_effect_id d \<noteq> ef_effect_id current"
proof
  assume same: "ef_effect_id d = ef_effect_id current"
  obtain e where e: "effect_to_row e \<in> set (db_effects db)" "effect_later d e" "ef_state d = STARTED"
    using assms(1,4) by (auto simp add: dispatch_inv_def)
  have "e = current"
    using effect_in_db [OF _ e(1) assms(2)] assms(1) same effect_later_id [OF e(2)] by (simp add: dispatch_inv_def)
  then show False using later_not_prepared [OF e(2)] e(3) assms(3) by simp
qed

text \<open>An execution either dispatches nothing, or it is a preparation, a start, the dispatch, and a rest
  that dispatches nothing.\<close>

lemma execute_cases:
  assumes "sound_platform ed limit R" "runtime_execute R A envelope crash w = (w', outcome)"
  obtains (nothing) "idle ed limit w w'"
  | (dispatch) w1 w2 w3 env claimed started reply where "prepare R A envelope crash w = (w1, Inr (env, claimed))"
      "start_effect R A env claimed crash w1 = (w2, Inr (Inr started))"
      "idle ed limit w w1" "idle ed limit w1 w2" "calm ed limit w3 w'"
      "w_journal w3 = w_journal w2" "w_calls w3 = w_calls w2 @ [Dispatched started (en_request env) (w_journal w2)]"
      "after_dispatch R A env started crash reply w3 = (w', outcome)"
  using assms(2) unfolding runtime_execute_def
proof (cases rule: andthen_cases)
  case stopped
  show thesis by (rule nothing) (rule actsD [OF idle.acts_prepare [OF assms(1)] stopped(1)])
next
  case (continued w1 x)
  obtain env claimed where x: "x = (env, claimed)" by (cases x)
  have idle1: "idle ed limit w w1" using idle.acts_prepare [OF assms(1)] continued(1) by (rule actsD)
  have "andthen (start_effect R A env claimed crash) (\<lambda>started. case started of Inl receipt \<Rightarrow> done_with receipt
      | Inr record \<Rightarrow> dispatch_started R A env record crash) w1 = (w', outcome)"
    using continued(2) by (simp add: x)
  then show thesis
  proof (cases rule: andthen_cases)
    case stopped
    have "idle ed limit w1 w'" using idle.acts_start_effect [OF assms(1) UNIV_I UNIV_I] stopped(1) by (rule actsD)
    with idle1 have "idle ed limit w w'" by (rule idle.trans)
    then show thesis by (rule nothing)
  next
    case start: (continued w2 result)
    have idle2: "idle ed limit w1 w2" using idle.acts_start_effect [OF assms(1) UNIV_I UNIV_I] start(1) by (rule actsD)
    show thesis
    proof (cases result)
      case (Inl receipt)
      then have "w' = w2" using start(2) by simp
      then have "idle ed limit w w'" using idle.trans [OF idle1 idle2] by simp
      then show thesis by (rule nothing)
    next
      case (Inr started)
      obtain s reply where reply: "adapter_dispatch A (ef_effect_id started) (en_request env) (ef_route started) (w_env w2)
          = (s, reply)" by fastforce
      let ?w3 = "w2\<lparr>w_env := s, w_calls := w_calls w2 @ [Dispatched started (en_request env) (w_journal w2)]\<rparr>"
      have after: "after_dispatch R A env started crash reply ?w3 = (w', outcome)"
        using start(2) Inr by (simp add: dispatch_started_def andthen_def call_dispatch_def reply)
      have "calm ed limit ?w3 w'" by (rule actsD [OF calm.acts_after_dispatch [OF assms(1)] after])
      with after continued(1) start(1) idle1 idle2 Inr show thesis
        by (intro dispatch [of w1 env claimed w2 started ?w3 reply]) (simp_all add: x)
    qed
  qed
qed

lemma execute_dispatch_inv:
  assumes "sound_platform ed limit R" "runtime_execute R A envelope crash w = (w', outcome)"
    and "dispatch_inv (w_journal w) (dispatched (w_calls w))"
  shows "dispatch_inv (w_journal w') (dispatched (w_calls w'))"
  using assms(1,2)
proof (cases rule: execute_cases)
  case nothing
  then show ?thesis using dispatch_inv_calm idle_calm assms(3) by blast
next
  case (dispatch w1 w2 w3 env claimed started reply)
  have inv1: "dispatch_inv (w_journal w1) (dispatched (w_calls w1))"
    using assms(3) idle_calm [OF dispatch(3)] by (rule dispatch_inv_calm)
  then have inv2: "dispatch_inv (w_journal w2) (dispatched (w_calls w2))" using idle_calm [OF dispatch(4)] by (rule dispatch_inv_calm)
  have ok: "journal_ok (w_journal w1)" using inv1 by (simp add: dispatch_inv_def)
  obtain db current where run: "journal_run ed limit (w_journal w1) db" "effect_to_row current \<in> set (db_effects db)"
    "ef_effect_id current = ef_effect_id claimed" "ef_state current = PREPARED"
    "started = moved_record current STARTED (ef_updated_at_ms started) (str ''none'') EMPTY_EVIDENCE_DIGEST"
    "effect_to_row started \<in> set (db_effects (w_journal w2))"
    using start_success [OF assms(1) ok dispatch(2)] by blast
  have calls: "dispatched (w_calls w2) = dispatched (w_calls w1)" using dispatch(4) by (simp add: idle_def)
  have id: "ef_effect_id started = ef_effect_id current" "ef_state started = STARTED"
    using arg_cong [OF run(5), of ef_effect_id] arg_cong [OF run(5), of ef_state] by (simp_all add: moved_record_def)
  have "ef_effect_id started \<notin> ef_effect_id ` set (dispatched (w_calls w1))"
    using dispatch_inv_start [OF dispatch_inv_run [OF inv1 run(1)] run(2,4)] id by force
  then have "dispatch_inv (w_journal w3) (dispatched (w_calls w3))"
    using inv2 run(6) id effect_later_refl by (auto simp add: dispatch(6,7) dispatch_inv_def calls)
  then show ?thesis using dispatch(5) by (rule dispatch_inv_calm)
qed

lemma runtime_run_inv: "runtime_run ed limit w \<Longrightarrow> dispatch_inv (w_journal w) (dispatched (w_calls w))"
proof (induction rule: runtime_run.induct)
  case (boot w)
  then show ?case using reachable_ok by (simp add: dispatch_inv_def)
next
  case (execute w R A envelope crash w' outcome)
  then show ?case using execute_dispatch_inv by blast
next
  case (recover w R A effect_id envelope crash w' outcome)
  then show ?case using calm.acts_recover [THEN actsD] dispatch_inv_calm by blast
next
  case (others w db s allowed)
  then show ?case by (simp add: dispatch_inv_run)
qed

lemma same_permit_same_effect:
  assumes "journal_ok db" "effect_to_row e \<in> set (db_effects db)" "effect_to_row e' \<in> set (db_effects db)"
    and "ef_permit_id e = ef_permit_id e'"
  shows "e = e'"
proof -
  have "distinct (map ew_permit_id (db_effects db))"
    using assms(1) effects_permits(1) [of "db_effects db" "db_permits db"] by (simp add: journal_ok_def permits_ok_def)
  then have "inj_on ew_permit_id (set (db_effects db))" by (simp add: distinct_map)
  then have "effect_to_row e = effect_to_row e'"
    by (rule inj_onD) (use assms in \<open>simp_all add: effect_to_row_def\<close>)
  then show ?thesis by (simp add: effect_to_row_inject)
qed

section \<open>The properties\<close>

text \<open>C1: A permit is dispatched at most once. Over every sequence of executions and recoveries, with
  crashes at any point, any answers of the adapters and any interleaved legal writes of other processes,
  the dispatches that were made carry pairwise different effects and permits.\<close>

theorem dispatch_once:
  assumes "runtime_run ed limit w"
  shows "distinct (map ef_permit_id (dispatched (w_calls w))) \<and> distinct (map ef_effect_id (dispatched (w_calls w)))"
proof -
  have inv: "dispatch_inv (w_journal w) (dispatched (w_calls w))" using assms by (rule runtime_run_inv)
  have "d = d'" if m: "d \<in> set (dispatched (w_calls w))" "d' \<in> set (dispatched (w_calls w))"
    "ef_permit_id d = ef_permit_id d'" for d d'
  proof -
    obtain e e' where e: "effect_to_row e \<in> set (db_effects (w_journal w))" "effect_later d e"
      "effect_to_row e' \<in> set (db_effects (w_journal w))" "effect_later d' e'"
      using inv m(1,2) unfolding dispatch_inv_def by blast
    have "e = e'"
      using inv same_permit_same_effect [OF _ e(1,3)] effect_later_id [OF e(2)] effect_later_id [OF e(4)] m(3)
      by (simp add: dispatch_inv_def)
    then have "ef_effect_id d = ef_effect_id d'" using effect_later_id e(2,4) by metis
    then show ?thesis using inv m(1,2) by (auto simp add: dispatch_inv_def distinct_map dest: inj_onD)
  qed
  then have "inj_on ef_permit_id (set (dispatched (w_calls w)))" by (simp add: inj_on_def)
  then show ?thesis using inv by (simp add: dispatch_inv_def distinct_map)
qed

text \<open>The start of a claimed effect: the started record is a later one of the claimed record.\<close>

lemma started_record:
  assumes "sound_platform ed limit R" "journal_ok (w_journal w)" "prepare R A envelope crash w = (w1, Inr (env, claimed))"
    and "start_effect R A env claimed crash w1 = (w2, Inr (Inr started))"
  shows "effect_later claimed started" "bound_to started env" "ef_route started = ef_route claimed" "ef_state started = STARTED"
    and "effect_to_row started \<in> set (db_effects (w_journal w2))" "live_authority R A env (ef_route claimed) w1"
proof -
  note prepared = prepare_success [OF assms(1-3)]
  have "idle ed limit w w1" using idle.acts_prepare [OF assms(1)] assms(3) by (rule actsD)
  then have ok1: "journal_ok (w_journal w1)" using run_ok assms(2) by (auto simp add: idle_def)
  obtain db' current where run: "journal_run ed limit (w_journal w1) db'" "effect_to_row current \<in> set (db_effects db')"
    "ef_effect_id current = ef_effect_id claimed" "ef_state current = PREPARED"
    "started = moved_record current STARTED (ef_updated_at_ms started) (str ''none'') EMPTY_EVIDENCE_DIGEST"
    "effect_to_row started \<in> set (db_effects (w_journal w2))" "live_authority R A env (ef_route claimed) w1"
    using start_success [OF assms(1) ok1 assms(4)] by blast
  show "effect_to_row started \<in> set (db_effects (w_journal w2))" "live_authority R A env (ef_route claimed) w1"
    using run(6,7) by simp_all
  have id: "ef_effect_id started = ef_effect_id claimed" and "ef_state started = STARTED"
    using run(3) by (subst run(5), simp add: moved_record_def)+
  then show "ef_state started = STARTED" by simp
  have "idle ed limit w1 w2" using idle.acts_start_effect [OF assms(1) UNIV_I UNIV_I] assms(4) by (rule actsD)
  then have "journal_run ed limit (w_journal w1) (w_journal w2)" by (simp add: idle_def)
  from same_row_later [OF ok1 this prepared(4) run(6) id] show later: "effect_later claimed started" .
  show "bound_to started env" "ef_route started = ef_route claimed"
    using bound_to_later [OF later prepared(3)] by simp_all
qed


section \<open>Recovery\<close>

text \<open>No other process writes to the journal during the calls of the runtime.\<close>

definition alone :: "'s ControlRuntime \<Rightarrow> bool" where
  "alone R \<longleftrightarrow> (\<forall>s db. pf_others (rt_platform R) s db = db)"

lemma runtime_transition_success:
  assumes "runtime_transition R record state reason evidence crash w = (w', Inr later)" "alone R" "sound_platform ed limit R"
    and "journal_ok (w_journal w)"
  shows "effect_to_row later \<in> set (db_effects (w_journal w')) \<and> ef_state later = state \<and> ef_effect_id later = ef_effect_id record
    \<and> journal_ok (w_journal w')"
proof -
  obtain w1 w2 t where clock: "runtime_now R w = (w1, Inr t)"
    and call: "on_journal R (\<lambda>io. transition io (ef_effect_id record) state t reason evidence) w1 = (w2, Inr later)"
    and point: "(case crash_for_state state of None \<Rightarrow> done_with () | Some point \<Rightarrow> maybe_crash crash point) w2 = (w', Inr ())"
    using assms(1) unfolding runtime_transition_def by (auto elim!: andthen_InrE)
  have w2: "w' = w2" using point by (auto simp add: maybe_crash_def split: option.splits if_splits)
  have "idle ed limit w w1" using idle.acts_now clock by (rule actsD)
  then have ok: "journal_ok (w_journal w1)" using run_ok assms(4) by (auto simp add: idle_def)
  obtain s io db where w': "w2 = w1\<lparr>w_env := s, w_journal := db\<rparr>"
    and tx: "transition io (ef_effect_id record) state t reason evidence (w_journal w1) = (db, Inr later)"
    using call assms(2) by (auto simp add: alone_def elim!: on_journal_cases)
  obtain current where "ef_effect_id current = ef_effect_id record" "later = moved_record current state t reason evidence"
    "effect_to_row later \<in> set (db_effects db)"
    using transition_success [OF ok tx] by metis
  moreover have "journal_ok db"
    using run_ok [OF journal_run_step [OF journal_run_refl journal_step.transition [OF tx]] ok] .
  ultimately show ?thesis by (simp add: w2 w' moved_record_def)
qed

lemma runtime_receipt_success:
  assumes "runtime_receipt R record crash w = (w', Inr r)" "alone R" "sound_platform ed limit R" "journal_ok (w_journal w)"
    and "effect_to_row record \<in> set (db_effects (w_journal w))"
  shows "rc_state r = ef_state record \<and> rc_effect_id r = ef_effect_id record \<and> is_receiptable record
    \<and> verify_control_receipt ed r (rt_verifier R) = Inr ()"
proof -
  obtain w1 w2 t where clock: "runtime_now R w = (w1, Inr t)"
    and final: "runtime_finalize R (ef_effect_id record) t w1 = (w2, Inr r)"
    and verified: "verify_control_receipt (rt_ed25519 R) r (rt_verifier R) = Inr ()"
    using assms(1) unfolding runtime_receipt_def by (auto elim!: andthen_InrE)
  have w1: "w_journal w1 = w_journal w"
    using clock unfolding runtime_now_def by (auto simp add: ask_def elim!: andthen_InrE split: prod.splits option.splits if_splits)
  obtain s0 io db s allowed where "finalize_receipt (pf_anchor (rt_platform R)) io ed limit (ef_effect_id record)
      (rt_receipt_signer R) t (w_bootstrap w1) (w_journal w) s0 = (db, s, allowed, Inr r)"
    using final assms(2,3) w1 by (auto simp add: alone_def sound_platform_def elim!: runtime_finalize_cases)
  then have "finalize_receipt_unanchored io ed limit (ef_effect_id record) (rt_receipt_signer R) t (w_journal w) = (db, Inr r)"
    using finalize_receipt_unanchored_part by fastforce
  then have "finalize_tx ed limit (rt_receipt_signer R) (ef_effect_id record) t (w_journal w) = Inr (db, r)"
    by (auto simp add: finalize_receipt_unanchored_def accepts dest!: immediate_Inr split: sum.splits)
  from finalize_tx_receipt [OF this] obtain e where e: "effect_from_connection (w_journal w) (ef_effect_id record) = Inr e"
    "is_receiptable e" "rc_effect_id r = ef_effect_id record" "rc_state r = ef_state e" by blast
  have "effects_ok (db_effects (w_journal w)) (db_permits (w_journal w))" using assms(4) by (simp add: journal_ok_def)
  then have "e = record"
    using e(1) effect_in_db [OF assms(4) _ assms(5)] by (simp add: effect_from_connection_Inr)
  then show ?thesis using e verified assms(3) by (simp add: sound_platform_def)
qed

lemma recover_prepared:
  assumes "sound_platform ed limit R" "alone R" "journal_ok (w_journal w)"
    and "runtime_recover R A effect_id envelope crash w = (w', outcome)"
    and "effect_to_row e \<in> set (db_effects (w_journal w))" "ef_effect_id e = effect_id" "ef_state e = PREPARED"
  shows "w_calls w' = w_calls w \<and> (\<forall>r. outcome = Inr r \<longrightarrow> rc_state r = FAILED \<and> rc_effect_id r = effect_id)"
  using assms(4) unfolding runtime_recover_def
proof (cases rule: andthen_cases)
  case stopped
  then show ?thesis using actsD [OF idle.acts_get [OF assms(1)]] by (auto simp add: idle_def)
next
  case (continued w1 found)
  have idle1: "idle ed limit w w1" using idle.acts_get [OF assms(1)] continued(1) by (rule actsD)
  obtain io where "journal_get io effect_id (w_journal w) = Inr found" and w1: "w_journal w1 = w_journal w"
    using continued(1) assms(2) unfolding runtime_get_def by (auto simp add: alone_def elim!: on_journal_cases)
  then have "effect_from_connection (w_journal w) effect_id = Inr found"
    by (auto simp add: journal_get_def accepts dest!: reader_Inr)
  moreover have "effects_ok (db_effects (w_journal w)) (db_permits (w_journal w))" using assms(3) by (simp add: journal_ok_def)
  ultimately have found: "found = e"
    using effect_in_db [OF assms(3) _ assms(5)] assms(6) by (simp add: effect_from_connection_Inr)
  show ?thesis
    using continued(2)
  proof (cases rule: andthen_cases)
    case stopped
    then show ?thesis using idle1 by (simp add: idle_def)
  next
    case (continued w2 parsed)
    then have run: "settle R e FAILED (str ''recovered_before_dispatch'') EMPTY_EVIDENCE_DIGEST crash w1 = (w', outcome)"
      using assms(7) found by simp
    have "idle ed limit w1 w'" using idle.acts_settle [OF assms(1) UNIV_I] run by (rule actsD)
    then have calls: "w_calls w' = w_calls w" using idle1 by (simp add: idle_def)
    have "rc_state r = FAILED \<and> rc_effect_id r = effect_id" if r: "outcome = Inr r" for r
    proof -
      obtain w3 changed where step: "runtime_transition R e FAILED (str ''recovered_before_dispatch'') EMPTY_EVIDENCE_DIGEST
          crash w1 = (w3, Inr changed)" "runtime_receipt R changed crash w3 = (w', Inr r)"
        using run r unfolding settle_def by (auto elim!: andthen_InrE)
      have "journal_ok (w_journal w1)" using w1 assms(3) by simp
      from runtime_transition_success [OF step(1) assms(2,1) this]
      show ?thesis using runtime_receipt_success [OF step(2) assms(2,1)] assms(6) by simp
    qed
    with calls show ?thesis by blast
  qed
qed

text \<open>C9: Recovery never repeats an effect. \<open>recover\<close> makes no dispatch, whatever happened before. An effect
  that had not started is failed without asking the adapter, and the receipt says so.\<close>

theorem recovery_never_dispatches:
  assumes "runtime_run ed limit w" "sound_platform ed limit R" "runtime_recover R A effect_id envelope crash w = (w', outcome)"
  shows "(\<exists>calls. w_calls w' = w_calls w @ calls \<and> \<not> list_ex is_dispatch calls)
    \<and> (alone R \<and> effect_to_row e \<in> set (db_effects (w_journal w)) \<and> ef_effect_id e = effect_id \<and> ef_state e = PREPARED
        \<longrightarrow> w_calls w' = w_calls w \<and> (\<forall>r. outcome = Inr r \<longrightarrow> rc_state r = FAILED \<and> rc_effect_id r = effect_id))"
proof (intro conjI impI)
  have "calm ed limit w w'" using calm.acts_recover [OF assms(2)] assms(3) by (rule actsD)
  then show "\<exists>calls. w_calls w' = w_calls w @ calls \<and> \<not> list_ex is_dispatch calls" by (simp add: calm_def)
next
  assume e: "alone R \<and> effect_to_row e \<in> set (db_effects (w_journal w)) \<and> ef_effect_id e = effect_id \<and> ef_state e = PREPARED"
  have ok: "journal_ok (w_journal w)" using runtime_run_inv [OF assms(1)] by (simp add: dispatch_inv_def)
  show "w_calls w' = w_calls w" "\<forall>r. outcome = Inr r \<longrightarrow> rc_state r = FAILED \<and> rc_effect_id r = effect_id"
    using recover_prepared [OF assms(2) _ ok assms(3), of e] e by simp_all
qed

end
