(* ===== verification/Runtime_Evidence.thy ===== *)
theory Runtime_Evidence
  imports Runtime_Properties
begin

text \<open>
  When an effect becomes verified. \<open>allows V\<close> relates two worlds if every effect that is verified in the
  second was verified before or satisfies \<open>V\<close>; all calls of the runtime but the transition into
  \<open>VERIFIED\<close> preserve it for every \<open>V\<close>. \<open>justified\<close> asks for an answer of the adapter that was made in
  between and carries the evidence.
\<close>

section \<open>Evidence\<close>

text \<open>A snapshot taken after the one of the request, of the same target, whose revision and fence are those
  of the request unless the epoch has advanced.\<close>

definition fresh_for :: "ControlRequest \<Rightarrow> SnapshotRef \<Rightarrow> bool" where
  "fresh_for request s \<longleftrightarrow> (let prior = rq_snapshot request; t = rq_target request in
     sn_snapshot_id s \<noteq> sn_snapshot_id prior \<and> sn_observed_at_ms prior < sn_observed_at_ms s \<and> sn_sequence prior < sn_sequence s
     \<and> sn_target_id s = tr_target_id t
     \<and> (sn_epoch s = tr_epoch t \<and> sn_revision s = tr_revision t \<and> sn_fencing_token s = tr_fencing_token t
        \<or> tr_epoch t < sn_epoch s \<and> tr_fencing_token t < sn_fencing_token s))"

definition answered_by :: "adapter_call \<Rightarrow> ControlEffectRecord \<Rightarrow> bool" where
  "answered_by call e \<longleftrightarrow> (\<exists>record request post.
     call = Reconciled record request (Reply (Some RECONCILED_VERIFIED, PStr (ef_reason_code e), PStr (ef_evidence_digest e), post))
     \<and> ef_effect_id record = ef_effect_id e
     \<and> (rq_operation request \<in> {OBSERVE, HANDOFF}
        \<or> (\<exists>s. post = Postcondition s \<and> SnapshotRef_ok s \<and> fresh_for request s
             \<and> fresh_postcondition_evidence (ef_effect_id e) (ef_reason_code e) s = Inr (ef_evidence_digest e))))"

text \<open>The adapter was asked about this effect, with the request the effect was claimed for.\<close>

definition justified_by :: "adapter_call \<Rightarrow> ControlEffectRecord \<Rightarrow> bool" where
  "justified_by call e \<longleftrightarrow> (\<exists>record request post.
     call = Reconciled record request (Reply (Some RECONCILED_VERIFIED, PStr (ef_reason_code e), PStr (ef_evidence_digest e), post))
     \<and> effect_later record e \<and> request_bound e request
     \<and> (ef_operation e \<in> {OBSERVE, HANDOFF}
        \<or> (\<exists>s. post = Postcondition s \<and> SnapshotRef_ok s \<and> fresh_for request s
             \<and> fresh_postcondition_evidence (ef_effect_id e) (ef_reason_code e) s = Inr (ef_evidence_digest e))))"

lemma answered_justified:
  assumes "answered_by (Reconciled record request reply) e" "effect_later record e" "request_bound e request"
  shows "justified_by (Reconciled record request reply) e"
  using assms by (auto simp add: answered_by_def justified_by_def request_bound_def)

lemma postcondition_accepted:
  assumes "postcondition_error effect_id request result = Inr None"
  shows "\<exists>s. ar_postcondition result = Some s \<and> fresh_for request s
    \<and> fresh_postcondition_evidence effect_id (ar_reason_code result) s = Inr (ar_evidence_digest result)"
proof (cases "ar_postcondition result")
  case None
  then show ?thesis using assms by (simp add: postcondition_error_def)
next
  case (Some s)
  then have "fresh_for request s"
    using assms by (auto simp add: postcondition_error_def Let_def fresh_for_def split: if_splits)
  moreover have "fresh_postcondition_evidence effect_id (ar_reason_code result) s = Inr (ar_evidence_digest result)"
    using assms Some by (auto simp add: postcondition_error_def Let_def split: if_splits)
  ultimately show ?thesis using Some by simp
qed

lemma reconciliation_init_Inr:
  assumes "AdapterReconciliationResult_init d reason evidence post = Inr result"
  shows "d = Some (ar_disposition result) \<and> reason = PStr (ar_reason_code result) \<and> evidence = PStr (ar_evidence_digest result)
    \<and> (\<forall>s. ar_postcondition result = Some s \<longrightarrow> post = Postcondition s \<and> SnapshotRef_ok s)"
proof -
  have "SnapshotRef_from_dict (SnapshotRef_to_dict s) = Inr s' \<Longrightarrow> SnapshotRef_ok s" for s s'
    by (cases s) (auto simp add: SnapshotRef_from_dict_def SnapshotRef_to_dict_def SnapshotRef_ok_def accepts simp del: limits)
  then show ?thesis
    using assms
    by (auto simp add: AdapterReconciliationResult_init_def postcondition_checked_def evidence_text_def Let_def accepts
        split: option.splits py.splits if_splits postcondition.splits)
qed

lemma verified_answer:
  assumes "reconciliation_result reply = Inr answer" "accepted_result effect_id request answer = Inr result"
    and "ar_disposition result = RECONCILED_VERIFIED"
  shows "\<exists>post. reply = Reply (Some RECONCILED_VERIFIED, PStr (ar_reason_code result), PStr (ar_evidence_digest result), post)
    \<and> (rq_operation request \<in> {OBSERVE, HANDOFF} \<or> (\<exists>s. post = Postcondition s \<and> SnapshotRef_ok s \<and> fresh_for request s
         \<and> fresh_postcondition_evidence effect_id (ar_reason_code result) s = Inr (ar_evidence_digest result)))"
proof -
  have same: "result = answer \<and> (rq_operation request \<notin> {OBSERVE, HANDOFF} \<longrightarrow> postcondition_error effect_id request result = Inr None)"
  proof (cases "ar_disposition answer = RECONCILED_VERIFIED \<and> rq_operation request \<notin> {OBSERVE, HANDOFF}")
    case True
    then obtain problem where "postcondition_error effect_id request answer = Inr problem"
      "result = (case problem of None \<Rightarrow> answer | Some reason \<Rightarrow> unknown_result (str reason))"
      using assms(2) by (auto simp add: accepted_result_def accepts)
    then show ?thesis using assms(3) by (cases problem) (simp_all add: unknown_result_def)
  next
    case False
    then show ?thesis using assms(2,3) by (auto simp add: accepted_result_def)
  qed
  obtain d reason evidence post where reply: "reply = Reply (d, reason, evidence, post)"
    "AdapterReconciliationResult_init d reason evidence post = Inr result"
    using assms(1,3) same
    by (auto simp add: reconciliation_result_def unknown_result_def split: reply.splits sum.splits exn.splits)
  note init = reconciliation_init_Inr [OF reply(2)]
  show ?thesis
    using init assms(3) postcondition_accepted same by (fastforce simp add: reply(1))
qed

section \<open>The relations\<close>

definition allows :: "ed25519 \<Rightarrow> nat \<Rightarrow> (ControlEffectRecord \<Rightarrow> bool) \<Rightarrow> 's world \<Rightarrow> 's world \<Rightarrow> bool" where
  "allows ed limit V w w' \<longleftrightarrow> idle ed limit w w' \<and> (journal_ok (w_journal w) \<longrightarrow>
     (\<forall>e. effect_to_row e \<in> set (db_effects (w_journal w')) \<and> ef_state e = VERIFIED \<longrightarrow>
        effect_to_row e \<in> set (db_effects (w_journal w)) \<or> V e))"

definition justified :: "ed25519 \<Rightarrow> nat \<Rightarrow> 's world \<Rightarrow> 's world \<Rightarrow> bool" where
  "justified ed limit w w' \<longleftrightarrow> journal_run ed limit (w_journal w) (w_journal w')
     \<and> (\<exists>calls. w_calls w' = w_calls w @ calls \<and> (journal_ok (w_journal w) \<longrightarrow>
       (\<forall>e. effect_to_row e \<in> set (db_effects (w_journal w')) \<and> ef_state e = VERIFIED \<longrightarrow>
          effect_to_row e \<in> set (db_effects (w_journal w)) \<or> (\<exists>call \<in> set calls. answered_by call e))))"

text \<open>A verified effect stays as it is, so what justified it still does.\<close>

lemma verified_stays:
  assumes "journal_run ed limit db db'" "journal_ok db" "effect_to_row e \<in> set (db_effects db)" "ef_state e = VERIFIED"
  shows "effect_to_row e \<in> set (db_effects db')"
proof -
  obtain e' where "effect_to_row e' \<in> set (db_effects db')" "effect_later e e'"
    using run_effect [OF assms(1-3)] by blast
  moreover have "e' = e"
    using calculation(2) terminal_no_path assms(4) by (auto simp add: effect_later_def)
  ultimately show ?thesis by simp
qed

interpretation justified: world_relation "justified ed limit" for ed limit
proof
  fix w w1 w2 :: "'b world"
  show "justified ed limit w w" by (simp add: justified_def journal_run_refl)
  assume "justified ed limit w w1" "justified ed limit w1 w2"
  then obtain c1 c2 where run: "journal_run ed limit (w_journal w) (w_journal w1)" "journal_run ed limit (w_journal w1) (w_journal w2)"
    and calls: "w_calls w1 = w_calls w @ c1" "w_calls w2 = w_calls w1 @ c2"
    and first: "journal_ok (w_journal w) \<Longrightarrow> effect_to_row e \<in> set (db_effects (w_journal w1)) \<Longrightarrow> ef_state e = VERIFIED \<Longrightarrow>
      effect_to_row e \<in> set (db_effects (w_journal w)) \<or> (\<exists>call \<in> set c1. answered_by call e)"
    and second: "journal_ok (w_journal w1) \<Longrightarrow> effect_to_row e \<in> set (db_effects (w_journal w2)) \<Longrightarrow> ef_state e = VERIFIED \<Longrightarrow>
      effect_to_row e \<in> set (db_effects (w_journal w1)) \<or> (\<exists>call \<in> set c2. answered_by call e)" for e
    unfolding justified_def by blast
  have "effect_to_row e \<in> set (db_effects (w_journal w)) \<or> (\<exists>call \<in> set (c1 @ c2). answered_by call e)"
    if ok: "journal_ok (w_journal w)" and e: "effect_to_row e \<in> set (db_effects (w_journal w2))" "ef_state e = VERIFIED" for e
  proof -
    have "journal_ok (w_journal w1)" using run_ok [OF run(1) ok] .
    with second e consider "effect_to_row e \<in> set (db_effects (w_journal w1))" | "\<exists>call \<in> set c2. answered_by call e" by blast
    then show ?thesis by cases (use first [OF ok _ e(2)] in auto)
  qed
  then show "justified ed limit w w2"
    using journal_run_trans [OF run] calls unfolding justified_def by (intro conjI exI [of _ "c1 @ c2"]) auto
qed

interpretation allows: world_relation "allows ed limit V" for ed limit V
proof
  fix w w1 w2 :: "'b world"
  show "allows ed limit V w w" by (simp add: allows_def idle.refl)
  assume steps: "allows ed limit V w w1" "allows ed limit V w1 w2"
  then have "journal_ok (w_journal w) \<Longrightarrow> journal_ok (w_journal w1)" using run_ok by (auto simp add: allows_def idle_def)
  then show "allows ed limit V w w2" using steps idle.trans unfolding allows_def by blast
qed

section \<open>What the calls on the journal do to the effects\<close>

lemma transition_effects:
  assumes "journal_ok db" "transition io effect_id state now reason evidence db = (db', r)"
    and "effect_to_row e \<in> set (db_effects db')" "effect_to_row e \<notin> set (db_effects db)"
  shows "ef_effect_id e = effect_id \<and> ef_state e = state \<and> ef_reason_code e = reason \<and> ef_evidence_digest e = evidence"
proof (cases "transition_inputs effect_id state now reason evidence")
  case (Inl error)
  then show ?thesis using assms(2-4) by (simp add: transition_def)
next
  case (Inr inputs)
  then have inputs: "inputs = (effect_id, now, reason, evidence)"
    and valid: "0 \<le> now" "now \<le> MAX_SAFE_INTEGER" "safe_id_text reason" "digest_text evidence"
    by (auto simp add: transition_inputs_def accepts simp del: limits)
  have "immediate io (transition_tx effect_id state now reason evidence) db = (db', r)"
    using assms(2) Inr inputs by (simp add: transition_def)
  then show ?thesis
  proof (cases rule: immediate_cases)
    case unchanged
    then show ?thesis using assms(3,4) by simp
  next
    case (committed later)
    then obtain current where "ef_effect_id current = effect_id" "later = moved_record current state now reason evidence"
      "db' = moved_db db later"
      unfolding transition_tx_iff [OF assms(1) valid] by blast
    moreover have "effect_to_row e = effect_to_row later \<or> effect_to_row e \<in> set (db_effects db)"
      using assms(3) moved_mem by (auto simp add: calculation(3) moved_db_def)
    ultimately show ?thesis using assms(4) by (auto simp add: effect_to_row_inject moved_record_def)
  qed
qed

lemma claim_effects:
  assumes "journal_ok db" "length random = 16" "claim io ed random envelope route vf p live now db = (db', r)"
    and "effect_to_row e \<in> set (db_effects db')" "effect_to_row e \<notin> set (db_effects db)"
  shows "ef_state e = PREPARED"
  using assms(3)
proof (cases rule: claim_db_cases)
  case rejected
  then show ?thesis using assms(4,5) by simp
next
  case (tried env gb pb)
  show ?thesis
    using tried(2)
  proof (cases rule: immediate_cases)
    case unchanged
    then show ?thesis using assms(4,5) by simp
  next
    case (committed claimed)
    then obtain d where "db' = claimed_db db (uuid4 random) env route now gb pb d"
      using claim_step [OF assms(1,2) tried(1)] by blast
    then have "effect_to_row e = effect_to_row (claimed_record (uuid4 random) env d route now)"
      using assms(4,5) by (auto simp add: claimed_db_def claimed_record_row)
    then show ?thesis by (simp add: effect_to_row_inject claimed_record_def Let_def)
  qed
qed

lemma finalize_effects:
  assumes "finalize_receipt_unanchored io ed limit effect_id signer t db = (db', r)"
  shows "db_effects db' = db_effects db"
proof -
  have "db_effects db1 = db_effects db" if "finalize_tx ed limit signer i t db = Inr (db1, x)" for db1 x i t
    using that by (cases rule: finalize_tx_cases) auto
  then show ?thesis
    using assms by (auto simp add: finalize_receipt_unanchored_def elim!: immediate_cases split: sum.splits prod.splits)
qed

section \<open>All calls but one preserve the relations\<close>

definition alone_on :: "ed25519 \<Rightarrow> nat \<Rightarrow> 's ControlRuntime \<Rightarrow> bool" where
  "alone_on ed limit R \<longleftrightarrow> sound_platform ed limit R \<and> alone R"

lemma on_journal_alone:
  assumes "on_journal R f w = (w', r)" "alone R"
  obtains s io db where "w' = w\<lparr>w_env := s, w_journal := db\<rparr>" "f io (w_journal w) = (db, r)"
  using assms by (auto simp add: alone_def elim: on_journal_cases)

lemma allows_transition:
  assumes "alone_on ed limit R" "state = VERIFIED \<Longrightarrow> (\<And>e. ef_effect_id e = effect_id \<Longrightarrow> ef_reason_code e = reason \<Longrightarrow>
      ef_evidence_digest e = evidence \<Longrightarrow> V e)"
  shows "acts (allows ed limit V) (on_journal R (\<lambda>io. transition io effect_id state now reason evidence))"
proof (rule actsI)
  fix w w' r
  assume run: "on_journal R (\<lambda>io. transition io effect_id state now reason evidence) w = (w', r)"
  have idle: "idle ed limit w w'"
    using idle.journal_move run by (rule actsD) (use assms(1) in \<open>simp add: alone_on_def\<close>)
  have "alone R" using assms(1) by (simp add: alone_on_def)
  with run obtain s io db where w': "w' = w\<lparr>w_env := s, w_journal := db\<rparr>"
    and tx: "transition io effect_id state now reason evidence (w_journal w) = (db, r)" by (rule on_journal_alone)
  have "effect_to_row e \<in> set (db_effects (w_journal w)) \<or> V e"
    if "journal_ok (w_journal w)" "effect_to_row e \<in> set (db_effects db)" "ef_state e = VERIFIED" for e
    using transition_effects [OF that(1) tx that(2)] assms(2) that(3) by blast
  then show "allows ed limit V w w'" using idle by (simp add: allows_def w')
qed

interpretation allows: action_relation "allows ed limit V" "alone_on ed limit" "- {VERIFIED}" for ed limit V
proof
  fix w :: "'s world" and s R effect_id t state now reason evidence env route snap
  show "allows ed limit V w (w\<lparr>w_env := s\<rparr>)" by (simp add: allows_def idle.env_step)
  assume good: "alone_on ed limit R"
  then have sound: "sound_platform ed limit R" and alone: "alone R" by (simp_all add: alone_on_def)
  show "acts (allows ed limit V) (on_journal R (\<lambda>io. transition io effect_id state now reason evidence))"
    if "state \<in> - {VERIFIED}" using good that by (intro allows_transition) auto
  show "acts (allows ed limit V) (runtime_get R effect_id)"
  proof (rule actsI)
    fix w w' r
    assume run: "runtime_get R effect_id w = (w', r)"
    then have "w_journal w' = w_journal w"
      unfolding runtime_get_def by (rule on_journal_alone [OF _ alone]) simp
    then show "allows ed limit V w w'" using actsD [OF idle.acts_get [OF sound] run] by (simp add: allows_def)
  qed
  show "acts (allows ed limit V) (runtime_finalize R effect_id t)"
  proof (rule actsI)
    fix w w' r
    assume run: "runtime_finalize R effect_id t w = (w', r)"
    obtain s0 io db s allowed where w': "w' = w\<lparr>w_env := s, w_journal := db, w_bootstrap := allowed\<rparr>"
      and fin: "finalize_receipt (pf_anchor (rt_platform R)) io (rt_ed25519 R) (rt_recursion_limit R) effect_id
        (rt_receipt_signer R) t (w_bootstrap w) (pf_others (rt_platform R) s0 (w_journal w)) s0 = (db, s, allowed, r)"
      using run by (rule runtime_finalize_cases)
    obtain r' where "finalize_receipt_unanchored io (rt_ed25519 R) (rt_recursion_limit R) effect_id (rt_receipt_signer R) t
        (w_journal w) = (db, r')"
      using finalize_receipt_unanchored_part [OF fin] alone by (auto simp add: alone_def)
    then have "db_effects db = db_effects (w_journal w)" by (rule finalize_effects)
    then show "allows ed limit V w w'" using actsD [OF idle.acts_finalize [OF sound] run] by (simp add: allows_def w')
  qed
  show "acts (allows ed limit V) (runtime_claim R env route snap now)"
  proof (rule actsI)
    fix w w' r
    assume run: "runtime_claim R env route snap now w = (w', r)"
    obtain s0 random where token: "pf_token (rt_platform R) (w_env w) = (s0, random)" by fastforce
    have random: "length random = 16" using sound token by (metis sound_platform_def snd_conv)
    have "on_journal R (\<lambda>io. claim io (rt_ed25519 R) random env route (rt_verifier R) (rt_policy R) snap now) (w\<lparr>w_env := s0\<rparr>)
        = (w', r)"
      using run by (simp add: runtime_claim_def andthen_def ask_def token)
    then obtain s io db where w': "w' = w\<lparr>w_env := s0, w_env := s, w_journal := db\<rparr>"
      and tx: "claim io (rt_ed25519 R) random env route (rt_verifier R) (rt_policy R) snap now (w_journal w) = (db, r)"
      using alone by (rule on_journal_alone) simp
    have "effect_to_row e \<in> set (db_effects (w_journal w)) \<or> ef_state e \<noteq> VERIFIED"
      if "journal_ok (w_journal w)" "effect_to_row e \<in> set (db_effects db)" for e
      using claim_effects [OF that(1) random tx that(2)] by auto
    then show "allows ed limit V w w'" using actsD [OF idle.acts_claim [OF sound] run] by (auto simp add: allows_def w')
  qed
qed

lemma allows_justified: "acts (allows ed limit (\<lambda>_. False)) m \<Longrightarrow> acts (justified ed limit) m"
  by (simp add: acts_def allows_def justified_def idle_def)

interpretation justified: action_relation "justified ed limit" "alone_on ed limit" "- {VERIFIED}" for ed limit
  by unfold_locales
    (simp_all add: allows_justified allows.acts_claim allows.acts_get allows.acts_finalize allows.acts_move,
      simp add: justified_def journal_run_refl)

section \<open>Reconciliation\<close>

lemma allows_settle_verified:
  assumes "alone_on ed limit R" "\<And>e. ef_effect_id e = ef_effect_id record \<Longrightarrow> ef_reason_code e = reason \<Longrightarrow>
    ef_evidence_digest e = evidence \<Longrightarrow> V e"
  shows "acts (allows ed limit V) (settle R record VERIFIED reason evidence crash)"
  unfolding settle_def runtime_transition_def
  by (intro allows.acts_andthen allows.acts_now allows_transition allows.acts_receipt allows.acts_simple assms)
    (simp_all add: allows.acts_crash assms)

lemma runtime_transition_id:
  assumes "runtime_transition R record state reason evidence crash w = (w', Inr later)"
  shows "ef_effect_id later = ef_effect_id record"
proof -
  obtain w1 w2 t where "on_journal R (\<lambda>io. transition io (ef_effect_id record) state t reason evidence) w1 = (w2, Inr later)"
    using assms unfolding runtime_transition_def by (auto elim!: andthen_InrE)
  then obtain io db db' where "transition io (ef_effect_id record) state t reason evidence db = (db', Inr later)"
    by (rule on_journal_cases)
  then obtain db1 where "effect_from_connection db1 (ef_effect_id record) = Inr later"
    by (auto simp add: transition_def transition_inputs_def transition_tx_def accepts Let_def dest!: immediate_Inr
        split: sum.splits simp del: limits)
  then show ?thesis
    by (auto simp add: effect_from_connection_def accepts effect_to_row_def dest!: lookup_Some_D split: option.splits)
qed

lemma allows_record_result:
  assumes good: "alone_on ed limit R"
    and V: "\<And>e. ar_disposition result = RECONCILED_VERIFIED \<Longrightarrow> ef_effect_id e = ef_effect_id record \<Longrightarrow>
      ef_reason_code e = ar_reason_code result \<Longrightarrow> ef_evidence_digest e = ar_evidence_digest result \<Longrightarrow> V e"
  shows "acts (allows ed limit V) (record_result R record crash result)"
proof (cases "ar_disposition result")
  case RECONCILED_VERIFIED
  have "acts (allows ed limit V) (settle R later VERIFIED (ar_reason_code result) (ar_evidence_digest result) crash)"
    if "ef_effect_id later = ef_effect_id record" for later
    by (rule allows_settle_verified [OF good]) (use V RECONCILED_VERIFIED that in simp)
  then show ?thesis
    unfolding record_result_def RECONCILED_VERIFIED ReconciliationDisposition.case
    by (intro allows.acts_andthen_result)
      (auto intro!: allows.acts_transition [OF good] allows.acts_simple dest: runtime_transition_id split: if_splits)
next
  case RECONCILED_FAILED
  then show ?thesis using allows.acts_settle [OF good] by (simp add: record_result_def)
next
  case RECONCILED_UNKNOWN
  then show ?thesis
    unfolding record_result_def RECONCILED_UNKNOWN ReconciliationDisposition.case
    by (intro allows.acts_andthen allows.acts_receipt [OF good])
      (auto intro!: allows.acts_transition [OF good] allows.acts_simple)
qed

lemma justified_reconcile:
  assumes good: "alone_on ed limit R"
  shows "acts (justified ed limit) (runtime_reconcile R A record env crash)"
proof (rule actsI)
  fix w w' r
  let ?request = "en_request env"
  assume run: "runtime_reconcile R A record env crash w = (w', r)"
  obtain s reply where reply: "adapter_reconcile A (ef_effect_id record) ?request (ef_route record) (w_env w) = (s, reply)"
    by fastforce
  let ?call = "Reconciled record ?request reply"
  let ?w1 = "w\<lparr>w_env := s, w_calls := w_calls w @ [?call]\<rparr>"
  have run1: "andthen (lift_result (reconciliation_result reply)) (\<lambda>answer.
      andthen (lift_result (accepted_result (ef_effect_id record) ?request answer)) (record_result R record crash)) ?w1 = (w', r)"
    using run by (simp add: runtime_reconcile_def andthen_def [of "call_reconcile A record ?request"] call_reconcile_def reply)
  have "acts (allows ed limit (answered_by ?call)) (record_result R record crash result)"
    if answer: "reconciliation_result reply = Inr answer" "accepted_result (ef_effect_id record) ?request answer = Inr result"
    for answer result
  proof (rule allows_record_result [OF good])
    fix e :: ControlEffectRecord
    assume "ar_disposition result = RECONCILED_VERIFIED" "ef_effect_id e = ef_effect_id record"
      "ef_reason_code e = ar_reason_code result" "ef_evidence_digest e = ar_evidence_digest result"
    then show "answered_by ?call e" using verified_answer [OF answer] by (auto simp add: answered_by_def)
  qed
  then have "acts (allows ed limit (answered_by ?call)) (andthen (lift_result (reconciliation_result reply)) (\<lambda>answer.
      andthen (lift_result (accepted_result (ef_effect_id record) ?request answer)) (record_result R record crash)))"
    by (intro allows.acts_andthen_result allows.acts_simple) simp_all
  then have "allows ed limit (answered_by ?call) ?w1 w'" using run1 by (rule actsD)
  then show "justified ed limit w w'" by (auto simp add: allows_def justified_def idle_def intro!: exI [of _ "[?call]"])
qed

lemma justified_dispatch: "acts (justified ed limit) (call_dispatch A record request)"
  by (rule actsI) (auto simp add: call_dispatch_def justified_def journal_run_refl split: prod.splits)

interpretation justified: executing_relation "justified ed limit" "alone_on ed limit" "- {VERIFIED}" for ed limit
  by unfold_locales (simp_all add: justified_reconcile justified_dispatch)

section \<open>What the adapter is asked\<close>

text \<open>Every reconciliation asks about a record of the journal with the request this record is bound to.\<close>

definition asked_rightly :: "journal_db \<Rightarrow> adapter_call list \<Rightarrow> bool" where
  "asked_rightly db calls \<longleftrightarrow> (\<forall>record request reply. Reconciled record request reply \<in> set calls \<longrightarrow>
     request_bound record request \<and> (\<exists>e. effect_to_row e \<in> set (db_effects db) \<and> effect_later record e))"

lemma reconcile_calls:
  assumes "sound_platform ed limit R" "runtime_reconcile R A record env crash w = (w', r)"
  shows "\<exists>reply. w_calls w' = w_calls w @ [Reconciled record (en_request env) reply] \<and> journal_run ed limit (w_journal w) (w_journal w')"
proof -
  obtain s reply where reply: "adapter_reconcile A (ef_effect_id record) (en_request env) (ef_route record) (w_env w) = (s, reply)"
    by fastforce
  define w1 where "w1 = w\<lparr>w_env := s, w_calls := w_calls w @ [Reconciled record (en_request env) reply]\<rparr>"
  have call: "call_reconcile A record (en_request env) w = (w1, Inr reply)" by (simp add: call_reconcile_def reply w1_def)
  have "acts (idle ed limit) (andthen (lift_result (reconciliation_result reply)) (\<lambda>answer.
      andthen (lift_result (accepted_result (ef_effect_id record) (en_request env) answer)) (record_result R record crash)))"
    by (intro idle.acts_andthen idle.acts_simple idle.acts_record_result assms(1) refl)
  moreover have "andthen (lift_result (reconciliation_result reply)) (\<lambda>answer.
      andthen (lift_result (accepted_result (ef_effect_id record) (en_request env) answer)) (record_result R record crash)) w1 = (w', r)"
    using assms(2) unfolding runtime_reconcile_def andthen_Inr [of "call_reconcile A record (en_request env)", OF call] .
  ultimately have "idle ed limit w1 w'" by (rule actsD)
  then show ?thesis by (auto simp add: idle_def w1_def)
qed

lemma reconcile_asks:
  assumes "sound_platform ed limit R" "journal_ok (w_journal w)" "runtime_reconcile R A record env crash w = (w', r)"
    and "effect_to_row record \<in> set (db_effects (w_journal w))" "request_bound record (en_request env)"
  shows "\<exists>reply. w_calls w' = w_calls w @ [Reconciled record (en_request env) reply]
    \<and> asked_rightly (w_journal w') [Reconciled record (en_request env) reply]"
proof -
  obtain reply where call: "w_calls w' = w_calls w @ [Reconciled record (en_request env) reply]"
    and run: "journal_run ed limit (w_journal w) (w_journal w')"
    using reconcile_calls [OF assms(1,3)] by blast
  show ?thesis using call run_effect [OF run assms(2,4)] assms(5) by (auto simp add: asked_rightly_def)
qed

lemma recovery_request:
  assumes "verify_recovery_binding R record envelope = Inr parsed" shows "request_bound record (en_request parsed)"
proof -
  obtain env d route where "ControlRequest_digest (en_request env) = Inr d" "recovery_bindings record env d route" "env = parsed"
    using assms unfolding verify_recovery_binding_def rbind_Inr_iff by (elim exE conjE) (simp split: if_splits)
  then show ?thesis by (simp add: recovery_bindings_def request_bound_def Let_def)
qed

lemma runtime_get_row:
  assumes "runtime_get R effect_id w = (w', Inr record)" "journal_ok (w_journal w')"
  shows "effect_to_row record \<in> set (db_effects (w_journal w'))"
proof -
  obtain io db where "journal_get io effect_id db = Inr record" "w_journal w' = db"
    using assms(1) unfolding runtime_get_def by (auto elim!: on_journal_cases)
  then have "effect_from_connection (w_journal w') effect_id = Inr record"
    by (auto simp add: journal_get_def accepts dest!: reader_Inr)
  moreover have "effects_ok (db_effects (w_journal w')) (db_permits (w_journal w'))" using assms(2) by (simp add: journal_ok_def)
  ultimately show ?thesis by (simp add: effect_from_connection_Inr)
qed

lemma asked_nothing: "asked_rightly db []"
  by (simp add: asked_rightly_def)

lemma recover_asks:
  assumes "sound_platform ed limit R" "journal_ok (w_journal w)" "runtime_recover R A effect_id envelope crash w = (w', r)"
  shows "\<exists>calls. w_calls w' = w_calls w @ calls \<and> asked_rightly (w_journal w') calls"
proof -
  have quiet: ?thesis if "idle ed limit w w'" using that asked_nothing by (auto simp add: idle_def)
  show ?thesis
    using assms(3) unfolding runtime_recover_def
  proof (cases rule: andthen_cases)
    case stopped
    then show ?thesis using quiet actsD [OF idle.acts_get [OF assms(1)]] by blast
  next
    case (continued w1 found)
    have idle1: "idle ed limit w w1" using idle.acts_get [OF assms(1)] continued(1) by (rule actsD)
    then have ok1: "journal_ok (w_journal w1)" using run_ok assms(2) by (auto simp add: idle_def)
    have row: "effect_to_row found \<in> set (db_effects (w_journal w1))" using runtime_get_row [OF continued(1) ok1] .
    show ?thesis
      using continued(2)
    proof (cases rule: andthen_cases)
      case stopped
      then show ?thesis using quiet idle1 by (simp add: lift_result_def)
    next
      case bound: (continued w2 parsed)
      then have w2: "w2 = w1" "verify_recovery_binding R found envelope = Inr parsed" by (simp_all add: lift_result_def)
      show ?thesis
      proof (cases "ef_state found \<in> {STARTED, APPLIED, UNKNOWN}")
        case True
        then have "runtime_reconcile R A found parsed crash w1 = (w', r)" using bound(2) w2(1) by auto
        from reconcile_asks [OF assms(1) ok1 this row recovery_request [OF w2(2)]] show ?thesis using idle1 by (auto simp add: idle_def)
      next
        case False
        have "acts (idle ed limit) (settle R found FAILED (str ''recovered_before_dispatch'') EMPTY_EVIDENCE_DIGEST crash)"
          "acts (idle ed limit) (runtime_receipt R found crash)"
          by (intro idle.acts_settle idle.acts_receipt assms(1) UNIV_I)+
        then have "idle ed limit w1 w'" using False bound(2) w2(1) by (auto split: if_splits dest: actsD)
        then show ?thesis using quiet idle.trans [OF idle1] by blast
      qed
    qed
  qed
qed

text \<open>After the dispatch the runtime is idle, or the effect is applied and then reconciled.\<close>

lemma after_dispatch_cases:
  assumes "sound_platform ed limit R" "after_dispatch R A env record crash reply w = (w', outcome)"
  obtains (quiet) "idle ed limit w w'"
  | (applying) w1 w2 evidence later where "idle ed limit w w1"
      "runtime_transition R record APPLIED (str ''none'') evidence crash w1 = (w2, Inr later)"
      "runtime_reconcile R A later env crash w2 = (w', outcome)"
proof -
  have settles: "acts (idle ed limit) (settle R record state reason evidence crash)" for state reason evidence
    by (intro idle.acts_settle assms(1) UNIV_I)
  have moves: "acts (idle ed limit) (runtime_transition R record state reason evidence crash)" for state reason evidence
    by (intro idle.acts_transition assms(1) UNIV_I)
  consider "reply = Crashed" | "reply = Raised" | "reply \<noteq> Crashed" "reply \<noteq> Raised" by blast
  then show thesis
  proof cases
    case 1
    then show thesis using assms(2) quiet by (simp add: after_dispatch_def throw_def idle.refl)
  next
    case 2
    then show thesis using assms(2) quiet actsD [OF settles] by (simp add: after_dispatch_def)
  next
    case 3
    define answer where "answer = (case reply of Reply (disposition, reason_code, evidence_digest) \<Rightarrow>
        AdapterDispatchResult_init disposition reason_code evidence_digest | _ \<Rightarrow> Inl (ValueError ''dispatch_type''))"
    have run: "andthen (maybe_crash crash AFTER_DISPATCH) (\<lambda>_. case answer of
          Inl _ \<Rightarrow> settle R record UNKNOWN (str ''adapter_protocol'') EMPTY_EVIDENCE_DIGEST crash
        | Inr result \<Rightarrow>
           (case ad_disposition result of
              DISPATCH_REJECTED \<Rightarrow> settle R record FAILED (ad_reason_code result) (ad_evidence_digest result) crash
            | DISPATCH_UNKNOWN \<Rightarrow> settle R record UNKNOWN (ad_reason_code result) (ad_evidence_digest result) crash
            | DISPATCH_APPLIED \<Rightarrow>
                andthen (runtime_transition R record APPLIED (str ''none'') (ad_evidence_digest result) crash) (\<lambda>applied.
                runtime_reconcile R A applied env crash))) w = (w', outcome)"
      using assms(2) 3 by (cases reply) (simp_all add: after_dispatch_def answer_def)
    then show thesis
    proof (cases rule: andthen_cases)
      case stopped
      then show thesis using quiet actsD [OF idle.acts_crash] by blast
    next
      case (continued w1 u)
      have idle1: "idle ed limit w w1" using idle.acts_crash continued(1) by (rule actsD)
      show thesis
      proof (cases "\<exists>result. answer = Inr result \<and> ad_disposition result = DISPATCH_APPLIED")
        case True
        then obtain evidence where "andthen (runtime_transition R record APPLIED (str ''none'') evidence crash) (\<lambda>applied.
            runtime_reconcile R A applied env crash) w1 = (w', outcome)"
          using continued(2) by auto
        then show thesis
        proof (cases rule: andthen_cases)
          case stopped
          then show thesis using quiet idle.trans [OF idle1 actsD [OF moves]] by blast
        next
          case move: (continued w2 later)
          with idle1 show thesis by (rule applying)
        qed
      next
        case False
        then have "idle ed limit w1 w'"
          using continued(2) by (auto split: sum.splits DispatchDisposition.splits dest: actsD [OF settles])
        then show thesis using quiet idle.trans [OF idle1] by blast
      qed
    qed
  qed
qed

lemma runtime_transition_row:
  assumes "runtime_transition R record state reason evidence crash w = (w', Inr later)" "sound_platform ed limit R"
    and "journal_ok (w_journal w)"
  shows "effect_to_row later \<in> set (db_effects (w_journal w'))"
proof -
  obtain w1 w2 t where clock: "runtime_now R w = (w1, Inr t)"
    and call: "on_journal R (\<lambda>io. transition io (ef_effect_id record) state t reason evidence) w1 = (w2, Inr later)"
    and point: "(case crash_for_state state of None \<Rightarrow> done_with () | Some point \<Rightarrow> maybe_crash crash point) w2 = (w', Inr ())"
    using assms(1) unfolding runtime_transition_def by (auto elim!: andthen_InrE)
  have w2: "w' = w2" using point by (auto simp add: maybe_crash_def split: option.splits if_splits)
  have "idle ed limit w w1" using idle.acts_now clock by (rule actsD)
  then have ok: "journal_ok (w_journal w1)" using run_ok assms(3) by (auto simp add: idle_def)
  obtain s io db where w': "w2 = w1\<lparr>w_env := s, w_journal := db\<rparr>"
    and tx: "transition io (ef_effect_id record) state t reason evidence (pf_others (rt_platform R) s (w_journal w1)) = (db, Inr later)"
    using call by (rule on_journal_cases)
  have "journal_ok (pf_others (rt_platform R) s (w_journal w1))" using run_ok ok assms(2) by (metis sound_platform_def)
  from transition_success [OF this tx] have "effect_to_row later \<in> set (db_effects db)" by metis
  then show ?thesis by (simp add: w2 w')
qed

lemma execute_asks:
  assumes "sound_platform ed limit R" "journal_ok (w_journal w)" "runtime_execute R A envelope crash w = (w', outcome)"
  shows "\<exists>calls. w_calls w' = w_calls w @ calls \<and> asked_rightly (w_journal w') calls"
  using assms(1,3)
proof (cases rule: execute_cases)
  case nothing
  then show ?thesis using asked_nothing by (auto simp add: idle_def)
next
  case (dispatch w1 w2 w3 env claimed started reply)
  note started = started_record [OF assms(1,2) dispatch(1,2)]
  have calls: "w_calls w3 = w_calls w @ [Dispatched started (en_request env) (w_journal w2)]"
    using dispatch(3,4,7) by (simp add: idle_def)
  have run: "journal_run ed limit (w_journal w) (w_journal w3)"
    using dispatch(3,4,6) journal_run_trans by (simp add: idle_def) blast
  then have ok3: "journal_ok (w_journal w3)" using run_ok assms(2) by blast
  have row3: "effect_to_row started \<in> set (db_effects (w_journal w3))" using started(5) dispatch(6) by simp
  have bound: "request_bound started (en_request env)" using started(2) by (simp add: bound_to_def)
  show ?thesis
    using assms(1) dispatch(8)
  proof (cases rule: after_dispatch_cases)
    case quiet
    then show ?thesis using calls by (auto simp add: idle_def asked_rightly_def)
  next
    case (applying w4 w5 evidence later)
    have ok4: "journal_ok (w_journal w4)" using run_ok ok3 applying(1) by (auto simp add: idle_def)
    have idle5: "idle ed limit w4 w5"
      using idle.acts_transition [OF assms(1) UNIV_I] applying(2) by (rule actsD)
    then have ok5: "journal_ok (w_journal w5)" using run_ok ok4 by (auto simp add: idle_def)
    have row5: "effect_to_row later \<in> set (db_effects (w_journal w5))" using runtime_transition_row [OF applying(2) assms(1) ok4] .
    have "journal_run ed limit (w_journal w3) (w_journal w5)"
      using applying(1) idle5 journal_run_trans by (simp add: idle_def) blast
    from same_row_later [OF ok3 this row3 row5 runtime_transition_id [OF applying(2)]] bound
    have "request_bound later (en_request env)" by (rule request_bound_later)
    from reconcile_asks [OF assms(1) ok5 applying(3) row5 this] show ?thesis
      using calls applying(1) idle5 by (auto simp add: idle_def asked_rightly_def)
  qed
qed

section \<open>The property\<close>

text \<open>C3: Nothing is reported verified without evidence. When the runtime is alone on the journal (\<open>alone R\<close>),
  an effect that \<open>execute\<close> or \<open>recover\<close> makes verified was answered as verified by the adapter in this very
  call, with the reason and evidence the journal now holds; the adapter was asked about an earlier record of
  this effect and with its request, whose digest, operation, target, epoch, revision, fence and snapshot are
  those of the effect; and for an effect whose operation may change the target, the answer carried a
  well-formed snapshot of the target taken after the one of the request, with current epoch, revision and
  fence, to which the evidence digest is bound.\<close>

theorem verified_needs_evidence:
  assumes "runtime_run ed limit w" "sound_platform ed limit R" "alone R"
    and "runtime_execute R A envelope crash w = (w', outcome) \<or> runtime_recover R A effect_id envelope crash w = (w', outcome)"
    and "effect_to_row e \<in> set (db_effects (w_journal w'))" "ef_state e = VERIFIED"
    and "effect_to_row e \<notin> set (db_effects (w_journal w))"
  shows "\<exists>calls. w_calls w' = w_calls w @ calls \<and> (\<exists>call \<in> set calls. justified_by call e)"
proof -
  have good: "alone_on ed limit R" using assms(2,3) by (simp add: alone_on_def)
  have ok: "journal_ok (w_journal w)" using runtime_run_inv [OF assms(1)] by (simp add: dispatch_inv_def)
  have just: "justified ed limit w w'"
    using assms(4) actsD [OF justified.acts_execute [OF good]] actsD [OF justified.acts_recover [OF good]] by blast
  then obtain calls call where calls: "w_calls w' = w_calls w @ calls" "call \<in> set calls" "answered_by call e"
    using ok assms(5-7) unfolding justified_def by blast
  obtain asked request reply where call: "call = Reconciled asked request reply" "ef_effect_id asked = ef_effect_id e"
    using calls(3) unfolding answered_by_def by blast
  have "asked_rightly (w_journal w') calls"
    using assms(4) execute_asks [OF assms(2) ok] recover_asks [OF assms(2) ok] calls(1) by fastforce
  then obtain e' where e': "request_bound asked request" "effect_to_row e' \<in> set (db_effects (w_journal w'))" "effect_later asked e'"
    using calls(2) call(1) unfolding asked_rightly_def by blast
  have "journal_ok (w_journal w')" using just run_ok ok by (auto simp add: justified_def)
  then have "e' = e" using effect_in_db e'(2) assms(5) effect_later_id [OF e'(3)] call(2) by metis
  then have "effect_later asked e" "request_bound e request" using e'(1,3) request_bound_later by blast+
  then show ?thesis using calls answered_justified call(1) by blast
qed

end
