(* ===== verification/Runtime_Complete.thy ===== *)
theory Runtime_Complete
  imports Runtime_Evidence
begin

text \<open>
  Recovery settles. On a platform that works (the database answers, the clock does not go back, nobody
  else writes, an anchor store that is configured is a compare-and-set cell) and with an adapter that
  answers at all, \<open>recover\<close> ends every interrupted effect with a signed receipt.
\<close>

section \<open>Evidence and answers that are defined\<close>

definition answer_ok :: "AdapterReconciliationResult \<Rightarrow> bool" where
  "answer_ok r \<longleftrightarrow> safe_id_text (ar_reason_code r) \<and> ar_reason_code r \<noteq> str ''none'' \<and> digest_text (ar_evidence_digest r)
     \<and> (\<forall>s. ar_postcondition r = Some s \<longrightarrow> SnapshotRef_ok s)"

text \<open>An adapter that answers, and whose snapshots are well formed. (The constructor of the result checks
  the snapshot, but what it raises is not among the exceptions \<open>_reconcile\<close> catches.)\<close>

definition wellformed_reply :: "reconcile_reply \<Rightarrow> bool" where
  "wellformed_reply reply \<longleftrightarrow> reply \<noteq> Crashed
     \<and> (\<forall>d reason evidence s. reply = Reply (d, reason, evidence, Postcondition s) \<longrightarrow> SnapshotRef_ok s)"

lemma content_digest_fits:
  "fits h b v \<Longrightarrow> h \<le> MAX_JSON_DEPTH \<Longrightarrow> fst b \<le> MAX_JSON_ITEMS \<Longrightarrow> snd b \<le> MAX_FRAME_BYTES \<Longrightarrow> \<exists>d. content_digest v = Inr d"
  using fits_canonical by (fastforce simp add: content_digest_def)

lemma evidence_defined:
  assumes "canonical_uuid_text effect_id" "safe_id_text state" "SnapshotRef_ok s"
  shows "\<exists>d. fresh_postcondition_evidence effect_id state s = Inr d"
proof -
  have "fits (Suc 0) (9, 24800) (PDict (items [(''effect_id'', PStr effect_id), (''state'', PStr state)]))"
    by (rule fits_leaves) (use assms in \<open>simp_all add: fits_texts char_classes field_name_text_def str_def\<close>)
  then have "\<exists>d. structural_evidence effect_id state = Inr d"
    using content_digest_fits assms(1,2) by (fastforce simp add: structural_evidence_def limits)
  moreover have "fits (Suc (Suc 0)) (1 + sum_list (map (\<lambda>b. 1 + fst b) [leaf_bound, leaf_bound, (15, 1400)]),
      2 + sum_list (map (\<lambda>b. 68 + snd b) [leaf_bound, leaf_bound, (15, 1400)]))
      (PDict (items [(''effect_id'', PStr effect_id), (''state'', PStr state), (''postcondition'', SnapshotRef_to_dict s)]))"
    by (rule fits_items) (use assms in \<open>simp add: fits_fields_leaf snapshot_fits char_classes field_name_text_def str_def\<close>)
  then have "\<exists>d. content_digest (PDict (items [(''effect_id'', PStr effect_id), (''state'', PStr state),
      (''postcondition'', SnapshotRef_to_dict s)])) = Inr d"
    by (rule content_digest_fits) (simp_all add: limits)
  ultimately show ?thesis using snapshot.from_to [OF assms(3)] by (auto simp add: fresh_postcondition_evidence_def)
qed

lemma reason_texts:
  "safe_id_text (str ''reconciliation_exception'')" "safe_id_text (str ''reconciliation_protocol'')"
  "safe_id_text (str ''postcondition_missing'')" "safe_id_text (str ''postcondition_stale'')"
  "safe_id_text (str ''postcondition_target'')" "safe_id_text (str ''postcondition_evidence'')"
  "safe_id_text (str ''recovered_before_dispatch'')" "safe_id_text (str ''invalid_adapter_reason'')"
  by (simp_all add: safe_id_text_def str_def char_classes)

lemma unknown_ok: "safe_id_text (str reason) \<Longrightarrow> reason \<noteq> ''none'' \<Longrightarrow> answer_ok (unknown_result (str reason))"
  by (simp add: answer_ok_def unknown_result_def empty_digests str_inject)

lemma init_answer:
  assumes "\<And>s. post = Postcondition s \<Longrightarrow> SnapshotRef_ok s"
  shows "(\<exists>label. AdapterReconciliationResult_init d reason evidence post = Inl (ValueError label))
    \<or> (\<exists>answer. AdapterReconciliationResult_init d reason evidence post = Inr answer \<and> answer_ok answer)"
proof (cases "AdapterReconciliationResult_init d reason evidence post")
  case (Inl error)
  have "\<exists>label. postcondition_checked dis post = Inl (ValueError label)" if "postcondition_checked dis post = Inl x" for dis x
    using that assms snapshot.from_to by (cases post) (auto simp add: postcondition_checked_def split: if_splits)
  then show ?thesis
    using Inl by (auto simp add: AdapterReconciliationResult_init_def Let_def rbind_eq_Inl_iff require_eq_Inl_iff evidence_text_def
        split: option.splits py.splits if_splits)
next
  case (Inr answer)
  then have "safe_id_text (ar_reason_code answer) \<and> ar_reason_code answer \<noteq> str ''none'' \<and> digest_text (ar_evidence_digest answer)"
    by (auto simp add: AdapterReconciliationResult_init_def Let_def accepts evidence_text_def safe_reason_def reason_texts
        split: option.splits py.splits if_splits)
  then show ?thesis using Inr reconciliation_init_Inr [OF Inr] by (simp add: answer_ok_def)
qed

lemma answer_defined:
  assumes "wellformed_reply reply"
  shows "\<exists>answer. reconciliation_result reply = Inr answer \<and> answer_ok answer"
proof (cases reply)
  case (Reply raw)
  obtain d reason evidence post where raw: "raw = (d, reason, evidence, post)" by (cases raw)
  show ?thesis
    using init_answer [of post d reason evidence] assms unknown_ok reason_texts
    by (auto simp add: Reply raw wellformed_reply_def reconciliation_result_def)
qed (use assms unknown_ok reason_texts in \<open>auto simp add: wellformed_reply_def reconciliation_result_def\<close>)

lemma accepted_defined:
  assumes "answer_ok answer" "canonical_uuid_text effect_id"
  shows "\<exists>result. accepted_result effect_id request answer = Inr result \<and> answer_ok result"
proof -
  have "\<exists>problem. postcondition_error effect_id request answer = Inr problem
      \<and> (\<forall>reason. problem = Some reason \<longrightarrow> safe_id_text (str reason) \<and> reason \<noteq> ''none'')"
  proof (cases "ar_postcondition answer")
    case None
    then show ?thesis by (simp add: postcondition_error_def reason_texts)
  next
    case (Some s)
    then obtain d where "fresh_postcondition_evidence effect_id (ar_reason_code answer) s = Inr d"
      using evidence_defined [OF assms(2), of "ar_reason_code answer" s] assms(1) by (auto simp add: answer_ok_def)
    then show ?thesis using Some by (auto simp add: postcondition_error_def Let_def reason_texts)
  qed
  then show ?thesis using assms(1) unknown_ok by (auto simp add: accepted_result_def split: option.splits)
qed

section \<open>A platform that works\<close>

text \<open>
  \<open>tick\<close> is the time the clock shows in a state of the platform, \<open>cell\<close> the value the anchor store holds there
  for each journal. Only the anchor store itself changes its value.
\<close>

definition ticks :: "('s \<Rightarrow> int) \<Rightarrow> ('s \<Rightarrow> pystr \<Rightarrow> bytes option) \<Rightarrow> 's \<Rightarrow> 's \<Rightarrow> bool" where
  "ticks tick cell s s' \<longleftrightarrow> tick s \<le> tick s' \<and> cell s' = cell s"

lemma ticks_trans: "ticks tick cell s s1 \<Longrightarrow> ticks tick cell s1 s2 \<Longrightarrow> ticks tick cell s s2"
  by (simp add: ticks_def)

definition healthy ::
    "'s ControlRuntime \<Rightarrow> 's ControlAdapter \<Rightarrow> ('s \<Rightarrow> int) \<Rightarrow> ('s \<Rightarrow> pystr \<Rightarrow> bytes option) \<Rightarrow> bool" where
  "healthy R A tick cell \<longleftrightarrow> alone R
     \<and> (\<forall>st. pf_anchor (rt_platform R) = Some st \<longrightarrow> anchor_cell st cell (rt_recursion_limit R))
     \<and> (\<forall>s. snd (pf_faults (rt_platform R) s) = io_ok \<and> ticks tick cell s (fst (pf_faults (rt_platform R) s)))
     \<and> (\<forall>s. snd (pf_clock (rt_platform R) s) = Some (tick s) \<and> 0 \<le> tick s \<and> tick s \<le> MAX_SAFE_INTEGER
          \<and> ticks tick cell s (fst (pf_clock (rt_platform R) s)))
     \<and> (\<forall>effect_id request route s. ticks tick cell s (fst (adapter_reconcile A effect_id request route s))
          \<and> wellformed_reply (snd (adapter_reconcile A effect_id request route s)))"

lemma healthy_now:
  assumes "healthy R A tick cell"
  shows "\<exists>s. runtime_now R w = (w\<lparr>w_env := s\<rparr>, Inr (tick (w_env w))) \<and> ticks tick cell (w_env w) s"
proof -
  obtain s v where "pf_clock (rt_platform R) (w_env w) = (s, v)" by fastforce
  moreover from this have "v = Some (tick (w_env w))" "ticks tick cell (w_env w) s" "0 \<le> tick (w_env w)" "tick (w_env w) \<le> MAX_SAFE_INTEGER"
    using assms unfolding healthy_def by (metis fst_conv snd_conv)+
  ultimately show ?thesis
    by (intro exI [of _ s]) (simp add: runtime_now_def andthen_def ask_def done_with_def del: limits)
qed

lemma healthy_on_journal:
  assumes "healthy R A tick cell" "f io_ok (w_journal w) = (db, r)"
  shows "\<exists>s. on_journal R f w = (w\<lparr>w_env := s, w_journal := db\<rparr>, r) \<and> ticks tick cell (w_env w) s"
proof -
  obtain s io where "pf_faults (rt_platform R) (w_env w) = (s, io)" by fastforce
  moreover from this have "io = io_ok" "ticks tick cell (w_env w) s"
    using assms(1) unfolding healthy_def by (metis fst_conv snd_conv)+
  moreover have "pf_others (rt_platform R) s db = db" for db using assms(1) by (simp add: healthy_def alone_def)
  ultimately show ?thesis using assms(2) by (intro exI [of _ s]) (simp add: on_journal_def)
qed

lemma transition_defined:
  assumes "journal_ok db" "effect_to_row e \<in> set (db_effects db)" "state \<in> ALLOWED_TRANSITIONS (ef_state e)"
    and "state \<in> {STARTED, APPLIED} \<longleftrightarrow> reason = str ''none''" "safe_id_text reason" "digest_text evidence"
    and "ef_updated_at_ms e \<le> t" "0 \<le> t" "t \<le> MAX_SAFE_INTEGER"
    and "state = STARTED \<Longrightarrow> start_checks e t db = Inr ()"
  defines "later \<equiv> moved_record e state t reason evidence"
  shows "transition io_ok (ef_effect_id e) state t reason evidence db = (moved_db db later, Inr later)"
    and "effect_to_row later \<in> set (db_effects (moved_db db later))" "journal_ok (moved_db db later)"
proof -
  have tx: "transition_tx (ef_effect_id e) state t reason evidence db = Inr (moved_db db later, later)"
    unfolding transition_tx_iff [OF assms(1,8,9,5,6)] later_def using assms by blast
  have "ControlEffectRecord_ok e"
    using assms(1,2) by (auto simp add: journal_ok_def effects_ok_def effect_to_row_inject)
  then have "canonical_uuid_text (ef_effect_id e)" by (simp add: ControlEffectRecord_ok_def)
  then have "transition_inputs (ef_effect_id e) state t reason evidence = Inr (ef_effect_id e, t, reason, evidence)"
    using assms(3-9) by (cases state; cases "ef_state e")
      (simp_all add: transition_inputs_def input_uuid_def require_uuid_def require_pattern_def input_time_def input_reason_def
        input_evidence_def reject_if_def del: limits)
  with tx show run: "transition io_ok (ef_effect_id e) state t reason evidence db = (moved_db db later, Inr later)"
    by (simp add: transition_def)
  show "effect_to_row later \<in> set (db_effects (moved_db db later))"
    using transition_success [OF assms(1) run] by metis
  show "journal_ok (moved_db db later)"
    using journal_spec_ok [OF journal_step_spec [OF assms(1) journal_step.transition [OF run]] assms(1)] .
qed

section \<open>Steps that succeed\<close>

lemma healthy_transition:
  assumes "healthy R A tick cell" "journal_ok (w_journal w)" "effect_to_row e \<in> set (db_effects (w_journal w))"
    and "state \<in> ALLOWED_TRANSITIONS (ef_state e)" "state \<noteq> STARTED" "state = APPLIED \<longleftrightarrow> reason = str ''none''"
    and "safe_id_text reason" "digest_text evidence" "ef_updated_at_ms e \<le> tick (w_env w)"
  shows "\<exists>s later. runtime_transition R e state reason evidence None w
      = (w\<lparr>w_env := s, w_journal := moved_db (w_journal w) later\<rparr>, Inr later)
    \<and> later = moved_record e state (tick (w_env w)) reason evidence \<and> ticks tick cell (w_env w) s
    \<and> effect_to_row later \<in> set (db_effects (moved_db (w_journal w) later)) \<and> journal_ok (moved_db (w_journal w) later)"
proof -
  let ?later = "moved_record e state (tick (w_env w)) reason evidence"
  obtain s1 where now: "runtime_now R w = (w\<lparr>w_env := s1\<rparr>, Inr (tick (w_env w)))" "ticks tick cell (w_env w) s1"
    using healthy_now [OF assms(1)] by blast
  have t: "0 \<le> tick (w_env w)" "tick (w_env w) \<le> MAX_SAFE_INTEGER" using assms(1) by (simp_all add: healthy_def)
  have reason: "state \<in> {STARTED, APPLIED} \<longleftrightarrow> reason = str ''none''" using assms(5,6) by auto
  note tx = transition_defined [OF assms(2-4) reason assms(7-9) t, simplified assms(5)]
  obtain s2 where call: "on_journal R (\<lambda>io. transition io (ef_effect_id e) state (tick (w_env w)) reason evidence) (w\<lparr>w_env := s1\<rparr>)
      = (w\<lparr>w_env := s2, w_journal := moved_db (w_journal w) ?later\<rparr>, Inr ?later)" "ticks tick cell s1 s2"
    using healthy_on_journal [OF assms(1), of "\<lambda>io. transition io (ef_effect_id e) state (tick (w_env w)) reason evidence"
        "w\<lparr>w_env := s1\<rparr>"] tx(1) assms(5) by auto
  have "runtime_transition R e state reason evidence None w
      = (w\<lparr>w_env := s2, w_journal := moved_db (w_journal w) ?later\<rparr>, Inr ?later)"
    using now(1) call(1) by (simp add: runtime_transition_def andthen_def maybe_crash_def done_with_def split: option.splits)
  then show ?thesis using ticks_trans [OF now(2) call(2)] tx(2,3) assms(5) by (intro exI [of _ s2] exI [of _ ?later]) simp
qed

text \<open>The journal of an interrupted execution: its chain verifies and has no receipt of the effect yet.\<close>

definition awaiting :: "ed25519 \<Rightarrow> nat \<Rightarrow> ControlVerifier \<Rightarrow> pystr \<Rightarrow> journal_db \<Rightarrow> bool" where
  "awaiting ed limit vf effect_id db \<longleftrightarrow> (\<exists>rs. receipt_sequence_from_connection ed limit vf db = Inr rs
     \<and> int (length rs) < MAX_SAFE_INTEGER \<and> (\<forall>r \<in> set rs. rc_effect_id r \<noteq> effect_id))"

lemma moved_chain [simp]:
  "receipt_sequence_from_connection ed limit vf (moved_db db later) = receipt_sequence_from_connection ed limit vf db"
  "journal_id_of (moved_db db later) = journal_id_of db"
  by (simp_all add: moved_db_def receipt_sequence_from_connection_def journal_id_of_def)

lemma awaiting_lookup:
  assumes "receipt_sequence_from_connection ed limit vf db = Inr rs" "\<forall>r \<in> set rs. rc_effect_id r \<noteq> effect_id"
  shows "lookup receipt_key (effect_id, version) (db_receipts db) = None"
proof (rule ccontr)
  assume "\<not> ?thesis"
  then obtain row where row: "row \<in> set (sort_key xw_receipt_sequence (db_receipts db))" "receipt_key row = (effect_id, version)"
    using lookup_Some_D by fastforce
  then show False
    using list_all2_member [OF chain_rows(1) [OF assms(1)] row(1)] receipt_from_row_D assms(2)
    by (fastforce simp add: receipt_key_def)
qed

text \<open>The anchor of the journal, when there is one: a receipt of its chain, or still nothing.\<close>

definition anchor_trusted :: "'s ControlRuntime \<Rightarrow> ('s \<Rightarrow> pystr \<Rightarrow> bytes option) \<Rightarrow> 's world \<Rightarrow> bool" where
  "anchor_trusted R cell w \<longleftrightarrow> pf_anchor (rt_platform R) = None \<or> (\<forall>rs journal_id.
     receipt_sequence_from_connection (rt_ed25519 R) (rt_recursion_limit R) (rt_verifier R) (w_journal w) = Inr rs
     \<longrightarrow> journal_id_of (w_journal w) = Inr journal_id
     \<longrightarrow> (case cell (w_env w) journal_id of None \<Rightarrow> w_bootstrap w | Some blob \<Rightarrow> \<exists>r \<in> set rs. bytes_of r blob))"

definition recoverable ::
    "ed25519 \<Rightarrow> nat \<Rightarrow> 's ControlRuntime \<Rightarrow> ('s \<Rightarrow> pystr \<Rightarrow> bytes option) \<Rightarrow> pystr \<Rightarrow> 's world \<Rightarrow> bool" where
  "recoverable ed limit R cell effect_id w \<longleftrightarrow> awaiting ed limit (rt_verifier R) effect_id (w_journal w) \<and> anchor_trusted R cell w"

lemma recoverable_moved:
  assumes "recoverable ed limit R cell effect_id w" "cell s = cell (w_env w)"
  shows "recoverable ed limit R cell effect_id (w\<lparr>w_env := s, w_journal := moved_db (w_journal w) later\<rparr>)"
    and "recoverable ed limit R cell effect_id (w\<lparr>w_env := s\<rparr>)"
    and "recoverable ed limit R cell effect_id (w\<lparr>w_env := s, w_calls := calls\<rparr>)"
  using assms by (simp_all add: recoverable_def awaiting_def anchor_trusted_def cong: option.case_cong)

definition keyed :: "ed25519 \<Rightarrow> 's ControlRuntime \<Rightarrow> bool" where
  "keyed ed R \<longleftrightarrow> ed25519_ok ed \<and> rt_verifier R = sg_verifier (rt_receipt_signer R)
     \<and> (\<exists>private. length private = 32 \<and> rt_receipt_signer R = ControlSigner_init ed private)"

text \<open>A finalisation that adds a receipt is anchored.\<close>

lemma anchored_finalize:
  assumes "healthy R A tick cell" "sound_platform ed limit R" "rt_verifier R = sg_verifier signer"
    and "receipt_sequence_from_connection ed limit (sg_verifier signer) (w_journal w) = Inr rs"
    and "finalize_receipt_unanchored io_ok ed limit effect_id signer t (w_journal w) = (db, Inr r)"
    and "finalize_tx ed limit signer effect_id t (w_journal w) = Inr (db, r)"
    and "cell s = cell (w_env w)" "anchor_trusted R cell w"
  shows "\<exists>s' allowed. finalize_receipt (pf_anchor (rt_platform R)) io_ok ed limit effect_id signer t (w_bootstrap w) (w_journal w) s
    = (db, s', allowed, Inr r)"
proof (cases "pf_anchor (rt_platform R)")
  case None
  then show ?thesis using assms(5) by (simp add: finalize_receipt_def)
next
  case (Some st)
  have sound: "rt_ed25519 R = ed" "rt_recursion_limit R = limit" using assms(2) by (simp_all add: sound_platform_def)
  have anchor: "anchor_cell st cell limit" using assms(1) Some sound(2) by (simp add: healthy_def)
  have limit: "Suc MAX_JSON_DEPTH \<le> limit" using anchor_cell.limit_ok [OF anchor] .
  define rs' where "rs' = (if db = w_journal w then rs else rs @ [r])"
  have chain: "receipt_sequence_from_connection ed limit (sg_verifier signer) db = Inr rs'" "rs' \<noteq> []" "set rs \<subseteq> set rs'"
    using finalize_tx_chain [OF limit assms(4,6)] assms(4) by (auto simp add: rs'_def)
  obtain journal_id where id: "journal_id_of (w_journal w) = Inr journal_id"
    using assms(4) by (auto simp add: receipt_sequence_from_connection_def accepts)
  have id': "journal_id_of db = Inr journal_id"
    using assms(6) id by (cases rule: finalize_tx_cases) (simp_all add: journal_id_of_def)
  have read: "read_receipt_sequence io_ok ed limit (sg_verifier signer) db = Inr (journal_id, rs')"
    using chain(1) id' by (simp add: read_receipt_sequence_def)
  have "digest_text journal_id"
    using id by (auto simp add: journal_id_of_def accepts corrupt_def split: list.splits if_splits)
  then have ready: "chain_ready ed (sg_verifier signer) journal_id rs'" using sequence_signed(3) [OF read] by (simp add: chain_ready_def)
  have "anchor_cell.may_anchor cell (w_bootstrap w) journal_id rs' s"
    using assms(3,4,7,8) chain(3) id Some sound
    by (auto simp add: anchor_cell.may_anchor_def [OF anchor] anchor_trusted_def split: option.splits)
  from anchor_cell.sync_ready [OF anchor ready chain(2) this]
  have "\<exists>s'. synchronize_receipt_anchor_sequence (Some st) io_ok ed limit (sg_verifier signer) journal_id (w_bootstrap w) rs' s
      = (s', False, Inr ())" by blast
  then show ?thesis
    using assms(5) read by (auto simp add: finalize_receipt_def Some synchronize_receipt_anchor_def)
qed

lemma healthy_receipt:
  assumes "healthy R A tick cell" "sound_platform ed limit R" "keyed ed R" "journal_ok (w_journal w)"
    and "effect_to_row e \<in> set (db_effects (w_journal w))" "is_receiptable e" "ef_authority_key_id e = vf_key_id (rt_verifier R)"
    and "recoverable ed limit R cell (ef_effect_id e) w"
  shows "\<exists>w' r. runtime_receipt R e None w = (w', Inr r) \<and> rc_effect_id r = ef_effect_id e \<and> rc_state r = ef_state e"
proof -
  let ?signer = "rt_receipt_signer R"
  obtain "private" where key: "ed25519_ok ed" "length private = 32" "?signer = ControlSigner_init ed private"
    and vf: "rt_verifier R = sg_verifier ?signer" using assms(3) by (auto simp add: keyed_def)
  have id: "ef_authority_key_id e = sg_key_id ?signer" using assms(7) vf key(3) by (simp add: ControlSigner_init_def Let_def)
  obtain rs where chain: "receipt_sequence_from_connection ed limit (sg_verifier ?signer) (w_journal w) = Inr rs"
    "int (length rs) < MAX_SAFE_INTEGER" "\<forall>r \<in> set rs. rc_effect_id r \<noteq> ef_effect_id e"
    using assms(8) by (auto simp add: recoverable_def awaiting_def vf)
  let ?t = "tick (w_env w)"
  have t: "0 \<le> ?t" "?t \<le> MAX_SAFE_INTEGER" using assms(1) by (simp_all add: healthy_def)
  obtain s1 where now: "runtime_now R w = (w\<lparr>w_env := s1\<rparr>, Inr ?t)" "ticks tick cell (w_env w) s1"
    using healthy_now [OF assms(1)] by blast
  obtain db r where tx: "finalize_tx ed limit ?signer (ef_effect_id e) ?t (w_journal w) = Inr (db, r)"
    using finalize_tx_defined [OF key assms(4) chain(1,2) assms(5,6) id awaiting_lookup [OF chain(1,3)] t] by blast
  have "ControlEffectRecord_ok e"
    using assms(4,5) by (auto simp add: journal_ok_def effects_ok_def effect_to_row_inject)
  then have "canonical_uuid_text (ef_effect_id e)" by (simp add: ControlEffectRecord_ok_def)
  with tx t have fin: "finalize_receipt_unanchored io_ok ed limit (ef_effect_id e) ?signer ?t (w_journal w) = (db, Inr r)"
    by (simp add: finalize_receipt_unanchored_def input_uuid_def require_uuid_def require_pattern_def input_time_def del: limits)
  obtain e' where r: "effect_from_connection (w_journal w) (ef_effect_id e) = Inr e'" "rc_effect_id r = ef_effect_id e"
    "rc_state r = ef_state e'" "verify_control_receipt ed r (sg_verifier ?signer) = Inr ()"
    using finalize_tx_receipt [OF tx] by blast
  have "effects_ok (db_effects (w_journal w)) (db_permits (w_journal w))" using assms(4) by (simp add: journal_ok_def)
  then have "e' = e"
    using r(1) effect_in_db [OF assms(4) _ assms(5)] by (simp add: effect_from_connection_Inr)
  obtain s2 io where faults: "pf_faults (rt_platform R) s1 = (s2, io)" by fastforce
  have env: "io = io_ok" "ticks tick cell s1 s2" "\<And>db. pf_others (rt_platform R) s2 db = db"
    using assms(1) faults unfolding healthy_def alone_def by (metis fst_conv snd_conv)+
  have cell: "cell s2 = cell (w_env w)" using now(2) env(2) by (simp add: ticks_def)
  have "\<exists>s3 allowed. finalize_receipt (pf_anchor (rt_platform R)) io_ok ed limit (ef_effect_id e) ?signer ?t (w_bootstrap w)
      (w_journal w) s2 = (db, s3, allowed, Inr r)"
    by (rule anchored_finalize [OF assms(1,2) vf chain(1) fin tx cell]) (use assms(8) in \<open>simp add: recoverable_def\<close>)
  then obtain s3 allowed where "runtime_finalize R (ef_effect_id e) ?t (w\<lparr>w_env := s1\<rparr>)
      = (w\<lparr>w_env := s3, w_journal := db, w_bootstrap := allowed\<rparr>, Inr r)"
    using assms(2) env by (auto simp add: runtime_finalize_def faults sound_platform_def)
  then have "runtime_receipt R e None w = (w\<lparr>w_env := s3, w_journal := db, w_bootstrap := allowed\<rparr>, Inr r)"
    using now r(4) assms(2) vf
    by (simp add: runtime_receipt_def andthen_def lift_result_def maybe_crash_def done_with_def sound_platform_def)
  then show ?thesis using r(2,3) \<open>e' = e\<close> by blast
qed

lemma healthy_settle:
  assumes "healthy R A tick cell" "sound_platform ed limit R" "keyed ed R" "journal_ok (w_journal w)"
    and "effect_to_row e \<in> set (db_effects (w_journal w))" "ef_authority_key_id e = vf_key_id (rt_verifier R)"
    and "recoverable ed limit R cell (ef_effect_id e) w"
    and "state \<in> ALLOWED_TRANSITIONS (ef_state e)" "state \<in> RECEIPT_STATES" "reason \<noteq> str ''none''"
    and "safe_id_text reason" "digest_text evidence" "ef_updated_at_ms e \<le> tick (w_env w)"
  shows "\<exists>w' r. settle R e state reason evidence None w = (w', Inr r) \<and> rc_effect_id r = ef_effect_id e \<and> rc_state r = state"
proof -
  have "state \<noteq> STARTED" "state = APPLIED \<longleftrightarrow> reason = str ''none''" using assms(9,10) by (auto simp add: RECEIPT_STATES_def)
  from healthy_transition [OF assms(1,4,5,8) this assms(11-13)]
  obtain s later where step: "runtime_transition R e state reason evidence None w
      = (w\<lparr>w_env := s, w_journal := moved_db (w_journal w) later\<rparr>, Inr later)"
    "later = moved_record e state (tick (w_env w)) reason evidence"
    "effect_to_row later \<in> set (db_effects (moved_db (w_journal w) later))" "journal_ok (moved_db (w_journal w) later)"
    "ticks tick cell (w_env w) s" by blast
  have later: "ef_effect_id later = ef_effect_id e" "ef_state later = state" "is_receiptable later"
    "ef_authority_key_id later = vf_key_id (rt_verifier R)"
    using assms(6,9) by (simp_all add: step(2) moved_record_def is_receiptable_def)
  have "\<exists>w' r. runtime_receipt R later None (w\<lparr>w_env := s, w_journal := moved_db (w_journal w) later\<rparr>) = (w', Inr r)
      \<and> rc_effect_id r = ef_effect_id later \<and> rc_state r = ef_state later"
    by (rule healthy_receipt [OF assms(1-3)]) (use step(3-5) later assms(7) in \<open>simp_all add: recoverable_moved ticks_def\<close>)
  then show ?thesis using step(1) later(1,2) by (simp add: settle_def andthen_Inr)
qed

section \<open>Recovery settles\<close>

text \<open>A started effect that turns out to be done is applied first.\<close>

lemma healthy_apply_verify:
  assumes "healthy R A tick cell" "sound_platform ed limit R" "keyed ed R" "journal_ok (w_journal w)"
    and "effect_to_row e \<in> set (db_effects (w_journal w))" "ef_authority_key_id e = vf_key_id (rt_verifier R)"
    and "recoverable ed limit R cell (ef_effect_id e) w"
    and "ef_state e = STARTED" "reason \<noteq> str ''none''" "safe_id_text reason" "digest_text evidence" "ef_updated_at_ms e \<le> tick (w_env w)"
  shows "\<exists>w' r. andthen (runtime_transition R e APPLIED (str ''none'') evidence None) (\<lambda>applied.
      settle R applied VERIFIED reason evidence None) w = (w', Inr r) \<and> rc_effect_id r = ef_effect_id e \<and> rc_state r = VERIFIED"
proof -
  have none: "safe_id_text (str ''none'')" by (simp add: safe_id_text_def str_def char_classes)
  obtain s later where step: "runtime_transition R e APPLIED (str ''none'') evidence None w
      = (w\<lparr>w_env := s, w_journal := moved_db (w_journal w) later\<rparr>, Inr later)"
    "later = moved_record e APPLIED (tick (w_env w)) (str ''none'') evidence" "ticks tick cell (w_env w) s"
    "effect_to_row later \<in> set (db_effects (moved_db (w_journal w) later))" "journal_ok (moved_db (w_journal w) later)"
    using healthy_transition [OF assms(1,4,5) _ _ _ none assms(11,12), of APPLIED] assms(8) by auto
  have "\<exists>w' r. settle R later VERIFIED reason evidence None (w\<lparr>w_env := s, w_journal := moved_db (w_journal w) later\<rparr>) = (w', Inr r)
      \<and> rc_effect_id r = ef_effect_id later \<and> rc_state r = VERIFIED"
    by (rule healthy_settle [OF assms(1-3)])
      (use step(3-5) assms(6-11) in \<open>simp_all add: step(2) moved_record_def RECEIPT_STATES_def recoverable_moved ticks_def\<close>)
  moreover have "ef_effect_id later = ef_effect_id e" by (simp add: step(2) moved_record_def)
  ultimately show ?thesis using step(1) by (simp add: andthen_Inr)
qed

lemma healthy_reconcile:
  assumes "healthy R A tick cell" "sound_platform ed limit R" "keyed ed R" "journal_ok (w_journal w)"
    and "effect_to_row e \<in> set (db_effects (w_journal w))" "ef_authority_key_id e = vf_key_id (rt_verifier R)"
    and "recoverable ed limit R cell (ef_effect_id e) w"
    and "ef_state e \<in> {STARTED, APPLIED, UNKNOWN}" "ef_updated_at_ms e \<le> tick (w_env w)"
  shows "\<exists>w' r. runtime_reconcile R A e env None w = (w', Inr r) \<and> rc_effect_id r = ef_effect_id e \<and> rc_state r \<in> RECEIPT_STATES"
proof -
  obtain s reply where call: "adapter_reconcile A (ef_effect_id e) (en_request env) (ef_route e) (w_env w) = (s, reply)" by fastforce
  have reply: "ticks tick cell (w_env w) s" "wellformed_reply reply"
    using assms(1) call unfolding healthy_def by (metis fst_conv snd_conv)+
  define w1 where "w1 = w\<lparr>w_env := s, w_calls := w_calls w @ [Reconciled e (en_request env) reply]\<rparr>"
  have w1: "w_journal w1 = w_journal w" "ef_updated_at_ms e \<le> tick (w_env w1)" "recoverable ed limit R cell (ef_effect_id e) w1"
    using reply(1) assms(7,9) by (simp_all add: w1_def ticks_def recoverable_moved)
  have "ControlEffectRecord_ok e"
    using assms(4,5) by (auto simp add: journal_ok_def effects_ok_def effect_to_row_inject)
  then have uuid: "canonical_uuid_text (ef_effect_id e)" by (simp add: ControlEffectRecord_ok_def)
  obtain answer where answer: "reconciliation_result reply = Inr answer" "answer_ok answer"
    using answer_defined [OF reply(2)] by blast
  obtain result where result: "accepted_result (ef_effect_id e) (en_request env) answer = Inr result" "answer_ok result"
    using accepted_defined [OF answer(2) uuid] by blast
  have texts: "safe_id_text (ar_reason_code result)" "ar_reason_code result \<noteq> str ''none''" "digest_text (ar_evidence_digest result)"
    using result(2) by (simp_all add: answer_ok_def)
  have after: "\<exists>w' r. settle R e state (ar_reason_code result) (ar_evidence_digest result) None w1 = (w', Inr r)
      \<and> rc_effect_id r = ef_effect_id e \<and> rc_state r \<in> RECEIPT_STATES"
    if "state \<in> ALLOWED_TRANSITIONS (ef_state e)" "state \<in> RECEIPT_STATES" for state
    using healthy_settle [OF assms(1-3), of w1 e state "ar_reason_code result" "ar_evidence_digest result"] assms(4-6) that texts w1
    by force
  show ?thesis
  proof (cases "ar_disposition result")
    case RECONCILED_VERIFIED
    have "\<exists>w' r. andthen (if ef_state e = STARTED
           then runtime_transition R e APPLIED (str ''none'') (ar_evidence_digest result) None else done_with e) (\<lambda>record.
        settle R record VERIFIED (ar_reason_code result) (ar_evidence_digest result) None) w1 = (w', Inr r)
      \<and> rc_effect_id r = ef_effect_id e \<and> rc_state r \<in> RECEIPT_STATES"
    proof (cases "ef_state e = STARTED")
      case True
      then show ?thesis
        using healthy_apply_verify [OF assms(1-3) _ _ assms(6) _ True texts(2,1,3) w1(2)] assms(4,5) w1(1,3)
        by (force simp add: RECEIPT_STATES_def)
    next
      case False
      then have "VERIFIED \<in> ALLOWED_TRANSITIONS (ef_state e)" using assms(8) by auto
      then show ?thesis using after [of VERIFIED] False by (simp add: andthen_def done_with_def RECEIPT_STATES_def)
    qed
    then show ?thesis
      using RECONCILED_VERIFIED answer(1) result(1)
      by (simp add: runtime_reconcile_def record_result_def call_reconcile_def call andthen_def lift_result_def w1_def)
  next
    case RECONCILED_FAILED
    have "FAILED \<in> ALLOWED_TRANSITIONS (ef_state e)" using assms(8) by auto
    then show ?thesis
      using after [of FAILED] RECONCILED_FAILED answer(1) result(1)
      by (simp add: runtime_reconcile_def record_result_def call_reconcile_def call andthen_def lift_result_def w1_def RECEIPT_STATES_def)
  next
    case RECONCILED_UNKNOWN
    have "\<exists>w' r. andthen (if ef_state e \<noteq> UNKNOWN
           then runtime_transition R e UNKNOWN (ar_reason_code result) (ar_evidence_digest result) None else done_with e) (\<lambda>record.
        runtime_receipt R record None) w1 = (w', Inr r)
      \<and> rc_effect_id r = ef_effect_id e \<and> rc_state r \<in> RECEIPT_STATES"
    proof (cases "ef_state e = UNKNOWN")
      case True
      then have "\<exists>w' r. runtime_receipt R e None w1 = (w', Inr r) \<and> rc_effect_id r = ef_effect_id e \<and> rc_state r = ef_state e"
        by (intro healthy_receipt [OF assms(1-3)]) (use assms(4-7) w1 in \<open>simp_all add: is_receiptable_def RECEIPT_STATES_def\<close>)
      then show ?thesis using True by (auto simp add: andthen_def done_with_def RECEIPT_STATES_def)
    next
      case False
      then have "UNKNOWN \<in> ALLOWED_TRANSITIONS (ef_state e)" using assms(8) by auto
      then show ?thesis using after [of UNKNOWN] False by (simp add: settle_def RECEIPT_STATES_def)
    qed
    then show ?thesis
      using RECONCILED_UNKNOWN answer(1) result(1)
      by (simp add: runtime_reconcile_def record_result_def call_reconcile_def call andthen_def lift_result_def w1_def)
  qed
qed


lemma journal_get_row:
  assumes "journal_ok db" "effect_to_row e \<in> set (db_effects db)"
  shows "journal_get io_ok (ef_effect_id e) db = Inr e"
proof -
  have es: "effects_ok (db_effects db) (db_permits db)" "ControlEffectRecord_ok e"
    using assms by (auto simp add: journal_ok_def effects_ok_def effect_to_row_inject)
  then show ?thesis
    using assms(2) effect_from_connection_Inr [OF es(1)]
    by (simp add: journal_get_def input_uuid_def require_uuid_def require_pattern_def ControlEffectRecord_ok_def)
qed

definition recovery_settled :: "'s ControlRuntime \<Rightarrow> ControlEffectRecord \<Rightarrow> ControlReceipt \<Rightarrow> bool" where
  "recovery_settled R e r \<longleftrightarrow> verify_control_receipt (rt_ed25519 R) r (rt_verifier R) = Inr ()
     \<and> rc_effect_id r = ef_effect_id e \<and> rc_state r \<in> {VERIFIED, FAILED, UNKNOWN}
     \<and> (ef_state e = PREPARED \<longrightarrow> rc_state r = FAILED) \<and> (ef_state e \<in> {VERIFIED, FAILED} \<longrightarrow> rc_state r = ef_state e)"

text \<open>Every receipt the runtime returns verifies with its key.\<close>

lemma receipt_verified:
  assumes "runtime_receipt R e crash w = (w', Inr r)" shows "verify_control_receipt (rt_ed25519 R) r (rt_verifier R) = Inr ()"
  using assms unfolding runtime_receipt_def by (auto elim!: andthen_InrE)

lemma settle_verified:
  "settle R e state reason evidence crash w = (w', Inr r) \<Longrightarrow> verify_control_receipt (rt_ed25519 R) r (rt_verifier R) = Inr ()"
  unfolding settle_def by (auto elim!: andthen_InrE dest: receipt_verified)

lemma recover_verified:
  assumes "runtime_recover R A effect_id envelope crash w = (w', Inr r)"
  shows "verify_control_receipt (rt_ed25519 R) r (rt_verifier R) = Inr ()"
  using assms unfolding runtime_recover_def runtime_reconcile_def record_result_def
  by (auto elim!: andthen_InrE split: if_splits ReconciliationDisposition.splits)
    (erule settle_verified receipt_verified)+

lemma authority_key:
  "verify_envelope_authority ed env vf p now live_routes live_snapshot = Inr route \<Longrightarrow> pm_authority_key_id (en_permit env) = vf_key_id vf"
  by (auto simp add: verify_envelope_authority_def Let_def rbind_Inr_iff require_Inr_iff)

lemma recovery_key:
  assumes "verify_recovery_binding R e envelope = Inr parsed"
  shows "ef_authority_key_id e = vf_key_id (rt_verifier R)"
proof -
  let ?verified = "\<lambda>parsed. verify_envelope_authority (rt_ed25519 R) parsed (rt_verifier R) (rt_policy R)
      (pm_issued_at_ms (en_permit parsed)) [ef_route e] (Some (rq_snapshot (en_request parsed)))"
  obtain env digest route where bound: "recovery_bindings e env digest route" and verified: "?verified env = Inr route"
    using assms unfolding verify_recovery_binding_def rbind_Inr_iff
    by (elim exE conjE) (simp split: sum.splits exn.splits if_splits)
  have "ef_authority_key_id e = pm_authority_key_id (en_permit env)" using bound by (simp add: recovery_bindings_def Let_def)
  then show ?thesis using authority_key [OF verified] by simp
qed


end
