(* ===== verification/Kernel_Scenario.thy ===== *)
theory Kernel_Scenario
  imports Kernel_Bounds
begin

text \<open>
  One concrete run of the control kernel: an implementation of the signature interface, a signer, the
  default policy, an ACTIVATE request on a browser document, and the grant, permit, preparation and
  envelope that are issued for it. It shows that the hypotheses of the theorems on issuing and
  verification hold together. SHA-256 and the signatures stay symbolic.
\<close>

section \<open>A signature scheme and a signer\<close>

definition demo_ed25519 :: ed25519 where
  "demo_ed25519 = \<lparr>ed_public = (\<lambda>private. private), ed_sign = (\<lambda>private m. private @ sha256 m),
     ed_verify = (\<lambda>public signature m. signature = public @ sha256 m)\<rparr>"

definition demo_private :: bytes where "demo_private = replicate 32 7"

definition demo_signer :: ControlSigner where
  "demo_signer = ControlSigner_init demo_ed25519 demo_private"

lemma demo_ed25519_ok: "ed25519_ok demo_ed25519"
  by (simp add: ed25519_ok_def demo_ed25519_def)

lemma length_demo_private: "length demo_private = 32"
  by (simp add: demo_private_def)

lemmas demo_key = demo_ed25519_ok length_demo_private demo_signer_def

section \<open>The request\<close>

definition demo_uuid :: "nat \<Rightarrow> pystr" where
  "demo_uuid n = uuid4 (replicate 16 (byte n))"

definition demo_id :: "nat \<Rightarrow> pystr" where
  "demo_id c = str ''hmac-sha256:'' @ replicate 64 c"

definition demo_target :: TargetRef where
  "demo_target = \<lparr>tr_kind = BROWSER_DOCUMENT, tr_target_id = demo_id 97, tr_epoch = 1,
     tr_revision = str ''r1'', tr_fencing_token = 1\<rparr>"

definition demo_snapshot :: SnapshotRef where
  "demo_snapshot = \<lparr>sn_snapshot_id = demo_uuid 50, sn_target_id = demo_id 97, sn_epoch = 1,
     sn_revision = str ''r1'', sn_fencing_token = 1, sn_observed_at_ms = 1000000, sn_sequence = 1\<rparr>"

definition demo_request :: ControlRequest where
  "demo_request = \<lparr>rq_request_id = demo_uuid 49, rq_session_id = demo_uuid 51, rq_subject_id = str ''agent.main'',
     rq_sequence = 1, rq_issued_at_ms = 1000000, rq_deadline_ms = 1060000, rq_target = demo_target,
     rq_snapshot = demo_snapshot, rq_operation = ACTIVATE, rq_data_class = D_STRUCTURAL,
     rq_arguments = [(str ''element_id'', PStr (demo_id 98))], rq_requested_routes = [R_DOM],
     rq_max_output_bytes = 4096, rq_schema_version = 1\<rparr>"

lemma demo_uuid_text: "canonical_uuid_text (demo_uuid n)"
  by (simp add: demo_uuid_def uuid4_canonical)

lemma demo_id_text: "lower_hex c \<Longrightarrow> opaque_id_text (demo_id c)"
  by (simp add: demo_id_def opaque_id_text_def prefixed_hex64_def list_all_iff)

lemma lower_hex_demo: "lower_hex 97" "lower_hex 98"
  by (simp_all add: lower_hex_def)

lemma demo_texts: "safe_id_text (str ''agent.main'')" "revision_text (str ''r1'')"
  by (simp_all add: safe_id_text_def revision_text_def str_def char_classes)

lemmas demo_ids = demo_uuid_text demo_id_text lower_hex_demo demo_texts

lemma demo_request_ok: "ControlRequest_ok demo_request"
  by (simp add: ControlRequest_ok_def demo_request_def demo_target_def demo_snapshot_def TargetRef_ok_def
      SnapshotRef_ok_def matches_target_def demo_ids arguments_ok_iff limits ROUTE_ORDER_def)

lemma canonical_json_bytes_size:
  assumes "canonical_json_bytes v = Inr bs" shows "length bs \<le> json_bound v"
proof -
  have "tree_ok 0 (psort v)" "utf8_encode (json_text (psort v)) = Some bs"
    using assms by (auto simp add: canonical_json_bytes_Inr_iff)
  with json_text_ok [of 0 "psort v"] utf8_encode_size show ?thesis by fastforce
qed

lemma demo_argument_bytes: "argument_bytes demo_request = Inr n \<Longrightarrow> n \<le> 94"
proof -
  assume "argument_bytes demo_request = Inr n"
  then have "n \<le> json_bound (PDict (rq_arguments demo_request))"
    unfolding argument_bytes_def rbind_Inr_iff
    by (elim exE conjE) (simp only: sum.inject, drule canonical_json_bytes_size, simp only:)
  also have "\<dots> \<le> 94"
    using hex_plain(1) [OF demo_id_text, of 98] lower_hex_demo
    by (simp add: demo_request_def plain_size demo_id_def plain_def str_def)
  finally show ?thesis .
qed

lemma demo_request_valid:
  "validate_request default_policy demo_request 1000010 None = Inr ()"
proof -
  obtain n where n: "argument_bytes demo_request = Inr n" "n \<le> 94"
    using argument_bytes_defined demo_request_ok demo_argument_bytes by (auto simp add: ControlRequest_ok_def)
  have "policy_routes default_policy ACTIVATE = [R_CONNECTOR, R_SHORTCUT, R_APPLE_EVENT, R_DOM, R_AX, R_SCREENSHOT, R_COORDINATE]"
    by (simp add: policy_routes_def default_policy_facts default_route_map_def)
  moreover have "route_map default_policy ACTIVATE \<noteq> None"
    by (simp add: default_policy_facts default_route_map_def)
  ultimately show ?thesis
    using n by (simp add: validate_request_def demo_request_def default_policy_def accepts transmit_bytes_def
        demo_target_def demo_snapshot_def limits deny_if_def)
qed

section \<open>The grant\<close>

lemma default_policy_routes:
  "po_allowed_target_kinds default_policy = UNIV" "po_allowed_data_classes default_policy = UNIV"
  "route_map default_policy ACTIVATE = Some [R_CONNECTOR, R_SHORTCUT, R_APPLE_EVENT, R_DOM, R_AX, R_SCREENSHOT,
     R_COORDINATE]" "allowed_routes default_policy [ACTIVATE] = {R_CONNECTOR, R_SHORTCUT,
     R_APPLE_EVENT, R_DOM, R_AX, R_SCREENSHOT, R_COORDINATE}"
  by (simp_all add: allowed_routes_def policy_routes_def default_policy_facts default_route_map_def)
    (simp_all add: default_policy_def)

definition demo_grant_result :: "exn + ControlGrant" where
  "demo_grant_result = issue_grant demo_ed25519 demo_signer default_policy (demo_uuid 3) (str ''agent.main'')
     [demo_id 97] [BROWSER_DOCUMENT] [ACTIVATE] [D_STRUCTURAL] [R_DOM] 1000000 1060000 4 1024 8192 0"

lemma demo_grant_issued: "\<exists>g. demo_grant_result = Inr g"
  unfolding demo_grant_result_def
  by (rule issue_grant_defined [OF demo_key default_policy_facts(1)])
    (simp_all add: demo_ids default_policy_routes window_ok_def limits)

text \<open>What is known of the issued grant.\<close>

lemma demo_grant_facts:
  assumes "demo_grant_result = Inr g"
  shows "ControlGrant_ok g \<and> set (gr_target_ids g) = {demo_id 97} \<and> set (gr_target_kinds g) = {BROWSER_DOCUMENT}
    \<and> set (gr_operations g) = {ACTIVATE} \<and> set (gr_data_classes g) = {D_STRUCTURAL} \<and> set (gr_routes g) = {R_DOM}
    \<and> gr_issued_at_ms g = 1000000 \<and> gr_expires_at_ms g = 1060000 \<and> gr_maximum_action_count g = 4
    \<and> gr_max_input_bytes g = 1024 \<and> gr_max_output_bytes g = 8192 \<and> gr_max_transmit_bytes g = 0"
    and "verify_grant demo_ed25519 g (sg_verifier demo_signer) default_policy 1000010 (str ''agent.main'') = Inr ()"
proof -
  note issued = assms [unfolded demo_grant_result_def]
  show "verify_grant demo_ed25519 g (sg_verifier demo_signer) default_policy 1000010 (str ''agent.main'') = Inr ()"
    using issue_grant_verifies [OF demo_key issued, of 1000010] by (simp add: default_policy_def limits)
qed (use issue_grant_scope [OF demo_key assms [unfolded demo_grant_result_def]] in simp)

section \<open>The permit and the envelope\<close>

lemma demo_permit_issued:
  assumes "demo_grant_result = Inr g"
  shows "\<exists>pm. issue_permit demo_ed25519 demo_signer (sg_verifier demo_signer) default_policy g demo_request
    (demo_uuid 4) 1000010 1030000 = Inr pm"
proof (rule issue_permit_defined [OF demo_key default_policy_facts(1) demo_request_ok])
  note g = demo_grant_facts [OF assms]
  show "ControlGrant_ok g" "verify_grant demo_ed25519 g (sg_verifier demo_signer) default_policy 1000010 (rq_subject_id demo_request) = Inr ()"
    using g by (simp_all add: demo_request_def)
  show "int n \<le> gr_max_input_bytes g" if "argument_bytes demo_request = Inr n" for n
    using g(1) demo_argument_bytes [OF that] by simp
  show "m \<le> gr_max_transmit_bytes g" if "transmit_bytes demo_request = Inr m" for m
    using g(1) that by (simp add: transmit_bytes_def demo_request_def)
qed (use demo_grant_facts(1) [OF assms] in \<open>simp_all add: demo_request_valid demo_uuid_text, simp_all add: demo_request_def demo_target_def limits\<close>)

lemma demo_permit_facts:
  assumes "issue_permit demo_ed25519 demo_signer (sg_verifier demo_signer) default_policy g demo_request
    (demo_uuid 4) 1000010 1030000 = Inr pm" "demo_grant_result = Inr g"
  shows "ControlPermit_ok pm" "pm_routes pm = [R_DOM]"
proof (rule_tac [!] issue_permit_InrE [OF assms(1)], goal_cases)
  case (1 request_digest input_bytes transmit policy_digest candidate s)
  show ?case using permit_signed(2) [OF demo_key 1(20-22)] .
next
  case (2 request_digest input_bytes transmit policy_digest candidate s)
  show ?case
    using permit_signed(1) [OF demo_key 2(20-22)] demo_grant_facts(1) [OF assms(2)]
    by (simp add: permit_for_def demo_request_def)
qed

definition demo_envelope :: "ControlGrant \<Rightarrow> ControlPermit \<Rightarrow> ControlEnvelope" where
  "demo_envelope g pm = \<lparr>en_request = demo_request, en_grant = g, en_permit = pm,
     en_protocol_version = CONTROL_PROTOCOL_VERSION, en_message_type = str CONTROL_MESSAGE_TYPE\<rparr>"

lemma demo_run:
  obtains g pm route where
    "demo_grant_result = Inr g" "ControlGrant_ok g"
    "issue_permit demo_ed25519 demo_signer (sg_verifier demo_signer) default_policy g demo_request
       (demo_uuid 4) 1000010 1030000 = Inr pm"
    "ControlPermit_ok pm" "pm_routes pm = [R_DOM]" "ControlEnvelope_ok (demo_envelope g pm)"
    "verify_envelope_authority demo_ed25519 (demo_envelope g pm) (sg_verifier demo_signer) default_policy
       1000020 [R_DOM, R_AX] (Some demo_snapshot) = Inr route"
proof -
  obtain g where g: "demo_grant_result = Inr g" using demo_grant_issued by blast
  note gf = demo_grant_facts [OF g]
  obtain pm where pm: "issue_permit demo_ed25519 demo_signer (sg_verifier demo_signer) default_policy g demo_request
       (demo_uuid 4) 1000010 1030000 = Inr pm"
    using demo_permit_issued [OF g] by blast
  note pf = demo_permit_facts [OF pm g]
  have "\<exists>route. verify_envelope_authority demo_ed25519 (demo_envelope g pm) (sg_verifier demo_signer) default_policy
       1000020 [R_DOM, R_AX] (Some demo_snapshot) = Inr route"
    unfolding demo_envelope_def
    by (rule issue_permit_verifies [OF demo_key pm])
      (simp_all add: pf, simp_all add: demo_request_def demo_snapshot_def default_policy_def)
  moreover have "ControlEnvelope_ok (demo_envelope g pm)"
    using gf pf demo_request_ok by (simp add: ControlEnvelope_ok_def demo_envelope_def)
  ultimately show thesis
    using that g gf(1) pm pf by blast
qed

section \<open>A preparation\<close>

lemma default_screenshot_routes: "R_SCREENSHOT \<in> set (policy_routes default_policy OBSERVE)"
  by (simp add: policy_routes_def default_policy_facts default_route_map_def)

lemma demo_selector: "selector_ok OBSERVE R_SCREENSHOT (str ''persistent_programmatic'')"
  by (simp add: selector_ok_def PREPARATION_SELECTORS_def safe_id_text_def str_def char_classes)

lemma demo_preparation_issued:
  "\<exists>env. issue_control_preparation demo_ed25519 demo_signer default_policy (demo_uuid 5) (demo_uuid 1)
     (str ''agent.main'') OBSERVE D_PUBLIC R_SCREENSHOT (str ''persistent_programmatic'') [] 1000000 1060000 = Inr env"
  by (rule issue_preparation_defined [OF demo_key default_policy_facts(1)])
    (simp_all add: demo_ids default_screenshot_routes demo_selector preparation_arguments_ok_iff
      preparation_spec_def window_ok_def limits)

section \<open>The theorems of the kernel at this run\<close>

lemma signature_payload_inject_witness:
  "\<exists>payload. signature_payload ''grant'' (PDict [(str ''a'', PInt 1), (str ''b'', PInt 2)]) = Inr payload
     \<and> signature_payload ''grant'' (PDict [(str ''b'', PInt 2), (str ''a'', PInt 1)]) = Inr payload
     \<and> psort (PDict [(str ''a'', PInt 1), (str ''b'', PInt 2)]) = psort (PDict [(str ''b'', PInt 2), (str ''a'', PInt 1)])"
proof -
  let ?v = "PDict [(str ''a'', PInt 1), (str ''b'', PInt 2)]" and ?w = "PDict [(str ''b'', PInt 2), (str ''a'', PInt 1)]"
  have fits: "fits 1 (9, 1000) ?v"
    by (simp add: fits_def limits plain_size plain_def field_name_text_def str_def char_classes)
  have sorted: "psort ?v = psort ?w" by (simp add: str_def)
  obtain bs where bs: "canonical_json_bytes ?v = Inr bs"
    using fits_canonical [OF fits] by (auto simp add: limits)
  then have bs': "canonical_json_bytes ?w = Inr bs"
    using canonical_json_bytes_psort sorted by metis
  have kind: "safe_id_text (str ''grant'')"
    by (simp add: safe_id_text_def str_def char_classes)
  obtain payload where payload: "signature_payload ''grant'' ?v = Inr payload" "signature_payload ''grant'' ?w = Inr payload"
    using bs bs' kind by (auto simp add: signature_payload_Inr_iff)
  moreover have "psort ?v = psort ?w"
    using signature_payload_inject [OF payload] by (simp add: str_def)
  ultimately show ?thesis by blast
qed

lemma verify_envelope_sound_witness:
  "\<exists>env route. verify_envelope_authority demo_ed25519 env (sg_verifier demo_signer) default_policy
      1000020 [R_DOM, R_AX] (Some demo_snapshot) = Inr route
    \<and> pm_grant_id (en_permit env) = gr_grant_id (en_grant env)
    \<and> route \<in> agreed_routes default_policy (en_request env) (gr_routes (en_grant env)) (pm_routes (en_permit env)) [R_DOM, R_AX]"
  by (rule demo_run) (blast dest: verify_envelope_sound)

lemma issued_permit_verifies_witness:
  "\<exists>g pm route. issue_permit demo_ed25519 demo_signer (sg_verifier demo_signer) default_policy g demo_request
      (demo_uuid 4) 1000010 1030000 = Inr pm
    \<and> verify_envelope_authority demo_ed25519 (demo_envelope g pm) (sg_verifier demo_signer) default_policy
       1020000 [R_DOM] None = Inr route"
proof (rule demo_run)
  fix g pm
  assume pm: "issue_permit demo_ed25519 demo_signer (sg_verifier demo_signer) default_policy g demo_request
      (demo_uuid 4) 1000010 1030000 = Inr pm" and routes: "pm_routes pm = [R_DOM]"
  have "\<exists>route. verify_envelope_authority demo_ed25519 (demo_envelope g pm) (sg_verifier demo_signer) default_policy
       1020000 [R_DOM] None = Inr route"
    unfolding demo_envelope_def
    by (rule issued_permit_verifies [OF demo_key pm])
      (simp_all add: routes, simp_all add: demo_request_def demo_snapshot_def default_policy_def)
  with pm show ?thesis by blast
qed

lemma permit_binds_request_witness:
  "\<exists>env route. verify_envelope_authority demo_ed25519 env (sg_verifier demo_signer) default_policy
      1000020 [R_DOM, R_AX] (Some demo_snapshot) = Inr route \<and>
      (en_request env = demo_request \<or> (\<exists>b b'. b \<noteq> b' \<and> sha256 b = sha256 b'))"
proof (rule demo_run)
  fix g pm route
  assume ok: "verify_envelope_authority demo_ed25519 (demo_envelope g pm) (sg_verifier demo_signer) default_policy
       1000020 [R_DOM, R_AX] (Some demo_snapshot) = Inr route"
  have "en_request (demo_envelope g pm) = demo_request" by (simp add: demo_envelope_def)
  with permit_binds_request [OF ok ok] demo_request_ok ok show ?thesis by (metis (no_types))
qed

lemma issued_grant_verifies_witness:
  "\<exists>g. demo_grant_result = Inr g
     \<and> verify_grant demo_ed25519 g (sg_verifier demo_signer) default_policy 1059999 (str ''agent.main'') = Inr ()"
proof -
  obtain g where g: "demo_grant_result = Inr g" using demo_grant_issued by blast
  have "verify_grant demo_ed25519 g (sg_verifier demo_signer) default_policy 1059999 (str ''agent.main'') = Inr ()"
    using issued_grant_verifies_iff [OF demo_key g [unfolded demo_grant_result_def], of 1059999]
    by (simp add: default_policy_def limits)
  with g show ?thesis by blast
qed

lemma issued_preparation_verifies_witness:
  "\<exists>env. verify_control_preparation demo_ed25519 env (sg_verifier demo_signer) default_policy 1000001
     = Inr (pe_preparation env)"
proof -
  obtain env where env: "issue_control_preparation demo_ed25519 demo_signer default_policy (demo_uuid 5) (demo_uuid 1)
     (str ''agent.main'') OBSERVE D_PUBLIC R_SCREENSHOT (str ''persistent_programmatic'') [] 1000000 1060000 = Inr env"
    using demo_preparation_issued by blast
  have "verify_control_preparation demo_ed25519 env (sg_verifier demo_signer) default_policy 1000001
     = Inr (pe_preparation env)"
    using issued_preparation_verifies_iff [OF demo_key env, of 1000001 "pe_preparation env"] by (simp add: default_policy_def)
  then show ?thesis by blast
qed

lemma verify_preparation_sound_witness:
  "\<exists>env prep. verify_control_preparation demo_ed25519 env (sg_verifier demo_signer) default_policy 1000001 = Inr prep
     \<and> ControlPreparation_ok prep"
proof -
  obtain env where env: "issue_control_preparation demo_ed25519 demo_signer default_policy (demo_uuid 5) (demo_uuid 1)
     (str ''agent.main'') OBSERVE D_PUBLIC R_SCREENSHOT (str ''persistent_programmatic'') [] 1000000 1060000 = Inr env"
    using demo_preparation_issued by blast
  have "verify_control_preparation demo_ed25519 env (sg_verifier demo_signer) default_policy 1000001
     = Inr (pe_preparation env)"
    using issue_preparation_verifies [OF demo_key env, of 1000001 "pe_preparation env"] by (simp add: default_policy_def)
  with verify_preparation_sound show ?thesis by blast
qed

lemma issue_permit_complete_witness:
  "\<exists>g pm. demo_grant_result = Inr g \<and> issue_permit demo_ed25519 demo_signer (sg_verifier demo_signer) default_policy g
     demo_request (demo_uuid 4) 1000010 1030000 = Inr pm"
proof -
  obtain g where g: "demo_grant_result = Inr g" using demo_grant_issued by blast
  have "\<exists>pm. issue_permit demo_ed25519 demo_signer (sg_verifier demo_signer) default_policy g demo_request
    (demo_uuid 4) 1000010 1030000 = Inr pm"
  proof (rule issue_permit_complete [OF demo_key default_policy_facts(1) demo_request_ok])
    show "ControlGrant_ok g" "verify_grant demo_ed25519 g (sg_verifier demo_signer) default_policy 1000010 (rq_subject_id demo_request) = Inr ()"
      using demo_grant_facts [OF g] by (simp_all add: demo_request_def)
    show "int n \<le> gr_max_input_bytes g" if "argument_bytes demo_request = Inr n" for n
      using demo_grant_facts(1) [OF g] demo_argument_bytes [OF that] by simp
    show "m \<le> gr_max_transmit_bytes g" if "transmit_bytes demo_request = Inr m" for m
      using demo_grant_facts(1) [OF g] that by (simp add: transmit_bytes_def demo_request_def)
  qed (use demo_grant_facts(1) [OF g] in \<open>simp_all add: demo_request_valid demo_uuid_text, simp_all add: demo_request_def demo_target_def limits\<close>)
  with g show ?thesis by blast
qed

lemma issue_grant_complete_witness: "\<exists>g. demo_grant_result = Inr g"
  unfolding demo_grant_result_def
  by (rule issue_grant_complete [OF demo_key default_policy_facts(1)])
    (simp_all add: demo_ids default_policy_routes window_ok_def limits)

lemma request_from_dict_exact_witness:
  "ControlRequest_from_dict (ControlRequest_to_dict demo_request) = Inr demo_request"
  using request_from_dict_exact [OF request.to_dict_wf [OF demo_request_ok], of demo_request] demo_request_ok by simp

lemma envelope_wire_roundtrip_witness:
  "\<exists>e frame v. ControlEnvelope_ok e \<and> ControlEnvelope_to_frame e = Inr frame
     \<and> snd (feed_all 1000 \<lparr>maximum_frame_bytes = MAX_FRAME_BYTES, buffer = [], poisoned = False\<rparr>
         [take 3 frame, drop 3 frame]) = Inr [v] \<and> ControlEnvelope_from_dict v = Inr e"
proof (rule demo_run)
  fix g pm
  assume ok: "ControlEnvelope_ok (demo_envelope g pm)"
  have "Suc MAX_JSON_DEPTH \<le> 1000" by (simp add: limits)
  with envelope_wire_roundtrip [OF ok] obtain frame where frame:
    "ControlEnvelope_to_frame (demo_envelope g pm) = Inr frame"
    "\<And>chunks. concat chunks = frame \<Longrightarrow> list_all (\<lambda>c. length c \<le> MAX_FEED_BYTES) chunks \<Longrightarrow>
      (\<exists>v. feed_all 1000 \<lparr>maximum_frame_bytes = MAX_FRAME_BYTES, buffer = [], poisoned = False\<rparr> chunks
         = (\<lparr>maximum_frame_bytes = MAX_FRAME_BYTES, buffer = [], poisoned = False\<rparr>, Inr [v])
         \<and> ControlEnvelope_from_dict v = Inr (demo_envelope g pm))"
    by blast
  have "length frame \<le> 4 + MAX_FRAME_BYTES"
    using frame(1) by (auto simp add: ControlEnvelope_to_frame_def encode_frame_def canonical_json_bytes_Inr_iff)
  then have "list_all (\<lambda>c. length c \<le> MAX_FEED_BYTES) [take 3 frame, drop 3 frame]"
    by (simp add: MAX_FEED_BYTES_def limits) arith
  with frame(2) [of "[take 3 frame, drop 3 frame]"] ok frame(1) show ?thesis by fastforce
qed

end
