(* ===== verification/Journal_Scenario.thy ===== *)
theory Journal_Scenario
  imports Anchor_Sync Kernel_Scenario
begin

text \<open>
  The run of the kernel continued in a journal: the envelope is claimed in a fresh journal, the effect
  starts, its outcome stays unknown, and its receipt is finalised. The run shows that the hypotheses of
  the theorems on the journal hold together.
\<close>

section \<open>The claim\<close>

lemma demo_nonce: "\<exists>journal_id. journal_nonce_id (replicate 16 0) = Inr journal_id"
proof -
  have "plain (hexdigest (uuid_stamp 4 (replicate 16 0)))"
    using hexdigest_lower hex_is_plain by (auto simp add: plain_def list_all_iff)
  moreover have "length (hexdigest (uuid_stamp 4 (replicate 16 0))) \<le> 128"
    by (simp add: uuid_stamp_def)
  ultimately have "fits 0 leaf_bound (PStr (hexdigest (uuid_stamp 4 (replicate 16 0))))"
    by (intro fits_text) simp
  then have "fits 1 (1 + 1 * (1 + fst leaf_bound), 2 + 1 * (68 + snd leaf_bound))
      (PDict (items [(''journal_nonce'', PStr (hexdigest (uuid_stamp 4 (replicate 16 0))))]))"
    using fits_uniform [of 0 leaf_bound "[(''journal_nonce'', PStr (hexdigest (uuid_stamp 4 (replicate 16 0))))]" 1]
    by (simp add: char_classes del: items_simps)
  from fits_canonical [OF this] show ?thesis
    by (auto simp add: journal_nonce_id_def content_digest_def limits simp del: items_simps)
qed

lemma demo_permit_window:
  assumes "issue_permit demo_ed25519 demo_signer (sg_verifier demo_signer) default_policy g demo_request
    (demo_uuid 4) 1000010 1030000 = Inr pm"
  shows "pm_issued_at_ms pm = 1000010 \<and> pm_expires_at_ms pm = 1030000 \<and> pm_permit_id pm = demo_uuid 4
    \<and> pm_authority_key_id pm = sg_key_id demo_signer"
proof (rule issue_permit_InrE [OF assms], goal_cases)
  case (1 request_digest input_bytes transmit policy_digest candidate s)
  show ?case using permit_signed(1) [OF demo_key 1(20-22)] by (simp add: permit_for_def)
qed

definition demo_random :: bytes where "demo_random = replicate 16 (byte 9)"

lemma demo_random: "length demo_random = 16" "uuid4 demo_random = demo_uuid 9"
  by (simp_all add: demo_random_def demo_uuid_def)

abbreviation demo_claim :: "ControlGrant \<Rightarrow> ControlPermit \<Rightarrow> journal_db \<Rightarrow> journal_db \<times> (exn + ControlEffectRecord)" where
  "demo_claim g pm \<equiv> claim io_ok demo_ed25519 demo_random (demo_envelope g pm) R_DOM (sg_verifier demo_signer)
     default_policy demo_snapshot 1000020"

lemma demo_authority:
  obtains g pm gb pb d where "ControlGrant_ok g" "pm_expires_at_ms pm = 1030000" "pm_permit_id pm = demo_uuid 4"
    "pm_authority_key_id pm = sg_key_id demo_signer" "ControlRequest_digest demo_request = Inr d" "digest_text d"
    "claim_authority demo_ed25519 (demo_envelope g pm) R_DOM (sg_verifier demo_signer) default_policy demo_snapshot 1000020
       = Inr (demo_envelope g pm, 1000020, gb, pb)"
    "gr_maximum_action_count g = 4" "ControlEnvelope_ok (demo_envelope g pm)" "pm_issued_at_ms pm = 1000010"
    "\<forall>now. 1000010 \<le> now \<and> now \<le> 1000100 \<longrightarrow> verify_envelope_authority demo_ed25519 (demo_envelope g pm)
       (sg_verifier demo_signer) default_policy now [R_DOM] (Some demo_snapshot) = Inr R_DOM"
proof (rule demo_run)
  fix g pm
  assume g: "demo_grant_result = Inr g" "ControlGrant_ok g"
    and pm: "issue_permit demo_ed25519 demo_signer (sg_verifier demo_signer) default_policy g demo_request
       (demo_uuid 4) 1000010 1030000 = Inr pm" "ControlPermit_ok pm" "pm_routes pm = [R_DOM]"
    and env: "ControlEnvelope_ok (demo_envelope g pm)"
  note window = demo_permit_window [OF pm(1)]
  note gf = demo_grant_facts(1) [OF g(1)]
  have verifies: "verify_envelope_authority demo_ed25519 (demo_envelope g pm) (sg_verifier demo_signer) default_policy
      now [R_DOM] (Some demo_snapshot) = Inr R_DOM" if now: "1000010 \<le> now" "now \<le> 1000100" for now
  proof -
    obtain route where route: "verify_envelope_authority demo_ed25519 (demo_envelope g pm) (sg_verifier demo_signer) default_policy
        now [R_DOM] (Some demo_snapshot) = Inr route"
      using issue_permit_verifies [OF demo_key pm(1), of now "Some demo_snapshot" "[R_DOM]"] pm(3) now
      by (force simp add: demo_envelope_def demo_request_def demo_snapshot_def default_policy_def)
    have "route = R_DOM"
      by (rule verify_envelope_InrE [OF route]) (simp add: agreed_routes_def)
    with route show ?thesis by simp
  qed
  obtain gb pb where digests: "content_digest (ControlGrant_to_dict g) = Inr gb" "content_digest (ControlPermit_to_dict pm) = Inr pb"
    using grant.digest_defined [OF g(2)] permit.digest_defined [OF pm(2)] by blast
  obtain d where d: "ControlRequest_digest demo_request = Inr d" "digest_text d"
    using request.digest_defined [OF demo_request_ok] by (auto simp add: ControlRequest_digest_def)
  have auth: "claim_authority demo_ed25519 (demo_envelope g pm) R_DOM (sg_verifier demo_signer) default_policy demo_snapshot 1000020
       = Inr (demo_envelope g pm, 1000020, gb, pb)"
    using envelope.from_to [OF env] verifies [of 1000020] digests window gf pm(3)
    by (simp add: claim_authority_def accepts demo_envelope_def demo_request_def limits)
  show thesis
    by (rule that [OF g(2) _ _ _ d auth]) (use window gf env verifies in simp_all)
qed

section \<open>The run\<close>

lemma demo_journal:
  obtains g pm db0 db1 db2 db3 e where
    "reachable demo_ed25519 limit db0" "db_receipts db0 = []" "db_effects db0 = []"
    "demo_claim g pm db0 = (db1, Inr e)" "reachable demo_ed25519 limit db1"
    "db_effects db1 = [effect_to_row e]" "ef_effect_id e = demo_uuid 9" "ef_state e = PREPARED" "ef_transition_version e = 1"
    "ef_authority_key_id e = sg_key_id demo_signer" "ef_permit_id e = demo_uuid 4" "pm_permit_id pm = demo_uuid 4"
    "\<exists>w. db_grants db1 = [w]" "\<exists>p. db_permits db1 = [p] \<and> pw_permit_id p = demo_uuid 4" "db_receipts db1 = []"
    "transition io_ok (demo_uuid 9) STARTED 1000030 (str ''none'') EMPTY_EVIDENCE_DIGEST db1
       = (db2, Inr (moved_record e STARTED 1000030 (str ''none'') EMPTY_EVIDENCE_DIGEST))"
    "reachable demo_ed25519 limit db2"
    "transition io_ok (demo_uuid 9) UNKNOWN 1000040 (str ''lost'') EMPTY_EVIDENCE_DIGEST db2 = (db3, Inr
       (moved_record (moved_record e STARTED 1000030 (str ''none'') EMPTY_EVIDENCE_DIGEST) UNKNOWN 1000040 (str ''lost'') EMPTY_EVIDENCE_DIGEST))"
    "reachable demo_ed25519 limit db3" "db_receipts db3 = []" "identity_ok (db_identity db3)"
    "db_effects db3 = [effect_to_row (moved_record (moved_record e STARTED 1000030 (str ''none'') EMPTY_EVIDENCE_DIGEST)
       UNKNOWN 1000040 (str ''lost'') EMPTY_EVIDENCE_DIGEST)]"
    "db_revocations db1 = []" "ControlEnvelope_ok (demo_envelope g pm)" "pm_issued_at_ms pm = 1000010"
    "\<forall>now. 1000010 \<le> now \<and> now \<le> 1000100 \<longrightarrow> verify_envelope_authority demo_ed25519 (demo_envelope g pm)
       (sg_verifier demo_signer) default_policy now [R_DOM] (Some demo_snapshot) = Inr R_DOM"
    "\<exists>d. ControlRequest_digest demo_request = Inr d \<and> e = claimed_record (demo_uuid 9) (demo_envelope g pm) d R_DOM 1000020"
    "db_effects db2 = [effect_to_row (moved_record e STARTED 1000030 (str ''none'') EMPTY_EVIDENCE_DIGEST)]" "db_receipts db2 = []"
proof -
  obtain g pm gb pb d where auth: "ControlGrant_ok g" "pm_expires_at_ms pm = 1030000" "pm_permit_id pm = demo_uuid 4"
    "pm_authority_key_id pm = sg_key_id demo_signer" "ControlRequest_digest demo_request = Inr d" "digest_text d"
    "claim_authority demo_ed25519 (demo_envelope g pm) R_DOM (sg_verifier demo_signer) default_policy demo_snapshot 1000020
       = Inr (demo_envelope g pm, 1000020, gb, pb)"
    "gr_maximum_action_count g = 4" "ControlEnvelope_ok (demo_envelope g pm)" "pm_issued_at_ms pm = 1000010"
    "\<forall>now. 1000010 \<le> now \<and> now \<le> 1000100 \<longrightarrow> verify_envelope_authority demo_ed25519 (demo_envelope g pm)
       (sg_verifier demo_signer) default_policy now [R_DOM] (Some demo_snapshot) = Inr R_DOM"
    by (rule demo_authority)
  obtain journal_id where nonce: "journal_nonce_id (replicate 16 0) = Inr journal_id" using demo_nonce by blast
  let ?db0 = "new_journal journal_id" and ?env = "demo_envelope g pm"
  let ?db1 = "claimed_db ?db0 (demo_uuid 9) ?env R_DOM 1000020 gb pb d"
    and ?e = "claimed_record (demo_uuid 9) ?env d R_DOM 1000020"
  let ?e2 = "moved_record ?e STARTED 1000030 (str ''none'') EMPTY_EVIDENCE_DIGEST"
  let ?e3 = "moved_record ?e2 UNKNOWN 1000040 (str ''lost'') EMPTY_EVIDENCE_DIGEST"
  have r0: "reachable demo_ed25519 limit ?db0" using nonce by (rule reachable.init)
  have "claimable ?db0 ?env 1000020 gb"
    by (simp add: claimable_def new_journal_def is_revoked_in_def grant_claimable_def session_claimable_def
        target_claimable_def demo_envelope_def demo_request_def)
  then have "claim_tx (demo_uuid 9) ?env R_DOM 1000020 gb pb ?db0 = Inr (?db1, ?e)"
    using claim_tx_iff [OF reachable_ok [OF r0] claim_authority_ready(1) [OF auth(7)] _ demo_uuid_text, of 9 d ?db1 ?e] auth(5,6)
    by (simp add: new_journal_def demo_envelope_def)
  then have claim: "demo_claim g pm ?db0 = (?db1, Inr ?e)"
    using auth(7) by (simp add: claim_def demo_random)
  have r1: "reachable demo_ed25519 limit ?db1"
    using r0 journal_step.claim [OF demo_random(1) claim] by (rule reachable.step)
  have effects1: "db_effects ?db1 = [effect_to_row ?e]"
    by (simp add: claimed_db_def new_journal_def claimed_record_row)
  have texts: "safe_id_text (str ''none'')" "safe_id_text (str ''lost'')"
    by (simp_all add: safe_id_text_def str_def char_classes)
  have e: "ef_state ?e = PREPARED" "ef_effect_id ?e = demo_uuid 9" "ef_updated_at_ms ?e = 1000020"
    by (simp_all add: claimed_record_def Let_def)
  have startable: "startable ?db1 ?e \<and> permit_live ?db1 (ef_permit_id ?e) 1000030"
    using auth(2) by (simp add: startable_def permit_live_def is_revoked_in_def claimed_db_def new_journal_def targets_after_def
        claimed_record_def claimed_permit_def demo_envelope_def target_version_def effect_version_def effect_to_row_def Let_def)
  have "transition_tx (demo_uuid 9) STARTED 1000030 (str ''none'') EMPTY_EVIDENCE_DIGEST ?db1 = Inr (moved_db ?db1 ?e2, ?e2)"
    using transition_tx_iff [OF reachable_ok [OF r1], of 1000030 "str ''none''" EMPTY_EVIDENCE_DIGEST "demo_uuid 9" STARTED
        "moved_db ?db1 ?e2" ?e2] startable start_checks_iff [OF reachable_ok [OF r1], of 1000030 ?e]
      effects1 e texts empty_digests(1) by (auto simp add: limits)
  then have start: "transition io_ok (demo_uuid 9) STARTED 1000030 (str ''none'') EMPTY_EVIDENCE_DIGEST ?db1
      = (moved_db ?db1 ?e2, Inr ?e2)"
    using texts empty_digests(1) demo_uuid_text
    by (simp add: transition_def transition_inputs_def input_uuid_def require_uuid_def require_pattern_def input_time_def
        input_reason_def input_evidence_def reject_if_def limits)
  have r2: "reachable demo_ed25519 limit (moved_db ?db1 ?e2)"
    using r1 journal_step.transition [OF start] by (rule reachable.step)
  have effects2: "db_effects (moved_db ?db1 ?e2) = [effect_to_row ?e2]"
    by (simp add: moved_db_def effects1 moved_effects_def update_where_def moved_record_def)
  have e2: "ef_state ?e2 = STARTED" "ef_effect_id ?e2 = demo_uuid 9" "ef_updated_at_ms ?e2 = 1000030"
    using e by (simp_all add: moved_record_def)
  have "transition_tx (demo_uuid 9) UNKNOWN 1000040 (str ''lost'') EMPTY_EVIDENCE_DIGEST (moved_db ?db1 ?e2)
      = Inr (moved_db (moved_db ?db1 ?e2) ?e3, ?e3)"
    using transition_tx_iff [OF reachable_ok [OF r2], of 1000040 "str ''lost''" EMPTY_EVIDENCE_DIGEST "demo_uuid 9" UNKNOWN
        "moved_db (moved_db ?db1 ?e2) ?e3" ?e3] effects2 e2 texts empty_digests(1) by (auto simp add: limits)
  then have lost: "transition io_ok (demo_uuid 9) UNKNOWN 1000040 (str ''lost'') EMPTY_EVIDENCE_DIGEST (moved_db ?db1 ?e2)
      = (moved_db (moved_db ?db1 ?e2) ?e3, Inr ?e3)"
    using texts empty_digests(1) demo_uuid_text
    by (simp add: transition_def transition_inputs_def input_uuid_def require_uuid_def require_pattern_def input_time_def
        input_reason_def input_evidence_def reject_if_def limits str_def)
  have r3: "reachable demo_ed25519 limit (moved_db (moved_db ?db1 ?e2) ?e3)"
    using r2 journal_step.transition [OF lost] by (rule reachable.step)
  have effects3: "db_effects (moved_db (moved_db ?db1 ?e2) ?e3) = [effect_to_row ?e3]"
    by (simp add: moved_db_def [of "moved_db ?db1 ?e2"] effects2 moved_effects_def update_where_def)
      (simp add: moved_record_def)
  show thesis
    by (rule that [OF r0 _ _ claim r1 effects1 e(2,1) _ _ _ auth(3) _ _ _ start r2 lost r3 _ _ effects3 _ auth(9-11) _ effects2])
      (use reachable_ok [OF r3] in \<open>simp_all add: new_journal_def claimed_record_def claimed_db_def claimed_permit_def
        demo_envelope_def auth(3-5) moved_db_def journal_ok_def grants_after_def update_where_def Let_def\<close>)
qed

lemma demo_limit: "Suc MAX_JSON_DEPTH \<le> 1000"
  by (simp add: limits)

lemma empty_chain:
  assumes "identity_ok (db_identity db)" "db_receipts db = []"
  shows "\<exists>journal_id. journal_id_of db = Inr journal_id \<and> receipt_sequence_from_connection ed limit vf db = Inr []"
  using assms by (auto simp add: identity_ok_def journal_id_of_def receipt_sequence_from_connection_def require_digest_def require_pattern_def)

text \<open>The receipt of the unknown effect.\<close>

lemma demo_receipt:
  obtains db3 db4 r e where "reachable demo_ed25519 1000 db3" "effect_to_row e \<in> set (db_effects db3)" "is_receiptable e"
    "ef_authority_key_id e = sg_key_id demo_signer"
    "receipt_sequence_from_connection demo_ed25519 1000 (sg_verifier demo_signer) db3 = Inr []"
    "finalize_receipt_unanchored io_ok demo_ed25519 1000 (ef_effect_id e) demo_signer 1000050 db3 = (db4, Inr r)"
    "receipt_sequence_from_connection demo_ed25519 1000 (sg_verifier demo_signer) db4 = Inr [r]"
proof (rule demo_journal [of 1000])
  fix g pm db0 db1 db2 db3 e
  let ?e = "moved_record (moved_record e STARTED 1000030 (str ''none'') EMPTY_EVIDENCE_DIGEST) UNKNOWN 1000040 (str ''lost'')
      EMPTY_EVIDENCE_DIGEST"
  assume db3: "reachable demo_ed25519 1000 db3" "db_receipts db3 = []" "identity_ok (db_identity db3)"
    "db_effects db3 = [effect_to_row ?e]" "ef_authority_key_id e = sg_key_id demo_signer" "ef_effect_id e = demo_uuid 9"
  have e: "effect_to_row ?e \<in> set (db_effects db3)" "is_receiptable ?e" "ef_authority_key_id ?e = sg_key_id demo_signer"
    "canonical_uuid_text (ef_effect_id ?e)"
    using db3 demo_uuid_text by (simp_all add: is_receiptable_def RECEIPT_STATES_def moved_record_def)
  have chain: "receipt_sequence_from_connection demo_ed25519 1000 (sg_verifier demo_signer) db3 = Inr []"
    using empty_chain [OF db3(3,2)] by blast
  obtain db4 r where tx: "finalize_tx demo_ed25519 1000 demo_signer (ef_effect_id ?e) 1000050 db3 = Inr (db4, r)"
    using finalize_tx_defined [OF demo_key reachable_ok [OF db3(1)] chain _ e(1-3), of 1000050] db3(2) by (auto simp add: limits)
  then have "finalize_receipt_unanchored io_ok demo_ed25519 1000 (ef_effect_id ?e) demo_signer 1000050 db3 = (db4, Inr r)"
    using e(4) by (simp add: finalize_receipt_unanchored_def input_uuid_def require_uuid_def require_pattern_def input_time_def limits)
  moreover have "receipt_sequence_from_connection demo_ed25519 1000 (sg_verifier demo_signer) db4 = Inr [r]"
    using finalize_tx_chain [OF demo_limit chain tx] by simp
  ultimately show thesis using that [OF db3(1) e(1-3) chain] by blast
qed

section \<open>The theorems of the journal at this run\<close>

lemma journal_refines_spec_witness:
  "\<exists>db db'. reachable demo_ed25519 1000 db \<and> journal_step demo_ed25519 1000 db db' \<and> journal_spec db db' \<and> db' \<noteq> db"
proof (rule demo_journal [of 1000])
  fix g pm db0 db1 e
  assume run: "reachable demo_ed25519 1000 db0" "demo_claim g pm db0 = (db1, Inr e)" "db_effects db0 = []"
    "db_effects db1 = [effect_to_row e]"
  have "journal_step demo_ed25519 1000 db0 db1" using demo_random(1) run(2) by (rule journal_step.claim)
  with journal_refines_spec [OF run(1) this] run show ?thesis by (intro exI [of _ db0] exI [of _ db1]) auto
qed

lemma journal_invariant_witness: "\<exists>db. journal_ok db \<and> db_effects db \<noteq> []"
proof (rule demo_journal [of 1000])
  fix db1 e
  assume "reachable demo_ed25519 1000 db1" "db_effects db1 = [effect_to_row e]"
  with journal_invariant [of demo_ed25519 1000 db1] show ?thesis by (intro exI [of _ db1]) simp
qed

lemma run_one: "journal_step ed limit db db' \<Longrightarrow> journal_run ed limit db db'"
  by (simp add: journal_run_def)

lemma permit_single_use_witness:
  "\<exists>g pm db db' e x. reachable demo_ed25519 1000 db \<and> db_effects db = [effect_to_row e]
     \<and> journal_run demo_ed25519 1000 db db' \<and> demo_claim g pm db' = (db', Inl x)"
proof (rule demo_journal [of 1000])
  fix g and pm :: ControlPermit and db0 db1 db2 db3 e
  assume run: "reachable demo_ed25519 1000 db1" "\<exists>p. db_permits db1 = [p] \<and> pw_permit_id p = demo_uuid 4"
    "pm_permit_id pm = demo_uuid 4" and start: "transition io_ok (demo_uuid 9) STARTED 1000030 (str ''none'') EMPTY_EVIDENCE_DIGEST db1
       = (db2, Inr (moved_record e STARTED 1000030 (str ''none'') EMPTY_EVIDENCE_DIGEST))"
    and effects: "db_effects db1 = [effect_to_row e]"
  obtain p where p: "p \<in> set (db_permits db1)" "pw_permit_id p = demo_uuid 4" using run(2) by auto
  have "pm_permit_id (en_permit (demo_envelope g pm)) = pw_permit_id p" using run(3) p(2) by (simp add: demo_envelope_def)
  moreover have later: "journal_run demo_ed25519 1000 db1 db2"
    using journal_step.transition [OF start] by (rule run_one)
  ultimately obtain x where "demo_claim g pm db2 = (db2, Inl x)"
    using permit_single_use [OF run(1) p(1) later demo_random(1)] by blast
  with run(1) effects later show ?thesis by blast
qed

lemma grant_budget_witness:
  "\<exists>db w. reachable demo_ed25519 1000 db \<and> w \<in> set (db_grants db)
     \<and> length (filter (\<lambda>x. ew_grant_id x = gw_grant_id w) (db_effects db)) \<le> 16 \<and> db_effects db \<noteq> []"
proof (rule demo_journal [of 1000])
  fix db1 e
  assume r: "reachable demo_ed25519 1000 db1" and effects: "db_effects db1 = [effect_to_row e]" and "\<exists>w. db_grants db1 = [w]"
  then obtain w where w: "w \<in> set (db_grants db1)" by auto
  have "length (filter (\<lambda>x. ew_grant_id x = gw_grant_id w) (db_effects db1)) \<le> 16"
    using effects by simp
  with grant_budget [OF r w] r w effects show ?thesis by (intro exI [of _ db1] exI [of _ w]) simp
qed

lemma session_contiguous_witness:
  "\<exists>db session_id. reachable demo_ed25519 1000 db \<and> db_effects db \<noteq> []
     \<and> session_sequences (db_effects db) session_id = [1..int (length (session_sequences (db_effects db) session_id))]"
proof (rule demo_journal [of 1000])
  fix db1 e
  assume "reachable demo_ed25519 1000 db1" "db_effects db1 = [effect_to_row e]"
  with session_contiguous [of demo_ed25519 1000 db1] show ?thesis by (intro exI [of _ db1] exI) simp
qed

lemma revoked_never_started_witness:
  "\<exists>db db' (e :: ControlEffectRecord) e'. reachable demo_ed25519 1000 db \<and> is_revoked_in db REVOKED_PERMIT (ef_permit_id e)
     \<and> journal_run demo_ed25519 1000 db db' \<and> effect_to_row e' \<in> set (db_effects db') \<and> ef_state e' \<in> {PREPARED, FAILED}"
proof (rule demo_journal [of 1000])
  fix db1 e
  assume r: "reachable demo_ed25519 1000 db1" and effects: "db_effects db1 = [effect_to_row e]" and e: "ef_state e = PREPARED"
    "ef_permit_id e = demo_uuid 4" and none: "db_revocations db1 = []"
  define db2 where "db2 = db1\<lparr>db_revocations := [\<lparr>vw_kind = REVOKED_PERMIT, vw_object_id = demo_uuid 4,
    vw_revoked_at_ms = 1000025, vw_reason_code = str ''agent.main''\<rparr>]\<rparr>"
  have "revoke io_ok REVOKED_PERMIT (demo_uuid 4) 1000025 (str ''agent.main'') db1 = (db2, Inr ())"
    using none demo_ids by (simp add: revoke_def input_uuid_def require_uuid_def require_pattern_def input_time_def input_reason_def
        insert_or_ignore_revocation_def revocation_check_def db2_def limits)
  from reachable.step [OF r journal_step.revoke [OF this]] have r2: "reachable demo_ed25519 1000 db2" .
  have mem: "effect_to_row e \<in> set (db_effects db2)" using effects by (simp add: db2_def)
  have revoked: "is_revoked_in db2 REVOKED_PERMIT (ef_permit_id e)"
    using e(2) by (simp add: is_revoked_in_def revocation_key_def db2_def)
  have run: "journal_run demo_ed25519 1000 db2 db2" by (simp add: journal_run_def)
  have "ef_state e \<in> {PREPARED, FAILED}"
    using revoked_never_started [OF r2 mem e(1) disjI2 [OF revoked] run mem refl] .
  with r2 revoked run mem show ?thesis by (intro exI [of _ db2] exI [of _ e] conjI)
qed

lemma effect_only_advances_witness:
  "\<exists>db db' e e'. reachable demo_ed25519 1000 db \<and> effect_to_row e \<in> set (db_effects db)
     \<and> journal_run demo_ed25519 1000 db db' \<and> effect_to_row e' \<in> set (db_effects db') \<and> effect_later e e'"
proof (rule demo_journal [of 1000])
  fix db0 db1 db2 db3 e
  assume r: "reachable demo_ed25519 1000 db1" and effects: "db_effects db1 = [effect_to_row e]"
    and start: "transition io_ok (demo_uuid 9) STARTED 1000030 (str ''none'') EMPTY_EVIDENCE_DIGEST db1
       = (db2, Inr (moved_record e STARTED 1000030 (str ''none'') EMPTY_EVIDENCE_DIGEST))"
  have run: "journal_run demo_ed25519 1000 db1 db2" using journal_step.transition [OF start] by (rule run_one)
  have mem: "effect_to_row e \<in> set (db_effects db1)" using effects by simp
  from effect_only_advances [OF r mem run] r run mem show ?thesis by blast
qed

lemma started_at_current_fence_witness:
  "\<exists>db db' e w. transition io_ok (demo_uuid 9) STARTED 1000030 (str ''none'') EMPTY_EVIDENCE_DIGEST db = (db', Inr e)
     \<and> w \<in> set (db_effects db) \<and> version_le (effect_version w) (effect_version (effect_to_row e))
     \<and> permit_live db (ef_permit_id e) 1000030"
proof (rule demo_journal [of 1000])
  fix db0 db1 db2 db3 e
  let ?later = "moved_record e STARTED 1000030 (str ''none'') EMPTY_EVIDENCE_DIGEST"
  assume r: "reachable demo_ed25519 1000 db1" and effects: "db_effects db1 = [effect_to_row e]"
    and start: "transition io_ok (demo_uuid 9) STARTED 1000030 (str ''none'') EMPTY_EVIDENCE_DIGEST db1 = (db2, Inr ?later)"
  have mem: "effect_to_row e \<in> set (db_effects db1)" "ew_target_id (effect_to_row e) = ef_target_id ?later"
    using effects by (simp_all add: effect_to_row_def moved_record_def)
  from started_at_current_fence [OF r start mem] start mem(1) show ?thesis by blast
qed

lemma claim_succeeds_iff_witness:
  "\<exists>g pm db db' e. reachable demo_ed25519 1000 db \<and> demo_claim g pm db = (db', Inr e)
     \<and> (\<exists>env gb. claimable db env 1000020 gb)"
proof (rule demo_journal [of 1000])
  fix g pm db0 db1 e
  assume r: "reachable demo_ed25519 1000 db0" and run: "demo_claim g pm db0 = (db1, Inr e)"
  from claim_succeeds_iff [OF r demo_random(1)] run
  have "\<exists>env gb. claimable db0 env 1000020 gb" by blast
  with r run show ?thesis by blast
qed

lemma transition_succeeds_iff_witness:
  "\<exists>db db' e later. reachable demo_ed25519 1000 db
     \<and> transition io_ok (demo_uuid 9) UNKNOWN 1000040 (str ''lost'') EMPTY_EVIDENCE_DIGEST db = (db', Inr later)
     \<and> effect_to_row e \<in> set (db_effects db) \<and> UNKNOWN \<in> ALLOWED_TRANSITIONS (ef_state e) \<and> db' = moved_db db later"
proof (rule demo_journal [of 1000])
  fix db0 db1 db2 db3 e
  let ?e3 = "moved_record (moved_record e STARTED 1000030 (str ''none'') EMPTY_EVIDENCE_DIGEST) UNKNOWN 1000040 (str ''lost'')
      EMPTY_EVIDENCE_DIGEST"
  assume r: "reachable demo_ed25519 1000 db2"
    and lost: "transition io_ok (demo_uuid 9) UNKNOWN 1000040 (str ''lost'') EMPTY_EVIDENCE_DIGEST db2 = (db3, Inr ?e3)"
  from iffD1 [OF transition_succeeds_iff [OF r] lost] r lost show ?thesis by blast
qed

lemma finalize_extends_chain_witness:
  "\<exists>db db' r id. finalize_receipt_unanchored io_ok demo_ed25519 1000 id demo_signer 1000050 db = (db', Inr r)
     \<and> finalize_receipt_unanchored io_ok demo_ed25519 1000 id demo_signer 1000060 db' = (db', Inr r)"
proof (rule demo_receipt)
  fix db3 db4 r e
  assume run: "receipt_sequence_from_connection demo_ed25519 1000 (sg_verifier demo_signer) db3 = Inr []"
    "finalize_receipt_unanchored io_ok demo_ed25519 1000 (ef_effect_id e) demo_signer 1000050 db3 = (db4, Inr r)"
  from finalize_extends_chain [OF demo_limit run, of 1000060] run(2) show ?thesis
    by (intro exI [of _ db3] exI [of _ db4] exI [of _ r] exI [of _ "ef_effect_id e"]) (simp add: limits)
qed

lemma head_pins_history_witness:
  "\<exists>db rs. receipt_sequence_from_connection demo_ed25519 1000 (sg_verifier demo_signer) db = Inr rs \<and> rs \<noteq> []
     \<and> (prefix rs rs \<or> (\<exists>r \<in> set rs. \<exists>r' \<in> set rs. receipt_collision r r'))"
proof (rule demo_receipt)
  fix db4 r
  assume run: "receipt_sequence_from_connection demo_ed25519 1000 (sg_verifier demo_signer) db4 = Inr [r]"
  from head_pins_history [OF run run] run show ?thesis by (intro exI [of _ db4] exI [of _ "[r]"]) simp
qed

lemma finalize_succeeds_witness:
  "\<exists>db db' r id. finalize_receipt_unanchored io_ok demo_ed25519 1000 id demo_signer 1000050 db = (db', Inr r)
     \<and> receipt_sequence_from_connection demo_ed25519 1000 (sg_verifier demo_signer) db' = Inr [r]"
proof (rule demo_receipt)
  fix db3 e
  assume run: "reachable demo_ed25519 1000 db3" "effect_to_row e \<in> set (db_effects db3)" "is_receiptable e"
    "ef_authority_key_id e = sg_key_id demo_signer"
    "receipt_sequence_from_connection demo_ed25519 1000 (sg_verifier demo_signer) db3 = Inr []"
  from finalize_succeeds [OF demo_key demo_limit run(1,5) _ run(2-4), of 1000050] show ?thesis
    by (auto simp add: limits)
qed

text \<open>The receipt in an anchor.\<close>

lemma demo_anchor:
  obtains db r journal_id blob where "steady (static_anchor 1000) demo_ed25519 1000 (sg_verifier demo_signer) journal_id [r] (store, db)"
    "ControlReceipt_ok r" "rc_journal_id r = journal_id" "verify_control_receipt demo_ed25519 r (sg_verifier demo_signer) = Inr ()"
    "bytes_of r blob"
proof (rule demo_receipt)
  fix db4 r
  assume run: "receipt_sequence_from_connection demo_ed25519 1000 (sg_verifier demo_signer) db4 = Inr [r]"
  obtain journal_id where id: "journal_id_of db4 = Inr journal_id" "linked journal_id 1 EMPTY_RECEIPT_HEAD_DIGEST [r]"
    using sequence_linked [OF run] by blast
  then obtain blob where "bytes_of r blob"
    using receipt.canonical_defined [of r] by (auto simp add: bytes_of_def)
  moreover have "verify_control_receipt demo_ed25519 r (sg_verifier demo_signer) = Inr ()"
    using list_all2_member [OF chain_rows(1) [OF run]] chain_rows(1) [OF run] receipt_from_row_D
    by (auto simp add: list_all2_conv_all_nth)
  moreover have "steady (static_anchor 1000) demo_ed25519 1000 (sg_verifier demo_signer) journal_id [r] (store, db4)"
    using run id(1) by (simp add: steady_def static_anchor_def)
  ultimately show thesis using that id(2) by simp
qed

lemma static_anchor_sync_witness:
  "\<exists>store db journal_id rs s'. rs \<noteq> [] \<and> ss_anchors store journal_id \<noteq> None
     \<and> synchronize_receipt_anchor_sequence (Some (static_anchor 1000)) io_ok demo_ed25519 1000 (sg_verifier demo_signer)
         journal_id False rs (store, db) = s' \<and> snd (snd s') = Inr ()"
proof -
  obtain db r journal_id blob where run:
    "\<And>store. steady (static_anchor 1000) demo_ed25519 1000 (sg_verifier demo_signer) journal_id [r] (store, db)"
    "ControlReceipt_ok r" "rc_journal_id r = journal_id" "verify_control_receipt demo_ed25519 r (sg_verifier demo_signer) = Inr ()"
    "bytes_of r blob"
    by (rule demo_anchor) (simp add: steady_def static_anchor_def)
  let ?store = "\<lparr>ss_keys = Map.empty, ss_anchors = [journal_id \<mapsto> blob]\<rparr>"
  have "\<exists>s' allowed' outcome.
    synchronize_receipt_anchor_sequence (Some (static_anchor 1000)) io_ok demo_ed25519 1000 (sg_verifier demo_signer)
         journal_id False [r] (?store, db) = (s', allowed', outcome) \<and> outcome = Inr ()"
    using static_anchor_sync [OF demo_limit run(1) [of ?store], of False] run(2-5) by auto
  then show ?thesis by (intro exI [of _ ?store] exI [of _ db] exI [of _ journal_id] exI [of _ "[r]"]) auto
qed

lemma anchor_sync_sound_witness:
  "\<exists>journal_id r store db s' allowed'.
     synchronize_receipt_anchor (Some (static_anchor 1000)) io_ok demo_ed25519 1000 (sg_verifier demo_signer) False db (store, db)
       = (s', allowed', Inr (Some r))
     \<and> (\<exists>rs s1 loaded. signed_sequence demo_ed25519 (sg_verifier demo_signer) journal_id rs
         \<and> as_load (static_anchor 1000) s1 journal_id = (s', loaded) \<and> anchored_head loaded rs)"
proof -
  obtain db r journal_id blob where run:
    "\<And>store. steady (static_anchor 1000) demo_ed25519 1000 (sg_verifier demo_signer) journal_id [r] (store, db)" "bytes_of r blob"
    by (rule demo_anchor) (simp add: steady_def static_anchor_def)
  let ?store = "\<lparr>ss_keys = Map.empty, ss_anchors = [journal_id \<mapsto> blob]\<rparr>"
  have "anchor_attempt (static_anchor 1000) io_ok demo_ed25519 1000 (sg_verifier demo_signer) journal_id False [r] (?store, db)
      = ((?store, db), False, Done (Inr ()))"
    by (rule anchor_cell.attempt_head [OF static_anchor_cell [OF demo_limit]
        anchor_cell.steady_ready [OF static_anchor_cell [OF demo_limit] run(1)]]) (use run(2) in simp_all)
  then have sync: "synchronize_receipt_anchor_sequence (Some (static_anchor 1000)) io_ok demo_ed25519 1000 (sg_verifier demo_signer)
      journal_id False [r] (?store, db) = ((?store, db), False, Inr ())"
    by (simp add: synchronize_receipt_anchor_sequence_def MAX_RECEIPT_ANCHOR_RETRIES_def eval_nat_numeral)
  have "read_receipt_sequence io_ok demo_ed25519 1000 (sg_verifier demo_signer) db = Inr (journal_id, [r])"
    using run(1) by (simp add: steady_def static_anchor_def read_receipt_sequence_def)
  with sync have "synchronize_receipt_anchor (Some (static_anchor 1000)) io_ok demo_ed25519 1000 (sg_verifier demo_signer) False
      db (?store, db) = ((?store, db), False, Inr (Some r))"
    by (simp add: synchronize_receipt_anchor_def)
  from anchor_sync_sound [OF this] this show ?thesis by blast
qed

lemma receipt_fits_anchor_witness:
  "\<exists>r bs. canonical_json_bytes (ControlReceipt_to_dict r) = Inr bs \<and> length bs \<le> MAX_RECEIPT_ANCHOR_BYTES"
proof -
  obtain db r journal_id blob where
    "\<And>store. steady (static_anchor 1000) demo_ed25519 1000 (sg_verifier demo_signer) journal_id [r] (store, db)"
    "ControlReceipt_ok r"
    by (rule demo_anchor) (simp add: steady_def static_anchor_def)
  from receipt_fits_anchor [OF this(2) demo_limit] show ?thesis by blast
qed

end
