(* ===== verification/Runtime_Scenario.thy ===== *)
theory Runtime_Scenario
  imports Runtime_Complete Journal_Scenario
begin

text \<open>
  The run of the kernel and the journal in the runtime: \<open>execute\<close> crashes right after the dispatch, and
  \<open>recover\<close> finds the effect done, with fresh evidence. The run shows that the hypotheses of the theorems on
  the runtime hold together.
\<close>

section \<open>A platform and an adapter\<close>

text \<open>The state of the platform counts the readings of its clock.\<close>

definition demo_tick :: "nat \<Rightarrow> int" where
  "demo_tick n = (if n = 0 then 1000020 else 1000030)"

definition demo_platform :: "nat platform" where
  "demo_platform = \<lparr>pf_clock = (\<lambda>n. (Suc n, Some (demo_tick n))), pf_token = (\<lambda>n. (n, demo_random)),
     pf_faults = (\<lambda>n. (n, io_ok)), pf_others = (\<lambda>_ db. db), pf_anchor = None\<rparr>"

definition demo_runtime :: "nat ControlRuntime" where
  "demo_runtime = \<lparr>rt_ed25519 = demo_ed25519, rt_recursion_limit = 1000, rt_platform = demo_platform,
     rt_verifier = sg_verifier demo_signer, rt_policy = default_policy, rt_receipt_signer = demo_signer\<rparr>"

definition demo_after :: SnapshotRef where
  "demo_after = demo_snapshot\<lparr>sn_snapshot_id := demo_uuid 70, sn_observed_at_ms := 1000015, sn_sequence := 2\<rparr>"

definition demo_answer :: "pystr \<Rightarrow> reconcile_reply" where
  "demo_answer effect_id = (case fresh_postcondition_evidence effect_id (str ''agent.main'') demo_after of
     Inl _ \<Rightarrow> Raised
   | Inr d \<Rightarrow> Reply (Some RECONCILED_VERIFIED, PStr (str ''agent.main''), PStr d, Postcondition demo_after))"

definition demo_adapter :: "nat ControlAdapter" where
  "demo_adapter = \<lparr>available_routes = (\<lambda>_ n. (n, Reply [Some R_DOM])), current_snapshot = (\<lambda>_ n. (n, Reply demo_snapshot)),
     adapter_dispatch = (\<lambda>_ _ _ n. (n, Reply (Some DISPATCH_APPLIED, PStr (str ''none''), PStr EMPTY_EVIDENCE_DIGEST))),
     adapter_reconcile = (\<lambda>effect_id _ _ n. (n, demo_answer effect_id))\<rparr>"

lemma demo_parts: "rt_ed25519 demo_runtime = demo_ed25519" "rt_verifier demo_runtime = sg_verifier demo_signer"
    "rt_policy demo_runtime = default_policy" "pf_token (rt_platform demo_runtime) n = (n, demo_random)"
  by (simp_all add: demo_runtime_def demo_platform_def)

lemma demo_sound: "sound_platform demo_ed25519 1000 demo_runtime" "alone demo_runtime" "keyed demo_ed25519 demo_runtime"
  using demo_random(1) demo_key
  by (auto simp add: sound_platform_def alone_def keyed_def demo_runtime_def demo_platform_def journal_run_refl)

lemma demo_snapshots: "SnapshotRef_ok demo_snapshot" "matches_target demo_snapshot demo_target" "SnapshotRef_ok demo_after"
  by (simp_all add: demo_after_def demo_snapshot_def demo_target_def SnapshotRef_ok_def matches_target_def demo_ids limits)

lemma demo_wellformed: "wellformed_reply (demo_answer effect_id)"
  by (auto simp add: demo_answer_def wellformed_reply_def demo_snapshots split: sum.splits)

lemma demo_healthy: "healthy demo_runtime demo_adapter demo_tick (\<lambda>_ _. None)"
  using demo_sound(2) demo_wellformed
  by (simp add: healthy_def ticks_def demo_runtime_def demo_platform_def demo_adapter_def demo_tick_def limits)

section \<open>The execution\<close>

definition demo_world :: "journal_db \<Rightarrow> nat world" where
  "demo_world db = \<lparr>w_env = 0, w_journal = db, w_bootstrap = False, w_calls = []\<rparr>"

definition demo_dispatched :: "ControlEffectRecord \<Rightarrow> journal_db \<Rightarrow> nat world" where
  "demo_dispatched e db = \<lparr>w_env = 3, w_journal = db, w_bootstrap = False, w_calls = [Dispatched e demo_request db]\<rparr>"

lemma demo_execute:
  assumes "ControlEnvelope_ok (demo_envelope g pm)"
    and "\<forall>now. 1000010 \<le> now \<and> now \<le> 1000100 \<longrightarrow> verify_envelope_authority demo_ed25519 (demo_envelope g pm)
       (sg_verifier demo_signer) default_policy now [R_DOM] (Some demo_snapshot) = Inr R_DOM"
    and "demo_claim g pm db0 = (db1, Inr e)" "ef_effect_id e = demo_uuid 9" "ef_route e = R_DOM"
    and "transition io_ok (demo_uuid 9) STARTED 1000030 (str ''none'') EMPTY_EVIDENCE_DIGEST db1 = (db2, Inr e2)"
  shows "runtime_execute demo_runtime demo_adapter (demo_envelope g pm) (Some AFTER_DISPATCH) (demo_world db0)
    = (demo_dispatched e2 db2, Inl (SimulatedControlCrash ''after_dispatch''))"
proof -
  have target: "rq_target (en_request (demo_envelope g pm)) = demo_target" by (simp add: demo_envelope_def demo_request_def)
  have routes: "runtime_routes demo_adapter demo_target w = (w, Inr [R_DOM])" for w
    by (simp add: runtime_routes_def andthen_def ask_def demo_adapter_def done_with_def ROUTE_ORDER_def map_filter_simps)
  have snapshot: "runtime_snapshot demo_adapter demo_target w = (w, Inr demo_snapshot)" for w
    by (simp add: runtime_snapshot_def andthen_def ask_def demo_adapter_def done_with_def snapshot.from_to demo_snapshots)
  have now: "runtime_now demo_runtime w = (w\<lparr>w_env := Suc (w_env w)\<rparr>, Inr (demo_tick (w_env w)))" for w
    by (simp add: runtime_now_def andthen_def ask_def demo_runtime_def demo_platform_def done_with_def demo_tick_def limits)
  have journal: "on_journal demo_runtime f w = (case f io_ok (w_journal w) of (db, r) \<Rightarrow> (w\<lparr>w_journal := db\<rparr>, r))" for f w
    by (cases w) (simp add: on_journal_def demo_runtime_def demo_platform_def split: prod.splits)
  have verify: "verify_envelope_authority demo_ed25519 (demo_envelope g pm) (sg_verifier demo_signer) default_policy t
      [R_DOM] (Some demo_snapshot) = Inr R_DOM" if "t \<in> {1000020, 1000030}" for t
    using assms(2) that by auto
  have "prepare demo_runtime demo_adapter (demo_envelope g pm) (Some AFTER_DISPATCH) (demo_world db0)
      = (\<lparr>w_env = 1, w_journal = db1, w_bootstrap = False, w_calls = []\<rparr>, Inr (demo_envelope g pm, e))"
    using envelope.from_to [OF assms(1)] assms(3)
    by (simp add: prepare_def andthen_def lift_result_def target routes snapshot now verify runtime_claim_def ask_def journal
        maybe_crash_def done_with_def demo_world_def demo_tick_def demo_parts)
  moreover have "start_effect demo_runtime demo_adapter (demo_envelope g pm) e (Some AFTER_DISPATCH)
      \<lparr>w_env = 1, w_journal = db1, w_bootstrap = False, w_calls = []\<rparr>
      = (\<lparr>w_env = 3, w_journal = db2, w_bootstrap = False, w_calls = []\<rparr>, Inr (Inr e2))"
    using assms(4-6)
    by (simp add: start_effect_def handle_def start_body_def andthen_def lift_result_def target routes snapshot now verify
        runtime_transition_def journal maybe_crash_def done_with_def demo_tick_def demo_parts)
  moreover have "dispatch_started demo_runtime demo_adapter (demo_envelope g pm) e2 (Some AFTER_DISPATCH)
      \<lparr>w_env = 3, w_journal = db2, w_bootstrap = False, w_calls = []\<rparr>
      = (demo_dispatched e2 db2, Inl (SimulatedControlCrash ''after_dispatch''))"
    by (simp add: dispatch_started_def call_dispatch_def andthen_def after_dispatch_def maybe_crash_def throw_def demo_adapter_def
        demo_dispatched_def demo_envelope_def)
  ultimately show ?thesis by (simp add: runtime_execute_def andthen_def)
qed

section \<open>The interrupted effect\<close>

lemma demo_binding:
  assumes "ControlEnvelope_ok (demo_envelope g pm)" "pm_issued_at_ms pm = 1000010"
    and "\<forall>now. 1000010 \<le> now \<and> now \<le> 1000100 \<longrightarrow> verify_envelope_authority demo_ed25519 (demo_envelope g pm)
       (sg_verifier demo_signer) default_policy now [R_DOM] (Some demo_snapshot) = Inr R_DOM"
    and "ControlRequest_digest demo_request = Inr d"
  shows "verify_recovery_binding demo_runtime (moved_record (claimed_record (demo_uuid 9) (demo_envelope g pm) d R_DOM 1000020)
      STARTED 1000030 (str ''none'') EMPTY_EVIDENCE_DIGEST) (demo_envelope g pm) = Inr (demo_envelope g pm)"
proof -
  have verify: "verify_envelope_authority demo_ed25519 (demo_envelope g pm) (sg_verifier demo_signer) default_policy 1000010
      [R_DOM] (Some demo_snapshot) = Inr R_DOM" using assms(3) by simp
  have parts: "pm_issued_at_ms (en_permit (demo_envelope g pm)) = 1000010" "en_request (demo_envelope g pm) = demo_request"
      "rq_snapshot demo_request = demo_snapshot"
    using assms(2) by (simp_all add: demo_envelope_def demo_request_def)
  show ?thesis
    unfolding verify_recovery_binding_def using envelope.from_to [OF assms(1)] assms(4)
    by (simp add: parts demo_parts recovery_bindings_def moved_record_def claimed_record_def Let_def)
      (simp add: verify)
qed

lemma demo_interrupted:
  obtains g pm db0 db e where "reachable demo_ed25519 1000 db0"
    "runtime_execute demo_runtime demo_adapter (demo_envelope g pm) (Some AFTER_DISPATCH) (demo_world db0)
       = (demo_dispatched e db, Inl (SimulatedControlCrash ''after_dispatch''))"
    "runtime_run demo_ed25519 1000 (demo_world db0)" "runtime_run demo_ed25519 1000 (demo_dispatched e db)"
    "effect_to_row e \<in> set (db_effects db)" "ef_effect_id e = demo_uuid 9" "ef_state e = STARTED" "ef_updated_at_ms e = 1000030"
    "\<forall>row \<in> set (db_effects db). row = effect_to_row e"
    "awaiting demo_ed25519 1000 (sg_verifier demo_signer) (ef_effect_id e) db"
    "verify_recovery_binding demo_runtime e (demo_envelope g pm) = Inr (demo_envelope g pm)"
proof (rule demo_journal [of 1000])
  fix g pm db0 db1 db2 db3 e
  let ?e = "moved_record e STARTED 1000030 (str ''none'') EMPTY_EVIDENCE_DIGEST"
  assume env: "ControlEnvelope_ok (demo_envelope g pm)" "pm_issued_at_ms pm = 1000010"
    and verify: "\<forall>now. 1000010 \<le> now \<and> now \<le> 1000100 \<longrightarrow> verify_envelope_authority demo_ed25519 (demo_envelope g pm)
       (sg_verifier demo_signer) default_policy now [R_DOM] (Some demo_snapshot) = Inr R_DOM"
    and r0: "reachable demo_ed25519 1000 db0" and claim: "demo_claim g pm db0 = (db1, Inr e)" "ef_effect_id e = demo_uuid 9"
    and start: "transition io_ok (demo_uuid 9) STARTED 1000030 (str ''none'') EMPTY_EVIDENCE_DIGEST db1 = (db2, Inr ?e)"
    and r2: "reachable demo_ed25519 1000 db2" and db2: "db_effects db2 = [effect_to_row ?e]" "db_receipts db2 = []"
    and "\<exists>d. ControlRequest_digest demo_request = Inr d \<and> e = claimed_record (demo_uuid 9) (demo_envelope g pm) d R_DOM 1000020"
  then obtain d where d: "ControlRequest_digest demo_request = Inr d"
    "e = claimed_record (demo_uuid 9) (demo_envelope g pm) d R_DOM 1000020" by blast
  then have "ef_route e = R_DOM" by (simp add: claimed_record_def Let_def)
  from demo_execute [OF env(1) verify claim this start]
  have run: "runtime_execute demo_runtime demo_adapter (demo_envelope g pm) (Some AFTER_DISPATCH) (demo_world db0)
       = (demo_dispatched ?e db2, Inl (SimulatedControlCrash ''after_dispatch''))" .
  have w0: "runtime_run demo_ed25519 1000 (demo_world db0)"
    by (rule runtime_run.boot) (simp_all add: demo_world_def r0)
  have w1: "runtime_run demo_ed25519 1000 (demo_dispatched ?e db2)"
    by (rule runtime_run.execute [OF w0 demo_sound(1) run])
  have "identity_ok (db_identity db2)" using reachable_ok [OF r2] by (simp add: journal_ok_def)
  then have "awaiting demo_ed25519 1000 (sg_verifier demo_signer) (ef_effect_id ?e) db2"
    using empty_chain [OF _ db2(2)] by (fastforce simp add: awaiting_def limits)
  moreover note demo_binding [OF env verify d(1), folded d(2)]
  ultimately show thesis
    using that [OF r0 run w0 w1] db2(1) claim(2) by (simp add: moved_record_def)
qed

section \<open>The theorems of the runtime at this run\<close>

lemma dispatch_once_witness:
  "\<exists>w. runtime_run demo_ed25519 1000 (w :: nat world) \<and> dispatched (w_calls w) \<noteq> []
     \<and> distinct (map ef_permit_id (dispatched (w_calls w)))"
proof (rule demo_interrupted)
  fix e db
  assume run: "runtime_run demo_ed25519 1000 (demo_dispatched e db)"
  from dispatch_once [OF run] run show ?thesis
    by (intro exI [of _ "demo_dispatched e db"]) (simp add: demo_dispatched_def)
qed


lemma recovery_never_dispatches_witness:
  "\<exists>e db envelope w' outcome. runtime_recover demo_runtime demo_adapter (ef_effect_id e) envelope None (demo_dispatched e db) = (w', outcome)
     \<and> (\<exists>calls. w_calls w' = w_calls (demo_dispatched e db) @ calls \<and> \<not> list_ex is_dispatch calls)"
proof (rule demo_interrupted)
  fix g pm e db
  assume run: "runtime_run demo_ed25519 1000 (demo_dispatched e db)"
  obtain w' outcome where recover: "runtime_recover demo_runtime demo_adapter (ef_effect_id e) (demo_envelope g pm) None
      (demo_dispatched e db) = (w', outcome)" by fastforce
  from conjunct1 [OF recovery_never_dispatches [OF run demo_sound(1) recover]] recover show ?thesis by blast
qed


lemma settle_recorded:
  assumes "settle R e state reason evidence crash w = (w', Inr r)" "alone R" "sound_platform ed limit R" "journal_ok (w_journal w)"
    and "state = VERIFIED"
  shows "\<exists>later. effect_to_row later \<in> set (db_effects (w_journal w')) \<and> ef_state later = VERIFIED \<and> ef_effect_id later = ef_effect_id e"
proof -
  obtain w1 later where step: "runtime_transition R e state reason evidence crash w = (w1, Inr later)"
      "runtime_receipt R later crash w1 = (w', Inr r)"
    using assms(1) unfolding settle_def by (auto elim!: andthen_InrE)
  note moved = runtime_transition_success [OF step(1) assms(2-4)]
  have "idle ed limit w1 w'" using idle.acts_receipt [OF assms(3)] step(2) by (rule actsD)
  then have "effect_to_row later \<in> set (db_effects (w_journal w'))"
    using verified_stays moved assms(5) by (auto simp add: idle_def)
  then show ?thesis using moved assms(5) by blast
qed

lemma demo_uuid_hd: "hd (demo_uuid n) = hex_char (n mod 256 div 16)"
proof -
  have "hd (uuid_text bs) = hex_char (unat (hd bs) div 16)" if "bs \<noteq> []" for bs
    using that by (cases bs) (simp_all add: uuid_text_def hexdigest_def hex_byte_def Let_def)
  moreover have "uuid_stamp 4 (replicate 16 (byte n)) \<noteq> []" "hd (uuid_stamp 4 (replicate 16 (byte n))) = byte n"
    by (simp_all add: uuid_stamp_def hd_conv_nth)
  ultimately show ?thesis by (simp add: demo_uuid_def uuid4_def unat_byte)
qed

lemma demo_uuids: "demo_uuid 70 \<noteq> demo_uuid 50"
proof
  assume "demo_uuid 70 = demo_uuid 50"
  then have "hd (demo_uuid 70) = hd (demo_uuid 50)" by simp
  then show False by (simp add: demo_uuid_hd hex_char_def)
qed

lemma demo_recovered:
  obtains e db envelope w' r later where "runtime_run demo_ed25519 1000 (demo_dispatched e db)"
    "runtime_recover demo_runtime demo_adapter (ef_effect_id e) envelope None (demo_dispatched e db) = (w', Inr r)"
    "effect_to_row later \<in> set (db_effects (w_journal w'))" "ef_state later = VERIFIED" "effect_to_row later \<notin> set (db_effects db)"
proof (rule demo_interrupted)
  fix g pm e db
  assume run: "runtime_run demo_ed25519 1000 (demo_dispatched e db)" "effect_to_row e \<in> set (db_effects db)"
    "ef_updated_at_ms e = 1000030" "ef_state e = STARTED" "awaiting demo_ed25519 1000 (sg_verifier demo_signer) (ef_effect_id e) db"
    "verify_recovery_binding demo_runtime e (demo_envelope g pm) = Inr (demo_envelope g pm)"
    and only: "\<forall>row \<in> set (db_effects db). row = effect_to_row e" and id: "ef_effect_id e = demo_uuid 9"
  have ok: "journal_ok db" using runtime_run_inv [OF run(1)] by (simp add: dispatch_inv_def demo_dispatched_def)
  obtain d where d: "fresh_postcondition_evidence (demo_uuid 9) (str ''agent.main'') demo_after = Inr d"
    using evidence_defined [of "demo_uuid 9" "str ''agent.main''" demo_after] demo_ids demo_snapshots by auto
  let ?answer = "\<lparr>ar_disposition = RECONCILED_VERIFIED, ar_reason_code = str ''agent.main'', ar_evidence_digest = d,
      ar_postcondition = Some demo_after\<rparr>"
  have dt: "digest_text d" using d content_digest_text by (auto simp add: fresh_postcondition_evidence_def accepts)
  have reply: "demo_answer (demo_uuid 9) = Reply (Some RECONCILED_VERIFIED, PStr (str ''agent.main''), PStr d, Postcondition demo_after)"
    using d by (simp add: demo_answer_def)
  have reason: "safe_id_text (str ''agent.main'')" "str ''agent.main'' \<noteq> str ''none''" by (simp_all add: demo_ids str_inject)
  have answer: "reconciliation_result (demo_answer (demo_uuid 9)) = Inr ?answer"
    using dt reason
    by (simp add: reply reconciliation_result_def AdapterReconciliationResult_init_def safe_reason_def evidence_text_def
        postcondition_checked_def snapshot.from_to demo_snapshots)
  have accepted: "accepted_result (demo_uuid 9) demo_request ?answer = Inr ?answer"
    using d demo_uuids
    by (simp add: accepted_result_def postcondition_error_def Let_def)
      (simp add: demo_request_def demo_after_def demo_snapshot_def demo_target_def)
  define w where "w = (demo_dispatched e db)\<lparr>w_calls := w_calls (demo_dispatched e db) @ [Reconciled e demo_request (demo_answer (demo_uuid 9))]\<rparr>"
  have w: "w_journal w = db" "w_env w = 3" by (simp_all add: w_def demo_dispatched_def)
  have key: "ef_authority_key_id e = vf_key_id (rt_verifier demo_runtime)" using recovery_key [OF run(6)] .
  have "pf_anchor (rt_platform demo_runtime) = None" by (simp add: demo_runtime_def demo_platform_def)
  then have "recoverable demo_ed25519 1000 demo_runtime (\<lambda>_ _. None) (ef_effect_id e) w"
    using run(5) by (simp add: recoverable_def anchor_trusted_def w demo_parts)
  then obtain w' r where settled: "andthen (runtime_transition demo_runtime e APPLIED (str ''none'') d None) (\<lambda>applied.
      settle demo_runtime applied VERIFIED (str ''agent.main'') d None) w = (w', Inr r)"
    using healthy_apply_verify [OF demo_healthy demo_sound(1,3), of w e "str ''agent.main''" d] ok run key reason dt
    by (auto simp add: w demo_tick_def demo_parts)
  have get: "runtime_get demo_runtime (ef_effect_id e) (demo_dispatched e db) = (demo_dispatched e db, Inr e)"
    using journal_get_row [OF ok run(2)] by (simp add: runtime_get_def on_journal_def demo_runtime_def demo_platform_def demo_dispatched_def)
  have call: "call_reconcile demo_adapter e demo_request (demo_dispatched e db) = (w, Inr (demo_answer (demo_uuid 9)))"
    using id by (simp add: call_reconcile_def w_def demo_adapter_def demo_dispatched_def)
  have recover: "runtime_recover demo_runtime demo_adapter (ef_effect_id e) (demo_envelope g pm) None (demo_dispatched e db) = (w', Inr r)"
    using settled run(4,6) answer accepted id get call
    by (simp add: record_result_def runtime_recover_def andthen_def lift_result_def runtime_reconcile_def demo_envelope_def)
  obtain w2 applied where step: "runtime_transition demo_runtime e APPLIED (str ''none'') d None w = (w2, Inr applied)"
    "settle demo_runtime applied VERIFIED (str ''agent.main'') d None w2 = (w', Inr r)"
    using settled by (auto elim!: andthen_InrE)
  have "journal_ok (w_journal w2)"
    using runtime_transition_success [OF step(1) demo_sound(2,1)] ok w(1) by simp
  from settle_recorded [OF step(2) demo_sound(2,1) this]
  obtain later where later: "effect_to_row later \<in> set (db_effects (w_journal w'))" "ef_state later = VERIFIED" by blast
  moreover have "effect_to_row later \<notin> set (db_effects db)"
    using only later(2) run(4) by (auto simp add: effect_to_row_inject)
  ultimately show thesis using that [OF run(1) recover] by blast
qed

lemma verified_needs_evidence_witness:
  "\<exists>e db envelope w' r later. runtime_recover demo_runtime demo_adapter (ef_effect_id e) envelope None (demo_dispatched e db) = (w', Inr r)
     \<and> ef_state later = VERIFIED \<and> (\<exists>calls. w_calls w' = w_calls (demo_dispatched e db) @ calls \<and> (\<exists>call \<in> set calls. justified_by call later))"
proof (rule demo_recovered)
  fix e db envelope w' r later
  assume run: "runtime_run demo_ed25519 1000 (demo_dispatched e db)"
    "runtime_recover demo_runtime demo_adapter (ef_effect_id e) envelope None (demo_dispatched e db) = (w', Inr r)"
    and later: "effect_to_row later \<in> set (db_effects (w_journal w'))" "ef_state later = VERIFIED" "effect_to_row later \<notin> set (db_effects db)"
  have "effect_to_row later \<notin> set (db_effects (w_journal (demo_dispatched e db)))" using later(3) by (simp add: demo_dispatched_def)
  from verified_needs_evidence [OF run(1) demo_sound(1,2) disjI2 [OF run(2)] later(1,2) this] run(2) later(2) show ?thesis by blast
qed

end
