(* ===== verification/Py_Words.thy ===== *)
theory Py_Words
  imports Py_Prelude Complex_Main
begin

text \<open>
  More of Python: white space (\<open>str.strip\<close>, \<open>str.split(maxsplit=1)\<close>), comparison of floats, and case
  mapping. The case mapping of characters outside ASCII comes from the Unicode tables of the interpreter,
  which differ between versions: it is the parameter \<open>unicode\<close>, and \<open>unicode_ok\<close> states what holds in all
  of them, that the mappings treat ASCII texts letter by letter.
\<close>

section \<open>White space\<close>

definition py_space :: "nat \<Rightarrow> bool" where
  "py_space c \<longleftrightarrow> 9 \<le> c \<and> c \<le> 13 \<or> 28 \<le> c \<and> c \<le> 32 \<or> c \<in> {133, 160, 5760, 8232, 8233, 8239, 8287, 12288}
     \<or> 8192 \<le> c \<and> c \<le> 8202"

definition py_lstrip :: "pystr \<Rightarrow> pystr" where
  "py_lstrip s = dropWhile py_space s"

definition py_strip :: "pystr \<Rightarrow> pystr" where
  "py_strip s = rev (dropWhile py_space (rev (dropWhile py_space s)))"

text \<open>\<open>s.split(maxsplit=1)\<close>: the first word, and the rest without the white space before it.\<close>

definition split_once :: "pystr \<Rightarrow> pystr list" where
  "split_once s =
    (let t = py_lstrip s; word = takeWhile (\<lambda>c. \<not> py_space c) t; rest = py_lstrip (dropWhile (\<lambda>c. \<not> py_space c) t) in
     if t = [] then [] else if rest = [] then [word] else [word, rest])"

lemma drop_no_space: "\<forall>c \<in> set s. \<not> py_space c \<Longrightarrow> dropWhile py_space s = s"
  by (cases s) simp_all

lemma py_strip_words: "\<forall>c \<in> set s. \<not> py_space c \<Longrightarrow> py_strip s = s"
  by (simp add: py_strip_def drop_no_space)

section \<open>Case\<close>

record unicode =
  py_upper :: "pystr \<Rightarrow> pystr"
  py_lower :: "pystr \<Rightarrow> pystr"
  py_casefold :: "pystr \<Rightarrow> pystr"
  py_isalpha :: "nat \<Rightarrow> bool"

definition ascii_upper :: "nat \<Rightarrow> nat" where
  "ascii_upper c = (if 97 \<le> c \<and> c \<le> 122 then c - 32 else c)"

definition ascii_lower :: "nat \<Rightarrow> nat" where
  "ascii_lower c = (if 65 \<le> c \<and> c \<le> 90 then c + 32 else c)"

definition ascii_alpha :: "nat \<Rightarrow> bool" where
  "ascii_alpha c \<longleftrightarrow> 65 \<le> c \<and> c \<le> 90 \<or> 97 \<le> c \<and> c \<le> 122"

definition unicode_ok :: "unicode \<Rightarrow> bool" where
  "unicode_ok u \<longleftrightarrow> (\<forall>s. (\<forall>c \<in> set s. c < 128) \<longrightarrow>
     py_upper u s = map ascii_upper s \<and> py_lower u s = map ascii_lower s \<and> py_casefold u s = map ascii_lower s)
     \<and> (\<forall>c < 128. py_isalpha u c = ascii_alpha c)"

definition ascii_unicode :: unicode where
  "ascii_unicode = \<lparr>py_upper = map ascii_upper, py_lower = map ascii_lower, py_casefold = map ascii_lower,
     py_isalpha = ascii_alpha\<rparr>"

lemma ascii_unicode_ok: "unicode_ok ascii_unicode"
  by (simp add: unicode_ok_def ascii_unicode_def)

section \<open>Values\<close>

fun falsy :: "py \<Rightarrow> bool" where
  "falsy PNone = True"
| "falsy (PBool b) = (\<not> b)"
| "falsy (PInt i) = (i = 0)"
| "falsy (PStr s) = (s = [])"
| "falsy (PList xs) = (xs = [])"
| "falsy (PDict row) = (row = [])"
| "falsy POther = False"

text \<open>\<open>str(a or b or ... or default)\<close> over the values of the arguments with these keys.\<close>

definition text_or :: "(py \<Rightarrow> pystr) \<Rightarrow> (pystr \<times> py) list \<Rightarrow> string list \<Rightarrow> string \<Rightarrow> pystr" where
  "text_or printed args keys otherwise =
    (case find (\<lambda>v. \<not> falsy v) (List.map_filter (\<lambda>k. map_of args (str k)) keys) of
       Some v \<Rightarrow> (case v of PStr s \<Rightarrow> s | _ \<Rightarrow> printed v) | None \<Rightarrow> str otherwise)"

text \<open>\<open>d[k] = v\<close> on the list of items of a dictionary.\<close>

definition dict_put :: "pystr \<Rightarrow> 'v \<Rightarrow> (pystr \<times> 'v) list \<Rightarrow> (pystr \<times> 'v) list" where
  "dict_put k v row = (if k \<in> fst ` set row then map (\<lambda>(k', v'). (k', if k' = k then v else v')) row else row @ [(k, v)])"

section \<open>Shell words\<close>

text \<open>
  \<open>shlex.split\<close> in its POSIX mode. A state of the scanner is between words, in a word, inside a quotation,
  or after a backslash, which remembers the quotation it is in. \<open>None\<close> is the \<open>ValueError\<close> of an open quotation or
  of a backslash at the end.
\<close>

datatype shlex_state = Between | In_word | Quoted nat | Escaped "nat option"

definition shlex_space :: "nat \<Rightarrow> bool" where
  "shlex_space c \<longleftrightarrow> c \<in> {32, 9, 13, 10}"

definition shlex_emit :: "pystr \<Rightarrow> bool \<Rightarrow> pystr list" where
  "shlex_emit token quoted = (if token \<noteq> [] \<or> quoted then [token] else [])"

fun shlex_scan :: "shlex_state \<Rightarrow> pystr \<Rightarrow> bool \<Rightarrow> pystr \<Rightarrow> pystr list option" where
  "shlex_scan st token quoted [] =
    (case st of Quoted _ \<Rightarrow> None | Escaped _ \<Rightarrow> None | _ \<Rightarrow> Some (shlex_emit token quoted))"
| "shlex_scan (Quoted q) token quoted (c # s) =
    (if c = q then shlex_scan In_word token True s
     else if c = 92 \<and> q = 34 then shlex_scan (Escaped (Some q)) token True s
     else shlex_scan (Quoted q) (token @ [c]) True s)"
| "shlex_scan (Escaped None) token quoted (c # s) = shlex_scan In_word (token @ [c]) quoted s"
| "shlex_scan (Escaped (Some q)) token quoted (c # s) =
    shlex_scan (Quoted q) (token @ (if c \<noteq> 92 \<and> c \<noteq> q then [92, c] else [c])) quoted s"
| "shlex_scan st token quoted (c # s) =
    (if shlex_space c then map_option (\<lambda>ws. shlex_emit token quoted @ ws) (shlex_scan Between [] False s)
     else if c = 92 then shlex_scan (Escaped None) token quoted s
     else if c \<in> {34, 39} then shlex_scan (Quoted c) token quoted s
     else shlex_scan In_word (token @ [c]) quoted s)"

definition shlex_split :: "pystr \<Rightarrow> pystr list option" where
  "shlex_split s = shlex_scan Between [] False s"

section \<open>Floats\<close>

text \<open>A finite float is a rational number. Every comparison with \<open>nan\<close> is false.\<close>

datatype pyfloat = Float_nan | Float_minus_inf | Finite rat | Float_inf

fun float_less :: "pyfloat \<Rightarrow> pyfloat \<Rightarrow> bool" where
  "float_less (Finite x) (Finite y) = (x < y)"
| "float_less Float_minus_inf y = (y \<noteq> Float_nan \<and> y \<noteq> Float_minus_inf)"
| "float_less (Finite x) y = (y = Float_inf)"
| "float_less _ y = False"

definition float_le :: "pyfloat \<Rightarrow> pyfloat \<Rightarrow> bool" where
  "float_le x y \<longleftrightarrow> float_less x y \<or> x = y \<and> x \<noteq> Float_nan"

definition isfinite :: "pyfloat \<Rightarrow> bool" where
  "isfinite x = (case x of Finite _ \<Rightarrow> True | _ \<Rightarrow> False)"

lemma float_order:
  "\<not> float_less x x" "float_less x y \<Longrightarrow> float_less y z \<Longrightarrow> float_less x z"
  by (cases x; simp) (cases x; cases y; cases z; simp)

lemma float_le_not_less: "float_le x y \<Longrightarrow> \<not> float_less y x"
  by (cases x; cases y) (auto simp add: float_le_def)

end
