(* ===== verification/Marcus_Authority.thy ===== *)
theory Marcus_Authority
  imports Py_Words
begin

text \<open>
  \<^verbatim>\<open>algo_cli/marcus_authority.py\<close>: the authority vocabulary of the action dispatcher. Its enumerations, the
  capability masks, the curated policy of every tool, the registry that refuses tools without one, and the
  consent grants. Policies are looked up by the name of an action; a name that is not in the table gets a
  policy that only a trusted user can satisfy.
\<close>

unbundle bit_operations_syntax

section \<open>Enumerations\<close>

datatype EffectClass =
  EC_OBSERVE | EC_LOCAL_MUTATION | EC_EXTERNAL_MUTATION | EC_DESTRUCTIVE | EC_CODE_EXECUTION | EC_ORCHESTRATION |
  EC_CONFIGURATION | EC_UNCLASSIFIED

datatype ConfirmationMode =
  CM_NONE | CM_SESSION_PREAPPROVAL | CM_ACTION_TIME | CM_HANDOFF_REQUIRED

datatype ActionDataClass =
  DC_PUBLIC | DC_LOCAL_CONTENT | DC_USER_PROFILE | DC_TELEMETRY | DC_SENSITIVE | DC_CREDENTIAL | DC_AUTHENTICATION

datatype IdempotencyClass =
  IC_PURE | IC_IDEMPOTENT | IC_AT_MOST_ONCE | IC_NON_IDEMPOTENT | IC_COMPENSATABLE

datatype OutcomeModel =
  OM_DETERMINISTIC | OM_EXTERNAL_EFFECT | OM_EVENTUAL_CONSISTENCY | OM_UNKNOWN_POSSIBLE

datatype VerificationRequirement =
  VR_NONE | VR_STRUCTURED_RESULT | VR_FRESH_OBSERVATION | VR_INDEPENDENT_POSTCONDITION

datatype TargetScope =
  TS_NONE | TS_WORKSPACE | TS_RUNTIME | TS_MEMORY_STORE | TS_MODEL_STORE | TS_PROVIDER | TS_EXTERNAL_ACCOUNT |
  TS_PLUGIN | TS_EXTERNAL_STATE

datatype RuntimeClass =
  RC_ADAPTIVE | RC_INTERACTIVE | RC_BACKGROUND

datatype Capability =
  CAP_READ | CAP_WRITE | CAP_SHELL | CAP_NETWORK | CAP_MODEL | CAP_CREDENTIAL | CAP_MEMORY | CAP_EXTERNAL_PUBLISH |
  CAP_DESTRUCTIVE | CAP_BROWSER_READ | CAP_BROWSER_NAVIGATE | CAP_BROWSER_INPUT | CAP_DESKTOP_OBSERVE |
  CAP_DESKTOP_INPUT | CAP_SCREEN_CAPTURE | CAP_ACCESSIBILITY | CAP_APPLE_EVENTS | CAP_CLIPBOARD_READ |
  CAP_CLIPBOARD_WRITE | CAP_DOWNLOAD | CAP_UPLOAD | CAP_DATA_EGRESS | CAP_PLUGIN_LOAD | CAP_ORCHESTRATE |
  CAP_UNCLASSIFIED

section \<open>Capability masks\<close>

text \<open>A capability is a power of two: \<open>capability_value c\<close> is \<open>1 << capability_bit c\<close>.\<close>

fun capability_bit :: "Capability \<Rightarrow> nat" where
  "capability_bit CAP_READ = 0"
| "capability_bit CAP_WRITE = 1"
| "capability_bit CAP_SHELL = 2"
| "capability_bit CAP_NETWORK = 3"
| "capability_bit CAP_MODEL = 4"
| "capability_bit CAP_CREDENTIAL = 5"
| "capability_bit CAP_MEMORY = 6"
| "capability_bit CAP_EXTERNAL_PUBLISH = 7"
| "capability_bit CAP_DESTRUCTIVE = 8"
| "capability_bit CAP_BROWSER_READ = 9"
| "capability_bit CAP_BROWSER_NAVIGATE = 10"
| "capability_bit CAP_BROWSER_INPUT = 11"
| "capability_bit CAP_DESKTOP_OBSERVE = 12"
| "capability_bit CAP_DESKTOP_INPUT = 13"
| "capability_bit CAP_SCREEN_CAPTURE = 14"
| "capability_bit CAP_ACCESSIBILITY = 15"
| "capability_bit CAP_APPLE_EVENTS = 16"
| "capability_bit CAP_CLIPBOARD_READ = 17"
| "capability_bit CAP_CLIPBOARD_WRITE = 18"
| "capability_bit CAP_DOWNLOAD = 19"
| "capability_bit CAP_UPLOAD = 20"
| "capability_bit CAP_DATA_EGRESS = 21"
| "capability_bit CAP_PLUGIN_LOAD = 22"
| "capability_bit CAP_ORCHESTRATE = 23"
| "capability_bit CAP_UNCLASSIFIED = 30"

definition capability_value :: "Capability \<Rightarrow> int" where
  "capability_value c = push_bit (capability_bit c) 1"

definition Capability_members :: "Capability list" where
  "Capability_members = [CAP_READ, CAP_WRITE, CAP_SHELL, CAP_NETWORK, CAP_MODEL, CAP_CREDENTIAL, CAP_MEMORY, CAP_EXTERNAL_PUBLISH,
     CAP_DESTRUCTIVE, CAP_BROWSER_READ, CAP_BROWSER_NAVIGATE, CAP_BROWSER_INPUT, CAP_DESKTOP_OBSERVE,
     CAP_DESKTOP_INPUT, CAP_SCREEN_CAPTURE, CAP_ACCESSIBILITY, CAP_APPLE_EVENTS, CAP_CLIPBOARD_READ,
     CAP_CLIPBOARD_WRITE, CAP_DOWNLOAD, CAP_UPLOAD, CAP_DATA_EGRESS, CAP_PLUGIN_LOAD, CAP_ORCHESTRATE,
     CAP_UNCLASSIFIED]"

definition mask_has :: "int \<Rightarrow> Capability \<Rightarrow> bool" where
  "mask_has m c \<longleftrightarrow> m AND capability_value c \<noteq> 0"

definition mask_add :: "int \<Rightarrow> Capability \<Rightarrow> int" where
  "mask_add m c = m OR capability_value c"

definition mask_remove :: "int \<Rightarrow> Capability \<Rightarrow> int" where
  "mask_remove m c = m AND NOT (capability_value c)"

definition mask_contains :: "int \<Rightarrow> int \<Rightarrow> bool" where
  "mask_contains m required \<longleftrightarrow> required AND NOT m = 0"

definition mask_members :: "int \<Rightarrow> Capability list" where
  "mask_members m = filter (mask_has m) Capability_members"

definition capability_mask :: "Capability list \<Rightarrow> int" where
  "capability_mask capabilities = fold (\<lambda>c m. m OR capability_value c) capabilities 0"

fun capability_name :: "Capability \<Rightarrow> string" where
  "capability_name CAP_READ = ''READ''"
| "capability_name CAP_WRITE = ''WRITE''"
| "capability_name CAP_SHELL = ''SHELL''"
| "capability_name CAP_NETWORK = ''NETWORK''"
| "capability_name CAP_MODEL = ''MODEL''"
| "capability_name CAP_CREDENTIAL = ''CREDENTIAL''"
| "capability_name CAP_MEMORY = ''MEMORY''"
| "capability_name CAP_EXTERNAL_PUBLISH = ''EXTERNAL_PUBLISH''"
| "capability_name CAP_DESTRUCTIVE = ''DESTRUCTIVE''"
| "capability_name CAP_BROWSER_READ = ''BROWSER_READ''"
| "capability_name CAP_BROWSER_NAVIGATE = ''BROWSER_NAVIGATE''"
| "capability_name CAP_BROWSER_INPUT = ''BROWSER_INPUT''"
| "capability_name CAP_DESKTOP_OBSERVE = ''DESKTOP_OBSERVE''"
| "capability_name CAP_DESKTOP_INPUT = ''DESKTOP_INPUT''"
| "capability_name CAP_SCREEN_CAPTURE = ''SCREEN_CAPTURE''"
| "capability_name CAP_ACCESSIBILITY = ''ACCESSIBILITY''"
| "capability_name CAP_APPLE_EVENTS = ''APPLE_EVENTS''"
| "capability_name CAP_CLIPBOARD_READ = ''CLIPBOARD_READ''"
| "capability_name CAP_CLIPBOARD_WRITE = ''CLIPBOARD_WRITE''"
| "capability_name CAP_DOWNLOAD = ''DOWNLOAD''"
| "capability_name CAP_UPLOAD = ''UPLOAD''"
| "capability_name CAP_DATA_EGRESS = ''DATA_EGRESS''"
| "capability_name CAP_PLUGIN_LOAD = ''PLUGIN_LOAD''"
| "capability_name CAP_ORCHESTRATE = ''ORCHESTRATE''"
| "capability_name CAP_UNCLASSIFIED = ''UNCLASSIFIED''"

definition mask_names :: "int \<Rightarrow> pystr list" where
  "mask_names m = map (\<lambda>c. map ascii_lower (str (capability_name c))) (mask_members m)"

definition mask_from_names :: "unicode \<Rightarrow> pystr list \<Rightarrow> exn + int" where
  "mask_from_names u names =
    rbind (traverse (\<lambda>name.
      case find (\<lambda>c. str (capability_name c) = py_upper u (py_strip name)) Capability_members of
        None \<Rightarrow> Inl (ValueError ''capability'') | Some c \<Rightarrow> Inr c) names) (\<lambda>members.
    Inr (capability_mask members))"

definition LEGACY_TIER_MASKS :: "(string \<times> int) list" where
  "LEGACY_TIER_MASKS =
    [(''tier0'', capability_value CAP_READ),
     (''tier1'', capability_value CAP_READ OR capability_value CAP_NETWORK OR capability_value CAP_MODEL),
     (''tier2'', capability_value CAP_READ OR capability_value CAP_WRITE OR capability_value CAP_SHELL OR capability_value CAP_MODEL
        OR capability_value CAP_MEMORY),
     (''tier3'', sum_list (map capability_value (filter (\<lambda>c. c \<noteq> CAP_UNCLASSIFIED) Capability_members)))]"

definition tier_mask :: "unicode \<Rightarrow> pystr \<Rightarrow> int" where
  "tier_mask u tier =
    (case find (\<lambda>(name, _). str name = py_lower u (py_strip tier)) LEGACY_TIER_MASKS of Some (_, m) \<Rightarrow> m | None \<Rightarrow> 0)"

section \<open>Policies\<close>

text \<open>The estimated costs are floats in the code; all of them are whole numbers.\<close>

record CuratedActionPolicy =
  cp_effect_class :: EffectClass
  cp_maximum_risk :: string
  cp_confirmation_mode :: ConfirmationMode
  cp_capabilities :: "Capability list"
  cp_data_classes :: "ActionDataClass list"
  cp_target_scope :: TargetScope
  cp_idempotency :: IdempotencyClass
  cp_outcome_model :: OutcomeModel
  cp_verification :: VerificationRequirement
  cp_fallback_group :: string
  cp_curated :: bool
  cp_dynamic_resolution :: bool
  cp_runtime_class :: RuntimeClass
  cp_estimated_cost :: int
  cp_suppress_logs :: bool
  cp_compensation_action :: pystr

definition curated_policy ::
    "EffectClass \<Rightarrow> string \<Rightarrow> ConfirmationMode \<Rightarrow> Capability list \<Rightarrow> ActionDataClass list \<Rightarrow> TargetScope \<Rightarrow>
     IdempotencyClass \<Rightarrow> OutcomeModel \<Rightarrow> VerificationRequirement \<Rightarrow> CuratedActionPolicy" where
  "curated_policy effect risk confirmation capabilities data target idempotency outcome verification =
    \<lparr>cp_effect_class = effect, cp_maximum_risk = risk, cp_confirmation_mode = confirmation,
     cp_capabilities = capabilities, cp_data_classes = data, cp_target_scope = target,
     cp_idempotency = idempotency, cp_outcome_model = outcome, cp_verification = verification,
     cp_fallback_group = '''', cp_curated = True, cp_dynamic_resolution = False, cp_runtime_class = RC_ADAPTIVE,
     cp_estimated_cost = 2, cp_suppress_logs = False, cp_compensation_action = []\<rparr>"

definition CuratedActionPolicy_post_init :: "CuratedActionPolicy \<Rightarrow> exn + unit" where
  "CuratedActionPolicy_post_init p =
    (let compensation = py_strip (cp_compensation_action p) in
     rbind (require (\<not> (cp_idempotency p = IC_COMPENSATABLE \<and> compensation = [])) (ValueError ''compensation_missing'')) (\<lambda>_.
     require (\<not> (compensation \<noteq> [] \<and> cp_idempotency p \<noteq> IC_COMPENSATABLE)) (ValueError ''compensation_idempotency'')))"

definition policy_mask :: "CuratedActionPolicy \<Rightarrow> int" where
  "policy_mask p = capability_mask (cp_capabilities p)"

definition mutates_state :: "CuratedActionPolicy \<Rightarrow> bool" where
  "mutates_state p \<longleftrightarrow> cp_effect_class p \<noteq> EC_OBSERVE"

definition requires_approval :: "CuratedActionPolicy \<Rightarrow> bool" where
  "requires_approval p \<longleftrightarrow> cp_confirmation_mode p \<noteq> CM_NONE"

definition safe_retry :: "CuratedActionPolicy \<Rightarrow> bool" where
  "safe_retry p \<longleftrightarrow> cp_idempotency p \<in> {IC_PURE, IC_IDEMPOTENT} \<and> cp_outcome_model p \<noteq> OM_UNKNOWN_POSSIBLE"

text \<open>The three constructors of the table, with the defaults of their keyword arguments.\<close>

definition read_policy :: "Capability list \<Rightarrow> CuratedActionPolicy" where
  "read_policy capabilities =
    (curated_policy EC_OBSERVE ''low'' CM_NONE (CAP_READ # capabilities) [DC_LOCAL_CONTENT] TS_RUNTIME IC_PURE
       OM_DETERMINISTIC VR_STRUCTURED_RESULT)\<lparr>cp_runtime_class := RC_ADAPTIVE, cp_estimated_cost := 1\<rparr>"

definition local_policy :: "Capability list \<Rightarrow> CuratedActionPolicy" where
  "local_policy capabilities =
    (curated_policy EC_LOCAL_MUTATION ''high'' CM_ACTION_TIME (CAP_READ # CAP_WRITE # capabilities) [DC_LOCAL_CONTENT]
       TS_WORKSPACE IC_AT_MOST_ONCE OM_UNKNOWN_POSSIBLE VR_FRESH_OBSERVATION)\<lparr>cp_runtime_class := RC_INTERACTIVE\<rparr>"

definition external_policy :: "Capability list \<Rightarrow> CuratedActionPolicy" where
  "external_policy capabilities =
    (curated_policy EC_EXTERNAL_MUTATION ''high'' CM_ACTION_TIME (CAP_READ # CAP_NETWORK # CAP_DATA_EGRESS # capabilities)
       [DC_SENSITIVE] TS_EXTERNAL_ACCOUNT IC_AT_MOST_ONCE OM_UNKNOWN_POSSIBLE VR_INDEPENDENT_POSTCONDITION)
       \<lparr>cp_runtime_class := RC_INTERACTIVE, cp_suppress_logs := True\<rparr>"

section \<open>The table\<close>

definition policy_table :: "(string \<times> CuratedActionPolicy) list" where
  "policy_table =
     [(''action_program'', (curated_policy EC_ORCHESTRATION ''high'' CM_SESSION_PREAPPROVAL [CAP_READ,
         CAP_ORCHESTRATE] [DC_LOCAL_CONTENT, DC_SENSITIVE] TS_RUNTIME IC_NON_IDEMPOTENT OM_UNKNOWN_POSSIBLE
         VR_INDEPENDENT_POSTCONDITION) \<lparr>cp_runtime_class := RC_BACKGROUND, cp_estimated_cost := 4\<rparr>)]
   @ [(''action_search'', (read_policy [])\<lparr>cp_target_scope := TS_RUNTIME\<rparr>)]
   @ [(''append_lesson'', (local_policy [CAP_MEMORY])\<lparr>cp_data_classes := [DC_USER_PROFILE, DC_SENSITIVE],
         cp_target_scope := TS_MEMORY_STORE, cp_idempotency := IC_AT_MOST_ONCE, cp_suppress_logs := True\<rparr>)]
   @ map (\<lambda>name. (name, (read_policy [CAP_MEMORY])\<lparr>cp_data_classes := [DC_USER_PROFILE,
         DC_SENSITIVE], cp_target_scope := TS_MEMORY_STORE, cp_suppress_logs := True\<rparr>)) [''memory_verify'',
         ''memory_status'', ''memory_get'', ''memory_read'', ''memory_search'', ''memory_context'',
         ''memory_validate_context'', ''memory_explain'', ''memory_history'']
   @ map (\<lambda>name. (name, (local_policy [CAP_MEMORY])\<lparr>cp_data_classes := [DC_USER_PROFILE,
         DC_SENSITIVE], cp_target_scope := TS_MEMORY_STORE, cp_idempotency := IC_AT_MOST_ONCE, cp_verification :=
         VR_INDEPENDENT_POSTCONDITION, cp_suppress_logs := True\<rparr>)) [''memory_init'', ''memory_capture'',
         ''memory_remember'', ''memory_resolve'', ''memory_handoff'', ''memory_set_applicability'']
   @ [(''memory_revoke'', (local_policy [CAP_MEMORY, CAP_DESTRUCTIVE])\<lparr>cp_data_classes := [DC_USER_PROFILE,
         DC_SENSITIVE], cp_target_scope := TS_MEMORY_STORE, cp_idempotency := IC_AT_MOST_ONCE, cp_effect_class :=
         EC_DESTRUCTIVE, cp_verification := VR_INDEPENDENT_POSTCONDITION, cp_suppress_logs := True\<rparr>)]
   @ [(''available_actions'', (read_policy [])\<lparr>cp_target_scope := TS_RUNTIME, cp_runtime_class :=
         RC_INTERACTIVE\<rparr>)]
   @ [(''batch_edit'', (local_policy []))]
   @ [(''capability_mask_describe'', (read_policy [])\<lparr>cp_target_scope := TS_RUNTIME\<rparr>)]
   @ [(''cleanup_pdf_render_artifact'', (local_policy [CAP_DESTRUCTIVE])\<lparr>cp_data_classes :=
         [DC_LOCAL_CONTENT, DC_SENSITIVE], cp_target_scope := TS_RUNTIME, cp_maximum_risk := ''medium'',
         cp_idempotency := IC_IDEMPOTENT, cp_effect_class := EC_DESTRUCTIVE, cp_verification :=
         VR_INDEPENDENT_POSTCONDITION, cp_suppress_logs := True\<rparr>)]
   @ [(''credential_helpers_get'', (read_policy [CAP_CREDENTIAL])\<lparr>cp_data_classes := [DC_CREDENTIAL],
         cp_target_scope := TS_RUNTIME, cp_confirmation_mode := CM_ACTION_TIME, cp_maximum_risk := ''high'',
         cp_suppress_logs := True\<rparr>)]
   @ [(''credential_helpers_store'', (local_policy [CAP_CREDENTIAL])\<lparr>cp_data_classes := [DC_CREDENTIAL],
         cp_target_scope := TS_RUNTIME, cp_idempotency := IC_IDEMPOTENT, cp_suppress_logs := True\<rparr>)]
   @ [(''edit_file'', (local_policy []))]
   @ [(''embed_text'', (read_policy [CAP_MODEL])\<lparr>cp_data_classes := [DC_LOCAL_CONTENT, DC_SENSITIVE],
         cp_confirmation_mode := CM_SESSION_PREAPPROVAL, cp_maximum_risk := ''medium''\<rparr>)]
   @ [(''extensions_manifest_build'', (read_policy [])\<lparr>cp_target_scope := TS_PLUGIN\<rparr>)]
   @ [(''jev_kernel_status'', (read_policy [])\<lparr>cp_target_scope := TS_RUNTIME, cp_suppress_logs :=
         True\<rparr>)]
   @ [(''decision_status'', (read_policy [])\<lparr>cp_target_scope := TS_RUNTIME, cp_suppress_logs :=
         True\<rparr>)]
   @ [(''algorithm_catalog_read'', (read_policy [])\<lparr>cp_data_classes := [DC_LOCAL_CONTENT, DC_SENSITIVE],
         cp_target_scope := TS_RUNTIME, cp_suppress_logs := True\<rparr>)]
   @ [(''algorithm_catalog_edit'', (local_policy [])\<lparr>cp_data_classes := [DC_LOCAL_CONTENT, DC_SENSITIVE],
         cp_target_scope := TS_RUNTIME, cp_suppress_logs := True\<rparr>)]
   @ [(''decision_decide'', (curated_policy EC_OBSERVE ''medium'' CM_SESSION_PREAPPROVAL [CAP_READ, CAP_MODEL,
         CAP_NETWORK, CAP_DATA_EGRESS] [DC_LOCAL_CONTENT, DC_SENSITIVE] TS_PROVIDER IC_NON_IDEMPOTENT
         OM_UNKNOWN_POSSIBLE VR_STRUCTURED_RESULT) \<lparr>cp_dynamic_resolution := True, cp_suppress_logs :=
         True\<rparr>)]
   @ [(''jev_question_contract'', (curated_policy EC_OBSERVE ''medium'' CM_SESSION_PREAPPROVAL [CAP_READ, CAP_MODEL,
         CAP_NETWORK, CAP_DATA_EGRESS] [DC_LOCAL_CONTENT, DC_SENSITIVE] TS_PROVIDER IC_NON_IDEMPOTENT
         OM_UNKNOWN_POSSIBLE VR_STRUCTURED_RESULT) \<lparr>cp_dynamic_resolution := True, cp_suppress_logs :=
         True\<rparr>)]
   @ [(''find_unique_anchor'', (read_policy [])\<lparr>cp_target_scope := TS_WORKSPACE\<rparr>)]
   @ [(''git_diff'', (read_policy [])\<lparr>cp_target_scope := TS_WORKSPACE\<rparr>)]
   @ [(''git_status'', (read_policy [])\<lparr>cp_target_scope := TS_WORKSPACE\<rparr>)]
   @ [(''harness_competitive_rating'', (read_policy [])\<lparr>cp_target_scope := TS_RUNTIME\<rparr>)]
   @ [(''harness_read'', (read_policy [])\<lparr>cp_data_classes := [DC_LOCAL_CONTENT, DC_SENSITIVE],
         cp_target_scope := TS_RUNTIME, cp_suppress_logs := True\<rparr>)]
   @ [(''harness_refresh'', (local_policy [])\<lparr>cp_data_classes := [DC_LOCAL_CONTENT], cp_target_scope :=
         TS_RUNTIME, cp_confirmation_mode := CM_SESSION_PREAPPROVAL, cp_idempotency := IC_IDEMPOTENT,
         cp_maximum_risk := ''medium'', cp_runtime_class := RC_BACKGROUND, cp_estimated_cost := 8\<rparr>)]
   @ [(''harness_scorecard'', (local_policy [CAP_MEMORY])\<lparr>cp_data_classes := [DC_USER_PROFILE, DC_SENSITIVE],
         cp_target_scope := TS_MEMORY_STORE, cp_maximum_risk := ''low'', cp_idempotency := IC_NON_IDEMPOTENT,
         cp_suppress_logs := True\<rparr>)]
   @ [(''harness_search'', (read_policy [])\<lparr>cp_data_classes := [DC_LOCAL_CONTENT, DC_SENSITIVE],
         cp_target_scope := TS_RUNTIME, cp_suppress_logs := True\<rparr>)]
   @ [(''harness_stats'', (read_policy [])\<lparr>cp_target_scope := TS_RUNTIME\<rparr>)]
   @ [(''list_directory'', (read_policy [])\<lparr>cp_target_scope := TS_WORKSPACE\<rparr>)]
   @ [(''model_copy'', (local_policy [CAP_MODEL])\<lparr>cp_target_scope := TS_MODEL_STORE, cp_idempotency :=
         IC_IDEMPOTENT\<rparr>)]
   @ [(''model_create'', (local_policy [CAP_MODEL])\<lparr>cp_target_scope := TS_MODEL_STORE, cp_idempotency :=
         IC_AT_MOST_ONCE\<rparr>)]
   @ [(''model_delete'', (local_policy [CAP_MODEL, CAP_DESTRUCTIVE])\<lparr>cp_target_scope := TS_MODEL_STORE,
         cp_effect_class := EC_DESTRUCTIVE, cp_idempotency := IC_IDEMPOTENT, cp_verification :=
         VR_INDEPENDENT_POSTCONDITION\<rparr>)]
   @ [(''model_pull'', (local_policy [CAP_NETWORK, CAP_MODEL])\<lparr>cp_target_scope := TS_MODEL_STORE,
         cp_confirmation_mode := CM_ACTION_TIME, cp_idempotency := IC_IDEMPOTENT, cp_runtime_class := RC_BACKGROUND,
         cp_estimated_cost := 8\<rparr>)]
   @ [(''model_show'', (read_policy [CAP_MODEL])\<lparr>cp_target_scope := TS_MODEL_STORE\<rparr>)]
   @ [(''plugins_discover'', (read_policy [])\<lparr>cp_target_scope := TS_PLUGIN\<rparr>)]
   @ [(''plugins_load'', (curated_policy EC_CODE_EXECUTION ''high'' CM_HANDOFF_REQUIRED [CAP_READ, CAP_PLUGIN_LOAD]
         [DC_LOCAL_CONTENT, DC_SENSITIVE] TS_PLUGIN IC_AT_MOST_ONCE OM_UNKNOWN_POSSIBLE VR_FRESH_OBSERVATION))]
   @ [(''query_knowledge_graph'', (read_policy [])\<lparr>cp_target_scope := TS_MEMORY_STORE\<rparr>)]
   @ [(''read_file'', (read_policy [])\<lparr>cp_target_scope := TS_WORKSPACE\<rparr>)]
   @ [(''read_pdf'', (read_policy [])\<lparr>cp_target_scope := TS_WORKSPACE\<rparr>)]
   @ [(''reindex_knowledge_graph'', (local_policy [CAP_MEMORY])\<lparr>cp_target_scope := TS_MEMORY_STORE,
         cp_confirmation_mode := CM_SESSION_PREAPPROVAL, cp_idempotency := IC_IDEMPOTENT, cp_maximum_risk :=
         ''medium'', cp_runtime_class := RC_BACKGROUND, cp_estimated_cost := 8\<rparr>)]
   @ [(''remember'', (local_policy [CAP_MEMORY])\<lparr>cp_data_classes := [DC_USER_PROFILE, DC_SENSITIVE],
         cp_target_scope := TS_MEMORY_STORE, cp_idempotency := IC_AT_MOST_ONCE, cp_suppress_logs := True\<rparr>)]
   @ [(''render_pdf_pages'', (local_policy [])\<lparr>cp_data_classes := [DC_LOCAL_CONTENT, DC_SENSITIVE],
         cp_target_scope := TS_RUNTIME, cp_maximum_risk := ''medium'', cp_idempotency := IC_AT_MOST_ONCE,
         cp_verification := VR_INDEPENDENT_POSTCONDITION, cp_suppress_logs := True\<rparr>)]
   @ [(''run_shell'', (local_policy [CAP_SHELL])\<lparr>cp_effect_class := EC_CODE_EXECUTION, cp_idempotency :=
         IC_NON_IDEMPOTENT, cp_verification := VR_INDEPENDENT_POSTCONDITION\<rparr>)]
   @ [(''runtime_qos_hint'', (read_policy [])\<lparr>cp_target_scope := TS_RUNTIME\<rparr>)]
   @ [(''screenshot_description_verify'', (read_policy [CAP_MODEL, CAP_DATA_EGRESS])\<lparr>cp_data_classes :=
         [DC_SENSITIVE], cp_confirmation_mode := CM_ACTION_TIME, cp_maximum_risk := ''high''\<rparr>)]
   @ [(''search_files'', (read_policy [])\<lparr>cp_target_scope := TS_WORKSPACE\<rparr>)]
   @ [(''session_command'', (curated_policy EC_ORCHESTRATION ''high'' CM_NONE [CAP_READ] [DC_LOCAL_CONTENT,
         DC_USER_PROFILE] TS_RUNTIME IC_NON_IDEMPOTENT OM_UNKNOWN_POSSIBLE VR_INDEPENDENT_POSTCONDITION)
         \<lparr>cp_dynamic_resolution := True, cp_runtime_class := RC_INTERACTIVE, cp_estimated_cost := 1\<rparr>)]
   @ [(''session_slash'', (curated_policy EC_ORCHESTRATION ''high'' CM_NONE [CAP_READ] [DC_LOCAL_CONTENT,
         DC_USER_PROFILE] TS_RUNTIME IC_NON_IDEMPOTENT OM_UNKNOWN_POSSIBLE VR_INDEPENDENT_POSTCONDITION)
         \<lparr>cp_dynamic_resolution := True, cp_runtime_class := RC_INTERACTIVE, cp_estimated_cost := 1\<rparr>)]
   @ [(''small_context_ledger_preview'', (read_policy [])\<lparr>cp_data_classes := [DC_LOCAL_CONTENT,
         DC_SENSITIVE], cp_target_scope := TS_RUNTIME\<rparr>)]
   @ [(''update_user_profile'', (local_policy [CAP_MEMORY])\<lparr>cp_data_classes := [DC_USER_PROFILE,
         DC_SENSITIVE], cp_target_scope := TS_MEMORY_STORE, cp_idempotency := IC_IDEMPOTENT\<rparr>)]
   @ [(''url_scheme_parse'', (read_policy [])\<lparr>cp_data_classes := [DC_PUBLIC], cp_target_scope :=
         TS_RUNTIME\<rparr>)]
   @ [(''version_manifest_build'', (read_policy [])\<lparr>cp_target_scope := TS_RUNTIME\<rparr>)]
   @ [(''vision_describe'', (read_policy [CAP_MODEL, CAP_DATA_EGRESS])\<lparr>cp_data_classes := [DC_SENSITIVE],
         cp_confirmation_mode := CM_ACTION_TIME, cp_maximum_risk := ''high'', cp_suppress_logs := True\<rparr>)]
   @ [(''web_fetch'', (read_policy [CAP_NETWORK, CAP_DATA_EGRESS])\<lparr>cp_data_classes := [DC_PUBLIC,
         DC_SENSITIVE], cp_target_scope := TS_PROVIDER, cp_confirmation_mode := CM_SESSION_PREAPPROVAL,
         cp_maximum_risk := ''medium'', cp_outcome_model := OM_EXTERNAL_EFFECT\<rparr>)]
   @ [(''web_search'', (read_policy [CAP_NETWORK, CAP_DATA_EGRESS])\<lparr>cp_data_classes := [DC_PUBLIC,
         DC_SENSITIVE], cp_target_scope := TS_PROVIDER, cp_confirmation_mode := CM_SESSION_PREAPPROVAL,
         cp_maximum_risk := ''medium'', cp_outcome_model := OM_EXTERNAL_EFFECT\<rparr>)]
   @ [(''write_file'', (local_policy []))]
   @ [(''write_knowledge_graph_note'', (local_policy [CAP_MEMORY])\<lparr>cp_data_classes := [DC_LOCAL_CONTENT,
         DC_SENSITIVE], cp_target_scope := TS_MEMORY_STORE, cp_idempotency := IC_AT_MOST_ONCE\<rparr>)]
   @ [(''x_account_draft_post'', (read_policy [CAP_NETWORK])\<lparr>cp_data_classes := [DC_USER_PROFILE,
         DC_SENSITIVE], cp_target_scope := TS_EXTERNAL_ACCOUNT, cp_confirmation_mode := CM_SESSION_PREAPPROVAL,
         cp_maximum_risk := ''medium'', cp_outcome_model := OM_EXTERNAL_EFFECT\<rparr>)]
   @ [(''x_account_draft_reply'', (read_policy [CAP_NETWORK])\<lparr>cp_data_classes := [DC_USER_PROFILE,
         DC_SENSITIVE], cp_target_scope := TS_EXTERNAL_ACCOUNT, cp_confirmation_mode := CM_SESSION_PREAPPROVAL,
         cp_maximum_risk := ''medium'', cp_outcome_model := OM_EXTERNAL_EFFECT\<rparr>)]
   @ [(''x_account_post'', (external_policy [CAP_EXTERNAL_PUBLISH]))]
   @ [(''x_account_post_action'', (external_policy [CAP_EXTERNAL_PUBLISH]))]
   @ [(''x_account_reply'', (external_policy [CAP_EXTERNAL_PUBLISH]))]
   @ [(''x_account_status'', (read_policy [CAP_NETWORK])\<lparr>cp_data_classes := [DC_USER_PROFILE],
         cp_target_scope := TS_EXTERNAL_ACCOUNT, cp_confirmation_mode := CM_SESSION_PREAPPROVAL, cp_maximum_risk :=
         ''medium'', cp_outcome_model := OM_EXTERNAL_EFFECT\<rparr>)]
   @ [(''x_search'', (read_policy [CAP_NETWORK, CAP_DATA_EGRESS])\<lparr>cp_data_classes := [DC_PUBLIC,
         DC_SENSITIVE], cp_target_scope := TS_PROVIDER, cp_confirmation_mode := CM_SESSION_PREAPPROVAL,
         cp_maximum_risk := ''medium'', cp_outcome_model := OM_EXTERNAL_EFFECT\<rparr>)]
   @ [(''cobalt_open'', (external_policy [])\<lparr>cp_maximum_risk := ''medium''\<rparr>)]
   @ [(''cobalt_snapshot'', (read_policy [CAP_NETWORK])\<lparr>cp_data_classes := [DC_PUBLIC], cp_target_scope :=
         TS_EXTERNAL_STATE, cp_confirmation_mode := CM_SESSION_PREAPPROVAL, cp_maximum_risk := ''low'',
         cp_outcome_model := OM_DETERMINISTIC\<rparr>)]
   @ [(''cobalt_screenshot'', (read_policy [CAP_NETWORK])\<lparr>cp_data_classes := [DC_PUBLIC], cp_target_scope :=
         TS_EXTERNAL_STATE, cp_confirmation_mode := CM_SESSION_PREAPPROVAL, cp_maximum_risk := ''low'',
         cp_outcome_model := OM_EXTERNAL_EFFECT\<rparr>)]
   @ [(''cobalt_navigate'', (external_policy [])\<lparr>cp_maximum_risk := ''medium''\<rparr>)]
   @ [(''cobalt_click'', (external_policy [])\<lparr>cp_maximum_risk := ''medium''\<rparr>)]
   @ [(''cobalt_type'', (external_policy [])\<lparr>cp_maximum_risk := ''medium''\<rparr>)]
   @ [(''cobalt_scroll'', (external_policy [])\<lparr>cp_maximum_risk := ''low''\<rparr>)]
   @ [(''cobalt_close'', (external_policy [])\<lparr>cp_maximum_risk := ''low''\<rparr>)]"

definition retired_tools :: "string list" where
  "retired_tools = [''embed_text'', ''query_knowledge_graph'', ''reindex_knowledge_graph'', ''write_knowledge_graph_note'']"

definition CURATED_TOOL_POLICIES :: "(string \<times> CuratedActionPolicy) list" where
  "CURATED_TOOL_POLICIES = filter (\<lambda>(name, _). name \<notin> set retired_tools) policy_table"

definition unclassified_policy :: CuratedActionPolicy where
  "unclassified_policy =
    (curated_policy EC_UNCLASSIFIED ''high'' CM_HANDOFF_REQUIRED [CAP_UNCLASSIFIED] [DC_SENSITIVE] TS_EXTERNAL_STATE
       IC_NON_IDEMPOTENT OM_UNKNOWN_POSSIBLE VR_INDEPENDENT_POSTCONDITION)
       \<lparr>cp_curated := False, cp_runtime_class := RC_BACKGROUND, cp_estimated_cost := 8, cp_suppress_logs := True\<rparr>"

definition policy_for_action :: "pystr \<Rightarrow> CuratedActionPolicy" where
  "policy_for_action name =
    (case find (\<lambda>(key, _). str key = name) CURATED_TOOL_POLICIES of
       Some (_, policy) \<Rightarrow> policy | None \<Rightarrow> unclassified_policy)"

section \<open>Masks as sets of capabilities\<close>

lemma capability_bit_inject: "capability_bit c = capability_bit d \<longleftrightarrow> c = d"
  by (cases c; cases d) simp_all

lemma mask_has_bit: "mask_has m c \<longleftrightarrow> bit m (capability_bit c)"
  by (simp add: mask_has_def capability_value_def bit_iff_and_push_bit_not_eq_0)

lemma mask_contains_bits: "mask_contains m required \<longleftrightarrow> (\<forall>n. bit required n \<longrightarrow> bit m n)"
  by (auto simp add: mask_contains_def bit_eq_iff bit_simps)

lemma capability_value_bit: "bit (capability_value c) n \<longleftrightarrow> n = capability_bit c"
  by (auto simp add: capability_value_def bit_simps)

lemma capability_fold_bit: "bit (fold (\<lambda>c m. m OR capability_value c) cs m) n \<longleftrightarrow> bit m n \<or> (\<exists>c \<in> set cs. n = capability_bit c)"
  by (induction cs arbitrary: m) (auto simp add: bit_simps capability_value_bit)

lemma capability_mask_bit: "bit (capability_mask cs) n \<longleftrightarrow> (\<exists>c \<in> set cs. n = capability_bit c)"
  by (simp add: capability_mask_def capability_fold_bit)

lemma mask_has_capability: "mask_has (capability_mask cs) c \<longleftrightarrow> c \<in> set cs"
  by (auto simp add: mask_has_bit capability_mask_bit capability_bit_inject)

lemma mask_contains_capabilities: "mask_contains m (capability_mask cs) \<longleftrightarrow> (\<forall>c \<in> set cs. mask_has m c)"
  by (auto simp add: mask_contains_bits capability_mask_bit mask_has_bit)

lemma mask_add_remove:
  "mask_has (mask_add m c) d \<longleftrightarrow> d = c \<or> mask_has m d" "mask_has (mask_remove m c) d \<longleftrightarrow> d \<noteq> c \<and> mask_has m d"
  by (auto simp add: mask_has_bit mask_add_def mask_remove_def bit_simps capability_value_bit capability_bit_inject)

lemma members_complete: "set Capability_members = UNIV" "distinct Capability_members"
proof -
  show "set Capability_members = UNIV"
    by (rule equalityI, simp, rule subsetI, rename_tac c, case_tac c) (simp_all add: Capability_members_def)
qed (simp add: Capability_members_def)

section \<open>The table is fail-closed\<close>

definition policy_sound :: "CuratedActionPolicy \<Rightarrow> bool" where
  "policy_sound p \<longleftrightarrow> CuratedActionPolicy_post_init p = Inr () \<and> cp_curated p
     \<and> (mutates_state p \<longrightarrow> requires_approval p \<or> cp_dynamic_resolution p)
     \<and> (cp_effect_class p \<in> {EC_EXTERNAL_MUTATION, EC_DESTRUCTIVE, EC_CONFIGURATION} \<longrightarrow> cp_confirmation_mode p = CM_ACTION_TIME)
     \<and> (cp_effect_class p = EC_CODE_EXECUTION \<longrightarrow> cp_confirmation_mode p \<in> {CM_ACTION_TIME, CM_HANDOFF_REQUIRED})
     \<and> (CAP_DESTRUCTIVE \<in> set (cp_capabilities p) \<longleftrightarrow> cp_effect_class p = EC_DESTRUCTIVE)
     \<and> (CAP_WRITE \<in> set (cp_capabilities p) \<longrightarrow> mutates_state p)
     \<and> (CAP_CREDENTIAL \<in> set (cp_capabilities p) \<longrightarrow> cp_confirmation_mode p = CM_ACTION_TIME)
     \<and> (CAP_DATA_EGRESS \<in> set (cp_capabilities p) \<longrightarrow> requires_approval p)
     \<and> (safe_retry p \<longrightarrow> \<not> mutates_state p)
     \<and> CAP_UNCLASSIFIED \<notin> set (cp_capabilities p)"

lemma table_sound: "list_all (\<lambda>(_, p). policy_sound p) policy_table"
  by code_simp

lemma find_Some_D: "find P xs = Some x \<Longrightarrow> x \<in> set xs \<and> P x"
  by (induction xs) (auto split: if_splits)

lemma policy_cases:
  obtains (listed) key where "str key = name" "key \<in> fst ` set CURATED_TOOL_POLICIES" "policy_sound (policy_for_action name)"
  | (unlisted) "policy_for_action name = unclassified_policy" "name \<notin> str ` fst ` set CURATED_TOOL_POLICIES"
proof (cases "find (\<lambda>(key, _). str key = name) CURATED_TOOL_POLICIES")
  case None
  then have "name \<notin> str ` fst ` set CURATED_TOOL_POLICIES" by (auto simp add: find_None_iff)
  with None show ?thesis using unlisted by (simp add: policy_for_action_def)
next
  case (Some entry)
  obtain key policy where entry: "entry = (key, policy)" by (cases entry)
  have "(key, policy) \<in> set CURATED_TOOL_POLICIES" "str key = name" using find_Some_D [OF Some] by (simp_all add: entry)
  moreover from this(1) have "policy_sound policy" using table_sound by (auto simp add: CURATED_TOOL_POLICIES_def list_all_iff)
  ultimately show ?thesis using listed [of key] Some by (force simp add: policy_for_action_def entry)
qed

lemma curated_iff: "cp_curated (policy_for_action name) \<longleftrightarrow> name \<in> str ` fst ` set CURATED_TOOL_POLICIES"
proof (cases rule: policy_cases [of name])
  case (listed key)
  have "name \<in> str ` fst ` set CURATED_TOOL_POLICIES" using listed(1,2) by blast
  with listed(3) show ?thesis by (simp add: policy_sound_def)
next
  case unlisted
  show ?thesis unfolding unlisted(1) using unlisted(2) by (simp add: unclassified_policy_def)
qed

section \<open>The registry\<close>

text \<open>A dictionary is the list of its items. \<open>callable\<close> is Python's predicate on the registered values.\<close>

definition registry_validate :: "('v \<Rightarrow> bool) \<Rightarrow> pystr \<Rightarrow> 'v \<Rightarrow> exn + unit" where
  "registry_validate callable name v =
    rbind (require (name \<noteq> []) (ValueError ''tool_name'')) (\<lambda>_.
    rbind (require (callable v) TypeError) (\<lambda>_.
    require (cp_curated (policy_for_action name)) (ValueError ''tool_policy'')))"

definition registry_setitem :: "('v \<Rightarrow> bool) \<Rightarrow> pystr \<Rightarrow> 'v \<Rightarrow> (pystr \<times> 'v) list \<Rightarrow> exn + (pystr \<times> 'v) list" where
  "registry_setitem callable name v reg = rbind (registry_validate callable name v) (\<lambda>_. Inr (dict_put name v reg))"

definition registry_update ::
    "('v \<Rightarrow> bool) \<Rightarrow> (pystr \<times> 'v) list \<Rightarrow> (pystr \<times> 'v) list \<Rightarrow> exn + (pystr \<times> 'v) list" where
  "registry_update callable pairs reg =
    rbind (traverse (\<lambda>(name, v). registry_validate callable name v) pairs) (\<lambda>_.
    Inr (foldl (\<lambda>reg (name, v). dict_put name v reg) reg pairs))"

definition CuratedToolRegistry_init :: "('v \<Rightarrow> bool) \<Rightarrow> (pystr \<times> 'v) list \<Rightarrow> exn + (pystr \<times> 'v) list" where
  "CuratedToolRegistry_init callable initial = (if initial = [] then Inr [] else registry_update callable initial [])"

section \<open>Grants, permits and receipts\<close>

record ConsentGrant =
  cg_grant_id :: pystr
  cg_capability_mask :: int
  cg_allowed_actions :: "pystr set"
  cg_allowed_targets :: "pystr set"
  cg_expires_at :: pyfloat
  cg_maximum_action_count :: int
  cg_issued_at :: pyfloat
  cg_source :: pystr

definition grant_permits :: "ConsentGrant \<Rightarrow> pystr \<Rightarrow> int \<Rightarrow> pystr \<Rightarrow> pyfloat \<Rightarrow> bool" where
  "grant_permits g action required target now =
    (if float_le (cg_expires_at g) now \<or> cg_maximum_action_count g \<le> 0 then False
     else if action \<notin> cg_allowed_actions g \<or> target \<notin> cg_allowed_targets g then False
     else mask_contains (cg_capability_mask g) required)"

record ResolvedAction =
  ra_name :: pystr
  ra_target :: pystr
  ra_target_scope :: TargetScope
  ra_effect_class :: EffectClass
  ra_capability_mask :: int
  ra_data_classes :: "ActionDataClass list"
  ra_confirmation_mode :: ConfirmationMode
  ra_idempotency :: IdempotencyClass
  ra_outcome_model :: OutcomeModel
  ra_verification :: VerificationRequirement
  ra_action_digest :: pystr
  ra_snapshot_revision :: pystr
  ra_compensation_action :: pystr

record ConfirmationReceipt =
  cr_receipt_id :: pystr
  cr_action_digest :: pystr
  cr_confirmation_mode :: ConfirmationMode
  cr_confirmed_at :: pyfloat
  cr_expires_at :: pyfloat

section \<open>The registry holds curated tools only\<close>

definition registry_ok :: "('v \<Rightarrow> bool) \<Rightarrow> (pystr \<times> 'v) list \<Rightarrow> bool" where
  "registry_ok callable reg \<longleftrightarrow> distinct (map fst reg)
     \<and> (\<forall>(name, v) \<in> set reg. name \<noteq> [] \<and> callable v \<and> cp_curated (policy_for_action name))"

lemma dict_put_ok:
  assumes "registry_ok callable reg" "registry_validate callable name v = Inr ()"
  shows "registry_ok callable (dict_put name v reg)"
proof (cases "name \<in> fst ` set reg")
  case True
  have "map fst (map (\<lambda>(k', v'). (k', if k' = name then v else v')) reg) = map fst reg" by (induction reg) auto
  then show ?thesis using assms True by (auto simp add: registry_ok_def dict_put_def registry_validate_def accepts simp del: map_map)
next
  case False
  then show ?thesis using assms by (auto simp add: registry_ok_def dict_put_def registry_validate_def accepts)
qed

lemma registry_steps:
  assumes "registry_ok callable reg"
  shows "registry_setitem callable name v reg = Inr reg' \<Longrightarrow> registry_ok callable reg'"
    and "registry_update callable pairs reg = Inr reg' \<Longrightarrow> registry_ok callable reg'"
proof -
  assume "registry_setitem callable name v reg = Inr reg'"
  then show "registry_ok callable reg'" using dict_put_ok [OF assms] by (auto simp add: registry_setitem_def)
next
  have "registry_ok callable (foldl (\<lambda>reg (name, v). dict_put name v reg) reg pairs)"
    if "\<forall>(name, v) \<in> set pairs. registry_validate callable name v = Inr ()" for pairs
    using that assms
  proof (induction pairs arbitrary: reg)
    case (Cons pair pairs)
    obtain name v where pair: "pair = (name, v)" by (cases pair)
    have "registry_ok callable (dict_put name v reg)" using Cons.prems pair by (intro dict_put_ok) simp_all
    then show ?case using Cons.IH Cons.prems(1) pair by simp
  qed simp
  moreover assume "registry_update callable pairs reg = Inr reg'"
  then have "\<forall>(name, v) \<in> set pairs. registry_validate callable name v = Inr ()"
    "reg' = foldl (\<lambda>reg (name, v). dict_put name v reg) reg pairs"
    by (auto simp add: registry_update_def traverse_Inr_iff list_all2_conv_all_nth in_set_conv_nth split: prod.splits)
  ultimately show "registry_ok callable reg'" by simp
qed

end
