(* ===== verification/Samuel_Engine.thy ===== *)
theory Samuel_Engine
  imports Marcus_Authority Py_Hash Py_Json
begin

text \<open>
  \<^verbatim>\<open>algo_cli/samuel_policy_engine.py\<close>: how an action of the model is resolved to a target with a policy, and
  how the resolved action is judged against a consent grant and a confirmation.

  The file system, URL parsing and the printing of arbitrary values are not part of the program; \<open>host\<close> has
  the functions of them the code calls.
\<close>

section \<open>Session commands\<close>

definition SLASH_ALIASES :: "(string \<times> string) list" where
  "SLASH_ALIASES = [(''/hs'', ''/hsearch''), (''/hr'', ''/hread'')]"

definition SAFE_SESSION_COMMANDS :: "string list" where
  "SAFE_SESSION_COMMANDS =
    [''/actions'', ''/changes'', ''/chatgpt-status'', ''/credentials'', ''/dashboard'', ''/diff'', ''/doctor'', ''/google-status'',
     ''/help'', ''/hread'', ''/hsearch'', ''/identity'', ''/info'', ''/model-check'', ''/models'', ''/perf'', ''/route'',
     ''/selfcheck'', ''/status'', ''/url-scheme'', ''/xai-status'']"

definition READ_ONLY_GOOGLE_SUBCOMMANDS :: "string list" where
  "READ_ONLY_GOOGLE_SUBCOMMANDS =
    [''calendar-list'', ''docs-get'', ''drive-get'', ''drive-list'', ''drive-search'', ''gmail-get'', ''gmail-list'', ''help'',
     ''sheets-values'']"

definition READ_ONLY_INSPECTION_ARGS :: "(string \<times> string list) list" where
  "READ_ONLY_INSPECTION_ARGS =
    [(''/goal'', ['''', ''status'']), (''/host'', ['''']), (''/keepalive'', ['''']), (''/model'', ['''']), (''/system'', ['''']),
     (''/theme'', [''''])]"

definition SAFE_SESSION_STATUS_COMMANDS :: "string list" where
  "SAFE_SESSION_STATUS_COMMANDS =
    [''/auto'', ''/cloud'', ''/cloudauto'', ''/code-rag'', ''/context'', ''/harness'', ''/icl'', ''/intel'', ''/intelagence'',
     ''/intelligence'', ''/intuition'', ''/lessons'', ''/memory-auto'', ''/mode'', ''/policy'', ''/reason'', ''/reflex'', ''/safe'',
     ''/skills'', ''/thinking'', ''/verify'', ''/x-account'', ''/xai-status'']"

definition EMPTY_ARG_TOGGLES :: "string list" where
  "EMPTY_ARG_TOGGLES = [''/auto'', ''/cloud'', ''/cloudauto'', ''/safe'', ''/thinking'', ''/verify'']"

definition among :: "pystr \<Rightarrow> string list \<Rightarrow> bool" where
  "among s literals \<longleftrightarrow> s \<in> str ` set literals"

definition starts :: "pystr \<Rightarrow> string \<Rightarrow> bool" where
  "starts s literal \<longleftrightarrow> take (length literal) s = str literal"

definition normalize_session_command :: "unicode \<Rightarrow> pystr \<Rightarrow> pystr \<times> pystr" where
  "normalize_session_command u command_line =
    (let stripped = py_strip command_line;
         stripped = (if starts stripped ''/'' then stripped else if stripped = [] then [] else str ''/'' @ stripped) in
     case split_once stripped of
       [] \<Rightarrow> ([], [])
     | [command] \<Rightarrow> (py_casefold u command, [])
     | command # arg # _ \<Rightarrow> (py_casefold u command, py_casefold u (py_strip arg)))"

definition session_alias :: "pystr \<Rightarrow> pystr" where
  "session_alias command = (case find (\<lambda>(a, _). str a = command) SLASH_ALIASES of Some (_, c) \<Rightarrow> str c | None \<Rightarrow> command)"

definition session_command_requires_approval :: "unicode \<Rightarrow> pystr \<Rightarrow> bool" where
  "session_command_requires_approval u command_line =
    (let (command, arg) = normalize_session_command u command_line; command = session_alias command in
     if command = [] then True
     else if among command [''/exit'', ''/quit''] then True
     else if among command SAFE_SESSION_COMMANDS \<or> among command [''/read'', ''/ls'', ''/cwd''] then False
     else if command = str ''/cd'' then True
     else if command = str ''/google'' then
       \<not> among (if arg = [] then str ''help'' else (case split_once arg of word # _ \<Rightarrow> word | [] \<Rightarrow> [])) READ_ONLY_GOOGLE_SUBCOMMANDS
     else case find (\<lambda>(c, _). str c = command) READ_ONLY_INSPECTION_ARGS of
       Some (_, safe) \<Rightarrow> \<not> among arg safe
     | None \<Rightarrow>
       if among command [''/intelligence'', ''/intel'', ''/intelagence'']
       then \<not> (among arg ['''', ''status'', ''show'', ''?'', ''guide'', ''help''] \<or> starts arg ''query '')
       else if command = str ''/kernel''
       then \<not> (among arg ['''', ''list'', ''show'', ''check'', ''?'', ''help''] \<or> starts arg ''show '' \<or> starts arg ''check '')
       else if command = str ''/memory'' then \<not> among arg [''help'', ''?'']
       else if among command EMPTY_ARG_TOGGLES then \<not> among arg [''status'', ''show'', ''?'']
       else if command = str ''/agent''
       then \<not> (among arg [''help'', ''--help'', ''-h'', ''?'', ''threads'', ''list'', ''status'', ''show''] \<or> starts arg ''show '')
       else if command = str ''/worktree'' then \<not> among arg ['''', ''status'', ''show'', ''list'', ''help'', ''?'']
       else if command = str ''/ship'' then \<not> among arg ['''', ''status'', ''plan'', ''show'', ''help'', ''?'']
       else if among command SAFE_SESSION_STATUS_COMMANDS \<and> among arg ['''', ''status'', ''show'', ''?'', ''guide'', ''help''] then False
       else if command = str ''/x-account'' \<and> arg = str ''status'' then False
       else if command = str ''/config'' \<and> among arg ['''', ''status'', ''show'', ''?'', ''help''] then False
       else if command = str ''/credentials'' then False
       else if command = str ''/plugins'' then \<not> among arg ['''', ''list'', ''status'', ''help'', ''?'']
       else True)"

section \<open>Targets\<close>

text \<open>
  \<open>resolve_path cwd v\<close> is the resolved path of \<open>v\<close>, or \<open>None\<close> where \<open>pathlib\<close> raises; \<open>split_url\<close> gives scheme and
  host name as the code normalises them and the port, or \<open>None\<close> where \<open>urlsplit\<close> or the IDNA codec raises;
  \<open>canonical_text\<close> is the JSON text of a value that is not built of texts, integers, truth values, \<open>None\<close>,
  lists and dictionaries alone: \<open>json.dumps\<close> prints a float in it, and \<open>default=str\<close> any other object.
\<close>

record host =
  resolve_path :: "pystr \<Rightarrow> py \<Rightarrow> pystr option"
  resolve_cwd :: "pystr \<Rightarrow> pystr"
  split_url :: "pystr \<Rightarrow> (pystr \<times> pystr \<times> int option) option"
  py_text :: "py \<Rightarrow> pystr"
  int_text :: "int \<Rightarrow> pystr"
  canonical_text :: "py \<Rightarrow> bytes"

definition canonical_origin :: "host \<Rightarrow> pystr \<Rightarrow> pystr" where
  "canonical_origin h raw_url =
    (case split_url h raw_url of
       None \<Rightarrow> str ''provider:unresolved''
     | Some (scheme, hostname, port) \<Rightarrow>
         if scheme = [] \<or> hostname = [] \<or> \<not> among scheme [''http'', ''https''] then str ''provider:unresolved''
         else
           let default_port = (if scheme = str ''https'' then 443 else 80);
               effective_port = (case port of Some p \<Rightarrow> p | None \<Rightarrow> default_port) in
           str ''origin:'' @ scheme @ str ''://'' @ hostname @ str '':'' @ int_text h effective_port)"

definition WORKSPACE_PATH_ARGUMENTS :: "string list" where
  "WORKSPACE_PATH_ARGUMENTS =
    [''batch_edit'', ''edit_file'', ''find_unique_anchor'', ''list_directory'', ''read_file'', ''read_pdf'', ''render_pdf_pages'',
     ''search_files'', ''write_file'']"

text \<open>\<^verbatim>\<open>algo_cli/workspace_resolver.py\<close>: the path in the argument of a session command.\<close>

definition strip_char :: "nat \<Rightarrow> pystr \<Rightarrow> pystr" where
  "strip_char q s = rev (dropWhile (\<lambda>c. c = q) (rev (dropWhile (\<lambda>c. c = q) s)))"

definition windows_drive :: "pystr \<Rightarrow> bool" where
  "windows_drive s =
    (let rest = (if take 4 s = [92, 92, 63, 92] then drop 4 s else s) in
     case rest of letter # colon # slash # _ \<Rightarrow> ascii_alpha letter \<and> colon = 58 \<and> slash \<in> {92, 47} | _ \<Rightarrow> False)"

definition parse_path_arg :: "unicode \<Rightarrow> pystr \<Rightarrow> pystr" where
  "parse_path_arg u arg =
    (let s = py_strip arg; unquoted = strip_char 39 (strip_char 34 s) in
     if s = [] then []
     else if windows_drive s \<or> (2 \<le> length s \<and> s ! 1 = 58 \<and> py_isalpha u (s ! 0)) then unquoted
     else case shlex_split s of None \<Rightarrow> unquoted | Some [] \<Rightarrow> [] | Some (word # _) \<Rightarrow> word)"

definition or_star :: "pystr \<Rightarrow> string \<Rightarrow> pystr" where
  "or_star s otherwise = (if s = [] then str otherwise else s)"

definition target_for :: "host \<Rightarrow> unicode \<Rightarrow> pystr \<Rightarrow> (pystr \<times> py) list \<Rightarrow> pystr \<Rightarrow> TargetScope \<Rightarrow> pystr" where
  "target_for h u name args cwd scope =
    (if name = str ''jev_question_contract'' then str ''provider:typesafe:jev''
     else if name = str ''decision_decide'' then str ''provider:decision:configured''
     else case (if among name WORKSPACE_PATH_ARGUMENTS then map_of args (str ''path'') else None) of
       Some v \<Rightarrow> (case resolve_path h cwd v of None \<Rightarrow> str ''workspace:unresolved'' | Some path \<Rightarrow> str ''workspace:'' @ path)
     | None \<Rightarrow>
       if name = str ''run_shell'' then str ''workspace:'' @ resolve_cwd h cwd
       else if name = str ''web_fetch'' then canonical_origin h (text_or (py_text h) args [''url''] '''')
       else case scope of
         TS_MODEL_STORE \<Rightarrow> str ''model:'' @ or_star (py_strip (text_or (py_text h) args [''name'', ''model'', ''source''] ''*'')) ''*''
       | TS_EXTERNAL_ACCOUNT \<Rightarrow> str ''external-account:'' @ or_star (py_strip (text_or (py_text h) args [''account''] ''default'')) ''default''
       | TS_PROVIDER \<Rightarrow> str ''provider:configured''
       | TS_MEMORY_STORE \<Rightarrow>
           if starts name ''memory_'' then
             let memory = py_casefold u (py_strip (text_or (py_text h) args [''scope''] '''')) in
             if \<not> among memory [''shared'', ''private''] then str ''memory-store:unresolved''
             else str ''memory-store:continuum:'' @ memory
           else str ''memory-store:default''
       | TS_PLUGIN \<Rightarrow> str ''plugin:'' @ or_star (py_strip (text_or (py_text h) args [''plugin_name'', ''name''] ''*'')) ''*''
       | TS_WORKSPACE \<Rightarrow> str ''workspace:'' @ resolve_cwd h cwd
       | _ \<Rightarrow> str ''runtime:'' @ name)"

section \<open>Resolution\<close>

text \<open>
  \<open>_canonical_json\<close> and its UTF-8 encoding. (On a text with a lone surrogate \<open>encode\<close> raises, and no action is
  resolved; the model gives such a value to the host as well, and no theorem speaks of it.)
\<close>

definition canonical_json :: "host \<Rightarrow> py \<Rightarrow> bytes" where
  "canonical_json h v =
    (case json_dumps v of
       Inl _ \<Rightarrow> canonical_text h v
     | Inr json \<Rightarrow> (case utf8_encode json of Some bs \<Rightarrow> bs | None \<Rightarrow> canonical_text h v))"

definition action_envelope :: "pystr \<Rightarrow> (pystr \<times> py) list \<Rightarrow> pystr \<Rightarrow> pystr \<Rightarrow> py" where
  "action_envelope name args target revision =
    PDict [(str ''name'', PStr name), (str ''args'', PDict args), (str ''target'', PStr target),
      (str ''snapshot_revision'', PStr revision)]"

definition digest_action :: "host \<Rightarrow> pystr \<Rightarrow> (pystr \<times> py) list \<Rightarrow> pystr \<Rightarrow> pystr \<Rightarrow> pystr" where
  "digest_action h name args target revision =
    hexdigest (sha256 (canonical_json h (action_envelope name args target revision)))"

definition static_action :: "host \<Rightarrow> unicode \<Rightarrow> pystr \<Rightarrow> (pystr \<times> py) list \<Rightarrow> pystr \<Rightarrow> pystr \<Rightarrow> ResolvedAction" where
  "static_action h u name args cwd revision =
    (let p = policy_for_action name in
     \<lparr>ra_name = name, ra_target = target_for h u name args cwd (cp_target_scope p), ra_target_scope = cp_target_scope p,
      ra_effect_class = cp_effect_class p, ra_capability_mask = policy_mask p, ra_data_classes = cp_data_classes p,
      ra_confirmation_mode = cp_confirmation_mode p, ra_idempotency = cp_idempotency p, ra_outcome_model = cp_outcome_model p,
      ra_verification = cp_verification p, ra_action_digest = [], ra_snapshot_revision = revision,
      ra_compensation_action = cp_compensation_action p\<rparr>)"

definition resolve_local :: "pystr \<Rightarrow> (pystr \<times> py) list \<Rightarrow> ResolvedAction \<Rightarrow> ResolvedAction" where
  "resolve_local name args a =
    (let a = (if name = str ''decision_decide'' \<and> (case map_of args (str ''local_only'') of None \<Rightarrow> True | Some v \<Rightarrow> v = PBool True)
              then a\<lparr>ra_target := str ''runtime:decision:local'', ra_target_scope := TS_RUNTIME,
                     ra_capability_mask := capability_value CAP_READ OR capability_value CAP_MODEL, ra_confirmation_mode := CM_NONE\<rparr>
              else a) in
     if name = str ''jev_question_contract'' \<and> (case map_of args (str ''mode'') of None \<Rightarrow> True | Some v \<Rightarrow> v = PStr (str ''lint''))
     then a\<lparr>ra_target := str ''runtime:jev:lint'', ra_target_scope := TS_RUNTIME, ra_capability_mask := capability_value CAP_READ,
            ra_confirmation_mode := CM_NONE, ra_idempotency := IC_PURE, ra_outcome_model := OM_DETERMINISTIC\<rparr>
     else a)"

definition session_path :: "host \<Rightarrow> unicode \<Rightarrow> pystr \<Rightarrow> pystr \<Rightarrow> pystr \<Rightarrow> ResolvedAction \<Rightarrow> ResolvedAction" where
  "session_path h u cwd command raw_arg a =
    (if among command [''/read'', ''/ls'', ''/cd''] then
       let given = parse_path_arg u raw_arg;
           path = (if given = [] then (if command = str ''/ls'' then str ''.'' else []) else given) in
       a\<lparr>ra_target_scope := TS_WORKSPACE, ra_data_classes := [DC_LOCAL_CONTENT],
         ra_target := (if path = [] then str ''workspace:unresolved''
                       else target_for h u (str ''read_file'') [(str ''path'', PStr path)] cwd TS_WORKSPACE)\<rparr>
     else a)"

definition resolve_session ::
    "host \<Rightarrow> unicode \<Rightarrow> pystr \<Rightarrow> (pystr \<times> py) list \<Rightarrow> pystr \<Rightarrow> ResolvedAction \<Rightarrow> ResolvedAction" where
  "resolve_session h u name args cwd a =
    (if \<not> among name [''session_command'', ''session_slash''] then a
     else
       let raw = text_or (py_text h) args [''command''] ''''; raw_command_line = py_strip raw;
           command = fst (normalize_session_command u raw_command_line);
           raw_arg = (case split_once raw_command_line of _ # arg # _ \<Rightarrow> arg | _ \<Rightarrow> []);
           a = session_path h u cwd command raw_arg
                 (a\<lparr>ra_target := str ''runtime:session:'' @ or_star command ''unresolved''\<rparr>);
           a = (if session_command_requires_approval u raw
                then a\<lparr>ra_effect_class := EC_CONFIGURATION, ra_capability_mask := capability_value CAP_READ OR capability_value CAP_WRITE,
                       ra_data_classes := [DC_USER_PROFILE], ra_confirmation_mode := CM_ACTION_TIME,
                       ra_idempotency := IC_NON_IDEMPOTENT, ra_outcome_model := OM_UNKNOWN_POSSIBLE,
                       ra_verification := VR_FRESH_OBSERVATION, ra_compensation_action := []\<rparr>
                else a\<lparr>ra_effect_class := EC_OBSERVE, ra_capability_mask := capability_value CAP_READ,
                       ra_data_classes := [DC_USER_PROFILE], ra_confirmation_mode := CM_NONE, ra_idempotency := IC_PURE,
                       ra_outcome_model := OM_DETERMINISTIC, ra_verification := VR_STRUCTURED_RESULT,
                       ra_compensation_action := []\<rparr>) in
       if among command [''/read'', ''/ls''] then a\<lparr>ra_data_classes := [DC_LOCAL_CONTENT]\<rparr>
       else if command = str ''/cd'' then a\<lparr>ra_data_classes := [DC_LOCAL_CONTENT, DC_USER_PROFILE]\<rparr>
       else a)"

definition resolve_action :: "host \<Rightarrow> unicode \<Rightarrow> pystr \<Rightarrow> (pystr \<times> py) list \<Rightarrow> pystr \<Rightarrow> pystr \<Rightarrow> ResolvedAction" where
  "resolve_action h u name args cwd revision =
    (let a = resolve_session h u name args cwd (resolve_local name args (static_action h u name args cwd revision)) in
     a\<lparr>ra_action_digest := digest_action h name args (ra_target a) revision\<rparr>)"

section \<open>Decisions\<close>

datatype PolicyDisposition = PD_ALLOW | PD_DENY | PD_CONFIRM | PD_HANDOFF

record PolicyDecision =
  pd_disposition :: PolicyDisposition
  pd_reason :: pystr
  pd_action :: ResolvedAction
  pd_grant_id :: pystr
  pd_confirmation_receipt_id :: pystr

definition decide :: "PolicyDisposition \<Rightarrow> pystr \<Rightarrow> ResolvedAction \<Rightarrow> pystr \<Rightarrow> PolicyDecision" where
  "decide disposition reason action grant_id =
    \<lparr>pd_disposition = disposition, pd_reason = reason, pd_action = action, pd_grant_id = grant_id, pd_confirmation_receipt_id = []\<rparr>"

definition unresolved :: "pystr \<Rightarrow> bool" where
  "unresolved target \<longleftrightarrow> drop (length target - length '':unresolved'') target = str '':unresolved''"

definition valid_confirmation :: "ResolvedAction \<Rightarrow> ConfirmationReceipt option \<Rightarrow> pyfloat \<Rightarrow> bool" where
  "valid_confirmation a confirmation now =
    (case confirmation of None \<Rightarrow> False
     | Some c \<Rightarrow> cr_action_digest c = ra_action_digest a \<and> cr_confirmation_mode c = CM_ACTION_TIME
         \<and> float_le (cr_confirmed_at c) now \<and> float_less now (cr_expires_at c))"

definition evaluate_action ::
    "ResolvedAction \<Rightarrow> ConsentGrant option \<Rightarrow> ConfirmationReceipt option \<Rightarrow> pyfloat \<Rightarrow> bool \<Rightarrow> PolicyDecision" where
  "evaluate_action a grant confirmation now auto_approve =
    (let policy = policy_for_action (ra_name a) in
     if \<not> cp_curated policy \<or> ra_effect_class a = EC_UNCLASSIFIED
     then decide PD_DENY (str ''action has no curated authority policy'') a []
     else if unresolved (ra_target a) then decide PD_DENY (str ''action target could not be resolved'') a []
     else case (case grant of None \<Rightarrow> None
                | Some g \<Rightarrow> if grant_permits g (ra_name a) (ra_capability_mask a) (ra_target a) now then Some g else None) of
       None \<Rightarrow>
         if ra_confirmation_mode a = CM_HANDOFF_REQUIRED
         then decide PD_HANDOFF (str ''trusted user handoff is required'') a []
         else if ra_confirmation_mode a \<in> {CM_SESSION_PREAPPROVAL, CM_ACTION_TIME}
         then decide PD_CONFIRM (str ''a scoped capability grant is required'') a []
         else decide PD_DENY (str ''no scoped capability grant authorizes '' @ ra_name a @ str '' on '' @ ra_target a) a []
     | Some g \<Rightarrow>
         if ra_confirmation_mode a = CM_HANDOFF_REQUIRED
         then decide PD_HANDOFF (str ''handoff-required actions cannot be approved by a runtime grant'') a (cg_grant_id g)
         else if ra_confirmation_mode a = CM_ACTION_TIME \<and> \<not> valid_confirmation a confirmation now
         then decide PD_CONFIRM (str ''action-time confirmation is required''
                @ (if auto_approve then str ''; auto approval is not sufficient'' else [])) a (cg_grant_id g)
         else \<lparr>pd_disposition = PD_ALLOW, pd_reason = str ''scoped grant and required confirmation are valid'', pd_action = a,
                pd_grant_id = cg_grant_id g,
                pd_confirmation_receipt_id = (case confirmation of Some c \<Rightarrow> cr_receipt_id c | None \<Rightarrow> [])\<rparr>)"

definition decision_allowed :: "PolicyDecision \<Rightarrow> bool" where
  "decision_allowed d \<longleftrightarrow> pd_disposition d = PD_ALLOW"

end
