(* ===== verification/Samuel_Properties.thy ===== *)
theory Samuel_Properties
  imports Samuel_Engine Grace_Anchor
begin

text \<open>
  What the policy engine guarantees: exactly when an action is allowed, that no mutation outside the machine
  and no protected session command passes without a confirmation of exactly this action, and that an unknown
  command is protected.
\<close>

section \<open>Allowed actions\<close>

lemma grant_permits_iff:
  "grant_permits g action required target now \<longleftrightarrow> \<not> float_le (cg_expires_at g) now \<and> 0 < cg_maximum_action_count g
     \<and> action \<in> cg_allowed_actions g \<and> target \<in> cg_allowed_targets g
     \<and> (\<forall>n. bit required n \<longrightarrow> bit (cg_capability_mask g) n)"
  by (auto simp add: grant_permits_def mask_contains_bits not_le)

lemma allowed_iff:
  "pd_disposition (evaluate_action a grant confirmation now auto_approve) = PD_ALLOW \<longleftrightarrow>
     cp_curated (policy_for_action (ra_name a)) \<and> ra_effect_class a \<noteq> EC_UNCLASSIFIED \<and> \<not> unresolved (ra_target a)
     \<and> ra_confirmation_mode a \<noteq> CM_HANDOFF_REQUIRED
     \<and> (\<exists>g. grant = Some g \<and> grant_permits g (ra_name a) (ra_capability_mask a) (ra_target a) now)
     \<and> (ra_confirmation_mode a = CM_ACTION_TIME \<longrightarrow> valid_confirmation a confirmation now)"
  by (auto simp add: evaluate_action_def decide_def Let_def split: option.splits)

lemma valid_confirmation_Some:
  "valid_confirmation a confirmation now \<longleftrightarrow> (\<exists>c. confirmation = Some c \<and> cr_action_digest c = ra_action_digest a
     \<and> cr_confirmation_mode c = CM_ACTION_TIME \<and> float_le (cr_confirmed_at c) now \<and> float_less now (cr_expires_at c))"
  by (auto simp add: valid_confirmation_def split: option.splits)

section \<open>Resolved actions\<close>

lemma local_table: "list_all (\<lambda>(name, p). name \<in> {''decision_decide'', ''jev_question_contract''} \<longrightarrow> cp_effect_class p = EC_OBSERVE) policy_table"
  by code_simp

lemma local_observe:
  assumes "name \<in> {str ''decision_decide'', str ''jev_question_contract''}" "cp_curated (policy_for_action name)"
  shows "cp_effect_class (policy_for_action name) = EC_OBSERVE"
proof (cases "find (\<lambda>(key, _). str key = name) CURATED_TOOL_POLICIES")
  case None
  then show ?thesis using assms(2) by (simp add: policy_for_action_def unclassified_policy_def)
next
  case (Some entry)
  obtain key policy where entry: "entry = (key, policy)" by (cases entry)
  have "(key, policy) \<in> set policy_table" "str key = name"
    using find_Some_D [OF Some] by (simp_all add: entry CURATED_TOOL_POLICIES_def)
  then show ?thesis using local_table assms(1) Some by (auto simp add: list_all_iff policy_for_action_def entry)
qed

lemma resolve_session_kept:
  "\<not> among name [''session_command'', ''session_slash''] \<Longrightarrow> resolve_session h u name args cwd a = a"
  by (simp add: resolve_session_def)

lemma resolve_session_class:
  assumes "among name [''session_command'', ''session_slash'']"
  shows "if session_command_requires_approval u (text_or (py_text h) args [''command''] '''')
    then ra_effect_class (resolve_session h u name args cwd a) = EC_CONFIGURATION
      \<and> ra_confirmation_mode (resolve_session h u name args cwd a) = CM_ACTION_TIME
      \<and> ra_capability_mask (resolve_session h u name args cwd a) = capability_value CAP_READ OR capability_value CAP_WRITE
    else ra_effect_class (resolve_session h u name args cwd a) = EC_OBSERVE
      \<and> ra_capability_mask (resolve_session h u name args cwd a) = capability_value CAP_READ"
  using assms by (simp add: resolve_session_def Let_def)

lemma resolve_action_parts:
  "ra_name (resolve_action h u name args cwd revision) = name"
  "ra_action_digest (resolve_action h u name args cwd revision)
     = digest_action h name args (ra_target (resolve_action h u name args cwd revision)) revision"
  by (simp_all add: resolve_action_def resolve_session_def session_path_def resolve_local_def static_action_def Let_def)

lemma resolved_protected:
  assumes "cp_curated (policy_for_action name)"
    and "ra_effect_class (resolve_action h u name args cwd revision) \<in> {EC_EXTERNAL_MUTATION, EC_DESTRUCTIVE, EC_CONFIGURATION}"
  shows "ra_confirmation_mode (resolve_action h u name args cwd revision) = CM_ACTION_TIME"
proof (cases "among name [''session_command'', ''session_slash'']")
  case True
  from resolve_session_class [OF this, of u h args cwd "resolve_local name args (static_action h u name args cwd revision)"]
  show ?thesis using assms(2) by (simp add: resolve_action_def Let_def split: if_splits)
next
  case False
  have sound: "policy_sound (policy_for_action name)"
    using assms(1) by (cases rule: policy_cases [of name]) (simp_all add: unclassified_policy_def)
  show ?thesis
  proof (cases "name \<in> {str ''decision_decide'', str ''jev_question_contract''}")
    case True
    then show ?thesis
      using local_observe [OF True assms(1)] assms(2) False
      by (auto simp add: resolve_action_def resolve_session_kept resolve_local_def static_action_def Let_def split: if_splits)
  next
    case other: False
    then show ?thesis
      using sound assms(2) False
      by (auto simp add: resolve_action_def resolve_session_kept resolve_local_def static_action_def policy_sound_def Let_def)
  qed
qed

text \<open>C8: An action is allowed exactly when its tool is curated and its target resolved, a consent grant names the
  action and the target, has not expired, has actions left and covers every capability bit, it is not
  reserved for the user, and, when it needs confirmation at action time, a current confirmation of the digest
  of this very action is at hand. The automatic mode has no influence on it.\<close>

theorem evaluate_allows_iff:
  "pd_disposition (evaluate_action a grant confirmation now auto_approve) = PD_ALLOW \<longleftrightarrow>
     cp_curated (policy_for_action (ra_name a)) \<and> ra_effect_class a \<noteq> EC_UNCLASSIFIED \<and> \<not> unresolved (ra_target a)
     \<and> ra_confirmation_mode a \<noteq> CM_HANDOFF_REQUIRED
     \<and> (\<exists>g. grant = Some g \<and> \<not> float_le (cg_expires_at g) now \<and> 0 < cg_maximum_action_count g
          \<and> ra_name a \<in> cg_allowed_actions g \<and> ra_target a \<in> cg_allowed_targets g
          \<and> {n. bit (ra_capability_mask a) n} \<subseteq> {n. bit (cg_capability_mask g) n})
     \<and> (ra_confirmation_mode a \<noteq> CM_ACTION_TIME
        \<or> (\<exists>c. confirmation = Some c \<and> cr_action_digest c = ra_action_digest a \<and> cr_confirmation_mode c = CM_ACTION_TIME
             \<and> float_le (cr_confirmed_at c) now \<and> float_less now (cr_expires_at c)))"
  unfolding allowed_iff grant_permits_iff valid_confirmation_Some by auto

section \<open>The digest of an action\<close>

text \<open>The values whose JSON text the program determines alone.\<close>

definition plain_json :: "py \<Rightarrow> bool" where
  "plain_json v \<longleftrightarrow> serializable v \<and> wf_py v \<and> (\<exists>bs. utf8_encode (json_text (psort v)) = Some bs)"

lemma plain_scannable: "serializable v \<Longrightarrow> wf_py v \<Longrightarrow> \<exists>d. scannable (\<lambda>_. True) d (psort v)"
proof (induction v rule: wf_py.induct)
  case (1 xs)
  then have "\<forall>x \<in> set xs. \<exists>d. scannable (\<lambda>_. True) d (psort x)" by (simp add: list_all_iff)
  then obtain f where f: "\<forall>x \<in> set xs. scannable (\<lambda>_. True) (f x) (psort x)" by metis
  have "scannable (\<lambda>_. True) (Max (f ` set xs)) (psort x)" if x: "x \<in> set xs" for x
  proof (rule default_reader.scan_json_text_mono)
    show "scannable (\<lambda>_. True) (f x) (psort x)" using f x by blast
    show "f x \<le> Max (f ` set xs)" using x by simp
  qed
  then show ?case by (intro exI [of _ "Suc (Max (f ` set xs))"]) (simp add: list_all_iff)
next
  case (2 kvs)
  then have "\<forall>kv \<in> set kvs. \<exists>d. scannable (\<lambda>_. True) d (psort (snd kv))" by (simp add: list_all_iff)
  then obtain f where f: "\<forall>kv \<in> set kvs. scannable (\<lambda>_. True) (f kv) (psort (snd kv))" by metis
  have "scannable (\<lambda>_. True) (Max (f ` set kvs)) (psort (snd kv))" if kv: "kv \<in> set kvs" for kv
  proof (rule default_reader.scan_json_text_mono)
    show "scannable (\<lambda>_. True) (f kv) (psort (snd kv))" using f kv by blast
    show "f kv \<le> Max (f ` set kvs)" using kv by simp
  qed
  then show ?case
    using 2(3) by (intro exI [of _ "Suc (Max (f ` set kvs))"]) (auto simp add: list_all_iff comp_def)
qed simp_all

lemma canonical_json_plain: "plain_json v \<Longrightarrow> utf8_encode (json_text (psort v)) = Some (canonical_json h v)"
  by (auto simp add: plain_json_def canonical_json_def json_dumps_def)

lemma canonical_json_inject:
  assumes "plain_json v" "plain_json v'" "canonical_json h v = canonical_json h v'" shows "psort v = psort v'"
proof -
  have same: "json_text (psort v) = json_text (psort v')"
    using canonical_json_plain [OF assms(1), of h] canonical_json_plain [OF assms(2), of h] assms(3) utf8_decode_encode
    by (metis option.inject)
  obtain d d' where d: "scannable (\<lambda>_. True) d (psort v)" "scannable (\<lambda>_. True) d' (psort v')"
    using plain_scannable assms(1,2) unfolding plain_json_def by blast
  have "json_loads default_hooks (max d d') (json_text (psort v)) = Inr (psort v)"
    by (rule default_reader.json_loads_text [OF d(1)]) (rule max.cobounded1)
  moreover have "json_loads default_hooks (max d d') (json_text (psort v')) = Inr (psort v')"
    by (rule default_reader.json_loads_text [OF d(2)]) (rule max.cobounded2)
  ultimately show ?thesis unfolding same by (metis sum.inject(2))
qed

lemma action_envelope_sorted:
  "psort (action_envelope name args target revision) = PDict [(str ''args'', psort (PDict args)), (str ''name'', PStr name),
     (str ''snapshot_revision'', PStr revision), (str ''target'', PStr target)]"
  by (simp add: action_envelope_def str_def)

lemma action_envelope_inject:
  assumes "psort (action_envelope name args target revision) = psort (action_envelope name' args' target' revision')"
  shows "name = name' \<and> psort (PDict args) = psort (PDict args') \<and> target = target' \<and> revision = revision'"
  using assms unfolding action_envelope_sorted by simp

text \<open>Two plain actions with one digest are the same action, or their texts collide under SHA-256.\<close>

lemma digest_action_binds:
  assumes "plain_json (action_envelope name args target revision)" "plain_json (action_envelope name' args' target' revision')"
    and "digest_action h name args target revision = digest_action h name' args' target' revision'"
  shows "(name = name' \<and> psort (PDict args) = psort (PDict args') \<and> target = target' \<and> revision = revision')
    \<or> (canonical_json h (action_envelope name args target revision) \<noteq> canonical_json h (action_envelope name' args' target' revision')
       \<and> sha256 (canonical_json h (action_envelope name args target revision))
         = sha256 (canonical_json h (action_envelope name' args' target' revision')))"
proof -
  let ?v = "action_envelope name args target revision" and ?v' = "action_envelope name' args' target' revision'"
  have same: "sha256 (canonical_json h ?v) = sha256 (canonical_json h ?v')"
    using assms(3) unfolding digest_action_def hexdigest_inject .
  show ?thesis
  proof (cases "canonical_json h ?v = canonical_json h ?v'")
    case True
    from action_envelope_inject [OF canonical_json_inject [OF assms(1,2) True]] show ?thesis ..
  next
    case False
    with same show ?thesis by blast
  qed
qed

text \<open>C7: No effect beyond the machine without a confirmation of it. Whatever the name and the arguments, an action
  that resolves to an external mutation, to destruction or to a change of the configuration (such as a
  slash command of the model that is not known to be read-only) is allowed only with a current confirmation at
  action time, whose digest is the digest of this name, these arguments, this target and this revision. And
  the digest binds them: let both actions be plain (texts, integers, truth values, lists and dictionaries with
  distinct keys, all encodable); then a confirmation with the digest of another action is one of the same name,
  target and revision and of arguments that differ at most in the order of keys, unless the texts of the two
  actions are an explicit collision of SHA-256.\<close>

theorem mutation_needs_confirmation:
  assumes "ra_effect_class (resolve_action h u name args cwd revision) \<in> {EC_EXTERNAL_MUTATION, EC_DESTRUCTIVE, EC_CONFIGURATION}"
    and "pd_disposition (evaluate_action (resolve_action h u name args cwd revision) grant confirmation now auto_approve) = PD_ALLOW"
  defines "target \<equiv> ra_target (resolve_action h u name args cwd revision)"
  shows "\<exists>c. confirmation = Some c \<and> cr_confirmation_mode c = CM_ACTION_TIME
    \<and> cr_action_digest c = digest_action h name args target revision
    \<and> float_le (cr_confirmed_at c) now \<and> float_less now (cr_expires_at c)
    \<and> (plain_json (action_envelope name args target revision) \<and> plain_json (action_envelope name' args' target' revision')
        \<and> cr_action_digest c = digest_action h name' args' target' revision' \<longrightarrow>
        (name = name' \<and> psort (PDict args) = psort (PDict args') \<and> target = target' \<and> revision = revision')
        \<or> (canonical_json h (action_envelope name args target revision) \<noteq> canonical_json h (action_envelope name' args' target' revision')
           \<and> sha256 (canonical_json h (action_envelope name args target revision))
             = sha256 (canonical_json h (action_envelope name' args' target' revision'))))"
proof -
  let ?a = "resolve_action h u name args cwd revision"
  have "cp_curated (policy_for_action name)" using assms(2) by (simp add: allowed_iff resolve_action_parts)
  from resolved_protected [OF this assms(1)] have "valid_confirmation ?a confirmation now" using assms(2) by (simp add: allowed_iff)
  then obtain c where c: "confirmation = Some c" "cr_confirmation_mode c = CM_ACTION_TIME"
    "cr_action_digest c = digest_action h name args target revision"
    "float_le (cr_confirmed_at c) now" "float_less now (cr_expires_at c)"
    using resolve_action_parts(2) by (auto simp add: valid_confirmation_Some target_def)
  show ?thesis using c digest_action_binds [of name args target revision name' args' target' revision' h] by (intro exI [of _ c]) simp
qed

section \<open>Unknown commands and tools\<close>

definition listed_commands :: "string list" where
  "listed_commands = SAFE_SESSION_COMMANDS @ [''/read'', ''/ls'', ''/cwd'', ''/google''] @ map fst READ_ONLY_INSPECTION_ARGS
     @ [''/intelligence'', ''/intel'', ''/intelagence'', ''/kernel'', ''/memory''] @ EMPTY_ARG_TOGGLES
     @ [''/agent'', ''/worktree'', ''/ship''] @ SAFE_SESSION_STATUS_COMMANDS @ [''/x-account'', ''/config'', ''/credentials'', ''/plugins'']"

lemma unlisted_command:
  assumes "\<not> among (session_alias (fst (normalize_session_command u line))) listed_commands"
  shows "session_command_requires_approval u line"
proof -
  obtain command arg where norm: "normalize_session_command u line = (command, arg)" by fastforce
  let ?c = "session_alias command"
  have "find (\<lambda>(c, _). str c = ?c) READ_ONLY_INSPECTION_ARGS = None"
    using assms norm by (force simp add: find_None_iff listed_commands_def among_def)
  then show ?thesis
    using assms norm unfolding listed_commands_def
    by (simp add: session_command_requires_approval_def Let_def among_def image_Un)
qed

text \<open>C18: What is not known is refused or protected. The policy of every name is sound (a tool that changes state,
  sends data out or reads credentials needs approval, only destructive tools have the destructive
  capability, only pure reads may be retried) or it is the policy of unknown tools, under which no grant,
  confirmation or mode ever allows the action; and a slash command outside the lists of the code needs approval.\<close>

theorem unknown_is_protected:
  "((policy_sound (policy_for_action name) \<and> name \<in> str ` fst ` set CURATED_TOOL_POLICIES)
     \<or> (policy_for_action name = unclassified_policy
        \<and> (\<forall>h u args cwd revision grant confirmation now auto_approve.
             pd_disposition (evaluate_action (resolve_action h u name args cwd revision) grant confirmation now auto_approve) = PD_DENY)))
   \<and> (among (session_alias (fst (normalize_session_command u line))) listed_commands \<or> session_command_requires_approval u line)"
proof (rule conjI)
  show "among (session_alias (fst (normalize_session_command u line))) listed_commands \<or> session_command_requires_approval u line"
    using unlisted_command by blast
  show "(policy_sound (policy_for_action name) \<and> name \<in> str ` fst ` set CURATED_TOOL_POLICIES)
     \<or> (policy_for_action name = unclassified_policy
        \<and> (\<forall>h u args cwd revision grant confirmation now auto_approve.
             pd_disposition (evaluate_action (resolve_action h u name args cwd revision) grant confirmation now auto_approve) = PD_DENY))"
  proof (cases rule: policy_cases [of name])
    case (listed key)
    then show ?thesis by blast
  next
    case unlisted
    then show ?thesis by (simp add: evaluate_action_def decide_def resolve_action_parts Let_def unclassified_policy_def)
  qed
qed

section \<open>The theorems at one action\<close>

text \<open>A click in the browser, granted and confirmed.\<close>

definition demo_host :: host where
  "demo_host = \<lparr>resolve_path = (\<lambda>_ _. None), resolve_cwd = id, split_url = (\<lambda>_. None), py_text = (\<lambda>_. []), int_text = (\<lambda>_. []),
     canonical_text = (\<lambda>_. [])\<rparr>"

definition demo_click :: ResolvedAction where
  "demo_click = resolve_action demo_host ascii_unicode (str ''cobalt_click'') [] [] []"

definition demo_consent :: ConsentGrant where
  "demo_consent = \<lparr>cg_grant_id = str ''g'', cg_capability_mask = -1, cg_allowed_actions = {ra_name demo_click},
     cg_allowed_targets = {ra_target demo_click}, cg_expires_at = Finite 100, cg_maximum_action_count = 1,
     cg_issued_at = Finite 0, cg_source = []\<rparr>"

definition demo_confirmation :: ConfirmationReceipt where
  "demo_confirmation = \<lparr>cr_receipt_id = str ''c'', cr_action_digest = ra_action_digest demo_click,
     cr_confirmation_mode = CM_ACTION_TIME, cr_confirmed_at = Finite 10, cr_expires_at = Finite 50\<rparr>"

lemma click_policy: "policy_for_action (str ''cobalt_click'') = (external_policy [])\<lparr>cp_maximum_risk := ''medium''\<rparr>"
  by code_simp

lemma click_parts:
  "ra_effect_class demo_click = EC_EXTERNAL_MUTATION" "ra_confirmation_mode demo_click = CM_ACTION_TIME"
  "ra_target demo_click = str ''external-account:default''" "ra_name demo_click = str ''cobalt_click''"
proof -
  have names: "\<not> among (str ''cobalt_click'') [''session_command'', ''session_slash'']" "\<not> among (str ''cobalt_click'') WORKSPACE_PATH_ARGUMENTS"
    by (simp_all add: among_def WORKSPACE_PATH_ARGUMENTS_def)
  have "py_strip (str ''default'') = str ''default''" by (rule py_strip_words) (simp add: str_def py_space_def)
  then have target: "target_for demo_host ascii_unicode (str ''cobalt_click'') [] [] TS_EXTERNAL_ACCOUNT = str ''external-account:default''"
    using names by (simp add: target_for_def text_or_def or_star_def map_filter_simps) (simp add: str_def)
  then show "ra_effect_class demo_click = EC_EXTERNAL_MUTATION" "ra_confirmation_mode demo_click = CM_ACTION_TIME"
    "ra_target demo_click = str ''external-account:default''" "ra_name demo_click = str ''cobalt_click''"
    by (simp_all add: demo_click_def resolve_action_def resolve_session_kept [OF names(1)] resolve_local_def static_action_def click_policy
        external_policy_def curated_policy_def Let_def)
qed

lemma click_allowed: "pd_disposition (evaluate_action demo_click (Some demo_consent) (Some demo_confirmation) (Finite 20) False) = PD_ALLOW"
proof -
  have "\<not> unresolved (str ''external-account:default'')" by code_simp
  then show ?thesis
    by (simp add: allowed_iff click_parts click_policy external_policy_def curated_policy_def grant_permits_iff demo_consent_def
        valid_confirmation_def demo_confirmation_def float_le_def)
qed

lemma evaluate_allows_iff_witness:
  "ra_confirmation_mode demo_click = CM_ACTION_TIME
     \<and> (\<exists>c. Some demo_confirmation = Some c \<and> cr_action_digest c = ra_action_digest demo_click
          \<and> float_le (cr_confirmed_at c) (Finite 20) \<and> float_less (Finite 20) (cr_expires_at c))"
  using iffD1 [OF evaluate_allows_iff click_allowed] click_parts(2) by auto

lemma encodable_iff: "(\<exists>bs. utf8_encode s = Some bs) \<longleftrightarrow> list_all scalar s"
  by (simp add: utf8_encode_def)

lemma demo_plain: "plain_json (action_envelope (str ''cobalt_click'') [] (str ''external-account:default'') [])"
proof -
  have texts: "list_all scalar (str ''cobalt_click'')" "list_all scalar (str ''external-account:default'')"
    "list_all scalar (str ''args'')" "list_all scalar (str ''name'')" "list_all scalar (str ''target'')"
    "list_all scalar (str ''snapshot_revision'')" "list_all scalar []"
    by (simp_all add: str_def scalar_def surrogate_def)
  have "list_all scalar (json_text (psort (action_envelope (str ''cobalt_click'') [] (str ''external-account:default'') [])))"
    unfolding action_envelope_sorted using texts [THEN json_string_scalar] by (simp add: scalar_def surrogate_def)
  then show ?thesis unfolding plain_json_def encodable_iff by (simp add: action_envelope_def str_def)
qed

lemma mutation_needs_confirmation_witness:
  "\<exists>c. Some demo_confirmation = Some c \<and> cr_confirmation_mode c = CM_ACTION_TIME
     \<and> plain_json (action_envelope (str ''cobalt_click'') [] (ra_target demo_click) [])
     \<and> cr_action_digest c = digest_action demo_host (str ''cobalt_click'') [] (ra_target demo_click) []
     \<and> float_le (cr_confirmed_at c) (Finite 20) \<and> float_less (Finite 20) (cr_expires_at c)"
  using mutation_needs_confirmation [of demo_host ascii_unicode "str ''cobalt_click''" "[]" "[]" "[]" _ _ _ _
      "str ''cobalt_click''" "[]" "ra_target demo_click" "[]"] click_allowed click_parts(1,3) demo_plain
  unfolding demo_click_def [symmetric] by fastforce

end
