(* ===== verification/Samuel_Policy.thy ===== *)
theory Samuel_Policy
  imports Samuel_Engine
begin

text \<open>
  \<^verbatim>\<open>algo_cli/samuel_policy.py\<close>: the policy of a tool the model invokes at run time, and the tools a routed agent
  block may use. The shell classifiers and the tool map belong to \<^verbatim>\<open>tools.py\<close> and are arguments.
\<close>

section \<open>Tool groups\<close>

definition WRITE_TOOLS :: "pystr set" where
  "WRITE_TOOLS = str ` {''write_file'', ''edit_file'', ''batch_edit''}"

definition SHELL_TOOLS :: "pystr set" where
  "SHELL_TOOLS = str ` {''run_shell''}"

definition MUTATING_TOOLS :: "pystr set" where
  "MUTATING_TOOLS = str ` {''write_file'', ''edit_file'', ''batch_edit'', ''run_shell''}"

definition TOOL_GROUP_MAP :: "(string \<times> pystr set) list" where
  "TOOL_GROUP_MAP =
    [(''read'', str ` {''read_file'', ''read_pdf'', ''render_pdf_pages'', ''list_directory'', ''search_files'', ''git_status'', ''git_diff'',
        ''available_actions'', ''session_slash'', ''harness_stats'', ''harness_search'', ''harness_read'', ''model_show''}),
     (''web'', str ` {''web_search'', ''web_fetch'', ''x_search''}),
     (''decision'', str ` {''decision_status'', ''decision_decide''}),
     (''write'', WRITE_TOOLS),
     (''shell'', SHELL_TOOLS)]"

fun expand_tool_groups :: "pystr list \<Rightarrow> exn + pystr set" where
  "expand_tool_groups [] = Inr {}"
| "expand_tool_groups (g # gs) =
    (case find (\<lambda>(k, _). str k = g) TOOL_GROUP_MAP of
       None \<Rightarrow> Inl (KeyError ''tool_group'')
     | Some (_, tools) \<Rightarrow> rbind (expand_tool_groups gs) (\<lambda>rest. Inr (tools \<union> rest)))"

section \<open>Agent blocks\<close>

text \<open>The fields of a \<open>TaskRoute\<close> the policy reads.\<close>

record TaskRoute =
  tk_task_type :: pystr
  tk_recommended_mode :: pystr
  tk_allowed_tool_groups :: "pystr list"
  tk_risk :: pystr

record ToolPolicyDecision =
  tp_allowed_tools :: "pystr set"
  tp_denied_tools :: "pystr set"
  tp_approval_required :: "pystr set"
  tp_reasons :: "pystr list"

definition route_ceiling :: "TaskRoute \<Rightarrow> pystr set \<Rightarrow> exn + pystr set" where
  "route_ceiling route block_tools =
    (if tk_recommended_mode route \<noteq> str ''agent'' \<or> tk_allowed_tool_groups route = [] then Inr block_tools
     else expand_tool_groups (tk_allowed_tool_groups route))"

definition risk_denied :: "TaskRoute \<Rightarrow> pystr set \<Rightarrow> pystr set" where
  "risk_denied route allowed = (if tk_risk route = str ''high'' then allowed \<inter> MUTATING_TOOLS else {})"

definition task_denied :: "TaskRoute \<Rightarrow> pystr set \<Rightarrow> pystr set" where
  "task_denied route allowed =
    (if tk_task_type route = str ''review'' then allowed \<inter> MUTATING_TOOLS
     else if tk_task_type route = str ''research'' then allowed \<inter> WRITE_TOOLS else {})"

definition compute_policy :: "TaskRoute \<Rightarrow> pystr \<Rightarrow> pystr set \<Rightarrow> bool \<Rightarrow> bool \<Rightarrow> exn + ToolPolicyDecision" where
  "compute_policy route block_role block_tools safe_mode auto_mode =
    rbind (route_ceiling route block_tools) (\<lambda>ceiling.
    let allowed0 = block_tools \<inter> ceiling;
        allowed1 = allowed0 - risk_denied route allowed0;
        allowed = allowed1 - task_denied route allowed1;
        approval = (if tk_risk route = str ''medium'' \<and> \<not> auto_mode then allowed \<inter> MUTATING_TOOLS else {});
        reasons =
          (if block_tools - allowed0 \<noteq> {} then [str ''route tool groups restrict this block''] else [])
          @ (if risk_denied route allowed0 \<noteq> {} then [str ''high risk denies write and shell tools''] else [])
          @ (if task_denied route allowed1 \<noteq> {} then
               [if tk_task_type route = str ''review'' then str ''review tasks are read-only'' else str ''research tasks deny writes''] else [])
          @ (if approval \<noteq> {} then [str ''medium risk requires approval for mutating tools''] else [])
          @ (if safe_mode \<and> str ''run_shell'' \<in> allowed then [str ''safe mode remains active inside shell execution''] else []) in
    Inr \<lparr>tp_allowed_tools = allowed, tp_denied_tools = block_tools - allowed, tp_approval_required = approval,
      tp_reasons = (if reasons = [] then [block_role @ str '' block policy unchanged''] else reasons)\<rparr>)"

record ShellMutationDecision =
  sd_is_mutation :: bool
  sd_blocked :: bool
  sd_force_approval :: bool

text \<open>The reason text is present exactly with a mutation.\<close>

definition evaluate_shell_command :: "(pystr \<Rightarrow> bool) \<Rightarrow> pystr \<Rightarrow> bool \<Rightarrow> bool \<Rightarrow> ShellMutationDecision" where
  "evaluate_shell_command shell_mutates command requires_change safe_mode =
    (if \<not> requires_change then \<lparr>sd_is_mutation = False, sd_blocked = False, sd_force_approval = False\<rparr>
     else if \<not> shell_mutates command then \<lparr>sd_is_mutation = False, sd_blocked = False, sd_force_approval = False\<rparr>
     else \<lparr>sd_is_mutation = True, sd_blocked = safe_mode, sd_force_approval = \<not> safe_mode\<rparr>)"

definition requires_explicit_approval :: "pystr \<Rightarrow> ToolPolicyDecision \<Rightarrow> ShellMutationDecision \<Rightarrow> bool \<Rightarrow> bool" where
  "requires_explicit_approval tool_name block_policy shell_decision policy_enforced \<longleftrightarrow>
     sd_force_approval shell_decision \<or> policy_enforced \<and> tool_name \<in> tp_approval_required block_policy"

definition supports_mutation_audit :: "pystr set \<Rightarrow> bool" where
  "supports_mutation_audit block_tools \<longleftrightarrow> block_tools \<inter> MUTATING_TOOLS \<noteq> {}"

section \<open>Tools at run time\<close>

record RuntimeToolPolicyDecision =
  rt_tool_name :: pystr
  rt_action :: ResolvedAction
  rt_disposition :: PolicyDisposition
  rt_capability_mask :: int
  rt_capability_names :: "pystr list"
  rt_reasons :: "pystr list"
  rt_fired_rules :: "pystr list"
  rt_grant_id :: pystr
  rt_confirmation_receipt_id :: pystr

definition runtime_allowed :: "RuntimeToolPolicyDecision \<Rightarrow> bool" where
  "runtime_allowed d \<longleftrightarrow> rt_disposition d = PD_ALLOW"

definition runtime_eligible :: "RuntimeToolPolicyDecision \<Rightarrow> bool" where
  "runtime_eligible d \<longleftrightarrow> rt_disposition d \<in> {PD_ALLOW, PD_CONFIRM}"

definition evaluate_runtime_tool_policy ::
    "host \<Rightarrow> unicode \<Rightarrow> pystr set \<Rightarrow> (pystr \<Rightarrow> bool) \<Rightarrow> pystr \<Rightarrow> (pystr \<times> py) list \<Rightarrow> bool \<Rightarrow> pystr \<Rightarrow>
     ConsentGrant option \<Rightarrow> ConfirmationReceipt option \<Rightarrow> pyfloat \<Rightarrow> bool \<Rightarrow> RuntimeToolPolicyDecision" where
  "evaluate_runtime_tool_policy h u tool_map shell_is_dangerous tool_name args safe_mode cwd grant confirmation now auto_approve =
    (let action = resolve_action h u tool_name args cwd (str ''unversioned'');
         (disposition, reasons, fired) =
           (if tool_name \<notin> tool_map
            then (PD_DENY, [str ''unknown runtime tool: '' @ tool_name], [str ''tool_registered''])
            else if tool_name = str ''run_shell'' \<and> safe_mode \<and> shell_is_dangerous (text_or (py_text h) args [''command''] '''')
            then (PD_DENY, [str ''safe mode blocks destructive commands and shell mutations''], [str ''safe_shell''])
            else
              let decision = evaluate_action action grant confirmation now auto_approve in
              (pd_disposition decision, [pd_reason decision],
               if pd_disposition decision \<noteq> PD_ALLOW then [str ''scoped_authority''] else [])) in
     \<lparr>rt_tool_name = tool_name, rt_action = action, rt_disposition = disposition,
      rt_capability_mask = ra_capability_mask action,
      rt_capability_names = mask_names (ra_capability_mask action), rt_reasons = reasons, rt_fired_rules = fired,
      rt_grant_id = (case grant of Some g \<Rightarrow> cg_grant_id g | None \<Rightarrow> []),
      rt_confirmation_receipt_id = (case confirmation of Some c \<Rightarrow> cr_receipt_id c | None \<Rightarrow> [])\<rparr>)"

section \<open>Bounds of a block\<close>

lemma write_mutating: "WRITE_TOOLS \<subseteq> MUTATING_TOOLS" "SHELL_TOOLS \<subseteq> MUTATING_TOOLS"
  by (auto simp add: WRITE_TOOLS_def MUTATING_TOOLS_def SHELL_TOOLS_def)

lemma compute_policy_bounds:
  assumes "compute_policy route role tools safe_mode auto_mode = Inr d"
  shows "tp_allowed_tools d \<subseteq> tools" "tp_denied_tools d = tools - tp_allowed_tools d"
    and "tp_approval_required d \<subseteq> tp_allowed_tools d \<inter> MUTATING_TOOLS"
    and "\<exists>ceiling. route_ceiling route tools = Inr ceiling \<and> tp_allowed_tools d \<subseteq> ceiling"
    and "tk_risk route = str ''high'' \<or> tk_task_type route = str ''review'' \<Longrightarrow> tp_allowed_tools d \<inter> MUTATING_TOOLS = {}"
    and "tk_task_type route = str ''research'' \<Longrightarrow> tp_allowed_tools d \<inter> WRITE_TOOLS = {}"
    and "tk_risk route = str ''medium'' \<Longrightarrow> \<not> auto_mode \<Longrightarrow> tp_approval_required d = tp_allowed_tools d \<inter> MUTATING_TOOLS"
proof -
  obtain ceiling where ceiling: "route_ceiling route tools = Inr ceiling"
    using assms by (auto simp add: compute_policy_def)
  define allowed1 where "allowed1 = tools \<inter> ceiling - risk_denied route (tools \<inter> ceiling)"
  define allowed where "allowed = allowed1 - task_denied route allowed1"
  have d: "tp_allowed_tools d = allowed" "tp_denied_tools d = tools - allowed"
    "tp_approval_required d = (if tk_risk route = str ''medium'' \<and> \<not> auto_mode then allowed \<inter> MUTATING_TOOLS else {})"
    using assms by (auto simp add: compute_policy_def Let_def ceiling allowed_def allowed1_def)
  have sub: "allowed \<subseteq> tools \<inter> ceiling" by (auto simp add: allowed_def allowed1_def)
  then show "tp_allowed_tools d \<subseteq> tools" "tp_denied_tools d = tools - tp_allowed_tools d"
    "\<exists>ceiling. route_ceiling route tools = Inr ceiling \<and> tp_allowed_tools d \<subseteq> ceiling"
    "tp_approval_required d \<subseteq> tp_allowed_tools d \<inter> MUTATING_TOOLS"
    using ceiling d by auto
  show "tp_allowed_tools d \<inter> MUTATING_TOOLS = {}" if "tk_risk route = str ''high'' \<or> tk_task_type route = str ''review''"
    using that by (auto simp add: d(1) allowed_def allowed1_def risk_denied_def task_denied_def)
  show "tp_allowed_tools d \<inter> WRITE_TOOLS = {}" if "tk_task_type route = str ''research''"
    using that by (auto simp add: d(1) allowed_def task_denied_def)
  show "tp_approval_required d = tp_allowed_tools d \<inter> MUTATING_TOOLS" if "tk_risk route = str ''medium''" "\<not> auto_mode"
    using that d by simp
qed

lemma runtime_allowed_D:
  assumes "runtime_allowed (evaluate_runtime_tool_policy h u tool_map dangerous name args safe_mode cwd grant confirmation now auto_approve)"
  shows "name \<in> tool_map"
    and "\<not> (name = str ''run_shell'' \<and> safe_mode \<and> dangerous (text_or (py_text h) args [''command''] ''''))"
    and "pd_disposition (evaluate_action (resolve_action h u name args cwd (str ''unversioned'')) grant confirmation now auto_approve) = PD_ALLOW"
  using assms by (auto simp add: runtime_allowed_def evaluate_runtime_tool_policy_def Let_def split: if_splits)

end
