(* ===== verification/Ada_Store.thy ===== *)
theory Ada_Store
  imports Py_Words "HOL-Library.Sublist"
begin

text \<open>
  \<^verbatim>\<open>algo_cli/ada_private_event_store.py\<close>: the private event store, an append-only file of JSON lines with bounds
  on records, bytes and age.

  A line of the file is modelled by what \<open>_decode_line\<close> makes of it, and by its length in bytes with the line
  feed, if it has one; only the last line of a file may lack it. The encoder enters through the length of the
  line it writes for an event, and float subtraction through \<open>cutoff\<close>. Every use of the file gets the outcomes
  of the operating system as \<open>store_io\<close>.
\<close>

section \<open>Policy and lines\<close>

record RetentionPolicy =
  max_records :: int
  max_bytes :: int
  max_age_seconds :: pyfloat

definition RetentionPolicy_post_init :: "RetentionPolicy \<Rightarrow> exn + unit" where
  "RetentionPolicy_post_init p =
    rbind (require (1 \<le> max_records p) (ValueError ''max_records'')) (\<lambda>_.
    rbind (require (1 \<le> max_bytes p) (ValueError ''max_bytes'')) (\<lambda>_.
    require (isfinite (max_age_seconds p) \<and> float_less (Finite 0) (max_age_seconds p)) (ValueError ''max_age_seconds'')))"

record StoredEvent =
  se_stored_at :: pyfloat
  se_event :: py

datatype line = Blank | Malformed | Decoded StoredEvent

record store_file =
  sf_lines :: "(line \<times> int) list"
  sf_open_tail :: bool

text \<open>A file that does not exist is \<open>None\<close>.\<close>

type_synonym event_file = "store_file option"

definition file_lines :: "event_file \<Rightarrow> (line \<times> int) list" where
  "file_lines file = (case file of None \<Rightarrow> [] | Some f \<Rightarrow> sf_lines f)"

definition file_size :: "event_file \<Rightarrow> int" where
  "file_size file = sum_list (map snd (file_lines file))"

text \<open>\<open>encode_size\<close> is the length of the line \<open>_encode_event\<close> gives, or the exception it raises.\<close>

record store_params =
  encode_size :: "StoredEvent \<Rightarrow> exn + int"
  cutoff :: "pyfloat \<Rightarrow> pyfloat \<Rightarrow> pyfloat"

section \<open>Scanning\<close>

record ScanResult =
  sc_retained :: "(StoredEvent \<times> int) list"
  sc_file_bytes :: int
  sc_valid_records :: nat
  sc_malformed_records :: nat
  sc_expired_records :: nat
  sc_dropped_for_bounds :: nat
  sc_retained_bytes :: int

definition empty_scan :: ScanResult where
  "empty_scan = \<lparr>sc_retained = [], sc_file_bytes = 0, sc_valid_records = 0, sc_malformed_records = 0, sc_expired_records = 0,
     sc_dropped_for_bounds = 0, sc_retained_bytes = 0\<rparr>"

definition dropped_records :: "ScanResult \<Rightarrow> nat" where
  "dropped_records r = sc_expired_records r + sc_dropped_for_bounds r"

definition compaction_needed :: "ScanResult \<Rightarrow> bool" where
  "compaction_needed r \<longleftrightarrow> 0 < sc_malformed_records r \<or> 0 < dropped_records r \<or> sc_file_bytes r \<noteq> sc_retained_bytes r"

text \<open>The loop that drops the oldest records; the last argument counts the bytes retained.\<close>

fun trim :: "RetentionPolicy \<Rightarrow> (StoredEvent \<times> int) list \<Rightarrow> int \<Rightarrow> (StoredEvent \<times> int) list \<times> int" where
  "trim p [] bytes = ([], bytes)"
| "trim p (x # xs) bytes =
    (if max_records p < int (length (x # xs)) \<or> max_bytes p < bytes then trim p xs (bytes - snd x) else (x # xs, bytes))"

definition expired :: "store_params \<Rightarrow> RetentionPolicy \<Rightarrow> pyfloat \<Rightarrow> StoredEvent \<Rightarrow> bool" where
  "expired ps p now stored \<longleftrightarrow> float_less (se_stored_at stored) (cutoff ps now (max_age_seconds p))"

definition malformed :: "ScanResult \<Rightarrow> ScanResult" where
  "malformed r = r\<lparr>sc_malformed_records := Suc (sc_malformed_records r)\<rparr>"

definition scan_line :: "store_params \<Rightarrow> RetentionPolicy \<Rightarrow> pyfloat \<Rightarrow> line \<times> int \<Rightarrow> ScanResult \<Rightarrow> ScanResult" where
  "scan_line ps p now l r =
    (case fst l of
       Blank \<Rightarrow> r
     | Malformed \<Rightarrow> malformed r
     | Decoded stored \<Rightarrow>
         (case encode_size ps stored of
            Inl _ \<Rightarrow> malformed r
          | Inr n \<Rightarrow>
              let r = r\<lparr>sc_valid_records := Suc (sc_valid_records r)\<rparr> in
              if expired ps p now stored then r\<lparr>sc_expired_records := Suc (sc_expired_records r)\<rparr>
              else
                (case trim p (sc_retained r @ [(stored, n)]) (sc_retained_bytes r + n) of
                   (kept, bytes) \<Rightarrow>
                     r\<lparr>sc_retained := kept, sc_retained_bytes := bytes,
                       sc_dropped_for_bounds := sc_dropped_for_bounds r + (Suc (length (sc_retained r)) - length kept)\<rparr>)))"

definition scan :: "store_params \<Rightarrow> RetentionPolicy \<Rightarrow> pyfloat \<Rightarrow> event_file \<Rightarrow> ScanResult" where
  "scan ps p now file =
    (case file of None \<Rightarrow> empty_scan
     | Some _ \<Rightarrow> fold (scan_line ps p now) (file_lines file) (empty_scan\<lparr>sc_file_bytes := file_size file\<rparr>))"

section \<open>Operations\<close>

record MaintenanceResult =
  mr_stored :: bool
  mr_compacted :: bool
  mr_retained_records :: nat
  mr_retained_bytes :: int
  mr_file_bytes :: int
  mr_dropped_records :: nat
  mr_malformed_records :: nat
  mr_retention_satisfied :: bool
  mr_error_type :: "exn option"

definition maintenance_result ::
    "RetentionPolicy \<Rightarrow> event_file \<Rightarrow> ScanResult \<Rightarrow> bool \<Rightarrow> bool \<Rightarrow> exn option \<Rightarrow> MaintenanceResult" where
  "maintenance_result p file r stored compacted error_type =
    \<lparr>mr_stored = stored, mr_compacted = compacted, mr_retained_records = length (sc_retained r),
     mr_retained_bytes = sc_retained_bytes r, mr_file_bytes = (if compacted then sc_retained_bytes r else file_size file),
     mr_dropped_records = dropped_records r, mr_malformed_records = sc_malformed_records r,
     mr_retention_satisfied = (error_type = None \<and> int (length (sc_retained r)) \<le> max_records p
       \<and> sc_retained_bytes r \<le> max_bytes p \<and> (compacted \<or> \<not> compaction_needed r)),
     mr_error_type = error_type\<rparr>"

text \<open>
  The outcomes of one use of the file: taking the lock (with the checks of the paths), writing, reading, and
  replacing the file. A write that fails may have written any number of bytes of its payload before.
\<close>

datatype write_outcome = Written | Torn exn int

record store_io =
  si_lock :: "exn + unit"
  si_write :: write_outcome
  si_scan :: "exn + unit"
  si_replace :: "exn + unit"

definition store_clock :: "pyfloat \<Rightarrow> exn + unit" where
  "store_clock now = require (isfinite now \<and> \<not> float_less now (Finite 0)) (ValueError ''clock'')"

text \<open>\<open>close_tail\<close> is the line feed that delimits an open last line.\<close>

definition close_tail :: "store_file \<Rightarrow> store_file" where
  "close_tail f =
    (let ls = sf_lines f in
     \<lparr>sf_lines = (if ls = [] then [] else butlast ls @ [(fst (last ls), snd (last ls) + 1)]), sf_open_tail = False\<rparr>)"

text \<open>
  The first \<open>k\<close> bytes of the payload, a line feed where one is needed and the line of \<open>n\<close> bytes. A proper part of a
  line is malformed, unless only its line feed is missing.
\<close>

definition append_bytes :: "StoredEvent \<Rightarrow> int \<Rightarrow> int \<Rightarrow> event_file \<Rightarrow> event_file" where
  "append_bytes stored n k file =
    (let f = (case file of None \<Rightarrow> \<lparr>sf_lines = [], sf_open_tail = False\<rparr> | Some f \<Rightarrow> f);
         rest = (if sf_open_tail f then k - 1 else k);
         f = (if sf_open_tail f \<and> 0 < k then close_tail f else f) in
     Some (if rest \<le> 0 then f
           else if n \<le> rest then \<lparr>sf_lines = sf_lines f @ [(Decoded stored, n)], sf_open_tail = False\<rparr>
           else \<lparr>sf_lines = sf_lines f @ [(if rest = n - 1 then Decoded stored else Malformed, rest)], sf_open_tail = True\<rparr>))"

definition compacted_file :: "ScanResult \<Rightarrow> event_file" where
  "compacted_file r = Some \<lparr>sf_lines = map (\<lambda>(stored, n). (Decoded stored, n)) (sc_retained r), sf_open_tail = False\<rparr>"

definition store_append ::
    "store_params \<Rightarrow> RetentionPolicy \<Rightarrow> store_io \<Rightarrow> pyfloat \<Rightarrow> py \<Rightarrow> event_file \<Rightarrow> event_file \<times> (exn + MaintenanceResult)" where
  "store_append ps p io now event file =
    (let stored = \<lparr>se_stored_at = now, se_event = event\<rparr> in
     case rbind (store_clock now) (\<lambda>_.
          rbind (encode_size ps stored) (\<lambda>n.
          rbind (require (n \<le> max_bytes p) (EventTooLargeError ''max_bytes'')) (\<lambda>_.
          rbind (si_lock io) (\<lambda>_. Inr n)))) of
       Inl e \<Rightarrow> (file, Inl e)
     | Inr n \<Rightarrow>
        (case si_write io of
           Torn e k \<Rightarrow> (append_bytes stored n k file, Inl e)
         | Written \<Rightarrow>
            let file = append_bytes stored n (n + 1) file; r = scan ps p now file in
            (case si_scan io of
               Inl e \<Rightarrow> (file, Inl e)
             | Inr _ \<Rightarrow>
                 if \<not> compaction_needed r then (file, Inr (maintenance_result p file r True False None))
                 else
                   (case si_replace io of
                      Inl e \<Rightarrow> (file, Inr (maintenance_result p file r True False (Some e)))
                    | Inr _ \<Rightarrow> (compacted_file r, Inr (maintenance_result p file r True True None))))))"

definition store_compact ::
    "store_params \<Rightarrow> RetentionPolicy \<Rightarrow> store_io \<Rightarrow> pyfloat \<Rightarrow> event_file \<Rightarrow> event_file \<times> (exn + MaintenanceResult)" where
  "store_compact ps p io now file =
    (case rbind (store_clock now) (\<lambda>_. rbind (si_lock io) (\<lambda>_. si_scan io)) of
       Inl e \<Rightarrow> (file, Inl e)
     | Inr _ \<Rightarrow>
        let r = scan ps p now file in
        if \<not> compaction_needed r then (file, Inr (maintenance_result p file r False False None))
        else
          (case si_replace io of
             Inl e \<Rightarrow> (file, Inl e)
           | Inr _ \<Rightarrow> (compacted_file r, Inr (maintenance_result p file r False True None))))"

definition read_records ::
    "store_params \<Rightarrow> RetentionPolicy \<Rightarrow> store_io \<Rightarrow> pyfloat \<Rightarrow> int option \<Rightarrow> event_file \<Rightarrow> exn + StoredEvent list" where
  "read_records ps p io now limit file =
    rbind (require (case limit of None \<Rightarrow> True | Some k \<Rightarrow> 0 \<le> k) (ValueError ''limit'')) (\<lambda>_.
    if limit = Some 0 then Inr []
    else
      rbind (store_clock now) (\<lambda>_. rbind (si_lock io) (\<lambda>_. rbind (si_scan io) (\<lambda>_.
      let records = map fst (sc_retained (scan ps p now file)) in
      Inr (case limit of None \<Rightarrow> records | Some k \<Rightarrow> drop (length records - nat k) records)))))"

definition read_events ::
    "store_params \<Rightarrow> RetentionPolicy \<Rightarrow> store_io \<Rightarrow> pyfloat \<Rightarrow> int option \<Rightarrow> event_file \<Rightarrow> exn + py list" where
  "read_events ps p io now limit file = rbind (read_records ps p io now limit file) (\<lambda>records. Inr (map se_event records))"

end
