(* ===== verification/Ada_Retention.thy ===== *)
theory Ada_Retention
  imports Ada_Store
begin

text \<open>
  What the private event store keeps. A scan retains the longest suffix of the valid, unexpired records that
  is within the bounds; an append adds exactly its event, or nothing, whatever fails; compaction changes
  nothing a reader sees.
\<close>

section \<open>The newest records within the bounds\<close>

definition in_bounds :: "RetentionPolicy \<Rightarrow> (StoredEvent \<times> int) list \<Rightarrow> bool" where
  "in_bounds p xs \<longleftrightarrow> int (length xs) \<le> max_records p \<and> sum_list (map snd xs) \<le> max_bytes p"

definition newest_within :: "RetentionPolicy \<Rightarrow> (StoredEvent \<times> int) list \<Rightarrow> (StoredEvent \<times> int) list \<Rightarrow> bool" where
  "newest_within p xs kept \<longleftrightarrow> suffix kept xs \<and> in_bounds p kept \<and> (\<forall>ys. suffix ys xs \<longrightarrow> in_bounds p ys \<longrightarrow> suffix ys kept)"

definition sized :: "store_params \<Rightarrow> (StoredEvent \<times> int) list \<Rightarrow> bool" where
  "sized ps xs \<longleftrightarrow> (\<forall>(e, n) \<in> set xs. encode_size ps e = Inr n)"

definition sizes_positive :: "store_params \<Rightarrow> bool" where
  "sizes_positive ps \<longleftrightarrow> (\<forall>e n. encode_size ps e = Inr n \<longrightarrow> 0 < n)"

definition policy_ok :: "RetentionPolicy \<Rightarrow> bool" where
  "policy_ok p \<longleftrightarrow> RetentionPolicy_post_init p = Inr ()"

text \<open>The records in the file, and those that have not expired.\<close>

fun recorded_line :: "store_params \<Rightarrow> line \<times> int \<Rightarrow> (StoredEvent \<times> int) list" where
  "recorded_line ps (Decoded stored, _) = (case encode_size ps stored of Inl _ \<Rightarrow> [] | Inr n \<Rightarrow> [(stored, n)])"
| "recorded_line ps _ = []"

definition recorded :: "store_params \<Rightarrow> event_file \<Rightarrow> (StoredEvent \<times> int) list" where
  "recorded ps file = concat (map (recorded_line ps) (file_lines file))"

definition live :: "store_params \<Rightarrow> RetentionPolicy \<Rightarrow> pyfloat \<Rightarrow> (StoredEvent \<times> int) list \<Rightarrow> (StoredEvent \<times> int) list" where
  "live ps p now xs = filter (\<lambda>x. \<not> expired ps p now (fst x)) xs"

lemma in_bounds_suffix: "sized ps xs \<Longrightarrow> sizes_positive ps \<Longrightarrow> in_bounds p xs \<Longrightarrow> suffix ys xs \<Longrightarrow> in_bounds p ys"
proof -
  assume "sized ps xs" "sizes_positive ps" "in_bounds p xs" "suffix ys xs"
  then obtain zs where xs: "xs = zs @ ys" by (auto simp add: suffix_def)
  have "0 \<le> sum_list (map snd zs)"
    using \<open>sized ps xs\<close> \<open>sizes_positive ps\<close> by (intro sum_list_nonneg) (force simp add: xs sized_def sizes_positive_def)
  then show ?thesis using \<open>in_bounds p xs\<close> by (simp add: in_bounds_def xs)
qed

lemma sized_suffix: "sized ps xs \<Longrightarrow> suffix ys xs \<Longrightarrow> sized ps ys"
  by (auto simp add: sized_def suffix_def)

lemma sized_recorded: "sized ps (recorded ps file)"
proof -
  have "sized ps (recorded_line ps l)" for l
    by (cases "(ps, l)" rule: recorded_line.cases) (auto simp add: sized_def split: sum.splits)
  then show ?thesis by (auto simp add: sized_def recorded_def)
qed

lemma sized_live: "sized ps xs \<Longrightarrow> sized ps (live ps p now xs)"
  by (auto simp add: sized_def live_def)

lemma newest_within_unique: "newest_within p xs a \<Longrightarrow> newest_within p xs b \<Longrightarrow> a = b"
  by (auto simp add: newest_within_def intro: suffix_order.antisym)

lemma trim_newest:
  assumes "policy_ok p" "bytes = sum_list (map snd xs)" "trim p xs bytes = (kept, left)"
  shows "newest_within p xs kept \<and> left = sum_list (map snd kept)"
  using assms(2,3)
proof (induction xs arbitrary: bytes)
  case Nil
  then show ?case using assms(1)
    by (auto simp add: newest_within_def in_bounds_def policy_ok_def RetentionPolicy_post_init_def accepts)
next
  case (Cons x xs)
  show ?case
  proof (cases "in_bounds p (x # xs)")
    case True
    then show ?thesis using Cons.prems by (auto simp add: newest_within_def in_bounds_def)
  next
    case False
    then have "trim p xs (bytes - snd x) = (kept, left)" using Cons.prems by (auto simp add: in_bounds_def split: if_splits)
    from Cons.IH [OF _ this] show ?thesis
      using False Cons.prems(1) by (auto simp add: newest_within_def suffix_Cons)
  qed
qed

text \<open>Trimming after every record keeps what trimming once at the end would.\<close>

lemma newest_within_snoc:
  assumes "sized ps xs" "sizes_positive ps" "encode_size ps (fst x) = Inr (snd x)"
    and "newest_within p xs kept" "newest_within p (kept @ [x]) later"
  shows "newest_within p (xs @ [x]) later"
  unfolding newest_within_def
proof (intro conjI allI impI)
  have kept: "suffix kept xs" using assms(4) by (simp add: newest_within_def)
  show "suffix later (xs @ [x])"
    using assms(5) kept by (auto simp add: newest_within_def suffix_snoc intro: suffix_order.trans)
  show "in_bounds p later" using assms(5) by (simp add: newest_within_def)
  fix ys assume ys: "suffix ys (xs @ [x])" "in_bounds p ys"
  show "suffix ys later"
  proof (cases ys rule: rev_cases)
    case (snoc zs y)
    then have "y = x" "suffix zs xs" using ys(1) by (simp_all add: suffix_snoc)
    have "sized ps ys" using assms(1,3) ys(1) by (intro sized_suffix [OF _ ys(1)]) (auto simp add: sized_def)
    have "0 < snd x" using assms(2,3) by (simp add: sizes_positive_def)
    then have "in_bounds p zs" using ys(2) by (simp add: in_bounds_def snoc \<open>y = x\<close>)
    then have "suffix zs kept" using assms(4) \<open>suffix zs xs\<close> by (simp add: newest_within_def)
    then have "suffix ys (kept @ [x])" by (simp add: snoc \<open>y = x\<close> suffix_snoc)
    then show ?thesis using assms(5) ys(2) unfolding newest_within_def by blast
  qed simp
qed

section \<open>Scanning\<close>

text \<open>What the counters of a scan say after some lines.\<close>

definition scanned :: "store_params \<Rightarrow> RetentionPolicy \<Rightarrow> pyfloat \<Rightarrow> (StoredEvent \<times> int) list \<Rightarrow> ScanResult \<Rightarrow> bool" where
  "scanned ps p now xs r \<longleftrightarrow> newest_within p (live ps p now xs) (sc_retained r)
     \<and> sc_retained_bytes r = sum_list (map snd (sc_retained r)) \<and> sc_valid_records r = length xs
     \<and> sc_expired_records r + length (live ps p now xs) = length xs
     \<and> sc_dropped_for_bounds r + length (sc_retained r) = length (live ps p now xs)"

lemma scan_line_step:
  assumes "policy_ok p" "sizes_positive ps" "sized ps xs" "scanned ps p now xs r"
  shows "scanned ps p now (xs @ recorded_line ps l) (scan_line ps p now l r)"
    and "sc_file_bytes (scan_line ps p now l r) = sc_file_bytes r"
proof -
  obtain content size where l: "l = (content, size)" by (cases l)
  show "scanned ps p now (xs @ recorded_line ps l) (scan_line ps p now l r)"
  proof (cases content)
    case (Decoded stored)
    show ?thesis
    proof (cases "encode_size ps stored")
      case Inl
      then show ?thesis using assms(4) by (simp add: l Decoded scan_line_def malformed_def scanned_def)
    next
      case (Inr n)
      show ?thesis
      proof (cases "expired ps p now stored")
        case True
        then show ?thesis using assms(4)
          by (simp add: l Decoded Inr scan_line_def scanned_def live_def Let_def)
      next
        case False
        obtain kept bytes where trim: "trim p (sc_retained r @ [(stored, n)]) (sc_retained_bytes r + n) = (kept, bytes)"
          by fastforce
        have old: "newest_within p (live ps p now xs) (sc_retained r)" "sc_retained_bytes r = sum_list (map snd (sc_retained r))"
          using assms(4) by (simp_all add: scanned_def)
        have kept: "newest_within p (sc_retained r @ [(stored, n)]) kept" "bytes = sum_list (map snd kept)"
          using trim_newest [OF assms(1) _ trim] old(2) by simp_all
        have "newest_within p (live ps p now xs @ [(stored, n)]) kept"
          using newest_within_snoc [OF sized_live [OF assms(3)] assms(2) _ old(1) kept(1)] Inr by simp
        moreover have "length kept \<le> Suc (length (sc_retained r))" "length (sc_retained r) \<le> length (live ps p now xs)"
          using kept(1) old(1) by (auto simp add: newest_within_def dest!: suffix_length_le)
        moreover have "scan_line ps p now l r = r\<lparr>sc_valid_records := Suc (sc_valid_records r), sc_retained := kept,
            sc_retained_bytes := bytes,
            sc_dropped_for_bounds := sc_dropped_for_bounds r + (Suc (length (sc_retained r)) - length kept)\<rparr>"
          using False by (simp add: l Decoded Inr scan_line_def Let_def trim)
        moreover have "live ps p now (xs @ recorded_line ps l) = live ps p now xs @ [(stored, n)]"
          using False by (simp add: l Decoded Inr live_def)
        ultimately show ?thesis using assms(4) kept(2) by (simp add: scanned_def) (simp add: l Decoded Inr)
      qed
    qed
  qed (use assms(4) in \<open>simp_all add: l scan_line_def malformed_def scanned_def\<close>)
  show "sc_file_bytes (scan_line ps p now l r) = sc_file_bytes r"
    by (simp add: scan_line_def malformed_def Let_def split: line.splits sum.splits prod.splits)
qed

lemma scanned_file:
  assumes "policy_ok p" "sizes_positive ps"
  shows "scanned ps p now (recorded ps file) (scan ps p now file)" "sc_file_bytes (scan ps p now file) = file_size file"
proof -
  have fold: "scanned ps p now (xs @ concat (map (recorded_line ps) ls)) (fold (scan_line ps p now) ls r)
      \<and> sc_file_bytes (fold (scan_line ps p now) ls r) = sc_file_bytes r"
    if "scanned ps p now xs r" "sized ps xs" for xs ls r
    using that
  proof (induction ls arbitrary: xs r)
    case (Cons l ls)
    have "sized ps (recorded_line ps l)" using sized_recorded [of ps "Some \<lparr>sf_lines = [l], sf_open_tail = False\<rparr>"]
      by (simp add: recorded_def file_lines_def)
    then have "sized ps (xs @ recorded_line ps l)" using Cons.prems(2) by (auto simp add: sized_def)
    from Cons.IH [OF scan_line_step(1) [OF assms Cons.prems(2,1)] this] show ?case
      using scan_line_step(2) [OF assms Cons.prems(2,1)] by simp
  qed simp
  have empty: "scanned ps p now [] (empty_scan\<lparr>sc_file_bytes := n\<rparr>)" "scanned ps p now [] empty_scan" for n
    using assms(1) by (auto simp add: scanned_def empty_scan_def live_def newest_within_def in_bounds_def policy_ok_def
        RetentionPolicy_post_init_def accepts)
  show "scanned ps p now (recorded ps file) (scan ps p now file)" "sc_file_bytes (scan ps p now file) = file_size file"
    using fold [OF empty(1), of "file_lines file" "file_size file"] empty(2)
    by (auto simp add: scan_def recorded_def sized_def file_lines_def file_size_def empty_scan_def split: option.splits)
qed

section \<open>Writing\<close>

lemma recorded_simps:
  "recorded ps None = []"
  "recorded ps (Some \<lparr>sf_lines = ls, sf_open_tail = b\<rparr>) = concat (map (recorded_line ps) ls)"
  by (simp_all add: recorded_def file_lines_def)

lemma recorded_line_size: "recorded_line ps (content, n) = recorded_line ps (content, m)"
  by (cases content) simp_all

lemma recorded_close_tail: "recorded ps (Some (close_tail f)) = recorded ps (Some f)"
proof (cases "sf_lines f" rule: rev_cases)
  case (snoc ls l)
  then show ?thesis using recorded_line_size [of ps "fst l" "snd l + 1" "snd l"]
    by (simp add: close_tail_def recorded_def file_lines_def)
qed (simp add: close_tail_def recorded_def file_lines_def)

lemma recorded_append_bytes:
  assumes "encode_size ps stored = Inr n" "0 < n"
  shows "recorded ps (append_bytes stored n k file) = recorded ps file
    \<or> recorded ps (append_bytes stored n k file) = recorded ps file @ [(stored, n)]"
    and "n < k \<Longrightarrow> recorded ps (append_bytes stored n k file) = recorded ps file @ [(stored, n)]"
proof -
  define f where "f = (case file of None \<Rightarrow> \<lparr>sf_lines = [], sf_open_tail = False\<rparr> | Some f \<Rightarrow> f)"
  define f' where "f' = (if sf_open_tail f \<and> 0 < k then close_tail f else f)"
  have f: "recorded ps (Some f') = recorded ps file"
    by (auto simp add: f'_def f_def recorded_close_tail recorded_simps split: option.splits)
  have f': "recorded ps (Some f') = concat (map (recorded_line ps) (sf_lines f'))" by (simp add: recorded_def file_lines_def)
  note append = append_bytes_def [of stored n k "file", folded f_def, unfolded Let_def, folded f'_def]
  show "recorded ps (append_bytes stored n k file) = recorded ps file
    \<or> recorded ps (append_bytes stored n k file) = recorded ps file @ [(stored, n)]"
    unfolding append using f f' assms(1) by (simp add: recorded_simps)
  assume "n < k"
  then show "recorded ps (append_bytes stored n k file) = recorded ps file @ [(stored, n)]"
    unfolding append using f f' assms by (simp add: recorded_simps)
qed

lemma recorded_compacted: "sized ps (sc_retained r) \<Longrightarrow> recorded ps (compacted_file r) = sc_retained r"
proof -
  have "concat (map (recorded_line ps) (map (\<lambda>(stored, n). (Decoded stored, n)) xs)) = xs" if "sized ps xs" for xs
    using that by (induction xs) (auto simp add: sized_def)
  then show "sized ps (sc_retained r) \<Longrightarrow> ?thesis" by (simp add: compacted_file_def recorded_simps)
qed

lemma retained_sized:
  assumes "policy_ok p" "sizes_positive ps"
  shows "newest_within p (live ps p now (recorded ps file)) (sc_retained (scan ps p now file))"
    and "recorded ps (compacted_file (scan ps p now file)) = sc_retained (scan ps p now file)"
proof -
  show newest: "newest_within p (live ps p now (recorded ps file)) (sc_retained (scan ps p now file))"
    using scanned_file(1) [OF assms] by (simp add: scanned_def)
  then show "recorded ps (compacted_file (scan ps p now file)) = sc_retained (scan ps p now file)"
    using sized_suffix [OF sized_live [OF sized_recorded]] by (intro recorded_compacted) (auto simp add: newest_within_def)
qed

text \<open>The changes an append can make to the records of the file.\<close>

lemma store_append_recorded:
  assumes "policy_ok p" "sizes_positive ps" "store_append ps p io now event file = (file', r)"
    and stored: "stored = \<lparr>se_stored_at = now, se_event = event\<rparr>"
  obtains (kept) e where "recorded ps file' = recorded ps file" "r = Inl e"
  | (added) n where "encode_size ps stored = Inr n" "n \<le> max_bytes p" "isfinite now"
      "recorded ps file' = recorded ps file @ [(stored, n)]"
  | (compacted) n m where "encode_size ps stored = Inr n" "n \<le> max_bytes p" "isfinite now" "r = Inr m"
      "newest_within p (live ps p now (recorded ps file @ [(stored, n)])) (recorded ps file')"
proof (cases "rbind (store_clock now) (\<lambda>_. rbind (encode_size ps stored) (\<lambda>n.
    rbind (require (n \<le> max_bytes p) (EventTooLargeError ''max_bytes'')) (\<lambda>_. rbind (si_lock io) (\<lambda>_. Inr n))))")
  case (Inl e)
  then show ?thesis using assms(3) by (intro kept [of e]) (simp_all add: store_append_def stored)
next
  case (Inr n)
  then have n: "encode_size ps stored = Inr n" "n \<le> max_bytes p" "isfinite now"
    by (auto simp add: accepts store_clock_def)
  then have "0 < n" using assms(2) by (simp add: sizes_positive_def)
  note bytes = recorded_append_bytes [OF n(1) this]
  show ?thesis
  proof (cases "si_write io")
    case (Torn e k)
    then have "file' = append_bytes stored n k file" "r = Inl e"
      using assms(3) Inr by (simp_all add: store_append_def stored)
    then show ?thesis using bytes(1) [of k "file"] kept added [OF n] by auto
  next
    case Written
    define written where "written = append_bytes stored n (n + 1) file"
    have new: "recorded ps written = recorded ps file @ [(stored, n)]" unfolding written_def by (rule bytes(2)) simp
    define s where "s = scan ps p now written"
    have "store_append ps p io now event file = (case si_scan io of Inl e \<Rightarrow> (written, Inl e)
      | Inr _ \<Rightarrow> if \<not> compaction_needed s then (written, Inr (maintenance_result p written s True False None))
        else (case si_replace io of
            Inl e \<Rightarrow> (written, Inr (maintenance_result p written s True False (Some e)))
          | Inr _ \<Rightarrow> (compacted_file s, Inr (maintenance_result p written s True True None))))"
      using Inr by (simp add: store_append_def stored [symmetric] Written Let_def s_def [symmetric] written_def [symmetric] split: sum.splits)
    note out = this [unfolded assms(3), symmetric]
    consider "file' = written" | m where "file' = compacted_file s" "r = Inr m"
      using out by (auto split: sum.splits if_splits)
    then show ?thesis
    proof cases
      case 1
      then show ?thesis using added [OF n] new by simp
    next
      case 2
      have "newest_within p (live ps p now (recorded ps file @ [(stored, n)])) (recorded ps file')"
        using retained_sized [OF assms(1,2), of now written] by (simp add: 2(1) s_def new)
      then show ?thesis using compacted [OF n] 2(2) by simp
    qed
  qed
qed

section \<open>What a reader sees\<close>

lemma read_records_Inr:
  "read_records ps p io now None file = Inr records \<longleftrightarrow> isfinite now \<and> \<not> float_less now (Finite 0)
     \<and> si_lock io = Inr () \<and> si_scan io = Inr () \<and> records = map fst (sc_retained (scan ps p now file))"
  by (auto simp add: read_records_def accepts store_clock_def Let_def)

text \<open>\<open>now - max_age\<close> is not after \<open>now\<close>: an event does not expire when it is stored.\<close>

definition cutoff_ok :: "store_params \<Rightarrow> RetentionPolicy \<Rightarrow> bool" where
  "cutoff_ok ps p \<longleftrightarrow> (\<forall>now. isfinite now \<longrightarrow> \<not> float_less now (cutoff ps now (max_age_seconds p)))"

lemma newest_keeps_last:
  assumes "policy_ok p" "newest_within p (xs @ [(stored, n)]) kept" "n \<le> max_bytes p"
  shows "\<exists>ys. suffix ys xs \<and> kept = ys @ [(stored, n)]"
proof -
  have "in_bounds p [(stored, n)]"
    using assms(1,3) by (auto simp add: in_bounds_def policy_ok_def RetentionPolicy_post_init_def accepts)
  then have "suffix [(stored, n)] kept" "suffix kept (xs @ [(stored, n)])" using assms(2) by (auto simp add: newest_within_def)
  then show ?thesis by (auto simp add: suffix_snoc)
qed

text \<open>The store keeps the newest records. With a valid policy, whatever the file holds, what a reader gets are
  the records that decode, encode and have not expired, in their order and from the newest back: the
  longest suffix of them that is within both bounds; with a limit, the last of these.\<close>

theorem store_keeps_newest:
  assumes "policy_ok p" "sizes_positive ps" "read_records ps p io now None file = Inr records"
  shows "(\<exists>kept. newest_within p (live ps p now (recorded ps file)) kept \<and> records = map fst kept)
    \<and> (\<forall>k\<ge>0. read_records ps p io now (Some k) file = Inr (drop (length records - nat k) records))"
proof -
  have read: "isfinite now" "\<not> float_less now (Finite 0)" "si_lock io = Inr ()" "si_scan io = Inr ()"
    "records = map fst (sc_retained (scan ps p now file))"
    using assms(3) by (simp_all add: read_records_Inr)
  have "read_records ps p io now (Some k) file = Inr (drop (length records - nat k) records)" if "0 \<le> k" for k
    using that by (auto simp add: read_records_def store_clock_def Let_def read)
  then show ?thesis using retained_sized(1) [OF assms(1,2)] read(5) by blast
qed

text \<open>An append is durable and loses nothing. Whatever fails (clock, encoding, lock, a write torn after any
  number of bytes, reading back, replacing the file), the records of the file afterwards are the old ones,
  or these and the new event, or, when the file was compacted, the newest of these within the bounds; and when it
  reports success, the new event is the last record.\<close>

theorem append_durable:
  assumes "policy_ok p" "sizes_positive ps" "cutoff_ok ps p" "store_append ps p io now event file = (file', r)"
  shows "(recorded ps file' = recorded ps file
      \<or> (\<exists>n. recorded ps file' = recorded ps file @ [(\<lparr>se_stored_at = now, se_event = event\<rparr>, n)])
      \<or> (\<exists>n. newest_within p (live ps p now (recorded ps file @ [(\<lparr>se_stored_at = now, se_event = event\<rparr>, n)])) (recorded ps file')))
    \<and> (\<forall>m. r = Inr m \<longrightarrow> recorded ps file' \<noteq> [] \<and> fst (last (recorded ps file')) = \<lparr>se_stored_at = now, se_event = event\<rparr>)"
proof -
  define stored where "stored = \<lparr>se_stored_at = now, se_event = event\<rparr>"
  have "(recorded ps file' = recorded ps file \<or> (\<exists>n. recorded ps file' = recorded ps file @ [(stored, n)])
      \<or> (\<exists>n. newest_within p (live ps p now (recorded ps file @ [(stored, n)])) (recorded ps file')))
    \<and> (\<forall>m. r = Inr m \<longrightarrow> recorded ps file' \<noteq> [] \<and> fst (last (recorded ps file')) = stored)"
    using assms(1,2,4) stored_def
  proof (cases rule: store_append_recorded)
    case (compacted n m)
    have "\<not> expired ps p now stored" using assms(3) compacted(3) by (simp add: expired_def cutoff_ok_def stored_def)
    then have "live ps p now (recorded ps file @ [(stored, n)]) = live ps p now (recorded ps file) @ [(stored, n)]"
      by (simp add: live_def)
    then obtain ys where "recorded ps file' = ys @ [(stored, n)]"
      using newest_keeps_last [OF assms(1) _ compacted(2)] compacted(5) by metis
    then show ?thesis using compacted(5) by auto
  qed auto
  then show ?thesis by (simp add: stored_def)
qed

section \<open>The theorems on a small store\<close>

text \<open>A line is ten bytes, the store holds two records, and the third write is torn.\<close>

definition demo_store :: store_params where
  "demo_store = \<lparr>encode_size = (\<lambda>_. Inr 10), cutoff = (\<lambda>now age. case (now, age) of (Finite t, Finite a) \<Rightarrow> Finite (t - a) | _ \<Rightarrow> now)\<rparr>"

definition demo_retention :: RetentionPolicy where
  "demo_retention = \<lparr>max_records = 2, max_bytes = 100, max_age_seconds = Finite 50\<rparr>"

definition calm_io :: store_io where
  "calm_io = \<lparr>si_lock = Inr (), si_write = Written, si_scan = Inr (), si_replace = Inr ()\<rparr>"

definition demo_event :: "int \<Rightarrow> StoredEvent" where
  "demo_event i = \<lparr>se_stored_at = Finite (of_int i), se_event = PInt i\<rparr>"

definition demo_file :: event_file where
  "demo_file = Some \<lparr>sf_lines = [(Decoded (demo_event 1), 10), (Decoded (demo_event 2), 10), (Malformed, 4)], sf_open_tail = True\<rparr>"

lemma demo_store_ok: "policy_ok demo_retention" "sizes_positive demo_store" "cutoff_ok demo_store demo_retention"
  by (auto simp add: policy_ok_def RetentionPolicy_post_init_def demo_retention_def isfinite_def sizes_positive_def demo_store_def
      cutoff_ok_def split: pyfloat.splits)

lemma demo_append:
  "store_append demo_store demo_retention calm_io (Finite 3) (PInt 3) demo_file
     = (Some \<lparr>sf_lines = [(Decoded (demo_event 2), 10), (Decoded (demo_event 3), 10)], sf_open_tail = False\<rparr>,
        Inr \<lparr>mr_stored = True, mr_compacted = True, mr_retained_records = 2, mr_retained_bytes = 20, mr_file_bytes = 20,
          mr_dropped_records = 1, mr_malformed_records = 1, mr_retention_satisfied = True, mr_error_type = None\<rparr>)"
  by code_simp

lemma store_keeps_newest_witness:
  "\<exists>kept. newest_within demo_retention (live demo_store demo_retention (Finite 3) (recorded demo_store demo_file)) kept
     \<and> [demo_event 1, demo_event 2] = map fst kept"
proof -
  have "read_records demo_store demo_retention calm_io (Finite 3) None demo_file = Inr [demo_event 1, demo_event 2]"
    by code_simp
  from store_keeps_newest [OF demo_store_ok(1,2) this] show ?thesis by blast
qed

lemma append_durable_witness:
  "\<exists>file'. recorded demo_store file' \<noteq> [] \<and> fst (last (recorded demo_store file')) = demo_event 3"
  using append_durable [OF demo_store_ok demo_append] by (auto simp add: demo_event_def)

end
