(* ===== verification/Henry_Lease.thy ===== *)
theory Henry_Lease
  imports Py_Words Py_Codec Py_Hash
begin

text \<open>
  \<^verbatim>\<open>algo_cli/henry_effect_control.py\<close>: leases on targets with fencing tokens. One state file per target records
  the last token and its holder; every acquisition takes the next token, and a lease is valid only while it
  is the one in the file and has not expired.

  The files of a manager are a function of the digest of the target. The locks, which keep other holders
  out while a lease is held, are outcomes of the operating system in \<open>lease_io\<close>.
\<close>

section \<open>Identifiers\<close>

definition bounded_id_text :: "pystr \<Rightarrow> bool" where
  "bounded_id_text s \<longleftrightarrow> 1 \<le> length s \<and> length s \<le> 128
     \<and> list_all (\<lambda>c. ascii_alpha c \<or> digit c \<or> c = 46 \<or> c = 95 \<or> c = 58 \<or> c = 45) s"

definition target_digest :: "pystr \<Rightarrow> exn + pystr" where
  "target_digest target = (case utf8_encode target of None \<Rightarrow> Inl UnicodeError | Some b \<Rightarrow> Inr (hexdigest (sha256 b)))"

text \<open>\<open>uuid4().hex\<close>.\<close>

definition uuid_hex :: "bytes \<Rightarrow> pystr" where
  "uuid_hex random = filter (\<lambda>c. c \<noteq> 45) (uuid4 random)"

section \<open>State files\<close>

text \<open>
  A value that may be a number: an \<open>int\<close> or \<open>float\<close> but not a \<open>bool\<close>, as a float. A row has what \<open>value.get\<close>
  gives for each key, with the default \<open>0.0\<close> for the issue time. \<open>Unreadable\<close> is every file that is not a
  regular file with a JSON object in it.
\<close>

datatype pynumber = Number pyfloat | No_number

record lease_row =
  lr_version_is_1 :: bool
  lr_target_hash :: py
  lr_last_fencing_token :: py
  lr_owner_id :: py
  lr_released :: py
  lr_issued_at :: pynumber
  lr_expires_at :: pynumber

datatype lease_file = Missing | Unreadable | Row lease_row

type_synonym lease_files = "pystr \<Rightarrow> lease_file"

record lease_state =
  ls_last_fencing_token :: int
  ls_owner_id :: pystr
  ls_issued_at :: pyfloat
  ls_expires_at :: pyfloat
  ls_released :: bool

fun checked_row :: "pystr \<Rightarrow> lease_row \<Rightarrow> lease_state option" where
  "checked_row target_hash v =
    (case (lr_last_fencing_token v, lr_owner_id v, lr_released v, lr_issued_at v, lr_expires_at v) of
       (PInt token, PStr owner_id, PBool released, Number issued_at, Number expires_at) \<Rightarrow>
         if \<not> lr_version_is_1 v \<or> lr_target_hash v \<noteq> PStr target_hash \<or> token < 0 \<or> (owner_id \<noteq> []) \<noteq> (\<not> released)
            \<or> (owner_id \<noteq> [] \<and> \<not> bounded_id_text owner_id) \<or> \<not> isfinite issued_at \<or> float_less issued_at (Finite 0)
            \<or> \<not> isfinite expires_at \<or> float_less expires_at issued_at
         then None
         else Some \<lparr>ls_last_fencing_token = token, ls_owner_id = owner_id, ls_issued_at = issued_at,
           ls_expires_at = expires_at, ls_released = released\<rparr>
     | _ \<Rightarrow> None)"

definition read_state :: "pystr \<Rightarrow> lease_file \<Rightarrow> exn + lease_state" where
  "read_state target_hash f =
    (case f of
       Missing \<Rightarrow> Inr \<lparr>ls_last_fencing_token = 0, ls_owner_id = [], ls_issued_at = Finite 0, ls_expires_at = Finite 0, ls_released = True\<rparr>
     | Unreadable \<Rightarrow> Inl (EffectLeaseStateError ''unreadable'')
     | Row v \<Rightarrow> (case checked_row target_hash v of None \<Rightarrow> Inl (EffectLeaseStateError ''invalid'') | Some s \<Rightarrow> Inr s))"

definition state_row :: "pystr \<Rightarrow> lease_state \<Rightarrow> lease_file" where
  "state_row target_hash s = Row \<lparr>lr_version_is_1 = True, lr_target_hash = PStr target_hash,
     lr_last_fencing_token = PInt (ls_last_fencing_token s), lr_owner_id = PStr (ls_owner_id s),
     lr_released = PBool (ls_released s), lr_issued_at = Number (ls_issued_at s), lr_expires_at = Number (ls_expires_at s)\<rparr>"

text \<open>Writing a state replaces the file atomically; an error may come before or after the replacement.\<close>

datatype replace_outcome = Replaced | Not_replaced exn | Replaced_then exn

definition write_state :: "replace_outcome \<Rightarrow> pystr \<Rightarrow> lease_state \<Rightarrow> lease_files \<Rightarrow> lease_files \<times> (exn + unit)" where
  "write_state outcome target_hash s files =
    (case outcome of
       Replaced \<Rightarrow> (files(target_hash := state_row target_hash s), Inr ())
     | Not_replaced e \<Rightarrow> (files, Inl e)
     | Replaced_then e \<Rightarrow> (files(target_hash := state_row target_hash s), Inl e))"

section \<open>Leases\<close>

text \<open>
  The outcomes of one call: preparing the directory and the lock file, taking the locks (the thread lock, then
  the lock of the operating system), reading the clock, replacing the file, and giving the lock back.
  \<open>la_random\<close> are the bytes of a \<open>uuid4\<close>, \<open>la_add\<close> is the addition of floats.
\<close>

record lease_io =
  la_root :: "exn + unit"
  la_lock :: "exn + unit"
  la_clock :: "exn + pyfloat"
  la_write :: replace_outcome
  la_unlock :: "exn + unit"
  la_random :: bytes
  la_add :: "pyfloat \<Rightarrow> pyfloat \<Rightarrow> pyfloat"

record TargetLease =
  tl_target_hash :: pystr
  tl_owner_id :: pystr
  tl_fencing_token :: int
  tl_issued_at :: pyfloat
  tl_expires_at :: pyfloat
  tl_released :: bool

definition new_lease :: "lease_io \<Rightarrow> pystr \<Rightarrow> pystr option \<Rightarrow> pyfloat \<Rightarrow> lease_files \<Rightarrow> exn + TargetLease" where
  "new_lease io target owner_id lease_seconds files =
    rbind (require (py_strip target \<noteq> []) (ValueError ''target'')) (\<lambda>_.
    rbind (require (isfinite lease_seconds \<and> float_less (Finite 0) lease_seconds) (ValueError ''lease_seconds'')) (\<lambda>_.
    rbind (la_root io) (\<lambda>_.
    rbind (target_digest target) (\<lambda>digest.
    rbind (la_lock io) (\<lambda>_.
    rbind (read_state digest (files digest)) (\<lambda>state.
    rbind (la_clock io) (\<lambda>now.
    rbind (require (isfinite now \<and> \<not> float_less now (Finite 0)) (EffectLeaseStateError ''clock'')) (\<lambda>_.
    let owner = (case owner_id of Some (c # cs) \<Rightarrow> c # cs | _ \<Rightarrow> str ''owner-'' @ uuid_hex (la_random io)) in
    rbind (require (bounded_id_text owner) (ValueError ''owner_id'')) (\<lambda>_.
    Inr \<lparr>tl_target_hash = digest, tl_owner_id = owner, tl_fencing_token = ls_last_fencing_token state + 1, tl_issued_at = now,
      tl_expires_at = la_add io now lease_seconds, tl_released = False\<rparr>)))))))))"

definition held_state :: "TargetLease \<Rightarrow> lease_state" where
  "held_state l = \<lparr>ls_last_fencing_token = tl_fencing_token l, ls_owner_id = tl_owner_id l, ls_issued_at = tl_issued_at l,
     ls_expires_at = tl_expires_at l, ls_released = False\<rparr>"

definition acquire :: "lease_io \<Rightarrow> pystr \<Rightarrow> pystr option \<Rightarrow> pyfloat \<Rightarrow> lease_files \<Rightarrow> lease_files \<times> (exn + TargetLease)" where
  "acquire io target owner_id lease_seconds files =
    (case new_lease io target owner_id lease_seconds files of
       Inl e \<Rightarrow> (files, Inl e)
     | Inr l \<Rightarrow>
         (case write_state (la_write io) (tl_target_hash l) (held_state l) files of
            (files', Inl e) \<Rightarrow> (files', Inl e) | (files', Inr _) \<Rightarrow> (files', Inr l)))"

text \<open>A clock that raises makes a lease invalid; a file that cannot be read raises.\<close>

definition validate_lease :: "(exn + pyfloat) \<Rightarrow> TargetLease \<Rightarrow> lease_files \<Rightarrow> exn + bool" where
  "validate_lease clock l files =
    (if tl_released l then Inr False
     else
       rbind (read_state (tl_target_hash l) (files (tl_target_hash l))) (\<lambda>state.
       case clock of Inl _ \<Rightarrow> Inr False
       | Inr now \<Rightarrow>
           if \<not> isfinite now \<or> float_less now (tl_issued_at l) \<or> float_le (tl_expires_at l) now then Inr False
           else Inr (\<not> ls_released state \<and> ls_owner_id state = tl_owner_id l
             \<and> ls_last_fencing_token state = tl_fencing_token l \<and> ls_issued_at state = tl_issued_at l
             \<and> ls_expires_at state = tl_expires_at l)))"

definition freed_state :: "lease_state \<Rightarrow> lease_state" where
  "freed_state s = s\<lparr>ls_owner_id := [], ls_issued_at := Finite 0, ls_expires_at := Finite 0, ls_released := True\<rparr>"

text \<open>The lock is given back even when the file cannot be read or written; an error there replaces the first.\<close>

definition release :: "lease_io \<Rightarrow> TargetLease \<Rightarrow> lease_files \<Rightarrow> lease_files \<times> TargetLease \<times> (exn + unit)" where
  "release io l files =
    (if tl_released l then (files, l, Inr ())
     else
       let (files', r) =
         (case read_state (tl_target_hash l) (files (tl_target_hash l)) of
            Inl e \<Rightarrow> (files, Inl e)
          | Inr state \<Rightarrow>
              if ls_owner_id state = tl_owner_id l \<and> ls_last_fencing_token state = tl_fencing_token l
              then write_state (la_write io) (tl_target_hash l) (freed_state state) files
              else (files, Inr ())) in
       (files', l\<lparr>tl_released := True\<rparr>, (case la_unlock io of Inl e \<Rightarrow> Inl e | Inr _ \<Rightarrow> r)))"

section \<open>Fencing\<close>

text \<open>What any holder can do to the files of a manager.\<close>

inductive lease_step :: "lease_files \<Rightarrow> lease_files \<Rightarrow> bool" where
  acquired: "acquire io target owner_id lease_seconds files = (files', r) \<Longrightarrow> lease_step files files'"
| released: "release io l files = (files', l', r) \<Longrightarrow> lease_step files files'"

inductive_cases lease_stepE: "lease_step files files'"

text \<open>The last token of a target, where its state file can be read.\<close>

definition last_token :: "lease_files \<Rightarrow> pystr \<Rightarrow> int option" where
  "last_token files d = (case read_state d (files d) of Inl _ \<Rightarrow> None | Inr s \<Rightarrow> Some (ls_last_fencing_token s))"

definition token_at_least :: "int \<Rightarrow> pystr \<Rightarrow> lease_files \<Rightarrow> bool" where
  "token_at_least t d files \<longleftrightarrow> (case last_token files d of None \<Rightarrow> True | Some t' \<Rightarrow> t \<le> t')"

lemma read_state_row: "read_state d (state_row d s) = Inr s' \<Longrightarrow> s' = s"
  by (cases s) (auto simp add: read_state_def state_row_def split: if_splits)

lemma last_token_row: "last_token (files(d := state_row d s)) d \<in> {None, Some (ls_last_fencing_token s)}"
  using read_state_row [of d s] by (auto simp add: last_token_def split: sum.splits)

lemma write_state_cases:
  assumes "write_state outcome d s files = (files', r)"
  obtains (kept) e where "files' = files" "r = Inl e" | (written) "files' = files(d := state_row d s)"
  using assms by (cases outcome) (auto simp add: write_state_def)

lemma new_lease_token:
  assumes "new_lease io target owner_id lease_seconds files = Inr l"
  shows "target_digest target = Inr (tl_target_hash l)" "last_token files (tl_target_hash l) = Some (tl_fencing_token l - 1)"
    "\<not> tl_released l"
  using assms by (auto simp add: new_lease_def Let_def accepts last_token_def)

lemma token_step:
  assumes "lease_step files files'" "token_at_least t d files"
  shows "token_at_least t d files'"
  using assms(1)
proof (cases rule: lease_stepE [consumes 1, case_names acquired released])
  case (acquired io target owner_id lease_seconds r)
  show ?thesis
  proof (cases "new_lease io target owner_id lease_seconds files")
    case (Inr l)
    then obtain r' where wrote: "write_state (la_write io) (tl_target_hash l) (held_state l) files = (files', r')"
      using acquired by (cases "write_state (la_write io) (tl_target_hash l) (held_state l) files")
        (auto simp add: acquire_def split: sum.splits)
    then show ?thesis
    proof (cases rule: write_state_cases)
      case written
      then show ?thesis
        using assms(2) new_lease_token(2) [OF Inr] last_token_row [of files "tl_target_hash l" "held_state l"]
        by (cases "d = tl_target_hash l") (auto simp add: token_at_least_def held_state_def last_token_def)
    qed (use assms(2) in simp)
  qed (use acquired assms(2) in \<open>simp add: acquire_def\<close>)
next
  case (released io l l' r)
  show ?thesis
  proof (cases "files' = files")
    case False
    then obtain state where state: "read_state (tl_target_hash l) (files (tl_target_hash l)) = Inr state"
      "files' = files(tl_target_hash l := state_row (tl_target_hash l) (freed_state state))"
      using released by (auto simp add: release_def Let_def write_state_def split: if_splits sum.splits replace_outcome.splits)
    then show ?thesis
      using assms(2) last_token_row [of files "tl_target_hash l" "freed_state state"]
      by (cases "d = tl_target_hash l") (auto simp add: token_at_least_def freed_state_def last_token_def)
  qed (use assms(2) in simp)
qed

lemma token_run: "lease_step\<^sup>*\<^sup>* files files' \<Longrightarrow> token_at_least t d files \<Longrightarrow> token_at_least t d files'"
  by (induction rule: rtranclp_induct) (blast intro: token_step)+

lemma acquire_token:
  assumes "acquire io target owner_id lease_seconds files = (files', Inr l)"
  shows "new_lease io target owner_id lease_seconds files = Inr l" "files' = files(tl_target_hash l := state_row (tl_target_hash l) (held_state l))"
    "token_at_least (tl_fencing_token l) (tl_target_hash l) files'"
proof -
  show new: "new_lease io target owner_id lease_seconds files = Inr l" "files' = files(tl_target_hash l := state_row (tl_target_hash l) (held_state l))"
    using assms by (auto simp add: acquire_def write_state_def split: sum.splits replace_outcome.splits)
  show "token_at_least (tl_fencing_token l) (tl_target_hash l) files'"
    using last_token_row [of files "tl_target_hash l" "held_state l"] unfolding new(2)
    by (auto simp add: token_at_least_def held_state_def)
qed

text \<open>C28: Fencing. Whatever any holders do to the state files, with any errors, a lease acquired later on the
  same target has a greater token than an earlier one, and from then on the earlier lease never validates
  again, at any time.\<close>

theorem fencing:
  assumes "acquire io1 target1 owner1 seconds1 files = (files1, Inr l1)" "lease_step\<^sup>*\<^sup>* files1 files2"
    and "acquire io2 target2 owner2 seconds2 files2 = (files3, Inr l2)" "tl_target_hash l2 = tl_target_hash l1"
    and "lease_step\<^sup>*\<^sup>* files3 files4"
  shows "tl_fencing_token l1 < tl_fencing_token l2 \<and> validate_lease clock l1 files4 \<noteq> Inr True"
proof -
  have "token_at_least (tl_fencing_token l1) (tl_target_hash l1) files2"
    using token_run [OF assms(2) acquire_token(3) [OF assms(1)]] .
  then have less: "tl_fencing_token l1 < tl_fencing_token l2"
    using new_lease_token(2) [OF acquire_token(1) [OF assms(3)]] by (simp add: token_at_least_def assms(4))
  have "token_at_least (tl_fencing_token l2) (tl_target_hash l1) files4"
    using token_run [OF assms(5) acquire_token(3) [OF assms(3)]] by (simp add: assms(4))
  then have "validate_lease clock l1 files4 \<noteq> Inr True"
    using less by (auto simp add: validate_lease_def accepts token_at_least_def last_token_def split: sum.splits if_splits)
  then show ?thesis using less by simp
qed

section \<open>The theorem at two leases\<close>

definition demo_lease_io :: "rat \<Rightarrow> lease_io" where
  "demo_lease_io t = \<lparr>la_root = Inr (), la_lock = Inr (), la_clock = Inr (Finite t), la_write = Replaced, la_unlock = Inr (),
     la_random = replicate 16 0, la_add = (\<lambda>x y. case (x, y) of (Finite a, Finite b) \<Rightarrow> Finite (a + b) | _ \<Rightarrow> Float_nan)\<rparr>"

definition demo_lease :: "pystr \<Rightarrow> int \<Rightarrow> rat \<Rightarrow> TargetLease" where
  "demo_lease d token t = \<lparr>tl_target_hash = d, tl_owner_id = str ''me'', tl_fencing_token = token, tl_issued_at = Finite t,
     tl_expires_at = Finite (t + 60), tl_released = False\<rparr>"

lemma demo_acquire:
  assumes "target_digest (str ''t'') = Inr d" "last_token files d = Some (token - 1)" "0 \<le> t"
  shows "acquire (demo_lease_io t) (str ''t'') (Some (str ''me'')) (Finite 60) files
    = (files(d := state_row d (held_state (demo_lease d token t))), Inr (demo_lease d token t))"
proof -
  have "py_strip (str ''t'') \<noteq> []" by (subst py_strip_words) (simp_all add: str_def py_space_def)
  moreover have "bounded_id_text (str ''me'')" by (simp add: bounded_id_text_def str_def ascii_alpha_def)
  ultimately show ?thesis
    using assms by (auto simp add: acquire_def new_lease_def demo_lease_io_def isfinite_def last_token_def demo_lease_def str_def
        write_state_def split: sum.splits)
qed

lemma fencing_witness:
  "\<exists>d. target_digest (str ''t'') = Inr d \<and> tl_fencing_token (demo_lease d 1 0) < tl_fencing_token (demo_lease d 2 5)
    \<and> validate_lease (Inr (Finite 6)) (demo_lease d 1 0) ((\<lambda>_. Missing)(d := state_row d (held_state (demo_lease d 2 5)))) \<noteq> Inr True"
proof -
  obtain d where d: "target_digest (str ''t'') = Inr d"
    by (simp add: target_digest_def utf8_encode_ascii str_def)
  define files1 where "files1 = (\<lambda>_. Missing)(d := state_row d (held_state (demo_lease d 1 0)))"
  have "last_token (\<lambda>_. Missing) d = Some (1 - 1)" by (simp add: last_token_def read_state_def)
  note first = demo_acquire [OF d this, of 0, simplified, folded files1_def]
  have "last_token files1 d = Some (2 - 1)"
    by (simp add: files1_def last_token_def read_state_def state_row_def held_state_def demo_lease_def isfinite_def
        bounded_id_text_def str_def ascii_alpha_def)
  note second = demo_acquire [OF d this, of 5, simplified]
  from fencing [OF first rtranclp.rtrancl_refl second _ rtranclp.rtrancl_refl, of "Inr (Finite 6)"] d show ?thesis
    by (auto simp add: demo_lease_def files1_def)
qed

end
