(* ===== verification/James_Control.thy ===== *)
theory James_Control
  imports Henry_Lease
begin

text \<open>
  \<^verbatim>\<open>algo_cli/james_dispatch.py\<close>: cancellation, deadlines and interrupts of one dispatch, and the two digests that
  identify an invocation.
\<close>

section \<open>Cancellation\<close>

record DispatchCancellation =
  dc_cancelled :: bool
  dc_reason_code :: pystr

definition new_cancellation :: DispatchCancellation where
  "new_cancellation = \<lparr>dc_cancelled = False, dc_reason_code = str ''caller_cancelled''\<rparr>"

text \<open>The first reason stays.\<close>

definition cancel :: "pystr \<Rightarrow> DispatchCancellation \<Rightarrow> exn + DispatchCancellation" where
  "cancel reason_code c =
    (let normalized = py_strip reason_code in
     rbind (require (bounded_id_text normalized) (ValueError ''reason_code'')) (\<lambda>_.
     Inr (if dc_cancelled c then c else \<lparr>dc_cancelled = True, dc_reason_code = normalized\<rparr>)))"

section \<open>Control of a dispatch\<close>

text \<open>The signal of a dispatch that must stop: a status and a reason.\<close>

type_synonym stop_signal = "pystr \<times> pystr"

record DispatchControl =
  ct_deadline :: "pynumber option"
  ct_cancellation :: "DispatchCancellation option"
  ct_last_monotonic :: "pyfloat option"
  ct_interrupted :: bool

definition new_control :: "pynumber option \<Rightarrow> DispatchCancellation option \<Rightarrow> DispatchControl" where
  "new_control deadline cancellation =
    \<lparr>ct_deadline = deadline, ct_cancellation = cancellation, ct_last_monotonic = None, ct_interrupted = False\<rparr>"

text \<open>A request to cancel, which has no effect on a dispatch without a cancellation object, or raises in the requesting thread.\<close>

definition cancel_control :: "pystr \<Rightarrow> DispatchControl \<Rightarrow> DispatchControl" where
  "cancel_control reason_code ct =
    (case ct_cancellation ct of None \<Rightarrow> ct
     | Some c \<Rightarrow> (case cancel reason_code c of Inl _ \<Rightarrow> ct | Inr c' \<Rightarrow> ct\<lparr>ct_cancellation := Some c'\<rparr>))"

definition interrupt_control :: "DispatchControl \<Rightarrow> DispatchControl" where
  "interrupt_control ct = cancel_control (str ''keyboard_interrupt'') (ct\<lparr>ct_interrupted := True\<rparr>)"

text \<open>What can be said without the clock: to stop, to go on, or to compare the clock with a deadline.\<close>

datatype clock_need = Stop stop_signal | Go_on | Deadline pyfloat

definition before_clock :: "DispatchControl \<Rightarrow> clock_need" where
  "before_clock ct =
    (if ct_interrupted ct then Stop (str ''cancelled'', str ''keyboard_interrupt'')
     else case (case ct_cancellation ct of Some c \<Rightarrow> if dc_cancelled c then Some (dc_reason_code c) else None | None \<Rightarrow> None) of
       Some reason \<Rightarrow> Stop (str ''cancelled'', reason)
     | None \<Rightarrow>
         (case ct_deadline ct of
            None \<Rightarrow> Go_on
          | Some No_number \<Rightarrow> Stop (str ''failed'', str ''invalid_deadline'')
          | Some (Number d) \<Rightarrow>
              if \<not> isfinite d \<or> float_less d (Finite 0) then Stop (str ''failed'', str ''invalid_deadline'') else Deadline d))"

definition after_clock :: "pyfloat \<Rightarrow> exn + pyfloat \<Rightarrow> DispatchControl \<Rightarrow> DispatchControl \<times> stop_signal option" where
  "after_clock deadline clock ct =
    (case clock of Inl _ \<Rightarrow> (ct, Some (str ''failed'', str ''dispatch_clock_error''))
     | Inr now \<Rightarrow>
         if \<not> isfinite now \<or> float_less now (Finite 0) then (ct, Some (str ''failed'', str ''dispatch_clock_error''))
         else if (case ct_last_monotonic ct of None \<Rightarrow> False | Some t \<Rightarrow> float_less now t)
         then (ct, Some (str ''failed'', str ''clock_regression''))
         else (ct\<lparr>ct_last_monotonic := Some now\<rparr>,
               if float_le deadline now then Some (str ''timed_out'', str ''deadline_elapsed'') else None))"

section \<open>Reasons\<close>

definition termination_ceiling_code :: "stop_signal \<Rightarrow> pystr" where
  "termination_ceiling_code stop =
    (if fst stop = str ''cancelled'' then str ''dispatch_cancelled''
     else if fst stop = str ''timed_out'' then str ''dispatch_deadline_elapsed''
     else if snd stop \<in> str ` {''clock_regression'', ''dispatch_clock_error''} then str ''dispatch_clock_error''
     else str ''dispatch_invalid_deadline'')"

definition pre_dispatch_termination_reason :: "stop_signal \<Rightarrow> pystr" where
  "pre_dispatch_termination_reason stop =
    (if fst stop = str ''cancelled'' then str ''cancelled_before_dispatch''
     else if fst stop = str ''timed_out'' then str ''deadline_before_dispatch''
     else str ''dispatch_control_invalid'')"

definition post_dispatch_termination_reason :: "stop_signal \<Rightarrow> pystr" where
  "post_dispatch_termination_reason stop =
    (if fst stop = str ''cancelled'' then str ''cancelled_after_dispatch''
     else if fst stop = str ''timed_out'' then str ''deadline_after_dispatch''
     else str ''dispatch_control_invalid'')"

section \<open>Digests of an invocation\<close>

text \<open>A JSON text in ASCII, as \<open>json.dumps\<close> writes it by default.\<close>

definition hex4_text :: "nat \<Rightarrow> pystr" where
  "hex4_text n = [hex_char (n div 4096 mod 16), hex_char (n div 256 mod 16), hex_char (n div 16 mod 16), hex_char (n mod 16)]"

definition ascii_escape :: "nat \<Rightarrow> pystr" where
  "ascii_escape c =
    (if c = 34 then [92, 34] else if c = 92 then [92, 92] else if c = 10 then [92, 110] else if c = 13 then [92, 114]
     else if c = 9 then [92, 116] else if c = 12 then [92, 102] else if c = 8 then [92, 98]
     else if 32 \<le> c \<and> c \<le> 126 then [c]
     else if c < 65536 then [92, 117] @ hex4_text c
     else [92, 117] @ hex4_text (55296 + (c - 65536) div 1024) @ [92, 117] @ hex4_text (56320 + (c - 65536) mod 1024))"

definition ascii_json_string :: "pystr \<Rightarrow> pystr" where
  "ascii_json_string s = [34] @ concat (map ascii_escape s) @ [34]"

definition ascii_bytes :: "pystr \<Rightarrow> bytes" where
  "ascii_bytes s = map byte s"

definition idempotency_payload :: "pystr \<Rightarrow> pystr \<Rightarrow> pystr" where
  "idempotency_payload action_digest invocation_id =
    str ''{'' @ ascii_json_string (str ''action_digest'') @ str '':'' @ ascii_json_string action_digest @ str '',''
      @ ascii_json_string (str ''invocation_id'') @ str '':'' @ ascii_json_string invocation_id @ str ''}''"

definition idempotency_key :: "pystr \<Rightarrow> pystr \<Rightarrow> pystr" where
  "idempotency_key action_digest invocation_id = hexdigest (sha256 (ascii_bytes (idempotency_payload action_digest invocation_id)))"

definition invocation_id_hash :: "pystr \<Rightarrow> exn + pystr" where
  "invocation_id_hash invocation_id = target_digest invocation_id"

end
