(* ===== verification/Effect_World.thy ===== *)
theory Effect_World
  imports Ada_Retention James_Control Py_Action
begin

text \<open>
  The world of the effect plane: the file of the effect ledger, the lease files of targets and of invocations,
  the control of the current dispatch, and everything that is not part of the program (\<open>fx_env\<close>). \<open>effect_platform\<close> has what each use of a file gets
  from the operating system, and what other processes have done to it before.

  Three fields are there for the theorems, no definition of the program reads them: \<open>fx_tools\<close> are the calls of
  tools so far, with their arguments, \<open>fx_invoked\<close> those of external effects, and \<open>fx_intact\<close> says that no record of the ledger was lost or hidden so far: other
  processes only appended, the retention bounds of the store took nothing away, no scan missed a record.
\<close>

record 's effect_platform =
  ep_printed :: "py \<Rightarrow> pystr"
  ep_params :: store_params
  ep_policy :: RetentionPolicy
  ep_store_io :: "'s \<Rightarrow> 's \<times> store_io \<times> pyfloat"
  ep_other_writers :: "'s \<Rightarrow> event_file \<Rightarrow> event_file"
  ep_lease_io :: "'s \<Rightarrow> 's \<times> lease_io"
  ep_other_holders :: "'s \<Rightarrow> lease_files \<Rightarrow> lease_files"
  ep_other_invocations :: "'s \<Rightarrow> lease_files \<Rightarrow> lease_files"
  ep_random :: "'s \<Rightarrow> 's \<times> bytes"

record invocation =
  iv_effect_id :: pystr
  iv_idempotency_key :: pystr
  iv_invocation_id_hash :: pystr
  iv_lease :: TargetLease
  iv_ledger :: event_file
  iv_targets :: lease_files

record 's effects =
  fx_env :: 's
  fx_ledger :: event_file
  fx_targets :: lease_files
  fx_invocations :: lease_files
  fx_control :: DispatchControl
  fx_intact :: bool
  fx_invoked :: "invocation list"
  fx_tools :: "(pystr \<times> (pystr \<times> py) list) list"

definition extends :: "store_params \<Rightarrow> event_file \<Rightarrow> event_file \<Rightarrow> bool" where
  "extends ps old new \<longleftrightarrow> prefix (recorded ps old) (recorded ps new)"

definition on_store ::
    "'s effect_platform \<Rightarrow> (store_io \<Rightarrow> pyfloat \<Rightarrow> event_file \<Rightarrow> event_file \<times> (exn + 'a)) \<Rightarrow> ('s effects, 'a) act" where
  "on_store P f w =
    (case ep_store_io P (fx_env w) of (s, io, now) \<Rightarrow>
       let before = ep_other_writers P s (fx_ledger w) in
       case f io now before of (after, r) \<Rightarrow>
         (w\<lparr>fx_env := s, fx_ledger := after,
            fx_intact := (fx_intact w \<and> extends (ep_params P) (fx_ledger w) before
              \<and> dropped_records (scan (ep_params P) (ep_policy P) now before) = 0 \<and> extends (ep_params P) before after)\<rparr>, r))"

definition on_targets ::
    "'s effect_platform \<Rightarrow> (lease_io \<Rightarrow> lease_files \<Rightarrow> lease_files \<times> (exn + 'a)) \<Rightarrow> ('s effects, 'a) act" where
  "on_targets P f w =
    (case ep_lease_io P (fx_env w) of (s, io) \<Rightarrow>
       case f io (ep_other_holders P s (fx_targets w)) of (files, r) \<Rightarrow> (w\<lparr>fx_env := s, fx_targets := files\<rparr>, r))"

definition on_invocations ::
    "'s effect_platform \<Rightarrow> (lease_io \<Rightarrow> lease_files \<Rightarrow> lease_files \<times> (exn + 'a)) \<Rightarrow> ('s effects, 'a) act" where
  "on_invocations P f w =
    (case ep_lease_io P (fx_env w) of (s, io) \<Rightarrow>
       case f io (ep_other_invocations P s (fx_invocations w)) of (files, r) \<Rightarrow> (w\<lparr>fx_env := s, fx_invocations := files\<rparr>, r))"

definition ask_env :: "('s \<Rightarrow> 's \<times> 'a) \<Rightarrow> ('s effects, 'a) act" where
  "ask_env f w = (case f (fx_env w) of (s, x) \<Rightarrow> (w\<lparr>fx_env := s\<rparr>, Inr x))"

text \<open>A lease after its release is not used again; the record of the world forgets it.\<close>

definition give_back :: "lease_io \<Rightarrow> TargetLease \<Rightarrow> lease_files \<Rightarrow> lease_files \<times> (exn + unit)" where
  "give_back io l files = (case release io l files of (files', _, r) \<Rightarrow> (files', r))"

section \<open>Cases\<close>

lemma on_store_cases:
  assumes "on_store P f w = (w', r)"
  obtains s io now before after where "before = ep_other_writers P s (fx_ledger w)" "f io now before = (after, r)"
    "w' = w\<lparr>fx_env := s, fx_ledger := after, fx_intact := (fx_intact w \<and> extends (ep_params P) (fx_ledger w) before
      \<and> dropped_records (scan (ep_params P) (ep_policy P) now before) = 0 \<and> extends (ep_params P) before after)\<rparr>"
  using assms by (auto simp add: on_store_def Let_def split: prod.splits)

lemma on_targets_cases:
  assumes "on_targets P f w = (w', r)"
  obtains s io files where "f io (ep_other_holders P s (fx_targets w)) = (files, r)" "w' = w\<lparr>fx_env := s, fx_targets := files\<rparr>"
  using assms by (auto simp add: on_targets_def split: prod.splits)

lemma on_invocations_cases:
  assumes "on_invocations P f w = (w', r)"
  obtains s io files where "f io (ep_other_invocations P s (fx_invocations w)) = (files, r)"
    "w' = w\<lparr>fx_env := s, fx_invocations := files\<rparr>"
  using assms by (auto simp add: on_invocations_def split: prod.splits)

lemma extends_refl [simp]: "extends ps f f"
  by (simp add: extends_def)

lemma extends_trans: "extends ps f g \<Longrightarrow> extends ps g h \<Longrightarrow> extends ps f h"
  unfolding extends_def by (rule prefix_order.trans)

text \<open>A scan that dropped nothing retains every record.\<close>

lemma intact_scan:
  assumes "policy_ok p" "sizes_positive ps" "dropped_records (scan ps p now file) = 0"
  shows "sc_retained (scan ps p now file) = recorded ps file"
proof -
  note scanned = scanned_file(1) [OF assms(1,2), of now "file", unfolded scanned_def]
  have counts: "length (live ps p now (recorded ps file)) = length (recorded ps file)"
    "length (sc_retained (scan ps p now file)) = length (live ps p now (recorded ps file))"
    using scanned assms(3) by (simp_all add: dropped_records_def)
  have "live ps p now (recorded ps file) = recorded ps file"
  proof (rule ccontr)
    assume "live ps p now (recorded ps file) \<noteq> recorded ps file"
    then obtain x where "x \<in> set (recorded ps file)" "expired ps p now (fst x)" by (auto simp add: live_def filter_id_conv)
    then have "length (live ps p now (recorded ps file)) < length (recorded ps file)"
      unfolding live_def by (intro length_filter_less) simp_all
    then show False using counts(1) by simp
  qed
  moreover have "suffix (sc_retained (scan ps p now file)) (live ps p now (recorded ps file))"
    using scanned by (simp add: newest_within_def)
  then have "sc_retained (scan ps p now file) = live ps p now (recorded ps file)"
    using counts(2) by (auto simp add: suffix_def)
  ultimately show ?thesis by simp
qed

end
