(* ===== verification/Clara_Ledger.thy ===== *)
theory Clara_Ledger
  imports Effect_World
begin

text \<open>
  \<^verbatim>\<open>algo_cli/clara_effect_ledger.py\<close>: the effect ledger, a state machine per effect kept as events in a
  private event store. The records are computed anew from all events at every call, which checks that they
  form chains.
\<close>

section \<open>States and records\<close>

datatype EffectState = ES_PREPARED | ES_STARTED | ES_APPLIED | ES_VERIFIED | ES_FAILED | ES_UNKNOWN

primrec EffectState_value :: "EffectState \<Rightarrow> string" where
  "EffectState_value ES_PREPARED = ''prepared''"
| "EffectState_value ES_STARTED = ''started''"
| "EffectState_value ES_APPLIED = ''applied''"
| "EffectState_value ES_VERIFIED = ''verified''"
| "EffectState_value ES_FAILED = ''failed''"
| "EffectState_value ES_UNKNOWN = ''unknown''"

definition EffectState_members :: "EffectState list" where
  "EffectState_members = [ES_PREPARED, ES_STARTED, ES_APPLIED, ES_VERIFIED, ES_FAILED, ES_UNKNOWN]"

primrec effect_transitions :: "EffectState \<Rightarrow> EffectState set" where
  "effect_transitions ES_PREPARED = {ES_STARTED, ES_FAILED}"
| "effect_transitions ES_STARTED = {ES_APPLIED, ES_FAILED, ES_UNKNOWN}"
| "effect_transitions ES_APPLIED = {ES_VERIFIED, ES_UNKNOWN}"
| "effect_transitions ES_UNKNOWN = {ES_VERIFIED, ES_FAILED}"
| "effect_transitions ES_VERIFIED = {}"
| "effect_transitions ES_FAILED = {}"

record EffectRecord =
  er_effect_id :: pystr
  er_idempotency_key :: pystr
  er_invocation_id_hash :: pystr
  er_action :: pystr
  er_target_hash :: pystr
  er_state :: EffectState
  er_fencing_token :: int
  er_sequence :: int
  er_reason_code :: pystr
  er_verifier :: pystr

definition terminal_effect :: "EffectRecord \<Rightarrow> bool" where
  "terminal_effect r \<longleftrightarrow> er_state r \<in> {ES_VERIFIED, ES_FAILED}"

definition hex64_text :: "pystr \<Rightarrow> bool" where
  "hex64_text s \<longleftrightarrow> length s = 64 \<and> list_all lower_hex s"

definition effect_identifier :: "pystr \<Rightarrow> string \<Rightarrow> exn + pystr" where
  "effect_identifier v label =
    (let normalized = py_strip v in rbind (require (bounded_id_text normalized) (ValueError label)) (\<lambda>_. Inr normalized))"

section \<open>Events\<close>

text \<open>An event is compared with \<open>==\<close>, as in Python, where the order of keys does not matter.\<close>

definition effect_event :: "EffectRecord \<Rightarrow> pystr \<Rightarrow> py" where
  "effect_event r previous_state = PDict
    [(str ''schema_version'', PInt 2), (str ''effect_id'', PStr (er_effect_id r)),
     (str ''idempotency_key'', PStr (er_idempotency_key r)), (str ''invocation_id_hash'', PStr (er_invocation_id_hash r)),
     (str ''action'', PStr (er_action r)), (str ''target_hash'', PStr (er_target_hash r)),
     (str ''state'', PStr (str (EffectState_value (er_state r)))), (str ''previous_state'', PStr previous_state),
     (str ''fencing_token'', PInt (er_fencing_token r)), (str ''sequence'', PInt (er_sequence r)),
     (str ''reason_code'', PStr (er_reason_code r)), (str ''verifier'', PStr (er_verifier r))]"

text \<open>The record of an event and its previous state. \<open>printed\<close> is \<open>str\<close> on values that are not texts.\<close>

definition decode_event :: "(py \<Rightarrow> pystr) \<Rightarrow> py \<Rightarrow> exn + EffectRecord \<times> pystr" where
  "decode_event printed event =
    (case event of
       PDict row \<Rightarrow>
         let get = (\<lambda>k. text_or printed row [k] '''') in
         rbind (require (map_of row (str ''schema_version'') = Some (PInt 2)) (EffectLedgerCorrupt ''schema'')) (\<lambda>_.
         case find (\<lambda>st. str (EffectState_value st) = get ''state'') EffectState_members of
           None \<Rightarrow> Inl (EffectLedgerCorrupt ''state'')
         | Some state \<Rightarrow>
             (case (map_of row (str ''fencing_token''), map_of row (str ''sequence'')) of
                (Some (PInt token), Some (PInt sequence)) \<Rightarrow>
                  rbind (require (bounded_id_text (get ''effect_id'') \<and> hex64_text (get ''idempotency_key'')
                      \<and> hex64_text (get ''invocation_id_hash'') \<and> bounded_id_text (get ''action'') \<and> hex64_text (get ''target_hash'')
                      \<and> (get ''reason_code'' = [] \<or> bounded_id_text (get ''reason_code''))
                      \<and> (get ''verifier'' = [] \<or> bounded_id_text (get ''verifier'')) \<and> 0 < token \<and> 0 \<le> sequence)
                    (EffectLedgerCorrupt ''event'')) (\<lambda>_.
                  Inr (\<lparr>er_effect_id = get ''effect_id'', er_idempotency_key = get ''idempotency_key'',
                    er_invocation_id_hash = get ''invocation_id_hash'', er_action = get ''action'', er_target_hash = get ''target_hash'',
                    er_state = state, er_fencing_token = token, er_sequence = sequence, er_reason_code = get ''reason_code'',
                    er_verifier = get ''verifier''\<rparr>, get ''previous_state''))
              | _ \<Rightarrow> Inl (EffectLedgerCorrupt ''event'')))
     | _ \<Rightarrow> Inl (OtherError ''AttributeError''))"

section \<open>Records\<close>

record ledger_view =
  lv_latest :: "(pystr \<times> EffectRecord) list"
  lv_keys :: "(pystr \<times> pystr) list"
  lv_invocation_ids :: "(pystr \<times> pystr) list"

definition empty_view :: ledger_view where
  "empty_view = \<lparr>lv_latest = [], lv_keys = [], lv_invocation_ids = []\<rparr>"

definition same_identity :: "EffectRecord \<Rightarrow> EffectRecord \<Rightarrow> bool" where
  "same_identity r prior \<longleftrightarrow> er_idempotency_key r = er_idempotency_key prior
     \<and> er_invocation_id_hash r = er_invocation_id_hash prior \<and> er_action r = er_action prior
     \<and> er_target_hash r = er_target_hash prior \<and> er_fencing_token r = er_fencing_token prior"

definition chained :: "EffectRecord \<Rightarrow> pystr \<Rightarrow> EffectRecord option \<Rightarrow> exn + unit" where
  "chained r previous prior =
    (case prior of None \<Rightarrow> Inr ()
     | Some p \<Rightarrow>
         rbind (require (er_sequence r = er_sequence p + 1 \<and> previous = str (EffectState_value (er_state p)))
           (EffectLedgerCorrupt ''chain'')) (\<lambda>_.
         require (same_identity r p) (EffectLedgerCorrupt ''identity'')))"

definition admit :: "EffectRecord \<Rightarrow> pystr \<Rightarrow> ledger_view \<Rightarrow> exn + ledger_view" where
  "admit r previous v =
    rbind (chained r previous (map_of (lv_latest v) (er_effect_id r))) (\<lambda>_.
    rbind (require (map_of (lv_keys v) (er_idempotency_key r) \<in> {None, Some (er_effect_id r)})
      (EffectLedgerCorrupt ''idempotency_key'')) (\<lambda>_.
    rbind (require (map_of (lv_invocation_ids v) (er_invocation_id_hash r) \<in> {None, Some (er_effect_id r)})
      (EffectLedgerCorrupt ''invocation_id'')) (\<lambda>_.
    Inr \<lparr>lv_latest = dict_put (er_effect_id r) r (lv_latest v),
      lv_keys = dict_put (er_idempotency_key r) (er_effect_id r) (lv_keys v),
      lv_invocation_ids = dict_put (er_invocation_id_hash r) (er_effect_id r) (lv_invocation_ids v)\<rparr>)))"

fun admit_all :: "(py \<Rightarrow> pystr) \<Rightarrow> py list \<Rightarrow> ledger_view \<Rightarrow> exn + ledger_view" where
  "admit_all printed [] v = Inr v"
| "admit_all printed (event # events) v =
    rbind (decode_event printed event) (\<lambda>(r, previous). rbind (admit r previous v) (admit_all printed events))"

section \<open>Operations\<close>

definition ledger_records :: "'s effect_platform \<Rightarrow> ('s effects, (pystr \<times> EffectRecord) list) act" where
  "ledger_records P =
    andthen (on_store P (\<lambda>io now file. (file, read_events (ep_params P) (ep_policy P) io now None file))) (\<lambda>events.
    lift_result (rbind (admit_all (ep_printed P) events empty_view) (\<lambda>v. Inr (lv_latest v))))"

definition ledger_get :: "'s effect_platform \<Rightarrow> pystr \<Rightarrow> ('s effects, EffectRecord option) act" where
  "ledger_get P effect_id = andthen (ledger_records P) (\<lambda>records. done_with (map_of records effect_id))"

definition find_by_idempotency :: "'s effect_platform \<Rightarrow> pystr \<Rightarrow> ('s effects, EffectRecord option) act" where
  "find_by_idempotency P key =
    andthen (ledger_records P) (\<lambda>records. done_with (find (\<lambda>r. er_idempotency_key r = key) (map snd records)))"

definition ledger_append :: "'s effect_platform \<Rightarrow> EffectRecord \<Rightarrow> pystr \<Rightarrow> ('s effects, unit) act" where
  "ledger_append P r previous_state =
    andthen (on_store P (\<lambda>io now. store_append (ep_params P) (ep_policy P) io now (effect_event r previous_state))) (\<lambda>maintenance.
    if mr_stored maintenance then done_with () else throw (EffectLedgerError ''not_stored''))"

definition prepare_body ::
    "'s effect_platform \<Rightarrow> pystr \<Rightarrow> pystr \<Rightarrow> pystr \<Rightarrow> pystr \<Rightarrow> int \<Rightarrow> ('s effects, EffectRecord \<times> bool) act" where
  "prepare_body P key invocation_hash action_name target fencing_token =
    andthen (ledger_records P) (\<lambda>records.
    case find (\<lambda>r. er_idempotency_key r = key) (map snd records) of
      Some existing \<Rightarrow> done_with (existing, False)
    | None \<Rightarrow>
        if invocation_hash \<in> er_invocation_id_hash ` snd ` set records then throw (InvocationReplayConflict ''invocation_id'')
        else
          andthen (ask_env (ep_random P)) (\<lambda>random.
          andthen (lift_result (target_digest target)) (\<lambda>digest.
          let r = \<lparr>er_effect_id = str ''effect-'' @ uuid_hex random, er_idempotency_key = key,
                er_invocation_id_hash = invocation_hash, er_action = action_name, er_target_hash = digest, er_state = ES_PREPARED,
                er_fencing_token = fencing_token, er_sequence = 0, er_reason_code = [], er_verifier = []\<rparr> in
          andthen (ledger_append P r []) (\<lambda>_.
          done_with (r, True)))))"

definition ledger_prepare ::
    "'s effect_platform \<Rightarrow> pystr \<Rightarrow> pystr \<Rightarrow> pystr \<Rightarrow> pystr \<Rightarrow> int \<Rightarrow> ('s effects, EffectRecord \<times> bool) act" where
  "ledger_prepare P key invocation_hash action target fencing_token =
    andthen (lift_result (rbind (require (hex64_text key) (ValueError ''idempotency_key'')) (\<lambda>_.
      rbind (require (hex64_text invocation_hash) (ValueError ''invocation_id_hash'')) (\<lambda>_.
      rbind (effect_identifier action ''action'') (\<lambda>action_name.
      rbind (require (0 < fencing_token) (ValueError ''fencing_token'')) (\<lambda>_. Inr action_name)))))) (\<lambda>action_name.
    andthen (on_invocations P (\<lambda>io. acquire io (str ''invocation:'' @ invocation_hash) None (Finite 60))) (\<lambda>lease.
    ensuring (prepare_body P key invocation_hash action_name target fencing_token)
      (on_invocations P (\<lambda>io. give_back io lease))))"

definition next_record :: "EffectRecord \<Rightarrow> EffectState \<Rightarrow> pystr \<Rightarrow> pystr \<Rightarrow> EffectRecord" where
  "next_record current new_state reason_code verifier =
    current\<lparr>er_state := new_state, er_sequence := er_sequence current + 1, er_reason_code := reason_code, er_verifier := verifier\<rparr>"

definition ledger_transition ::
    "'s effect_platform \<Rightarrow> pystr \<Rightarrow> EffectState \<Rightarrow> int \<Rightarrow> pystr \<Rightarrow> pystr \<Rightarrow> ('s effects, EffectRecord) act" where
  "ledger_transition P effect_id new_state fencing_token reason_code verifier =
    andthen (lift_result (if reason_code = [] then Inr [] else effect_identifier reason_code ''reason_code'')) (\<lambda>safe_reason.
    andthen (lift_result (if verifier = [] then Inr [] else effect_identifier verifier ''verifier'')) (\<lambda>safe_verifier.
    andthen (ledger_get P effect_id) (\<lambda>found.
    case found of None \<Rightarrow> throw (EffectLedgerError ''missing'')
    | Some current \<Rightarrow>
        if fencing_token \<noteq> er_fencing_token current then throw (StaleFencingToken ''transition'')
        else if new_state \<notin> effect_transitions (er_state current) then throw (InvalidEffectTransition ''transition'')
        else
          let updated = next_record current new_state safe_reason safe_verifier in
          andthen (ledger_append P updated (str (EffectState_value (er_state current)))) (\<lambda>_.
          done_with updated))))"

definition ledger_reconcile :: "'s effect_platform \<Rightarrow> pystr \<Rightarrow> int \<Rightarrow> bool \<Rightarrow> pystr \<Rightarrow> ('s effects, EffectRecord) act" where
  "ledger_reconcile P effect_id fencing_token observed_applied verifier =
    ledger_transition P effect_id (if observed_applied then ES_VERIFIED else ES_FAILED) fencing_token
      (str (if observed_applied then ''reconciled_applied'' else ''reconciled_not_applied'')) verifier"

definition ledger_recover_prepared :: "'s effect_platform \<Rightarrow> pystr \<Rightarrow> int \<Rightarrow> ('s effects, EffectRecord) act" where
  "ledger_recover_prepared P effect_id recovery_fencing_token =
    andthen (ledger_get P effect_id) (\<lambda>found.
    case found of None \<Rightarrow> throw (EffectLedgerError ''missing'')
    | Some current \<Rightarrow>
        if er_state current \<noteq> ES_PREPARED then throw (InvalidEffectTransition ''recovery'')
        else if recovery_fencing_token \<le> er_fencing_token current then throw (StaleFencingToken ''recovery'')
        else ledger_transition P effect_id ES_FAILED (er_fencing_token current) (str ''recovered_before_dispatch'')
          (str ''newer_target_fence''))"

end
