(* ===== verification/Arthur_Outcomes.thy ===== *)
theory Arthur_Outcomes
  imports Marcus_Authority Py_Json
begin

text \<open>
  \<^verbatim>\<open>algo_cli/arthur_outcomes.py\<close>: how the text a tool returned and the status reported for it become a typed
  outcome, which says whether the action may be tried again.

  \<open>interpreter\<close> has what differs between Python versions and hosts: case mapping, the text of values, and
  the nesting depth at which the JSON scanner raises \<open>RecursionError\<close>.
\<close>

record interpreter =
  in_unicode :: unicode
  in_printed :: "py \<Rightarrow> pystr"
  in_json_depth :: nat

section \<open>JSON with the default hooks\<close>

text \<open>A repeated key keeps its last value; an \<open>int\<close> of more than 4300 digits is a \<open>ValueError\<close>.\<close>

definition plain_hooks :: json_hooks where
  "plain_hooks =
    \<lparr>object_pairs_hook = (\<lambda>pairs. Inr (PDict (foldl (\<lambda>row (k, v). dict_put k v row) [] pairs))),
     parse_int = (\<lambda>s. if 4300 < length (filter digit s) then Inl (ValueError ''digits'') else Inr (PInt (int_of_text s))),
     parse_float = (\<lambda>_. Inr POther), parse_constant = (\<lambda>_. Inr POther)\<rparr>"

definition plain_loads :: "interpreter \<Rightarrow> pystr \<Rightarrow> exn + py" where
  "plain_loads I s = json_loads plain_hooks (in_json_depth I) s"

text \<open>\<open>s in t\<close>.\<close>

fun text_in :: "pystr \<Rightarrow> pystr \<Rightarrow> bool" where
  "text_in s [] = (s = [])"
| "text_in s (c # t) = (take (length s) (c # t) = s \<or> text_in s t)"

section \<open>Outcomes\<close>

datatype OutcomeStatus =
  OS_SUCCEEDED | OS_FAILED | OS_DENIED | OS_SKIPPED | OS_TIMED_OUT | OS_CANCELLED | OS_UNKNOWN_OUTCOME

datatype VerificationStatus = VS_NOT_REQUIRED | VS_PASSED | VS_PENDING | VS_FAILED | VS_UNKNOWN

record ActionOutcome =
  ao_action :: pystr
  ao_status :: OutcomeStatus
  ao_result :: pystr
  ao_invoked :: bool
  ao_retry_allowed :: bool
  ao_verification :: VerificationStatus
  ao_effect_id :: pystr
  ao_idempotency_key :: pystr
  ao_fencing_token :: int
  ao_error_code :: pystr
  ao_deduplicated :: bool
  ao_compensation_action :: pystr
  ao_explicit_memory_write :: bool

definition worked :: "ActionOutcome \<Rightarrow> bool" where
  "worked o' \<longleftrightarrow> ao_status o' = OS_SUCCEEDED"

definition is_unknown :: "ActionOutcome \<Rightarrow> bool" where
  "is_unknown o' \<longleftrightarrow> ao_status o' = OS_UNKNOWN_OUTCOME"

definition with_warning :: "pystr \<Rightarrow> string \<Rightarrow> pystr" where
  "with_warning message warning = (if py_strip message \<noteq> [] then message @ [10, 10] @ str warning else str warning)"

definition model_text :: "interpreter \<Rightarrow> ActionOutcome \<Rightarrow> pystr" where
  "model_text I o' =
    (let message = ao_result o'; folded = py_casefold (in_unicode I) message in
     if is_unknown o' \<and> \<not> text_in (str ''unknown outcome'') folded
     then with_warning message
       ''Unknown outcome: the action may have taken effect. Do not retry automatically; reconcile with a fresh observation first.''
     else if ao_status o' = OS_TIMED_OUT \<and> \<not> text_in (str ''timed out outcome'') folded
     then with_warning message ''Timed out outcome: the action exceeded its dispatch deadline.''
     else if ao_status o' = OS_CANCELLED \<and> \<not> text_in (str ''cancelled outcome'') folded
     then with_warning message ''Cancelled outcome: the caller stopped the action.''
     else message)"

definition LOCAL_FILE_MUTATIONS :: "string list" where
  "LOCAL_FILE_MUTATIONS = [''write_file'', ''edit_file'', ''batch_edit'']"

text \<open>The handler of \<open>json.loads\<close> names \<open>TypeError\<close> and \<open>ValueError\<close>, so a \<open>RecursionError\<close> leaves the function.\<close>

definition known_no_effect_failure :: "interpreter \<Rightarrow> ResolvedAction \<Rightarrow> pystr \<Rightarrow> exn + bool" where
  "known_no_effect_failure I action result =
    (let message = py_lstrip result in
     if ra_name action \<in> str ` set LOCAL_FILE_MUTATIONS \<and> py_casefold (in_unicode I) (take 6 message) = str ''error:'' then Inr True
     else if ra_name action \<noteq> str ''action_program'' \<or> take 1 message \<noteq> str ''{'' then Inr False
     else
       (case plain_loads I message of
          Inl RecursionError \<Rightarrow> Inl RecursionError
        | Inr (PDict row) \<Rightarrow>
            Inr (py_casefold (in_unicode I) (py_strip (text_or (in_printed I) row [''status''] ''''))
              \<in> str ` {''failed'', ''error'', ''failure''})
        | _ \<Rightarrow> Inr False))"

definition reported :: "interpreter \<Rightarrow> pystr \<Rightarrow> pystr" where
  "reported I reported_status = py_casefold (in_unicode I) (py_strip reported_status)"

definition outcome_status :: "interpreter \<Rightarrow> ResolvedAction \<Rightarrow> pystr \<Rightarrow> pystr \<Rightarrow> bool \<Rightarrow> exn + OutcomeStatus" where
  "outcome_status I action result reported_status invoked =
    (let normalized = reported I reported_status in
     if normalized = str ''denied'' then Inr OS_DENIED
     else if normalized = str ''skipped'' then Inr OS_SKIPPED
     else if normalized \<in> str ` {''timed_out'', ''timeout''} then Inr OS_TIMED_OUT
     else if normalized \<in> str ` {''cancelled'', ''canceled''} then Inr OS_CANCELLED
     else if normalized \<in> str ` {''worked'', ''succeeded'', ''success''} then Inr OS_SUCCEEDED
     else if normalized = str ''unknown_outcome'' then Inr OS_UNKNOWN_OUTCOME
     else if invoked \<and> ra_effect_class action \<noteq> EC_OBSERVE \<and> ra_outcome_model action = OM_UNKNOWN_POSSIBLE then
       rbind (known_no_effect_failure I action result) (\<lambda>known. Inr (if known then OS_FAILED else OS_UNKNOWN_OUTCOME))
     else Inr OS_FAILED)"

definition outcome_verification :: "ResolvedAction \<Rightarrow> OutcomeStatus \<Rightarrow> VerificationStatus" where
  "outcome_verification action status =
    (if status = OS_UNKNOWN_OUTCOME then VS_UNKNOWN
     else if status \<noteq> OS_SUCCEEDED then VS_FAILED
     else if ra_verification action \<in> {VR_NONE, VR_STRUCTURED_RESULT} then VS_PASSED
     else VS_PENDING)"

definition retry_allowed :: "ResolvedAction \<Rightarrow> OutcomeStatus \<Rightarrow> bool \<Rightarrow> bool" where
  "retry_allowed action status invoked \<longleftrightarrow> status \<in> {OS_FAILED, OS_TIMED_OUT, OS_CANCELLED}
     \<and> (\<not> invoked \<or> ra_idempotency action \<in> {IC_PURE, IC_IDEMPOTENT})"

text \<open>The identity of the effect, which the dispatcher adds to an outcome.\<close>

record effect_ref =
  fr_effect_id :: pystr
  fr_idempotency_key :: pystr
  fr_fencing_token :: int
  fr_error_code :: pystr
  fr_deduplicated :: bool

definition no_effect :: effect_ref where
  "no_effect = \<lparr>fr_effect_id = [], fr_idempotency_key = [], fr_fencing_token = 0, fr_error_code = [], fr_deduplicated = False\<rparr>"

definition normalize_action_outcome ::
    "interpreter \<Rightarrow> ResolvedAction \<Rightarrow> pystr \<Rightarrow> pystr \<Rightarrow> bool \<Rightarrow> effect_ref \<Rightarrow> exn + ActionOutcome" where
  "normalize_action_outcome I action result reported_status invoked fr =
    rbind (outcome_status I action result reported_status invoked) (\<lambda>status.
    Inr \<lparr>ao_action = ra_name action, ao_status = status, ao_result = result, ao_invoked = invoked,
      ao_retry_allowed = retry_allowed action status invoked, ao_verification = outcome_verification action status,
      ao_effect_id = fr_effect_id fr, ao_idempotency_key = fr_idempotency_key fr, ao_fencing_token = fr_fencing_token fr,
      ao_error_code = fr_error_code fr, ao_deduplicated = fr_deduplicated fr,
      ao_compensation_action = ra_compensation_action action, ao_explicit_memory_write = False\<rparr>)"

end
