(* ===== verification/James_External.thy ===== *)
theory James_External
  imports Clara_Ledger Arthur_Outcomes
begin

text \<open>
  \<^verbatim>\<open>algo_cli/james_dispatch.py\<close>: the run of one external effect under a target lease. The effect is recorded as
  prepared and as started before the tool is called, and its outcome is recorded afterwards.

  The tool, the verifiers of effects, the classification of result texts and the clock are fields of \<open>dispatcher\<close>.
  The measured duration, which only telemetry uses, is left out.
\<close>

section \<open>The dispatcher\<close>

text \<open>
  What a call of a tool gives: its text, the name of the exception it raised, an interrupt of the keyboard, or
  nothing because the process ended. A verifier answers, raises, is interrupted, or the process ends; an answer
  that is not a \<open>bool\<close> counts as no observation.
\<close>

datatype tool_reply = Returned pystr | Tool_raised string | Tool_interrupted | Process_ended

datatype verifier_reply = Observed bool | Not_observed | Verifier_raised | Verifier_interrupted | Verifier_ended

record 's effect_verifier =
  vf_name :: pystr
  vf_observe :: "ResolvedAction \<Rightarrow> pystr \<Rightarrow> 's \<Rightarrow> 's \<times> verifier_reply"

record 's dispatcher =
  dp_platform :: "'s effect_platform"
  dp_interpreter :: interpreter
  dp_cancel_requests :: "'s \<Rightarrow> 's \<times> pystr list"
  dp_monotonic :: "'s \<Rightarrow> 's \<times> (exn + pyfloat)"
  dp_lease_clock :: "'s \<Rightarrow> 's \<times> (exn + pyfloat)"
  dp_invoke :: "pystr \<Rightarrow> (pystr \<times> py) list \<Rightarrow> 's \<Rightarrow> 's \<times> tool_reply"
  dp_classify :: "pystr \<Rightarrow> pystr \<Rightarrow> exn + pystr"
  dp_verifiers :: "pystr \<Rightarrow> 's effect_verifier option"

text \<open>\<open>type(exc).__name__\<close>.\<close>

primrec exn_name :: "exn \<Rightarrow> string" where
  "exn_name (FrameRejected _) = ''FrameRejected''"
| "exn_name (SchemaRejected _) = ''SchemaRejected''"
| "exn_name (AuthorityRejected _) = ''AuthorityRejected''"
| "exn_name (PermitRejected _) = ''PermitRejected''"
| "exn_name (ControlJournalError _) = ''ControlJournalError''"
| "exn_name (ControlJournalCorrupt _) = ''ControlJournalCorrupt''"
| "exn_name (ControlJournalRejected _) = ''ControlJournalRejected''"
| "exn_name (ControlRuntimeError _) = ''ControlRuntimeError''"
| "exn_name (KeyStoreError _) = ''KeyStoreError''"
| "exn_name (ReceiptAnchorStoreError _) = ''ReceiptAnchorStoreError''"
| "exn_name (AuthorityRotationAnchorStoreError _) = ''AuthorityRotationAnchorStoreError''"
| "exn_name (SimulatedControlCrash _) = ''SimulatedControlCrash''"
| "exn_name (EffectLedgerError _) = ''EffectLedgerError''"
| "exn_name (EffectLedgerCorrupt _) = ''EffectLedgerCorrupt''"
| "exn_name (InvalidEffectTransition _) = ''InvalidEffectTransition''"
| "exn_name (StaleFencingToken _) = ''StaleFencingToken''"
| "exn_name (InvocationReplayConflict _) = ''InvocationReplayConflict''"
| "exn_name (EffectLeaseError _) = ''EffectLeaseError''"
| "exn_name (EffectLeaseBusy _) = ''EffectLeaseBusy''"
| "exn_name (EffectLeaseStateError _) = ''EffectLeaseStateError''"
| "exn_name (EventTooLargeError _) = ''EventTooLargeError''"
| "exn_name (OSError _) = ''OSError''"
| "exn_name (ValueError _) = ''ValueError''"
| "exn_name (KeyError _) = ''KeyError''"
| "exn_name TypeError = ''TypeError''"
| "exn_name UnicodeError = ''UnicodeEncodeError''"
| "exn_name JSONDecodeError = ''JSONDecodeError''"
| "exn_name RecursionError = ''RecursionError''"
| "exn_name (OtherError s) = s"
| "exn_name Interrupted = ''KeyboardInterrupt''"

section \<open>Control\<close>

definition set_control :: "(DispatchControl \<Rightarrow> DispatchControl) \<Rightarrow> ('s effects, unit) act" where
  "set_control f w = (w\<lparr>fx_control := f (fx_control w)\<rparr>, Inr ())"

definition get_control :: "('s effects, DispatchControl) act" where
  "get_control w = (w, Inr (fx_control w))"

text \<open>Other threads may have cancelled the dispatch before it looks.\<close>

definition dispatch_signal :: "'s dispatcher \<Rightarrow> ('s effects, stop_signal option) act" where
  "dispatch_signal D =
    andthen (ask_env (dp_cancel_requests D)) (\<lambda>requests.
    andthen (set_control (fold cancel_control requests)) (\<lambda>_.
    andthen get_control (\<lambda>ct.
    case before_clock ct of
      Stop stop \<Rightarrow> done_with (Some stop)
    | Go_on \<Rightarrow> done_with None
    | Deadline d \<Rightarrow>
        andthen (ask_env (dp_monotonic D)) (\<lambda>clock.
        if clock = Inl Interrupted then throw Interrupted
        else
          (case after_clock d clock ct of (ct', stop) \<Rightarrow>
             andthen (set_control (\<lambda>_. ct')) (\<lambda>_. done_with stop))))))"

definition lease_valid :: "'s dispatcher \<Rightarrow> TargetLease \<Rightarrow> ('s effects, bool) act" where
  "lease_valid D lease =
    andthen (ask_env (dp_lease_clock D)) (\<lambda>clock.
    if clock = Inl Interrupted then throw Interrupted
    else on_targets (dp_platform D) (\<lambda>io files. (files, validate_lease clock lease files)))"

section \<open>Outcomes\<close>

definition outcome ::
    "'s dispatcher \<Rightarrow> ResolvedAction \<Rightarrow> pystr \<Rightarrow> pystr \<Rightarrow> bool \<Rightarrow> effect_ref \<Rightarrow> ('s effects, ActionOutcome) act" where
  "outcome D action result reported_status invoked fr =
    lift_result (normalize_action_outcome (dp_interpreter D) action result reported_status invoked fr)"

definition termination_outcome ::
    "'s dispatcher \<Rightarrow> ResolvedAction \<Rightarrow> stop_signal \<Rightarrow> bool \<Rightarrow> pystr \<Rightarrow> effect_ref \<Rightarrow> ('s effects, ActionOutcome) act" where
  "termination_outcome D action stop invoked result fr =
    (let status = fst stop;
         message = (if result \<noteq> [] then result
           else if status = str ''cancelled'' then str ''Action was cancelled before dispatch.''
           else if status = str ''timed_out'' then str ''Action deadline elapsed before dispatch.''
           else str ''Action was not dispatched because its timing control was invalid.'');
         uncertain = (invoked \<and> ra_effect_class action \<noteq> EC_OBSERVE);
         reason_code = (if \<not> uncertain then snd stop
           else if status = str ''cancelled'' then str ''cancelled_after_dispatch''
           else if status = str ''timed_out'' then str ''deadline_after_dispatch''
           else snd stop) in
     outcome D action message (if uncertain then str ''failed'' else status) invoked (fr\<lparr>fr_error_code := reason_code\<rparr>))"

section \<open>Duplicates\<close>

definition record_ref :: "EffectRecord \<Rightarrow> effect_ref" where
  "record_ref r = \<lparr>fr_effect_id = er_effect_id r, fr_idempotency_key = er_idempotency_key r, fr_fencing_token = er_fencing_token r,
     fr_error_code = [], fr_deduplicated = True\<rparr>"

definition no_retry :: "ActionOutcome \<Rightarrow> ActionOutcome" where
  "no_retry o' = o'\<lparr>ao_retry_allowed := False\<rparr>"

definition deduplicated_outcome :: "'s dispatcher \<Rightarrow> EffectRecord \<Rightarrow> ResolvedAction \<Rightarrow> TargetLease \<Rightarrow> ('s effects, ActionOutcome) act" where
  "deduplicated_outcome D r action lease =
    (case er_state r of
       ES_VERIFIED \<Rightarrow>
         andthen (outcome D action (str ''Effect was already verified; duplicate invocation was not executed.'') (str ''worked'') False
           (record_ref r)) (\<lambda>o'. done_with (o'\<lparr>ao_verification := VS_PASSED\<rparr>))
     | ES_FAILED \<Rightarrow>
         andthen (outcome D action (str ''Effect was previously reconciled as not applied; duplicate invocation was not executed.'')
           (str ''failed'') False ((record_ref r)\<lparr>fr_error_code := str ''deduplicated_failed_effect''\<rparr>)) (\<lambda>o'. done_with (no_retry o'))
     | ES_PREPARED \<Rightarrow>
         andthen (attempt (ledger_recover_prepared (dp_platform D) (er_effect_id r) (tl_fencing_token lease))) (\<lambda>recovery.
         case recovery of
           Inl e \<Rightarrow>
             andthen (outcome D action (str ''Pre-dispatch effect recovery failed; duplicate invocation was not executed.'')
               (str ''failed'') False ((record_ref r)\<lparr>fr_error_code := str (exn_name e)\<rparr>)) (\<lambda>o'. done_with (no_retry o'))
         | Inr recovered \<Rightarrow>
             andthen (outcome D action (str ''A prepared effect was recovered as not dispatched after restart.'')
               (str ''failed'') False ((record_ref recovered)\<lparr>fr_error_code := str ''recovered_before_dispatch''\<rparr>))
               (\<lambda>o'. done_with (no_retry o')))
     | _ \<Rightarrow>
         outcome D action (str ''A matching effect is pending or uncertain; duplicate invocation was not executed.'')
           (str ''failed'') True ((record_ref r)\<lparr>fr_error_code := str ''deduplicated_unknown_effect''\<rparr>))"

section \<open>The run of an effect\<close>

text \<open>A failure of the ledger after the effect was prepared: the outcome carries the name of the exception.\<close>

definition ledger_fault ::
    "'s dispatcher \<Rightarrow> ResolvedAction \<Rightarrow> string \<Rightarrow> effect_ref \<Rightarrow> exn \<Rightarrow> ('s effects, ActionOutcome) act" where
  "ledger_fault D action message fr e =
    outcome D action (str message) (str ''failed'') False (fr\<lparr>fr_error_code := str (exn_name e)\<rparr>)"

text \<open>To record that the effect was not dispatched, and report \<open>stopped\<close>.\<close>

definition fail_undispatched ::
    "'s dispatcher \<Rightarrow> ResolvedAction \<Rightarrow> TargetLease \<Rightarrow> effect_ref \<Rightarrow> pystr \<Rightarrow> string \<Rightarrow> ('s effects, ActionOutcome) act \<Rightarrow>
     ('s effects, ActionOutcome) act" where
  "fail_undispatched D action lease fr reason_code message stopped =
    andthen (attempt (ledger_transition (dp_platform D) (fr_effect_id fr) ES_FAILED (tl_fencing_token lease) reason_code [])) (\<lambda>r.
    case r of Inl e \<Rightarrow> ledger_fault D action message fr e | Inr _ \<Rightarrow> stopped)"

text \<open>The call of the tool, noted for the theorems; every exception becomes a text.\<close>

definition note_tool :: "pystr \<Rightarrow> (pystr \<times> py) list \<Rightarrow> ('s effects, unit) act" where
  "note_tool name args w = (w\<lparr>fx_tools := fx_tools w @ [(name, args)]\<rparr>, Inr ())"

definition invoke_tool ::
    "'s dispatcher \<Rightarrow> pystr \<Rightarrow> (pystr \<times> py) list \<Rightarrow> ('s effects, pystr) act" where
  "invoke_tool D name args =
    andthen (note_tool name args) (\<lambda>_.
    andthen (ask_env (dp_invoke D name args)) (\<lambda>reply.
    case reply of
      Returned result \<Rightarrow> done_with result
    | Tool_raised exception \<Rightarrow> done_with (str ''Tool error for '' @ name @ str '': '' @ str exception)
    | Tool_interrupted \<Rightarrow>
        andthen (set_control interrupt_control) (\<lambda>_.
        done_with (str ''Tool error for '' @ name @ str '': KeyboardInterrupt''))
    | Process_ended \<Rightarrow> throw Interrupted))"

text \<open>The call of the tool for an external effect, noted for the theorems.\<close>

definition note_invocation :: "EffectRecord \<Rightarrow> TargetLease \<Rightarrow> ('s effects, unit) act" where
  "note_invocation r lease w = (w\<lparr>fx_invoked := fx_invoked w @ [\<lparr>iv_effect_id = er_effect_id r, iv_idempotency_key = er_idempotency_key r,
     iv_invocation_id_hash = er_invocation_id_hash r, iv_lease = lease, iv_ledger = fx_ledger w, iv_targets = fx_targets w\<rparr>]\<rparr>, Inr ())"

definition observe_effect ::
    "'s dispatcher \<Rightarrow> pystr \<Rightarrow> ResolvedAction \<Rightarrow> pystr \<Rightarrow> stop_signal option \<Rightarrow>
     ('s effects, bool option \<times> pystr \<times> stop_signal option) act" where
  "observe_effect D name action raw_result stop =
    andthen get_control (\<lambda>ct.
    case (if ct_interrupted ct then None else dp_verifiers D name) of
      None \<Rightarrow> done_with (None, [], stop)
    | Some verifier \<Rightarrow>
        let verifier_name = (if bounded_id_text (vf_name verifier) then vf_name verifier else str ''effect_verifier'') in
        andthen (ask_env (vf_observe verifier action raw_result)) (\<lambda>reply.
        case reply of
          Observed b \<Rightarrow> done_with (Some b, verifier_name, stop)
        | Verifier_interrupted \<Rightarrow>
            andthen (set_control interrupt_control) (\<lambda>_.
            andthen (dispatch_signal D) (\<lambda>stop'. done_with (None, verifier_name, stop')))
        | Verifier_ended \<Rightarrow> throw Interrupted
        | _ \<Rightarrow> done_with (None, verifier_name, stop)))"

text \<open>
  What is recorded after a call that kept its lease: \<open>None\<close> goes on to the uncertain outcome. The exceptions of
  this part are handled by the caller.
\<close>

definition settle_effect ::
    "'s dispatcher \<Rightarrow> pystr \<Rightarrow> ResolvedAction \<Rightarrow> TargetLease \<Rightarrow> effect_ref \<Rightarrow> pystr \<Rightarrow> pystr \<Rightarrow> stop_signal option \<Rightarrow>
     ('s effects, ActionOutcome option \<times> stop_signal option) act" where
  "settle_effect D name action lease fr raw_result raw_status stop =
    (let P = dp_platform D; effect_id = fr_effect_id fr; token = tl_fencing_token lease;
         applied = (raw_status = str ''worked'') in
     andthen (if applied then ledger_transition P effect_id ES_APPLIED token [] []
       else ledger_transition P effect_id ES_UNKNOWN token
         (case stop of Some st \<Rightarrow> post_dispatch_termination_reason st | None \<Rightarrow> str ''invocation_reported_failure'') []) (\<lambda>_.
     andthen (observe_effect D name action raw_result stop) (\<lambda>(observed, verifier_name, stop).
     case observed of
       Some True \<Rightarrow>
         andthen (if applied then ledger_transition P effect_id ES_VERIFIED token (str ''postcondition_passed'') verifier_name
           else ledger_reconcile P effect_id token True verifier_name) (\<lambda>_.
         andthen (outcome D action raw_result (str ''worked'') True fr) (\<lambda>o'.
         done_with (Some (o'\<lparr>ao_verification := VS_PASSED,
           ao_error_code := (case stop of Some st \<Rightarrow> post_dispatch_termination_reason st | None \<Rightarrow> [])\<rparr>), stop)))
     | Some False \<Rightarrow>
         andthen (if applied then andthen (ledger_transition P effect_id ES_UNKNOWN token (str ''postcondition_failed'') verifier_name) (\<lambda>_. done_with ())
           else done_with ()) (\<lambda>_.
         andthen (ledger_reconcile P effect_id token False verifier_name) (\<lambda>_.
         andthen (outcome D action raw_result (str ''failed'') False (fr\<lparr>fr_error_code := str ''postcondition_failed''\<rparr>)) (\<lambda>o'.
         done_with (Some (o'\<lparr>ao_invoked := True, ao_retry_allowed := False\<rparr>), stop))))
     | None \<Rightarrow>
         andthen (if applied then andthen (ledger_transition P effect_id ES_UNKNOWN token
             (case stop of Some st \<Rightarrow> post_dispatch_termination_reason st | None \<Rightarrow> str ''postcondition_unavailable'') []) (\<lambda>_. done_with ())
           else done_with ()) (\<lambda>_.
         done_with (None, stop)))))"

text \<open>After the call: the lease, the status of the result and the control of the dispatch.\<close>

definition after_call ::
    "'s dispatcher \<Rightarrow> pystr \<Rightarrow> ResolvedAction \<Rightarrow> TargetLease \<Rightarrow> effect_ref \<Rightarrow> pystr \<Rightarrow> ('s effects, ActionOutcome) act" where
  "after_call D name action lease fr raw_result =
    (let uncertain = (\<lambda>code. outcome D action raw_result (str ''failed'') True (fr\<lparr>fr_error_code := code\<rparr>)) in
     andthen (attempt (lease_valid D lease)) (\<lambda>fence.
     let fence_error_code = (case fence of Inr True \<Rightarrow> [] | Inr False \<Rightarrow> str ''stale_fence_after_dispatch''
       | Inl e \<Rightarrow> str (''fence_validation_'' @ exn_name e)) in
     if fence_error_code \<noteq> [] then
       andthen (attempt (ledger_transition (dp_platform D) (fr_effect_id fr) ES_UNKNOWN (tl_fencing_token lease)
         (str ''stale_fence_after_dispatch'') [])) (\<lambda>r.
       uncertain (case r of Inl e \<Rightarrow> str (''fence_receipt_'' @ exn_name e) | Inr _ \<Rightarrow> fence_error_code))
     else
       andthen (lift_result (dp_classify D raw_result name)) (\<lambda>raw_status.
       andthen (dispatch_signal D) (\<lambda>stop.
       andthen (attempt (settle_effect D name action lease fr raw_result raw_status stop)) (\<lambda>r.
       case r of
         Inl e \<Rightarrow> uncertain (str (exn_name e))
       | Inr (Some o', _) \<Rightarrow> done_with o'
       | Inr (None, Some stop) \<Rightarrow> termination_outcome D action stop True raw_result fr
       | Inr (None, None) \<Rightarrow> uncertain (str ''postcondition_unavailable''))))))"

text \<open>The dispatch stops before the call.\<close>

definition stopped_before ::
    "'s dispatcher \<Rightarrow> ResolvedAction \<Rightarrow> TargetLease \<Rightarrow> effect_ref \<Rightarrow> stop_signal \<Rightarrow> string \<Rightarrow> ('s effects, ActionOutcome) act" where
  "stopped_before D action lease fr stop message =
    fail_undispatched D action lease fr (pre_dispatch_termination_reason stop) message
      (termination_outcome D action stop False [] fr)"

text \<open>The call of an effect that is recorded as started.\<close>

definition call_started ::
    "'s dispatcher \<Rightarrow> pystr \<Rightarrow> (pystr \<times> py) list \<Rightarrow> ResolvedAction \<Rightarrow> TargetLease \<Rightarrow> EffectRecord \<Rightarrow> effect_ref \<Rightarrow>
     ('s effects, ActionOutcome) act" where
  "call_started D name args action lease r fr =
    andthen (dispatch_signal D) (\<lambda>stop.
    case stop of
      Some st \<Rightarrow> stopped_before D action lease fr st ''External effect was not invoked, but its dispatch-cancellation receipt failed.''
    | None \<Rightarrow>
        andthen (lease_valid D lease) (\<lambda>valid.
        if \<not> valid then
          fail_undispatched D action lease fr (str ''stale_fence_before_invoke'')
            ''External effect was not invoked, but its stale-fence receipt could not be persisted.''
            (outcome D action (str ''External effect was not started because its fencing lease became stale.'') (str ''failed'') False
              (fr\<lparr>fr_error_code := str ''stale_fence''\<rparr>))
        else
          andthen (note_invocation r lease) (\<lambda>_.
          andthen (invoke_tool D name args) (\<lambda>raw_result.
          after_call D name action lease fr raw_result))))"

definition begin_effect ::
    "'s dispatcher \<Rightarrow> pystr \<Rightarrow> (pystr \<times> py) list \<Rightarrow> ResolvedAction \<Rightarrow> TargetLease \<Rightarrow> EffectRecord \<Rightarrow> effect_ref \<Rightarrow>
     ('s effects, ActionOutcome) act" where
  "begin_effect D name args action lease r fr =
    andthen (dispatch_signal D) (\<lambda>stop.
    case stop of
      Some st \<Rightarrow> stopped_before D action lease fr st ''External effect was not invoked, but its cancellation receipt could not be persisted.''
    | None \<Rightarrow>
        andthen (attempt (ledger_transition (dp_platform D) (fr_effect_id fr) ES_STARTED (tl_fencing_token lease) [] [])) (\<lambda>started.
        case started of
          Inl e \<Rightarrow> ledger_fault D action ''External effect was not started because its durable start receipt failed.'' fr e
        | Inr _ \<Rightarrow> call_started D name args action lease r fr))"

definition run_external_effect ::
    "'s dispatcher \<Rightarrow> pystr \<Rightarrow> (pystr \<times> py) list \<Rightarrow> ResolvedAction \<Rightarrow> pystr \<Rightarrow> TargetLease \<Rightarrow> ('s effects, ActionOutcome) act" where
  "run_external_effect D name args action invocation_id lease =
    (let key = idempotency_key (ra_action_digest action) invocation_id;
         fr = no_effect\<lparr>fr_idempotency_key := key, fr_fencing_token := tl_fencing_token lease\<rparr> in
    andthen (attempt (andthen (lift_result (invocation_id_hash invocation_id)) (\<lambda>hash.
      ledger_prepare (dp_platform D) key hash name (ra_target action) (tl_fencing_token lease)))) (\<lambda>prepared.
    case prepared of
      Inl e \<Rightarrow> ledger_fault D action ''External effect was not started because its durable prepare receipt failed.'' fr e
    | Inr (r, created) \<Rightarrow>
        if \<not> created then deduplicated_outcome D r action lease
        else begin_effect D name args action lease r (fr\<lparr>fr_effect_id := er_effect_id r\<rparr>)))"

end
