(* ===== verification/James_Dispatch.thy ===== *)
theory James_Dispatch
  imports James_External
begin

text \<open>
  \<^verbatim>\<open>algo_cli/james_dispatch.py\<close>: \<open>dispatch_action\<close>, the one way of an action to its tool: preflight, repeated
  attempts, capacity, approval, the lease of the target, the call, the outcome and its record.

  What \<^verbatim>\<open>nathan_runtime.py\<close> answers (preflight, signature, earlier attempts, capacity, approval, the note added to a
  result) and its records are the fields of \<open>gateway\<close>. Rendering, telemetry and the
  measured duration are left out.
\<close>

section \<open>The gateway\<close>

record RuntimeToolPreflight =
  pf_action :: ResolvedAction
  pf_allowed :: bool
  pf_blocked_result :: pystr
  pf_signature_args :: "(pystr \<times> py) list"

datatype approve_reply = Approved bool | Approve_interrupted | Approve_raised exn

text \<open>
  An earlier attempt has its status and its summary, where they are set. An exception of the kind \<open>Interrupted\<close> in
  a reply is the end of the process.
\<close>

record 's gateway =
  gw_preflight :: "pystr \<Rightarrow> (pystr \<times> py) list \<Rightarrow> pystr \<Rightarrow> 's \<Rightarrow> 's \<times> (exn + RuntimeToolPreflight)"
  gw_signature :: "pystr \<Rightarrow> (pystr \<times> py) list \<Rightarrow> 's \<Rightarrow> 's \<times> (exn + pystr)"
  gw_failed_attempt :: "pystr \<Rightarrow> 's \<Rightarrow> 's \<times> (exn + (pystr \<times> pystr option) option)"
  gw_reserve :: "bool \<Rightarrow> 's \<Rightarrow> 's \<times> (exn + bool)"
  gw_unreserve :: "bool \<Rightarrow> 's \<Rightarrow> 's \<times> (exn + unit)"
  gw_approve :: "pystr \<Rightarrow> (pystr \<times> py) list \<Rightarrow> bool \<Rightarrow> RuntimeToolPreflight \<Rightarrow> 's \<Rightarrow> 's \<times> approve_reply"
  gw_interactive :: "'s \<Rightarrow> 's \<times> (exn + bool)"
  gw_reflex :: "pystr \<Rightarrow> (pystr \<times> py) list \<Rightarrow> pystr \<Rightarrow> pystr \<Rightarrow> 's \<Rightarrow> 's \<times> (exn + pystr)"
  gw_record :: "pystr \<Rightarrow> (pystr \<times> py) list \<Rightarrow> pystr \<Rightarrow> ActionOutcome \<Rightarrow> 's \<Rightarrow> 's \<times> (exn + unit)"

text \<open>An environment that may raise.\<close>

definition ask_result :: "('s \<Rightarrow> 's \<times> (exn + 'a)) \<Rightarrow> ('s effects, 'a) act" where
  "ask_result f = andthen (ask_env f) lift_result"

text \<open>A \<open>try\<close> with a \<open>finally\<close> that collects what its cleanup raised.\<close>

definition collecting :: "('w, 'a) act \<Rightarrow> ('w, 'b) act \<Rightarrow> ('w, 'a \<times> 'b) act" where
  "collecting m cleanup w =
    (case m w of (w1, r) \<Rightarrow>
       case cleanup w1 of
         (w2, Inl e) \<Rightarrow> (w2, Inl e)
       | (w2, Inr y) \<Rightarrow> (w2, case r of Inl e \<Rightarrow> Inl e | Inr x \<Rightarrow> Inr (x, y)))"

section \<open>The result\<close>

datatype dispatch_result = Result ActionOutcome | Result_interrupted ActionOutcome

primrec attempt_status :: "OutcomeStatus \<Rightarrow> string" where
  "attempt_status OS_SUCCEEDED = ''worked''"
| "attempt_status OS_FAILED = ''failed''"
| "attempt_status OS_DENIED = ''denied''"
| "attempt_status OS_SKIPPED = ''skipped''"
| "attempt_status OS_TIMED_OUT = ''timed_out''"
| "attempt_status OS_CANCELLED = ''cancelled''"
| "attempt_status OS_UNKNOWN_OUTCOME = ''unknown_outcome''"

definition EXPLICIT_MEMORY_WRITE_ACTIONS :: "string list" where
  "EXPLICIT_MEMORY_WRITE_ACTIONS =
    [''remember'', ''append_lesson'', ''write_knowledge_graph_note'', ''memory_init'', ''memory_capture'', ''memory_remember'',
     ''memory_revoke'', ''memory_resolve'', ''memory_handoff'', ''memory_set_applicability'']"

definition MEMORY_MUTATION_SLASHES :: "string list" where
  "MEMORY_MUTATION_SLASHES = [''/remember'', ''/forget'']"

definition MEMORY_MUTATION_SUBCOMMANDS :: "string list" where
  "MEMORY_MUTATION_SUBCOMMANDS = [''add'', ''supersede'', ''promote'', ''demote'', ''archive'', ''reindex'']"

text \<open>\<open>len(s.encode("utf-8", errors="replace"))\<close>: a surrogate becomes one question mark.\<close>

definition replaced_length :: "pystr \<Rightarrow> nat" where
  "replaced_length s = sum_list (map (\<lambda>c. if c < 128 \<or> 55296 \<le> c \<and> c \<le> 57343 then 1 else if c < 2048 then 2
     else if c < 65536 then 3 else 4) s)"

definition explicit_memory_write_effect :: "unicode \<Rightarrow> pystr \<Rightarrow> (pystr \<times> py) list \<Rightarrow> bool" where
  "explicit_memory_write_effect u name args =
    (let fold = py_casefold u; normalized_name = fold (py_strip name); among = (\<lambda>s xs. fold s \<in> str ` set xs) in
     if normalized_name \<in> str ` set EXPLICIT_MEMORY_WRITE_ACTIONS then True
     else if normalized_name \<noteq> str ''session_command'' then False
     else
       (case map_of args (str ''command'') of
          Some (PStr command) \<Rightarrow>
            if 4096 < replaced_length command then False
            else
              (case split_once (py_strip command) of
                 [] \<Rightarrow> False
               | command_root # rest \<Rightarrow>
                   among command_root MEMORY_MUTATION_SLASHES
                   \<or> (fold command_root = str ''/memory''
                      \<and> (case rest of [] \<Rightarrow> False | r # _ \<Rightarrow> among (hd (split_once r)) MEMORY_MUTATION_SUBCOMMANDS)))
        | _ \<Rightarrow> False))"

definition finalize ::
    "'s dispatcher \<Rightarrow> 's gateway \<Rightarrow> pystr \<Rightarrow> RuntimeToolPreflight \<Rightarrow> ActionOutcome \<Rightarrow> ('s effects, ActionOutcome) act" where
  "finalize D G name pf o' =
    (let o1 = (if worked o' \<and> explicit_memory_write_effect (in_unicode (dp_interpreter D)) name (pf_signature_args pf)
           then o'\<lparr>ao_explicit_memory_write := True\<rparr> else o');
         status = str (attempt_status (ao_status o1));
         result = model_text (dp_interpreter D) o1 in
     andthen (if ao_invoked o1 then
         andthen (ask_result (gw_reflex G name (pf_signature_args pf) result status)) (\<lambda>result.
         done_with (result, o1\<lparr>ao_result := result\<rparr>))
       else done_with (result, o1)) (\<lambda>(result, o2).
     andthen (ask_result (gw_record G name (pf_signature_args pf) result o2)) (\<lambda>_.
     done_with o2)))"

definition finish_dispatch :: "ActionOutcome \<Rightarrow> ('s effects, dispatch_result) act" where
  "finish_dispatch o' =
    andthen get_control (\<lambda>ct. done_with (if ct_interrupted ct then Result_interrupted o' else Result o'))"

section \<open>The call under a lease\<close>

definition preinvoke_outcome :: "'s dispatcher \<Rightarrow> ResolvedAction \<Rightarrow> pystr \<Rightarrow> string \<Rightarrow> pystr \<Rightarrow> ('s effects, ActionOutcome) act" where
  "preinvoke_outcome D action result status error_code =
    outcome D action result (str status) False (no_effect\<lparr>fr_error_code := error_code\<rparr>)"

text \<open>A call that is not an external effect.\<close>

definition run_local_action ::
    "'s dispatcher \<Rightarrow> pystr \<Rightarrow> (pystr \<times> py) list \<Rightarrow> ResolvedAction \<Rightarrow> effect_ref \<Rightarrow> ('s effects, ActionOutcome) act" where
  "run_local_action D name args action fr =
    andthen (invoke_tool D name args) (\<lambda>raw_result.
    andthen (dispatch_signal D) (\<lambda>stop.
    case stop of
      Some st \<Rightarrow> termination_outcome D action st True raw_result fr
    | None \<Rightarrow>
        andthen (lift_result (dp_classify D raw_result name)) (\<lambda>raw_status.
        outcome D action raw_result raw_status True
          (fr\<lparr>fr_error_code := (if raw_status = str ''failed'' then str ''tool_reported_failure'' else [])\<rparr>))))"

text \<open>What follows the acquisition of the lease, if the action needs one.\<close>

definition run_leased ::
    "'s dispatcher \<Rightarrow> pystr \<Rightarrow> RuntimeToolPreflight \<Rightarrow> pystr option \<Rightarrow> TargetLease option \<Rightarrow> ('s effects, ActionOutcome) act" where
  "run_leased D name pf tool_call_id lease =
    (let action = pf_action pf;
         fr = no_effect\<lparr>fr_fencing_token := (case lease of None \<Rightarrow> 0 | Some l \<Rightarrow> tl_fencing_token l)\<rparr> in
     andthen (case lease of None \<Rightarrow> done_with True | Some l \<Rightarrow> lease_valid D l) (\<lambda>valid.
     if \<not> valid then throw (EffectLeaseError ''fresh'')
     else
       andthen (dispatch_signal D) (\<lambda>stop.
       case stop of
         Some st \<Rightarrow> termination_outcome D action st False [] fr
       | None \<Rightarrow>
           if ra_effect_class action = EC_EXTERNAL_MUTATION then
             (case (lease, tool_call_id) of
                (Some l, Some (c # cs)) \<Rightarrow> run_external_effect D name (pf_signature_args pf) action (c # cs) l
              | _ \<Rightarrow> throw (EffectLeaseError ''external''))
           else run_local_action D name (pf_signature_args pf) action fr)))"

text \<open>
  The handler of \<open>except Exception\<close>. It is also reached when the tool was called: by what classifying the result
  raises, or normalising its outcome.
\<close>

definition or_unavailable :: "'s dispatcher \<Rightarrow> ResolvedAction \<Rightarrow> ('s effects, ActionOutcome) act \<Rightarrow> ('s effects, ActionOutcome) act" where
  "or_unavailable D action m =
    andthen (attempt m) (\<lambda>r.
    case r of
      Inl e \<Rightarrow> preinvoke_outcome D action (str ''Action was not invoked because its target effect lease was unavailable.'')
        ''failed'' (str (exn_name e))
    | Inr o' \<Rightarrow> done_with o')"

definition take_lease :: "'s dispatcher \<Rightarrow> ResolvedAction \<Rightarrow> ('s effects, stop_signal option \<times> TargetLease option) act" where
  "take_lease D action =
    andthen (dispatch_signal D) (\<lambda>stop.
    if stop \<noteq> None then done_with (stop, None)
    else if ra_effect_class action = EC_OBSERVE then done_with (None, None)
    else
      andthen (on_targets (dp_platform D) (\<lambda>io. acquire io (ra_target action) None (Finite 60))) (\<lambda>lease.
      done_with (None, Some lease)))"

definition release_lease :: "'s dispatcher \<Rightarrow> TargetLease \<Rightarrow> ('s effects, exn option) act" where
  "release_lease D lease =
    andthen (attempt (on_targets (dp_platform D) (\<lambda>io. give_back io lease))) (\<lambda>r.
    done_with (case r of Inl e \<Rightarrow> Some e | Inr _ \<Rightarrow> None))"

definition run_action ::
    "'s dispatcher \<Rightarrow> pystr \<Rightarrow> RuntimeToolPreflight \<Rightarrow> pystr option \<Rightarrow> ('s effects, ActionOutcome \<times> exn option) act" where
  "run_action D name pf tool_call_id =
    (let action = pf_action pf; unleased = (\<lambda>m. andthen (or_unavailable D action m) (\<lambda>o'. done_with (o', None))) in
     andthen (attempt (take_lease D action)) (\<lambda>taken.
     case taken of
       Inl e \<Rightarrow> unleased (throw e)
     | Inr (Some st, _) \<Rightarrow> unleased (termination_outcome D action st False [] no_effect)
     | Inr (None, None) \<Rightarrow> unleased (run_leased D name pf tool_call_id None)
     | Inr (None, Some lease) \<Rightarrow>
         collecting (or_unavailable D action (run_leased D name pf tool_call_id (Some lease))) (release_lease D lease)))"

definition after_release :: "'s dispatcher \<Rightarrow> ResolvedAction \<Rightarrow> ActionOutcome \<Rightarrow> exn option \<Rightarrow> ('s effects, ActionOutcome) act" where
  "after_release D action o' release_error =
    (case release_error of
       None \<Rightarrow> done_with o'
     | Some e \<Rightarrow>
         let code = str (''lease_release_'' @ exn_name e) in
         if worked o' \<and> ao_verification o' \<noteq> VS_PASSED then
           outcome D action (ao_result o') (str ''failed'') (ao_invoked o')
             \<lparr>fr_effect_id = ao_effect_id o', fr_idempotency_key = ao_idempotency_key o', fr_fencing_token = ao_fencing_token o',
              fr_error_code = code, fr_deduplicated = False\<rparr>
         else done_with (o'\<lparr>ao_error_code := code\<rparr>))"

section \<open>The dispatch\<close>

definition refuse ::
    "'s dispatcher \<Rightarrow> 's gateway \<Rightarrow> pystr \<Rightarrow> RuntimeToolPreflight \<Rightarrow> pystr \<Rightarrow> string \<Rightarrow> pystr \<Rightarrow> ('s effects, dispatch_result) act" where
  "refuse D G name pf result status error_code =
    andthen (preinvoke_outcome D (pf_action pf) result status error_code) (\<lambda>o'.
    andthen (finalize D G name pf o') (\<lambda>o'. done_with (Result o')))"

definition run_approved ::
    "'s dispatcher \<Rightarrow> 's gateway \<Rightarrow> pystr \<Rightarrow> pystr option \<Rightarrow> RuntimeToolPreflight \<Rightarrow> ('s effects, dispatch_result) act" where
  "run_approved D G name tool_call_id pf =
    andthen (run_action D name pf tool_call_id) (\<lambda>(o', release_error).
    andthen (after_release D (pf_action pf) o' release_error) (\<lambda>o'.
    andthen (finalize D G name pf o') finish_dispatch))"

definition not_approved ::
    "'s dispatcher \<Rightarrow> 's gateway \<Rightarrow> pystr \<Rightarrow> RuntimeToolPreflight \<Rightarrow> approve_reply \<Rightarrow> ('s effects, dispatch_result) act" where
  "not_approved D G name pf reply =
    (case reply of
       Approve_raised e \<Rightarrow> throw e
     | Approve_interrupted \<Rightarrow>
         andthen (set_control interrupt_control) (\<lambda>_.
         andthen (termination_outcome D (pf_action pf) (str ''cancelled'', str ''keyboard_interrupt'') False [] no_effect) (\<lambda>o'.
         andthen (finalize D G name pf o') finish_dispatch))
     | Approved _ \<Rightarrow>
         andthen (ask_result (gw_interactive G)) (\<lambda>interactive.
         if interactive then refuse D G name pf (str ''This operation was not approved and was not executed.'') ''denied'' (str ''approval_denied'')
         else refuse D G name pf (str ''Approval is unavailable in this noninteractive run. This action was not executed. Use a permitted alternative or obtain exact action-time approval in an interactive session; auto mode does not grant action-time or handoff authority.'')
           ''denied'' (str ''approval_unavailable'')))"

text \<open>An action that has capacity: the approval and the run.\<close>

definition approve_and_run ::
    "'s dispatcher \<Rightarrow> 's gateway \<Rightarrow> pystr \<Rightarrow> (pystr \<times> py) list \<Rightarrow> pystr option \<Rightarrow> bool \<Rightarrow> RuntimeToolPreflight \<Rightarrow>
     ('s effects, dispatch_result) act" where
  "approve_and_run D G name args tool_call_id force_approval pf =
    andthen (ask_env (gw_approve G name args force_approval pf)) (\<lambda>reply.
    if reply = Approved True then run_approved D G name tool_call_id pf
    else not_approved D G name pf reply)"

definition within_capacity ::
    "'s dispatcher \<Rightarrow> 's gateway \<Rightarrow> pystr \<Rightarrow> (pystr \<times> py) list \<Rightarrow> pystr option \<Rightarrow> bool \<Rightarrow> RuntimeToolPreflight \<Rightarrow>
     ('s effects, dispatch_result) act" where
  "within_capacity D G name args tool_call_id force_approval pf =
    (let mutating = (ra_effect_class (pf_action pf) \<noteq> EC_OBSERVE) in
     andthen (ask_result (gw_reserve G mutating)) (\<lambda>admitted.
     ensuring
       (if \<not> admitted then
          refuse D G name pf (str ''Unresolved action capacity is full. Reconcile prior uncertain effects before new mutations. Read-only observations remain available.'')
            ''denied'' (str ''unresolved_action_capacity'')
        else approve_and_run D G name args tool_call_id force_approval pf)
       (ask_result (gw_unreserve G (mutating \<and> admitted)))))"

definition skipped_text :: "pystr \<Rightarrow> pystr option \<Rightarrow> pystr" where
  "skipped_text prior_status summary =
    (if prior_status = str ''unknown_outcome'' then
       str ''Skipped repeated action with an unresolved outcome. Reconcile it before retrying: observe the affected state with a fresh read or listing, then retry.''
     else str ''Skipped repeated failed attempt. Prior outcome: ''
       @ (case summary of Some s \<Rightarrow> s | None \<Rightarrow> str ''same tool path already failed or was denied'') @ str ''.'')"

text \<open>An action without an unresolved earlier attempt, one with a signature, and one that the preflight allowed.\<close>

definition run_fresh ::
    "'s dispatcher \<Rightarrow> 's gateway \<Rightarrow> pystr \<Rightarrow> (pystr \<times> py) list \<Rightarrow> pystr option \<Rightarrow> bool \<Rightarrow> RuntimeToolPreflight \<Rightarrow>
     ('s effects, dispatch_result) act" where
  "run_fresh D G name args tool_call_id force_approval pf =
    (if ra_effect_class (pf_action pf) = EC_EXTERNAL_MUTATION \<and> tool_call_id \<in> {None, Some []} then
       refuse D G name pf (str ''External mutation was not invoked because it has no stable idempotency ID.'') ''denied''
         (str ''missing_idempotency_id'')
     else within_capacity D G name args tool_call_id force_approval pf)"

definition run_signed ::
    "'s dispatcher \<Rightarrow> 's gateway \<Rightarrow> pystr \<Rightarrow> (pystr \<times> py) list \<Rightarrow> pystr option \<Rightarrow> bool \<Rightarrow> RuntimeToolPreflight \<Rightarrow>
     pystr \<Rightarrow> ('s effects, dispatch_result) act" where
  "run_signed D G name args tool_call_id force_approval pf signature =
    andthen (ask_result (gw_failed_attempt G signature)) (\<lambda>previous.
    case previous of
      Some (status, summary) \<Rightarrow>
        let prior_status = (if status = [] then str ''failed'' else status) in
        refuse D G name pf (skipped_text prior_status summary) ''skipped'' prior_status
    | None \<Rightarrow> run_fresh D G name args tool_call_id force_approval pf)"

definition run_allowed ::
    "'s dispatcher \<Rightarrow> 's gateway \<Rightarrow> pystr \<Rightarrow> (pystr \<times> py) list \<Rightarrow> pystr option \<Rightarrow> bool \<Rightarrow> RuntimeToolPreflight \<Rightarrow>
     ('s effects, dispatch_result) act" where
  "run_allowed D G name args tool_call_id force_approval pf =
    andthen (attempt (ask_result (gw_signature G name (pf_signature_args pf)))) (\<lambda>identity.
    case identity of
      Inl e \<Rightarrow> refuse D G name pf (str ''Action was not invoked because its audit identity could not be derived safely.'') ''denied''
        (str (''privacy_identity_'' @ exn_name e))
    | Inr signature \<Rightarrow> run_signed D G name args tool_call_id force_approval pf signature)"

definition run_preflighted ::
    "'s dispatcher \<Rightarrow> 's gateway \<Rightarrow> pystr \<Rightarrow> (pystr \<times> py) list \<Rightarrow> pystr option \<Rightarrow> bool \<Rightarrow> RuntimeToolPreflight \<Rightarrow>
     pystr \<Rightarrow> stop_signal option \<Rightarrow> ('s effects, dispatch_result) act" where
  "run_preflighted D G name args tool_call_id force_approval pf policy_ceiling_code stop =
    (let denied = refuse D G name pf (pf_blocked_result pf) ''denied'' (str ''preflight_denied'') in
     if ra_effect_class (pf_action pf) = EC_UNCLASSIFIED \<or> policy_ceiling_code \<noteq> [] then denied
     else
       (case stop of
          Some st \<Rightarrow>
            andthen (termination_outcome D (pf_action pf) st False [] no_effect) (\<lambda>o'.
            andthen (finalize D G name pf o') (\<lambda>o'. done_with (Result o')))
        | None \<Rightarrow>
            if \<not> pf_allowed pf then denied
            else run_allowed D G name args tool_call_id force_approval pf))"

definition dispatch_action ::
    "'s dispatcher \<Rightarrow> 's gateway \<Rightarrow> pystr \<Rightarrow> (pystr \<times> py) list \<Rightarrow> pystr option \<Rightarrow> bool \<Rightarrow> pystr \<Rightarrow> pynumber option \<Rightarrow>
     DispatchCancellation option \<Rightarrow> ('s effects, dispatch_result) act" where
  "dispatch_action D G name args tool_call_id force_approval policy_ceiling_code deadline cancellation =
    andthen (set_control (\<lambda>_. new_control deadline cancellation)) (\<lambda>_.
    andthen (dispatch_signal D) (\<lambda>stop.
    let effective_ceiling = (if policy_ceiling_code \<noteq> [] then policy_ceiling_code
      else case stop of Some st \<Rightarrow> termination_ceiling_code st | None \<Rightarrow> []) in
    andthen (ask_result (gw_preflight G name args effective_ceiling)) (\<lambda>pf.
    run_preflighted D G name args tool_call_id force_approval pf policy_ceiling_code stop)))"

section \<open>Batches\<close>

text \<open>\<open>resolve\<close> resolves an action with the arguments the runtime adds, or raises.\<close>

definition batch_code :: "(pystr \<Rightarrow> (pystr \<times> py) list \<Rightarrow> exn + ResolvedAction) \<Rightarrow>
    (pystr \<times> (pystr \<times> py) list) \<times> pystr option \<Rightarrow> pystr option" where
  "batch_code resolve call =
    (case call of ((name, args), tool_call_id) \<Rightarrow>
       (case resolve name args of
          Inl _ \<Rightarrow> Some (str ''batch_unclassified_action'')
        | Inr action \<Rightarrow>
            if ra_effect_class action = EC_UNCLASSIFIED then Some (str ''batch_unclassified_action'')
            else if ra_effect_class action = EC_EXTERNAL_MUTATION \<and> tool_call_id \<in> {None, Some []}
            then Some (str ''batch_missing_idempotency_id'')
            else None))"

definition batch_policy_ceiling_codes :: "(pystr \<Rightarrow> (pystr \<times> py) list \<Rightarrow> exn + ResolvedAction) \<Rightarrow>
    ((pystr \<times> (pystr \<times> py) list) \<times> pystr option) list \<Rightarrow> pystr list" where
  "batch_policy_ceiling_codes resolve batch =
    (let call_ids = filter (\<lambda>i. i \<noteq> []) (List.map_filter snd batch); codes = map (batch_code resolve) batch in
     if \<not> distinct call_ids then map (\<lambda>_. str ''batch_duplicate_call_id'') batch
     else if list_all (\<lambda>c. c = None) codes then map (\<lambda>_. []) batch
     else map (\<lambda>c. case c of Some code \<Rightarrow> code | None \<Rightarrow> str ''batch_quarantined'') codes)"

end
