(* ===== verification/Effect_Actions.thy ===== *)
theory Effect_Actions
  imports James_Dispatch
begin

text \<open>
  Relations on the world of effects: a preorder that the single changes of the world preserve is preserved by all
  operations of the ledger and of the dispatcher. \<open>effect_relation\<close> is for the code around the call of a tool,
  \<open>calling_relation\<close> also for the call, \<open>dispatching_relation\<close> for the dispatch as a whole.
\<close>

context world_relation begin

lemma acts_collecting [acting]:
  assumes "acts P m" "acts P cleanup" shows "acts P (collecting m cleanup)"
proof (rule actsI)
  fix w w' r
  assume run: "collecting m cleanup w = (w', r)"
  obtain w1 r1 where m: "m w = (w1, r1)" by fastforce
  obtain w2 r2 where cleanup: "cleanup w1 = (w2, r2)" by fastforce
  have "w' = w2" using run by (auto simp add: collecting_def m cleanup split: sum.splits)
  then show "P w w'" using trans [OF actsD [OF assms(1) m] actsD [OF assms(2) cleanup]] by simp
qed

end

section \<open>The code around a call\<close>

locale effect_relation = world_relation P for P :: "'s effects \<Rightarrow> 's effects \<Rightarrow> bool" +
  fixes D :: "'s dispatcher"
  assumes env: "P w (w\<lparr>fx_env := s\<rparr>)"
    and control: "P w (w\<lparr>fx_control := ct\<rparr>)"
    and targets: "P w (w\<lparr>fx_targets := files\<rparr>)"
    and invocations: "P w (w\<lparr>fx_invocations := files\<rparr>)"
    and ledger: "P w (w\<lparr>fx_ledger := after, fx_intact := (fx_intact w \<and> extends (ep_params (dp_platform D)) (fx_ledger w) before
      \<and> dropped_records (scan (ep_params (dp_platform D)) (ep_policy (dp_platform D)) now before) = 0
      \<and> extends (ep_params (dp_platform D)) before after)\<rparr>)"
begin

lemma acts_ask_env [acting]: "acts P (ask_env f)"
  by (rule actsI) (auto simp add: ask_env_def env split: prod.splits)

lemma acts_ask_result [acting]: "acts P (ask_result f)"
  unfolding ask_result_def by (intro acting)

lemma acts_store [acting]: "acts P (on_store (dp_platform D) f)"
proof (rule actsI, erule on_store_cases)
  fix w w' :: "'s effects" and s io now before after
  let ?ps = "ep_params (dp_platform D)"
  assume w': "w' = w\<lparr>fx_env := s, fx_ledger := after, fx_intact := (fx_intact w \<and> extends ?ps (fx_ledger w) before
    \<and> dropped_records (scan ?ps (ep_policy (dp_platform D)) now before) = 0 \<and> extends ?ps before after)\<rparr>"
  show "P w w'" unfolding w' using trans [OF env [of w s] ledger [where w = "w\<lparr>fx_env := s\<rparr>" and after = after and before = before and now = now]] by simp
qed

lemma acts_targets [acting]: "acts P (on_targets (dp_platform D) f)"
proof (rule actsI, erule on_targets_cases)
  fix w w' :: "'s effects" and s files
  assume w': "w' = w\<lparr>fx_env := s, fx_targets := files\<rparr>"
  show "P w w'" unfolding w' by (rule trans [OF env targets])
qed

lemma acts_invocations [acting]: "acts P (on_invocations (dp_platform D) f)"
proof (rule actsI, erule on_invocations_cases)
  fix w w' :: "'s effects" and s files
  assume w': "w' = w\<lparr>fx_env := s, fx_invocations := files\<rparr>"
  show "P w w'" unfolding w' by (rule trans [OF env invocations])
qed

lemma acts_control [acting]: "acts P (set_control f)" "acts P get_control"
  by (auto simp add: acts_def set_control_def get_control_def control refl)

lemma acts_records [acting]: "acts P (ledger_records (dp_platform D))" "acts P (ledger_get (dp_platform D) effect_id)"
  unfolding ledger_get_def ledger_records_def by (intro acting)+

lemma acts_append [acting]: "acts P (ledger_append (dp_platform D) r previous)"
  unfolding ledger_append_def by (auto intro!: acting)

lemma acts_prepare [acting]:
  "acts P (prepare_body (dp_platform D) key hash name target token)"
  "acts P (ledger_prepare (dp_platform D) key hash name target token)"
proof -
  show *: "acts P (prepare_body (dp_platform D) key hash name target token)" for key hash name target token
    unfolding prepare_body_def Let_def by (auto intro!: acting split: option.split)
  show "acts P (ledger_prepare (dp_platform D) key hash name target token)"
    unfolding ledger_prepare_def by (auto intro!: acting *)
qed

lemma acts_transition [acting]: "acts P (ledger_transition (dp_platform D) effect_id new_state token reason verifier)"
  unfolding ledger_transition_def Let_def by (auto intro!: acting split: option.split)

lemma acts_reconcile [acting]:
  "acts P (ledger_reconcile (dp_platform D) effect_id token applied verifier)"
  "acts P (ledger_recover_prepared (dp_platform D) effect_id token)"
  unfolding ledger_reconcile_def ledger_recover_prepared_def by (auto intro!: acting split: option.split)

lemma acts_signal [acting]: "acts P (dispatch_signal D)" "acts P (lease_valid D lease)"
  unfolding dispatch_signal_def lease_valid_def by (auto intro!: acting split: clock_need.split prod.split)

lemma acts_outcome [acting]:
  "acts P (outcome D action result status invoked fr)" "acts P (termination_outcome D action stop invoked result fr)"
  "acts P (ledger_fault D action message fr e)" "acts P (preinvoke_outcome D action result word code)"
  unfolding outcome_def termination_outcome_def ledger_fault_def preinvoke_outcome_def Let_def by (intro acting)+

lemma acts_undispatched [acting]:
  "acts P stopped \<Longrightarrow> acts P (fail_undispatched D action lease fr reason message stopped)"
  "acts P (stopped_before D action lease fr stop message)"
proof -
  show *: "acts P stopped \<Longrightarrow> acts P (fail_undispatched D action lease fr reason message stopped)" for stopped fr reason message
    unfolding fail_undispatched_def by (auto intro!: acting split: sum.split)
  show "acts P (stopped_before D action lease fr stop message)"
    unfolding stopped_before_def by (intro acting *)
qed

lemma acts_deduplicated [acting]: "acts P (deduplicated_outcome D r action lease)"
  unfolding deduplicated_outcome_def by (auto intro!: acting split: EffectState.split sum.split)

lemma acts_observe [acting]: "acts P (observe_effect D name action result stop)"
  unfolding observe_effect_def Let_def by (auto intro!: acting split: option.split verifier_reply.split)

lemma acts_settle [acting]: "acts P (settle_effect D name action lease fr result status stop)"
  unfolding settle_effect_def Let_def by (auto intro!: acting split: option.split bool.split)

lemma acts_after_call [acting]: "acts P (after_call D name action lease fr result)"
  unfolding after_call_def Let_def by (auto intro!: acting split: sum.split option.split prod.split bool.split)

lemma acts_lease [acting]: "acts P (take_lease D action)" "acts P (release_lease D lease)"
  unfolding take_lease_def release_lease_def by (auto intro!: acting split: sum.split)

lemma acts_after_release [acting]: "acts P (after_release D action o' e)"
  unfolding after_release_def Let_def by (auto intro!: acting split: option.split)

lemma acts_finalize [acting]: "acts P (finalize D G name pf o')" "acts P (finish_dispatch o')"
  unfolding finalize_def finish_dispatch_def Let_def by (auto intro!: acting split: prod.split)

lemma acts_refuse [acting]: "acts P (refuse D G name pf result status code)" "acts P (not_approved D G name pf reply)"
proof -
  show *: "acts P (refuse D G name pf result status code)" for result status code
    unfolding refuse_def by (intro acting)
  show "acts P (not_approved D G name pf reply)"
    unfolding not_approved_def by (auto intro!: acting * split: approve_reply.split)
qed

end

section \<open>Calls\<close>

locale calling_relation = effect_relation +
  assumes tools: "P w (w\<lparr>fx_tools := fx_tools w @ [t]\<rparr>)"
begin

lemma acts_invoke [acting]: "acts P (invoke_tool D name args)" "acts P (run_local_action D name args action fr)"
proof -
  have noted: "acts P (note_tool name args)" for name args by (simp add: acts_def note_tool_def tools)
  show *: "acts P (invoke_tool D name args)" for name args
    unfolding invoke_tool_def by (auto intro!: acting noted split: tool_reply.split)
  show "acts P (run_local_action D name args action fr)"
    unfolding run_local_action_def by (auto intro!: acting * split: option.split)
qed

end

locale dispatching_relation = calling_relation +
  assumes external: "acts P (run_external_effect D name args action invocation_id lease)"
begin

lemma acts_run_leased [acting]: "acts P (run_leased D name pf tool_call_id lease)"
  unfolding run_leased_def Let_def by (auto intro!: acting external split: option.split list.split)

lemma acts_run_action [acting]: "acts P (run_action D name pf tool_call_id)"
  unfolding run_action_def or_unavailable_def Let_def by (auto intro!: acting split: sum.split option.split prod.split)

lemma acts_dispatch: "acts P (dispatch_action D G name args tool_call_id force policy_ceiling deadline cancellation)"
  unfolding dispatch_action_def run_preflighted_def run_allowed_def run_signed_def run_fresh_def within_capacity_def approve_and_run_def run_approved_def Let_def
  by (auto intro!: acting split: sum.split option.split prod.split approve_reply.split bool.split)

end

end
