(* ===== verification/James_Safety.thy ===== *)
theory James_Safety
  imports Effect_Actions
begin

text \<open>
  What holds of one dispatch: when it calls a tool, how often, and what it reports about the call.
\<close>

section \<open>Calls of tools\<close>

interpretation quiet: effect_relation "\<lambda>w w'. fx_tools w' = fx_tools w" D for D
  by unfold_locales simp_all

abbreviation "quiet \<equiv> acts (\<lambda>w w'. fx_tools w' = fx_tools w)"

lemmas quiet_acts = quiet.acts_simple quiet.acts_andthen quiet.acts_attempt quiet.acts_ask_env quiet.acts_ask_result quiet.acts_control
  quiet.acts_prepare quiet.acts_transition quiet.acts_signal quiet.acts_outcome quiet.acts_undispatched quiet.acts_deduplicated
  quiet.acts_after_call quiet.acts_lease quiet.acts_after_release quiet.acts_finalize quiet.acts_refuse

text \<open>At most one call of a tool, with these arguments.\<close>

definition once :: "pystr \<times> (pystr \<times> py) list \<Rightarrow> ('s effects, 'a) act \<Rightarrow> bool" where
  "once t m \<longleftrightarrow> (\<forall>w. fx_tools (fst (m w)) \<in> {fx_tools w, fx_tools w @ [t]})"

lemma onceI: "(\<And>w w' r. m w = (w', r) \<Longrightarrow> fx_tools w' \<in> {fx_tools w, fx_tools w @ [t]}) \<Longrightarrow> once t m"
  unfolding once_def by (metis prod.collapse)

lemma onceD: "once t m \<Longrightarrow> m w = (w', r) \<Longrightarrow> fx_tools w' \<in> {fx_tools w, fx_tools w @ [t]}"
  unfolding once_def by (metis fst_conv)

lemma quietD: "quiet m \<Longrightarrow> m w = (w', r) \<Longrightarrow> fx_tools w' = fx_tools w"
  by (drule (1) actsD)

lemma once_quiet: "quiet m \<Longrightarrow> once t m"
  by (simp add: acts_def once_def)

lemma once_before:
  assumes "quiet m" "\<And>x. once t (f x)" shows "once t (andthen m f)"
proof (rule onceI, erule andthen_cases)
  fix w w' w1 r x
  assume "m w = (w1, Inr x)" "f x w1 = (w', r)"
  then show "fx_tools w' \<in> {fx_tools w, fx_tools w @ [t]}" using quietD [OF assms(1)] onceD [OF assms(2)] by metis
qed (simp add: quietD [OF assms(1)])

lemma once_after:
  assumes "once t m" "\<And>x. quiet (f x)" shows "once t (andthen m f)"
proof (rule onceI, erule andthen_cases)
  fix w w' w1 r x
  assume "m w = (w1, Inr x)" "f x w1 = (w', r)"
  then show "fx_tools w' \<in> {fx_tools w, fx_tools w @ [t]}" using quietD [OF assms(2)] onceD [OF assms(1)] by metis
qed (rule onceD [OF assms(1)])

lemma once_attempt: assumes "once t m" shows "once t (attempt m)"
  by (rule onceI, erule attempt_cases) (rule onceD [OF assms], assumption)+

lemma once_collecting:
  assumes "once t m" "quiet cleanup" shows "once t (collecting m cleanup)"
proof (rule onceI)
  fix w w' r
  assume run: "collecting m cleanup w = (w', r)"
  obtain w1 r1 where m: "m w = (w1, r1)" by fastforce
  obtain w2 r2 where cleanup: "cleanup w1 = (w2, r2)" by fastforce
  have "w' = w2" using run by (auto simp add: collecting_def m cleanup split: sum.splits)
  then show "fx_tools w' \<in> {fx_tools w, fx_tools w @ [t]}" using onceD [OF assms(1) m] quietD [OF assms(2) cleanup] by simp
qed

lemma once_invoke: "once (name, args) (invoke_tool D name args)"
proof -
  have "once (name, args) (note_tool name args)" by (simp add: once_def note_tool_def)
  then show ?thesis unfolding invoke_tool_def by (rule once_after) (auto intro!: quiet_acts split: tool_reply.split)
qed

lemma once_local: "once (name, args) (run_local_action D name args action fr)"
  unfolding run_local_action_def by (rule once_after [OF once_invoke]) (auto intro!: quiet_acts split: option.split)

lemmas once_leaf = quiet.acts_simple [THEN once_quiet] quiet.acts_outcome [THEN once_quiet] quiet.acts_undispatched [THEN once_quiet]
  quiet.acts_deduplicated [THEN once_quiet] quiet.acts_refuse [THEN once_quiet] quiet.acts_finalize [THEN once_quiet]

lemmas once_then = once_before [OF quiet.acts_signal(1)] once_before [OF quiet.acts_signal(2)]
  once_before [OF quiet.acts_attempt [OF quiet.acts_transition]] once_before [OF quiet.acts_ask_env] once_before [OF quiet.acts_ask_result]
  once_before [OF quiet.acts_attempt [OF quiet.acts_lease(1)]]

lemma once_external: "once (name, args) (run_external_effect D name args action invocation_id lease)"
proof -
  let ?t = "(name, args)"
  have noted: "quiet (note_invocation r lease)" for r by (simp add: acts_def note_invocation_def)
  have "once ?t (andthen (note_invocation r lease) (\<lambda>_. andthen (invoke_tool D name args) (\<lambda>raw_result.
      after_call D name action lease fr raw_result)))" for r fr
    by (rule once_before [OF noted], rule once_after [OF once_invoke quiet.acts_after_call])
  then have started: "once ?t (call_started D name args action lease r fr)" for r fr
    unfolding call_started_def by (auto intro!: once_then once_leaf quiet.acts_outcome split: option.split)
  have prepared: "quiet (attempt (andthen (lift_result (invocation_id_hash invocation_id)) (\<lambda>hash.
      ledger_prepare (dp_platform D) key hash name (ra_target action) (tl_fencing_token lease))))" for key
    by (intro quiet_acts)
  show ?thesis
    unfolding run_external_effect_def begin_effect_def Let_def
    by (rule once_before [OF prepared]) (auto intro!: once_then once_leaf started split: sum.split option.split)
qed

lemma once_run_action: "once (name, pf_signature_args pf) (run_action D name pf tool_call_id)"
proof -
  let ?t = "(name, pf_signature_args pf)"
  have guarded: "once ?t (or_unavailable D action m)" if "once ?t m" for action and m :: "('a effects, ActionOutcome) act"
    unfolding or_unavailable_def by (rule once_after [OF once_attempt [OF that]]) (auto intro!: quiet_acts split: sum.split)
  then have unleased: "once ?t (andthen (or_unavailable D action m) (\<lambda>o'. done_with (o', None)))"
    if "once ?t m" for action and m :: "('a effects, ActionOutcome) act"
    using that by (intro once_after quiet_acts)
  have "once ?t (run_leased D name pf tool_call_id lease)" for lease
    unfolding run_leased_def Let_def
    by (cases lease) (auto intro!: once_then once_before [OF quiet.acts_simple(1)] once_leaf once_local once_external split: option.split list.split)
  then show ?thesis unfolding run_action_def Let_def
    by (auto intro!: once_then once_leaf unleased guarded once_collecting quiet.acts_lease split: sum.split option.split prod.split)
qed

section \<open>The gates before a call\<close>

lemma andthen_called:
  assumes "andthen m f w = (w', r)" "fx_tools w' \<noteq> fx_tools w" "quiet m"
  obtains w1 x where "m w = (w1, Inr x)" "f x w1 = (w', r)" "fx_tools w1 = fx_tools w"
  using assms(1)
proof (cases rule: andthen_cases)
  case stopped
  then show thesis using assms(2) quietD [OF assms(3) stopped(1)] by simp
next
  case (continued w1 x)
  then show thesis using that quietD [OF assms(3) continued(1)] by simp
qed

lemma not_quiet: "quiet m \<Longrightarrow> m w = (w', r) \<Longrightarrow> fx_tools w' \<noteq> fx_tools w \<Longrightarrow> R"
  using quietD by blast

lemma once_approve: "once (name, pf_signature_args pf) (approve_and_run D G name args tool_call_id force pf)"
  unfolding approve_and_run_def run_approved_def
  by (auto intro!: once_then once_leaf once_after [OF once_run_action] quiet_acts split: prod.split)

lemma approve_called:
  assumes "approve_and_run D G name args tool_call_id force pf w = (w', r)" "fx_tools w' \<noteq> fx_tools w"
  obtains w1 where "ask_env (gw_approve G name args force pf) w = (w1, Inr (Approved True))" "fx_tools w1 = fx_tools w"
    "run_approved D G name tool_call_id pf w1 = (w', r)"
proof -
  obtain w1 reply where reply: "ask_env (gw_approve G name args force pf) w = (w1, Inr reply)" "fx_tools w1 = fx_tools w"
    and rest: "(if reply = Approved True then run_approved D G name tool_call_id pf else not_approved D G name pf reply) w1 = (w', r)"
    using assms unfolding approve_and_run_def by (elim andthen_called) (auto intro: quiet_acts)
  have "reply = Approved True"
    using rest reply(2) assms(2) not_quiet [OF quiet.acts_refuse(2)] by (metis (full_types))
  then show thesis using that reply rest by simp
qed

lemma capacity_called:
  assumes "within_capacity D G name args tool_call_id force pf w = (w', r)" "fx_tools w' \<noteq> fx_tools w"
  obtains w1 w2 w3 r3 where "ask_result (gw_reserve G (ra_effect_class (pf_action pf) \<noteq> EC_OBSERVE)) w = (w1, Inr True)"
    "ask_env (gw_approve G name args force pf) w1 = (w2, Inr (Approved True))" "fx_tools w2 = fx_tools w"
    "run_approved D G name tool_call_id pf w2 = (w3, r3)" "fx_tools w' = fx_tools w @ [(name, pf_signature_args pf)]"
    "fx_tools w3 = fx_tools w'" "r \<in> insert r3 (range Inl)"
proof -
  let ?reserve = "ask_result (gw_reserve G (ra_effect_class (pf_action pf) \<noteq> EC_OBSERVE))"
  obtain w1 admitted cleanup result where reserved: "?reserve w = (w1, Inr admitted)" "fx_tools w1 = fx_tools w" "quiet cleanup"
    and rest: "ensuring (if \<not> admitted then refuse D G name pf result ''denied'' (str ''unresolved_action_capacity'')
      else approve_and_run D G name args tool_call_id force pf) cleanup w1 = (w', r)"
    using assms unfolding within_capacity_def Let_def by (elim andthen_called) (auto intro: quiet_acts)
  obtain w3 r3 where w3: "(if \<not> admitted then refuse D G name pf result ''denied'' (str ''unresolved_action_capacity'')
      else approve_and_run D G name args tool_call_id force pf) w1 = (w3, r3)" "fx_tools w' = fx_tools w3" "r \<in> insert r3 (range Inl)"
    using rest by (cases rule: ensuring_cases) (use quietD [OF reserved(3)] that in \<open>simp_all del: if_not_P\<close>)
  have admitted: admitted
  proof (rule ccontr)
    assume "\<not> admitted"
    then have "refuse D G name pf result ''denied'' (str ''unresolved_action_capacity'') w1 = (w3, r3)" using w3(1) by simp
    from quietD [OF quiet.acts_refuse(1) this] show False using w3(2) assms(2) reserved(2) by simp
  qed
  have run: "approve_and_run D G name args tool_call_id force pf w1 = (w3, r3)" and called: "fx_tools w3 \<noteq> fx_tools w1"
    using w3 admitted assms(2) reserved(2) by auto
  obtain w2 where w2: "ask_env (gw_approve G name args force pf) w1 = (w2, Inr (Approved True))" "fx_tools w2 = fx_tools w1"
    "run_approved D G name tool_call_id pf w2 = (w3, r3)"
    using run called by (rule approve_called)
  have "fx_tools w' = fx_tools w @ [(name, pf_signature_args pf)]" using onceD [OF once_approve run] called w3(2) reserved(2) by simp
  then show thesis using that reserved(1,2) admitted w2 w3(2,3) by simp
qed

lemma no_refusal:
  assumes "refuse D G name pf t u c w = (w', r)" "fx_tools w' \<noteq> fx_tools w" shows R
  using quietD [OF quiet.acts_refuse(1) assms(1)] assms(2) by simp

lemma fresh_called:
  assumes "run_fresh D G name args tool_call_id force pf w = (w', r)" "fx_tools w' \<noteq> fx_tools w"
  shows "within_capacity D G name args tool_call_id force pf w = (w', r)"
    "ra_effect_class (pf_action pf) = EC_EXTERNAL_MUTATION \<longrightarrow> tool_call_id \<notin> {None, Some []}"
  using assms by (auto simp add: run_fresh_def dest!: quietD [OF quiet.acts_refuse(1)] split: if_splits)

lemma signed_called:
  assumes "run_signed D G name args tool_call_id force pf signature w = (w', r)" "fx_tools w' \<noteq> fx_tools w"
  obtains w1 where "ask_result (gw_failed_attempt G signature) w = (w1, Inr None)" "fx_tools w1 = fx_tools w"
    "run_fresh D G name args tool_call_id force pf w1 = (w', r)"
proof -
  obtain w1 previous where w1: "ask_result (gw_failed_attempt G signature) w = (w1, Inr previous)" "fx_tools w1 = fx_tools w"
    and rest: "(case previous of
      Some (status, summary) \<Rightarrow>
        let prior_status = (if status = [] then str ''failed'' else status) in
        refuse D G name pf (skipped_text prior_status summary) ''skipped'' prior_status
    | None \<Rightarrow> run_fresh D G name args tool_call_id force pf) w1 = (w', r)"
    using assms unfolding run_signed_def by (elim andthen_called) (auto intro!: quiet_acts)
  have "previous = None"
    using rest assms(2) w1(2) by (cases previous) (auto simp add: Let_def dest!: quietD [OF quiet.acts_refuse(1)])
  then show thesis using that w1 rest by auto
qed

lemma allowed_called:
  assumes "run_allowed D G name args tool_call_id force pf w = (w', r)" "fx_tools w' \<noteq> fx_tools w"
  obtains w1 signature where "ask_result (gw_signature G name (pf_signature_args pf)) w = (w1, Inr signature)" "fx_tools w1 = fx_tools w"
    "run_signed D G name args tool_call_id force pf signature w1 = (w', r)"
proof -
  obtain w1 identity where w1: "attempt (ask_result (gw_signature G name (pf_signature_args pf))) w = (w1, Inr identity)" "fx_tools w1 = fx_tools w"
    and rest: "(case identity of
      Inl e \<Rightarrow> refuse D G name pf (str ''Action was not invoked because its audit identity could not be derived safely.'') ''denied''
        (str (''privacy_identity_'' @ exn_name e))
    | Inr signature \<Rightarrow> run_signed D G name args tool_call_id force pf signature) w1 = (w', r)"
    using assms unfolding run_allowed_def by (elim andthen_called) (auto intro!: quiet_acts)
  obtain signature where signature: "identity = Inr signature"
    using rest assms(2) w1(2) that by (cases identity) (auto dest!: quietD [OF quiet.acts_refuse(1)])
  have "ask_result (gw_signature G name (pf_signature_args pf)) w = (w1, Inr signature)"
    using w1(1) signature by (elim attempt_cases) auto
  then show thesis using that w1(2) rest signature by fastforce
qed

lemma preflighted_called:
  assumes "run_preflighted D G name args tool_call_id force pf policy_ceiling stop w = (w', r)" "fx_tools w' \<noteq> fx_tools w"
  shows "policy_ceiling = [] \<and> ra_effect_class (pf_action pf) \<noteq> EC_UNCLASSIFIED \<and> stop = None \<and> pf_allowed pf
    \<and> run_allowed D G name args tool_call_id force pf w = (w', r)"
proof -
  have "quiet (andthen (termination_outcome D (pf_action pf) st False [] no_effect) (\<lambda>o'.
      andthen (finalize D G name pf o') (\<lambda>o'. done_with (Result o'))))" for st by (intro quiet_acts)
  note stopped = quietD [OF this]
  show ?thesis
    using assms(1) no_refusal [OF _ assms(2)] stopped assms(2) unfolding run_preflighted_def Let_def
    by (auto split: if_splits option.splits)
qed

text \<open>
  The gates of a dispatch from the world \<open>w\<close> to the world \<open>w'\<close> in which the action is run: what the control of the
  dispatch and the gateway were asked one after the other, and that each of them agreed.
\<close>

definition gates_passed :: "'s dispatcher \<Rightarrow> 's gateway \<Rightarrow> pystr \<Rightarrow> (pystr \<times> py) list \<Rightarrow> pystr option \<Rightarrow> bool \<Rightarrow>
    RuntimeToolPreflight \<Rightarrow> 's effects \<Rightarrow> 's effects \<Rightarrow> bool" where
  "gates_passed D G name args tool_call_id force pf w w' \<longleftrightarrow>
     pf_allowed pf \<and> ra_effect_class (pf_action pf) \<noteq> EC_UNCLASSIFIED
     \<and> (ra_effect_class (pf_action pf) = EC_EXTERNAL_MUTATION \<longrightarrow> tool_call_id \<notin> {None, Some []})
     \<and> (\<exists>w1 w2 w3 w4 w5 signature.
          dispatch_signal D w = (w1, Inr None)
          \<and> ask_result (gw_preflight G name args []) w1 = (w2, Inr pf)
          \<and> ask_result (gw_signature G name (pf_signature_args pf)) w2 = (w3, Inr signature)
          \<and> ask_result (gw_failed_attempt G signature) w3 = (w4, Inr None)
          \<and> ask_result (gw_reserve G (ra_effect_class (pf_action pf) \<noteq> EC_OBSERVE)) w4 = (w5, Inr True)
          \<and> ask_env (gw_approve G name args force pf) w5 = (w', Inr (Approved True)))"

lemma allowed_passed:
  assumes "run_allowed D G name args tool_call_id force pf w2 = (w', r)" "fx_tools w' \<noteq> fx_tools w2"
    and "dispatch_signal D w = (w1, Inr None)" "ask_result (gw_preflight G name args []) w1 = (w2, Inr pf)"
    and "pf_allowed pf" "ra_effect_class (pf_action pf) \<noteq> EC_UNCLASSIFIED"
  obtains v v' r' where "gates_passed D G name args tool_call_id force pf w v" "run_approved D G name tool_call_id pf v = (v', r')"
    "fx_tools v = fx_tools w2" "fx_tools w' = fx_tools w2 @ [(name, pf_signature_args pf)]" "fx_tools v' = fx_tools w'"
    "r \<in> insert r' (range Inl)"
proof -
  obtain w3 signature where 1: "ask_result (gw_signature G name (pf_signature_args pf)) w2 = (w3, Inr signature)" "fx_tools w3 = fx_tools w2"
    "run_signed D G name args tool_call_id force pf signature w3 = (w', r)"
    using assms(1,2) by (rule allowed_called)
  note called = assms(2) [folded 1(2)]
  obtain w4 where 2: "ask_result (gw_failed_attempt G signature) w3 = (w4, Inr None)" "fx_tools w4 = fx_tools w3"
    "run_fresh D G name args tool_call_id force pf w4 = (w', r)"
    using 1(3) called by (rule signed_called)
  note 3 = fresh_called [OF 2(3) called [folded 2(2)]]
  show thesis
  proof (rule capacity_called [OF 3(1) called [folded 2(2)]])
    fix w5 v v' r'
    assume gates: "ask_result (gw_reserve G (ra_effect_class (pf_action pf) \<noteq> EC_OBSERVE)) w4 = (w5, Inr True)"
      "ask_env (gw_approve G name args force pf) w5 = (v, Inr (Approved True))"
      and rest: "fx_tools v = fx_tools w4" "run_approved D G name tool_call_id pf v = (v', r')"
      "fx_tools w' = fx_tools w4 @ [(name, pf_signature_args pf)]" "fx_tools v' = fx_tools w'" "r \<in> insert r' (range Inl)"
    have "gates_passed D G name args tool_call_id force pf w v"
      unfolding gates_passed_def using assms(3-6) 3(2) 1(1) 2(1) gates by blast
    then show thesis using that rest 1(2) 2(2) by simp
  qed
qed

lemma dispatch_called:
  assumes "dispatch_action D G name args tool_call_id force policy_ceiling deadline cancellation w = (w', r)" "fx_tools w' \<noteq> fx_tools w"
  obtains pf v v' r' where "policy_ceiling = []" "fx_tools w' = fx_tools w @ [(name, pf_signature_args pf)]"
    "gates_passed D G name args tool_call_id force pf (w\<lparr>fx_control := new_control deadline cancellation\<rparr>) v"
    "run_approved D G name tool_call_id pf v = (v', r')" "fx_tools v' \<noteq> fx_tools v" "r \<in> insert r' (range Inl)"
proof -
  obtain w1 stop where 1: "dispatch_signal D (w\<lparr>fx_control := new_control deadline cancellation\<rparr>) = (w1, Inr stop)" "fx_tools w1 = fx_tools w"
    "andthen (ask_result (gw_preflight G name args (if policy_ceiling \<noteq> [] then policy_ceiling
        else case stop of Some st \<Rightarrow> termination_ceiling_code st | None \<Rightarrow> []))) (\<lambda>pf.
      run_preflighted D G name args tool_call_id force pf policy_ceiling stop) w1 = (w', r)"
    using assms unfolding dispatch_action_def Let_def andthen_def [of "set_control _"] set_control_def
    by (auto elim!: andthen_called [OF _ _ quiet.acts_signal(1)])
  have called1: "fx_tools w' \<noteq> fx_tools w1" using assms(2) 1(2) by simp
  obtain w2 pf where 2: "ask_result (gw_preflight G name args
      (if policy_ceiling \<noteq> [] then policy_ceiling else case stop of Some st \<Rightarrow> termination_ceiling_code st | None \<Rightarrow> [])) w1 = (w2, Inr pf)"
      "run_preflighted D G name args tool_call_id force pf policy_ceiling stop w2 = (w', r)" "fx_tools w2 = fx_tools w1"
    by (rule andthen_called [OF 1(3) called1 quiet.acts_ask_result])
  have called2: "fx_tools w' \<noteq> fx_tools w2" using called1 2(3) by simp
  note 3 = preflighted_called [OF 2(2) called2]
  show thesis
  proof (rule allowed_passed [of D G name args tool_call_id force pf w2 w' r])
    show "dispatch_signal D (w\<lparr>fx_control := new_control deadline cancellation\<rparr>) = (w1, Inr None)" using 1(1) 3 by simp
    show "ask_result (gw_preflight G name args []) w1 = (w2, Inr pf)" using 2(1) 3 by simp
  qed (use 3 called2 1(2) 2(3) that in \<open>simp_all\<close>)
qed

section \<open>Reports\<close>

text \<open>
  \<open>gives Q m\<close>: the results of \<open>m\<close> satisfy \<open>Q\<close>; \<open>reports Q m\<close>: it also raises nothing but the end of the process;
  \<open>honest Q m\<close>: this holds when it called a tool.
\<close>

definition gives :: "('a \<Rightarrow> bool) \<Rightarrow> ('w, 'a) act \<Rightarrow> bool" where
  "gives Q m \<longleftrightarrow> (\<forall>w w' x. m w = (w', Inr x) \<longrightarrow> Q x)"

definition reports :: "('a \<Rightarrow> bool) \<Rightarrow> ('w, 'a) act \<Rightarrow> bool" where
  "reports Q m \<longleftrightarrow> (\<forall>w w' r. m w = (w', r) \<longrightarrow> (case r of Inl e \<Rightarrow> e = Interrupted | Inr x \<Rightarrow> Q x))"

definition honest :: "('a \<Rightarrow> bool) \<Rightarrow> ('s effects, 'a) act \<Rightarrow> bool" where
  "honest Q m \<longleftrightarrow> (\<forall>w w' r. m w = (w', r) \<longrightarrow> fx_tools w' \<noteq> fx_tools w \<longrightarrow> (case r of Inl e \<Rightarrow> e = Interrupted | Inr x \<Rightarrow> Q x))"

lemma gives_rules:
  "Q x \<Longrightarrow> gives Q (done_with x)" "gives Q (throw e)" "(\<And>x. gives Q (f x)) \<Longrightarrow> gives Q (andthen m f)" "gives (\<lambda>_. True) m"
  by (auto simp add: gives_def elim!: andthen_InrE)

lemma gives_then: "gives R m \<Longrightarrow> (\<And>x. R x \<Longrightarrow> gives Q (f x)) \<Longrightarrow> gives Q (andthen m f)"
  unfolding gives_def by (metis andthen_InrE)

lemma reports_rules:
  "Q x \<Longrightarrow> reports Q (done_with x)" "reports Q (throw Interrupted)"
  "reports (\<lambda>_. True) (ask_env f)" "reports (\<lambda>_. True) (set_control g)" "reports (\<lambda>_. True) get_control"
  "reports (\<lambda>_. True) (attempt m)"
  by (auto simp add: reports_def ask_env_def set_control_def get_control_def split: prod.splits elim!: attempt_cases)

lemma reports_then:
  assumes "reports R m" "\<And>x. R x \<Longrightarrow> reports Q (f x)" shows "reports Q (andthen m f)"
proof -
  have "case r of Inl e \<Rightarrow> e = Interrupted | Inr x \<Rightarrow> Q x" if "andthen m f w = (w', r)" for w w' r
    using that
  proof (cases rule: andthen_cases)
    case (stopped e)
    then show ?thesis using assms(1) by (fastforce simp add: reports_def)
  next
    case (continued w1 x)
    then have "reports Q (f x)" using assms by (fastforce simp add: reports_def)
    then show ?thesis using continued(2) by (simp add: reports_def)
  qed
  then show ?thesis by (simp add: reports_def)
qed

lemma reports_mono: "reports R m \<Longrightarrow> (\<And>x. R x \<Longrightarrow> Q x) \<Longrightarrow> reports Q m"
  unfolding reports_def by (auto split: sum.splits)

lemma reports_attempt: "gives Q m \<Longrightarrow> reports (\<lambda>r. case r of Inl e \<Rightarrow> True | Inr x \<Rightarrow> Q x) (attempt m)"
  unfolding reports_def gives_def by (auto elim!: attempt_cases)

lemma honest_quiet: "quiet m \<Longrightarrow> honest Q m"
  unfolding honest_def using quietD by blast

lemma honest_reports: "reports Q m \<Longrightarrow> honest Q m"
  by (auto simp add: reports_def honest_def)

lemma honest_before: "quiet m \<Longrightarrow> (\<And>x. honest Q (f x)) \<Longrightarrow> honest Q (andthen m f)"
  unfolding honest_def by (auto elim!: andthen_called)

lemma honest_after:
  assumes "honest R m" "\<And>x. quiet (f x)" "\<And>x. R x \<Longrightarrow> reports Q (f x)" shows "honest Q (andthen m f)"
proof -
  have "case r of Inl e \<Rightarrow> e = Interrupted | Inr x \<Rightarrow> Q x"
    if "andthen m f w = (w', r)" and called: "fx_tools w' \<noteq> fx_tools w" for w w' r
    using that(1)
  proof (cases rule: andthen_cases)
    case (stopped e)
    then show ?thesis using assms(1) called by (fastforce simp add: honest_def)
  next
    case (continued w1 x)
    then have "R x" using assms(1) quietD [OF assms(2) continued(2)] called by (fastforce simp add: honest_def)
    then show ?thesis using assms(3) continued(2) by (simp add: reports_def)
  qed
  then show ?thesis by (simp add: honest_def)
qed

section \<open>The outcome of a call\<close>

text \<open>An outcome that admits the call, and allows another one only of an action that may be repeated.\<close>

definition frank :: "ResolvedAction \<Rightarrow> ActionOutcome \<Rightarrow> bool" where
  "frank action o' \<longleftrightarrow> ao_invoked o' \<and> (ao_retry_allowed o' \<longrightarrow> ra_idempotency action \<in> {IC_PURE, IC_IDEMPOTENT})"

text \<open>No text the tool returns makes the classification of its result raise.\<close>

definition classifiable :: "'s dispatcher \<Rightarrow> pystr \<Rightarrow> ResolvedAction \<Rightarrow> bool" where
  "classifiable D name action \<longleftrightarrow> ra_name action \<noteq> str ''action_program'' \<and> (\<forall>t. \<exists>status. dp_classify D t name = Inr status)"

lemma outcome_reports:
  assumes "ra_name action \<noteq> str ''action_program''"
  shows "reports (\<lambda>o'. ao_invoked o' = invoked \<and> (invoked \<longrightarrow> frank action o')) (outcome D action result status invoked fr)"
  using assms
  by (auto simp add: reports_def outcome_def lift_result_def normalize_action_outcome_def outcome_status_def Let_def
      known_no_effect_failure_def retry_allowed_def frank_def accepts split: if_splits)

lemma outcome_gives: "gives (\<lambda>o'. ao_invoked o' = invoked \<and> (invoked \<longrightarrow> frank action o')) (outcome D action result status invoked fr)"
  by (auto simp add: gives_def outcome_def lift_result_def normalize_action_outcome_def retry_allowed_def frank_def accepts)

lemma termination_reports:
  "ra_name action \<noteq> str ''action_program'' \<Longrightarrow> reports (frank action) (termination_outcome D action stop True result fr)"
  unfolding termination_outcome_def Let_def by (rule reports_mono [OF outcome_reports]) simp_all

lemma signal_reports: "reports (\<lambda>_. True) (dispatch_signal D)"
  unfolding dispatch_signal_def
  by (auto intro!: reports_then [OF reports_rules(3)] reports_then [OF reports_rules(4)] reports_then [OF reports_rules(5)] reports_rules
      split: clock_need.split prod.split)

lemma outcome_frank: "outcome D action result status True fr w = (w', Inr o') \<Longrightarrow> frank action o'"
  using outcome_gives [of True action D result status fr] by (simp add: gives_def)

lemma settle_gives:
  "gives (\<lambda>(o', stop). case o' of None \<Rightarrow> True | Some o' \<Rightarrow> frank action o') (settle_effect D name action lease fr result status stop)"
proof -
  have passed: "frank action (o'\<lparr>ao_verification := v, ao_error_code := c\<rparr>)" if "frank action o'" for o' v c
    using that by (simp add: frank_def)
  have failed: "frank action (o'\<lparr>ao_invoked := True, ao_retry_allowed := False\<rparr>)" for o' by (simp add: frank_def)
  have worked: "gives (frank action) (outcome D action result s True fr)" for s
    unfolding gives_def using outcome_frank by metis
  show ?thesis unfolding settle_effect_def Let_def
    by (auto intro!: gives_rules(1,3) gives_then [OF worked] passed failed split: option.splits bool.splits)
qed

lemma after_call_reports:
  assumes "classifiable D name action"
  shows "reports (frank action) (after_call D name action lease fr result)"
proof -
  have name: "ra_name action \<noteq> str ''action_program''" using assms by (simp add: classifiable_def)
  obtain status where status: "dp_classify D result name = Inr status" using assms by (auto simp add: classifiable_def)
  have uncertain: "reports (frank action) (outcome D action result (str ''failed'') True (fr\<lparr>fr_error_code := code\<rparr>))" for code
    by (rule reports_mono [OF outcome_reports [OF name]]) simp
  have classified: "reports (\<lambda>_. True) (lift_result (dp_classify D result name))" by (simp add: reports_def status lift_result_def)
  show ?thesis unfolding after_call_def Let_def
    by (auto intro!: reports_then [OF reports_rules(6)] reports_then [OF classified] reports_then [OF signal_reports]
        reports_then [OF reports_attempt [OF settle_gives]] uncertain termination_reports [OF name] reports_rules(1)
        split: sum.split option.split prod.split if_splits)
qed

lemmas honest_leaf = quiet.acts_simple [THEN honest_quiet] quiet.acts_outcome [THEN honest_quiet] quiet.acts_undispatched [THEN honest_quiet]
  quiet.acts_deduplicated [THEN honest_quiet]

lemmas honest_then = honest_before [OF quiet.acts_signal(1)] honest_before [OF quiet.acts_signal(2)]
  honest_before [OF quiet.acts_attempt [OF quiet.acts_transition]]

lemma invoke_reports: "reports (\<lambda>_. True) (invoke_tool D name args)"
  unfolding invoke_tool_def note_tool_def
  by (rule reports_then [where R = "\<lambda>_. True"], simp add: reports_def, rule reports_then [OF reports_rules(3)])
    (auto intro!: reports_rules reports_then [OF reports_rules(4)] split: tool_reply.split)

lemma call_started_honest:
  assumes "classifiable D name action"
  shows "honest (frank action) (call_started D name args action lease r fr)"
proof -
  have noted: "quiet (note_invocation r lease)" by (simp add: acts_def note_invocation_def)
  have "honest (frank action) (andthen (note_invocation r lease) (\<lambda>_. andthen (invoke_tool D name args) (\<lambda>raw_result.
      after_call D name action lease fr raw_result)))"
    by (intro honest_before [OF noted] honest_reports reports_then [OF invoke_reports] after_call_reports assms)
  then show ?thesis unfolding call_started_def
    by (auto intro!: honest_then honest_leaf quiet.acts_outcome split: option.split)
qed

lemma external_honest:
  assumes "classifiable D name action"
  shows "honest (frank action) (run_external_effect D name args action invocation_id lease)"
proof -
  have prepared: "quiet (attempt (andthen (lift_result (invocation_id_hash invocation_id)) (\<lambda>hash.
      ledger_prepare (dp_platform D) key hash name (ra_target action) (tl_fencing_token lease))))" for key
    by (intro quiet_acts)
  show ?thesis unfolding run_external_effect_def begin_effect_def Let_def
    by (rule honest_before [OF prepared])
      (auto intro!: honest_then honest_leaf call_started_honest assms split: sum.split option.split)
qed

lemma local_reports:
  assumes "classifiable D name action"
  shows "reports (frank action) (run_local_action D name args action fr)"
proof -
  have name: "ra_name action \<noteq> str ''action_program''" using assms by (simp add: classifiable_def)
  have classified: "reports (\<lambda>_. True) (lift_result (dp_classify D result name))" for result
  proof -
    obtain status where "dp_classify D result name = Inr status" using assms unfolding classifiable_def by blast
    then show ?thesis by (simp add: reports_def)
  qed
  have reported: "reports (frank action) (outcome D action result status True fr)" for result status fr
    by (rule reports_mono [OF outcome_reports [OF name]]) simp
  show ?thesis unfolding run_local_action_def
    by (auto intro!: reports_then [OF invoke_reports] reports_then [OF signal_reports] reports_then [OF classified]
        termination_reports [OF name] reported split: option.split)
qed

lemma leased_honest:
  assumes "classifiable D name (pf_action pf)"
  shows "honest (frank (pf_action pf)) (run_leased D name pf tool_call_id lease)"
proof -
  have valid: "quiet (case lease of None \<Rightarrow> done_with True | Some l \<Rightarrow> lease_valid D l)"
    by (auto intro!: quiet_acts split: option.split)
  show ?thesis unfolding run_leased_def Let_def
    by (rule honest_before [OF valid])
      (auto intro!: honest_then honest_leaf external_honest honest_reports [OF local_reports] assms split: option.split list.split)
qed

lemma honest_unavailable:
  assumes "honest Q m" shows "honest Q (or_unavailable D action m)"
proof -
  have "case r of Inl e \<Rightarrow> e = Interrupted | Inr x \<Rightarrow> Q x"
    if run: "or_unavailable D action m w = (w', r)" and called: "fx_tools w' \<noteq> fx_tools w" for w w' r
    using run unfolding or_unavailable_def
  proof (cases rule: andthen_cases)
    case (stopped e)
    then show ?thesis by (elim attempt_cases) auto
  next
    case (continued w1 x)
    show ?thesis
    proof (cases x)
      case (Inl e)
      then have m: "m w = (w1, Inl e)" "e \<noteq> Interrupted" using continued(1) by (auto elim: attempt_cases)
      have "fx_tools w' = fx_tools w1"
        using continued(2) quietD [OF quiet.acts_outcome(4)] unfolding Inl sum.case by blast
      then show ?thesis using assms m called by (fastforce simp add: honest_def)
    next
      case (Inr y)
      then have "m w = (w1, Inr y)" using continued(1) by (auto elim: attempt_cases)
      then show ?thesis using assms continued(2) called Inr by (fastforce simp add: honest_def)
    qed
  qed
  then show ?thesis by (simp add: honest_def)
qed

lemma run_action_honest:
  assumes "classifiable D name (pf_action pf)"
  shows "honest (\<lambda>(o', e). frank (pf_action pf) o') (run_action D name pf tool_call_id)"
proof -
  let ?frank = "\<lambda>(o', e :: exn option). frank (pf_action pf) o'"
  have unleased: "honest ?frank (andthen (or_unavailable D action m) (\<lambda>o'. done_with (o', None)))"
    if "honest (frank (pf_action pf)) m" for action m
    by (rule honest_after [OF honest_unavailable [OF that]]) (auto intro!: quiet_acts reports_rules)
  have released: "reports (\<lambda>_. True) (release_lease D lease)" for lease
    unfolding release_lease_def by (rule reports_then [OF reports_rules(6)]) (auto intro: reports_rules)
  have leased: "honest ?frank (collecting (or_unavailable D action m) (release_lease D lease))"
    if m: "honest (frank (pf_action pf)) m" for action m lease
  proof -
    have "case r of Inl e \<Rightarrow> e = Interrupted | Inr x \<Rightarrow> ?frank x"
      if run: "collecting (or_unavailable D action m) (release_lease D lease) w = (w', r)" and called: "fx_tools w' \<noteq> fx_tools w" for w w' r
    proof -
      obtain w1 r1 where 1: "or_unavailable D action m w = (w1, r1)" by fastforce
      obtain r2 where 2: "release_lease D lease w1 = (w', r2)" and r: "r = (case r2 of Inl e \<Rightarrow> Inl e | Inr y \<Rightarrow> (case r1 of Inl e \<Rightarrow> Inl e | Inr x \<Rightarrow> Inr (x, y)))"
        using run by (auto simp add: collecting_def 1 split: prod.splits sum.splits)
      have "fx_tools w1 \<noteq> fx_tools w" using called quietD [OF quiet.acts_lease(2) 2] by simp
      then have "case r1 of Inl e \<Rightarrow> e = Interrupted | Inr x \<Rightarrow> frank (pf_action pf) x"
        using honest_unavailable [OF m] 1 unfolding honest_def by blast
      moreover have "case r2 of Inl e \<Rightarrow> e = Interrupted | Inr _ \<Rightarrow> True"
        using released 2 unfolding reports_def by blast
      ultimately show ?thesis unfolding r by (auto split: sum.splits)
    qed
    then show ?thesis by (simp add: honest_def)
  qed
  have taken: "quiet (attempt (take_lease D (pf_action pf)))" by (intro quiet_acts)
  show ?thesis unfolding run_action_def Let_def
    by (rule honest_before [OF taken])
      (auto intro!: unleased leased leased_honest [OF assms] honest_leaf split: sum.split option.split prod.split)
qed

section \<open>The report of a dispatch\<close>

primrec reported_outcome :: "dispatch_result \<Rightarrow> ActionOutcome" where
  "reported_outcome (Result o') = o'"
| "reported_outcome (Result_interrupted o') = o'"

lemma after_release_frank:
  assumes "after_release D action o' e w = (w', Inr o2)" "frank action o'" shows "frank action o2"
  using assms by (auto simp add: after_release_def frank_def [of action o'] Let_def split: option.splits if_splits dest: outcome_frank)
    (simp_all add: frank_def)

lemma finalize_frank:
  assumes "finalize D G name pf o' w = (w', Inr o2)" "frank action o'" shows "frank action o2"
  using assms unfolding finalize_def Let_def
  by (auto elim!: andthen_InrE split: if_splits prod.splits simp add: frank_def)

lemma run_approved_frank:
  assumes "classifiable D name (pf_action pf)" "run_approved D G name tool_call_id pf w = (w', Inr x)" "fx_tools w' \<noteq> fx_tools w"
  shows "frank (pf_action pf) (reported_outcome x)"
proof -
  obtain w1 o1 e w2 o2 w3 o3 where run: "run_action D name pf tool_call_id w = (w1, Inr (o1, e))"
    "after_release D (pf_action pf) o1 e w1 = (w2, Inr o2)" "finalize D G name pf o2 w2 = (w3, Inr o3)" "finish_dispatch o3 w3 = (w', Inr x)"
    using assms(2) unfolding run_approved_def by (auto elim!: andthen_InrE split: prod.splits)
  have "fx_tools w1 \<noteq> fx_tools w"
    using assms(3) quietD [OF quiet.acts_after_release run(2)] quietD [OF quiet.acts_finalize(1) run(3)] quietD [OF quiet.acts_finalize(2) run(4)]
    by simp
  then have "frank (pf_action pf) o1" using run_action_honest [OF assms(1)] run(1) by (fastforce simp add: honest_def)
  then have "frank (pf_action pf) o3" using after_release_frank [OF run(2)] finalize_frank [OF run(3)] by blast
  then show ?thesis using run(4) by (auto simp add: finish_dispatch_def get_control_def andthen_def split: if_splits)
qed

text \<open>C33: A dispatch calls at most one tool, at most once, and honestly reports it. It calls exactly the tool it was
  asked for, with the arguments of its preflight, only without a policy ceiling and when one after the other, in this
  dispatch, the control did not stop it, the preflight allowed the action with a known class, the attempt had an
  identity without an unresolved earlier attempt, capacity was reserved and the approval was given, and an external
  mutation has an invocation identifier. When it returns, the outcome admits the call, and allows a retry only of an
  idempotent action, provided that the result is not that of an action program and its text can be classified.\<close>

theorem dispatch_gated:
  assumes "dispatch_action D G name args tool_call_id force policy_ceiling deadline cancellation w = (w', r)" "fx_tools w' \<noteq> fx_tools w"
  shows "\<exists>pf w1. fx_tools w' = fx_tools w @ [(name, pf_signature_args pf)] \<and> policy_ceiling = []
    \<and> gates_passed D G name args tool_call_id force pf (w\<lparr>fx_control := new_control deadline cancellation\<rparr>) w1
    \<and> (\<forall>x. classifiable D name (pf_action pf) \<and> r = Inr x \<longrightarrow> frank (pf_action pf) (reported_outcome x))"
proof -
  obtain pf v v' r' where called: "policy_ceiling = []" "fx_tools w' = fx_tools w @ [(name, pf_signature_args pf)]"
    "gates_passed D G name args tool_call_id force pf (w\<lparr>fx_control := new_control deadline cancellation\<rparr>) v"
    and run: "run_approved D G name tool_call_id pf v = (v', r')" "fx_tools v' \<noteq> fx_tools v" "r \<in> insert r' (range Inl)"
    using assms by (rule dispatch_called)
  have "frank (pf_action pf) (reported_outcome x)" if "classifiable D name (pf_action pf)" "r = Inr x" for x
    using run_approved_frank [OF that(1)] run that(2) by auto
  then show ?thesis using called by blast
qed

end
