(* ===== verification/Effect_Safety.thy ===== *)
theory Effect_Safety
  imports Effect_Actions
begin

text \<open>
  What holds over all runs of external effects: on a ledger that lost nothing, every tool call was recorded as
  started before, and no two calls share an idempotency key or an invocation.
\<close>

section \<open>Views of a ledger\<close>

lemma map_of_dict_put: "map_of (dict_put k v row) = (map_of row)(k \<mapsto> v)"
proof
  fix x
  have "map_of (map (\<lambda>(k', v'). (k', if k' = k then v else v')) row) x = map_of row x" if "x \<noteq> k"
    using that by (induction row) (simp_all split: prod.split)
  moreover have "k \<in> fst ` set row \<Longrightarrow> map_of (map (\<lambda>(k', v'). (k', if k' = k then v else v')) row) k = Some v"
    by (induction row) (auto split: prod.split)
  moreover have "k \<notin> fst ` set row \<Longrightarrow> map_of row k = None" by (simp add: map_of_eq_None_iff)
  ultimately show "map_of (dict_put k v row) x = ((map_of row)(k \<mapsto> v)) x"
    by (cases "x = k") (simp_all add: dict_put_def map_add_def split: option.split)
qed

lemma EffectState_value_inject [simp]: "EffectState_value a = EffectState_value b \<longleftrightarrow> a = b"
  by (cases a; cases b) simp_all

lemma decode_effect_event:
  assumes "decode_event printed (effect_event r previous) = Inr (r', previous')"
  shows "r' = r \<and> previous' = previous"
proof -
  have as_text: "text_or printed row [k] [] = s" if "map_of row (str k) = Some (PStr s)" for row k s
    using that by (auto simp add: text_or_def map_filter_simps str_def)
  show ?thesis
    using assms
    by (cases r) (auto simp add: decode_event_def effect_event_def Let_def accepts as_text find_Some_iff split: option.splits py.splits)
qed

definition events_of :: "store_params \<Rightarrow> event_file \<Rightarrow> py list" where
  "events_of ps file = map (se_event \<circ> fst) (recorded ps file)"

text \<open>The file has an event of this record.\<close>

definition listed :: "store_params \<Rightarrow> event_file \<Rightarrow> EffectRecord \<Rightarrow> bool" where
  "listed ps file r \<longleftrightarrow> (\<exists>previous. effect_event r previous \<in> set (events_of ps file))"

definition remembers :: "ledger_view \<Rightarrow> EffectRecord \<Rightarrow> bool" where
  "remembers v r \<longleftrightarrow> (\<exists>r'. map_of (lv_latest v) (er_effect_id r) = Some r' \<and> er_effect_id r' = er_effect_id r \<and> same_identity r' r)"

lemma listed_extends: "extends ps file file' \<Longrightarrow> listed ps file r \<Longrightarrow> listed ps file' r"
  unfolding extends_def listed_def events_of_def prefix_def by (metis Un_iff map_append set_append)

lemma admit_remembers:
  assumes "admit r previous v = Inr v'"
  shows "remembers v' r" and "remembers v s \<Longrightarrow> remembers v' s"
proof -
  have latest: "map_of (lv_latest v') = (map_of (lv_latest v))(er_effect_id r \<mapsto> r)"
    and chain: "chained r previous (map_of (lv_latest v) (er_effect_id r)) = Inr ()"
    using assms by (auto simp add: admit_def accepts map_of_dict_put)
  show "remembers v' r" by (simp add: remembers_def latest same_identity_def)
  assume "remembers v s"
  then obtain s' where s': "map_of (lv_latest v) (er_effect_id s) = Some s'" "er_effect_id s' = er_effect_id s" "same_identity s' s"
    by (auto simp add: remembers_def)
  show "remembers v' s"
  proof (cases "er_effect_id s = er_effect_id r")
    case True
    then have "same_identity r s'" using chain s'(1) by (auto simp add: chained_def accepts)
    then show ?thesis using s'(3) True by (auto simp add: remembers_def latest same_identity_def)
  next
    case False
    then show ?thesis using s' by (auto simp add: remembers_def latest)
  qed
qed

lemma admit_all_remembers:
  assumes "admit_all printed events v = Inr v'"
  shows "remembers v s \<Longrightarrow> remembers v' s" and "effect_event r previous \<in> set events \<Longrightarrow> remembers v' r"
proof -
  have "(remembers v s \<longrightarrow> remembers v' s) \<and> (effect_event r previous \<in> set events \<longrightarrow> remembers v' r)" for s r previous
    using assms
  proof (induction events arbitrary: v s)
    case (Cons event events)
    then obtain q prev v1 where step: "decode_event printed event = Inr (q, prev)" "admit q prev v = Inr v1"
      "admit_all printed events v1 = Inr v'"
      by (auto simp add: accepts)
    then have "event = effect_event r previous \<Longrightarrow> q = r" using decode_effect_event by blast
    then show ?case using Cons.IH [OF step(3)] admit_remembers [OF step(2)] by (metis set_ConsD)
  qed simp
  then show "remembers v s \<Longrightarrow> remembers v' s" "effect_event r previous \<in> set events \<Longrightarrow> remembers v' r" by blast+
qed

section \<open>Single operations\<close>

definition platform_ok :: "'s effect_platform \<Rightarrow> bool" where
  "platform_ok P \<longleftrightarrow> policy_ok (ep_policy P) \<and> sizes_positive (ep_params P) \<and> cutoff_ok (ep_params P) (ep_policy P)"

lemma append_last:
  assumes "policy_ok p" "sizes_positive ps" "cutoff_ok ps p" "store_append ps p io now event file = (file', Inr m)"
    and stored: "stored = \<lparr>se_stored_at = now, se_event = event\<rparr>"
  shows "\<exists>n xs. recorded ps file' = xs @ [(stored, n)]"
  using assms(1,2,4) stored
proof (cases rule: store_append_recorded)
  case (compacted n m)
  have "\<not> expired ps p now stored" using assms(3) compacted(3) by (simp add: expired_def cutoff_ok_def stored)
  then have "live ps p now (recorded ps file @ [(stored, n)]) = live ps p now (recorded ps file) @ [(stored, n)]"
    by (simp add: live_def)
  then obtain ys where "recorded ps file' = ys @ [(stored, n)]"
    using newest_keeps_last [OF assms(1) _ compacted(2)] compacted(5) by metis
  then show ?thesis by blast
next
  case added
  then show ?thesis by blast
qed simp

lemma ledger_append_notes:
  fixes D :: "'s dispatcher"
  assumes "platform_ok (dp_platform D)" "ledger_append (dp_platform D) r previous w = (w', Inr ())"
  shows "listed (ep_params (dp_platform D)) (fx_ledger w') r"
proof -
  obtain m where "on_store (dp_platform D) (\<lambda>io now. store_append (ep_params (dp_platform D)) (ep_policy (dp_platform D)) io now (effect_event r previous)) w = (w', Inr m)"
    using assms(2) unfolding ledger_append_def by (elim andthen_InrE) (auto split: if_splits)
  then obtain io now before where "store_append (ep_params (dp_platform D)) (ep_policy (dp_platform D)) io now (effect_event r previous) before = (fx_ledger w', Inr m)"
    by (elim on_store_cases) auto
  from append_last [OF _ _ _ this refl] assms(1) show ?thesis
    by (fastforce simp add: platform_ok_def listed_def events_of_def)
qed

lemma ledger_records_remember:
  fixes D :: "'s dispatcher"
  assumes "platform_ok (dp_platform D)" "ledger_records (dp_platform D) w = (w', Inr records)" "fx_intact w'"
  obtains v where "records = lv_latest v" "\<And>r. listed (ep_params (dp_platform D)) (fx_ledger w') r \<Longrightarrow> remembers v r"
proof -
  obtain events v where read: "on_store (dp_platform D) (\<lambda>io now file. (file, read_events (ep_params (dp_platform D)) (ep_policy (dp_platform D)) io now None file)) w = (w', Inr events)"
    and v: "admit_all (ep_printed (dp_platform D)) events empty_view = Inr v" "records = lv_latest v"
    using assms(2) unfolding ledger_records_def by (elim andthen_InrE) (auto simp add: accepts)
  from read obtain io now where "read_events (ep_params (dp_platform D)) (ep_policy (dp_platform D)) io now None (fx_ledger w') = Inr events"
    "dropped_records (scan (ep_params (dp_platform D)) (ep_policy (dp_platform D)) now (fx_ledger w')) = 0"
    using assms(3) by (elim on_store_cases) auto
  then have "events = events_of (ep_params (dp_platform D)) (fx_ledger w')"
    using assms(1) intact_scan by (auto simp add: read_events_def accepts read_records_Inr events_of_def platform_ok_def)
  then show thesis using that v admit_all_remembers(2) [OF v(1)] by (auto simp add: listed_def)
qed

section \<open>Acts that keep the ledger\<close>

text \<open>
  \<open>keeps ps w w'\<close>: while the ledger is intact, its records stay; the calls of external effects stay the same,
  and the world does not become intact again.
\<close>

definition keeps :: "store_params \<Rightarrow> 's effects \<Rightarrow> 's effects \<Rightarrow> bool" where
  "keeps ps w w' \<longleftrightarrow> (fx_intact w' \<longrightarrow> fx_intact w \<and> extends ps (fx_ledger w) (fx_ledger w')) \<and> fx_invoked w' = fx_invoked w"

interpretation keeping: calling_relation "keeps (ep_params (dp_platform D))" D for D
  by unfold_locales (auto simp add: keeps_def intro: extends_trans)

lemmas keeps_acts = keeping.acts_simple keeping.acts_andthen keeping.acts_attempt keeping.acts_ask_env keeping.acts_prepare
  keeping.acts_transition keeping.acts_signal keeping.acts_outcome keeping.acts_undispatched keeping.acts_deduplicated
  keeping.acts_after_call keeping.acts_invoke

section \<open>Preparing and starting an effect\<close>

lemma keepsD:
  "keeps ps w w' \<Longrightarrow> fx_intact w' \<Longrightarrow> fx_intact w \<and> extends ps (fx_ledger w) (fx_ledger w')"
  "keeps ps w w' \<Longrightarrow> fx_invoked w' = fx_invoked w"
  by (simp_all add: keeps_def)

lemma prepare_body_created:
  fixes D :: "'s dispatcher"
  assumes "platform_ok (dp_platform D)" "prepare_body (dp_platform D) key hash name target token w = (w', Inr (r, True))" "fx_intact w'"
  shows "listed (ep_params (dp_platform D)) (fx_ledger w') r"
    and "listed (ep_params (dp_platform D)) (fx_ledger w) s \<Longrightarrow>
      er_idempotency_key s \<noteq> er_idempotency_key r \<and> er_invocation_id_hash s \<noteq> er_invocation_id_hash r"
proof -
  obtain w1 records where records: "ledger_records (dp_platform D) w = (w1, Inr records)"
    and rest: "(case find (\<lambda>r. er_idempotency_key r = key) (map snd records) of
      Some existing \<Rightarrow> done_with (existing, False)
    | None \<Rightarrow>
        if hash \<in> er_invocation_id_hash ` snd ` set records then throw (InvocationReplayConflict ''invocation_id'')
        else
          andthen (ask_env (ep_random (dp_platform D))) (\<lambda>random.
          andthen (lift_result (target_digest target)) (\<lambda>digest.
          let r = \<lparr>er_effect_id = str ''effect-'' @ uuid_hex random, er_idempotency_key = key,
                er_invocation_id_hash = hash, er_action = name, er_target_hash = digest, er_state = ES_PREPARED,
                er_fencing_token = token, er_sequence = 0, er_reason_code = [], er_verifier = []\<rparr> in
          andthen (ledger_append (dp_platform D) r []) (\<lambda>_.
          done_with (r, True))))) w1 = (w', Inr (r, True))"
    using assms(2) unfolding prepare_body_def by (elim andthen_InrE)
  from rest have new: "find (\<lambda>r. er_idempotency_key r = key) (map snd records) = None"
    "hash \<notin> er_invocation_id_hash ` snd ` set records"
    by (auto split: option.splits if_splits)
  from rest obtain w2 w3 where steps: "andthen (ask_env (ep_random (dp_platform D))) (\<lambda>random. lift_result (target_digest target)) w1 = (w2, Inr w3)"
    "ledger_append (dp_platform D) r [] w2 = (w', Inr ())" "er_idempotency_key r = key" "er_invocation_id_hash r = hash"
    by (auto simp add: new Let_def andthen_Inr elim!: andthen_InrE)
  show "listed (ep_params (dp_platform D)) (fx_ledger w') r" using ledger_append_notes [OF assms(1) steps(2)] .
  have acts: "acts (keeps (ep_params (dp_platform D))) (andthen (ask_env (ep_random (dp_platform D))) (\<lambda>random. lift_result (target_digest target)))"
    by (intro keeps_acts)
  have "keeps (ep_params (dp_platform D)) w1 w'"
    by (rule keeping.trans [OF actsD [OF acts steps(1)] actsD [OF keeping.acts_append steps(2)]])
  then have intact: "fx_intact w1" using keepsD assms(3) by blast
  then have "extends (ep_params (dp_platform D)) (fx_ledger w) (fx_ledger w1)"
    using actsD [OF keeping.acts_records(1) records] keepsD by blast
  moreover assume "listed (ep_params (dp_platform D)) (fx_ledger w) s"
  ultimately have s: "listed (ep_params (dp_platform D)) (fx_ledger w1) s" using listed_extends by blast
  obtain v where "records = lv_latest v" "\<And>r. listed (ep_params (dp_platform D)) (fx_ledger w1) r \<Longrightarrow> remembers v r"
    using ledger_records_remember [OF assms(1) records intact] by blast
  with s obtain s' where "(er_effect_id s, s') \<in> set records" "same_identity s' s"
    by (metis map_of_SomeD remembers_def)
  then show "er_idempotency_key s \<noteq> er_idempotency_key r \<and> er_invocation_id_hash s \<noteq> er_invocation_id_hash r"
    using new steps(3,4) by (force simp add: find_None_iff same_identity_def image_iff)
qed

lemma ledger_prepare_created:
  fixes D :: "'s dispatcher"
  assumes "platform_ok (dp_platform D)" "ledger_prepare (dp_platform D) key hash name target token w = (w', Inr (r, True))" "fx_intact w'"
  shows "listed (ep_params (dp_platform D)) (fx_ledger w') r"
    and "listed (ep_params (dp_platform D)) (fx_ledger w) s \<Longrightarrow>
      er_idempotency_key s \<noteq> er_idempotency_key r \<and> er_invocation_id_hash s \<noteq> er_invocation_id_hash r"
proof -
  obtain w1 lease name' where lease: "on_invocations (dp_platform D) (\<lambda>io. acquire io (str ''invocation:'' @ hash) None (Finite 60)) w = (w1, Inr lease)"
    and body: "ensuring (prepare_body (dp_platform D) key hash name' target token) (on_invocations (dp_platform D) (\<lambda>io. give_back io lease)) w1 = (w', Inr (r, True))"
    using assms(2) unfolding ledger_prepare_def by (elim andthen_InrE) auto
  from body obtain w2 where w2: "prepare_body (dp_platform D) key hash name' target token w1 = (w2, Inr (r, True))"
    "on_invocations (dp_platform D) (\<lambda>io. give_back io lease) w2 = (w', Inr ())"
    by (cases rule: ensuring_cases) auto
  have "keeps (ep_params (dp_platform D)) w2 w'" "keeps (ep_params (dp_platform D)) w w1"
    by (rule actsD [OF keeping.acts_invocations w2(2)], rule actsD [OF keeping.acts_invocations lease])
  then have intact: "fx_intact w2" "extends (ep_params (dp_platform D)) (fx_ledger w2) (fx_ledger w')" "fx_intact w1 \<longrightarrow> extends (ep_params (dp_platform D)) (fx_ledger w) (fx_ledger w1)"
    using keepsD assms(3) by blast+
  moreover have "keeps (ep_params (dp_platform D)) w1 w2" by (rule actsD [OF keeping.acts_prepare(1) w2(1)])
  ultimately have "extends (ep_params (dp_platform D)) (fx_ledger w) (fx_ledger w1)" using keepsD by blast
  then show "listed (ep_params (dp_platform D)) (fx_ledger w') r" "listed (ep_params (dp_platform D)) (fx_ledger w) s \<Longrightarrow>
      er_idempotency_key s \<noteq> er_idempotency_key r \<and> er_invocation_id_hash s \<noteq> er_invocation_id_hash r"
    using prepare_body_created [OF assms(1) w2(1) intact(1)] intact(2) listed_extends by blast+
qed

lemma started_listed:
  fixes D :: "'s dispatcher"
  assumes "platform_ok (dp_platform D)" "ledger_transition (dp_platform D) (er_effect_id r) new_state token reason verifier w = (w', Inr updated)" "fx_intact w'"
    and "listed (ep_params (dp_platform D)) (fx_ledger w) r"
  shows "listed (ep_params (dp_platform D)) (fx_ledger w') updated \<and> same_identity updated r \<and> er_effect_id updated = er_effect_id r
    \<and> er_state updated = new_state \<and> er_fencing_token updated = token"
proof -
  obtain w1 w2 records current safe_reason safe_verifier where records: "ledger_records (dp_platform D) w = (w1, Inr records)"
    "map_of records (er_effect_id r) = Some current" "token = er_fencing_token current"
    "updated = next_record current new_state safe_reason safe_verifier"
    "ledger_append (dp_platform D) updated (str (EffectState_value (er_state current))) w1 = (w', Inr ())"
    using assms(2) unfolding ledger_transition_def ledger_get_def Let_def
    by (auto elim!: andthen_InrE split: option.splits if_splits)
  have "keeps (ep_params (dp_platform D)) w1 w'" "keeps (ep_params (dp_platform D)) w w1"
    by (rule actsD [OF keeping.acts_append records(5)], rule actsD [OF keeping.acts_records(1) records(1)])
  then have intact: "fx_intact w1" "extends (ep_params (dp_platform D)) (fx_ledger w) (fx_ledger w1)" using keepsD assms(3) by blast+
  obtain v where "records = lv_latest v" "remembers v r"
    using ledger_records_remember [OF assms(1) records(1) intact(1)] listed_extends [OF intact(2) assms(4)] by metis
  then have "er_effect_id current = er_effect_id r" "same_identity current r" using records(2) by (auto simp add: remembers_def)
  then show ?thesis using ledger_append_notes [OF assms(1) records(5)] records(3,4) by (simp add: next_record_def same_identity_def)
qed

section \<open>Calls\<close>

text \<open>The file has the start of this call, with the token of its lease.\<close>

definition called :: "store_params \<Rightarrow> event_file \<Rightarrow> invocation \<Rightarrow> bool" where
  "called ps file iv \<longleftrightarrow> (\<exists>s. listed ps file s \<and> er_state s = ES_STARTED \<and> er_effect_id s = iv_effect_id iv
     \<and> er_idempotency_key s = iv_idempotency_key iv \<and> er_invocation_id_hash s = iv_invocation_id_hash iv
     \<and> er_fencing_token s = tl_fencing_token (iv_lease iv))"

text \<open>The lease validates against the files at the time of the call, at a reading of the clock of leases.\<close>

definition leased :: "'s dispatcher \<Rightarrow> invocation \<Rightarrow> bool" where
  "leased D iv \<longleftrightarrow> (\<exists>s. validate_lease (snd (dp_lease_clock D s)) (iv_lease iv) (iv_targets iv) = Inr True)"

definition calls_ok :: "'s dispatcher \<Rightarrow> 's effects \<Rightarrow> bool" where
  "calls_ok D w \<longleftrightarrow>
     (\<forall>iv \<in> set (fx_invoked w). leased D iv)
     \<and> (fx_intact w \<longrightarrow> (\<forall>iv \<in> set (fx_invoked w). called (ep_params (dp_platform D)) (iv_ledger iv) iv
            \<and> called (ep_params (dp_platform D)) (fx_ledger w) iv)
          \<and> distinct (map iv_idempotency_key (fx_invoked w)) \<and> distinct (map iv_invocation_id_hash (fx_invoked w)))"

text \<open>A prepared effect that was not called yet.\<close>

definition ready :: "store_params \<Rightarrow> EffectRecord \<Rightarrow> 's effects \<Rightarrow> bool" where
  "ready ps r w \<longleftrightarrow> (fx_intact w \<longrightarrow> listed ps (fx_ledger w) r
     \<and> er_idempotency_key r \<notin> iv_idempotency_key ` set (fx_invoked w)
     \<and> er_invocation_id_hash r \<notin> iv_invocation_id_hash ` set (fx_invoked w))"

lemma called_extends: "extends ps file file' \<Longrightarrow> called ps file iv \<Longrightarrow> called ps file' iv"
  unfolding called_def using listed_extends by blast

lemma calls_ok_keeps: "keeps (ep_params (dp_platform D)) w w' \<Longrightarrow> calls_ok D w \<Longrightarrow> calls_ok D w'"
  unfolding calls_ok_def keeps_def using called_extends by metis

lemma ready_keeps: "keeps ps w w' \<Longrightarrow> ready ps r w \<Longrightarrow> ready ps r w'"
  unfolding ready_def keeps_def using listed_extends by metis

definition sound :: "'s dispatcher \<Rightarrow> ('s effects, 'a) act \<Rightarrow> 's effects \<Rightarrow> bool" where
  "sound D m w \<longleftrightarrow> calls_ok D (fst (m w))"

lemma sound_keeps: "acts (keeps (ep_params (dp_platform D))) m \<Longrightarrow> calls_ok D w \<Longrightarrow> sound D m w"
  unfolding sound_def acts_def by (rule calls_ok_keeps) auto

lemma sound_andthen:
  assumes "acts (keeps (ep_params (dp_platform D))) m" "calls_ok D w"
    and "\<And>w1 x. m w = (w1, Inr x) \<Longrightarrow> keeps (ep_params (dp_platform D)) w w1 \<Longrightarrow> calls_ok D w1 \<Longrightarrow> sound D (f x) w1"
  shows "sound D (andthen m f) w"
proof (cases "andthen m f w")
  case (Pair w' r)
  then show ?thesis
  proof (cases rule: andthen_cases)
    case stopped
    then show ?thesis using sound_keeps [OF assms(1,2)] Pair by (simp add: sound_def)
  next
    case (continued w1 x)
    note step = actsD [OF assms(1) continued(1)]
    show ?thesis using assms(3) [OF continued(1) step calls_ok_keeps [OF step assms(2)]] continued(2) Pair by (simp add: sound_def)
  qed
qed

section \<open>The run of an effect\<close>

lemma lease_valid_True:
  assumes "lease_valid D lease w = (w', Inr True)"
  shows "\<exists>s. validate_lease (snd (dp_lease_clock D s)) lease (fx_targets w') = Inr True"
proof -
  from assms obtain w1 clock where clock: "ask_env (dp_lease_clock D) w = (w1, Inr clock)"
    and "on_targets (dp_platform D) (\<lambda>io files. (files, validate_lease clock lease files)) w1 = (w', Inr True)"
    unfolding lease_valid_def by (elim andthen_InrE) (auto split: if_splits)
  then have "validate_lease clock lease (fx_targets w') = Inr True" by (elim on_targets_cases) auto
  moreover have "clock = snd (dp_lease_clock D (fx_env w))" using clock by (auto simp add: ask_env_def split: prod.splits)
  ultimately show ?thesis by blast
qed

text \<open>The start is recorded, with the token of the lease.\<close>

definition started :: "store_params \<Rightarrow> EffectRecord \<Rightarrow> TargetLease \<Rightarrow> 's effects \<Rightarrow> bool" where
  "started ps r lease w \<longleftrightarrow> (fx_intact w \<longrightarrow> (\<exists>s. listed ps (fx_ledger w) s \<and> same_identity s r
     \<and> er_effect_id s = er_effect_id r \<and> er_state s = ES_STARTED \<and> er_fencing_token s = tl_fencing_token lease))"

lemma started_keeps: "keeps ps w w' \<Longrightarrow> started ps r lease w \<Longrightarrow> started ps r lease w'"
  unfolding started_def keeps_def using listed_extends by metis

lemma calls_ok_note:
  assumes "calls_ok D w" "ready (ep_params (dp_platform D)) r w" "validate_lease (snd (dp_lease_clock D s)) lease (fx_targets w) = Inr True"
    and "started (ep_params (dp_platform D)) r lease w"
  shows "calls_ok D (fst (note_invocation r lease w))"
proof -
  define iv where "iv = \<lparr>iv_effect_id = er_effect_id r, iv_idempotency_key = er_idempotency_key r,
     iv_invocation_id_hash = er_invocation_id_hash r, iv_lease = lease, iv_ledger = fx_ledger w, iv_targets = fx_targets w\<rparr>"
  have "fx_intact w \<longrightarrow> called (ep_params (dp_platform D)) (fx_ledger w) iv" using assms(4) by (auto simp add: called_def iv_def same_identity_def started_def)
  moreover have "leased D iv" using assms(3) by (auto simp add: iv_def leased_def)
  ultimately show ?thesis using assms(1,2)
    by (auto simp add: calls_ok_def ready_def note_invocation_def iv_def)
qed

lemma call_started_sound:
  assumes "calls_ok D w" "ready (ep_params (dp_platform D)) r w" "started (ep_params (dp_platform D)) r lease w"
  shows "sound D (call_started D name args action lease r fr) w"
proof -
  let ?ps = "ep_params (dp_platform D)"
  have noted: "sound D (andthen (note_invocation r lease) (\<lambda>_. andthen (invoke_tool D name args) (\<lambda>raw_result.
      after_call D name action lease fr raw_result))) w"
    if "calls_ok D (fst (note_invocation r lease w))" for w
    using that sound_keeps [of D "andthen (invoke_tool D name args) (\<lambda>raw_result. after_call D name action lease fr raw_result)"]
    by (auto simp add: sound_def andthen_def [of "note_invocation r lease"] note_invocation_def intro!: keeps_acts)
  show ?thesis unfolding call_started_def
  proof (intro sound_andthen keeps_acts assms(1), goal_cases)
    case (1 w1 stop)
    show ?case
    proof (cases stop)
      case None
      note keeps1 = 1(2)
      show ?thesis unfolding None option.case
      proof (intro sound_andthen keeps_acts 1(3), goal_cases)
        case (1 w2 valid)
        note keeps2 = keeping.trans [OF keeps1 1(2)]
        have "calls_ok D (fst (note_invocation r lease w2))" if valid
          using lease_valid_True [of D lease w1 w2] 1(1) that
            calls_ok_note [OF 1(3) ready_keeps [OF keeps2 assms(2)] _ started_keeps [OF keeps2 assms(3)]] by auto
        then show ?case using noted 1(3) by (auto intro!: sound_keeps keeps_acts)
      qed
    qed (use 1(3) in \<open>auto intro!: sound_keeps keeps_acts\<close>)
  qed
qed

lemma begin_effect_sound:
  assumes ok: "platform_ok (dp_platform D)" and "calls_ok D w"
    and "ready (ep_params (dp_platform D)) r w" and fr: "fr_effect_id fr = er_effect_id r"
  shows "sound D (begin_effect D name args action lease r fr) w"
  unfolding begin_effect_def
proof (intro sound_andthen keeps_acts assms(2), goal_cases)
  case (1 w1 stop)
  note ready1 = ready_keeps [OF 1(2) assms(3)]
  show ?case
  proof (cases stop)
    case None
    show ?thesis unfolding None option.case
    proof (intro sound_andthen keeps_acts 1(3), goal_cases)
      case (1 w2 begun)
      show ?case
      proof (cases begun)
        case (Inr updated)
        have transition: "ledger_transition (dp_platform D) (er_effect_id r) ES_STARTED (tl_fencing_token lease) [] [] w1 = (w2, Inr updated)"
          using 1(1) unfolding Inr fr by (cases rule: attempt_cases) auto
        have "fx_intact w2 \<Longrightarrow> listed (ep_params (dp_platform D)) (fx_ledger w1) r"
          using ready1 keepsD(1) [OF 1(2)] by (auto simp add: ready_def)
        then have "started (ep_params (dp_platform D)) r lease w2"
          using started_listed [OF ok transition] unfolding started_def by blast
        then show ?thesis using call_started_sound [OF 1(3) ready_keeps [OF 1(2) ready1]] Inr by simp
      qed (use 1(3) in \<open>auto intro!: sound_keeps keeps_acts\<close>)
    qed
  qed (use 1(3) in \<open>auto intro!: sound_keeps keeps_acts\<close>)
qed

lemma prepared_ready:
  fixes D :: "'s dispatcher"
  assumes ok: "platform_ok (dp_platform D)" and calls: "calls_ok D w"
    and prepare: "ledger_prepare (dp_platform D) key hash name target token w = (w', Inr (r, True))"
  shows "ready (ep_params (dp_platform D)) r w'"
proof (cases "fx_intact w'")
  case True
  note made = ledger_prepare_created [OF ok prepare True]
  have keeps: "keeps (ep_params (dp_platform D)) w w'" by (rule actsD [OF keeping.acts_prepare(2) prepare])
  have "called (ep_params (dp_platform D)) (fx_ledger w) iv" if "iv \<in> set (fx_invoked w)" for iv
    using that calls keepsD(1) [OF keeps True] by (simp add: calls_ok_def)
  then have "er_idempotency_key r \<noteq> iv_idempotency_key iv \<and> er_invocation_id_hash r \<noteq> iv_invocation_id_hash iv"
    if "iv \<in> set (fx_invoked w)" for iv
    using that made(2) unfolding called_def by metis
  then show ?thesis using made(1) keepsD(2) [OF keeps] by (auto simp add: ready_def)
qed (simp add: ready_def)

lemma run_external_effect_sound:
  assumes ok: "platform_ok (dp_platform D)" and "calls_ok D w"
  shows "sound D (run_external_effect D name args action invocation_id lease) w"
  unfolding run_external_effect_def Let_def
proof (intro sound_andthen keeps_acts assms(2), goal_cases)
  case (1 w1 prepared)
  show ?case
  proof (cases "\<exists>r. prepared = Inr (r, True)")
    case True
    then obtain r where r: "prepared = Inr (r, True)" by blast
    then obtain key hash where "ledger_prepare (dp_platform D) key hash name (ra_target action) (tl_fencing_token lease) w = (w1, Inr (r, True))"
      using 1(1) by (elim attempt_cases) (auto elim!: andthen_InrE)
    from prepared_ready [OF ok assms(2) this] show ?thesis
      by (simp add: r begin_effect_sound [OF ok 1(3)])
  qed (use 1(3) in \<open>auto intro!: sound_keeps keeps_acts split: sum.split\<close>)
qed

section \<open>Runs of the dispatcher\<close>

interpretation calling: dispatching_relation
  "\<lambda>w w'. platform_ok (dp_platform D) \<longrightarrow> calls_ok D w \<longrightarrow> calls_ok D w'" D for D
proof unfold_locales
  show "acts (\<lambda>w w'. platform_ok (dp_platform D) \<longrightarrow> calls_ok D w \<longrightarrow> calls_ok D w')
    (run_external_effect D name args action invocation_id lease)" for name args action invocation_id lease
    using run_external_effect_sound by (auto simp add: acts_def sound_def)
qed (auto intro: calls_ok_keeps [OF keeping.env] calls_ok_keeps [OF keeping.control] calls_ok_keeps [OF keeping.targets]
  calls_ok_keeps [OF keeping.invocations] calls_ok_keeps [OF keeping.ledger] calls_ok_keeps [OF keeping.tools])

text \<open>Any dispatches, one after the other, also after one in which the process ended; what others do in between is in
  the platform.\<close>

inductive dispatch_runs :: "'s dispatcher \<Rightarrow> 's gateway \<Rightarrow> 's effects \<Rightarrow> 's effects \<Rightarrow> bool" for D G where
  none: "dispatch_runs D G w w"
| dispatch: "dispatch_runs D G w w1 \<Longrightarrow>
    dispatch_action D G name args tool_call_id force policy_ceiling deadline cancellation w1 = (w2, r) \<Longrightarrow> dispatch_runs D G w w2"

lemma dispatch_runs_calls_ok:
  assumes "dispatch_runs D G w w'" "platform_ok (dp_platform D)" "fx_invoked w = []"
  shows "calls_ok D w'"
  using assms
proof (induction rule: dispatch_runs.induct)
  case none
  then show ?case by (simp add: calls_ok_def)
next
  case (dispatch w w1 name args tool_call_id force policy_ceiling deadline cancellation w2 r)
  then show ?case using actsD [OF calling.acts_dispatch dispatch.hyps(2)] by blast
qed


end
