(* ===== verification/Dispatch_Scenario.thy ===== *)
theory Dispatch_Scenario
  imports James_Safety Effect_Safety
begin

text \<open>
  Two concrete dispatches at which the theorems on the dispatcher are applied: a read that returns, and an external
  effect whose process ends in the call of the tool.
\<close>

section \<open>A platform without faults\<close>

definition calm_platform :: "unit effect_platform" where
  "calm_platform = \<lparr>ep_printed = (\<lambda>_. []), ep_params = demo_store, ep_policy = demo_retention,
     ep_store_io = (\<lambda>s. (s, calm_io, Finite 1)), ep_other_writers = (\<lambda>_ f. f), ep_lease_io = (\<lambda>s. (s, demo_lease_io 1)),
     ep_other_holders = (\<lambda>_ f. f), ep_other_invocations = (\<lambda>_ f. f), ep_random = (\<lambda>s. (s, replicate 16 0))\<rparr>"

definition demo_dispatcher :: "tool_reply \<Rightarrow> unit dispatcher" where
  "demo_dispatcher reply = \<lparr>dp_platform = calm_platform,
     dp_interpreter = \<lparr>in_unicode = ascii_unicode, in_printed = (\<lambda>_. []), in_json_depth = 100\<rparr>,
     dp_cancel_requests = (\<lambda>s. (s, [])), dp_monotonic = (\<lambda>s. (s, Inr (Finite 1))), dp_lease_clock = (\<lambda>s. (s, Inr (Finite 1))),
     dp_invoke = (\<lambda>_ _ s. (s, reply)), dp_classify = (\<lambda>_ _. Inr (str ''worked'')), dp_verifiers = (\<lambda>_. None)\<rparr>"

definition demo_action :: "string \<Rightarrow> EffectClass \<Rightarrow> ResolvedAction" where
  "demo_action name effect = \<lparr>ra_name = str name, ra_target = str ''t'', ra_target_scope = TS_EXTERNAL_ACCOUNT, ra_effect_class = effect,
     ra_capability_mask = 0, ra_data_classes = [], ra_confirmation_mode = CM_NONE, ra_idempotency = IC_NON_IDEMPOTENT,
     ra_outcome_model = OM_UNKNOWN_POSSIBLE, ra_verification = VR_NONE, ra_action_digest = str ''d'', ra_snapshot_revision = [],
     ra_compensation_action = []\<rparr>"

definition demo_preflight :: "string \<Rightarrow> EffectClass \<Rightarrow> RuntimeToolPreflight" where
  "demo_preflight name effect = \<lparr>pf_action = demo_action name effect, pf_allowed = True, pf_blocked_result = [], pf_signature_args = []\<rparr>"

definition demo_gateway :: "RuntimeToolPreflight \<Rightarrow> unit gateway" where
  "demo_gateway pf = \<lparr>gw_preflight = (\<lambda>_ _ _ s. (s, Inr pf)), gw_signature = (\<lambda>_ _ s. (s, Inr (str ''s''))),
     gw_failed_attempt = (\<lambda>_ s. (s, Inr None)), gw_reserve = (\<lambda>_ s. (s, Inr True)), gw_unreserve = (\<lambda>_ s. (s, Inr ())),
     gw_approve = (\<lambda>_ _ _ _ s. (s, Approved True)), gw_interactive = (\<lambda>s. (s, Inr False)),
     gw_reflex = (\<lambda>_ _ result _ s. (s, Inr result)), gw_record = (\<lambda>_ _ _ _ s. (s, Inr ()))\<rparr>"

definition demo_effects :: "unit effects" where
  "demo_effects = \<lparr>fx_env = (), fx_ledger = None, fx_targets = (\<lambda>_. Missing), fx_invocations = (\<lambda>_. Missing),
     fx_control = new_control None None, fx_intact = True, fx_invoked = [], fx_tools = []\<rparr>"

section \<open>A read\<close>

definition demo_read :: "unit effects \<times> (exn + dispatch_result)" where
  "demo_read = dispatch_action (demo_dispatcher (Returned (str ''ok''))) (demo_gateway (demo_preflight ''read'' EC_OBSERVE))
     (str ''read'') [] None False [] None None demo_effects"

lemma demo_signal:
  "fx_control w = new_control None None \<Longrightarrow> dispatch_signal (demo_dispatcher reply) w = (w, Inr None)"
  by (simp add: dispatch_signal_def andthen_def ask_env_def set_control_def get_control_def demo_dispatcher_def new_control_def
      before_clock_def)

lemmas demo_steps = andthen_def attempt_def ensuring_def collecting_def ask_env_def ask_result_def set_control_def get_control_def
  done_with_def throw_def lift_result_def

lemma demo_fields:
  "dp_platform (demo_dispatcher reply) = calm_platform" "dp_invoke (demo_dispatcher reply) name args s = (s, reply)"
  "dp_classify (demo_dispatcher reply) text name = Inr (str ''worked'')" "dp_verifiers (demo_dispatcher reply) name = None"
  "dp_lease_clock (demo_dispatcher reply) s = (s, Inr (Finite 1))"
  "gw_preflight (demo_gateway pf) name args code s = (s, Inr pf)" "gw_signature (demo_gateway pf) name args s = (s, Inr (str ''s''))"
  "gw_failed_attempt (demo_gateway pf) signature s = (s, Inr None)" "gw_reserve (demo_gateway pf) mutating s = (s, Inr True)"
  "gw_unreserve (demo_gateway pf) mutating s = (s, Inr ())" "gw_approve (demo_gateway pf) name args force p s = (s, Approved True)"
  "gw_reflex (demo_gateway pf) name args result status s = (s, Inr result)"
  "gw_record (demo_gateway pf) name args result o' s = (s, Inr ())"
  "pf_action (demo_preflight tool effect) = demo_action tool effect" "pf_allowed (demo_preflight tool effect)"
  "pf_signature_args (demo_preflight tool effect) = []"
  "ra_effect_class (demo_action tool effect) = effect" "ra_target (demo_action tool effect) = str ''t''"
  by (simp_all add: demo_dispatcher_def demo_gateway_def demo_preflight_def demo_action_def)

lemma demo_status: "outcome_status (dp_interpreter (demo_dispatcher reply)) action result (str ''worked'') invoked = Inr OS_SUCCEEDED"
proof -
  have "reported (dp_interpreter (demo_dispatcher reply)) (str ''worked'') = str ''worked''"
    by (simp add: demo_dispatcher_def reported_def ascii_unicode_def py_strip_def str_def py_space_def ascii_lower_def)
  then show ?thesis by (simp add: outcome_status_def Let_def str_inject)
qed

lemmas demo_gates = dispatch_action_def run_preflighted_def run_allowed_def run_signed_def run_fresh_def within_capacity_def
  approve_and_run_def run_approved_def run_action_def take_lease_def run_leased_def or_unavailable_def invoke_tool_def note_tool_def

lemma demo_read_result: "\<exists>w o'. demo_read = (w, Inr (Result o')) \<and> fx_tools w = [(str ''read'', [])]"
  apply (simp add: demo_read_def demo_gates Let_def demo_steps demo_fields demo_signal demo_effects_def)
  apply (simp add: run_local_action_def invoke_tool_def note_tool_def outcome_def normalize_action_outcome_def demo_status Let_def
    demo_steps demo_fields demo_signal)
  apply (simp add: after_release_def finalize_def finish_dispatch_def Let_def demo_steps demo_fields new_control_def)
  done

lemma demo_read_gates:
  assumes "gates_passed (demo_dispatcher reply) (demo_gateway p) name args tool_call_id force pf w w1" shows "pf = p"
  using assms by (auto simp add: gates_passed_def demo_steps demo_fields split: prod.splits)

lemma dispatch_gated_witness:
  "\<exists>x. snd demo_read = Inr x \<and> fx_tools (fst demo_read) = [(str ''read'', [])] \<and> frank (demo_action ''read'' EC_OBSERVE) (reported_outcome x)"
proof -
  let ?D = "demo_dispatcher (Returned (str ''ok''))" and ?pf = "demo_preflight ''read'' EC_OBSERVE"
  obtain w o' where run: "demo_read = (w, Inr (Result o'))" "fx_tools w = [(str ''read'', [])]" using demo_read_result by blast
  have "classifiable ?D (str ''read'') (pf_action ?pf)"
    by (simp add: classifiable_def demo_fields demo_action_def)
  moreover have "fx_tools w \<noteq> fx_tools demo_effects" by (simp add: run(2) demo_effects_def)
  note dispatch_gated [OF run(1) [unfolded demo_read_def] this]
  ultimately have "frank (pf_action ?pf) (reported_outcome (Result o'))" using demo_read_gates by blast
  then show ?thesis by (simp add: run demo_fields)
qed

section \<open>An external effect\<close>

definition demo_owner :: pystr where
  "demo_owner = str ''owner-'' @ uuid_hex (replicate 16 0)"

definition granted :: "pystr \<Rightarrow> TargetLease" where
  "granted d = \<lparr>tl_target_hash = d, tl_owner_id = demo_owner, tl_fencing_token = 1, tl_issued_at = Finite 1,
     tl_expires_at = Finite 61, tl_released = False\<rparr>"

lemma demo_owner_bounded: "bounded_id_text demo_owner" "demo_owner \<noteq> []" "bounded_id_text (str ''effect-'' @ uuid_hex (replicate 16 0))"
  by code_simp+

lemma demo_acquired:
  assumes "target_digest target = Inr d" "files d = Missing" "py_strip target \<noteq> []"
  shows "acquire (demo_lease_io 1) target None (Finite 60) files = (files(d := state_row d (held_state (granted d))), Inr (granted d))"
  using assms demo_owner_bounded
  by (simp add: acquire_def new_lease_def demo_lease_io_def read_state_def isfinite_def granted_def demo_owner_def write_state_def Let_def)

lemma demo_held: "read_state d (state_row d (held_state (granted d))) = Inr (held_state (granted d))"
  using demo_owner_bounded by (simp add: read_state_def state_row_def held_state_def granted_def isfinite_def)

lemma demo_valid: "files d = state_row d (held_state (granted d)) \<Longrightarrow> validate_lease (Inr (Finite 1)) (granted d) files = Inr True"
  using demo_held [of d] by (auto simp add: validate_lease_def isfinite_def float_le_def granted_def held_state_def)

lemma stripped: "\<not> py_space c \<Longrightarrow> py_strip (c # s) \<noteq> []"
  by (auto simp add: py_strip_def dropWhile_eq_Nil_conv)

text \<open>The file with these events.\<close>

definition demo_log :: "py list \<Rightarrow> event_file" where
  "demo_log events = (if events = [] then None
     else Some \<lparr>sf_lines = map (\<lambda>e. (Decoded \<lparr>se_stored_at = Finite 1, se_event = e\<rparr>, 10)) events, sf_open_tail = False\<rparr>)"

lemma short_lists: "length xs \<le> 2 \<longleftrightarrow> xs = [] \<or> (\<exists>a. xs = [a]) \<or> (\<exists>a b. xs = [a, b])"
  by (cases xs; cases "tl xs"; cases "tl (tl xs)") auto

lemma demo_scanned:
  assumes "length events \<le> 2"
  shows "sc_retained (scan demo_store demo_retention (Finite 1) (demo_log events)) = map (\<lambda>e. (\<lparr>se_stored_at = Finite 1, se_event = e\<rparr>, 10)) events"
    "dropped_records (scan demo_store demo_retention (Finite 1) (demo_log events)) = 0"
    "\<not> compaction_needed (scan demo_store demo_retention (Finite 1) (demo_log events))"
  using assms unfolding short_lists
  by (auto simp add: demo_log_def scan_def file_lines_def file_size_def empty_scan_def scan_line_def demo_store_def demo_retention_def
      expired_def Let_def dropped_records_def compaction_needed_def)

lemma demo_recorded: "recorded demo_store (demo_log events) = map (\<lambda>e. (\<lparr>se_stored_at = Finite 1, se_event = e\<rparr>, 10)) events"
  by (induction events) (simp_all add: recorded_def demo_log_def file_lines_def demo_store_def split: if_splits)

lemma demo_clock: "store_clock (Finite 1) = Inr ()"
  by (simp add: store_clock_def isfinite_def)

lemma demo_read_store:
  assumes "fx_ledger w = demo_log events" "length events \<le> 2" "fx_intact w"
  shows "on_store calm_platform (\<lambda>io now file. (file, read_events demo_store demo_retention io now None file)) w = (w, Inr events)"
  using assms demo_scanned [OF assms(2)]
  by (simp add: on_store_def calm_platform_def Let_def read_events_def read_records_def demo_clock calm_io_def comp_def)

lemma demo_append_store:
  assumes "fx_ledger w = demo_log events" "length events \<le> 1" "fx_intact w"
  shows "ledger_append calm_platform r previous w = (w\<lparr>fx_ledger := demo_log (events @ [effect_event r previous])\<rparr>, Inr ())"
proof -
  let ?e = "effect_event r previous"
  have "append_bytes \<lparr>se_stored_at = Finite 1, se_event = ?e\<rparr> 10 11 (demo_log events) = demo_log (events @ [?e])"
    by (cases events) (simp_all add: append_bytes_def demo_log_def Let_def)
  moreover have "encode_size demo_store e = Inr 10" "max_bytes demo_retention = 100" for e
    by (simp_all add: demo_store_def demo_retention_def)
  moreover have "extends demo_store (demo_log events) (demo_log (events @ [?e]))"
    by (simp add: extends_def demo_recorded)
  ultimately show ?thesis
    using assms demo_scanned [of "events @ [?e]"] demo_scanned [of events]
    by (simp add: ledger_append_def andthen_def on_store_def calm_platform_def Let_def store_append_def demo_clock calm_io_def
        maintenance_result_def done_with_def)
qed

lemma demo_env [simp]: "(w :: unit effects)\<lparr>fx_env := u\<rparr> = w"
  by (cases w) simp

text \<open>A record that reads back.\<close>

definition readable :: "EffectRecord \<Rightarrow> bool" where
  "readable r \<longleftrightarrow> bounded_id_text (er_effect_id r) \<and> hex64_text (er_idempotency_key r) \<and> hex64_text (er_invocation_id_hash r)
     \<and> bounded_id_text (er_action r) \<and> hex64_text (er_target_hash r) \<and> er_reason_code r = [] \<and> er_verifier r = []
     \<and> 0 < er_fencing_token r \<and> 0 \<le> er_sequence r"

lemma readable_event: "readable r \<Longrightarrow> decode_event printed (effect_event r previous) = Inr (r, previous)"
proof -
  have as_text: "map_of row (str k) = Some (PStr s) \<Longrightarrow> text_or printed row [k] [] = s" for row k s
    by (auto simp add: text_or_def map_filter_simps str_def)
  have state: "find (\<lambda>st. st = s) EffectState_members = Some s" for s
    by (cases s) (simp_all add: EffectState_members_def)
  assume "readable r"
  then show ?thesis
    by (cases r) (simp add: decode_event_def effect_event_def Let_def as_text readable_def state)
qed

lemma demo_one_record:
  assumes "fx_ledger w = demo_log [effect_event r []]" "fx_intact w" "readable r"
  shows "ledger_records calm_platform w = (w, Inr [(er_effect_id r, r)])"
  using assms demo_read_store [OF assms(1)] readable_event [OF assms(3)]
  by (simp add: ledger_records_def andthen_def calm_platform_def lift_result_def empty_view_def admit_def chained_def dict_put_def)

lemma demo_no_record:
  assumes "fx_ledger w = None" "fx_intact w"
  shows "ledger_records calm_platform w = (w, Inr [])"
  using assms demo_read_store [of w "[]"]
  by (simp add: ledger_records_def andthen_def calm_platform_def lift_result_def empty_view_def demo_log_def)

definition prepared :: "pystr \<Rightarrow> pystr \<Rightarrow> pystr \<Rightarrow> EffectRecord" where
  "prepared key hash digest = \<lparr>er_effect_id = str ''effect-'' @ uuid_hex (replicate 16 0), er_idempotency_key = key,
     er_invocation_id_hash = hash, er_action = str ''send'', er_target_hash = digest, er_state = ES_PREPARED, er_fencing_token = 1,
     er_sequence = 0, er_reason_code = [], er_verifier = []\<rparr>"

lemma demo_prepare_body:
  assumes "fx_ledger w = None" "fx_intact w" "target_digest target = Inr digest"
  shows "prepare_body calm_platform key hash (str ''send'') target 1 w
    = (w\<lparr>fx_ledger := demo_log [effect_event (prepared key hash digest) []]\<rparr>, Inr (prepared key hash digest, True))"
proof -
  have random: "ep_random calm_platform s = (s, replicate 16 0)" for s by (simp add: calm_platform_def)
  have append: "ledger_append calm_platform r [] w = (w\<lparr>fx_ledger := demo_log [effect_event r []]\<rparr>, Inr ())" for r
    using demo_append_store [of w "[]"] assms by (simp add: demo_log_def)
  show ?thesis
    by (simp add: prepare_body_def andthen_def demo_no_record assms ask_env_def random lift_result_def append Let_def done_with_def
        prepared_def [symmetric])
qed

lemma demo_invocations: "on_invocations calm_platform f w = (case f (demo_lease_io 1) (fx_invocations w) of (files, r) \<Rightarrow> (w\<lparr>fx_invocations := files\<rparr>, r))"
  by (simp add: on_invocations_def calm_platform_def)

lemma demo_targets: "on_targets calm_platform f w = (case f (demo_lease_io 1) (fx_targets w) of (files, r) \<Rightarrow> (w\<lparr>fx_targets := files\<rparr>, r))"
  by (simp add: on_targets_def calm_platform_def)

lemma demo_given_back:
  assumes "files d = state_row d (held_state (granted d))"
  shows "\<exists>files'. give_back (demo_lease_io 1) (granted d) files = (files', Inr ())"
  using assms demo_held [of d]
  by (auto simp add: give_back_def release_def demo_lease_io_def write_state_def granted_def held_state_def Let_def)

lemma digest_hex64: "target_digest t = Inr d \<Longrightarrow> hex64_text d"
  by (auto simp add: target_digest_def hex64_text_def hexdigest_lower length_sha256 split: option.splits)

lemma hex_digest_exists: "list_all (\<lambda>c. c < 128) t \<Longrightarrow> \<exists>d. target_digest t = Inr d"
  by (simp add: target_digest_def utf8_encode_ascii)

lemma demo_prepare:
  assumes "fx_ledger w = None" "fx_intact w" "fx_invocations w = (\<lambda>_. Missing)" "target_digest target = Inr digest"
    and "hex64_text key" "hex64_text hash"
  shows "\<exists>files. ledger_prepare calm_platform key hash (str ''send'') target 1 w
    = (w\<lparr>fx_ledger := demo_log [effect_event (prepared key hash digest) []], fx_invocations := files\<rparr>,
       Inr (prepared key hash digest, True))"
proof -
  have "list_all (\<lambda>c. c < 128) hash" using assms(6) by (auto simp add: hex64_text_def lower_hex_def list_all_iff)
  then obtain d where d: "target_digest (str ''invocation:'' @ hash) = Inr d"
    using hex_digest_exists [of "str ''invocation:'' @ hash"] by (auto simp add: str_def)
  have acquired: "acquire (demo_lease_io 1) (str ''invocation:'' @ hash) None (Finite 60) (\<lambda>_. Missing)
    = ((\<lambda>_. Missing)(d := state_row d (held_state (granted d))), Inr (granted d))"
    by (rule demo_acquired [OF d]) (simp_all add: str_def stripped py_space_def)
  obtain files where freed: "give_back (demo_lease_io 1) (granted d) ((\<lambda>_. Missing)(d := state_row d (held_state (granted d)))) = (files, Inr ())"
    using demo_given_back [of "(\<lambda>_. Missing)(d := state_row d (held_state (granted d)))" d] by auto
  have name: "effect_identifier (str ''send'') ''action'' = Inr (str ''send'')"
    by (simp add: effect_identifier_def py_strip_words str_def py_space_def bounded_id_text_def ascii_alpha_def)
  show ?thesis
    by (simp add: ledger_prepare_def andthen_def lift_result_def assms name demo_invocations acquired ensuring_def
        demo_prepare_body freed) (rule exI, rule refl)
qed

definition running :: "EffectRecord \<Rightarrow> EffectRecord" where
  "running r = next_record r ES_STARTED [] []"

lemma demo_started:
  assumes "fx_ledger w = demo_log [effect_event r []]" "fx_intact w" "readable r" "er_fencing_token r = 1" "er_state r = ES_PREPARED"
  shows "ledger_transition calm_platform (er_effect_id r) ES_STARTED 1 [] [] w
    = (w\<lparr>fx_ledger := demo_log [effect_event r [], effect_event (running r) (str ''prepared'')]\<rparr>, Inr (running r))"
  using assms demo_one_record [OF assms(1-3)] demo_append_store [OF assms(1), of "running r" "str ''prepared''"]
  by (simp add: ledger_transition_def ledger_get_def andthen_def lift_result_def done_with_def running_def Let_def)

text \<open>The process ends in the call.\<close>

definition demo_send :: "unit effects \<times> (exn + dispatch_result)" where
  "demo_send = dispatch_action (demo_dispatcher Process_ended) (demo_gateway (demo_preflight ''send'' EC_EXTERNAL_MUTATION))
     (str ''send'') [] (Some (str ''c'')) False [] None None demo_effects"

lemma demo_lease_valid:
  "fx_targets w = (\<lambda>_. Missing)(d := state_row d (held_state (granted d))) \<Longrightarrow> lease_valid (demo_dispatcher reply) (granted d) w = (w, Inr True)"
  by (simp add: lease_valid_def andthen_def ask_env_def demo_fields demo_targets demo_valid)

abbreviation "sending \<equiv> demo_action ''send'' EC_EXTERNAL_MUTATION"

abbreviation "ending \<equiv> demo_dispatcher Process_ended"

lemma demo_external:
  assumes d: "target_digest (str ''t'') = Inr d" and "fx_targets w = (\<lambda>_. Missing)(d := state_row d (held_state (granted d)))"
    and w: "fx_intact w" "fx_invoked w = []" "fx_ledger w = None" "fx_invocations w = (\<lambda>_. Missing)" "fx_control w = new_control None None"
  shows "\<exists>w' iv. run_external_effect ending (str ''send'') [] sending (str ''c'') (granted d) w = (w', Inl Interrupted)
    \<and> fx_targets w' = fx_targets w \<and> fx_intact w' \<and> fx_invoked w' = [iv]"
proof -
  obtain h where h: "target_digest (str ''c'') = Inr h" using hex_digest_exists [of "str ''c''"] by (auto simp add: str_def)
  define key where "key = idempotency_key (ra_action_digest sending) (str ''c'')"
  have "hex64_text key" by (simp add: key_def idempotency_key_def hex64_text_def hexdigest_lower)
  note ready = digest_hex64 [OF d] digest_hex64 [OF h] this
  define r where "r = prepared key h d"
  have "bounded_id_text (str ''send'')" by (simp add: bounded_id_text_def str_def ascii_alpha_def)
  then have r: "readable r" "er_fencing_token r = 1" "er_state r = ES_PREPARED"
    using ready demo_owner_bounded(3) by (simp_all add: r_def prepared_def readable_def)
  have token: "tl_fencing_token (granted d) = 1" by (simp add: granted_def)
  obtain files where prepared: "ledger_prepare calm_platform key h (str ''send'') (str ''t'') 1 w
      = (w\<lparr>fx_ledger := demo_log [effect_event r []], fx_invocations := files\<rparr>, Inr (r, True))"
    using demo_prepare [OF w(3,1,4) d ready(3,2)] by (auto simp add: r_def)
  define w2 where "w2 = w\<lparr>fx_invocations := files, fx_ledger := demo_log [effect_event r [], effect_event (running r) (str ''prepared'')]\<rparr>"
  define w3 where "w3 = fst (note_tool (str ''send'') [] (fst (note_invocation r (granted d) w2)))"
  have "call_started ending (str ''send'') [] sending (granted d) r fr w2 = (w3, Inl Interrupted)" for fr
    by (simp add: call_started_def invoke_tool_def note_tool_def note_invocation_def andthen_def demo_signal w2_def w
        demo_lease_valid assms(2) demo_fields ask_env_def throw_def w3_def)
  then have "begin_effect ending (str ''send'') [] sending (granted d) r (fr\<lparr>fr_effect_id := er_effect_id r\<rparr>)
      (w\<lparr>fx_ledger := demo_log [effect_event r []], fx_invocations := files\<rparr>) = (w3, Inl Interrupted)" for fr
    using demo_started [of "w\<lparr>fx_ledger := demo_log [effect_event r []], fx_invocations := files\<rparr>", OF _ _ r]
    by (simp add: begin_effect_def andthen_def demo_signal w attempt_def demo_fields token w2_def)
  then have "run_external_effect ending (str ''send'') [] sending (str ''c'') (granted d) w = (w3, Inl Interrupted)"
    by (simp add: run_external_effect_def Let_def andthen_def attempt_def lift_result_def invocation_id_hash_def h demo_fields token
        prepared key_def [symmetric])
  moreover have "fx_targets w3 = fx_targets w" "fx_intact w3" "\<exists>iv. fx_invoked w3 = [iv]"
    by (simp_all add: w3_def w2_def note_tool_def note_invocation_def w)
  ultimately show ?thesis by blast
qed

lemma demo_send_result: "\<exists>w r iv. demo_send = (w, r) \<and> fx_intact w \<and> fx_invoked w = [iv]"
proof -
  let ?pf = "demo_preflight ''send'' EC_EXTERNAL_MUTATION"
  obtain d where d: "target_digest (str ''t'') = Inr d" using hex_digest_exists [of "str ''t''"] by (auto simp add: str_def)
  define targets where "targets = (\<lambda>_. Missing)(d := state_row d (held_state (granted d)))"
  define w1 where "w1 = demo_effects\<lparr>fx_targets := targets\<rparr>"
  have w1: "fx_targets w1 = targets" "fx_intact w1" "fx_invoked w1 = []" "fx_ledger w1 = None" "fx_invocations w1 = (\<lambda>_. Missing)"
    "fx_control w1 = new_control None None"
    by (simp_all add: w1_def demo_effects_def)
  have strip: "py_strip (str ''t'') \<noteq> []" by (simp add: str_def stripped py_space_def)
  have taken: "take_lease ending sending demo_effects = (w1, Inr (None, Some (granted d)))"
    by (simp add: take_lease_def andthen_def demo_signal demo_effects_def demo_fields demo_targets demo_acquired [OF d _ strip] w1_def
        targets_def done_with_def)
  obtain w3 iv where w3: "run_external_effect ending (str ''send'') [] sending (str ''c'') (granted d) w1 = (w3, Inl Interrupted)"
      "fx_targets w3 = targets" "fx_intact w3" "fx_invoked w3 = [iv]"
    using demo_external [OF d, of w1] w1 by (auto simp add: targets_def)
  have leased: "run_leased ending (str ''send'') ?pf (Some (str ''c'')) (Some (granted d)) w1 = (w3, Inl Interrupted)"
    using w3(1) by (simp add: run_leased_def Let_def andthen_def demo_lease_valid w1 targets_def demo_signal demo_fields str_def)
  obtain files' where "give_back (demo_lease_io 1) (granted d) targets = (files', Inr ())"
    using demo_given_back [of targets d] by (auto simp add: targets_def)
  then have "release_lease ending (granted d) w3 = (w3\<lparr>fx_targets := files'\<rparr>, Inr None)"
    by (simp add: release_lease_def andthen_def attempt_def demo_fields demo_targets w3 done_with_def)
  then have "run_action ending (str ''send'') ?pf (Some (str ''c'')) demo_effects = (w3\<lparr>fx_targets := files'\<rparr>, Inl Interrupted)"
    by (simp add: run_action_def Let_def andthen_def attempt_def demo_fields taken collecting_def or_unavailable_def leased)
  then have "demo_send = (w3\<lparr>fx_targets := files'\<rparr>, Inl Interrupted)"
    by (simp add: demo_send_def dispatch_action_def run_preflighted_def run_allowed_def run_signed_def run_fresh_def within_capacity_def
        approve_and_run_def run_approved_def Let_def demo_steps demo_fields demo_signal demo_effects_def str_def)
  then show ?thesis using w3(3,4) by auto
qed


end
