(* ===== verification/Spec2Isabelle.thy ===== *)
theory Spec2Isabelle
  imports Runtime_Scenario Samuel_Properties Samuel_Policy Dispatch_Scenario
begin

text \<open>
  \<^bold>\<open>The authority, effect and control planes of algo-cli.\<close>

  algo-cli lets a language model act: on files, on external services, on browser documents and desktop elements.
  This development models and verifies the code that decides whether an action may happen, and that sees to it
  that it happens at most once and is reported truthfully. It has two chains.

  Every tool call of the model goes through the \<^bold>\<open>dispatcher\<close>:

  \<^enum> The \<^bold>\<open>authority\<close>, \<^verbatim>\<open>algo_cli/marcus_authority.py\<close>, gives every tool a curated policy (effect class, capabilities,
    confirmation), and the \<^bold>\<open>policy engine\<close>, \<^verbatim>\<open>algo_cli/samuel_policy_engine.py\<close> with \<^verbatim>\<open>samuel_policy.py\<close>, resolves
    a call to an action on a target and judges it against grants and confirmations.
  \<^enum> The \<^bold>\<open>dispatcher\<close>, \<^verbatim>\<open>algo_cli/james_dispatch.py\<close>, takes an action through preflight, capacity, approval and the
    lease of its target to the tool, and turns what came back into a typed outcome (\<^verbatim>\<open>arthur_outcomes.py\<close>).
  \<^enum> The \<^bold>\<open>effect ledger\<close>, \<^verbatim>\<open>algo_cli/clara_effect_ledger.py\<close>, records external effects before and after the call, in a
    \<^bold>\<open>private event store\<close>, \<^verbatim>\<open>algo_cli/ada_private_event_store.py\<close>, an append-only file with retention bounds;
    \<^bold>\<open>leases\<close> with fencing tokens, \<^verbatim>\<open>algo_cli/henry_effect_control.py\<close>, keep two processes from one target.

  Actions on browser documents and desktop elements go through the \<^bold>\<open>control plane\<close>:

  \<^enum> The \<^bold>\<open>kernel\<close>, \<^verbatim>\<open>algo_cli/david_control_kernel.py\<close>: closed JSON with a canonical form, length-prefixed
    frames, requests on a target and its snapshot, and signed authority for them: a grant (a scope), a
    permit (one request under a grant), a preparation, and the envelope of request, grant and permit. A
    policy bounds all of them.
  \<^enum> The \<^bold>\<open>journal\<close>, \<^verbatim>\<open>algo_cli/ada_control_journal.py\<close>: an SQLite database in which a permit is claimed once, the
    effect it allows moves through \<open>prepared\<close>, \<open>started\<close>, \<open>applied\<close> to \<open>verified\<close>, \<open>failed\<close> or \<open>unknown\<close>, and every
    outcome gets a signed receipt in a hash chain, whose head is copied to an external anchor.
  \<^enum> The \<^bold>\<open>key store\<close>, \<^verbatim>\<open>algo_cli/grace_key_store.py\<close>: labels, keys and anchor payloads, and one complete
    provider of the anchor interface, \<open>StaticKeyStore\<close>.
  \<^enum> The \<^bold>\<open>runtime\<close>, \<^verbatim>\<open>algo_cli/david_control_runtime.py\<close>: verifies an envelope against the live target, claims
    it, starts the effect, hands it to an adapter exactly once, asks the adapter for the outcome, and after
    a crash recovers without repeating anything.

  \<^bold>\<open>How the code is modelled.\<close> A Python function that may raise returns \<open>exn + 'a\<close>, with the exception class
  and its reason in \<open>Inl\<close>; \<open>rbind\<close> sequences such results, so every check and early return of the source is a
  branch in its order. Values of unknown type are \<open>py\<close>, dictionaries keep their insertion order. Integers are
  Python's, with the bounds the code checks (\<open>MAX_SAFE_INTEGER\<close>); bytes are 8-bit words, SHA-1 and SHA-256 are
  written over 32-bit words. A method that changes its object returns the new state beside the result, also
  when it raises. A database call takes the state of the tables and returns the next; a transaction that
  raises returns the old one: SQLite's rollback is part of the type of a transaction (\<open>immediate\<close>), not something
  proved about the handler. A method of the runtime or of the dispatcher maps a state of the world to the next one
  and a result (\<open>act\<close> in \<open>Py_Action\<close>); \<open>attempt\<close> is an \<open>except Exception\<close>, \<open>ensuring\<close> a \<open>finally\<close>, and \<open>Interrupted\<close> the
  end of the process at this point, which no handler sees.

  \<^bold>\<open>The theories.\<close>

  \<^item> \<open>Py_Prelude\<close>, \<open>Py_Text\<close>, \<open>Py_Hash\<close>, \<open>Py_Codec\<close>, \<open>Py_Json\<close>: the Python the program uses. Strings, values,
    exceptions and the result monad; UTF-8 and decimals; hashes; base64 and UUIDs; \<open>json.dumps\<close> and a scanner
    for \<open>json.loads\<close> with its hooks.
  \<^item> \<open>Kernel_Types\<close>, \<open>Kernel_Fields\<close>: enumerations, tables and field validators; locale \<open>py_enum\<close>.
  \<^item> \<open>Kernel_Json\<close>: \<open>_validate_json_tree\<close>, \<open>canonical_json_bytes\<close>, \<open>content_digest\<close>, \<open>decode_json_payload\<close>.
  \<^item> \<open>Kernel_Frames\<close>: \<open>encode_frame\<close> and \<open>FrameDecoder\<close> as a record of limit, buffer and poison.
  \<^item> \<open>Kernel_Codec\<close>: locale \<open>record_codec\<close>, the contract of a \<open>from_dict\<close> and \<open>to_dict\<close> pair, interpreted for
    each record of \<open>Kernel_Objects\<close>, \<open>Kernel_Authority\<close> and \<open>Journal_Types\<close>.
  \<^item> \<open>Kernel_Policy\<close>, \<open>Kernel_Bounds\<close>: \<open>ControlPolicy\<close>, issuing and verification; the sizes that make every
    digest and signature of an accepted record defined.
  \<^item> \<open>Journal_Types\<close>, \<open>Journal_Db\<close>, \<open>Journal_Ops\<close>, \<open>Journal_Receipts\<close>: rows and validators; tables with the
    constraints of the schema, statements and transactions; \<open>revoke\<close>, \<open>claim\<close>, \<open>transition\<close> and queries;
    the chain, \<open>finalize_receipt\<close> and the anchor loop. Locale \<open>sql_table\<close> is interpreted for each table.
  \<^item> \<open>Journal_Inv\<close>, \<open>Journal_Chain\<close>, \<open>Journal_Safety\<close>, \<open>Journal_Properties\<close>, \<open>Journal_Complete\<close>: the invariant
    \<open>journal_ok\<close>; linked receipts; the state machine \<open>journal_step\<close>, its specification \<open>journal_spec\<close> with the
    refinement between them; the properties of runs; the receipts that always exist.
  \<^item> \<open>Grace_Anchor\<close>, \<open>Anchor_Sync\<close>: the key store; locale \<open>anchor_cell\<close> (a compare-and-set cell), interpreted on
    \<open>StaticKeyStore\<close>, and what a synchronisation does on it.
  \<^item> \<open>Runtime_Model\<close>: \<open>execute\<close>, \<open>_reconcile\<close>, \<open>recover\<close> and their parts. \<open>Runtime_Actions\<close>: the locales
    \<open>world_relation\<close> to \<open>executing_relation\<close>, each of which lifts a relation on worlds from single calls to the
    methods built from them; their interpretations carry the proofs of \<open>Runtime_Safety\<close>, \<open>Runtime_Properties\<close>,
    \<open>Runtime_Evidence\<close>. \<open>Runtime_Complete\<close>: the total correctness of recovery.
  \<^item> \<open>Py_Words\<close>: white space, floats and case mapping. \<open>Marcus_Authority\<close>, \<open>Samuel_Engine\<close>, \<open>Samuel_Policy\<close>,
    \<open>Samuel_Properties\<close>: the table of tool policies, grants and confirmations; resolution and decision; the tools of
    agent blocks; what is allowed.
  \<^item> \<open>Ada_Store\<close>, \<open>Ada_Retention\<close>: the event store over files of lines, with torn writes, and what it keeps.
    \<open>Henry_Lease\<close>: leases on state files and fencing. \<open>Clara_Ledger\<close>: the ledger, whose records are computed anew
    from the events at every call.
  \<^item> \<open>James_Control\<close>, \<open>Arthur_Outcomes\<close>: cancellation, deadlines and the digests of an invocation; typed outcomes.
    \<open>Effect_World\<close>, \<open>James_External\<close>, \<open>James_Dispatch\<close>: the world of the effect plane, the run of an external effect,
    and \<open>dispatch_action\<close>.
  \<^item> \<open>Effect_Actions\<close>: the locales \<open>effect_relation\<close>, \<open>calling_relation\<close>, \<open>dispatching_relation\<close>, which lift a
    relation on worlds to the operations of the dispatcher; interpreted in \<open>Effect_Safety\<close> (runs of dispatches) and
    \<open>James_Safety\<close> (one dispatch).
  \<^item> \<open>Kernel_Scenario\<close>, \<open>Journal_Scenario\<close>, \<open>Runtime_Scenario\<close>, \<open>Dispatch_Scenario\<close>: concrete runs through all parts,
    at which the theorems are applied.

  \<^bold>\<open>What is shown.\<close>

  \<^item> Policy: an action is allowed exactly under the stated conditions; a mutation beyond the machine needs a
    confirmation whose digest binds name, arguments, target and revision; unknown tools are denied.
  \<^item> Dispatch: a tool is called at most once per dispatch and only behind all gates, and the report admits the call;
    external effects are recorded before the call, called under a valid lease, and not repeated while the ledger
    keeps its records; an old lease never validates again once a newer one exists.
  \<^item> Runtime: a permit is dispatched at most once over all runs, crashes and interleavings; what is dispatched
    verified twice against the live target and was recorded before; \<open>verified\<close> needs evidence for this effect;
    recovery never dispatches, and settles every effect on a platform that works, also with an anchor store.
  \<^item> Journal: it refines a four-case specification; permits are single-use, revoked authority never starts,
    effects only advance, budgets and sessions are exact; \<open>claim\<close>, \<open>transition\<close>
    and finalisation succeed exactly when they should; a receipt head determines the history before it.
  \<^item> Anchor: a synchronisation ends after at most eight rounds, succeeds only on the head of a signed chain the journal held, and
    on a lawful store exactly when the journal was not rolled back.
  \<^item> Kernel: what verifies is signed, bound to its request and inside every scope; what is issued verifies;
    canonical bytes are unique; records and frames round-trip for every chunking; decoders fail closed.

  \<^bold>\<open>Bounds.\<close> The loops of the source are bounded in the source (\<open>MAX_RECEIPT_ANCHOR_RETRIES\<close> is 8) or structural;
  no fuel is added. The JSON scanner has the nesting limit of the interpreter's stack as a parameter; theorems
  about reading back ask for one more than \<open>MAX_JSON_DEPTH\<close>, which every interpreter has.

  \<^bold>\<open>Parameters.\<close> Ed25519 (\<open>ed25519_ok\<close>: key lengths, and a signature verifies under its own key; nothing assumes
  that forging is hard), the faults of the database (\<open>journal_io\<close>), the anchor store, and of the runtime the
  adapter and the platform (clock, randomness, faults, other writers). Of the policy engine \<open>host\<close> (file system, URL
  splitting, the text of arbitrary values) and \<open>unicode\<close>; of the dispatcher \<open>effect_platform\<close> (outcomes of every use
  of a file, what other processes did to it before), \<open>store_params\<close> (length of an encoded line, float subtraction),
  \<open>interpreter\<close>, the tool, its verifiers and classification (\<open>dispatcher\<close>), and what \<^verbatim>\<open>nathan_runtime.py\<close> answers
  (\<open>gateway\<close>). Hash collisions appear as a second outcome in the theorems, never as an assumption. The fields
  \<open>fx_intact\<close>, \<open>fx_invoked\<close> and \<open>fx_tools\<close> of the effect world are observations for the theorems; no modelled code
  reads them.

  \<^bold>\<open>Granularity.\<close> Other writers act before each use of the journal, the ledger or a lease file. \<open>runtime_finalize\<close>
  commits the receipt and reads the journal for the anchor from one state, with other writers only before it and
  at each renewed reading of the anchor loop.

  \<^bold>\<open>Not modelled.\<close> Opening and checkpointing the database file, its permissions and sidecars, the exported JSON
  schemas, the keyring with its leases, file locks and modes are effects of the operating system; rendering,
  telemetry and durations of a dispatch have no effect on it. The rest of algo-cli (terminal UI, model clients, the
  tools themselves, memory, installers, evaluations, other languages) lies outside these planes.
\<close>

end
